(* ===== verification/Prelude.thy ===== *)
theory Prelude
  imports Main
begin

text \<open>
  Shared vocabulary of the development: the collections the proofs draw on, results with
  errors as values, finite Python-style helpers on lists, and the text formatting that the
  services use for identifiers, dates and amounts.

  Python strings are modelled as \<open>string\<close> holding their UTF-8 encoding. The only
  non-ASCII characters the modelled code writes are the middle dot, the rupee sign, curly
  quotes and the ellipsis of notification texts; they appear as their bytes.
\<close>

named_theorems calc_defs "unfolding rules of the pure calculations"
named_theorems store_simps "how the shared tables read back after an update"
named_theorems op_defs "definitions of the service operations"
named_theorems err_simps "sequencing of results"

subsection \<open>Errors as values\<close>

text \<open>
  \<open>app/core/exceptions.py\<close>: the domain errors that the modelled services raise.
  A constructor without an argument stands for the class with its default message; \<open>UnhandledError\<close> is any other
  exception, which the last handler answers with 500.
\<close>

datatype app_error =
    NotFoundError
  | ValidationError string
  | AuthorizationError
  | ConflictError string
  | ReplayError
  | RateLimitError
  | StorageError
  | AuthenticationError string
  | UpstreamUnavailableError
  | PayloadTooLargeError
  | UnhandledError

fun status_code :: "app_error \<Rightarrow> nat" where
  "status_code NotFoundError = 404"
| "status_code (ValidationError _) = 422"
| "status_code AuthorizationError = 403"
| "status_code (ConflictError _) = 409"
| "status_code ReplayError = 409"
| "status_code RateLimitError = 429"
| "status_code StorageError = 502"
| "status_code (AuthenticationError _) = 401"
| "status_code UpstreamUnavailableError = 502"
| "status_code PayloadTooLargeError = 413"
| "status_code UnhandledError = 500"

type_synonym 'a res = "app_error + 'a"

text \<open>An \<open>await\<close> of a call that may raise, and a guard that raises.\<close>

definition ebind :: "'a res \<Rightarrow> ('a \<Rightarrow> 'b res) \<Rightarrow> 'b res" where
  "ebind r f = (case r of Inl e \<Rightarrow> Inl e | Inr x \<Rightarrow> f x)"

definition require :: "bool \<Rightarrow> app_error \<Rightarrow> unit res" where
  "require b e = (if b then Inr () else Inl e)"

definition require_some :: "'a option \<Rightarrow> app_error \<Rightarrow> 'a res" where
  "require_some x e = (case x of None \<Rightarrow> Inl e | Some y \<Rightarrow> Inr y)"

lemma ebind_simps [simp, err_simps]:
  "ebind (Inl e) f = Inl e"
  "ebind (Inr x) f = f x"
  by (simp_all add: ebind_def)

lemma ebind_Inr_iff [err_simps]:
  "ebind r f = Inr y \<longleftrightarrow> (\<exists>x. r = Inr x \<and> f x = Inr y)"
  by (cases r) auto

lemma ebind_Inl_iff [err_simps]:
  "ebind r f = Inl e \<longleftrightarrow> r = Inl e \<or> (\<exists>x. r = Inr x \<and> f x = Inl e)"
  by (cases r) auto

lemma require_Inr_iff [simp, err_simps]: "require b e = Inr u \<longleftrightarrow> b"
  by (simp add: require_def)

lemma require_Inl_iff [simp, err_simps]: "require b e = Inl e' \<longleftrightarrow> \<not> b \<and> e' = e"
  by (auto simp: require_def)

lemma require_True [simp]: "require True e = Inr ()"
  by (simp add: require_def)

lemma require_False [simp]: "require False e = Inl e"
  by (simp add: require_def)

lemma require_some_Inr_iff [simp, err_simps]: "require_some x e = Inr y \<longleftrightarrow> x = Some y"
  by (auto simp: require_some_def split: option.splits)

lemma require_some_Inl_iff [simp, err_simps]:
  "require_some x e = Inl e' \<longleftrightarrow> x = None \<and> e' = e"
  by (auto simp: require_some_def split: option.splits)

lemma require_some_simps [simp]:
  "require_some None e = Inl e"
  "require_some (Some x) e = Inr x"
  by (simp_all add: require_some_def)

subsection \<open>Lists\<close>

text \<open>First match (\<open>next(..., None)\<close>, \<open>scalar_one_or_none\<close>), and de-duplication that
  keeps first occurrences (\<open>list(dict.fromkeys(xs))\<close>, a loop with a \<open>seen\<close> set).\<close>

fun dedup_from :: "'a list \<Rightarrow> 'a list \<Rightarrow> 'a list" where
  "dedup_from seen [] = []"
| "dedup_from seen (x # xs) =
     (if x \<in> set seen then dedup_from seen xs else x # dedup_from (x # seen) xs)"

lemma set_dedup_from: "set (dedup_from seen xs) = set xs - set seen"
  by (induction seen xs rule: dedup_from.induct) auto

lemma distinct_dedup_from: "distinct (dedup_from seen xs)"
  by (induction seen xs rule: dedup_from.induct) (auto simp: set_dedup_from)

lemma find_Some_set: "List.find P xs = Some x \<Longrightarrow> x \<in> set xs \<and> P x"
  by (metis find_Some_iff nth_mem)

lemma find_NoneD: "List.find P xs = None \<Longrightarrow> x \<in> set xs \<Longrightarrow> \<not> P x"
  by (simp add: find_None_iff)

subsection \<open>Decimal and hexadecimal text\<close>

definition digit :: "nat \<Rightarrow> char" where
  "digit d = char_of (d + 48)"

fun nat_str :: "nat \<Rightarrow> string" where
  "nat_str n = (if n < 10 then [digit n] else nat_str (n div 10) @ [digit (n mod 10)])"

declare nat_str.simps [simp del]

definition int_str :: "int \<Rightarrow> string" where
  "int_str i = (if i < 0 then CHR ''-'' # nat_str (nat (- i)) else nat_str (nat i))"

definition pad_left :: "nat \<Rightarrow> string \<Rightarrow> string" where
  "pad_left w s = replicate (w - length s) (CHR ''0'') @ s"

text \<open>\<open>f"{n:02d}"\<close> and \<open>f"{n:04d}"\<close> of a number that is not negative.\<close>

definition pad2 :: "int \<Rightarrow> string" where
  "pad2 n = pad_left 2 (int_str n)"

definition pad4 :: "int \<Rightarrow> string" where
  "pad4 n = pad_left 4 (int_str n)"

lemma nat_str_nonempty [simp]: "nat_str n \<noteq> []"
  by (subst nat_str.simps) simp

lemma length_nat_str_1: "n < 10 \<Longrightarrow> length (nat_str n) = 1"
  by (subst nat_str.simps) simp

lemma length_nat_str_2: "10 \<le> n \<Longrightarrow> n < 100 \<Longrightarrow> length (nat_str n) = 2"
  by (subst nat_str.simps) (simp add: length_nat_str_1)

lemma length_nat_str_3: "100 \<le> n \<Longrightarrow> n < 1000 \<Longrightarrow> length (nat_str n) = 3"
  by (subst nat_str.simps) (simp add: length_nat_str_2)

lemma length_nat_str_4: "1000 \<le> n \<Longrightarrow> n < 10000 \<Longrightarrow> length (nat_str n) = 4"
  by (subst nat_str.simps) (simp add: length_nat_str_3)

lemma length_pad2: "0 \<le> n \<Longrightarrow> n < 100 \<Longrightarrow> length (pad2 n) = 2"
proof -
  assume "0 \<le> n" "n < 100"
  then have "nat n < 10 \<or> 10 \<le> nat n \<and> nat n < 100" by arith
  with \<open>0 \<le> n\<close> show ?thesis
    by (auto simp: pad2_def pad_left_def int_str_def length_nat_str_1 length_nat_str_2)
qed

lemma length_pad4: "0 \<le> n \<Longrightarrow> n < 10000 \<Longrightarrow> length (pad4 n) = 4"
proof -
  assume "0 \<le> n" "n < 10000"
  then have "nat n < 10 \<or> 10 \<le> nat n \<and> nat n < 100 \<or> 100 \<le> nat n \<and> nat n < 1000
    \<or> 1000 \<le> nat n \<and> nat n < 10000" by arith
  with \<open>0 \<le> n\<close> show ?thesis
    by (auto simp: pad4_def pad_left_def int_str_def length_nat_str_1 length_nat_str_2
        length_nat_str_3 length_nat_str_4)
qed

text \<open>
  Reading decimal text back. \<open>read_nat\<close> is \<open>int(s)\<close> on a non-empty run of ASCII
  digits and \<open>None\<close> on anything else.
\<close>

definition is_digit :: "char \<Rightarrow> bool" where
  "is_digit c \<longleftrightarrow> 48 \<le> (of_char c :: nat) \<and> (of_char c :: nat) \<le> 57"

definition digit_val :: "char \<Rightarrow> nat" where
  "digit_val c = of_char c - 48"

definition read_nat :: "string \<Rightarrow> nat option" where
  "read_nat s = (if s \<noteq> [] \<and> list_all is_digit s
     then Some (foldl (\<lambda>a c. 10 * a + digit_val c) 0 s) else None)"

lemma of_char_digit: "d < 10 \<Longrightarrow> (of_char (digit d) :: nat) = d + 48"
  by (simp add: digit_def)

lemma is_digit_digit [simp]: "d < 10 \<Longrightarrow> is_digit (digit d)"
  by (simp add: is_digit_def of_char_digit)

lemma digit_val_digit [simp]: "d < 10 \<Longrightarrow> digit_val (digit d) = d"
  by (simp add: digit_val_def of_char_digit)

lemma all_digits_nat_str: "list_all is_digit (nat_str n)"
proof (induction n rule: nat_str.induct)
  case (1 n)
  then show ?case by (subst nat_str.simps) auto
qed

lemma fold_digits_nat_str: "foldl (\<lambda>a c. 10 * a + digit_val c) 0 (nat_str n) = n"
proof (induction n rule: nat_str.induct)
  case (1 n)
  then show ?case by (subst nat_str.simps) auto
qed

lemma read_nat_nat_str [simp]: "read_nat (nat_str n) = Some n"
  by (simp add: read_nat_def all_digits_nat_str fold_digits_nat_str)

lemma CHR_0_digit: "CHR ''0'' = digit 0"
  by code_simp

lemma foldl_zeros:
  "foldl (\<lambda>a c. 10 * a + digit_val c) 0 (replicate k (CHR ''0'')) = 0"
  by (induction k) (simp_all add: CHR_0_digit)

lemma read_nat_pad_left [simp]: "read_nat (pad_left w (nat_str n)) = Some n"
proof -
  have "list_all is_digit (replicate k (CHR ''0''))" for k
    by (induction k) (simp_all add: CHR_0_digit)
  then show ?thesis
    by (simp add: read_nat_def pad_left_def all_digits_nat_str fold_digits_nat_str foldl_zeros)
qed

lemma read_nat_pad2: "0 \<le> n \<Longrightarrow> read_nat (pad2 n) = Some (nat n)"
  by (simp add: pad2_def int_str_def)

lemma read_nat_pad4: "0 \<le> n \<Longrightarrow> read_nat (pad4 n) = Some (nat n)"
  by (simp add: pad4_def int_str_def)

text \<open>\<open>str(uuid)\<close>: 32 lower-case hexadecimal digits, grouped 8-4-4-4-12.\<close>

definition hex_digit :: "nat \<Rightarrow> char" where
  "hex_digit d = (if d < 10 then char_of (d + 48) else char_of (d + 87))"

fun hex_digits :: "nat \<Rightarrow> nat \<Rightarrow> string" where
  "hex_digits 0 n = []"
| "hex_digits (Suc k) n = hex_digits k (n div 16) @ [hex_digit (n mod 16)]"

type_synonym uuid = nat

definition uuid_str :: "uuid \<Rightarrow> string" where
  "uuid_str u = (let h = hex_digits 32 u in
     take 8 h @ ''-'' @ take 4 (drop 8 h) @ ''-'' @ take 4 (drop 12 h) @ ''-''
     @ take 4 (drop 16 h) @ ''-'' @ drop 20 h)"

text \<open>The bytes of the non-ASCII characters used in notification texts.\<close>

definition middot :: string where
  "middot = [CHR '' '', CHR 0xC2, CHR 0xB7, CHR '' '']"

definition rupee_sign :: string where
  "rupee_sign = [CHR 0xE2, CHR 0x82, CHR 0xB9]"

end
