(* ===== verification/PyFloat.thy ===== *)
theory PyFloat
  imports Complex_Main Prelude
begin

text \<open>
  Python's \<open>float\<close> arithmetic as the money and day-count code uses it. A float is the
  rational it stands for; every operation is the exact result rounded to the nearest value
  with a 53-bit significand, ties to even (IEEE 754 binary64). Amounts, ratios and day counts
  stay many orders of magnitude away from overflow and from the subnormal range, so the
  exponent is unbounded here. \<open>py_round\<close> is the built-in \<open>round(x)\<close>: nearest
  integer, ties to even.
\<close>

type_synonym pyfloat = rat

subsection \<open>Rounding to integers, ties to even\<close>

definition rhe :: "rat \<Rightarrow> int" where
  "rhe x = (let f = \<lfloor>x\<rfloor>; d = x - of_int f in
     if d < 1 / 2 then f else if 1 / 2 < d then f + 1 else if even f then f else f + 1)"

definition py_round :: "pyfloat \<Rightarrow> int" where
  "py_round x = rhe x"

lemma rhe_bounds: "of_int (rhe x) - 1 / 2 \<le> x" "x \<le> of_int (rhe x) + 1 / 2"
proof -
  have f: "of_int \<lfloor>x\<rfloor> \<le> x" "x < of_int \<lfloor>x\<rfloor> + 1" by linarith+
  define d where "d = x - of_int \<lfloor>x\<rfloor>"
  have r: "rhe x = (if d < 1 / 2 then \<lfloor>x\<rfloor> else if 1 / 2 < d then \<lfloor>x\<rfloor> + 1
      else if even \<lfloor>x\<rfloor> then \<lfloor>x\<rfloor> else \<lfloor>x\<rfloor> + 1)"
    by (simp add: rhe_def d_def Let_def)
  have x: "x = of_int \<lfloor>x\<rfloor> + d" "0 \<le> d" "d < 1" using f by (simp_all add: d_def)
  have "rhe x = \<lfloor>x\<rfloor> \<and> d \<le> 1 / 2 \<or> rhe x = \<lfloor>x\<rfloor> + 1 \<and> 1 / 2 \<le> d"
    unfolding r by auto
  then have "(of_int (rhe x) :: rat) = of_int \<lfloor>x\<rfloor> \<and> d \<le> 1 / 2
      \<or> (of_int (rhe x) :: rat) = of_int \<lfloor>x\<rfloor> + 1 \<and> 1 / 2 \<le> d"
    by auto
  with x show "of_int (rhe x) - 1 / 2 \<le> x" "x \<le> of_int (rhe x) + 1 / 2"
    by linarith+
qed

lemma rhe_of_int [simp]: "rhe (of_int n) = n"
  by (simp add: rhe_def)

lemma rhe_0 [simp]: "rhe 0 = 0" and rhe_1 [simp]: "rhe 1 = 1"
  using rhe_of_int[of 0] rhe_of_int[of 1] by simp_all

lemma rhe_mono: "x \<le> y \<Longrightarrow> rhe x \<le> rhe y"
proof (rule ccontr)
  assume xy: "x \<le> y" and "\<not> rhe x \<le> rhe y"
  then have lt: "rhe y + 1 \<le> rhe x" by simp
  then have "of_int (rhe y) + 1 \<le> (of_int (rhe x) :: rat)"
    by (metis of_int_1 of_int_add of_int_le_iff)
  with xy rhe_bounds[of x] rhe_bounds[of y] have "x = y" by linarith
  with lt show False by simp
qed

lemma rhe_nonneg: "0 \<le> x \<Longrightarrow> 0 \<le> rhe x"
  using rhe_mono[of 0 x] by simp

lemma rhe_le_of_int: "x \<le> of_int n \<Longrightarrow> rhe x \<le> n"
  using rhe_mono[of x "of_int n"] by simp

lemma of_int_le_rhe: "of_int n \<le> x \<Longrightarrow> n \<le> rhe x"
  using rhe_mono[of "of_int n" x] by simp

text \<open>Strictly below (above) the half, rounding is determined by the neighbouring integers.\<close>

lemma rhe_below_half: "of_int k \<le> x \<Longrightarrow> x < of_int k + 1 / 2 \<Longrightarrow> rhe x = k"
proof -
  assume *: "of_int k \<le> x" "x < of_int k + 1 / 2"
  then have "\<lfloor>x\<rfloor> = k" by linarith
  with * show ?thesis by (simp add: rhe_def)
qed

lemma rhe_above_half: "of_int k + 1 / 2 < x \<Longrightarrow> x \<le> of_int k + 1 \<Longrightarrow> rhe x = k + 1"
proof -
  assume *: "of_int k + 1 / 2 < x" "x \<le> of_int k + 1"
  show ?thesis
  proof (cases "x = of_int k + 1")
    case True
    then have "x = of_int (k + 1)" by simp
    then show ?thesis by (simp only: rhe_of_int)
  next
    case False
    with * have "\<lfloor>x\<rfloor> = k" by linarith
    with * show ?thesis by (simp add: rhe_def)
  qed
qed

lemma rhe_minus: "rhe (- x) = - rhe x"
proof -
  have f: "of_int \<lfloor>x\<rfloor> \<le> x" "x < of_int \<lfloor>x\<rfloor> + 1" by linarith+
  consider "x = of_int \<lfloor>x\<rfloor>" | "of_int \<lfloor>x\<rfloor> < x" "x < of_int \<lfloor>x\<rfloor> + 1 / 2"
    | "x = of_int \<lfloor>x\<rfloor> + 1 / 2" | "of_int \<lfloor>x\<rfloor> + 1 / 2 < x" using f by linarith
  then show ?thesis
  proof cases
    case 1
    then show ?thesis by (metis of_int_minus rhe_of_int)
  next
    case 2
    have "rhe x = \<lfloor>x\<rfloor>" using 2 by (intro rhe_below_half) simp_all
    moreover have "rhe (- x) = (- \<lfloor>x\<rfloor> - 1) + 1"
      using 2 by (intro rhe_above_half) simp_all
    ultimately show ?thesis by simp
  next
    case 3
    then have d: "x - of_int \<lfloor>x\<rfloor> = 1 / 2" by simp
    have m: "\<lfloor>- x\<rfloor> = - \<lfloor>x\<rfloor> - 1" using 3 by linarith
    have d': "- x - of_int \<lfloor>- x\<rfloor> = 1 / 2" using m 3 by simp
    have "rhe (- x) = (if even \<lfloor>- x\<rfloor> then \<lfloor>- x\<rfloor> else \<lfloor>- x\<rfloor> + 1)"
      unfolding rhe_def Let_def d' by simp
    moreover have "rhe x = (if even \<lfloor>x\<rfloor> then \<lfloor>x\<rfloor> else \<lfloor>x\<rfloor> + 1)"
      unfolding rhe_def Let_def d by simp
    ultimately show ?thesis unfolding m by simp
  next
    case 4
    have "rhe x = \<lfloor>x\<rfloor> + 1" using 4 f by (intro rhe_above_half) simp_all
    moreover have "rhe (- x) = - \<lfloor>x\<rfloor> - 1"
      using 4 f by (intro rhe_below_half) simp_all
    ultimately show ?thesis by simp
  qed
qed

subsection \<open>Rounding to a 53-bit significand\<close>

function ilog2 :: "int \<Rightarrow> int" where
  "ilog2 n = (if n < 2 then 0 else 1 + ilog2 (n div 2))"
  by pat_completeness auto
termination
  by (relation "measure nat") auto

declare ilog2.simps [simp del]

lemma ilog2_nonneg: "0 \<le> ilog2 n"
proof (induction n rule: ilog2.induct)
  case (1 n)
  then show ?case by (subst ilog2.simps) simp
qed

lemma ilog2_bounds: "0 < n \<Longrightarrow> 2 ^ nat (ilog2 n) \<le> n \<and> n < 2 * 2 ^ nat (ilog2 n)"
proof (induction n rule: ilog2.induct)
  case (1 n)
  show ?case
  proof (cases "n < 2")
    case True
    with 1 show ?thesis by (simp add: ilog2.simps[of n])
  next
    case False
    with 1 have "2 ^ nat (ilog2 (n div 2)) \<le> n div 2 \<and> n div 2 < 2 * 2 ^ nat (ilog2 (n div 2))"
      by simp
    moreover have "nat (1 + ilog2 (n div 2)) = Suc (nat (ilog2 (n div 2)))"
      using ilog2_nonneg[of "n div 2"] by simp
    ultimately show ?thesis using False by (simp add: ilog2.simps[of n]) linarith
  qed
qed

definition two_pow :: "int \<Rightarrow> rat" where
  "two_pow e = (if 0 \<le> e then 2 ^ nat e else 1 / 2 ^ nat (- e))"

lemma two_pow_powi: "two_pow e = 2 powi e"
  by (simp add: two_pow_def power_int_def field_simps)

lemma two_pow_pos [simp]: "0 < two_pow e"
  by (simp add: two_pow_def)

lemma two_pow_nonneg [simp]: "0 \<le> two_pow e"
  using two_pow_pos[of e] by (rule less_imp_le)

lemma two_pow_nonzero [simp]: "two_pow e \<noteq> 0"
  using two_pow_pos[of e] by linarith

lemma two_pow_add: "two_pow (a + b) = two_pow a * two_pow b"
  by (simp add: two_pow_powi power_int_add)

lemma two_pow_mono: "a \<le> b \<Longrightarrow> two_pow a \<le> two_pow b"
  by (simp add: two_pow_powi power_int_increasing)

lemma two_pow_less_iff [simp]: "two_pow a < two_pow b \<longleftrightarrow> a < b"
  proof -
  have "a < b \<Longrightarrow> two_pow a < two_pow b" for a b
    by (simp add: two_pow_powi power_int_strict_increasing)
  then show ?thesis by (metis linorder_neqE_linordered_idom order.asym)
qed

lemma two_pow_nat: "two_pow (int n) = 2 ^ n"
  by (simp add: two_pow_def)

lemma two_pow_diff_div: "two_pow (a - b) = two_pow a / two_pow b"
  by (simp add: two_pow_powi power_int_diff)

lemma two_pow_1 [simp]: "two_pow 1 = 2"
  by (simp add: two_pow_def)

lemma two_pow_succ: "two_pow (e + 1) = 2 * two_pow e" and two_pow_pred: "two_pow (e - 1) = two_pow e / 2"
  by (simp_all add: two_pow_add two_pow_diff_div)

text \<open>The exponent of a positive rational: \<open>two_pow (flog2 x) \<le> x < two_pow (flog2 x + 1)\<close>.\<close>

definition flog2 :: "rat \<Rightarrow> int" where
  "flog2 x = (if 1 \<le> x then ilog2 \<lfloor>x\<rfloor>
     else let k = ilog2 \<lfloor>1 / x\<rfloor> in if x < two_pow (- k) then - k - 1 else - k)"

lemma ilog2_floor_bounds:
  assumes "1 \<le> (y :: rat)"
  shows "two_pow (ilog2 \<lfloor>y\<rfloor>) \<le> y" "y < two_pow (ilog2 \<lfloor>y\<rfloor> + 1)"
proof -
  let ?f = "\<lfloor>y\<rfloor>" and ?p = "(2 :: int) ^ nat (ilog2 \<lfloor>y\<rfloor>)"
  have f: "of_int ?f \<le> y" "y < of_int ?f + 1" by linarith+
  have fb: "?p \<le> ?f \<and> ?f < 2 * ?p" using assms by (intro ilog2_bounds) simp
  then have a: "(of_int ?p :: rat) \<le> of_int ?f" by (simp only: of_int_le_iff)
  have "(of_int (?f + 1) :: rat) \<le> of_int (2 * ?p)"
    using fb by (simp only: of_int_le_iff add1_zle_eq)
  then have b: "(of_int ?f :: rat) + 1 \<le> 2 * of_int ?p"
    by (simp only: of_int_add of_int_mult of_int_1 of_int_numeral)
  have t: "two_pow (ilog2 ?f) = of_int ?p"
    using ilog2_nonneg[of ?f] by (simp add: two_pow_def)
  show "two_pow (ilog2 ?f) \<le> y" "y < two_pow (ilog2 ?f + 1)"
    unfolding two_pow_succ t using a b f by linarith+
qed

lemma flog2_bounds:
  assumes "0 < x"
  shows "two_pow (flog2 x) \<le> x" "x < two_pow (flog2 x + 1)"
proof -
  have "two_pow (flog2 x) \<le> x \<and> x < two_pow (flog2 x + 1)"
  proof (cases "1 \<le> x")
    case True
    then show ?thesis by (simp add: flog2_def ilog2_floor_bounds)
  next
    case False
    let ?k = "ilog2 \<lfloor>1 / x\<rfloor>"
    have y: "1 \<le> 1 / x" using False assms by simp
    have p: "0 < two_pow ?k" by simp
    have "two_pow ?k \<le> 1 / x" "1 / x < 2 * two_pow ?k"
      using ilog2_floor_bounds[OF y] by (simp_all add: two_pow_succ)
    then have "x \<le> 1 / two_pow ?k" "1 / (2 * two_pow ?k) < x"
      using assms p by (simp_all add: field_simps)
    moreover have t: "two_pow (- ?k) = 1 / two_pow ?k"
      using two_pow_diff_div[of 0 ?k] by (simp add: two_pow_def)
    have "two_pow (- ?k - 1) = 1 / (2 * two_pow ?k)" by (simp add: two_pow_pred t)
    moreover have "two_pow (- ?k + 1) = 2 * (1 / two_pow ?k)" by (simp only: two_pow_succ t)
    moreover have "0 < 1 / two_pow ?k" using p by simp
    then have "1 / two_pow ?k < 2 * (1 / two_pow ?k)" by linarith
    ultimately show ?thesis using False t by (auto simp: flog2_def Let_def)
  qed
  then show "two_pow (flog2 x) \<le> x" "x < two_pow (flog2 x + 1)" by simp_all
qed

lemma flog2_unique:
  assumes "two_pow e \<le> x" "x < two_pow (e + 1)"
  shows "flog2 x = e"
proof -
  have "0 < x" using assms(1) two_pow_pos[of e] by linarith
  from flog2_bounds[OF this] assms
  have "two_pow (flog2 x) < two_pow (e + 1)" "two_pow e < two_pow (flog2 x + 1)" by linarith+
  then show ?thesis by simp
qed

lemma flog2_mono: "0 < x \<Longrightarrow> x \<le> y \<Longrightarrow> flog2 x \<le> flog2 y"
proof -
  assume "0 < x" "x \<le> y"
  with flog2_bounds[of x] flog2_bounds[of y]
  have "two_pow (flog2 x) < two_pow (flog2 y + 1)" by linarith
  then show ?thesis by simp
qed

text \<open>The spacing of floats around \<open>x\<close>, and the rounding itself.\<close>

definition ulp :: "rat \<Rightarrow> rat" where
  "ulp x = two_pow (flog2 \<bar>x\<bar> - 52)"

definition fl :: "rat \<Rightarrow> pyfloat" where
  "fl x = (if x = 0 then 0 else of_int (rhe (x / ulp x)) * ulp x)"

definition fadd :: "pyfloat \<Rightarrow> pyfloat \<Rightarrow> pyfloat" where "fadd x y = fl (x + y)"
definition fsub :: "pyfloat \<Rightarrow> pyfloat \<Rightarrow> pyfloat" where "fsub x y = fl (x - y)"
definition fmul :: "pyfloat \<Rightarrow> pyfloat \<Rightarrow> pyfloat" where "fmul x y = fl (x * y)"
definition fdiv :: "pyfloat \<Rightarrow> pyfloat \<Rightarrow> pyfloat" where "fdiv x y = fl (x / y)"

text \<open>\<open>a / b\<close> of two ints is the correctly rounded quotient; an int operand of a float
  operation is converted first.\<close>

definition int_div :: "int \<Rightarrow> int \<Rightarrow> pyfloat" where
  "int_div a b = fl (of_int a / of_int b)"

definition to_float :: "int \<Rightarrow> pyfloat" where
  "to_float n = fl (of_int n)"

subsection \<open>Properties of the rounding\<close>

lemma ulp_pos [simp]: "0 < ulp x"
  by (simp add: ulp_def)

lemma ulp_nonneg [simp]: "0 \<le> ulp x"
  using ulp_pos[of x] by (rule less_imp_le)

lemma ulp_nonzero [simp]: "ulp x \<noteq> 0"
  by (simp add: ulp_def)

lemma fl_0 [simp]: "fl 0 = 0"
  by (simp add: fl_def)

lemma ulp_minus [simp]: "ulp (- x) = ulp x"
  by (simp add: ulp_def)

lemma fl_minus: "fl (- x) = - fl x"
  by (simp add: fl_def rhe_minus flip: minus_divide_left)

lemma fl_error: "\<bar>fl x - x\<bar> \<le> ulp x / 2"
proof (cases "x = 0")
  case True
  then show ?thesis using ulp_pos[of x] by (simp add: less_imp_le)
next
  case False
  let ?u = "ulp x" and ?r = "rhe (x / ulp x)"
  have u: "0 < ?u" by simp
  have "\<bar>of_int ?r - x / ?u\<bar> \<le> 1 / 2"
    using rhe_bounds[of "x / ?u"] by linarith
  then have "\<bar>of_int ?r - x / ?u\<bar> * ?u \<le> 1 / 2 * ?u"
    using u by (intro mult_right_mono) simp_all
  moreover have "\<bar>of_int ?r - x / ?u\<bar> * ?u = \<bar>of_int ?r * ?u - x\<bar>"
    using u by (simp add: abs_mult_pos left_diff_distrib)
  ultimately show ?thesis using False by (simp add: fl_def)
qed

lemma ulp_le: "x \<noteq> 0 \<Longrightarrow> ulp x \<le> \<bar>x\<bar> / 2 ^ 52"
proof -
  assume "x \<noteq> 0"
  then have "two_pow (flog2 \<bar>x\<bar>) \<le> \<bar>x\<bar>" by (intro flog2_bounds) simp
  moreover have "ulp x = two_pow (flog2 \<bar>x\<bar>) / 2 ^ 52"
    using two_pow_nat[of 52] by (simp add: ulp_def two_pow_diff_div)
  ultimately show ?thesis by simp
qed

lemma fl_rel_error: "\<bar>fl x - x\<bar> \<le> \<bar>x\<bar> / 2 ^ 53"
proof (cases "x = 0")
  case False
  then show ?thesis using fl_error[of x] ulp_le[of x] by simp
qed simp

text \<open>A value that is an integer multiple of its spacing is a float: rounding keeps it.\<close>

lemma fl_exact: "x = of_int k * ulp x \<Longrightarrow> fl x = x"
proof (cases "x = 0")
  case False
  assume x: "x = of_int k * ulp x"
  have "x / ulp x = of_int k" by (subst x) simp
  then have "fl x = of_int k * ulp x" using False by (simp add: fl_def)
  with x show ?thesis by simp
qed simp

lemma fl_dyadic:
  assumes "\<bar>m\<bar> \<le> 2 ^ 53"
  shows "fl (of_int m * two_pow e) = of_int m * two_pow e"
proof (cases "m = 0")
  case False
  let ?x = "of_int m * two_pow e"
  have ax: "\<bar>?x\<bar> = of_int \<bar>m\<bar> * two_pow e" by (simp add: abs_mult less_imp_le)
  show ?thesis
  proof (cases "\<bar>m\<bar> = 2 ^ 53")
    case True
    then have "\<bar>?x\<bar> = two_pow (53 + e)"
      using two_pow_nat[of 53] by (simp add: ax two_pow_add)
    then have fx: "flog2 \<bar>?x\<bar> = 53 + e" by (intro flog2_unique) simp_all
    have "ulp ?x = two_pow (e + 1)" by (simp add: ulp_def fx add.commute)
    moreover have "two_pow (e + 1) = 2 * two_pow e" by (rule two_pow_succ)
    moreover have "even m"
    proof -
      have "even \<bar>m\<bar>" by (simp only: True) simp
      then show ?thesis by simp
    qed
    then have "?x = of_int (m div 2) * (2 * two_pow e)"
      by (metis (no_types, lifting) dvd_mult_div_cancel mult.assoc mult.commute of_int_mult of_int_numeral)
    ultimately show ?thesis by (metis fl_exact)
  next
    case lt: False
    with assms have "\<bar>m\<bar> < 2 ^ 53" by simp
    then have "(of_int \<bar>m\<bar> :: rat) < of_int (2 ^ 53)" by (simp only: of_int_less_iff)
    then have "\<bar>?x\<bar> < two_pow (53 + e)"
      using two_pow_nat[of 53] by (simp add: ax two_pow_add)
    moreover have xp: "0 < \<bar>?x\<bar>" using False by simp
    ultimately have "two_pow (flog2 \<bar>?x\<bar>) < two_pow (53 + e)"
      using flog2_bounds(1)[OF xp] by linarith
    then have le: "flog2 \<bar>?x\<bar> - 52 \<le> e" by simp
    define k where "k = nat (e - (flog2 \<bar>?x\<bar> - 52))"
    have "two_pow e = two_pow (int k + (flog2 \<bar>?x\<bar> - 52))" using le by (simp add: k_def)
    then have "two_pow e = 2 ^ k * ulp ?x" by (simp add: two_pow_add two_pow_nat ulp_def)
    then have "?x = of_int (m * 2 ^ k) * ulp ?x" by simp
    then show ?thesis by (rule fl_exact)
  qed
qed simp

lemma fl_of_int [simp]: "\<bar>n\<bar> \<le> 2 ^ 53 \<Longrightarrow> fl (of_int n) = of_int n"
  using fl_dyadic[of n 0] by (simp add: two_pow_def)

lemma fl_half_int: "\<bar>n\<bar> \<le> 2 ^ 53 \<Longrightarrow> fl (of_int n / 2) = of_int n / 2"
  using fl_dyadic[of n "-1"] by (simp add: two_pow_def)

lemma fl_1 [simp]: "fl 1 = 1"
  using fl_of_int[of 1] by simp

lemma fl_nonneg: "0 \<le> x \<Longrightarrow> 0 \<le> fl x"
  using ulp_pos[of x] by (simp add: fl_def rhe_nonneg zero_le_mult_iff less_imp_le)

lemma fl_binade:
  assumes "0 < x"
  shows "two_pow (flog2 x) \<le> fl x" "fl x \<le> two_pow (flog2 x + 1)"
proof -
  let ?e = "flog2 x" and ?u = "ulp x"
  have "two_pow 52 = 2 ^ 52" using two_pow_nat[of 52] by simp
  then have u: "?u = two_pow ?e / 2 ^ 52"
    using assms by (simp add: ulp_def two_pow_diff_div)
  have t1: "two_pow (?e + 1) = 2 * two_pow ?e" by (rule two_pow_succ)
  have b: "two_pow ?e \<le> x" "x < two_pow (?e + 1)"
    using flog2_bounds[OF assms] by simp_all
  have "2 ^ 52 \<le> x / ?u" using b(1) by (simp add: u field_simps)
  then have "2 ^ 52 \<le> rhe (x / ?u)" using of_int_le_rhe[of "2 ^ 52"] by simp
  then have "(of_int (2 ^ 52) :: rat) \<le> of_int (rhe (x / ?u))" by (simp only: of_int_le_iff)
  then have "2 ^ 52 * ?u \<le> of_int (rhe (x / ?u)) * ?u"
    by (intro mult_right_mono) simp_all
  then show "two_pow ?e \<le> fl x" using assms by (simp add: fl_def u)
  have "x / ?u \<le> 2 ^ 53" using b(2) unfolding t1 by (simp add: u field_simps)
  then have "rhe (x / ?u) \<le> 2 ^ 53" using rhe_le_of_int[of _ "2 ^ 53"] by simp
  then have "(of_int (rhe (x / ?u)) :: rat) \<le> of_int (2 ^ 53)" by (simp only: of_int_le_iff)
  then have "of_int (rhe (x / ?u)) * ?u \<le> 2 ^ 53 * ?u"
    by (intro mult_right_mono) simp_all
  then show "fl x \<le> two_pow (?e + 1)" using assms by (simp add: fl_def u t1)
qed

lemma fl_mono_pos: "0 < x \<Longrightarrow> x \<le> y \<Longrightarrow> fl x \<le> fl y"
proof -
  assume xp: "0 < x" and xy: "x \<le> y"
  then have yp: "0 < y" by linarith
  show ?thesis
  proof (cases "flog2 x = flog2 y")
    case True
    then have u: "ulp x = ulp y" using xp yp by (simp add: ulp_def)
    have "x / ulp x \<le> y / ulp y" unfolding u using xy by (intro divide_right_mono) (simp_all add: less_imp_le)
    then have "rhe (x / ulp x) \<le> rhe (y / ulp y)" by (rule rhe_mono)
    then show ?thesis using xp yp u by (simp add: fl_def mult_right_mono less_imp_le)
  next
    case False
    with flog2_mono[OF xp xy] have "flog2 x + 1 \<le> flog2 y" by simp
    then have "two_pow (flog2 x + 1) \<le> two_pow (flog2 y)" by (rule two_pow_mono)
    with fl_binade(2)[OF xp] fl_binade(1)[OF yp] show ?thesis by linarith
  qed
qed

lemma fl_mono: "x \<le> y \<Longrightarrow> fl x \<le> fl y"
proof -
  assume xy: "x \<le> y"
  consider "0 < x" | "x \<le> 0" "0 \<le> y" | "y < 0" using xy by linarith
  then show ?thesis
  proof cases
    case 1 with xy show ?thesis by (rule fl_mono_pos[rotated]) 
  next
    case 2
    have "0 \<le> fl (- x)" using 2 by (intro fl_nonneg) simp
    with 2 fl_nonneg[of y] show ?thesis by (simp add: fl_minus)
  next
    case 3
    then have "fl (- y) \<le> fl (- x)" using xy by (intro fl_mono_pos) simp_all
    then show ?thesis by (simp add: fl_minus)
  qed
qed

lemma fl_le_of_int: "\<bar>n\<bar> \<le> 2 ^ 53 \<Longrightarrow> x \<le> of_int n \<Longrightarrow> fl x \<le> of_int n"
  using fl_mono[of x "of_int n"] by simp

lemma of_int_le_fl: "\<bar>n\<bar> \<le> 2 ^ 53 \<Longrightarrow> of_int n \<le> x \<Longrightarrow> of_int n \<le> fl x"
  using fl_mono[of "of_int n" x] by simp

lemma fl_le_1: "x \<le> 1 \<Longrightarrow> fl x \<le> 1"
  using fl_le_of_int[of 1 x] by simp

subsection \<open>Half-even rounding of a float quotient is exact below 2^52\<close>

lemma quotient_half_gap:
  fixes n k :: int
  assumes d: "0 < d" and ne: "(of_int n / of_int d :: rat) \<noteq> of_int k + 1 / 2"
  shows "1 / (2 * of_int d) \<le> \<bar>(of_int n / of_int d :: rat) - (of_int k + 1 / 2)\<bar>"
proof -
  let ?m = "2 * n - (2 * k + 1) * d"
  have dr: "(0 :: rat) < of_int d" using d by simp
  have eq: "(of_int n / of_int d :: rat) - (of_int k + 1 / 2) = of_int ?m / (2 * of_int d)"
    using dr by (simp add: field_simps)
  have "?m \<noteq> 0"
  proof
    assume "?m = 0"
    then have "(of_int n / of_int d :: rat) - (of_int k + 1 / 2) = 0" by (simp add: eq)
    with ne show False by simp
  qed
  then have "1 \<le> \<bar>?m\<bar>" by arith
  then have "(1 :: rat) \<le> of_int \<bar>?m\<bar>" by (metis of_int_1 of_int_le_iff)
  then have "1 / (2 * of_int d) \<le> of_int \<bar>?m\<bar> / (2 * of_int d :: rat)"
    using dr by (intro divide_right_mono) simp_all
  also have "\<dots> = \<bar>of_int ?m / (2 * of_int d)\<bar>" using dr by (simp add: abs_divide del: of_int_diff)
  finally show ?thesis by (simp only: eq)
qed

lemma py_round_int_div:
  assumes d: "0 < d" and n: "\<bar>n\<bar> < 2 ^ 52"
  shows "py_round (int_div n d) = rhe (of_int n / of_int d)"
proof -
  let ?x = "of_int n / of_int d :: rat" and ?k = "\<lfloor>of_int n / of_int d :: rat\<rfloor>"
  have dr: "(1 :: rat) \<le> of_int d" using d by simp
  have x1: "of_int ?k \<le> ?x" "?x < of_int ?k + 1" by linarith+
  have nb: "(of_int \<bar>n\<bar> :: rat) < 2 ^ 52" using n by (metis of_int_less_iff of_int_numeral of_int_power)
  have ax: "\<bar>?x\<bar> = of_int \<bar>n\<bar> / of_int d" using dr by (simp add: abs_divide)
  have "\<bar>?x\<bar> \<le> of_int \<bar>n\<bar>" unfolding ax
    using divide_left_mono[OF dr, of "of_int \<bar>n\<bar>"] dr by simp
  then have xb: "\<bar>?x\<bar> < 2 ^ 52" using nb by linarith
  then have "- (2 ^ 52) \<le> ?x" "?x < 2 ^ 52" unfolding abs_less_iff by linarith+
  then have kb2: "- (2 ^ 52) \<le> ?k" "?k < 2 ^ 52" by (simp_all add: le_floor_iff floor_less_iff)
  then have kb: "\<bar>?k\<bar> \<le> 2 ^ 52" by linarith
  have lo: "of_int ?k \<le> fl ?x" using kb x1 by (intro of_int_le_fl) simp_all
  have hi: "fl ?x \<le> of_int (?k + 1)" using kb x1 by (intro fl_le_of_int) simp_all
  have err: "\<bar>fl ?x - ?x\<bar> < 1 / (2 * of_int d)"
  proof -
    have "\<bar>?x\<bar> / 2 ^ 53 < 1 / (2 * of_int d)" using nb dr by (simp add: ax field_simps)
    with fl_rel_error[of ?x] show ?thesis by linarith
  qed
  consider "?x = of_int ?k + 1 / 2" | "?x < of_int ?k + 1 / 2" | "of_int ?k + 1 / 2 < ?x" by linarith
  then have "rhe (fl ?x) = rhe ?x"
  proof cases
    case 1
    then have h: "?x = of_int (2 * ?k + 1) / 2" by (metis add_divide_distrib nonzero_mult_div_cancel_left of_int_1 of_int_add of_int_mult of_int_numeral zero_neq_numeral)
    have gen: "- (2 ^ 52) \<le> k \<Longrightarrow> k < 2 ^ 52 \<Longrightarrow> \<bar>2 * k + 1\<bar> \<le> 2 ^ 53" for k :: int by simp
    have "\<bar>2 * ?k + 1\<bar> \<le> 2 ^ 53" using kb2 by (rule gen)
    then have "fl ?x = ?x" by (metis fl_half_int h)
    then show ?thesis by simp
  next
    case 2
    have "1 / (2 * of_int d) \<le> (of_int ?k + 1 / 2) - ?x" using quotient_half_gap[OF d, of n ?k] 2 by simp
    with err have "fl ?x < of_int ?k + 1 / 2" by linarith
    with lo have "rhe (fl ?x) = ?k" by (intro rhe_below_half)
    moreover have "rhe ?x = ?k" using x1 2 by (intro rhe_below_half)
    ultimately show ?thesis by simp
  next
    case 3
    have "1 / (2 * of_int d) \<le> ?x - (of_int ?k + 1 / 2)" using quotient_half_gap[OF d, of n ?k] 3 by simp
    with err have "of_int ?k + 1 / 2 < fl ?x" by linarith
    with hi have "rhe (fl ?x) = ?k + 1" by (intro rhe_above_half) simp_all
    moreover have "rhe ?x = ?k + 1" using x1 3 by (intro rhe_above_half) simp_all
    ultimately show ?thesis by simp
  qed
  then show ?thesis by (simp add: py_round_def int_div_def)
qed

subsection \<open>What the money code needs of a rounding\<close>

text \<open>
  The interface the payroll calculations rely on: a rounding of exact values to minor units
  that is monotone, keeps whole amounts, and is off by less than one unit on amounts below
  \<open>lim\<close>. Its clients never look at how floats are rounded.
\<close>

locale minor_rounding =
  fixes rnd :: "rat \<Rightarrow> int" and lim :: int
  assumes rnd_mono: "x \<le> y \<Longrightarrow> rnd x \<le> rnd y"
    and rnd_int: "\<bar>n\<bar> \<le> lim \<Longrightarrow> rnd (of_int n) = n"
    and lim_nonneg: "0 \<le> lim"
begin

lemma rnd_zero: "rnd 0 = 0"
  using rnd_int[of 0] lim_nonneg by simp

lemma rnd_nonneg: "0 \<le> x \<Longrightarrow> 0 \<le> rnd x"
  using rnd_mono[of 0 x] rnd_zero by simp

lemma rnd_le: "\<bar>n\<bar> \<le> lim \<Longrightarrow> x \<le> of_int n \<Longrightarrow> rnd x \<le> n"
  using rnd_mono[of x "of_int n"] rnd_int[of n] by simp

lemma rnd_ge: "\<bar>n\<bar> \<le> lim \<Longrightarrow> of_int n \<le> x \<Longrightarrow> n \<le> rnd x"
  using rnd_mono[of "of_int n" x] rnd_int[of n] by simp

lemma rnd_between: "0 \<le> x \<Longrightarrow> x \<le> of_int n \<Longrightarrow> n \<le> lim \<Longrightarrow> 0 \<le> rnd x \<and> rnd x \<le> n"
proof -
  assume *: "0 \<le> x" "x \<le> of_int n" "n \<le> lim"
  then have "(of_int 0 :: rat) \<le> of_int n" by simp
  then have "0 \<le> n" by (simp only: of_int_le_iff)
  with * show ?thesis by (simp add: rnd_nonneg rnd_le)
qed

end

interpretation flr: minor_rounding "\<lambda>x. py_round (fl x)" "2 ^ 53"
  by unfold_locales (simp_all add: py_round_def rhe_mono fl_mono)

interpretation exact: minor_rounding rhe "2 ^ 52"
  by unfold_locales (simp_all add: rhe_mono)

end
