(* ===== verification/Calendar.thy ===== *)
theory Calendar
  imports Prelude
begin

text \<open>
  The part of Python's \<open>datetime\<close> and \<open>calendar\<close> modules the code computes with.
  A \<open>date\<close> is its proleptic Gregorian ordinal (\<open>date.toordinal()\<close>, 1 for
  0001-01-01), so comparison, subtraction and \<open>timedelta(days=n)\<close> are those of
  \<open>int\<close>; the accessors \<open>.year\<close>, \<open>.month\<close>, \<open>.day\<close> are recovered
  from it. A \<open>datetime\<close> is its instant, in microseconds since 1970-01-01T00:00 UTC:
  every datetime the modelled code stores is timezone-aware, and a naive one is read as UTC.
  Python bounds years to 1..9999 and raises \<open>OverflowError\<close> outside; dates here are
  unbounded.
\<close>

type_synonym date = int
type_synonym datetime = int

subsection \<open>Ordinals\<close>

definition is_leap :: "int \<Rightarrow> bool" where
  "is_leap y \<longleftrightarrow> y mod 4 = 0 \<and> (y mod 100 \<noteq> 0 \<or> y mod 400 = 0)"

definition days_before_year :: "int \<Rightarrow> int" where
  "days_before_year y = (let a = y - 1 in a * 365 + a div 4 - a div 100 + a div 400)"

definition days_in_year :: "int \<Rightarrow> int" where
  "days_in_year y = (if is_leap y then 366 else 365)"

definition month_len :: "int \<Rightarrow> int \<Rightarrow> int" where
  "month_len y m = (if m = 2 then (if is_leap y then 29 else 28)
     else if m = 4 \<or> m = 6 \<or> m = 9 \<or> m = 11 then 30 else 31)"

definition days_before_month :: "int \<Rightarrow> int \<Rightarrow> int" where
  "days_before_month y m = (let l = (if is_leap y then 1 else 0) in
     if m \<le> 1 then 0 else if m = 2 then 31 else if m = 3 then 59 + l else if m = 4 then 90 + l
     else if m = 5 then 120 + l else if m = 6 then 151 + l else if m = 7 then 181 + l
     else if m = 8 then 212 + l else if m = 9 then 243 + l else if m = 10 then 273 + l
     else if m = 11 then 304 + l else if m = 12 then 334 + l else 365 + l)"

definition mk_date :: "int \<Rightarrow> int \<Rightarrow> int \<Rightarrow> date" where
  "mk_date y m d = days_before_year y + days_before_month y m + d"

definition year_of :: "date \<Rightarrow> int" where
  "year_of n = (let y = ((n - 1) * 400) div 146097 + 1 in
     if n \<le> days_before_year (y + 1) then y else y + 1)"

definition day_of_year :: "date \<Rightarrow> int" where
  "day_of_year n = n - days_before_year (year_of n)"

definition month_of :: "date \<Rightarrow> int" where
  "month_of n = (let y = year_of n; k = day_of_year n in
     if k \<le> days_before_month y 2 then 1 else if k \<le> days_before_month y 3 then 2
     else if k \<le> days_before_month y 4 then 3 else if k \<le> days_before_month y 5 then 4
     else if k \<le> days_before_month y 6 then 5 else if k \<le> days_before_month y 7 then 6
     else if k \<le> days_before_month y 8 then 7 else if k \<le> days_before_month y 9 then 8
     else if k \<le> days_before_month y 10 then 9 else if k \<le> days_before_month y 11 then 10
     else if k \<le> days_before_month y 12 then 11 else 12)"

definition day_of :: "date \<Rightarrow> int" where
  "day_of n = day_of_year n - days_before_month (year_of n) (month_of n)"

text \<open>\<open>date.weekday()\<close>: Monday is 0, Sunday is 6.\<close>

definition weekday :: "date \<Rightarrow> int" where
  "weekday n = (n + 6) mod 7"

definition valid_ymd :: "int \<Rightarrow> int \<Rightarrow> int \<Rightarrow> bool" where
  "valid_ymd y m d \<longleftrightarrow> 1 \<le> m \<and> m \<le> 12 \<and> 1 \<le> d \<and> d \<le> month_len y m"

subsection \<open>The calendar is consistent\<close>

lemma div_bounds: "4 * (a div 4) \<le> a \<and> a \<le> 4 * (a div 4) + (3 :: int)"
    "100 * (a div 100) \<le> a \<and> a \<le> 100 * (a div 100) + (99 :: int)"
    "400 * (a div 400) \<le> a \<and> a \<le> 400 * (a div 400) + (399 :: int)"
  by linarith+

lemma days_before_year_approx:
  "146097 * (y - 1) - 699 \<le> 400 * days_before_year y
   \<and> 400 * days_before_year y \<le> 146097 * (y - 1) + 396"
proof -
  define a where "a = y - 1"
  have "400 * days_before_year y
      = 146000 * a + 400 * (a div 4) - 400 * (a div 100) + 400 * (a div 400)"
    by (simp add: days_before_year_def a_def Let_def algebra_simps)
  with div_bounds[of a] have "146097 * a - 699 \<le> 400 * days_before_year y
      \<and> 400 * days_before_year y \<le> 146097 * a + 396" by linarith
  then show ?thesis by (simp add: a_def)
qed

lemma div_step:
  assumes k: "0 < (k :: int)"
  shows "y div k - (y - 1) div k = (if y mod k = 0 then 1 else 0)"
proof -
  define q r where "q = (y - 1) div k" and "r = (y - 1) mod k"
  have y: "y = k * q + r + 1" by (simp add: q_def r_def)
  have r: "0 \<le> r" "r < k" using k by (simp_all add: r_def)
  show ?thesis
  proof (cases "r + 1 = k")
    case True
    then have yk: "y = k * (q + 1) + 0" using y by (simp add: distrib_left)
    have "y div k = q + 1" by (rule int_div_pos_eq[OF yk]) (use k in simp_all)
    moreover have "y mod k = 0" using yk by simp
    ultimately show ?thesis by (simp add: q_def)
  next
    case False
    then have rk: "r + 1 < k" using r by simp
    have yk: "y = k * q + (r + 1)" using y by simp
    have "y div k = q" by (rule int_div_pos_eq[OF yk]) (use r rk in simp_all)
    moreover have "y mod k = r + 1" by (rule int_mod_pos_eq[OF yk]) (use r rk in simp_all)
    ultimately show ?thesis using r by (simp add: q_def)
  qed
qed

lemma div_step_dvd: "(100 :: int) dvd 400" "(4 :: int) dvd 100"
  by simp_all

lemma days_before_year_Suc: "days_before_year (y + 1) = days_before_year y + days_in_year y"
proof -
  have m: "y mod 400 = 0 \<Longrightarrow> y mod 100 = 0" "y mod 100 = 0 \<Longrightarrow> y mod 4 = 0"
    by (metis dvd_eq_mod_eq_0 dvd_trans div_step_dvd(1), metis dvd_eq_mod_eq_0 dvd_trans div_step_dvd(2))
  have s: "y div 4 - (y - 1) div 4 = (if y mod 4 = 0 then 1 else 0)"
    "y div 100 - (y - 1) div 100 = (if y mod 100 = 0 then 1 else 0)"
    "y div 400 - (y - 1) div 400 = (if y mod 400 = 0 then 1 else 0)"
    by (rule div_step, rule zero_less_numeral)+
  have leap: "(C \<longrightarrow> B) \<Longrightarrow> (B \<longrightarrow> A) \<Longrightarrow>
      365 + (if A then 1 else 0) - (if B then 1 else 0) + (if C then 1 else 0)
      = (if A \<and> (\<not> B \<or> C) then 366 else 365 :: int)" for A B C
    by (cases A; cases B; cases C) simp_all
  have gen: "(y * 365 + p - q + r) - ((y - 1) * 365 + p' - q' + r')
      = 365 + (p - p') - (q - q') + (r - r')" for p q r p' q' r' :: int
    by (simp add: algebra_simps)
  have "days_before_year (y + 1) - days_before_year y
      = 365 + (y div 4 - (y - 1) div 4) - (y div 100 - (y - 1) div 100) + (y div 400 - (y - 1) div 400)"
    unfolding days_before_year_def Let_def add_diff_cancel_right' by (rule gen)
  also have "\<dots> = days_in_year y"
    unfolding s days_in_year_def is_leap_def by (rule leap) (use m in blast)+
  finally show ?thesis by simp
qed

lemma days_in_year_bounds: "365 \<le> days_in_year y \<and> days_in_year y \<le> 366"
  by (simp add: days_in_year_def)

lemma days_before_year_mono: "y \<le> z \<Longrightarrow> days_before_year y \<le> days_before_year z"
proof (induction z rule: int_ge_induct)
  case (step z)
  then show ?case using days_before_year_Suc[of z] days_in_year_bounds[of z] by linarith
qed simp

lemma year_of_bounds: "days_before_year (year_of n) < n \<and> n \<le> days_before_year (year_of n + 1)"
proof -
  define g where "g = ((n - 1) * 400) div 146097"
  have g: "146097 * g \<le> (n - 1) * 400 \<and> (n - 1) * 400 < 146097 * g + 146097"
    unfolding g_def by linarith
  have lo: "days_before_year (g + 1) < n"
    using days_before_year_approx[of "g + 1"] g by simp
  have hi: "n \<le> days_before_year (g + 3)"
    using days_before_year_approx[of "g + 3"] g by simp
  have y: "year_of n = (if n \<le> days_before_year (g + 2) then g + 1 else g + 2)"
    by (simp add: year_of_def g_def Let_def add.assoc)
  show ?thesis using lo hi by (auto simp: y add.assoc)
qed

lemma year_of_unique: "days_before_year y < n \<Longrightarrow> n \<le> days_before_year (y + 1) \<Longrightarrow> year_of n = y"
proof (rule ccontr)
  assume *: "days_before_year y < n" "n \<le> days_before_year (y + 1)" "year_of n \<noteq> y"
  then consider "year_of n + 1 \<le> y" | "y + 1 \<le> year_of n" by linarith
  then show False
    using days_before_year_mono[of "year_of n + 1" y] days_before_year_mono[of "y + 1" "year_of n"]
      year_of_bounds[of n] * by cases linarith+
qed

lemma day_of_year_bounds: "1 \<le> day_of_year n \<and> day_of_year n \<le> days_in_year (year_of n)"
  using year_of_bounds[of n] days_before_year_Suc[of "year_of n"] by (simp add: day_of_year_def)

text \<open>The month table: twelve consecutive blocks that fill the year.\<close>

lemma month_table:
  "1 \<le> m \<Longrightarrow> m \<le> 12 \<Longrightarrow> days_before_month y (m + 1) = days_before_month y m + month_len y m"
proof -
  assume "1 \<le> m" "m \<le> 12"
  then have "m = 1 \<or> m = 2 \<or> m = 3 \<or> m = 4 \<or> m = 5 \<or> m = 6 \<or> m = 7 \<or> m = 8
    \<or> m = 9 \<or> m = 10 \<or> m = 11 \<or> m = 12" by arith
  then show ?thesis by (elim disjE) (simp_all add: days_before_month_def month_len_def)
qed

lemma days_before_month_ends [simp]:
  "days_before_month y 1 = 0" "days_before_month y 13 = days_in_year y"
  by (simp_all add: days_before_month_def days_in_year_def)

lemma month_len_bounds: "28 \<le> month_len y m \<and> month_len y m \<le> 31"
  by (simp add: month_len_def)

lemma days_before_month_mono:
  "m \<le> m' \<Longrightarrow> 1 \<le> m \<Longrightarrow> m' \<le> 13 \<Longrightarrow> days_before_month y m \<le> days_before_month y m'"
proof (induction m' rule: int_ge_induct)
  case (step k)
  then show ?case using month_table[of k y] month_len_bounds[of y k] by simp
qed simp

lemma month_of_bounds: "1 \<le> month_of n \<and> month_of n \<le> 12"
  by (auto simp: month_of_def Let_def)

lemma month_of_block:
  "days_before_month (year_of n) (month_of n) < day_of_year n
   \<and> day_of_year n \<le> days_before_month (year_of n) (month_of n + 1)"
proof -
  let ?y = "year_of n" and ?k = "day_of_year n"
  have "1 \<le> ?k" "?k \<le> days_before_month ?y 13" using day_of_year_bounds[of n] by simp_all
  then show ?thesis by (simp add: month_of_def Let_def)
qed

lemma month_of_unique:
  assumes "1 \<le> m" "m \<le> 12" "days_before_month (year_of n) m < day_of_year n"
    "day_of_year n \<le> days_before_month (year_of n) (m + 1)"
  shows "month_of n = m"
proof (rule ccontr)
  assume "month_of n \<noteq> m"
  then consider "month_of n + 1 \<le> m" | "m + 1 \<le> month_of n" by linarith
  then show False
    using days_before_month_mono[of "month_of n + 1" m "year_of n"]
      days_before_month_mono[of "m + 1" "month_of n" "year_of n"]
      month_of_block[of n] month_of_bounds[of n] assms by cases linarith+
qed

text \<open>Taking a date apart and building it again are inverse to each other.\<close>

lemma valid_ymd_of: "valid_ymd (year_of n) (month_of n) (day_of n)"
  using month_of_block[of n] month_of_bounds[of n] month_table[of "month_of n" "year_of n"]
  by (simp add: valid_ymd_def day_of_def)

lemma mk_date_of [simp]: "mk_date (year_of n) (month_of n) (day_of n) = n"
  by (simp add: mk_date_def day_of_def day_of_year_def)

lemma of_mk_date:
  assumes "valid_ymd y m d"
  shows "year_of (mk_date y m d) = y" "month_of (mk_date y m d) = m" "day_of (mk_date y m d) = d"
proof -
  have v: "1 \<le> m" "m \<le> 12" "1 \<le> d" "d \<le> month_len y m" using assms by (simp_all add: valid_ymd_def)
  have t: "days_before_month y (m + 1) = days_before_month y m + month_len y m"
    using v by (intro month_table)
  have b: "0 \<le> days_before_month y m" "days_before_month y (m + 1) \<le> days_in_year y"
    using days_before_month_mono[of 1 m y] days_before_month_mono[of "m + 1" 13 y] v by simp_all
  show y: "year_of (mk_date y m d) = y"
    using v t b days_before_year_Suc[of y] by (intro year_of_unique) (simp_all add: mk_date_def)
  have k: "day_of_year (mk_date y m d) = days_before_month y m + d"
    unfolding day_of_year_def y by (simp add: mk_date_def)
  show m: "month_of (mk_date y m d) = m"
    using v t by (intro month_of_unique) (simp_all add: y k)
  show "day_of (mk_date y m d) = d"
    by (simp add: day_of_def y m k)
qed

lemma valid_first [simp]: "1 \<le> m \<Longrightarrow> m \<le> 12 \<Longrightarrow> valid_ymd y m 1"
  using month_len_bounds[of y m] by (simp add: valid_ymd_def)

lemmas of_first_of_month = of_mk_date[OF valid_first]

subsection \<open>Months\<close>

text \<open>\<open>calendar.monthrange(year, month)[1]\<close> is \<open>month_len\<close>. The first and the
  last day of the month a date lies in enclose it.\<close>

lemma valid_last [simp]: "1 \<le> m \<Longrightarrow> m \<le> 12 \<Longrightarrow> valid_ymd y m (month_len y m)"
  using month_len_bounds[of y m] by (simp add: valid_ymd_def)

lemma day_of_bounds: "1 \<le> day_of n \<and> day_of n \<le> month_len (year_of n) (month_of n)"
  using valid_ymd_of[of n] by (simp add: valid_ymd_def)

lemma month_encloses:
  "mk_date (year_of n) (month_of n) 1 \<le> n"
  "n \<le> mk_date (year_of n) (month_of n) (month_len (year_of n) (month_of n))"
proof -
  have n: "n = mk_date (year_of n) (month_of n) (day_of n)" by simp
  show "mk_date (year_of n) (month_of n) 1 \<le> n"
    using day_of_bounds[of n] by (subst (3) n) (simp add: mk_date_def)
  show "n \<le> mk_date (year_of n) (month_of n) (month_len (year_of n) (month_of n))"
    using day_of_bounds[of n] by (subst (1) n) (simp add: mk_date_def)
qed

text \<open>Dates order as their (year, month) pairs do, month by month.\<close>

lemma mk_date_less_year:
  assumes "y < y'" "valid_ymd y m d" "valid_ymd y' m' d'"
  shows "mk_date y m d < mk_date y' m' d'"
proof -
  have v: "1 \<le> m" "m \<le> 12" "d \<le> month_len y m" "1 \<le> m'" "m' \<le> 12" "1 \<le> d'"
    using assms by (simp_all add: valid_ymd_def)
  have "days_before_month y m + d \<le> days_in_year y"
    using days_before_month_mono[of "m + 1" 13 y] month_table[of m y] v by simp
  moreover have "days_before_year (y + 1) \<le> days_before_year y'"
    using assms(1) by (intro days_before_year_mono) simp
  moreover have "0 \<le> days_before_month y' m'"
    using days_before_month_mono[of 1 m' y'] v by simp
  ultimately show ?thesis using days_before_year_Suc[of y] v by (simp add: mk_date_def)
qed

lemma mk_date_less_month:
  assumes "m < m'" "valid_ymd y m d" "valid_ymd y m' d'"
  shows "mk_date y m d < mk_date y m' d'"
proof -
  have v: "1 \<le> m" "d \<le> month_len y m" "m' \<le> 12" "1 \<le> d'"
    using assms by (simp_all add: valid_ymd_def)
  have "days_before_month y (m + 1) \<le> days_before_month y m'"
    using assms v by (intro days_before_month_mono) simp_all
  then show ?thesis using month_table[of m y] assms v by (simp add: mk_date_def)
qed

lemma year_of_mono: "a \<le> b \<Longrightarrow> year_of a \<le> year_of b"
proof (rule ccontr)
  assume "a \<le> b" "\<not> year_of a \<le> year_of b"
  then have "mk_date (year_of b) (month_of b) (day_of b) < mk_date (year_of a) (month_of a) (day_of a)"
    by (intro mk_date_less_year valid_ymd_of) simp
  with \<open>a \<le> b\<close> show False by simp
qed

subsection \<open>Instants\<close>

definition day_us :: int where
  "day_us = 86400000000"

definition epoch :: date where
  "epoch = 719163"

text \<open>\<open>value.astimezone(UTC).date()\<close>, and \<open>datetime(y, m, d, tzinfo=UTC)\<close>.\<close>

definition utc_day :: "datetime \<Rightarrow> date" where
  "utc_day t = epoch + t div day_us"

definition utc_midnight :: "date \<Rightarrow> datetime" where
  "utc_midnight d = (d - epoch) * day_us"

lemma utc_day_midnight [simp]: "utc_day (utc_midnight d) = d"
  by (simp add: utc_day_def utc_midnight_def day_us_def)

lemma utc_day_mono: "s \<le> t \<Longrightarrow> utc_day s \<le> utc_day t"
  by (simp add: utc_day_def day_us_def zdiv_mono1)

lemma le_div_int: "0 < (n :: int) \<Longrightarrow> k * n \<le> t \<longleftrightarrow> k \<le> t div n"
proof
  assume n: "0 < n" and "k * n \<le> t"
  then have "(k * n) div n \<le> t div n" by (intro zdiv_mono1)
  with n show "k \<le> t div n" by simp
next
  assume n: "0 < n" and "k \<le> t div n"
  then have "k * n \<le> t div n * n" by simp
  also have "\<dots> \<le> t" using n by (simp add: div_mult_mod_eq minus_mod_eq_div_mult[symmetric])
  finally show "k * n \<le> t" .
qed

lemma utc_midnight_le_iff: "utc_midnight d \<le> t \<longleftrightarrow> d \<le> utc_day t"
proof -
  have "utc_midnight d \<le> t \<longleftrightarrow> (d - epoch) * 86400000000 \<le> t"
    by (simp add: utc_midnight_def day_us_def)
  also have "\<dots> \<longleftrightarrow> d - epoch \<le> t div 86400000000" by (rule le_div_int) simp
  finally show ?thesis by (simp add: utc_day_def day_us_def) linarith
qed

lemma less_utc_midnight_iff: "t < utc_midnight d \<longleftrightarrow> utc_day t < d"
  using utc_midnight_le_iff[of d t] by linarith

lemma utc_midnight_mono: "utc_midnight a \<le> utc_midnight b \<longleftrightarrow> a \<le> b"
  by (simp add: utc_midnight_le_iff)

subsection \<open>Text\<close>

definition month_abbr :: "int \<Rightarrow> string" where
  "month_abbr m = (if m = 1 then ''Jan'' else if m = 2 then ''Feb'' else if m = 3 then ''Mar''
     else if m = 4 then ''Apr'' else if m = 5 then ''May'' else if m = 6 then ''Jun''
     else if m = 7 then ''Jul'' else if m = 8 then ''Aug'' else if m = 9 then ''Sep''
     else if m = 10 then ''Oct'' else if m = 11 then ''Nov'' else ''Dec'')"

definition month_name :: "int \<Rightarrow> string" where
  "month_name m = (if m = 1 then ''January'' else if m = 2 then ''February'' else if m = 3 then ''March''
     else if m = 4 then ''April'' else if m = 5 then ''May'' else if m = 6 then ''June''
     else if m = 7 then ''July'' else if m = 8 then ''August'' else if m = 9 then ''September''
     else if m = 10 then ''October'' else if m = 11 then ''November'' else ''December'')"

text \<open>\<open>f"{d:%d %b}"\<close>, \<open>f"{d:%d %b %Y}"\<close>, \<open>f"{d:%B %Y}"\<close>, \<open>date.isoformat()\<close> and
  the payroll month \<open>f"{year:04d}-{month:02d}"\<close>. (\<open>%Y\<close> is unpadded in the C library;
  for the four-digit years of the application it agrees with \<open>pad4\<close>.)\<close>

definition fmt_d_b :: "date \<Rightarrow> string" where
  "fmt_d_b d = pad2 (day_of d) @ '' '' @ month_abbr (month_of d)"

definition fmt_d_b_Y :: "date \<Rightarrow> string" where
  "fmt_d_b_Y d = fmt_d_b d @ '' '' @ int_str (year_of d)"

definition fmt_B_Y :: "date \<Rightarrow> string" where
  "fmt_B_Y d = month_name (month_of d) @ '' '' @ int_str (year_of d)"

definition isoformat :: "date \<Rightarrow> string" where
  "isoformat d = pad4 (year_of d) @ ''-'' @ pad2 (month_of d) @ ''-'' @ pad2 (day_of d)"

definition period_str :: "int \<Rightarrow> int \<Rightarrow> string" where
  "period_str y m = pad4 y @ ''-'' @ pad2 m"

lemma period_str_inj:
  assumes "0 \<le> y" "y < 10000" "0 \<le> y'" "y' < 10000" "0 \<le> m" "0 \<le> m'"
    and eq: "period_str y m = period_str y' m'"
  shows "y = y' \<and> m = m'"
proof -
  have l: "length (pad4 y) = length (pad4 y')" using assms by (simp add: length_pad4)
  with eq have "pad4 y = pad4 y'" "pad2 m = pad2 m'" by (simp_all add: period_str_def)
  then have "Some (nat y) = Some (nat y')" "Some (nat m) = Some (nat m')"
    using read_nat_pad4 read_nat_pad2 assms by metis+
  then show ?thesis using assms(1,3,5,6) by (simp only: option.inject eq_nat_nat_iff)
qed

end
