(* ===== verification/PayrollCalc.thy ===== *)
theory PayrollCalc
  imports PyFloat Calendar
begin

text \<open>
  \<open>app/core/payroll.py\<close>: the salary arithmetic. Amounts are integer minor units
  (paise); ratios and day counts are floats. The definitions follow the functions of the
  module one by one.
\<close>

subsection \<open>Income tax\<close>

definition rupee :: int where
  "rupee = 100"

definition standard_deduction_minor :: int where
  "standard_deduction_minor = 75000 * rupee"

definition rebate_taxable_limit_minor :: int where
  "rebate_taxable_limit_minor = 1200000 * rupee"

text \<open>Slabs: lower bound, upper bound (\<open>None\<close> for no cap), rate in percent.\<close>

type_synonym slab = "int \<times> int option \<times> int"

definition tax_slabs_minor :: "slab list" where
  "tax_slabs_minor =
    [(0, Some (400000 * rupee), 0),
     (400000 * rupee, Some (800000 * rupee), 5),
     (800000 * rupee, Some (1200000 * rupee), 10),
     (1200000 * rupee, Some (1600000 * rupee), 15),
     (1600000 * rupee, Some (2000000 * rupee), 20),
     (2000000 * rupee, Some (2400000 * rupee), 25),
     (2400000 * rupee, None, 30)]"

text \<open>The tax of one slab on the part of the income that lies in it, and the loop over the
  slabs with its \<open>break\<close>.\<close>

definition band_tax :: "int \<Rightarrow> slab \<Rightarrow> int" where
  "band_tax taxable b = (case b of (lower, upper, rate) \<Rightarrow>
     (let band_top = (case upper of Some u \<Rightarrow> min taxable u | None \<Rightarrow> taxable)
      in py_round (int_div ((band_top - lower) * rate) 100)))"

fun slab_tax :: "int \<Rightarrow> slab list \<Rightarrow> int \<Rightarrow> int" where
  "slab_tax taxable [] tax = tax"
| "slab_tax taxable (b # bs) tax =
     (if taxable \<le> fst b then tax else slab_tax taxable bs (tax + band_tax taxable b))"

definition compute_annual_income_tax :: "int \<Rightarrow> int" where
  "compute_annual_income_tax annual_gross_minor =
    (let taxable = max 0 (annual_gross_minor - standard_deduction_minor) in
     if taxable \<le> rebate_taxable_limit_minor then 0
     else min (slab_tax taxable tax_slabs_minor 0) (taxable - rebate_taxable_limit_minor))"

subsection \<open>The monthly slip\<close>

record calc_config =
  basic_pct :: int
  hra_pct :: int
  pf_pct :: int
  pf_cap_minor :: int
  professional_tax_minor :: int
  professional_tax_feb_minor :: int
  deduct_income_tax :: bool
  deduct_pf :: bool

definition default_config :: calc_config where
  "default_config = \<lparr>basic_pct = 30, hra_pct = 50, pf_pct = 12, pf_cap_minor = 180000,
     professional_tax_minor = 20000, professional_tax_feb_minor = 30000,
     deduct_income_tax = True, deduct_pf = True\<rparr>"

record salary_breakdown =
  ctc_minor :: int
  basic_minor :: int
  hra_minor :: int
  special_allowance_minor :: int
  employer_pf_minor :: int
  gross_minor :: int
  employee_pf_minor :: int
  prof_tax_minor :: int
  income_tax_minor :: int
  total_deduction_minor :: int
  net_minor :: int

definition zero_breakdown :: salary_breakdown where
  "zero_breakdown = \<lparr>ctc_minor = 0, basic_minor = 0, hra_minor = 0, special_allowance_minor = 0,
     employer_pf_minor = 0, gross_minor = 0, employee_pf_minor = 0, prof_tax_minor = 0,
     income_tax_minor = 0, total_deduction_minor = 0, net_minor = 0\<rparr>"

text \<open>\<open>round(amount * pct / 100)\<close>.\<close>

definition pct_of :: "int \<Rightarrow> int \<Rightarrow> int" where
  "pct_of amount pct = py_round (int_div (amount * pct) 100)"

definition compute_breakdown :: "int \<Rightarrow> calc_config option \<Rightarrow> int option \<Rightarrow> salary_breakdown" where
  "compute_breakdown monthly_ctc config month =
    (let cfg = (case config of None \<Rightarrow> default_config | Some c \<Rightarrow> c);
         ctc = max 0 monthly_ctc
     in if ctc = 0 then zero_breakdown
        else
          let basic = pct_of ctc (basic_pct cfg);
              pf = (if deduct_pf cfg then min (pct_of basic (pf_pct cfg)) (pf_cap_minor cfg) else 0);
              gross = ctc - pf;
              hra = pct_of basic (hra_pct cfg);
              special = gross - basic - hra;
              prof_tax = (if month = Some 2 then professional_tax_feb_minor cfg
                          else professional_tax_minor cfg);
              income_tax = (if deduct_income_tax cfg
                            then py_round (int_div (compute_annual_income_tax (gross * 12)) 12) else 0);
              total_deduction = pf + prof_tax + income_tax
          in \<lparr>ctc_minor = ctc, basic_minor = basic, hra_minor = hra,
              special_allowance_minor = special, employer_pf_minor = pf, gross_minor = gross,
              employee_pf_minor = pf, prof_tax_minor = prof_tax, income_tax_minor = income_tax,
              total_deduction_minor = total_deduction, net_minor = gross - total_deduction\<rparr>)"

definition monthly_ctc_minor :: "int \<Rightarrow> bool \<Rightarrow> int" where
  "monthly_ctc_minor amount_minor is_annual =
    (if is_annual then py_round (int_div amount_minor 12) else amount_minor)"

subsection \<open>Employer contributions\<close>

definition pf_wage_ceiling_minor :: int where
  "pf_wage_ceiling_minor = 1500000"

definition eps_cap_minor :: int where
  "eps_cap_minor = 125000"

record employer_contribution =
  epf_employer_minor :: int
  eps_minor :: int
  edli_minor :: int
  admin_minor :: int
  total_minor :: int

text \<open>The literals \<open>8.33\<close> and \<open>0.5\<close> are the floats nearest to them; the int operand
  is converted before the product.\<close>

definition employer_contributions :: "int \<Rightarrow> int \<Rightarrow> employer_contribution" where
  "employer_contributions basic_in employee_pf =
    (let basic = max 0 basic_in;
         wage = min basic pf_wage_ceiling_minor;
         eps = (if basic \<ge> pf_wage_ceiling_minor then eps_cap_minor
                else py_round (fdiv (fmul (to_float wage) (fl (833 / 100))) 100));
         epf_employer = max 0 (employee_pf - eps);
         edli = py_round (fdiv (fmul (to_float wage) (1 / 2)) 100);
         admin = py_round (fdiv (fmul (to_float basic) (1 / 2)) 100)
     in \<lparr>epf_employer_minor = epf_employer, eps_minor = eps, edli_minor = edli,
         admin_minor = admin, total_minor = epf_employer + eps + edli + admin\<rparr>)"

subsection \<open>Proration\<close>

definition days_in_month :: "int \<Rightarrow> int \<Rightarrow> int" where
  "days_in_month year month = month_len year month"

definition attendance_ratio :: "pyfloat \<Rightarrow> int \<Rightarrow> pyfloat" where
  "attendance_ratio payable_days total_days =
    (if total_days \<le> 0 then 1 else min 1 (max 0 (fdiv payable_days (to_float total_days))))"

text \<open>The local function \<open>scale\<close> of \<open>prorate_breakdown\<close>: \<open>round(minor * ratio)\<close>.\<close>

definition scale_minor :: "pyfloat \<Rightarrow> int \<Rightarrow> int" where
  "scale_minor ratio minor = py_round (fmul (to_float minor) ratio)"

definition prorate_breakdown :: "salary_breakdown \<Rightarrow> pyfloat \<Rightarrow> int \<Rightarrow> salary_breakdown" where
  "prorate_breakdown b payable_days total_days =
    (let ratio = attendance_ratio payable_days total_days
     in if ratio = 0 then zero_breakdown
        else
          let employee_pf = scale_minor ratio (employee_pf_minor b);
              prof_tax = prof_tax_minor b;
              income_tax = income_tax_minor b;
              total_deduction = employee_pf + prof_tax + income_tax;
              gross = scale_minor ratio (gross_minor b)
          in \<lparr>ctc_minor = scale_minor ratio (ctc_minor b),
              basic_minor = scale_minor ratio (basic_minor b),
              hra_minor = scale_minor ratio (hra_minor b),
              special_allowance_minor = scale_minor ratio (special_allowance_minor b),
              employer_pf_minor = scale_minor ratio (employer_pf_minor b),
              gross_minor = gross, employee_pf_minor = employee_pf, prof_tax_minor = prof_tax,
              income_tax_minor = income_tax, total_deduction_minor = total_deduction,
              net_minor = gross - total_deduction\<rparr>)"

definition payroll_window :: "int \<Rightarrow> int \<Rightarrow> date option \<Rightarrow> date \<times> date" where
  "payroll_window year month hire_date =
    (let first = mk_date year month 1; last = mk_date year month (days_in_month year month)
     in case hire_date of Some h \<Rightarrow> if h > first then (h, last) else (first, last)
        | None \<Rightarrow> (first, last))"

definition payable_base_days :: "int \<Rightarrow> int \<Rightarrow> date option \<Rightarrow> int" where
  "payable_base_days year month hire_date =
    (case payroll_window year month hire_date of (start, stop) \<Rightarrow>
      if stop \<ge> start then stop - start + 1 else 0)"

subsection \<open>Working days\<close>

definition saturday :: int where
  "saturday = 5"

definition saturdays_off :: "int list" where
  "saturdays_off = [2, 4]"

definition policy_effective_date :: date where
  "policy_effective_date = mk_date 2026 9 7"

definition is_working_saturday :: "date \<Rightarrow> bool" where
  "is_working_saturday day \<longleftrightarrow> (day_of day - 1) div 7 + 1 \<notin> set saturdays_off"

definition is_working_day :: "date \<Rightarrow> int \<Rightarrow> bool" where
  "is_working_day day working_days_per_week \<longleftrightarrow>
    (if weekday day \<ge> working_days_per_week then False
     else if working_days_per_week = 6 \<and> weekday day = saturday \<and> day \<ge> policy_effective_date
     then is_working_saturday day
     else True)"

definition weekdays_in_month :: "int \<Rightarrow> int \<Rightarrow> int \<Rightarrow> date list" where
  "weekdays_in_month year month working_days_per_week =
    filter (\<lambda>d. is_working_day d working_days_per_week)
      (map (mk_date year month) [1..month_len year month])"

text \<open>The \<open>while\<close> loop of \<open>working_days_between\<close>: a cursor that walks to \<open>end\<close>.
  The set of holidays is given by its members.\<close>

function count_working :: "date \<Rightarrow> date \<Rightarrow> date list \<Rightarrow> int \<Rightarrow> int \<Rightarrow> int" where
  "count_working current stop holidays wpw acc =
    (if current \<le> stop
     then count_working (current + 1) stop holidays wpw
            (if is_working_day current wpw \<and> current \<notin> set holidays then acc + 1 else acc)
     else acc)"
  by pat_completeness auto
termination
  by (relation "measure (\<lambda>(c, e, _). nat (e - c + 1))") auto

declare count_working.simps [simp del]

definition working_days_between :: "date \<Rightarrow> date \<Rightarrow> date list \<Rightarrow> int \<Rightarrow> int" where
  "working_days_between start stop holidays wpw =
    (if stop < start then 0 else count_working start stop holidays wpw 0)"

subsection \<open>Rounded percentages\<close>

lemma pct_of_exact: "\<bar>m * r\<bar> < 2 ^ 52 \<Longrightarrow> pct_of m r = rhe (of_int (m * r) / 100)"
  using py_round_int_div[of 100 "m * r"] by (simp add: pct_of_def)

lemma pct_of_bounds:
  assumes "\<bar>m * r\<bar> < 2 ^ 52"
  shows "100 * pct_of m r \<le> m * r + 50" "m * r - 50 \<le> 100 * pct_of m r"
proof -
  let ?q = "of_int (m * r) / 100 :: rat"
  have "of_int (pct_of m r) - 1 / 2 \<le> ?q" "?q \<le> of_int (pct_of m r) + 1 / 2"
    using rhe_bounds[of ?q] by (simp_all only: pct_of_exact[OF assms])
  then have "(of_int (100 * pct_of m r) :: rat) \<le> of_int (m * r + 50)"
      "(of_int (m * r - 50) :: rat) \<le> of_int (100 * pct_of m r)" by simp_all
  then show "100 * pct_of m r \<le> m * r + 50" "m * r - 50 \<le> 100 * pct_of m r"
    by (simp_all only: of_int_le_iff)
qed

lemma pct_of_0 [simp]: "pct_of 0 r = 0"
  by (simp add: pct_of_def int_div_def py_round_def)

lemma pct_of_nonneg: "0 \<le> m \<Longrightarrow> 0 \<le> r \<Longrightarrow> 0 \<le> pct_of m r"
  by (simp add: pct_of_def int_div_def flr.rnd_nonneg)

lemma pct_of_le: "0 \<le> m \<Longrightarrow> m \<le> 2 ^ 53 \<Longrightarrow> 0 \<le> r \<Longrightarrow> r \<le> 100 \<Longrightarrow> pct_of m r \<le> m"
proof -
  assume *: "0 \<le> m" "m \<le> 2 ^ 53" "0 \<le> r" "r \<le> 100"
  then have "m * r \<le> m * 100" by (intro mult_left_mono)
  then have "(of_int (m * r) :: rat) \<le> of_int (m * 100)" by (simp only: of_int_le_iff)
  then have "of_int (m * r) / of_int 100 \<le> (of_int m :: rat)" by simp
  then show ?thesis unfolding pct_of_def int_div_def using * by (intro flr.rnd_le) simp_all
qed

lemma pct_of_mono: "m \<le> m' \<Longrightarrow> 0 \<le> r \<Longrightarrow> pct_of m r \<le> pct_of m' r"
  unfolding pct_of_def int_div_def
  by (intro flr.rnd_mono divide_right_mono) (simp_all add: mult_right_mono flip: of_int_mult)

lemma pct_of_step:
  assumes "0 \<le> m" "0 \<le> r" "r < 100" "(m + 1) * r < 2 ^ 52"
  shows "0 \<le> pct_of (m + 1) r - pct_of m r" "pct_of (m + 1) r - pct_of m r \<le> 1"
proof -
  have n: "0 \<le> m * r" "(m + 1) * r = m * r + r" using assms by (simp_all add: distrib_right)
  show "0 \<le> pct_of (m + 1) r - pct_of m r" using pct_of_mono[of m "m + 1" r] assms by simp
  have "100 * pct_of (m + 1) r \<le> m * r + r + 50" using pct_of_bounds(1)[of "m + 1" r] n assms by simp
  moreover have "m * r - 50 \<le> 100 * pct_of m r" using n assms by (intro pct_of_bounds(2)) simp
  ultimately show "pct_of (m + 1) r - pct_of m r \<le> 1" using assms by linarith
qed

subsection \<open>Income tax: steps of at most one minor unit\<close>

text \<open>Slabs that start at \<open>lo\<close> and follow each other without a gap.\<close>

fun contiguous :: "int \<Rightarrow> slab list \<Rightarrow> bool" where
  "contiguous lo [] \<longleftrightarrow> True"
| "contiguous lo ((l, u, r) # bs) \<longleftrightarrow> l = lo \<and> 0 \<le> r \<and> r \<le> 30 \<and>
     (case u of None \<Rightarrow> bs = [] | Some v \<Rightarrow> l < v \<and> contiguous v bs)"

lemma contiguous_slabs: "contiguous 0 tax_slabs_minor"
  by (simp add: tax_slabs_minor_def rupee_def)

lemma slab_tax_acc: "slab_tax t bs a = a + slab_tax t bs 0"
proof (induction bs arbitrary: a)
  case (Cons b bs)
  show ?case using Cons[of "a + band_tax t b"] Cons[of "band_tax t b"] by simp
qed simp

lemma slab_tax_below: "contiguous lo bs \<Longrightarrow> t \<le> lo \<Longrightarrow> slab_tax t bs a = a"
  by (cases bs) auto

lemma band_tax_pct: "band_tax t (l, u, r) = pct_of ((case u of Some v \<Rightarrow> min t v | None \<Rightarrow> t) - l) r"
  by (simp add: band_tax_def pct_of_def Let_def)

lemma slab_tax_step:
  "contiguous lo bs \<Longrightarrow> 0 \<le> lo \<Longrightarrow> lo \<le> t \<Longrightarrow> t < 2 ^ 46 \<Longrightarrow>
   0 \<le> slab_tax (t + 1) bs 0 - slab_tax t bs 0 \<and> slab_tax (t + 1) bs 0 - slab_tax t bs 0 \<le> 1"
proof (induction bs arbitrary: lo)
  case (Cons b bs)
  obtain u r where b: "b = (lo, u, r)" and r: "0 \<le> r" "r \<le> 30"
    using Cons.prems(1) by (cases b) auto
  define top where "top = (\<lambda>t. case u of Some v \<Rightarrow> min t v | None \<Rightarrow> t)"
  have band: "band_tax t b = pct_of (top t - lo) r" for t
    by (simp add: b band_tax_pct top_def)
  have z: "band_tax lo b = 0"
    unfolding band using Cons.prems(1) by (auto simp: top_def b split: option.splits)
  have take: "slab_tax s (b # bs) 0 = band_tax s b + slab_tax s bs 0" if "lo \<le> s" for s
  proof (cases "s = lo")
    case True
    have "slab_tax lo bs 0 = 0"
    proof (cases u)
      case None then show ?thesis using Cons.prems by (simp add: b)
    next
      case (Some v) then show ?thesis using Cons.prems by (auto simp: b intro!: slab_tax_below[of v])
    qed
    with z show ?thesis using True by (simp add: b)
  next
    case False
    with that show ?thesis using slab_tax_acc[of s bs "band_tax s b"] by (simp add: b)
  qed
  have inside: ?case if rest: "slab_tax (t + 1) bs 0 = 0" "slab_tax t bs 0 = 0"
      and tops: "top t = t" "top (t + 1) = t + 1"
  proof -
    have "(t + 1 - lo) * r \<le> (t + 1 - lo) * 30" using r Cons.prems by (intro mult_left_mono) simp_all
    then have "(t - lo + 1) * r < 2 ^ 52" using Cons.prems by (simp add: algebra_simps)
    then have st: "0 \<le> pct_of (t - lo + 1) r - pct_of (t - lo) r"
        "pct_of (t - lo + 1) r - pct_of (t - lo) r \<le> 1"
      using pct_of_step[of "t - lo" r] r Cons.prems by simp_all
    have eq: "t + 1 - lo = t - lo + 1" by simp
    have "slab_tax (t + 1) (b # bs) 0 = pct_of (t - lo + 1) r"
      using take[of "t + 1"] rest(1) Cons.prems(3) unfolding band tops eq by simp
    moreover have "slab_tax t (b # bs) 0 = pct_of (t - lo) r"
      using take[of t] rest(2) Cons.prems(3) unfolding band tops by simp
    ultimately show ?thesis using st by simp
  qed
  show ?case
  proof (cases u)
    case None
    then show ?thesis using Cons.prems by (intro inside) (simp_all add: b top_def)
  next
    case (Some v)
    then have v: "lo < v" "contiguous v bs" using Cons.prems(1) by (simp_all add: b)
    show ?thesis
    proof (cases "t < v")
      case True
      then show ?thesis using v Some
        by (intro inside) (simp_all add: top_def slab_tax_below[of v])
    next
      case False
      then have "band_tax (t + 1) b = band_tax t b" by (simp add: band top_def Some)
      moreover have "0 \<le> v" using v Cons.prems by simp
      ultimately show ?thesis
        using Cons.IH[OF v(2)] False Cons.prems take[of t] take[of "t + 1"] by simp
    qed
  qed
qed simp

lemma slab_tax_nonneg:
  assumes "0 \<le> t" "t \<le> 2 ^ 46"
  shows "0 \<le> slab_tax t tax_slabs_minor 0"
  using assms
proof (induction t rule: int_ge_induct)
  case base
  show ?case using slab_tax_below[OF contiguous_slabs] by simp
next
  case (step t)
  then show ?case using slab_tax_step[OF contiguous_slabs, of t] by simp
qed

lemma annual_tax_step:
  assumes "g < 2 ^ 46"
  shows "0 \<le> compute_annual_income_tax (g + 1) - compute_annual_income_tax g
    \<and> compute_annual_income_tax (g + 1) - compute_annual_income_tax g \<le> 1"
proof (cases "g < standard_deduction_minor")
  case True
  then show ?thesis
    by (simp add: compute_annual_income_tax_def rebate_taxable_limit_minor_def rupee_def)
next
  case False
  define t L where "t = g - standard_deduction_minor" and "L = rebate_taxable_limit_minor"
  have t: "0 \<le> t" "t < 2 ^ 46" using False assms by (simp_all add: t_def standard_deduction_minor_def rupee_def)
  define S where "S = (\<lambda>t. slab_tax t tax_slabs_minor 0)"
  have tx: "compute_annual_income_tax g = (if t \<le> L then 0 else min (S t) (t - L))"
    "compute_annual_income_tax (g + 1) = (if t + 1 \<le> L then 0 else min (S (t + 1)) (t + 1 - L))"
    using t by (simp_all add: compute_annual_income_tax_def S_def t_def L_def Let_def max_def algebra_simps)
  have st: "0 \<le> S (t + 1) - S t" "S (t + 1) - S t \<le> 1"
    using slab_tax_step[OF contiguous_slabs, of t] t by (simp_all add: S_def)
  have s0: "0 \<le> S t" using slab_tax_nonneg[of t] t by (simp add: S_def)
  show ?thesis using st s0 by (auto simp: tx min_def)
qed

lemma annual_tax_mono:
  assumes "g \<le> g'" "g' \<le> 2 ^ 46"
  shows "compute_annual_income_tax g \<le> compute_annual_income_tax g'
    \<and> g - compute_annual_income_tax g \<le> g' - compute_annual_income_tax g'"
  using assms
proof (induction g' rule: int_ge_induct)
  case (step h)
  then show ?case using annual_tax_step[of h] by simp
qed simp

lemma annual_tax_nonneg: "g \<le> 2 ^ 46 \<Longrightarrow> 0 \<le> compute_annual_income_tax g"
  using slab_tax_nonneg[of "g - standard_deduction_minor"]
  by (auto simp: compute_annual_income_tax_def Let_def standard_deduction_minor_def rupee_def
      rebate_taxable_limit_minor_def)

lemma annual_tax_relief:
  "compute_annual_income_tax g \<le> max 0 (g - standard_deduction_minor - rebate_taxable_limit_minor)"
  by (auto simp: compute_annual_income_tax_def Let_def max_def standard_deduction_minor_def
      rebate_taxable_limit_minor_def rupee_def)

subsection \<open>The slip\<close>

text \<open>The lines of a slip fit together.\<close>

definition slip_ok :: "salary_breakdown \<Rightarrow> bool" where
  "slip_ok b \<longleftrightarrow> basic_minor b + hra_minor b + special_allowance_minor b = gross_minor b
     \<and> gross_minor b + employer_pf_minor b = ctc_minor b
     \<and> employer_pf_minor b = employee_pf_minor b
     \<and> total_deduction_minor b = employee_pf_minor b + prof_tax_minor b + income_tax_minor b
     \<and> net_minor b = gross_minor b - total_deduction_minor b"

lemma slip_ok_zero [simp]: "slip_ok zero_breakdown"
  by (simp add: slip_ok_def zero_breakdown_def)

lemma slip_ok_compute: "slip_ok (compute_breakdown c cfg m)"
  by (simp add: compute_breakdown_def slip_ok_def zero_breakdown_def Let_def)

text \<open>The bounds that \<open>PayrollSettingsUpdate\<close> puts on the settings.\<close>

definition config_ok :: "calc_config \<Rightarrow> bool" where
  "config_ok c \<longleftrightarrow> 0 \<le> basic_pct c \<and> basic_pct c \<le> 100 \<and> 0 \<le> hra_pct c \<and> hra_pct c \<le> 200
     \<and> 0 \<le> pf_pct c \<and> pf_pct c \<le> 100 \<and> 0 \<le> pf_cap_minor c
     \<and> 0 \<le> professional_tax_minor c \<and> 0 \<le> professional_tax_feb_minor c"

lemma config_ok_default [simp]: "config_ok default_config"
  by (simp add: config_ok_def default_config_def)

text \<open>The lines of a slip whose CTC is positive.\<close>

definition pf_of :: "int \<Rightarrow> calc_config \<Rightarrow> int" where
  "pf_of ctc c = (if deduct_pf c
     then min (pct_of (pct_of ctc (basic_pct c)) (pf_pct c)) (pf_cap_minor c) else 0)"

lemma breakdown_lines:
  fixes ctc :: int and c :: calc_config
  assumes "0 < ctc"
  defines "b \<equiv> compute_breakdown ctc (Some c)"
  shows "ctc_minor (b m) = ctc" "basic_minor (b m) = pct_of ctc (basic_pct c)"
    "employee_pf_minor (b m) = pf_of ctc c" "gross_minor (b m) = ctc - pf_of ctc c"
    "hra_minor (b m) = pct_of (basic_minor (b m)) (hra_pct c)"
    "prof_tax_minor (b m) = (if m = Some 2 then professional_tax_feb_minor c else professional_tax_minor c)"
    "income_tax_minor (b m) = (if deduct_income_tax c
       then py_round (int_div (compute_annual_income_tax (gross_minor (b m) * 12)) 12) else 0)"
  using assms by (simp_all add: compute_breakdown_def Let_def max_def pf_of_def)

lemma breakdown_nonneg:
  assumes "config_ok c" "0 < ctc" "ctc \<le> 2 ^ 41"
  defines "b \<equiv> compute_breakdown ctc (Some c)"
  shows "0 \<le> basic_minor (b m) \<and> basic_minor (b m) \<le> ctc \<and> 0 \<le> hra_minor (b m)
    \<and> 0 \<le> employee_pf_minor (b m) \<and> employee_pf_minor (b m) \<le> basic_minor (b m)
    \<and> 0 \<le> gross_minor (b m) \<and> gross_minor (b m) \<le> ctc
    \<and> 0 \<le> prof_tax_minor (b m) \<and> 0 \<le> income_tax_minor (b m)"
proof -
  note c = assms(1)[unfolded config_ok_def]
  let ?basic = "pct_of ctc (basic_pct c)"
  have basic: "0 \<le> ?basic" "?basic \<le> ctc"
    using assms(2,3) c by (auto intro!: pct_of_nonneg pct_of_le)
  have "pct_of ?basic (pf_pct c) \<le> ?basic" "0 \<le> pct_of ?basic (pf_pct c)"
    using basic assms(3) c by (auto intro!: pct_of_nonneg pct_of_le)
  then have pf: "0 \<le> pf_of ctc c" "pf_of ctc c \<le> ?basic"
    using basic c by (auto simp: pf_of_def)
  have hra: "0 \<le> pct_of ?basic (hra_pct c)" using basic c by (auto intro!: pct_of_nonneg)
  have "0 \<le> compute_annual_income_tax ((ctc - pf_of ctc c) * 12)"
    using pf basic assms(3) by (intro annual_tax_nonneg) simp
  then have tax: "0 \<le> py_round (int_div (compute_annual_income_tax ((ctc - pf_of ctc c) * 12)) 12)"
    by (simp add: int_div_def flr.rnd_nonneg)
  show ?thesis
    unfolding b_def breakdown_lines[OF assms(2)] using basic pf hra tax c by auto
qed

text \<open>With the default percentages the balancing figure is never negative either.\<close>

lemma default_special_nonneg:
  assumes "ctc \<le> 2 ^ 41"
  shows "0 \<le> special_allowance_minor (compute_breakdown ctc None m)"
proof (cases "ctc \<le> 0")
  case True
  then show ?thesis by (simp add: compute_breakdown_def zero_breakdown_def Let_def)
next
  case False
  define basic where "basic = pct_of ctc 30"
  define pf where "pf = min (pct_of basic 12) 180000"
  have sp: "special_allowance_minor (compute_breakdown ctc None m) = ctc - pf - basic - pct_of basic 50"
    using False by (simp add: compute_breakdown_def Let_def basic_def pf_def max_def default_config_def)
  have b: "0 \<le> basic" "basic \<le> ctc" using False assms by (auto simp: basic_def intro!: pct_of_nonneg pct_of_le)
  have 1: "100 * basic \<le> ctc * 30 + 50" unfolding basic_def using False assms by (intro pct_of_bounds) simp
  have 2: "100 * pct_of basic 50 \<le> basic * 50 + 50" using b assms by (intro pct_of_bounds) simp
  have 3: "100 * pct_of basic 12 \<le> basic * 12 + 50" using b assms by (intro pct_of_bounds) simp
  have pf: "pf \<le> pct_of basic 12" by (simp add: pf_def)
  show ?thesis
  proof (cases "ctc \<le> 3")
    case True
    then have "basic \<le> 1" using 1 by linarith
    moreover have "pct_of 1 50 = 0" "pct_of 1 12 = 0" by code_simp+
    ultimately have "pct_of basic 50 \<le> 0" "pct_of basic 12 \<le> 0"
      using b pct_of_mono[of basic 1 50] pct_of_mono[of basic 1 12] by simp_all
    then show ?thesis using sp pf b by linarith
  next
    case False
    then show ?thesis using sp pf 1 2 3 by linarith
  qed
qed

text \<open>Twelve monthly withholdings miss the annual tax by at most six minor units.\<close>

lemma monthly_withholding_close:
  assumes "0 \<le> t" "t < 2 ^ 52"
  shows "\<bar>12 * py_round (int_div t 12) - t\<bar> \<le> 6"
proof -
  let ?q = "of_int t / of_int 12 :: rat"
  have r: "py_round (int_div t 12) = rhe ?q" using assms by (intro py_round_int_div) simp_all
  have "of_int (rhe ?q) - 1 / 2 \<le> ?q" "?q \<le> of_int (rhe ?q) + 1 / 2" by (rule rhe_bounds)+
  then have "(of_int (12 * rhe ?q) :: rat) \<le> of_int (t + 6)" "(of_int (t - 6) :: rat) \<le> of_int (12 * rhe ?q)"
    by simp_all
  then have "12 * rhe ?q \<le> t + 6" "t - 6 \<le> 12 * rhe ?q" by (simp_all only: of_int_le_iff)
  then show ?thesis unfolding r by linarith
qed

end
