(* ===== verification/PayrollLaws.thy ===== *)
theory PayrollLaws
  imports PayrollCalc
begin

text \<open>
  What the salary arithmetic of \<open>PayrollCalc\<close> guarantees beyond a single slip:
  proration, the payroll window, the working-day count and the employer's side.
\<close>

subsection \<open>The share of the month\<close>

lemma to_float_exact [simp]: "\<bar>n\<bar> \<le> 2 ^ 53 \<Longrightarrow> to_float n = of_int n"
  by (simp add: to_float_def)

lemma to_float_mono: "m \<le> n \<Longrightarrow> to_float m \<le> to_float n"
  by (simp add: to_float_def fl_mono)

lemma to_float_pos: "0 < t \<Longrightarrow> 1 \<le> to_float t"
  using to_float_mono[of 1 t] by simp

lemma attendance_ratio_bounds: "0 \<le> attendance_ratio p t" "attendance_ratio p t \<le> 1"
  by (simp_all add: attendance_ratio_def)

lemma attendance_ratio_mono: "p \<le> q \<Longrightarrow> attendance_ratio p t \<le> attendance_ratio q t"
proof (cases "t \<le> 0")
  case False
  assume "p \<le> q"
  then have "fdiv p (to_float t) \<le> fdiv q (to_float t)"
    using to_float_pos[of t] False unfolding fdiv_def by (intro fl_mono divide_right_mono) simp_all
  then show ?thesis using False by (simp add: attendance_ratio_def min_def max_def)
qed (simp add: attendance_ratio_def)

lemma attendance_ratio_full:
  assumes "0 < t" "t \<le> 2 ^ 53" "of_int t \<le> p"
  shows "attendance_ratio p t = 1"
proof -
  have "of_int 1 \<le> p / of_int t" using assms by simp
  then have "1 \<le> fdiv p (to_float t)"
    using of_int_le_fl[of 1 "p / of_int t"] assms by (simp add: fdiv_def)
  then show ?thesis using assms by (simp add: attendance_ratio_def)
qed

lemma attendance_ratio_none:
  assumes "0 < t" "p \<le> 0"
  shows "attendance_ratio p t = 0"
proof -
  have "p / to_float t \<le> of_int 0"
    using assms to_float_pos[of t] by (simp add: divide_le_0_iff)
  then have "fdiv p (to_float t) \<le> 0" using fl_le_of_int[of 0] by (simp add: fdiv_def)
  then show ?thesis using assms by (simp add: attendance_ratio_def)
qed

subsection \<open>Scaling an amount\<close>

text \<open>
  What proration needs of the function that scales one line: it is monotone, leaves zero
  alone and never makes an amount of realistic size larger.
\<close>

locale salary_scale =
  fixes scale :: "int \<Rightarrow> int" and lim :: int
  assumes scale_0: "scale 0 = 0"
    and scale_mono: "a \<le> b \<Longrightarrow> scale a \<le> scale b"
    and scale_le: "0 \<le> a \<Longrightarrow> a \<le> lim \<Longrightarrow> scale a \<le> a"
begin

lemma scale_nonneg: "0 \<le> a \<Longrightarrow> 0 \<le> scale a"
  using scale_mono[of 0 a] scale_0 by simp

lemma scale_within: "0 \<le> a \<Longrightarrow> a \<le> b \<Longrightarrow> b \<le> lim \<Longrightarrow> 0 \<le> scale a \<and> scale a \<le> scale b \<and> scale b \<le> b"
  using scale_nonneg scale_mono scale_le by auto

end

lemma scale_minor_mono_amount: "0 \<le> r \<Longrightarrow> a \<le> b \<Longrightarrow> scale_minor r a \<le> scale_minor r b"
  unfolding scale_minor_def fmul_def
  by (intro flr.rnd_mono mult_right_mono to_float_mono)

lemma scale_minor_mono_ratio: "0 \<le> a \<Longrightarrow> r \<le> r' \<Longrightarrow> scale_minor r a \<le> scale_minor r' a"
  unfolding scale_minor_def fmul_def using to_float_mono[of 0 a]
  by (intro flr.rnd_mono mult_left_mono) simp_all

lemma scale_minor_le:
  assumes "0 \<le> r" "r \<le> 1" "0 \<le> a" "a \<le> 2 ^ 53"
  shows "scale_minor r a \<le> a"
proof -
  have "of_int a * r \<le> of_int a * 1" using assms by (intro mult_left_mono) simp_all
  then show ?thesis using assms unfolding scale_minor_def fmul_def by (intro flr.rnd_le) simp_all
qed

lemma scale_minor_1 [simp]: "\<bar>a\<bar> \<le> 2 ^ 53 \<Longrightarrow> scale_minor 1 a = a"
  by (simp add: scale_minor_def fmul_def py_round_def)

interpretation sc: salary_scale "scale_minor (attendance_ratio p t)" "2 ^ 53" for p t
  by unfold_locales
    (auto simp: scale_minor_def[of _ 0] fmul_def py_round_def attendance_ratio_bounds
      intro: scale_minor_mono_amount scale_minor_le)

text \<open>A scaled amount misses the exact product by hardly more than a half.\<close>

lemma scale_minor_close:
  assumes "0 \<le> r" "r \<le> 1" "\<bar>a\<bar> \<le> 2 ^ 41"
  shows "\<bar>of_int (scale_minor r a) - of_int a * r\<bar> \<le> 1 / 2 + 1 / 2 ^ 12"
proof -
  define x where "x = of_int a * r"
  have "\<bar>x\<bar> \<le> \<bar>of_int a\<bar> * 1" unfolding x_def abs_mult using assms by (intro mult_left_mono) simp_all
  also have "\<dots> \<le> 2 ^ 41" using assms(3) by (simp flip: of_int_abs)
  finally have x: "\<bar>x\<bar> \<le> 2 ^ 41" .
  have "\<bar>fl x - x\<bar> \<le> 2 ^ 41 / 2 ^ 53"
    using x by (intro order_trans[OF fl_rel_error divide_right_mono]) simp_all
  then have "\<bar>fl x - x\<bar> \<le> 1 / 2 ^ 12" by simp
  then have "fl x - x \<le> 1 / 2 ^ 12" "x - fl x \<le> 1 / 2 ^ 12" by (simp_all only: abs_le_iff) simp
  moreover have "of_int (rhe (fl x)) - 1 / 2 \<le> fl x" "fl x \<le> of_int (rhe (fl x)) + 1 / 2"
    by (rule rhe_bounds)+
  moreover have "scale_minor r a = rhe (fl x)"
    using assms(3) by (simp add: scale_minor_def fmul_def py_round_def x_def)
  ultimately show ?thesis unfolding x_def[symmetric] by (intro abs_leI) simp_all
qed

lemma abs_sum_close:
  fixes a b c d :: rat
  assumes "\<bar>a - a'\<bar> \<le> e" "\<bar>b - b'\<bar> \<le> e" "\<bar>c - c'\<bar> \<le> e" "\<bar>d - d'\<bar> \<le> e" "a' + b' + c' = d'"
  shows "\<bar>a + b + c - d\<bar> \<le> 4 * e"
  using assms unfolding abs_le_iff by linarith

subsection \<open>Prorated slips\<close>

lemmas prorate_defs = prorate_breakdown_def Let_def zero_breakdown_def

lemma prorate_zero_days: "0 < t \<Longrightarrow> p \<le> 0 \<Longrightarrow> prorate_breakdown b p t = zero_breakdown"
  by (simp add: prorate_breakdown_def attendance_ratio_none)

lemma prorate_full_month:
  assumes "slip_ok b" "0 < t" "t \<le> 2 ^ 53" "of_int t \<le> p"
    and "list_all (\<lambda>f. \<bar>f b\<bar> \<le> 2 ^ 53) [ctc_minor, basic_minor, hra_minor,
      special_allowance_minor, employer_pf_minor, gross_minor, employee_pf_minor]"
  shows "prorate_breakdown b p t = b"
proof -
  have "attendance_ratio p t = 1" using assms by (intro attendance_ratio_full)
  then show ?thesis using assms(1,5)
    by (cases b) (simp add: prorate_breakdown_def Let_def slip_ok_def)
qed

lemma prorate_components:
  fixes p :: pyfloat and t :: int
  assumes "slip_ok b"
    and "list_all (\<lambda>f. \<bar>f b\<bar> \<le> 2 ^ 41) [basic_minor, hra_minor, special_allowance_minor, gross_minor]"
  defines "s \<equiv> prorate_breakdown b p t"
  shows "\<bar>basic_minor s + hra_minor s + special_allowance_minor s - gross_minor s\<bar> \<le> 2"
proof (cases "attendance_ratio p t = 0")
  case True
  then show ?thesis by (simp add: s_def prorate_defs)
next
  case False
  let ?r = "attendance_ratio p t" and ?sc = "\<lambda>a. rat_of_int (scale_minor (attendance_ratio p t) a)"
  have cl: "\<bar>?sc a - of_int a * ?r\<bar> \<le> 1 / 2 + 1 / 2 ^ 12" if "\<bar>a\<bar> \<le> 2 ^ 41" for a
    using scale_minor_close[OF attendance_ratio_bounds that] .
  have "of_int (basic_minor b) + of_int (hra_minor b) + of_int (special_allowance_minor b)
      = (of_int (gross_minor b) :: rat)" using assms(1) by (simp add: slip_ok_def flip: of_int_add)
  then have g: "of_int (basic_minor b) * ?r + of_int (hra_minor b) * ?r
      + of_int (special_allowance_minor b) * ?r = of_int (gross_minor b) * ?r"
    by (metis distrib_right)
  have "\<bar>?sc (basic_minor b) + ?sc (hra_minor b) + ?sc (special_allowance_minor b)
      - ?sc (gross_minor b)\<bar> \<le> 4 * (1 / 2 + 1 / 2 ^ 12)"
    using assms(2) by (intro abs_sum_close[OF cl cl cl cl g]) simp_all
  then have "\<bar>?sc (basic_minor b) + ?sc (hra_minor b) + ?sc (special_allowance_minor b)
      - ?sc (gross_minor b)\<bar> < 3" by simp
  then have "(of_int \<bar>basic_minor s + hra_minor s + special_allowance_minor s - gross_minor s\<bar> :: rat)
      < of_int 3" using False by (simp add: s_def prorate_defs)
  then show ?thesis by (simp only: of_int_less_iff)
qed

lemma prorate_within:
  assumes "0 \<le> a b" "a b \<le> 2 ^ 53" "a \<in> {ctc_minor, basic_minor, hra_minor, special_allowance_minor,
      employer_pf_minor, gross_minor, employee_pf_minor}"
  shows "0 \<le> a (prorate_breakdown b p t) \<and> a (prorate_breakdown b p t) \<le> a b"
  using assms sc.scale_nonneg[of "a b"] sc.scale_le[of "a b"]
  by (auto simp: prorate_defs)

lemma prorate_mono_days:
  assumes "0 \<le> a b" "p \<le> q" "a \<in> {ctc_minor, basic_minor, hra_minor, special_allowance_minor,
      employer_pf_minor, gross_minor, employee_pf_minor}"
  shows "a (prorate_breakdown b p t) \<le> a (prorate_breakdown b q t)"
proof (cases "attendance_ratio p t = 0")
  case True
  then show ?thesis using assms sc.scale_nonneg[of "a b" q t] by (auto simp: prorate_defs)
next
  case False
  have r: "attendance_ratio p t \<le> attendance_ratio q t" using assms(2) by (rule attendance_ratio_mono)
  then have "attendance_ratio q t \<noteq> 0" using False attendance_ratio_bounds(1)[of p t] by auto
  then show ?thesis using assms(1,3) False scale_minor_mono_ratio[OF assms(1) r]
    by (auto simp: prorate_defs)
qed

subsection \<open>The payroll window\<close>

lemma payable_base_days_cases:
  assumes "1 \<le> m" "m \<le> 12"
  shows "payable_base_days y m None = days_in_month y m"
    and "payable_base_days y m (Some h) =
      (if h \<le> mk_date y m 1 then days_in_month y m
       else max 0 (mk_date y m (days_in_month y m) - h + 1))"
  using month_len_bounds[of y m]
  by (auto simp: payable_base_days_def payroll_window_def Let_def days_in_month_def mk_date_def)

lemma payable_base_days_bounds:
  assumes "1 \<le> m" "m \<le> 12"
  shows "0 \<le> payable_base_days y m h \<and> payable_base_days y m h \<le> days_in_month y m"
  using month_len_bounds[of y m] payable_base_days_cases[OF assms]
  by (cases h) (auto simp: days_in_month_def mk_date_def)

subsection \<open>Counting working days\<close>

definition counted_days :: "date \<Rightarrow> date \<Rightarrow> date list \<Rightarrow> int \<Rightarrow> date list" where
  "counted_days start stop hs w = filter (\<lambda>d. is_working_day d w \<and> d \<notin> set hs) [start..stop]"

lemma count_working_filter:
  "count_working c e hs w acc = acc + int (length (counted_days c e hs w))"
proof (induction c e hs w acc rule: count_working.induct)
  case (1 c e hs w acc)
  show ?case
  proof (cases "c \<le> e")
    case True
    then show ?thesis using 1
      by (subst count_working.simps) (simp add: counted_days_def upto_rec1[of c e])
  next
    case False
    then show ?thesis by (subst count_working.simps) (simp add: counted_days_def)
  qed
qed

lemma working_days_between_filter:
  "working_days_between s e hs w = int (length (counted_days s e hs w))"
  by (simp add: working_days_between_def count_working_filter counted_days_def)

lemma counted_days_split:
  assumes "s \<le> k + 1" "k \<le> e"
  shows "counted_days s e hs w = counted_days s k hs w @ counted_days (k + 1) e hs w"
proof (cases "s \<le> k")
  case True
  then show ?thesis using assms upto_split2[of s k e] by (simp add: counted_days_def)
next
  case False
  then have "s = k + 1" using assms by simp
  then show ?thesis by (simp add: counted_days_def)
qed

lemma counted_days_less: "length (counted_days s e hs w) \<le> nat (e - s + 1)"
  unfolding counted_days_def by (rule order_trans[OF length_filter_le]) simp

lemma length_filter_imp: "(\<And>x. x \<in> set xs \<Longrightarrow> P x \<Longrightarrow> Q x) \<Longrightarrow> length (filter P xs) \<le> length (filter Q xs)"
  by (induction xs) (auto intro: le_SucI)

lemma counted_days_antimono:
  "set hs \<subseteq> set hs' \<Longrightarrow> length (counted_days s e hs' w) \<le> length (counted_days s e hs w)"
  unfolding counted_days_def by (rule length_filter_imp) auto

lemma month_dates: "map (mk_date y m) [1..k] = [mk_date y m 1..mk_date y m k]"
proof (cases "1 \<le> k")
  case True
  then show ?thesis
  proof (induction k rule: int_ge_induct)
    case base
    show ?case by simp
  next
    case (step k)
    have "[1..k + 1] = [1..k] @ [k + 1]" using step(1) upto_rec2[of 1 "k + 1"] by simp
    moreover have "mk_date y m (k + 1) = mk_date y m k + 1" by (simp add: mk_date_def)
    moreover have "[mk_date y m 1..mk_date y m k + 1] = [mk_date y m 1..mk_date y m k] @ [mk_date y m k + 1]"
      using step(1) upto_rec2[of "mk_date y m 1" "mk_date y m k + 1"] by (simp add: mk_date_def)
    ultimately show ?case using step(2) by simp
  qed
qed (simp add: mk_date_def)

lemma weekdays_in_month_counted:
  "weekdays_in_month y m w = counted_days (mk_date y m 1) (mk_date y m (month_len y m)) [] w"
  by (simp add: weekdays_in_month_def counted_days_def month_dates)

subsection \<open>The six-day week\<close>

text \<open>Any seven days in a row hold exactly one Saturday.\<close>

lemma one_saturday:
  "length (filter (\<lambda>d. weekday d = saturday) [a, a + 1, a + 2, a + 3, a + 4, a + 5, a + 6]) = 1"
proof -
  define r where "r = (a + 6) mod 7"
  have "r = 0 \<or> r = 1 \<or> r = 2 \<or> r = 3 \<or> r = 4 \<or> r = 5 \<or> r = 6"
    unfolding r_def by presburger
  moreover have "weekday (a + k) = (r + k) mod 7" for k
    by (simp add: weekday_def r_def mod_simps algebra_simps)
  moreover have "weekday a = r" by (simp add: weekday_def r_def)
  ultimately show ?thesis by (elim disjE) (simp_all add: saturday_def)
qed

lemma off_saturday_iff:
  "is_working_saturday d \<longleftrightarrow> \<not> (8 \<le> day_of d \<and> day_of d \<le> 14 \<or> 22 \<le> day_of d \<and> day_of d \<le> 28)"
  unfolding is_working_saturday_def saturdays_off_def by simp linarith

lemma six_day_week:
  assumes "policy_effective_date \<le> d"
  shows "is_working_day d 6 \<longleftrightarrow> weekday d \<noteq> 6 \<and>
    (weekday d = saturday \<longrightarrow> \<not> (8 \<le> day_of d \<and> day_of d \<le> 14 \<or> 22 \<le> day_of d \<and> day_of d \<le> 28))"
  using assms by (auto simp: is_working_day_def off_saturday_iff weekday_def saturday_def)

text \<open>The Saturdays of a month that are off: two, whatever the month.\<close>

lemma filter_seven: "[k..k + 6] = [k, k + 1, k + 2, k + 3, k + 4, k + 5, k + (6 :: int)]"
  by (simp add: upto_rec1)

lemma off_saturdays_length:
  assumes "1 \<le> m" "m \<le> 12" "policy_effective_date \<le> mk_date y m 1"
  shows "length (filter (\<lambda>d. weekday d = saturday \<and> \<not> is_working_day d 6)
    [mk_date y m 1..mk_date y m (month_len y m)]) = 2"
proof -
  define a where "a = mk_date y m 1"
  define n where "n = month_len y m"
  define off where "off = (\<lambda>d. weekday d = saturday \<and> \<not> is_working_day d 6)"
  have n: "28 \<le> n" using month_len_bounds[of y m] by (simp add: n_def)
  have dd: "mk_date y m k = a + k - 1" for k by (simp add: a_def mk_date_def)
  have day: "day_of (a + i) = i + 1" if "0 \<le> i" "i < n" for i
    using of_mk_date(3)[of y m "i + 1"] that assms by (simp add: dd valid_ymd_def n_def)
  have off: "off (a + i) \<longleftrightarrow> weekday (a + i) = saturday \<and> (7 \<le> i \<and> i \<le> 13 \<or> 21 \<le> i \<and> i \<le> 27)"
    if "0 \<le> i" "i < n" for i
    using six_day_week[of "a + i"] day[OF that] that assms(3)
    by (auto simp: off_def a_def saturday_def)
  define L where "L = (\<lambda>i j. length (filter off [a + i..a + j]))"
  have split: "L i k = L i j + L (j + 1) k" if "i \<le> j + 1" "j \<le> k" for i j k
    using that upto_split2[of "a + i" "a + j" "a + k"]
    by (cases "i = j + 1") (simp_all add: L_def add.assoc)
  have none: "L i j = 0" if "0 \<le> i" "j < n" "\<And>k. i \<le> k \<Longrightarrow> k \<le> j \<Longrightarrow> \<not> (7 \<le> k \<and> k \<le> 13 \<or> 21 \<le> k \<and> k \<le> 27)" for i j
  proof -
    have "\<not> off d" if "a + i \<le> d" "d \<le> a + j" for d
      using off[of "d - a"] that \<open>0 \<le> i\<close> \<open>j < n\<close>
        \<open>\<And>k. i \<le> k \<Longrightarrow> k \<le> j \<Longrightarrow> \<not> (7 \<le> k \<and> k \<le> 13 \<or> 21 \<le> k \<and> k \<le> 27)\<close>[of "d - a"] by simp
    then show ?thesis by (simp add: L_def filter_empty_conv)
  qed
  have one: "L i (i + 6) = 1" if "i = 7 \<or> i = 21" for i
  proof -
    have "filter off [a + i..a + (i + 6)] = filter (\<lambda>d. weekday d = saturday) [a + i..a + i + 6]"
    proof (rule filter_cong)
      fix d assume "d \<in> set [a + i..a + i + 6]"
      then show "off d = (weekday d = saturday)" using off[of "d - a"] that n by auto
    qed (simp add: add.assoc)
    then show ?thesis using one_saturday[of "a + i"] by (simp only: L_def filter_seven)
  qed
  have "L 0 (n - 1) = L 0 6 + (L 7 13 + (L 14 20 + (L 21 27 + L 28 (n - 1))))"
    using n split[of 0 6 "n - 1"] split[of 7 13 "n - 1"] split[of 14 20 "n - 1"] split[of 21 27 "n - 1"]
    by simp
  also have "\<dots> = 2" using one[of 7] one[of 21] n by (simp add: none)
  finally show ?thesis by (simp add: L_def off_def dd n_def add_diff_eq)
qed

subsection \<open>The employer's side\<close>

lemma eps_share_le_pf:
  assumes "0 \<le> b" "b \<le> 2 ^ 46"
  shows "py_round (fdiv (fmul (to_float b) (fl (833 / 100))) 100) \<le> pct_of b 12"
proof -
  have b: "to_float b = of_int b" using assms by simp
  have "fl (833 / 100) \<le> 12" using fl_le_of_int[of 12 "833 / 100"] by simp
  then have "of_int b * fl (833 / 100) \<le> of_int (b * 12)"
    using assms by (simp add: mult_left_mono)
  then have "fmul (to_float b) (fl (833 / 100)) \<le> of_int (b * 12)"
    unfolding b fmul_def using assms by (intro fl_le_of_int) simp_all
  then show ?thesis unfolding pct_of_def int_div_def fdiv_def
    by (intro flr.rnd_mono divide_right_mono) simp_all
qed

text \<open>An employee who pays the full 12 percent, or the full cap, splits exactly.\<close>

lemma employer_split_default:
  assumes "0 \<le> basic" "basic \<le> 2 ^ 46"
  defines "pf \<equiv> min (pct_of basic 12) (pf_cap_minor default_config)"
  shows "epf_employer_minor (employer_contributions basic pf) + eps_minor (employer_contributions basic pf) = pf"
proof (cases "basic \<ge> pf_wage_ceiling_minor")
  case True
  have "pct_of 1500000 12 = 180000" by code_simp
  then have "180000 \<le> pct_of basic 12"
    using pct_of_mono[of 1500000 basic 12] True by (simp add: pf_wage_ceiling_minor_def)
  then show ?thesis using True assms
    by (simp add: employer_contributions_def Let_def eps_cap_minor_def default_config_def max_def)
next
  case False
  have "pct_of 1500000 12 = 180000" by code_simp
  then have "pct_of basic 12 \<le> 180000"
    using pct_of_mono[of basic 1500000 12] False by (simp add: pf_wage_ceiling_minor_def)
  then show ?thesis using False assms eps_share_le_pf[of basic]
    by (simp add: employer_contributions_def Let_def default_config_def max_def pf_wage_ceiling_minor_def)
qed

end
