(* ===== verification/PayrollProps.thy ===== *)
theory PayrollProps
  imports PayrollLaws
begin

text \<open>
  The properties of the salary arithmetic (\<open>app/core/payroll.py\<close>), each with a concrete instance
  where it has hypotheses. Amounts are bounded by \<open>2 ^ 41\<close> minor units (about 22 billion rupees a
  month) or \<open>2 ^ 46\<close> a year, far above any salary; below these bounds the float arithmetic of the
  code rounds like exact arithmetic.
\<close>

text \<open>C3 Earning more never lowers the annual income after tax, and the tax never falls as the
  income rises: the slabs, the standard deduction, the rebate and its marginal relief leave no
  cliff, in spite of the rounding of each slab.\<close>

theorem annual_tax_no_cliff:
  assumes "g \<le> g'" "g' \<le> 2 ^ 46"
  shows "compute_annual_income_tax g \<le> compute_annual_income_tax g'
    \<and> g - compute_annual_income_tax g \<le> g' - compute_annual_income_tax g'"
  using assms by (rule annual_tax_mono)

theorem annual_tax_no_cliff_witness:
  "compute_annual_income_tax 127500000 \<le> compute_annual_income_tax 127600000
   \<and> 127500000 - compute_annual_income_tax 127500000 \<le> 127600000 - compute_annual_income_tax 127600000"
  using annual_tax_no_cliff[of 127500000 127600000] by simp

text \<open>The annual tax is never negative, is nil up to a taxable income of 12 lakh (a gross of
  12.75 lakh), and above it never exceeds what the taxable income exceeds that limit by.\<close>

theorem annual_tax_bounds:
  assumes "g \<le> 2 ^ 46"
  shows "0 \<le> compute_annual_income_tax g
    \<and> compute_annual_income_tax g \<le> max 0 (g - standard_deduction_minor - rebate_taxable_limit_minor)"
  using assms annual_tax_nonneg annual_tax_relief by blast

theorem annual_tax_bounds_witness:
  "0 \<le> compute_annual_income_tax 127600000
   \<and> compute_annual_income_tax 127600000 \<le> max 0 (127600000 - standard_deduction_minor - rebate_taxable_limit_minor)"
  using annual_tax_bounds[of 127600000] by simp

text \<open>The lines of every computed slip fit together: basic, HRA and special allowance make the
  gross, gross and employer PF make the CTC, both PF shares agree, the deductions add up and the
  net is what is left.\<close>

theorem slip_lines_fit: "slip_ok (compute_breakdown ctc cfg month)"
  by (rule slip_ok_compute)

text \<open>With settings inside the bounds of the settings schema, every line of a slip except the
  balancing figure and the net is non-negative, PF never exceeds basic and no line exceeds the CTC;
  with the default percentages the special allowance is not negative either.\<close>

theorem slip_lines_bounded:
  assumes "config_ok c" "0 < ctc" "ctc \<le> 2 ^ 41"
  shows "0 \<le> basic_minor (compute_breakdown ctc (Some c) month)
    \<and> basic_minor (compute_breakdown ctc (Some c) month) \<le> ctc
    \<and> 0 \<le> hra_minor (compute_breakdown ctc (Some c) month)
    \<and> 0 \<le> employee_pf_minor (compute_breakdown ctc (Some c) month)
    \<and> employee_pf_minor (compute_breakdown ctc (Some c) month) \<le> basic_minor (compute_breakdown ctc (Some c) month)
    \<and> 0 \<le> gross_minor (compute_breakdown ctc (Some c) month)
    \<and> gross_minor (compute_breakdown ctc (Some c) month) \<le> ctc
    \<and> 0 \<le> prof_tax_minor (compute_breakdown ctc (Some c) month)
    \<and> 0 \<le> income_tax_minor (compute_breakdown ctc (Some c) month)
    \<and> 0 \<le> special_allowance_minor (compute_breakdown ctc None month)"
  using breakdown_nonneg[OF assms] default_special_nonneg[OF assms(3)] by blast

theorem slip_lines_bounded_witness:
  "0 \<le> gross_minor (compute_breakdown 5000000 (Some default_config) (Some 2))"
  using slip_lines_bounded[of default_config 5000000 "Some 2"] by simp

text \<open>C4 The monthly withholding is the annual tax spread over twelve months: twelve times the
  income tax line misses the annual tax on twelve gross salaries by at most six minor units.\<close>

theorem monthly_withholding:
  assumes "config_ok c" "deduct_income_tax c" "0 < ctc" "ctc \<le> 2 ^ 41"
  shows "\<bar>12 * income_tax_minor (compute_breakdown ctc (Some c) month)
    - compute_annual_income_tax (12 * gross_minor (compute_breakdown ctc (Some c) month))\<bar> \<le> 6"
proof -
  let ?b = "compute_breakdown ctc (Some c) month"
  have g: "0 \<le> gross_minor ?b" "gross_minor ?b \<le> ctc" using breakdown_nonneg[OF assms(1,3,4)] by auto
  then have 0: "0 \<le> compute_annual_income_tax (gross_minor ?b * 12)"
    using assms(4) by (intro annual_tax_nonneg) simp
  have "compute_annual_income_tax (gross_minor ?b * 12)
      \<le> max 0 (gross_minor ?b * 12 - standard_deduction_minor - rebate_taxable_limit_minor)"
    by (rule annual_tax_relief)
  also have "\<dots> < 2 ^ 52" using g assms(4)
    by (simp add: standard_deduction_minor_def rebate_taxable_limit_minor_def rupee_def)
  finally have "\<bar>12 * py_round (int_div (compute_annual_income_tax (gross_minor ?b * 12)) 12)
      - compute_annual_income_tax (gross_minor ?b * 12)\<bar> \<le> 6"
    using 0 by (intro monthly_withholding_close)
  then show ?thesis using assms(2) breakdown_lines(7)[OF assms(3), of c month] by (simp add: mult.commute)
qed

theorem monthly_withholding_witness:
  "\<bar>12 * income_tax_minor (compute_breakdown 20000000 (Some default_config) None)
    - compute_annual_income_tax (12 * gross_minor (compute_breakdown 20000000 (Some default_config) None))\<bar> \<le> 6"
  using monthly_withholding[of default_config 20000000 None] by (simp add: default_config_def config_ok_def)

text \<open>The two reference sheets of the module's documentation: a CTC of 50,000 rupees and a CTC
  of 40,000 rupees paid for 26 of 30 days.\<close>

theorem reference_slips:
  "compute_breakdown 5000000 None None = \<lparr>ctc_minor = 5000000, basic_minor = 1500000,
     hra_minor = 750000, special_allowance_minor = 2570000, employer_pf_minor = 180000,
     gross_minor = 4820000, employee_pf_minor = 180000, prof_tax_minor = 20000, income_tax_minor = 0,
     total_deduction_minor = 200000, net_minor = 4620000\<rparr>
   \<and> (let b = prorate_breakdown (compute_breakdown 4000000 None None) 26 30
      in (gross_minor b, employee_pf_minor b, prof_tax_minor b, net_minor b)
         = (3341867, 124800, 20000, 3197067))"
  by code_simp

text \<open>Proration stays inside the month: with nobody paid for a day the slip is all zero, paid
  for every day it is the full slip, in between each earning and both PF shares lie between zero
  and their full-month amount and grow with the paid days.\<close>

theorem proration_bounds:
  assumes "slip_ok b" "0 < t" "t \<le> 31" "p \<le> q"
    and "list_all (\<lambda>f. 0 \<le> f b \<and> f b \<le> 2 ^ 53) [ctc_minor, basic_minor, hra_minor,
      special_allowance_minor, employer_pf_minor, gross_minor, employee_pf_minor]"
  shows "(p \<le> 0 \<longrightarrow> prorate_breakdown b p t = zero_breakdown)
    \<and> (of_int t \<le> p \<longrightarrow> prorate_breakdown b p t = b)
    \<and> list_all (\<lambda>f. 0 \<le> f (prorate_breakdown b p t)
        \<and> f (prorate_breakdown b p t) \<le> f (prorate_breakdown b q t)
        \<and> f (prorate_breakdown b q t) \<le> f b) [ctc_minor, basic_minor, hra_minor,
      special_allowance_minor, employer_pf_minor, gross_minor, employee_pf_minor]"
proof (intro conjI impI)
  assume "p \<le> 0"
  then show "prorate_breakdown b p t = zero_breakdown" using assms(2) by (intro prorate_zero_days)
next
  assume "of_int t \<le> p"
  then show "prorate_breakdown b p t = b" using assms by (intro prorate_full_month) simp_all
next
  show "list_all (\<lambda>f. 0 \<le> f (prorate_breakdown b p t)
        \<and> f (prorate_breakdown b p t) \<le> f (prorate_breakdown b q t)
        \<and> f (prorate_breakdown b q t) \<le> f b) [ctc_minor, basic_minor, hra_minor,
      special_allowance_minor, employer_pf_minor, gross_minor, employee_pf_minor]"
    using assms(4,5) by (simp add: prorate_within prorate_mono_days)
qed

theorem proration_bounds_witness:
  "gross_minor (prorate_breakdown zero_breakdown 10 30) \<le> gross_minor (prorate_breakdown zero_breakdown 20 30)"
  using proration_bounds[of zero_breakdown 30 10 20] by (simp add: zero_breakdown_def slip_ok_def)

text \<open>The prorated earnings still add up: basic, HRA and special allowance, each rounded on its
  own, miss the prorated gross by at most two minor units.\<close>

theorem proration_components:
  assumes "slip_ok b"
    and "list_all (\<lambda>f. \<bar>f b\<bar> \<le> 2 ^ 41) [basic_minor, hra_minor, special_allowance_minor, gross_minor]"
  shows "\<bar>basic_minor (prorate_breakdown b p t) + hra_minor (prorate_breakdown b p t)
    + special_allowance_minor (prorate_breakdown b p t) - gross_minor (prorate_breakdown b p t)\<bar> \<le> 2"
  using prorate_components[OF assms] .

theorem proration_components_witness:
  "\<bar>basic_minor (prorate_breakdown zero_breakdown 10 30) + hra_minor (prorate_breakdown zero_breakdown 10 30)
    + special_allowance_minor (prorate_breakdown zero_breakdown 10 30)
    - gross_minor (prorate_breakdown zero_breakdown 10 30)\<bar> \<le> 2"
  using proration_components[of zero_breakdown 10 30] by (simp add: zero_breakdown_def slip_ok_def)

text \<open>Working days between two dates are counted without gaps or overlaps: splitting a range
  at any day splits the count, the count lies between zero and the number of days, more holidays
  never raise it, and over a whole month without holidays it is the length of the month's
  working-day list that attendance and payroll use.\<close>

theorem working_days_split:
  assumes "s \<le> k + 1" "k \<le> e" "set hs \<subseteq> set hs'" "1 \<le> m" "m \<le> 12"
  shows "working_days_between s e hs w = working_days_between s k hs w + working_days_between (k + 1) e hs w
    \<and> 0 \<le> working_days_between s e hs w \<and> working_days_between s e hs w \<le> e - s + 1
    \<and> working_days_between s e hs' w \<le> working_days_between s e hs w
    \<and> working_days_between (mk_date y m 1) (mk_date y m (month_len y m)) [] w
        = int (length (weekdays_in_month y m w))"
proof (intro conjI)
  show "working_days_between s e hs w = working_days_between s k hs w + working_days_between (k + 1) e hs w"
    using counted_days_split[OF assms(1,2)] by (simp add: working_days_between_filter)
  show "0 \<le> working_days_between s e hs w" by (simp add: working_days_between_filter)
  show "working_days_between s e hs w \<le> e - s + 1"
    using counted_days_less[of s e hs w] assms(1,2) by (simp add: working_days_between_filter)
  show "working_days_between s e hs' w \<le> working_days_between s e hs w"
    using counted_days_antimono[OF assms(3)] by (simp add: working_days_between_filter)
  show "working_days_between (mk_date y m 1) (mk_date y m (month_len y m)) [] w
      = int (length (weekdays_in_month y m w))"
    by (simp add: working_days_between_filter weekdays_in_month_counted)
qed

theorem working_days_split_witness:
  "working_days_between (mk_date 2026 7 1) (mk_date 2026 7 31) [] 5 = int (length (weekdays_in_month 2026 7 5))"
  using working_days_split[of 1 1 1 "[]" "[]" 7 5 2026] by (simp add: month_len_def)

text \<open>From the policy date on, a six-day week is Monday to Saturday with exactly two Saturdays
  of every month off, whatever the month; they fall on days 8 to 14 and 22 to 28.\<close>

theorem two_saturdays_off:
  assumes "1 \<le> m" "m \<le> 12" "policy_effective_date \<le> mk_date y m 1"
  shows "length (filter (\<lambda>d. weekday d = saturday \<and> \<not> is_working_day d 6)
      [mk_date y m 1..mk_date y m (month_len y m)]) = 2
    \<and> (policy_effective_date \<le> d \<longrightarrow> (is_working_day d 6 \<longleftrightarrow> weekday d \<noteq> 6 \<and>
        (weekday d = saturday \<longrightarrow>
          \<not> (8 \<le> day_of d \<and> day_of d \<le> 14 \<or> 22 \<le> day_of d \<and> day_of d \<le> 28))))"
  using off_saturdays_length[OF assms] six_day_week[of d] by simp

theorem two_saturdays_off_witness:
  "length (filter (\<lambda>d. weekday d = saturday \<and> \<not> is_working_day d 6)
      [mk_date 2026 10 1..mk_date 2026 10 31]) = 2"
proof -
  have "policy_effective_date \<le> mk_date 2026 10 1" "month_len 2026 10 = 31" by code_simp+
  then show ?thesis using two_saturdays_off[of 10 2026] by simp
qed

text \<open>The days a person is on the payroll in a month: all of them without a hire date or with
  one up to the first of the month, the days from the hire date on when it falls inside the month,
  none when it falls after it.\<close>

theorem payable_base_days_spec:
  assumes "1 \<le> m" "m \<le> 12"
  shows "payable_base_days y m None = days_in_month y m
    \<and> payable_base_days y m (Some h) = (if h \<le> mk_date y m 1 then days_in_month y m
        else if h \<le> mk_date y m (days_in_month y m) then mk_date y m (days_in_month y m) - h + 1 else 0)"
  using payable_base_days_cases[OF assms, of y] payable_base_days_cases(2)[OF assms, of y h] by auto

theorem payable_base_days_spec_witness:
  "payable_base_days 2026 8 (Some (mk_date 2026 8 15)) = 17"
proof -
  have "days_in_month 2026 8 = 31" "\<not> mk_date 2026 8 15 \<le> mk_date 2026 8 1"
    "mk_date 2026 8 31 - mk_date 2026 8 15 = 16" by code_simp+
  then show ?thesis using payable_base_days_spec[of 8 2026 "mk_date 2026 8 15"] by simp
qed

text \<open>For a full month under the statutory percentages, the employer's EPF and EPS shares add
  up to exactly what the employee pays.\<close>

theorem employer_halves_agree:
  assumes "0 \<le> basic" "basic \<le> 2 ^ 46"
  shows "epf_employer_minor (employer_contributions basic (min (pct_of basic 12) (pf_cap_minor default_config)))
    + eps_minor (employer_contributions basic (min (pct_of basic 12) (pf_cap_minor default_config)))
    = min (pct_of basic 12) (pf_cap_minor default_config)"
  using assms by (rule employer_split_default)

theorem employer_halves_agree_witness:
  "epf_employer_minor (employer_contributions 1000000 (min (pct_of 1000000 12) (pf_cap_minor default_config)))
    + eps_minor (employer_contributions 1000000 (min (pct_of 1000000 12) (pf_cap_minor default_config)))
    = min (pct_of 1000000 12) (pf_cap_minor default_config)"
  using employer_halves_agree[of 1000000] by simp

text \<open>Once proration lowers a capped PF below the EPS of a high basic, the two halves no longer
  agree: half a month at a CTC of 1.6 lakh has an employee PF of 900 rupees and an employer share of
  1,250.\<close>

theorem employer_halves_differ:
  "let b = prorate_breakdown (compute_breakdown 16000000 None None) 15 30;
       c = employer_contributions (basic_minor b) (employee_pf_minor b)
   in employee_pf_minor b = 90000 \<and> epf_employer_minor c + eps_minor c = 125000"
  by code_simp

text \<open>Because the statutory charges stay flat, a slip with few paid days can have a negative
  net: one day of 31 at a CTC of 5 lakh, and a full month below the professional tax.\<close>

theorem prorated_net_negative:
  "net_minor (prorate_breakdown (compute_breakdown 50000000 None None) 1 31) = - 9677209
   \<and> net_minor (compute_breakdown 10000 None None) = - 10720"
  by code_simp


end
