(* ===== verification/PyText.thy ===== *)
theory PyText
  imports PyFloat Calendar
begin

text \<open>
  Python text operations the services use: \<open>str.split\<close> on one character, \<open>str.strip\<close>,
  \<open>str.rsplit(c, 1)\<close>, \<open>int(text)\<close>, and the amounts of notification texts
  (\<open>f"{amount / 100:,.2f}"\<close>). White space and digits are the ASCII ones; Python also accepts the
  other Unicode white space and decimal digits.
\<close>

subsection \<open>Splitting and stripping\<close>

fun split_on :: "char \<Rightarrow> string \<Rightarrow> string list" where
  "split_on c [] = [[]]"
| "split_on c (x # xs) = (if x = c then [] # split_on c xs
     else (case split_on c xs of [] \<Rightarrow> [[x]] | w # ws \<Rightarrow> (x # w) # ws))"

lemma split_on_nonempty [simp]: "split_on c s \<noteq> []"
  by (cases s) (auto split: list.splits)

lemma split_on_none: "c \<notin> set s \<Longrightarrow> split_on c s = [s]"
  by (induction s) auto

lemma split_on_join: "c \<notin> set p \<Longrightarrow> split_on c (p @ c # r) = p # split_on c r"
  by (induction p) auto

definition is_space :: "char \<Rightarrow> bool" where
  "is_space c \<longleftrightarrow> (let n = (of_char c :: nat) in 9 \<le> n \<and> n \<le> 13 \<or> 28 \<le> n \<and> n \<le> 32)"

definition strip_with :: "(char \<Rightarrow> bool) \<Rightarrow> string \<Rightarrow> string" where
  "strip_with P s = rev (dropWhile P (rev (dropWhile P s)))"

definition py_strip :: "string \<Rightarrow> string" where
  "py_strip = strip_with is_space"

text \<open>\<open>s.rsplit(c, 1)\<close>: \<open>[s]\<close> without the separator, else the text before and after
  its last occurrence.\<close>

definition rsplit1 :: "char \<Rightarrow> string \<Rightarrow> string list" where
  "rsplit1 c s = (if c \<in> set s
     then [rev (tl (dropWhile (\<lambda>x. x \<noteq> c) (rev s))), rev (takeWhile (\<lambda>x. x \<noteq> c) (rev s))]
     else [s])"

definition to_lower :: "char \<Rightarrow> char" where
  "to_lower c = (let n = (of_char c :: nat) in if 65 \<le> n \<and> n \<le> 90 then char_of (n + 32) else c)"

subsection \<open>\<open>int(text)\<close>\<close>

text \<open>Digits may be grouped by single underscores.\<close>

fun digit_groups :: "bool \<Rightarrow> string \<Rightarrow> bool" where
  "digit_groups prev_digit [] = prev_digit"
| "digit_groups prev_digit (c # cs) =
     (if is_digit c then digit_groups True cs
      else if c = CHR ''_'' \<and> prev_digit then digit_groups False cs else False)"

definition py_int :: "string \<Rightarrow> int option" where
  "py_int text =
    (let s = py_strip text;
         neg = (s \<noteq> [] \<and> hd s = CHR ''-'');
         body = (if s \<noteq> [] \<and> (hd s = CHR ''-'' \<or> hd s = CHR ''+'') then tl s else s)
     in if digit_groups False body
        then map_option (\<lambda>n. if neg then - int n else int n) (read_nat (filter (\<lambda>c. c \<noteq> CHR ''_'') body))
        else None)"

lemma is_digit_not_special:
  "is_digit c \<Longrightarrow> \<not> is_space c \<and> c \<noteq> CHR ''-'' \<and> c \<noteq> CHR ''+'' \<and> c \<noteq> CHR ''_''"
  by (auto simp: is_digit_def is_space_def)

lemma digit_groups_digits: "list_all is_digit s \<Longrightarrow> s \<noteq> [] \<or> b \<Longrightarrow> digit_groups b s"
  by (induction s arbitrary: b) auto

lemma strip_with_id: "s \<noteq> [] \<Longrightarrow> \<not> P (hd s) \<Longrightarrow> \<not> P (last s) \<Longrightarrow> strip_with P s = s"
proof -
  assume "s \<noteq> []" "\<not> P (hd s)" "\<not> P (last s)"
  then have "dropWhile P s = s" "dropWhile P (rev s) = rev s"
    by (simp_all add: dropWhile_eq_self_iff hd_rev)
  then show ?thesis by (simp add: strip_with_def)
qed

lemma py_int_digits:
  assumes "list_all is_digit s" "s \<noteq> []"
  shows "py_int s = map_option int (read_nat s)"
proof -
  have d: "is_digit (hd s)" "is_digit (last s)" using assms by (auto simp: list_all_iff)
  then have "py_strip s = s"
    using assms(2) is_digit_not_special unfolding py_strip_def by (intro strip_with_id) auto
  moreover have "filter (\<lambda>c. c \<noteq> CHR ''_'') s = s"
    using assms(1) is_digit_not_special by (auto simp: list_all_iff filter_id_conv)
  ultimately show ?thesis
    using is_digit_not_special[OF d(1)] digit_groups_digits[OF assms(1), of False] assms(2)
    by (simp add: py_int_def Let_def)
qed

lemma pad_left_digits: "list_all is_digit s \<Longrightarrow> list_all is_digit (pad_left w s)"
  by (auto simp: pad_left_def list_all_iff CHR_0_digit)

lemma pad_digits:
  "0 \<le> n \<Longrightarrow> list_all is_digit (pad2 n)" "0 \<le> n \<Longrightarrow> list_all is_digit (pad4 n)"
  by (simp_all add: pad2_def pad4_def int_str_def pad_left_digits all_digits_nat_str)

lemma pad_nonempty: "0 \<le> n \<Longrightarrow> pad2 n \<noteq> []" "0 \<le> n \<Longrightarrow> pad4 n \<noteq> []"
  by (simp_all add: pad2_def pad4_def int_str_def pad_left_def)

lemma py_int_pad: "0 \<le> n \<Longrightarrow> py_int (pad2 n) = Some n" "0 \<le> n \<Longrightarrow> py_int (pad4 n) = Some n"
  by (simp_all add: py_int_digits pad_digits pad_nonempty read_nat_pad2 read_nat_pad4)

subsection \<open>Amounts\<close>

text \<open>Digits in groups of three, separated by commas (\<open>f"{n:,}"\<close>).\<close>

function group3 :: "nat \<Rightarrow> string" where
  "group3 n = (if n < 1000 then nat_str n
     else group3 (n div 1000) @ '','' @ pad_left 3 (nat_str (n mod 1000)))"
  by pat_completeness auto
termination by (relation "measure id") auto

declare group3.simps [simp del]

text \<open>\<open>f"{x:,.2f}"\<close>: the exact value of the float, rounded half even to hundredths.\<close>

definition fmt_2f :: "pyfloat \<Rightarrow> string" where
  "fmt_2f x = (let cents = rhe (x * 100); a = nat \<bar>cents\<bar>
     in (if x < 0 then ''-'' else '''') @ group3 (a div 100) @ ''.'' @ pad_left 2 (nat_str (a mod 100)))"

definition money :: "int \<Rightarrow> string" where
  "money amount_minor = rupee_sign @ fmt_2f (int_div amount_minor 100)"

text \<open>An amount prints as its exact number of rupees and paise.\<close>

lemma rhe_near:
  assumes "x - of_int n < 1 / 2" "of_int n - x < 1 / 2"
  shows "rhe x = n"
proof (cases "of_int n \<le> x")
  case True
  then show ?thesis using assms by (intro rhe_below_half) simp_all
next
  case False
  then have "rhe x = (n - 1) + 1" using assms by (intro rhe_above_half) simp_all
  then show ?thesis by simp
qed

lemma cents_exact:
  assumes "\<bar>n\<bar> \<le> 2 ^ 51"
  shows "rhe (int_div n 100 * 100) = n"
proof -
  define x :: rat where "x = of_int n / 100"
  have "\<bar>x\<bar> \<le> 2 ^ 51 / 100"
    unfolding x_def using assms by (simp add: abs_divide divide_right_mono flip: of_int_abs)
  then have "\<bar>fl x - x\<bar> \<le> (2 ^ 51 / 100) / 2 ^ 53"
    by (intro order_trans[OF fl_rel_error divide_right_mono]) simp_all
  then have "\<bar>fl x - x\<bar> \<le> 1 / 400" by simp
  then have "fl x - x \<le> 1 / 400" "x - fl x \<le> 1 / 400" unfolding abs_le_iff by linarith+
  then have "fl x * 100 - of_int n < 1 / 2" "of_int n - fl x * 100 < 1 / 2" by (simp_all add: x_def)
  then show ?thesis unfolding int_div_def by (intro rhe_near) (simp_all add: x_def)
qed

lemma money_exact:
  assumes "0 \<le> n" "n \<le> 2 ^ 51"
  shows "money n = rupee_sign @ group3 (nat (n div 100)) @ ''.'' @ pad2 (n mod 100)"
proof -
  have r: "rhe (int_div n 100 * 100) = n" using assms by (intro cents_exact) simp
  have "0 \<le> int_div n 100" using assms(1) by (simp add: int_div_def fl_nonneg)
  moreover have "\<not> n mod 100 < 0" by simp
  ultimately show ?thesis using assms(1)
    by (simp add: money_def fmt_2f_def r Let_def pad2_def int_str_def nat_div_distrib nat_mod_distrib)
qed

end
