(* ===== verification/Tables.thy ===== *)
theory Tables
  imports Prelude
begin

text \<open>
  Database tables and the text helpers the repositories share. A table is the list of its rows in
  insertion order; a row carries its primary key. \<open>session.get(Model, id)\<close> and a
  \<open>select ... where id = ...\<close> find the row with the key, assigning attributes of a loaded
  row and flushing replaces it, \<open>session.add\<close> appends it.
\<close>

definition row_get :: "('r \<Rightarrow> 'k) \<Rightarrow> 'k \<Rightarrow> 'r list \<Rightarrow> 'r option" where
  "row_get key k rows = List.find (\<lambda>r. key r = k) rows"

definition row_put :: "('r \<Rightarrow> 'k) \<Rightarrow> 'r \<Rightarrow> 'r list \<Rightarrow> 'r list" where
  "row_put key r rows = map (\<lambda>x. if key x = key r then r else x) rows"

definition row_add :: "'r \<Rightarrow> 'r list \<Rightarrow> 'r list" where
  "row_add r rows = rows @ [r]"

definition row_del :: "('r \<Rightarrow> 'k) \<Rightarrow> 'k \<Rightarrow> 'r list \<Rightarrow> 'r list" where
  "row_del key k rows = filter (\<lambda>x. key x \<noteq> k) rows"

subsection \<open>The interface of a keyed table\<close>

text \<open>
  What the services rely on: reading back after a write, and that a write touches the row of its
  key only. \<open>content\<close> is the set of rows and \<open>uniq\<close> says that keys are unique.
\<close>

locale keyed_table =
  fixes key :: "'r \<Rightarrow> 'k" and get :: "'k \<Rightarrow> 't \<Rightarrow> 'r option" and put :: "'r \<Rightarrow> 't \<Rightarrow> 't"
    and add :: "'r \<Rightarrow> 't \<Rightarrow> 't" and content :: "'t \<Rightarrow> 'r set" and uniq :: "'t \<Rightarrow> bool"
  assumes get_content: "get k t = Some r \<Longrightarrow> r \<in> content t \<and> key r = k"
    and get_none: "get k t = None \<longleftrightarrow> (\<forall>r \<in> content t. key r \<noteq> k)"
    and content_put: "content (put r t) = (\<lambda>x. if key x = key r then r else x) ` content t"
    and content_add: "content (add r t) = insert r (content t)"
    and uniq_inj: "uniq t \<Longrightarrow> inj_on key (content t)"
    and uniq_put: "uniq t \<Longrightarrow> uniq (put r t)"
    and uniq_add: "uniq t \<Longrightarrow> key r \<notin> key ` content t \<Longrightarrow> uniq (add r t)"
    and get_add_other: "k \<noteq> key r \<Longrightarrow> get k (add r t) = get k t"
begin

lemma content_get: "uniq t \<Longrightarrow> r \<in> content t \<Longrightarrow> get (key r) t = Some r"
proof (cases "get (key r) t")
  case None
  assume "r \<in> content t"
  then show ?thesis using None get_none[of "key r" t] by auto
next
  case (Some x)
  assume "uniq t" "r \<in> content t"
  then have "x = r" using get_content[OF Some] uniq_inj[of t] by (auto dest: inj_onD)
  then show ?thesis using Some by simp
qed

lemma get_put_same: "uniq t \<Longrightarrow> get (key r) t = Some x \<Longrightarrow> get (key r) (put r t) = Some r"
proof -
  assume u: "uniq t" and g: "get (key r) t = Some x"
  have "r \<in> content (put r t)" unfolding content_put using get_content[OF g] by force
  then show ?thesis using content_get[OF uniq_put[OF u], of r] by simp
qed

lemma get_put_other:
  assumes "uniq t" "k \<noteq> key r"
  shows "get k (put r t) = get k t"
proof (cases "get k t")
  case None
  then have "\<forall>x \<in> content (put r t). key x \<noteq> k"
    unfolding content_put using assms(2) get_none[of k t] by auto
  then show ?thesis using None get_none[of k "put r t"] by simp
next
  case (Some x)
  then have x: "x \<in> content t" "key x = k" using get_content by auto
  then have "x \<in> content (put r t)" unfolding content_put using assms(2) by force
  then show ?thesis using content_get[OF uniq_put[OF assms(1)], of x r] x Some by simp
qed

lemma put_content_cases: "x \<in> content (put r t) \<Longrightarrow> x = r \<or> x \<in> content t \<and> key x \<noteq> key r"
  unfolding content_put by auto

text \<open>A property of every row survives a write of a row that has it, and an insertion.\<close>

lemma all_put: "\<forall>x \<in> content t. P x \<Longrightarrow> P r \<Longrightarrow> \<forall>x \<in> content (put r t). P x"
  using put_content_cases by blast

lemma all_add: "\<forall>x \<in> content t. P x \<Longrightarrow> P r \<Longrightarrow> \<forall>x \<in> content (add r t). P x"
  by (simp add: content_add)

lemma all_get: "\<forall>x \<in> content t. P x \<Longrightarrow> get k t = Some r \<Longrightarrow> P r"
  using get_content by blast

lemma keys_put: "key ` content (put r t) = key ` content t"
  unfolding content_put image_image by (intro image_cong refl) simp

lemma get_add_new: "uniq t \<Longrightarrow> key r \<notin> key ` content t \<Longrightarrow> get (key r) (add r t) = Some r"
  using content_get[OF uniq_add, of t r r] by (simp add: content_add)

end

subsection \<open>Lists of rows are keyed tables\<close>

definition keys_unique :: "('r \<Rightarrow> 'k) \<Rightarrow> 'r list \<Rightarrow> bool" where
  "keys_unique key rows \<longleftrightarrow> distinct (map key rows)"

lemma row_get_SomeD: "row_get key k rows = Some r \<Longrightarrow> r \<in> set rows \<and> key r = k"
  unfolding row_get_def by (rule find_Some_set)

lemma row_put_keys [simp, store_simps]: "map key (row_put key r rows) = map key rows"
  by (simp add: row_put_def)

lemma row_put_set: "set (row_put key r rows) = (\<lambda>x. if key x = key r then r else x) ` set rows"
  by (simp add: row_put_def)

lemma length_row_put [simp, store_simps]: "length (row_put key r rows) = length rows"
  by (simp add: row_put_def)

lemma keyed_rows: "keyed_table key (row_get key) (row_put key) row_add set (keys_unique key)"
proof
  show "row_get key k t = Some r \<Longrightarrow> r \<in> set t \<and> key r = k" for k t r by (rule row_get_SomeD)
  show "row_get key k t = None \<longleftrightarrow> (\<forall>r \<in> set t. key r \<noteq> k)" for k t
    by (auto simp: row_get_def find_None_iff)
  show "set (row_put key r t) = (\<lambda>x. if key x = key r then r else x) ` set t" for r t
    by (rule row_put_set)
  show "set (row_add r t) = insert r (set t)" for r :: 'a and t by (simp add: row_add_def)
  show "keys_unique key t \<Longrightarrow> inj_on key (set t)" for t
    by (simp add: keys_unique_def distinct_map)
  show "keys_unique key t \<Longrightarrow> keys_unique key (row_put key r t)" for r t
    by (simp add: keys_unique_def)
  show "keys_unique key t \<Longrightarrow> key r \<notin> key ` set t \<Longrightarrow> keys_unique key (row_add r t)" for r t
    by (simp add: keys_unique_def row_add_def)
  show "k \<noteq> key r \<Longrightarrow> row_get key k (row_add r t) = row_get key k t" for k r t
    by (induction t) (auto simp: row_get_def row_add_def)
qed

interpretation rows: keyed_table key "row_get key" "row_put key" row_add set "keys_unique key" for key
  by (rule keyed_rows)

end
