(* ===== verification/Org.thy ===== *)
theory Org
  imports Tables Calendar
begin

text \<open>
  What every service shares: roles and the authenticated caller (\<open>app/schemas/auth.py\<close>), the
  employee table and its visibility scopes (\<open>app/repositories/employee.py\<close>), the hash-chained
  audit log (\<open>app/repositories/audit.py\<close>) and in-app notifications
  (\<open>app/services/notification_service.py\<close>).

  A request runs on the state \<open>core\<close>, which each component extends by its own tables. An
  operation takes the state and returns an error or a result with the new state; on an error the
  session is rolled back (\<open>app/db/session.py\<close>), so the state before the request stands.
\<close>

subsection \<open>Roles and callers\<close>

datatype role = INTERN | EXECUTIVE | MANAGER | SENIOR_MANAGER | HR | ADMIN | IT_ADMIN | VIEWER

datatype gender = MALE | FEMALE | OTHER_GENDER

record employee =
  emp_id :: uuid
  work_email :: string
  full_name :: string
  department :: "string option"
  location :: "string option"
  job_title :: "string option"
  date_of_birth :: "date option"
  gender :: "gender option"
  hire_date :: "date option"
  probation_months :: "int option"
  employee_number :: "string option"
  manager_id :: "uuid option"
  role :: role
  payroll_manager :: bool
  is_guest :: bool
  is_active :: bool
  emp_created_at :: datetime

record current_user =
  cu_id :: uuid
  cu_role :: role
  cu_manager :: "uuid option"
  cu_payroll_manager :: bool

text \<open>The validator of \<open>CurrentUser.role\<close>, and the principal built for an employee.\<close>

definition normalize_role :: "role \<Rightarrow> role" where
  "normalize_role r = (if r = IT_ADMIN then ADMIN else r)"

definition caller_of :: "employee \<Rightarrow> current_user" where
  "caller_of e = \<lparr>cu_id = emp_id e, cu_role = normalize_role (role e), cu_manager = manager_id e,
     cu_payroll_manager = payroll_manager e\<rparr>"

definition is_admin :: "current_user \<Rightarrow> bool" where
  "is_admin c \<longleftrightarrow> cu_role c = ADMIN"

definition can_manage_payroll :: "current_user \<Rightarrow> bool" where
  "can_manage_payroll c \<longleftrightarrow> cu_role c \<in> {ADMIN, HR} \<or> cu_payroll_manager c"

definition can_review_reimbursements :: "current_user \<Rightarrow> bool" where
  "can_review_reimbursements c \<longleftrightarrow> cu_role c = HR \<or> cu_payroll_manager c"

definition can_manage_projects :: "current_user \<Rightarrow> bool" where
  "can_manage_projects c \<longleftrightarrow> cu_role c \<in> {ADMIN, HR}"

definition is_manager :: "current_user \<Rightarrow> bool" where
  "is_manager c \<longleftrightarrow> cu_role c \<in> {MANAGER, SENIOR_MANAGER, ADMIN, HR}"

subsection \<open>State and environment\<close>

datatype notification_kind = LEAVE_REQUEST | LEAVE_DECISION | REGULARIZATION_REQUEST
  | RESIGNATION_SUBMITTED | RESIGNATION_DECISION | REIMBURSEMENT_SUBMITTED | REIMBURSEMENT_DECISION
  | TASK_ASSIGNED | TASK_COMMENT | UNDERPERFORMANCE | ESCALATION | APPRECIATION | DEVICE_HEALTH
  | SHEET_SHARED | EVENT | SYSTEM

datatype notification_level = INFO | WARNING | CRITICAL

record notification =
  ntf_id :: uuid
  recipient_id :: uuid
  ntf_kind :: notification_kind
  ntf_level :: notification_level
  ntf_title :: string
  ntf_body :: "string option"
  ntf_link :: "string option"
  entity_type :: "string option"
  entity_id :: "uuid option"
  actor_id :: "uuid option"
  read_at :: "datetime option"
  ntf_created_at :: datetime

record audit_entry =
  occurred_at :: datetime
  actor :: string
  action :: string
  target :: "string option"
  prev_hash :: "string option"
  entry_hash :: string

text \<open>An outgoing email: the address, what it is about and the entity it reports on.\<close>

record email =
  mail_to :: string
  mail_template :: string
  mail_fields :: "string list"

text \<open>
  Code outside the repository: SHA-256, whether the database accepts a notification insert and
  the provider accepts an email, the collation of names, and the UTC offset of the organisation's
  time zone at an instant.
\<close>

record env =
  sha256_hex :: "string \<Rightarrow> string"
  insert_ok :: "notification \<Rightarrow> bool"
  email_ok :: "email \<Rightarrow> bool"
  collate :: "string \<Rightarrow> nat"
  utc_offset :: "datetime \<Rightarrow> int"

record core =
  now :: datetime
  next_id :: uuid
  employees :: "employee list"
  audit_log :: "audit_entry list"
  inbox :: "notification list"
  mail_log :: "email list"

subsection \<open>Audit log\<close>

definition canonical :: "string option \<Rightarrow> string \<Rightarrow> string \<Rightarrow> string option \<Rightarrow> string" where
  "canonical prev act acn tgt =
     (case prev of None \<Rightarrow> '''' | Some p \<Rightarrow> p) @ ''|'' @ act @ ''|'' @ acn @ ''|''
     @ (case tgt of None \<Rightarrow> '''' | Some t \<Rightarrow> t)"

definition entry_hash_of :: "env \<Rightarrow> string option \<Rightarrow> string \<Rightarrow> string \<Rightarrow> string option \<Rightarrow> string" where
  "entry_hash_of E prev act acn tgt = sha256_hex E (canonical prev act acn tgt)"

text \<open>\<open>order_by(desc(occurred_at)).limit(1)\<close>; among equal instants the row added last.\<close>

definition latest_entry :: "audit_entry list \<Rightarrow> audit_entry option" where
  "latest_entry log = foldl (\<lambda>best e. case best of None \<Rightarrow> Some e
     | Some b \<Rightarrow> if occurred_at b \<le> occurred_at e then Some e else Some b) None log"

definition audit_append :: "env \<Rightarrow> string \<Rightarrow> string \<Rightarrow> string option \<Rightarrow> 'a core_scheme \<Rightarrow> 'a core_scheme" where
  "audit_append E act acn tgt s =
    (let prev = map_option entry_hash (latest_entry (audit_log s))
     in s\<lparr>audit_log := audit_log s @ [\<lparr>occurred_at = now s, actor = act, action = acn, target = tgt,
          prev_hash = prev, entry_hash = entry_hash_of E prev act acn tgt\<rparr>]\<rparr>)"

subsection \<open>Notifications\<close>

record notice =
  no_to :: uuid
  no_kind :: notification_kind
  no_title :: string
  no_body :: "string option"
  no_level :: notification_level
  no_link :: "string option"
  no_entity_type :: "string option"
  no_entity_id :: "uuid option"
  no_actor :: "uuid option"

definition recent_unread_match ::
  "uuid \<Rightarrow> notification_kind \<Rightarrow> string option \<Rightarrow> uuid option \<Rightarrow> datetime \<Rightarrow> notification list \<Rightarrow> bool" where
  "recent_unread_match rcp k et ei since rows =
    list_ex (\<lambda>n. recipient_id n = rcp \<and> ntf_kind n = k \<and> entity_type n = et \<and> entity_id n = ei
      \<and> read_at n = None \<and> ntf_created_at n \<ge> since) rows"

definition new_notification :: "uuid \<Rightarrow> datetime \<Rightarrow> notice \<Rightarrow> notification" where
  "new_notification i t m = \<lparr>ntf_id = i, recipient_id = no_to m, ntf_kind = no_kind m,
     ntf_level = no_level m, ntf_title = no_title m, ntf_body = no_body m, ntf_link = no_link m,
     entity_type = no_entity_type m, entity_id = no_entity_id m, actor_id = no_actor m,
     read_at = None, ntf_created_at = t\<rparr>"

text \<open>\<open>NotificationService.notify\<close>: dropped for one's own action, optionally deduplicated,
  and a failed insert is absorbed by its savepoint.\<close>

definition notify :: "env \<Rightarrow> notice \<Rightarrow> int option \<Rightarrow> 'a core_scheme \<Rightarrow> 'a core_scheme" where
  "notify E m dedupe s =
    (if no_actor m = Some (no_to m) then s
     else if (case dedupe of None \<Rightarrow> False
              | Some w \<Rightarrow> recent_unread_match (no_to m) (no_kind m) (no_entity_type m) (no_entity_id m)
                            (now s - w) (inbox s)) then s
     else let n = new_notification (next_id s) (now s) m
          in if insert_ok E n then s\<lparr>inbox := inbox s @ [n], next_id := next_id s + 1\<rparr>
             else s\<lparr>next_id := next_id s + 1\<rparr>)"

definition count_unread :: "uuid \<Rightarrow> 'a core_scheme \<Rightarrow> nat" where
  "count_unread rcp s = length (filter (\<lambda>n. recipient_id n = rcp \<and> read_at n = None) (inbox s))"

definition mark_read :: "current_user \<Rightarrow> uuid \<Rightarrow> 'a core_scheme \<Rightarrow> bool \<times> 'a core_scheme" where
  "mark_read c i s =
    (let hit = (\<lambda>n. ntf_id n = i \<and> recipient_id n = cu_id c \<and> read_at n = None)
     in (list_ex hit (inbox s),
         s\<lparr>inbox := map (\<lambda>n. if hit n then n\<lparr>read_at := Some (now s)\<rparr> else n) (inbox s)\<rparr>))"

definition mark_all_read :: "current_user \<Rightarrow> 'a core_scheme \<Rightarrow> nat \<times> 'a core_scheme" where
  "mark_all_read c s =
    (let hit = (\<lambda>n. recipient_id n = cu_id c \<and> read_at n = None)
     in (length (filter hit (inbox s)),
         s\<lparr>inbox := map (\<lambda>n. if hit n then n\<lparr>read_at := Some (now s)\<rparr> else n) (inbox s)\<rparr>))"

definition recent_count :: "uuid \<Rightarrow> notification_kind \<Rightarrow> int \<Rightarrow> 'a core_scheme \<Rightarrow> nat" where
  "recent_count rcp k within s = length (filter (\<lambda>n. recipient_id n = rcp \<and> ntf_kind n = k
     \<and> ntf_created_at n \<ge> now s - within) (inbox s))"

text \<open>An email attempt: it enters the log when the provider accepts it; the result tells.\<close>

definition send_email :: "env \<Rightarrow> email \<Rightarrow> 'a core_scheme \<Rightarrow> bool \<times> 'a core_scheme" where
  "send_email E m s = (if email_ok E m then (True, s\<lparr>mail_log := mail_log s @ [m]\<rparr>) else (False, s))"

subsection \<open>Employees and visibility\<close>

definition find_employee :: "uuid \<Rightarrow> 'a core_scheme \<Rightarrow> employee option" where
  "find_employee i s = row_get emp_id i (employees s)"

definition by_name :: "env \<Rightarrow> employee list \<Rightarrow> employee list" where
  "by_name E es = sort_key (\<lambda>e. collate E (full_name e)) es"

definition list_by_role :: "env \<Rightarrow> role \<Rightarrow> 'a core_scheme \<Rightarrow> employee list" where
  "list_by_role E r s = by_name E (filter (\<lambda>e. role e = r \<and> is_active e) (employees s))"

definition list_admins :: "env \<Rightarrow> 'a core_scheme \<Rightarrow> employee list" where
  "list_admins E s = by_name E (filter (\<lambda>e. role e \<in> {ADMIN, IT_ADMIN} \<and> is_active e) (employees s))"

definition list_payroll_managers :: "env \<Rightarrow> 'a core_scheme \<Rightarrow> employee list" where
  "list_payroll_managers E s = by_name E (filter (\<lambda>e. payroll_manager e \<and> is_active e) (employees s))"

definition list_guests :: "env \<Rightarrow> 'a core_scheme \<Rightarrow> employee list" where
  "list_guests E s = by_name E (filter (\<lambda>e. is_active e \<and> is_guest e) (employees s))"

definition list_all_active :: "env \<Rightarrow> 'a core_scheme \<Rightarrow> employee list" where
  "list_all_active E s = by_name E (filter (\<lambda>e. is_active e \<and> \<not> is_guest e) (employees s))"

definition has_reports :: "uuid \<Rightarrow> 'a core_scheme \<Rightarrow> bool" where
  "has_reports i s = list_ex (\<lambda>e. manager_id e = Some i \<and> is_active e \<and> \<not> is_guest e) (employees s)"

text \<open>
  \<open>reporting_tree_ids\<close>: the recursive query. Each round joins the rows of the round before
  with their direct reports; \<open>UNION\<close> keeps the ids that were not produced yet.
\<close>

definition reports_of :: "employee list \<Rightarrow> uuid list \<Rightarrow> uuid list" where
  "reports_of es ms = map emp_id (filter (\<lambda>e. case manager_id e of None \<Rightarrow> False | Some m \<Rightarrow> m \<in> set ms) es)"

function grow_tree :: "employee list \<Rightarrow> uuid list \<Rightarrow> uuid list \<Rightarrow> uuid list" where
  "grow_tree es found [] = found"
| "grow_tree es found (f # fs) =
     (let new = dedup_from found (reports_of es (f # fs)) in grow_tree es (found @ new) new)"
  by pat_completeness auto
termination
proof (relation "measures [\<lambda>(es, found, _). card (emp_id ` set es - set found), \<lambda>(_, _, fr). length fr]")
  fix es :: "employee list" and found fs :: "uuid list" and f new
  assume new: "new = dedup_from found (reports_of es (f # fs))"
  have sub: "set new \<subseteq> emp_id ` set es - set found"
    unfolding new set_dedup_from by (auto simp: reports_of_def)
  show "((es, found @ new, new), es, found, f # fs)
    \<in> measures [\<lambda>(es, found, _). card (emp_id ` set es - set found), \<lambda>(_, _, fr). length fr]"
  proof (cases "new = []")
    case False
    then obtain x where "x \<in> set new" by (cases new) auto
    then have "emp_id ` set es - set (found @ new) \<subset> emp_id ` set es - set found" using sub by auto
    then have "card (emp_id ` set es - set (found @ new)) < card (emp_id ` set es - set found)"
      by (intro psubset_card_mono) simp_all
    then show ?thesis by simp
  qed simp
qed simp

definition reporting_tree_ids :: "uuid \<Rightarrow> 'a core_scheme \<Rightarrow> uuid list" where
  "reporting_tree_ids m s =
    (let first = dedup_from [] (reports_of (employees s) [m]) in grow_tree (employees s) first first)"

text \<open>SQL equality with the caller's department: a \<open>NULL\<close> on either side is not a match.\<close>

definition same_department :: "uuid \<Rightarrow> employee \<Rightarrow> 'a core_scheme \<Rightarrow> bool" where
  "same_department cid e s = (case find_employee cid s of None \<Rightarrow> False
     | Some c \<Rightarrow> department e \<noteq> None \<and> department e = department c)"

definition scope_clause :: "current_user \<Rightarrow> employee \<Rightarrow> 'a core_scheme \<Rightarrow> bool" where
  "scope_clause c e s =
    (if cu_role c \<in> {ADMIN, HR} then True
     else if cu_role c = VIEWER then emp_id e = cu_id c
     else if cu_role c = SENIOR_MANAGER then same_department (cu_id c) e s
     else emp_id e \<in> set (reporting_tree_ids (cu_id c) s) \<or> emp_id e = cu_id c)"

definition personal_scope_clause :: "current_user \<Rightarrow> employee \<Rightarrow> 'a core_scheme \<Rightarrow> bool" where
  "personal_scope_clause c e s =
    (if cu_role c = HR then True
     else if cu_role c = VIEWER then emp_id e = cu_id c
     else if cu_role c = SENIOR_MANAGER then same_department (cu_id c) e s
     else manager_id e = Some (cu_id c) \<or> emp_id e = cu_id c)"

definition can_read :: "current_user \<Rightarrow> uuid \<Rightarrow> 'a core_scheme \<Rightarrow> bool" where
  "can_read c i s = (case find_employee i s of None \<Rightarrow> False | Some e \<Rightarrow> scope_clause c e s)"

definition can_read_personal :: "current_user \<Rightarrow> uuid \<Rightarrow> 'a core_scheme \<Rightarrow> bool" where
  "can_read_personal c i s = (case find_employee i s of None \<Rightarrow> False | Some e \<Rightarrow> personal_scope_clause c e s)"

definition all_in_scope :: "env \<Rightarrow> current_user \<Rightarrow> 'a core_scheme \<Rightarrow> employee list" where
  "all_in_scope E c s = by_name E (filter (\<lambda>e. scope_clause c e s \<and> is_active e \<and> \<not> is_guest e) (employees s))"

definition all_in_personal_scope :: "env \<Rightarrow> current_user \<Rightarrow> 'a core_scheme \<Rightarrow> employee list" where
  "all_in_personal_scope E c s =
    by_name E (filter (\<lambda>e. personal_scope_clause c e s \<and> is_active e \<and> \<not> is_guest e) (employees s))"

end
