(* ===== verification/OrgLaws.thy ===== *)
theory OrgLaws
  imports Org
begin

text \<open>
  Facts about the shared state of \<open>Org\<close>: what appending to the audit log and notifying leave
  unchanged, the integrity of the audit chain, the reporting tree as a transitive closure, and who
  is visible to whom.
\<close>

subsection \<open>Frames\<close>

lemma audit_append_simps [simp, store_simps]:
  "employees (audit_append E a b t s) = employees s"
  "inbox (audit_append E a b t s) = inbox s"
  "mail_log (audit_append E a b t s) = mail_log s"
  "now (audit_append E a b t s) = now s"
  "next_id (audit_append E a b t s) = next_id s"
  "core.more (audit_append E a b t s) = core.more s"
  by (simp_all add: audit_append_def Let_def)

lemma notify_simps [simp, store_simps]:
  "employees (notify E m d s) = employees s"
  "audit_log (notify E m d s) = audit_log s"
  "mail_log (notify E m d s) = mail_log s"
  "now (notify E m d s) = now s"
  "core.more (notify E m d s) = core.more s"
  by (simp_all add: notify_def Let_def)

lemma notify_next_id: "next_id s \<le> next_id (notify E m d s)"
  by (simp add: notify_def Let_def)

lemma send_email_simps [simp, store_simps]:
  "employees (snd (send_email E m s)) = employees s"
  "audit_log (snd (send_email E m s)) = audit_log s"
  "inbox (snd (send_email E m s)) = inbox s"
  "now (snd (send_email E m s)) = now s"
  "next_id (snd (send_email E m s)) = next_id s"
  "core.more (snd (send_email E m s)) = core.more s"
  "fst (send_email E m s) = email_ok E m"
  by (simp_all add: send_email_def)

lemma find_employee_cong: "employees s = employees t \<Longrightarrow> find_employee i s = find_employee i t"
  by (simp add: find_employee_def)

lemma find_employee_simps [simp, store_simps]:
  "find_employee i (audit_append E a b t s) = find_employee i s"
  "find_employee i (notify E m d s) = find_employee i s"
  "find_employee i (snd (send_email E e s)) = find_employee i s"
  by (simp_all add: find_employee_def)

lemma find_employee_id: "find_employee i s = Some e \<Longrightarrow> emp_id e = i \<and> e \<in> set (employees s)"
  using row_get_SomeD[of emp_id] by (auto simp: find_employee_def)

subsection \<open>The audit chain\<close>

fun chained :: "env \<Rightarrow> string option \<Rightarrow> audit_entry list \<Rightarrow> bool" where
  "chained E prev [] \<longleftrightarrow> True"
| "chained E prev (e # es) \<longleftrightarrow> prev_hash e = prev
     \<and> entry_hash e = entry_hash_of E prev (actor e) (action e) (target e)
     \<and> chained E (Some (entry_hash e)) es"

text \<open>The log is chained, ordered by time, and no entry is from the future.\<close>

definition audit_ok :: "env \<Rightarrow> 'a core_scheme \<Rightarrow> bool" where
  "audit_ok E s \<longleftrightarrow> chained E None (audit_log s) \<and> sorted (map occurred_at (audit_log s))
     \<and> (\<forall>e \<in> set (audit_log s). occurred_at e \<le> now s)"

lemma chained_append: "chained E prev (es @ [e]) \<longleftrightarrow> chained E prev es
    \<and> chained E (if es = [] then prev else Some (entry_hash (last es))) [e]"
  by (induction es arbitrary: prev) auto

lemma latest_entry_snoc:
  "latest_entry (es @ [e]) = (case latest_entry es of None \<Rightarrow> Some e
     | Some b \<Rightarrow> if occurred_at b \<le> occurred_at e then Some e else Some b)"
  by (simp add: latest_entry_def)

lemma latest_entry_sorted:
  "sorted (map occurred_at es) \<Longrightarrow> latest_entry es = (if es = [] then None else Some (last es))"
proof (induction es rule: rev_induct)
  case (snoc e es)
  then show ?case by (auto simp: latest_entry_snoc sorted_append split: option.splits)
qed (simp add: latest_entry_def)

lemma audit_append_ok: "audit_ok E s \<Longrightarrow> audit_ok E (audit_append E a b t s)"
  by (auto simp: audit_ok_def audit_append_def Let_def latest_entry_sorted chained_append
      sorted_append)

lemma audit_append_log:
  "\<exists>e. audit_log (audit_append E a b t s) = audit_log s @ [e] \<and> actor e = a \<and> action e = b \<and> target e = t
    \<and> occurred_at e = now s"
  by (simp add: audit_append_def Let_def)

lemma notify_audit_ok [simp]: "audit_ok E (notify E' m d s) = audit_ok E s"
  by (simp add: audit_ok_def)

lemma send_email_audit_ok [simp]: "audit_ok E (snd (send_email E' m s)) = audit_ok E s"
  by (simp add: audit_ok_def)

text \<open>
  Tamper evidence. When the hash function does not collide on the strings at hand, produces no
  \<open>|\<close> and is never empty, two chains that end in the same hash hold the same hashed text, entry
  by entry.
\<close>

definition hashed_text :: "audit_entry \<Rightarrow> string" where
  "hashed_text e = canonical (prev_hash e) (actor e) (action e) (target e)"

definition payload :: "audit_entry \<Rightarrow> string" where
  "payload e = actor e @ ''|'' @ action e @ ''|'' @ (case target e of None \<Rightarrow> '''' | Some t \<Rightarrow> t)"

definition prev_text :: "audit_entry \<Rightarrow> string" where
  "prev_text e = (case prev_hash e of None \<Rightarrow> '''' | Some p \<Rightarrow> p)"

lemma hashed_text_split: "hashed_text e = prev_text e @ CHR ''|'' # payload e"
  by (simp add: hashed_text_def canonical_def payload_def prev_text_def)

definition hash_ok :: "env \<Rightarrow> audit_entry list \<Rightarrow> bool" where
  "hash_ok E es \<longleftrightarrow> inj_on (sha256_hex E) (hashed_text ` set es)
     \<and> (\<forall>x. sha256_hex E x \<noteq> '''' \<and> CHR ''|'' \<notin> set (sha256_hex E x))"

lemma split_at_bar:
  "CHR ''|'' \<notin> set p \<Longrightarrow> CHR ''|'' \<notin> set q \<Longrightarrow> p @ CHR ''|'' # x = q @ CHR ''|'' # y \<Longrightarrow> p = q \<and> x = y"
proof (induction p arbitrary: q)
  case Nil
  then show ?case by (cases q) auto
next
  case (Cons a p)
  then show ?case by (cases q) auto
qed

text \<open>Reading a chain from its end: the last hash determines the last payload and the hash before.\<close>

lemma chained_last:
  "chained E None (es @ [e]) \<Longrightarrow> entry_hash e = sha256_hex E (hashed_text e)
    \<and> prev_text e = (if es = [] then '''' else entry_hash (last es))
    \<and> chained E None es"
  by (auto simp: chained_append entry_hash_of_def hashed_text_def prev_text_def)

lemma chained_hash_image:
  "chained E prev es \<Longrightarrow> e \<in> set es \<Longrightarrow> \<exists>x. entry_hash e = sha256_hex E x"
  by (induction es arbitrary: prev) (auto simp: entry_hash_of_def)

lemma chain_tamper_evident:
  "chained E None es \<Longrightarrow> chained E None fs \<Longrightarrow> hash_ok E (es @ fs) \<Longrightarrow> es \<noteq> [] \<Longrightarrow> fs \<noteq> [] \<Longrightarrow>
   entry_hash (last es) = entry_hash (last fs) \<Longrightarrow> map payload es = map payload fs"
proof (induction es arbitrary: fs rule: rev_induct)
  case (snoc e es)
  obtain f fs' where fs: "fs = fs' @ [f]" using snoc.prems(5) by (metis rev_exhaust)
  note ce = chained_last[OF snoc.prems(1)] and cf = chained_last[OF snoc.prems(2)[unfolded fs]]
  have ok: "\<And>x. sha256_hex E x \<noteq> ''''" "\<And>x. CHR ''|'' \<notin> set (sha256_hex E x)"
    using snoc.prems(3) by (simp_all add: hash_ok_def)
  have "sha256_hex E (hashed_text e) = sha256_hex E (hashed_text f)"
    using snoc.prems(6) ce cf by (simp add: fs)
  then have t: "hashed_text e = hashed_text f"
    using snoc.prems(3) unfolding hash_ok_def by (auto simp: fs dest: inj_onD)
  have bar: "CHR ''|'' \<notin> set (prev_text x)" if "chained E None (xs @ [x])" for x xs
    using chained_last[OF that] ok chained_hash_image[of E None xs "last xs"] by (auto split: if_splits)
  have p: "prev_text e = prev_text f" "payload e = payload f"
    using split_at_bar[OF bar[OF snoc.prems(1)] bar[OF snoc.prems(2)[unfolded fs]]] t
    by (simp_all add: hashed_text_split)
  have ne: "prev_text x = '''' \<longleftrightarrow> xs = []" if "chained E None (xs @ [x])" for x xs
    using chained_last[OF that] ok(1) chained_hash_image[of E None xs "last xs"] by (metis last_in_set)
  show ?case
  proof (cases "es = []")
    case True
    then have "fs' = []" using ne[OF snoc.prems(1)] ne[OF snoc.prems(2)[unfolded fs]] p(1) by simp
    then show ?thesis using True p(2) by (simp add: fs)
  next
    case False
    then have F: "fs' \<noteq> []" using ne[OF snoc.prems(1)] ne[OF snoc.prems(2)[unfolded fs]] p(1) by simp
    have "entry_hash (last es) = entry_hash (last fs')" using ce cf p(1) False F by simp
    moreover have "hash_ok E (es @ fs')"
      using snoc.prems(3) by (auto simp: hash_ok_def fs intro: inj_on_subset)
    ultimately have "map payload es = map payload fs'"
      using snoc.IH[of fs'] ce cf False F by simp
    then show ?thesis using p(2) by (simp add: fs)
  qed
qed simp

subsection \<open>The reporting tree\<close>

text \<open>\<open>(m, i)\<close>: the employee \<open>i\<close> reports to \<open>m\<close>.\<close>

definition reports_to :: "employee list \<Rightarrow> (uuid \<times> uuid) set" where
  "reports_to es = {(m, emp_id e) | m e. e \<in> set es \<and> manager_id e = Some m}"

lemma set_reports_of: "set (reports_of es ms) = reports_to es `` set ms"
  by (auto simp: reports_of_def reports_to_def Image_def image_iff split: option.splits)

text \<open>What the search keeps true: everything found is below \<open>m\<close>, and reports of what is found
  and not on the frontier are found.\<close>

lemma grow_tree_closure:
  assumes "set fr \<subseteq> set found" "set found \<subseteq> (reports_to es)\<^sup>+ `` {m}"
    "reports_to es `` {m} \<subseteq> set found" "reports_to es `` (set found - set fr) \<subseteq> set found"
  shows "set (grow_tree es found fr) = (reports_to es)\<^sup>+ `` {m}"
  using assms
proof (induction es found fr rule: grow_tree.induct)
  case (1 es found)
  have "x \<in> set found" if "(m, x) \<in> (reports_to es)\<^sup>+" for x
    using that by (induction rule: trancl_induct) (use 1 in auto)
  then show ?case using 1 by auto
next
  case (2 es found f fs)
  define new where "new = dedup_from found (reports_of es (f # fs))"
  have new: "set new = reports_to es `` set (f # fs) - set found"
    by (simp add: new_def set_dedup_from set_reports_of)
  have "set (grow_tree es (found @ new) new) = (reports_to es)\<^sup>+ `` {m}"
  proof (rule "2.IH"[OF new_def])
    show "set new \<subseteq> set (found @ new)" by simp
    have "set new \<subseteq> (reports_to es)\<^sup>+ `` {m}"
      unfolding new using "2.prems"(1,2) by (auto intro: trancl_into_trancl)
    then show "set (found @ new) \<subseteq> (reports_to es)\<^sup>+ `` {m}" using "2.prems"(2) by simp
    show "reports_to es `` {m} \<subseteq> set (found @ new)" using "2.prems"(3) by auto
    have "reports_to es `` set found \<subseteq> set found \<union> set new"
      unfolding new using "2.prems"(4) by blast
    then show "reports_to es `` (set (found @ new) - set new) \<subseteq> set (found @ new)" by auto
  qed
  then show ?case by (simp add: new_def Let_def)
qed

lemma set_reporting_tree:
  "set (reporting_tree_ids m s) = (reports_to (employees s))\<^sup>+ `` {m}"
proof -
  let ?R = "reports_to (employees s)" and ?first = "dedup_from [] (reports_of (employees s) [m])"
  have "set ?first = ?R `` {m}" by (simp add: set_dedup_from set_reports_of)
  then have "set (grow_tree (employees s) ?first ?first) = ?R\<^sup>+ `` {m}"
    by (intro grow_tree_closure) auto
  then show ?thesis by (simp add: reporting_tree_ids_def Let_def)
qed

lemma grow_tree_distinct: "distinct found \<Longrightarrow> distinct (grow_tree es found fr)"
proof (induction es found fr rule: grow_tree.induct)
  case (2 es found f fs)
  have "distinct (found @ dedup_from found (reports_of es (f # fs)))"
    using 2(2) by (auto simp: distinct_dedup_from set_dedup_from)
  then show ?case using 2(1)[OF refl] by (simp add: Let_def)
qed simp

subsection \<open>Visibility\<close>

lemma scope_lead:
  assumes "cu_role c \<notin> {ADMIN, HR, VIEWER, SENIOR_MANAGER}"
  shows "scope_clause c e s \<longleftrightarrow> emp_id e = cu_id c \<or> (cu_id c, emp_id e) \<in> (reports_to (employees s))\<^sup>+"
  using assms by (auto simp: scope_clause_def set_reporting_tree)

text \<open>Personal matters are never visible to more people than the record itself.\<close>

lemma personal_scope_narrower:
  assumes "e \<in> set (employees s)" "personal_scope_clause c e s"
  shows "scope_clause c e s"
proof (cases "cu_role c \<in> {ADMIN, HR, VIEWER, SENIOR_MANAGER}")
  case True
  then show ?thesis using assms by (auto simp: personal_scope_clause_def scope_clause_def)
next
  case False
  then have "manager_id e = Some (cu_id c) \<or> emp_id e = cu_id c"
    using assms(2) by (auto simp: personal_scope_clause_def)
  moreover have "(cu_id c, emp_id e) \<in> (reports_to (employees s))\<^sup>+" if "manager_id e = Some (cu_id c)"
    using assms(1) that by (intro r_into_trancl) (auto simp: reports_to_def)
  ultimately show ?thesis using scope_lead[OF False] by blast
qed

lemma own_record_visible:
  assumes "find_employee (cu_id c) s = Some e"
  shows "can_read c (cu_id c) s \<longleftrightarrow> \<not> (cu_role c = SENIOR_MANAGER \<and> department e = None)"
  using assms find_employee_id[OF assms]
  by (auto simp: can_read_def scope_clause_def same_department_def)

end
