(* ===== verification/PayrollLine.thy ===== *)
theory PayrollLine
  imports PayrollLaws PyText OrgLaws
begin

text \<open>
  One employee's payroll line and its register row: the pure part of
  \<open>app/services/payroll_service.py\<close> (month calendar, day overrides, adjustments, \<open>_line_for\<close>,
  \<open>_export_row\<close>, \<open>_reimbursement_row\<close>, file names and audit scope of an export).
\<close>

subsection \<open>Months\<close>

text \<open>\<open>_parse_month\<close>: unpacking into other than two parts raises \<open>ValueError\<close> as well.\<close>

definition parse_month :: "string \<Rightarrow> (int \<times> int) res" where
  "parse_month text =
    (case split_on (CHR ''-'') text of
       [y, m] \<Rightarrow> (case (py_int y, py_int m) of
          (Some yi, Some mi) \<Rightarrow> if \<not> (1 \<le> mi \<and> mi \<le> 12) \<or> yi < 1970
             then Inl (ValidationError ''Month must be in YYYY-MM format.'') else Inr (yi, mi)
        | _ \<Rightarrow> Inl (ValidationError ''Month must be in YYYY-MM format.''))
     | _ \<Rightarrow> Inl (ValidationError ''Month must be in YYYY-MM format.''))"

definition month_label :: "int \<Rightarrow> int \<Rightarrow> string" where
  "month_label year month = month_name month @ '' '' @ int_str year"

definition fiscal_year_start :: "string \<Rightarrow> string res" where
  "fiscal_year_start period = ebind (parse_month period) (\<lambda>(year, month).
     let fy = (if month \<ge> 4 then year else year - 1) in Inr (pad4 fy @ ''-04''))"

text \<open>The local calendar day of an instant, and \<open>current_month\<close> / \<open>previous_month\<close>.\<close>

definition local_day :: "env \<Rightarrow> datetime \<Rightarrow> date" where
  "local_day E t = utc_day (t + utc_offset E t)"

definition current_month :: "env \<Rightarrow> datetime \<Rightarrow> string" where
  "current_month E t = (let d = local_day E t in period_str (year_of d) (month_of d))"

definition previous_month :: "env \<Rightarrow> datetime \<Rightarrow> string" where
  "previous_month E t = (let d = local_day E t in
     if month_of d > 1 then period_str (year_of d) (month_of d - 1) else period_str (year_of d - 1) 12)"

record month_calendar =
  cal_year :: int
  cal_month :: int
  working_dates :: "date list"
  elapsed_working_dates :: "date list"
  cal_total_days :: int

definition month_calendar_of :: "int \<Rightarrow> int \<Rightarrow> date list \<Rightarrow> date \<Rightarrow> int \<Rightarrow> month_calendar" where
  "month_calendar_of year m holidays today wpw =
    (let working = filter (\<lambda>d. d \<notin> set holidays) (weekdays_in_month year m wpw)
     in \<lparr>cal_year = year, cal_month = m, working_dates = working,
         elapsed_working_dates = filter (\<lambda>d. d \<le> today) working,
         cal_total_days = days_in_month year m\<rparr>)"

text \<open>Paid leave of one person, as (first day, last day, half day): the inner loop of
  \<open>_leave_days_by_employee\<close> takes the heaviest leave of a working day.\<close>

definition leave_weight :: "(date \<times> date \<times> bool) list \<Rightarrow> date \<Rightarrow> pyfloat" where
  "leave_weight leaves d = foldl (\<lambda>w (s, e, half). if s \<le> d \<and> d \<le> e then max w (if half then 1 / 2 else 1) else w) 0 leaves"

definition leave_days :: "(date \<times> date \<times> bool) list \<Rightarrow> month_calendar \<Rightarrow> pyfloat" where
  "leave_days leaves cal = foldl (\<lambda>t d. fadd t (leave_weight leaves d)) 0 (working_dates cal)"

record month_summary =
  full_days :: int
  late_days :: int
  half_days :: int
  out_of_office_days :: pyfloat

definition present_days :: "month_summary option \<Rightarrow> pyfloat" where
  "present_days summary = (case summary of None \<Rightarrow> 0
     | Some r \<Rightarrow> fadd (fadd (to_float (full_days r + late_days r)) (fmul (1 / 2) (to_float (half_days r))))
                     (out_of_office_days r))"

subsection \<open>Adjustments\<close>

datatype adjustment_kind = EARNING | DEDUCTION | OVERRIDE

datatype adjustment_target = BASIC | HRA | SPECIAL_ALLOWANCE | EMPLOYEE_PF | PROFESSIONAL_TAX
  | INCOME_TAX | PRESENT_DAYS | PAID_LEAVE_DAYS | LOP_DAYS | PAYABLE_DAYS | NET_PAY

record adjustment =
  adj_id :: uuid
  adj_employee :: uuid
  adj_period :: string
  adj_kind :: adjustment_kind
  adj_label :: string
  adj_amount :: int
  adj_target :: "adjustment_target option"

definition is_override :: "adjustment_target \<Rightarrow> adjustment \<Rightarrow> bool" where
  "is_override tg a \<longleftrightarrow> adj_kind a = OVERRIDE \<and> adj_target a = Some tg"

fun day_override :: "adjustment list \<Rightarrow> adjustment_target \<Rightarrow> pyfloat \<Rightarrow> pyfloat" where
  "day_override [] tg computed = computed"
| "day_override (a # as) tg computed =
     (if is_override tg a then max 0 (int_div (adj_amount a) 100) else day_override as tg computed)"

definition clamped_days :: "int \<Rightarrow> adjustment \<Rightarrow> pyfloat" where
  "clamped_days base_days a = min (to_float base_days) (max 0 (int_div (adj_amount a) 100))"

definition lop_override :: "adjustment list \<Rightarrow> pyfloat \<Rightarrow> int \<Rightarrow> pyfloat" where
  "lop_override as computed_lop base_days =
    (case List.find (is_override LOP_DAYS) as of
       Some a \<Rightarrow> clamped_days base_days a
     | None \<Rightarrow> (case List.find (is_override PAYABLE_DAYS) as of
         Some a \<Rightarrow> fsub (to_float base_days) (clamped_days base_days a)
       | None \<Rightarrow> computed_lop))"

text \<open>The loop over the overrides of \<open>_apply_adjustments\<close>: a later override of a field replaces an
  earlier one. Its local variables are the fields of the slip plus the net override.\<close>

fun apply_override :: "salary_breakdown \<times> int option \<Rightarrow> adjustment \<Rightarrow> salary_breakdown \<times> int option" where
  "apply_override (b, net) a =
    (if adj_kind a \<noteq> OVERRIDE then (b, net)
     else case adj_target a of
       Some BASIC \<Rightarrow> (b\<lparr>basic_minor := adj_amount a\<rparr>, net)
     | Some HRA \<Rightarrow> (b\<lparr>hra_minor := adj_amount a\<rparr>, net)
     | Some SPECIAL_ALLOWANCE \<Rightarrow> (b\<lparr>special_allowance_minor := adj_amount a\<rparr>, net)
     | Some EMPLOYEE_PF \<Rightarrow> (b\<lparr>employee_pf_minor := adj_amount a\<rparr>, net)
     | Some PROFESSIONAL_TAX \<Rightarrow> (b\<lparr>prof_tax_minor := adj_amount a\<rparr>, net)
     | Some INCOME_TAX \<Rightarrow> (b\<lparr>income_tax_minor := adj_amount a\<rparr>, net)
     | Some NET_PAY \<Rightarrow> (b, Some (adj_amount a))
     | _ \<Rightarrow> (b, net))"

definition sum_of_kind :: "adjustment_kind \<Rightarrow> adjustment list \<Rightarrow> int" where
  "sum_of_kind k as = sum_list (map adj_amount (filter (\<lambda>a. adj_kind a = k) as))"

definition apply_adjustments ::
  "salary_breakdown \<Rightarrow> adjustment list \<Rightarrow> salary_breakdown \<times> int \<times> int" where
  "apply_adjustments prorated as =
    (let (b, net_override) = foldl apply_override (prorated, None) as;
         gross = basic_minor b + hra_minor b + special_allowance_minor b;
         total_deduction = employee_pf_minor b + prof_tax_minor b + income_tax_minor b;
         earnings = sum_of_kind EARNING as;
         deductions = sum_of_kind DEDUCTION as;
         base_net = (case net_override of Some n \<Rightarrow> n | None \<Rightarrow> gross - total_deduction)
     in (b\<lparr>gross_minor := gross, total_deduction_minor := total_deduction,
           net_minor := base_net + earnings - deductions\<rparr>, earnings, deductions))"

subsection \<open>The line\<close>

record compensation =
  comp_employee :: uuid
  comp_amount :: int
  comp_annual :: bool
  pf_enabled :: bool
  account_holder_name :: "string option"
  bank_name :: "string option"
  account_number_encrypted :: "string option"
  ifsc_code :: "string option"
  payment_mode :: string

definition config_for :: "calc_config \<Rightarrow> compensation option \<Rightarrow> calc_config" where
  "config_for cfg cmpn = (case cmpn of Some c \<Rightarrow> if pf_enabled c then cfg else cfg\<lparr>deduct_pf := False\<rparr>
     | None \<Rightarrow> cfg)"

record payroll_line =
  ln_employee :: uuid
  ln_name :: string
  ln_department :: "string option"
  ln_job_title :: "string option"
  ln_location :: "string option"
  ln_hire_date :: "date option"
  ln_currency :: string
  ln_monthly_ctc :: int
  ln_breakdown :: salary_breakdown
  ln_prorated :: salary_breakdown
  ln_total_days :: int
  ln_working_days :: int
  ln_elapsed_working_days :: int
  ln_present_days :: pyfloat
  ln_paid_leave_days :: pyfloat
  ln_lop_days :: pyfloat
  ln_payable_days :: pyfloat
  ln_base_days :: int
  ln_adj_earnings :: int
  ln_adj_deductions :: int
  ln_reimbursement :: int
  ln_net :: int
  ln_missing_compensation :: bool

definition line_for ::
  "employee \<Rightarrow> compensation option \<Rightarrow> calc_config \<Rightarrow> string \<Rightarrow> month_calendar \<Rightarrow> pyfloat \<Rightarrow> pyfloat
   \<Rightarrow> adjustment list \<Rightarrow> int \<Rightarrow> payroll_line" where
  "line_for e cmpn cfg currency cal present_in paid_in as reimbursement =
    (let mctc = (case cmpn of Some c \<Rightarrow> monthly_ctc_minor (comp_amount c) (comp_annual c) | None \<Rightarrow> 0);
         breakdown = compute_breakdown mctc (Some (config_for cfg cmpn)) (Some (cal_month cal));
         (window_start, window_end) = payroll_window (cal_year cal) (cal_month cal) (hire_date e);
         base_days = payable_base_days (cal_year cal) (cal_month cal) (hire_date e);
         inside = (\<lambda>d. window_start \<le> d \<and> d \<le> window_end);
         in_window = filter inside (working_dates cal);
         elapsed_in_window = filter inside (elapsed_working_dates cal);
         present = day_override as PRESENT_DAYS present_in;
         paid = day_override as PAID_LEAVE_DAYS paid_in;
         elapsed_working = to_float (int (length elapsed_in_window));
         worked = min elapsed_working (fadd present paid);
         lop = lop_override as (max 0 (fsub elapsed_working worked)) base_days;
         payable = max 0 (fsub (to_float base_days) lop);
         (prorated, adj_earnings, adj_deductions) =
            apply_adjustments (prorate_breakdown breakdown payable (cal_total_days cal)) as
     in \<lparr>ln_employee = emp_id e, ln_name = full_name e, ln_department = department e,
         ln_job_title = job_title e, ln_location = location e, ln_hire_date = hire_date e,
         ln_currency = currency, ln_monthly_ctc = mctc, ln_breakdown = breakdown,
         ln_prorated = prorated, ln_total_days = cal_total_days cal,
         ln_working_days = int (length in_window),
         ln_elapsed_working_days = \<lfloor>elapsed_working\<rfloor>, ln_present_days = present,
         ln_paid_leave_days = paid, ln_lop_days = lop, ln_payable_days = payable,
         ln_base_days = base_days, ln_adj_earnings = adj_earnings,
         ln_adj_deductions = adj_deductions, ln_reimbursement = reimbursement,
         ln_net = net_minor prorated + reimbursement, ln_missing_compensation = (cmpn = None)\<rparr>)"

subsection \<open>The register\<close>

record export_row =
  x_period :: string
  x_payroll_type :: string
  x_employee_no :: string
  x_employee_name :: string
  x_department :: string
  x_designation :: string
  x_work_location :: string
  x_date_of_joining :: string
  x_date_of_birth :: string
  x_last_working_day :: string
  x_payment_mode :: string
  x_account_holder :: string
  x_bank_name :: string
  x_account_number :: string
  x_ifsc :: string
  x_ctc_annual :: int
  x_gross_annual :: int
  x_base_days :: pyfloat
  x_loss_of_pay :: pyfloat
  x_effective_paid_days :: pyfloat
  x_basic :: int
  x_hra :: int
  x_fixed_allowance :: int
  x_reimbursement :: int
  x_total_reimbursements :: int
  x_fixed_monthly_earnings :: int
  x_fixed_monthly_costs :: int
  x_total_earnings :: int
  x_epf_employee :: int
  x_epf_employer :: int
  x_eps_employer :: int
  x_edli_employer :: int
  x_epf_admin_employer :: int
  x_total_employer :: int
  x_income_tax :: int
  x_professional_tax :: int
  x_total_deductions :: int
  x_gross_pay :: int
  x_net_monthly_total_pay :: int
  x_reimbursement_pay :: int
  x_total_pay :: int

text \<open>\<open>value or ""\<close> on an optional text, and \<open>fmt_register_date\<close> (\<open>%d-%m-%Y\<close>).\<close>

definition or_empty :: "string option \<Rightarrow> string" where
  "or_empty v = (case v of Some s \<Rightarrow> s | None \<Rightarrow> '''')"

definition fmt_register_date :: "date option \<Rightarrow> string" where
  "fmt_register_date v = (case v of None \<Rightarrow> ''''
     | Some d \<Rightarrow> pad2 (day_of d) @ ''-'' @ pad2 (month_of d) @ ''-'' @ int_str (year_of d))"

definition rupees :: "int \<Rightarrow> int" where
  "rupees minor = py_round (int_div minor 100)"

text \<open>The bank columns; \<open>decrypt\<close> is \<open>decrypt_pii\<close> with the deployment's key.\<close>

definition account_of :: "(string \<Rightarrow> string) \<Rightarrow> compensation option \<Rightarrow> string" where
  "account_of decrypt cmpn = (case cmpn of None \<Rightarrow> ''''
     | Some c \<Rightarrow> (case account_number_encrypted c of None \<Rightarrow> ''''
         | Some t \<Rightarrow> if t = '''' then '''' else decrypt t))"

definition comp_text :: "(compensation \<Rightarrow> string option) \<Rightarrow> compensation option \<Rightarrow> string" where
  "comp_text f cmpn = (case cmpn of None \<Rightarrow> '''' | Some c \<Rightarrow> or_empty (f c))"

definition emp_text :: "(employee \<Rightarrow> string option) \<Rightarrow> employee option \<Rightarrow> string" where
  "emp_text f emp = (case emp of None \<Rightarrow> '''' | Some e \<Rightarrow> or_empty (f e))"

definition export_row_of ::
  "(string \<Rightarrow> string) \<Rightarrow> payroll_line \<Rightarrow> employee option \<Rightarrow> compensation option \<Rightarrow> string \<Rightarrow> int \<Rightarrow> export_row" where
  "export_row_of decrypt pln emp cmpn period_label reimbursement_minor =
    (let p = ln_prorated pln;
         emp_pf = employee_pf_minor p;
         er = employer_contributions (basic_minor p) emp_pf;
         fixed_earnings = rupees (gross_minor p);
         total_earnings = fixed_earnings + rupees (ln_adj_earnings pln);
         total_deductions = rupees (total_deduction_minor p) + rupees (ln_adj_deductions pln);
         net_salary = rupees (ln_net pln - ln_reimbursement pln);
         reimbursement = rupees reimbursement_minor
     in \<lparr>x_period = period_label, x_payroll_type = ''Regular Payroll'',
         x_employee_no = emp_text employee_number emp, x_employee_name = ln_name pln,
         x_department = or_empty (ln_department pln), x_designation = emp_text job_title emp,
         x_work_location = emp_text location emp,
         x_date_of_joining = fmt_register_date (Option.bind emp hire_date),
         x_date_of_birth = fmt_register_date (Option.bind emp date_of_birth),
         x_last_working_day = '''',
         x_payment_mode = (case cmpn of Some c \<Rightarrow> payment_mode c | None \<Rightarrow> ''Bank Transfer''),
         x_account_holder = comp_text account_holder_name cmpn,
         x_bank_name = comp_text bank_name cmpn, x_account_number = account_of decrypt cmpn,
         x_ifsc = comp_text ifsc_code cmpn,
         x_ctc_annual = rupees (ln_monthly_ctc pln * 12),
         x_gross_annual = rupees (gross_minor (ln_breakdown pln) * 12),
         x_base_days = to_float (ln_base_days pln), x_loss_of_pay = ln_lop_days pln,
         x_effective_paid_days = ln_payable_days pln,
         x_basic = rupees (basic_minor p), x_hra = rupees (hra_minor p),
         x_fixed_allowance = rupees (special_allowance_minor p),
         x_reimbursement = 0, x_total_reimbursements = 0,
         x_fixed_monthly_earnings = fixed_earnings,
         x_fixed_monthly_costs = rupees (ctc_minor p), x_total_earnings = total_earnings,
         x_epf_employee = rupees emp_pf, x_epf_employer = rupees (epf_employer_minor er),
         x_eps_employer = rupees (eps_minor er), x_edli_employer = rupees (edli_minor er),
         x_epf_admin_employer = rupees (admin_minor er), x_total_employer = rupees (total_minor er),
         x_income_tax = rupees (income_tax_minor p), x_professional_tax = rupees (prof_tax_minor p),
         x_total_deductions = total_deductions, x_gross_pay = total_earnings,
         x_net_monthly_total_pay = net_salary, x_reimbursement_pay = reimbursement,
         x_total_pay = net_salary + reimbursement\<rparr>)"

definition reimbursement_row_of ::
  "(string \<Rightarrow> string) \<Rightarrow> payroll_line \<Rightarrow> employee option \<Rightarrow> compensation option \<Rightarrow> string \<Rightarrow> int \<Rightarrow> export_row" where
  "reimbursement_row_of decrypt pln emp cmpn period_label reimbursement_minor =
    (let amount = rupees reimbursement_minor
     in \<lparr>x_period = period_label, x_payroll_type = ''Reimbursement'',
         x_employee_no = emp_text employee_number emp, x_employee_name = ln_name pln,
         x_department = or_empty (ln_department pln), x_designation = emp_text job_title emp,
         x_work_location = emp_text location emp,
         x_date_of_joining = fmt_register_date (Option.bind emp hire_date),
         x_date_of_birth = fmt_register_date (Option.bind emp date_of_birth),
         x_last_working_day = '''',
         x_payment_mode = (case cmpn of Some c \<Rightarrow> payment_mode c | None \<Rightarrow> ''Bank Transfer''),
         x_account_holder = comp_text account_holder_name cmpn,
         x_bank_name = comp_text bank_name cmpn, x_account_number = account_of decrypt cmpn,
         x_ifsc = comp_text ifsc_code cmpn,
         x_ctc_annual = 0, x_gross_annual = 0, x_base_days = 0, x_loss_of_pay = 0,
         x_effective_paid_days = 0, x_basic = 0, x_hra = 0, x_fixed_allowance = 0,
         x_reimbursement = 0, x_total_reimbursements = amount, x_fixed_monthly_earnings = 0,
         x_fixed_monthly_costs = 0, x_total_earnings = amount, x_epf_employee = 0,
         x_epf_employer = 0, x_eps_employer = 0, x_edli_employer = 0, x_epf_admin_employer = 0,
         x_total_employer = 0, x_income_tax = 0, x_professional_tax = 0, x_total_deductions = 0,
         x_gross_pay = amount, x_net_monthly_total_pay = 0, x_reimbursement_pay = amount,
         x_total_pay = amount\<rparr>)"

text \<open>Fixed-width lower-case hexadecimal text sorts as the number does. Which ids an export's audit row names: the count for a whole-organisation export, the sorted
  ids for up to eight people, the count and the first 16 digits of a digest beyond that.\<close>

definition audit_id_limit :: nat where
  "audit_id_limit = 8"

definition export_audit_scope :: "env \<Rightarrow> uuid list option \<Rightarrow> uuid list \<Rightarrow> string" where
  "export_audit_scope E employee_ids exported =
    (case employee_ids of None \<Rightarrow> ''all:'' @ nat_str (length exported)
     | Some _ \<Rightarrow>
        (let ids = map uuid_str (sort exported); joined = concat (case ids of [] \<Rightarrow> [] | i # is \<Rightarrow> i # map (\<lambda>x. '','' @ x) is)
         in if length ids \<le> audit_id_limit then joined
            else ''selected:'' @ nat_str (length ids) @ '':'' @ take 16 (sha256_hex E joined)))"

text \<open>The file name: runs of characters other than lower-case letters and digits become one hyphen,
  outer hyphens are dropped.\<close>

definition slug_char :: "char \<Rightarrow> bool" where
  "slug_char c \<longleftrightarrow> (let n = (of_char c :: nat) in 97 \<le> n \<and> n \<le> 122 \<or> 48 \<le> n \<and> n \<le> 57)"

fun hyphenate :: "bool \<Rightarrow> string \<Rightarrow> string" where
  "hyphenate run [] = []"
| "hyphenate run (c # cs) = (if slug_char c then c # hyphenate False cs
     else if run then hyphenate True cs else CHR ''-'' # hyphenate True cs)"

definition slugify :: "string \<Rightarrow> string" where
  "slugify s = strip_with (\<lambda>c. c = CHR ''-'') (hyphenate False (map to_lower s))"

definition export_filename :: "string \<Rightarrow> payroll_line list \<Rightarrow> bool \<Rightarrow> string" where
  "export_filename month lns selected =
    (if \<not> selected then ''payroll-'' @ month @ ''.xlsx''
     else case lns of
       [pln] \<Rightarrow> (let slug = slugify (ln_name pln)
                in ''payroll-'' @ month @ ''-'' @ (if slug = '''' then ''employee'' else slug) @ ''.xlsx'')
     | _ \<Rightarrow> ''payroll-'' @ month @ ''-'' @ nat_str (length lns) @ ''-employees.xlsx'')"

end
