(* ===== verification/PayrollLineLaws.thy ===== *)
theory PayrollLineLaws
  imports PayrollLine "HOL-Library.Multiset"
begin

text \<open>
  Laws of the payroll line: months parse back, paid days stay inside the person's payroll window,
  adjustments act independently of the order the database returns them in, and the register
  reconciles with the line. The properties follow at the end.
\<close>

subsection \<open>Months\<close>

lemma parse_month_period:
  assumes "1970 \<le> y" "1 \<le> m" "m \<le> 12"
  shows "parse_month (period_str y m) = Inr (y, m)"
proof -
  have "\<not> is_digit (CHR ''-'')" by (simp add: is_digit_def)
  then have "CHR ''-'' \<notin> set (pad4 y)" "CHR ''-'' \<notin> set (pad2 m)"
    using pad_digits(2)[of y] pad_digits(1)[of m] assms by (auto simp: list_all_iff)
  then have "split_on (CHR ''-'') (period_str y m) = [pad4 y, pad2 m]"
    by (simp add: period_str_def split_on_join split_on_none)
  then show ?thesis using assms by (simp add: parse_month_def py_int_pad)
qed

subsection \<open>Adjustments\<close>

text \<open>At most one forced value per field, which the adjustment service maintains.\<close>

definition override_consistent :: "adjustment list \<Rightarrow> bool" where
  "override_consistent as \<longleftrightarrow> (\<forall>a \<in> set as. \<forall>b \<in> set as.
     adj_kind a = OVERRIDE \<and> adj_kind b = OVERRIDE \<and> adj_target a = adj_target b \<longrightarrow> adj_amount a = adj_amount b)"

lemma override_consistentD:
  "override_consistent as \<Longrightarrow> a \<in> set as \<Longrightarrow> b \<in> set as \<Longrightarrow> is_override tg a \<Longrightarrow> is_override tg b \<Longrightarrow>
   adj_amount a = adj_amount b"
  unfolding override_consistent_def is_override_def by metis

lemma day_override_find:
  "day_override as tg d = (case List.find (is_override tg) as of None \<Rightarrow> d
     | Some a \<Rightarrow> max 0 (int_div (adj_amount a) 100))"
  by (induction as) auto

lemma find_override_same:
  assumes "override_consistent as" "set as = set bs"
  shows "map_option adj_amount (List.find (is_override tg) as)
    = map_option adj_amount (List.find (is_override tg) bs)"
proof (cases "\<exists>a \<in> set as. is_override tg a")
  case True
  then obtain a b where f: "List.find (is_override tg) as = Some a" "List.find (is_override tg) bs = Some b"
    using assms(2) by (metis find_None_iff not_None_eq)
  then have "a \<in> set as" "b \<in> set as" "is_override tg a" "is_override tg b"
    using find_Some_set assms(2) by (metis, metis, metis, metis)
  then have "adj_amount a = adj_amount b" using override_consistentD[OF assms(1)] by blast
  then show ?thesis by (simp add: f)
next
  case False
  then have "List.find (is_override tg) as = None" "List.find (is_override tg) bs = None"
    using assms(2) by (auto simp: find_None_iff)
  then show ?thesis by simp
qed

lemma day_override_set:
  assumes "override_consistent as" "set as = set bs"
  shows "day_override as tg d = day_override bs tg d"
  using find_override_same[OF assms, of tg]
  by (auto simp: day_override_find split: option.splits)

lemma lop_override_set:
  assumes "override_consistent as" "set as = set bs"
  shows "lop_override as d n = lop_override bs d n"
  using find_override_same[OF assms, of LOP_DAYS] find_override_same[OF assms, of PAYABLE_DAYS]
  by (auto simp: lop_override_def clamped_days_def split: option.splits)

text \<open>An override as an update of every field.\<close>

definition put_if :: "adjustment \<Rightarrow> adjustment_target \<Rightarrow> int \<Rightarrow> int" where
  "put_if a tg v = (if is_override tg a then adj_amount a else v)"

lemma apply_override_fields:
  "apply_override s a =
    ((fst s)\<lparr>basic_minor := put_if a BASIC (basic_minor (fst s)), hra_minor := put_if a HRA (hra_minor (fst s)),
       special_allowance_minor := put_if a SPECIAL_ALLOWANCE (special_allowance_minor (fst s)),
       employee_pf_minor := put_if a EMPLOYEE_PF (employee_pf_minor (fst s)),
       prof_tax_minor := put_if a PROFESSIONAL_TAX (prof_tax_minor (fst s)),
       income_tax_minor := put_if a INCOME_TAX (income_tax_minor (fst s))\<rparr>,
     if is_override NET_PAY a then Some (adj_amount a) else snd s)"
proof (cases "adj_kind a = OVERRIDE")
  case False
  then show ?thesis by (cases s) (simp add: put_if_def is_override_def)
next
  case True
  show ?thesis
  proof (cases "adj_target a")
    case None
    then show ?thesis using True by (cases s) (simp add: put_if_def is_override_def)
  next
    case (Some tg)
    then show ?thesis using True by (cases s; cases tg) (simp_all add: put_if_def is_override_def)
  qed
qed

lemma put_if_commute:
  assumes "is_override tg a \<Longrightarrow> is_override tg b \<Longrightarrow> adj_amount a = adj_amount b"
  shows "put_if a tg (put_if b tg v) = put_if b tg (put_if a tg v)"
  using assms by (auto simp: put_if_def)

lemma apply_override_commute:
  assumes "adj_kind a = OVERRIDE \<and> adj_kind b = OVERRIDE \<and> adj_target a = adj_target b \<longrightarrow> adj_amount a = adj_amount b"
  shows "apply_override (apply_override s a) b = apply_override (apply_override s b) a"
proof -
  have eq: "is_override tg b \<Longrightarrow> is_override tg a \<Longrightarrow> adj_amount b = adj_amount a" for tg
    using assms by (simp add: is_override_def)
  have pc: "put_if b tg (put_if a tg v) = put_if a tg (put_if b tg v)" for tg v
    by (rule put_if_commute) (rule eq)
  show ?thesis unfolding apply_override_fields[of _ a] apply_override_fields[of _ b]
    using eq[of NET_PAY] by (simp add: pc)
qed

lemma apply_overrides_mset:
  assumes "override_consistent as" "mset as = mset bs"
  shows "foldl apply_override s as = foldl apply_override s bs"
proof -
  have "fold (\<lambda>a s. apply_override s a) as = fold (\<lambda>a s. apply_override s a) bs"
  proof (rule fold_multiset_equiv[OF _ assms(2)])
    fix a b assume ab: "a \<in> set as" "b \<in> set as"
    then have "adj_kind a = OVERRIDE \<and> adj_kind b = OVERRIDE \<and> adj_target a = adj_target b \<longrightarrow> adj_amount a = adj_amount b"
      using assms(1) unfolding override_consistent_def by blast
    then show "(\<lambda>s. apply_override s a) \<circ> (\<lambda>s. apply_override s b)
        = (\<lambda>s. apply_override s b) \<circ> (\<lambda>s. apply_override s a)"
      by (simp add: fun_eq_iff apply_override_commute)
  qed
  then show ?thesis by (simp add: foldl_conv_fold)
qed

lemma sum_of_kind_mset: "mset as = mset bs \<Longrightarrow> sum_of_kind k as = sum_of_kind k bs"
proof -
  assume m: "mset as = mset bs"
  have "sum_of_kind k xs = sum_mset (image_mset adj_amount (filter_mset (\<lambda>a. adj_kind a = k) (mset xs)))" for xs
    by (simp add: sum_of_kind_def sum_mset_sum_list flip: mset_filter mset_map)
  then show ?thesis using m by simp
qed

lemma apply_adjustments_mset:
  "override_consistent as \<Longrightarrow> mset as = mset bs \<Longrightarrow> apply_adjustments b as = apply_adjustments b bs"
  unfolding apply_adjustments_def using apply_overrides_mset[of as bs] sum_of_kind_mset[of as bs] by simp

lemma apply_adjustments_Nil:
  "slip_ok b \<Longrightarrow> apply_adjustments b [] = (b, 0, 0)"
  by (cases b) (simp add: apply_adjustments_def slip_ok_def sum_of_kind_def Let_def)

subsection \<open>Paid days\<close>

lemma base_days_small:
  "1 \<le> m \<Longrightarrow> m \<le> 12 \<Longrightarrow> 0 \<le> payable_base_days y m h \<and> payable_base_days y m h \<le> 31"
  using payable_base_days_bounds[of m y h] month_len_bounds[of y m] by (simp add: days_in_month_def)

lemma clamped_days_bounds: "0 \<le> n \<Longrightarrow> 0 \<le> clamped_days n a \<and> clamped_days n a \<le> to_float n"
  using to_float_mono[of 0 n] by (simp add: clamped_days_def)

lemma fsub_nonneg: "y \<le> x \<Longrightarrow> 0 \<le> fsub x y"
  by (simp add: fsub_def fl_nonneg)

lemma lop_nonneg:
  assumes "0 \<le> n" "0 \<le> d"
  shows "0 \<le> lop_override as d n"
  using assms clamped_days_bounds[OF assms(1)]
  by (auto simp: lop_override_def fsub_nonneg split: option.splits)

lemma payable_within:
  assumes "0 \<le> n" "n \<le> 2 ^ 53" "0 \<le> lop"
  shows "0 \<le> max 0 (fsub (to_float n) lop) \<and> max 0 (fsub (to_float n) lop) \<le> of_int n"
proof -
  have "fl (of_int n - lop) \<le> of_int n" using assms by (intro fl_le_of_int) simp_all
  then show ?thesis using assms by (simp add: fsub_def)
qed

lemmas line_for_unfold = line_for_def Let_def case_prod_unfold payroll_line.select_convs

lemma line_payable:
  "ln_payable_days (line_for e c cfg cur cal p q as r) =
    max 0 (fsub (to_float (ln_base_days (line_for e c cfg cur cal p q as r)))
      (ln_lop_days (line_for e c cfg cur cal p q as r)))"
  by (simp only: line_for_unfold)

lemma line_base:
  "ln_base_days (line_for e c cfg cur cal p q as r) = payable_base_days (cal_year cal) (cal_month cal) (hire_date e)"
  by (simp only: line_for_unfold)

lemma line_lop:
  "ln_lop_days (line_for e c cfg cur cal p q as r) =
    (let w = payroll_window (cal_year cal) (cal_month cal) (hire_date e);
         el = to_float (int (length (filter (\<lambda>d. fst w \<le> d \<and> d \<le> snd w) (elapsed_working_dates cal))))
     in lop_override as (max 0 (fsub el
          (min el (fadd (day_override as PRESENT_DAYS p) (day_override as PAID_LEAVE_DAYS q)))))
          (payable_base_days (cal_year cal) (cal_month cal) (hire_date e)))"
  by (simp only: line_for_unfold)

lemma line_lop_nonneg:
  assumes "1 \<le> cal_month cal" "cal_month cal \<le> 12"
  shows "0 \<le> ln_lop_days (line_for e c cfg cur cal p q as r)"
  unfolding line_lop Let_def using base_days_small[OF assms] by (intro lop_nonneg) simp_all

lemma line_breakdown:
  "ln_breakdown (line_for e c cfg cur cal p q as r) = compute_breakdown
     (case c of Some x \<Rightarrow> monthly_ctc_minor (comp_amount x) (comp_annual x) | None \<Rightarrow> 0)
     (Some (config_for cfg c)) (Some (cal_month cal))"
  by (simp only: line_for_unfold)

lemma line_prorated:
  "ln_prorated (line_for e c cfg cur cal p q as r) =
     fst (apply_adjustments (prorate_breakdown (ln_breakdown (line_for e c cfg cur cal p q as r))
       (ln_payable_days (line_for e c cfg cur cal p q as r)) (cal_total_days cal)) as)"
  by (simp only: line_for_unfold)

lemma line_net:
  "ln_net (line_for e c cfg cur cal p q as r) = net_minor (ln_prorated (line_for e c cfg cur cal p q as r)) + r"
  by (simp only: line_for_unfold)

lemma line_slip_ok: "slip_ok (ln_breakdown (line_for e c cfg cur cal p q as r))"
  unfolding line_breakdown by (rule slip_ok_compute)

subsection \<open>Rupees\<close>

lemma rupees_bounds:
  assumes "\<bar>n\<bar> < 2 ^ 52"
  shows "\<bar>100 * rupees n - n\<bar> \<le> 50"
proof -
  let ?q = "of_int n / of_int 100 :: rat"
  have r: "rupees n = rhe ?q" unfolding rupees_def using assms by (intro py_round_int_div) simp_all
  have "of_int (rhe ?q) - 1 / 2 \<le> ?q" "?q \<le> of_int (rhe ?q) + 1 / 2" by (rule rhe_bounds)+
  then have "(of_int (100 * rhe ?q) :: rat) \<le> of_int (n + 50)" "(of_int (n - 50) :: rat) \<le> of_int (100 * rhe ?q)"
    by simp_all
  then have "100 * rhe ?q \<le> n + 50" "n - 50 \<le> 100 * rhe ?q" by (simp_all only: of_int_le_iff)
  then show ?thesis unfolding r by linarith
qed

subsection \<open>Properties\<close>

text \<open>The month a line is computed for survives the trip through its text: the period written
  for a year and month parses back to them, and the financial year of a period starts in the April
  on or before it.\<close>

theorem period_roundtrip:
  assumes "1971 \<le> y" "1 \<le> m" "m \<le> 12"
  shows "parse_month (period_str y m) = Inr (y, m)
    \<and> fiscal_year_start (period_str y m) = Inr (period_str (if 4 \<le> m then y else y - 1) 4)"
proof -
  have "pad2 4 = ''04''" by code_simp
  then show ?thesis using parse_month_period[of y m] assms
    by (simp add: fiscal_year_start_def period_str_def Let_def)
qed

theorem period_roundtrip_witness: "parse_month (period_str 2026 7) = Inr (2026, 7)"
  using period_roundtrip[of 2026 7] by simp

text \<open>Whatever attendance reports and whatever day overrides are set, the paid days of a line lie
  between zero and the person's days on the payroll, and loss of pay is never negative.\<close>

theorem paid_days_within_window:
  assumes "1 \<le> cal_month cal" "cal_month cal \<le> 12"
  shows "0 \<le> ln_payable_days (line_for e c cfg cur cal p q as r)
    \<and> ln_payable_days (line_for e c cfg cur cal p q as r)
      \<le> of_int (payable_base_days (cal_year cal) (cal_month cal) (hire_date e))
    \<and> 0 \<le> ln_lop_days (line_for e c cfg cur cal p q as r)"
proof -
  let ?n = "payable_base_days (cal_year cal) (cal_month cal) (hire_date e)"
  have n: "0 \<le> ?n" "?n \<le> 2 ^ 53" using base_days_small[OF assms, of "cal_year cal" "hire_date e"] by simp_all
  show ?thesis
    using payable_within[OF n line_lop_nonneg[OF assms]] line_lop_nonneg[OF assms]
    unfolding line_payable line_base by blast
qed

theorem paid_days_within_window_witness:
  "0 \<le> ln_payable_days (line_for \<lparr>emp_id = 1, work_email = ''a'', full_name = ''A'', department = None,
     location = None, job_title = None, date_of_birth = None, gender = None, hire_date = None,
     probation_months = None, employee_number = None, manager_id = None, role = EXECUTIVE,
     payroll_manager = False, is_guest = False, is_active = True, emp_created_at = 0\<rparr> None default_config
     ''INR'' (month_calendar_of 2026 7 [] 0 5) 3 0 [] 0)"
  using paid_days_within_window[of "month_calendar_of 2026 7 [] 0 5"] by (simp add: month_calendar_of_def Let_def)

text \<open>Somebody on the payroll for the whole month who missed nothing and has no adjustment is
  paid the full slip: the prorated slip is the breakdown and the net is its net plus the approved
  expenses. Working days that have not elapsed are never charged.\<close>

theorem full_attendance_full_pay:
  assumes "1 \<le> cal_month cal" "cal_month cal \<le> 12" "cal_total_days cal = days_in_month (cal_year cal) (cal_month cal)"
    and "hire_date e = None \<or> (\<exists>h. hire_date e = Some h \<and> h \<le> mk_date (cal_year cal) (cal_month cal) 1)"
    and "to_float (int (length (elapsed_working_dates cal))) \<le> fadd p q"
    and "list_all (\<lambda>f. \<bar>f (ln_breakdown (line_for e c cfg cur cal p q [] r))\<bar> \<le> 2 ^ 53) [ctc_minor, basic_minor,
      hra_minor, special_allowance_minor, employer_pf_minor, gross_minor, employee_pf_minor]"
  shows "ln_prorated (line_for e c cfg cur cal p q [] r) = ln_breakdown (line_for e c cfg cur cal p q [] r)
    \<and> ln_lop_days (line_for e c cfg cur cal p q [] r) = 0
    \<and> ln_net (line_for e c cfg cur cal p q [] r)
      = net_minor (ln_breakdown (line_for e c cfg cur cal p q [] r)) + r"
proof -
  let ?l = "line_for e c cfg cur cal p q [] r"
  have base: "ln_base_days ?l = cal_total_days cal"
    using assms(3,4) payable_base_days_cases[OF assms(1,2)] by (auto simp: line_base)
  have len: "length (filter P (elapsed_working_dates cal)) \<le> length (elapsed_working_dates cal)" for P
    by simp
  have "to_float (int (length (filter P (elapsed_working_dates cal)))) \<le> fadd p q" for P
    using assms(5) to_float_mono[of "int (length (filter P (elapsed_working_dates cal)))"] len
    by (meson of_nat_le_iff order_trans)
  then have lop: "ln_lop_days ?l = 0"
    by (simp add: line_lop Let_def lop_override_def fsub_def min_def)
  have d: "0 < cal_total_days cal" "cal_total_days cal \<le> 31"
    using month_len_bounds[of "cal_year cal" "cal_month cal"] by (simp_all add: assms(3) days_in_month_def)
  then have pay: "ln_payable_days ?l = of_int (cal_total_days cal)"
    unfolding line_payable base lop by (simp add: fsub_def)
  have "prorate_breakdown (ln_breakdown ?l) (ln_payable_days ?l) (cal_total_days cal) = ln_breakdown ?l"
    using d assms(6) line_slip_ok pay by (intro prorate_full_month) simp_all
  then have "ln_prorated ?l = ln_breakdown ?l"
    unfolding line_prorated using line_slip_ok[of e c cfg cur cal p q "[]" r] by (simp add: apply_adjustments_Nil)
  then show ?thesis using lop by (simp add: line_net)
qed

theorem full_attendance_full_pay_witness:
  "let e = \<lparr>emp_id = 1, work_email = ''a'', full_name = ''A'', department = None, location = None,
      job_title = None, date_of_birth = None, gender = None, hire_date = None, probation_months = None,
      employee_number = None, manager_id = None, role = EXECUTIVE, payroll_manager = False,
      is_guest = False, is_active = True, emp_created_at = 0\<rparr>
   in ln_net (line_for e None default_config ''INR'' (month_calendar_of 2026 7 [] 0 5) 0 0 [] 700)
      = net_minor (ln_breakdown (line_for e None default_config ''INR'' (month_calendar_of 2026 7 [] 0 5) 0 0 [] 700)) + 700"
proof -
  have el: "elapsed_working_dates (month_calendar_of 2026 7 [] 0 5) = []" by code_simp
  have cal: "cal_month (month_calendar_of 2026 7 [] 0 5) = 7" "cal_year (month_calendar_of 2026 7 [] 0 5) = 2026"
    "cal_total_days (month_calendar_of 2026 7 [] 0 5) = days_in_month 2026 7"
    by (simp_all add: month_calendar_of_def Let_def)
  have z: "compute_breakdown 0 (Some x) y = zero_breakdown" for x y by (simp add: compute_breakdown_def Let_def)
  show ?thesis unfolding Let_def
    using full_attendance_full_pay[of "month_calendar_of 2026 7 [] 0 5" _ 0 0 None default_config "''INR''" 700]
    by (simp add: el cal line_breakdown z zero_breakdown_def fadd_def)
qed

text \<open>C6 A line does not depend on the order in which the database returns the month's adjustments,
  provided no field has two different forced values.\<close>

theorem adjustment_order_irrelevant:
  assumes "override_consistent as" "mset as = mset bs"
  shows "line_for e c cfg cur cal p q as r = line_for e c cfg cur cal p q bs r"
proof -
  have set: "set as = set bs" using assms(2) by (rule mset_eq_setD)
  show ?thesis
    unfolding line_for_def by (simp only: day_override_set[OF assms(1) set]
        lop_override_set[OF assms(1) set] apply_adjustments_mset[OF assms])
qed

theorem adjustment_order_irrelevant_witness:
  "let a = \<lparr>adj_id = 1, adj_employee = 1, adj_period = ''2026-07'', adj_kind = OVERRIDE, adj_label = ''x'',
       adj_amount = 100, adj_target = Some BASIC\<rparr>;
       b = a\<lparr>adj_target := Some NET_PAY, adj_amount := 700\<rparr>
   in \<forall>e. line_for e None default_config ''INR'' (month_calendar_of 2026 7 [] 0 5) 3 0 [a, b] 9
        = line_for e None default_config ''INR'' (month_calendar_of 2026 7 [] 0 5) 3 0 [b, a] 9"
  unfolding Let_def
  by (intro allI adjustment_order_irrelevant) (simp_all add: override_consistent_def add_mset_commute)

text \<open>How adjustments settle the net: a forced net, or else basic, HRA and special allowance less
  the three deductions, plus the earnings, minus the deductions; gross and deductions shown on the
  adjusted slip are the sums of their lines.\<close>

theorem adjusted_slip_adds_up:
  "case apply_adjustments b as of (s, earnings, deductions) \<Rightarrow>
     gross_minor s = basic_minor s + hra_minor s + special_allowance_minor s
     \<and> total_deduction_minor s = employee_pf_minor s + prof_tax_minor s + income_tax_minor s
     \<and> earnings = sum_list (map adj_amount (filter (\<lambda>a. adj_kind a = EARNING) as))
     \<and> deductions = sum_list (map adj_amount (filter (\<lambda>a. adj_kind a = DEDUCTION) as))
     \<and> net_minor s = (case snd (foldl apply_override (b, None) as) of Some n \<Rightarrow> n
         | None \<Rightarrow> gross_minor s - total_deduction_minor s) + earnings - deductions"
  by (cases "foldl apply_override (b, None) as")
    (simp add: apply_adjustments_def sum_of_kind_def Let_def split: option.split)

text \<open>The register reconciles with the screen: when expenses are paid in the same run, the total
  pay column (the sum of two rounded columns) is the line's net within one rupee, and the fixed
  earnings column differs from the sum of its three parts by at most two rupees.\<close>

theorem register_matches_line:
  assumes "\<bar>ln_net l\<bar> < 2 ^ 50" "\<bar>ln_reimbursement l\<bar> < 2 ^ 50"
    and "list_all (\<lambda>f. \<bar>f (ln_prorated l)\<bar> < 2 ^ 50) [basic_minor, hra_minor, special_allowance_minor]"
    and "gross_minor (ln_prorated l)
      = basic_minor (ln_prorated l) + hra_minor (ln_prorated l) + special_allowance_minor (ln_prorated l)"
  shows "\<bar>100 * x_total_pay (export_row_of dec l emp c lab (ln_reimbursement l)) - ln_net l\<bar> \<le> 100
    \<and> \<bar>x_fixed_monthly_earnings (export_row_of dec l emp c lab rm)
        - (x_basic (export_row_of dec l emp c lab rm) + x_hra (export_row_of dec l emp c lab rm)
           + x_fixed_allowance (export_row_of dec l emp c lab rm))\<bar> \<le> 2
    \<and> x_total_pay (export_row_of dec l emp c lab rm)
      = x_net_monthly_total_pay (export_row_of dec l emp c lab rm) + x_reimbursement_pay (export_row_of dec l emp c lab rm)"
proof -
  note r = rupees_bounds
  have 1: "\<bar>100 * rupees (ln_net l - ln_reimbursement l) - (ln_net l - ln_reimbursement l)\<bar> \<le> 50"
      "\<bar>100 * rupees (ln_reimbursement l) - ln_reimbursement l\<bar> \<le> 50"
    using assms(1,2) by (intro r; simp)+
  then have 3: "\<bar>100 * (rupees (ln_net l - ln_reimbursement l) + rupees (ln_reimbursement l)) - ln_net l\<bar> \<le> 100"
    unfolding abs_le_iff by simp
  let ?p = "ln_prorated l"
  have a: "\<bar>basic_minor ?p\<bar> < 2 ^ 50" "\<bar>hra_minor ?p\<bar> < 2 ^ 50" "\<bar>special_allowance_minor ?p\<bar> < 2 ^ 50"
    using assms(3) by simp_all
  then have g: "\<bar>gross_minor ?p\<bar> < 2 ^ 52" unfolding assms(4) by simp
  have "\<bar>100 * rupees (gross_minor ?p) - gross_minor ?p\<bar> \<le> 50" using g by (rule r)
  moreover have "\<bar>100 * rupees (basic_minor ?p) - basic_minor ?p\<bar> \<le> 50" using a by (intro r) simp
  moreover have "\<bar>100 * rupees (hra_minor ?p) - hra_minor ?p\<bar> \<le> 50" using a by (intro r) simp
  moreover have "\<bar>100 * rupees (special_allowance_minor ?p) - special_allowance_minor ?p\<bar> \<le> 50"
    using a by (intro r) simp
  ultimately have 2: "\<bar>rupees (gross_minor ?p) - (rupees (basic_minor ?p) + rupees (hra_minor ?p)
      + rupees (special_allowance_minor ?p))\<bar> \<le> 2"
    using assms(4) unfolding abs_le_iff by linarith
  show ?thesis using 2 3 by (simp add: export_row_of_def Let_def)
qed

theorem register_matches_line_witness:
  "let l = \<lparr>ln_employee = 1, ln_name = ''A'', ln_department = None, ln_job_title = None, ln_location = None,
      ln_hire_date = None, ln_currency = ''INR'', ln_monthly_ctc = 0, ln_breakdown = zero_breakdown,
      ln_prorated = zero_breakdown, ln_total_days = 31, ln_working_days = 23, ln_elapsed_working_days = 0,
      ln_present_days = 0, ln_paid_leave_days = 0, ln_lop_days = 0, ln_payable_days = 31, ln_base_days = 31,
      ln_adj_earnings = 0, ln_adj_deductions = 0, ln_reimbursement = 12345, ln_net = 12345,
      ln_missing_compensation = True\<rparr>
   in \<bar>100 * x_total_pay (export_row_of id l None None ''July 2026'' 12345) - 12345\<bar> \<le> 100"
  unfolding Let_def
  using register_matches_line[of "\<lparr>ln_employee = 1, ln_name = ''A'', ln_department = None, ln_job_title = None,
      ln_location = None,
      ln_hire_date = None, ln_currency = ''INR'', ln_monthly_ctc = 0, ln_breakdown = zero_breakdown,
      ln_prorated = zero_breakdown, ln_total_days = 31, ln_working_days = 23, ln_elapsed_working_days = 0,
      ln_present_days = 0, ln_paid_leave_days = 0, ln_lop_days = 0, ln_payable_days = 31, ln_base_days = 31,
      ln_adj_earnings = 0, ln_adj_deductions = 0, ln_reimbursement = 12345, ln_net = 12345,
      ln_missing_compensation = True\<rparr>" id None None "''July 2026''" 0]
  by (simp add: zero_breakdown_def)


end
