(* ===== verification/PayrollOps.thy ===== *)
theory PayrollOps
  imports PayrollLineLaws "HOL-Library.Char_ord" "HOL-Library.List_Lexorder"
begin

text \<open>
  The payroll tables and their operations: manual adjustments
  (\<open>app/services/payroll_adjustment_service.py\<close>), released payslips and payroll runs
  (\<open>app/repositories/payslip.py\<close>, \<open>payroll_run.py\<close>, the release loop, the payslip reads and the
  year-to-date totals of \<open>app/services/payroll_service.py\<close>).
\<close>

subsection \<open>State\<close>

record payslip =
  ps_employee :: uuid
  ps_period :: string
  ps_name :: string
  ps_department :: "string option"
  ps_job_title :: "string option"
  ps_location :: "string option"
  ps_hire_date :: "date option"
  ps_currency :: string
  ps_monthly_ctc :: int
  ps_gross :: int
  ps_net :: int
  ps_reimbursement :: int
  ps_breakdown :: salary_breakdown
  ps_prorated :: salary_breakdown
  ps_total_days :: int
  ps_working_days :: int
  ps_present_days :: pyfloat
  ps_paid_leave_days :: pyfloat
  ps_payable_days :: pyfloat
  ps_released_at :: datetime
  ps_emailed_at :: "datetime option"
  ps_finalized_by :: "uuid option"

datatype run_source = MANUAL | AUTO

record payroll_run =
  run_period :: string
  run_currency :: string
  run_total_net :: int
  run_employee_count :: nat
  run_recipients :: string
  run_source :: run_source
  run_triggered_by :: "uuid option"

record payroll_db = core +
  adjustments :: "adjustment list"
  payslips :: "payslip list"
  payroll_runs :: "payroll_run list"

definition ps_key :: "payslip \<Rightarrow> uuid \<times> string" where
  "ps_key p = (ps_employee p, ps_period p)"

subsection \<open>Adjustments\<close>

record adjustment_create =
  ac_employee :: uuid
  ac_period :: string
  ac_kind :: adjustment_kind
  ac_label :: string
  ac_amount :: int
  ac_target :: "adjustment_target option"

text \<open>\<open>delete_overrides_for\<close>, and \<open>PayrollAdjustmentService.create\<close> / \<open>delete\<close>.\<close>

definition delete_overrides_for ::
  "uuid \<Rightarrow> string \<Rightarrow> adjustment_target \<Rightarrow> 'a payroll_db_scheme \<Rightarrow> 'a payroll_db_scheme" where
  "delete_overrides_for i period tg s = s\<lparr>adjustments := filter (\<lambda>a. \<not> (adj_employee a = i
     \<and> adj_period a = period \<and> adj_kind a = OVERRIDE \<and> adj_target a = Some tg)) (adjustments s)\<rparr>"

definition insert_adjustment :: "adjustment_create \<Rightarrow> 'a payroll_db_scheme \<Rightarrow> adjustment \<times> 'a payroll_db_scheme" where
  "insert_adjustment p s =
    (let a = \<lparr>adj_id = next_id s, adj_employee = ac_employee p, adj_period = ac_period p,
        adj_kind = ac_kind p, adj_label = ac_label p, adj_amount = ac_amount p, adj_target = ac_target p\<rparr>
     in (a, s\<lparr>adjustments := row_add a (adjustments s), next_id := next_id s + 1\<rparr>))"

definition create_adjustment ::
  "env \<Rightarrow> current_user \<Rightarrow> adjustment_create \<Rightarrow> 'a payroll_db_scheme \<Rightarrow> (adjustment \<times> 'a payroll_db_scheme) res" where
  "create_adjustment E c p s =
    (if \<not> can_manage_payroll c then Inl AuthorizationError
     else case find_employee (ac_employee p) s of
       None \<Rightarrow> Inl (ValidationError ''Unknown or inactive employee.'')
     | Some e \<Rightarrow>
         if \<not> is_active e then Inl (ValidationError ''Unknown or inactive employee.'')
         else
           let s1 = (case (ac_kind p, ac_target p) of
                 (OVERRIDE, Some tg) \<Rightarrow> delete_overrides_for (ac_employee p) (ac_period p) tg s
               | _ \<Rightarrow> s);
               (row, s2) = insert_adjustment p s1
           in Inr (row, audit_append E (uuid_str (cu_id c)) ''payroll.adjustment.create''
                (Some (''adjustment:'' @ uuid_str (adj_id row) @ '':'' @ uuid_str (ac_employee p) @ '':'' @ ac_period p)) s2))"

definition delete_adjustment ::
  "env \<Rightarrow> current_user \<Rightarrow> uuid \<Rightarrow> 'a payroll_db_scheme \<Rightarrow> (unit \<times> 'a payroll_db_scheme) res" where
  "delete_adjustment E c i s =
    (if \<not> can_manage_payroll c then Inl AuthorizationError
     else if row_get adj_id i (adjustments s) = None then Inl NotFoundError
     else Inr ((), audit_append E (uuid_str (cu_id c)) ''payroll.adjustment.delete''
            (Some (''adjustment:'' @ uuid_str i)) (s\<lparr>adjustments := row_del adj_id i (adjustments s)\<rparr>)))"

text \<open>\<open>for_month\<close>: the adjustments of one employee's month.\<close>

definition adjustments_for :: "uuid \<Rightarrow> string \<Rightarrow> 'a payroll_db_scheme \<Rightarrow> adjustment list" where
  "adjustments_for i period s = filter (\<lambda>a. adj_employee a = i \<and> adj_period a = period) (adjustments s)"

subsection \<open>Payslips\<close>

definition get_payslip :: "uuid \<Rightarrow> string \<Rightarrow> 'a payroll_db_scheme \<Rightarrow> payslip option" where
  "get_payslip i period s = row_get ps_key (i, period) (payslips s)"

definition payslips_for_month :: "string \<Rightarrow> 'a payroll_db_scheme \<Rightarrow> payslip list" where
  "payslips_for_month period s = filter (\<lambda>p. ps_period p = period) (payslips s)"

text \<open>The snapshot of a line, and \<open>upsert\<close>: it rewrites the row in place and keeps \<open>emailed_at\<close>.\<close>

definition snapshot_of :: "payroll_line \<Rightarrow> string \<Rightarrow> uuid option \<Rightarrow> datetime \<Rightarrow> payslip" where
  "snapshot_of l month finalized_by t = \<lparr>ps_employee = ln_employee l, ps_period = month, ps_name = ln_name l,
     ps_department = ln_department l, ps_job_title = ln_job_title l, ps_location = ln_location l,
     ps_hire_date = ln_hire_date l, ps_currency = ln_currency l, ps_monthly_ctc = ln_monthly_ctc l,
     ps_gross = gross_minor (ln_breakdown l), ps_net = ln_net l, ps_reimbursement = ln_reimbursement l,
     ps_breakdown = ln_breakdown l, ps_prorated = ln_prorated l, ps_total_days = ln_total_days l,
     ps_working_days = ln_working_days l, ps_present_days = ln_present_days l,
     ps_paid_leave_days = ln_paid_leave_days l, ps_payable_days = ln_payable_days l,
     ps_released_at = t, ps_emailed_at = None, ps_finalized_by = finalized_by\<rparr>"

definition upsert_payslip :: "payslip \<Rightarrow> 'a payroll_db_scheme \<Rightarrow> payslip \<times> 'a payroll_db_scheme" where
  "upsert_payslip fresh s =
    (case get_payslip (ps_employee fresh) (ps_period fresh) s of
       None \<Rightarrow> (fresh, s\<lparr>payslips := row_add fresh (payslips s)\<rparr>)
     | Some old \<Rightarrow> (let p = fresh\<lparr>ps_emailed_at := ps_emailed_at old\<rparr>
                     in (p, s\<lparr>payslips := row_put ps_key p (payslips s)\<rparr>)))"

definition mark_emailed :: "payslip \<Rightarrow> 'a payroll_db_scheme \<Rightarrow> 'a payroll_db_scheme" where
  "mark_emailed p s = s\<lparr>payslips := row_put ps_key (p\<lparr>ps_emailed_at := Some (now s)\<rparr>) (payslips s)\<rparr>"

text \<open>\<open>_already_holds\<close>: only the money and the days are compared.\<close>

definition same_figures :: "payslip \<Rightarrow> payslip \<Rightarrow> bool" where
  "same_figures x y \<longleftrightarrow> ps_monthly_ctc x = ps_monthly_ctc y \<and> ps_gross x = ps_gross y
     \<and> ps_net x = ps_net y \<and> ps_reimbursement x = ps_reimbursement y
     \<and> ps_breakdown x = ps_breakdown y \<and> ps_prorated x = ps_prorated y
     \<and> ps_total_days x = ps_total_days y \<and> ps_working_days x = ps_working_days y
     \<and> ps_present_days x = ps_present_days y \<and> ps_paid_leave_days x = ps_paid_leave_days y
     \<and> ps_payable_days x = ps_payable_days y"

definition already_holds :: "payslip option \<Rightarrow> payslip \<Rightarrow> bool" where
  "already_holds existing fresh = (case existing of None \<Rightarrow> False
     | Some x \<Rightarrow> ps_emailed_at x \<noteq> None \<and> same_figures x fresh)"

subsection \<open>Releasing a month\<close>

record payroll_estimate =
  est_month :: string
  est_currency :: string
  est_lines :: "payroll_line list"

record release_counts =
  rc_released :: nat
  rc_emailed :: nat
  rc_skipped :: nat

definition payslip_email :: "employee \<Rightarrow> payroll_line \<Rightarrow> string \<Rightarrow> string \<Rightarrow> email" where
  "payslip_email e l label month = \<lparr>mail_to = work_email e, mail_template = ''payslip'',
     mail_fields = [ln_name l, label, ln_currency l, int_str (ln_net l), ''payslip-'' @ month @ ''.pdf'']\<rparr>"

text \<open>One turn of the loop of \<open>_release_from_estimate\<close>; an email that fails is skipped over.\<close>

definition release_line ::
  "env \<Rightarrow> string \<Rightarrow> string \<Rightarrow> uuid option \<Rightarrow> payroll_line \<Rightarrow> release_counts \<times> 'a payroll_db_scheme
   \<Rightarrow> release_counts \<times> 'a payroll_db_scheme" where
  "release_line E month label by l = (\<lambda>(n, s).
    if ln_missing_compensation l \<or> ln_net l \<le> 0 then (n\<lparr>rc_skipped := rc_skipped n + 1\<rparr>, s)
    else
      let fresh = snapshot_of l month by (now s);
          held = already_holds (get_payslip (ln_employee l) month s) fresh;
          (snap, s1) = upsert_payslip fresh s;
          n1 = n\<lparr>rc_released := rc_released n + 1\<rparr>
      in if held then (n1, s1)
         else case find_employee (ln_employee l) s1 of
           None \<Rightarrow> (n1, s1)
         | Some e \<Rightarrow>
             if work_email e = '''' then (n1, s1)
             else let (ok, s2) = send_email E (payslip_email e l label month) s1
                  in if \<not> ok then (n1, s2)
                     else (n1\<lparr>rc_emailed := rc_emailed n1 + 1\<rparr>, mark_emailed snap s2))"

definition release_from_estimate ::
  "env \<Rightarrow> payroll_estimate \<Rightarrow> current_user option \<Rightarrow> 'a payroll_db_scheme \<Rightarrow> (release_counts \<times> 'a payroll_db_scheme) res" where
  "release_from_estimate E est by s = ebind (parse_month (est_month est)) (\<lambda>(year, m).
     Inr (fold (release_line E (est_month est) (month_label year m) (map_option cu_id by)) (est_lines est)
       (\<lparr>rc_released = 0, rc_emailed = 0, rc_skipped = 0\<rparr>, s)))"

definition upsert_run :: "payroll_run \<Rightarrow> 'a payroll_db_scheme \<Rightarrow> 'a payroll_db_scheme" where
  "upsert_run r s = (if row_get run_period (run_period r) (payroll_runs s) = None
     then s\<lparr>payroll_runs := row_add r (payroll_runs s)\<rparr>
     else s\<lparr>payroll_runs := row_put run_period r (payroll_runs s)\<rparr>)"

text \<open>\<open>finalize\<close> after its estimate: release, record the run, audit.\<close>

definition finalize_estimate ::
  "env \<Rightarrow> current_user \<Rightarrow> payroll_estimate \<Rightarrow> 'a payroll_db_scheme \<Rightarrow> ((release_counts \<times> int) \<times> 'a payroll_db_scheme) res" where
  "finalize_estimate E c est s =
    (if \<not> can_manage_payroll c then Inl AuthorizationError
     else ebind (release_from_estimate E est (Some c) s) (\<lambda>(n, s1).
       let total_net = sum_list (map ln_net (filter (\<lambda>l. \<not> ln_missing_compensation l) (est_lines est)));
           s2 = upsert_run \<lparr>run_period = est_month est, run_currency = est_currency est,
             run_total_net = total_net, run_employee_count = rc_released n, run_recipients = '''',
             run_source = MANUAL, run_triggered_by = Some (cu_id c)\<rparr> s1
       in Inr ((n, total_net), audit_append E (uuid_str (cu_id c)) ''payroll.finalize''
            (Some (''month:'' @ est_month est)) s2)))"

text \<open>\<open>release_for_system\<close> after its estimate: nothing happens for a month already released.\<close>

definition release_for_system ::
  "env \<Rightarrow> payroll_estimate \<Rightarrow> 'a payroll_db_scheme \<Rightarrow> (bool \<times> 'a payroll_db_scheme) res" where
  "release_for_system E est s =
    (if row_get run_period (est_month est) (payroll_runs s) \<noteq> None then Inr (False, s)
     else ebind (release_from_estimate E est None s) (\<lambda>(n, s1).
       Inr (True, upsert_run \<lparr>run_period = est_month est, run_currency = est_currency est,
         run_total_net = sum_list (map ln_net (filter (\<lambda>l. \<not> ln_missing_compensation l) (est_lines est))),
         run_employee_count = rc_released n, run_recipients = '''', run_source = AUTO,
         run_triggered_by = None\<rparr> s1)))"

subsection \<open>Reading payslips\<close>

definition authorize_self_or_manage :: "current_user \<Rightarrow> uuid option \<Rightarrow> uuid res" where
  "authorize_self_or_manage c i =
    (let tgt = (case i of Some x \<Rightarrow> x | None \<Rightarrow> cu_id c)
     in if \<not> can_manage_payroll c \<and> cu_id c \<noteq> tgt then Inl AuthorizationError else Inr tgt)"

definition get_released_payslip ::
  "env \<Rightarrow> current_user \<Rightarrow> uuid option \<Rightarrow> string option \<Rightarrow> 'a payroll_db_scheme \<Rightarrow> payslip res" where
  "get_released_payslip E c i month s = ebind (authorize_self_or_manage c i) (\<lambda>tgt.
     let period = (case month of Some m \<Rightarrow> if m = '''' then current_month E (now s) else m
                   | None \<Rightarrow> current_month E (now s))
     in require_some (get_payslip tgt period s) NotFoundError)"

text \<open>Newest month first; periods compare as text.\<close>

definition list_payslips :: "current_user \<Rightarrow> uuid option \<Rightarrow> 'a payroll_db_scheme \<Rightarrow> payslip list res" where
  "list_payslips c i s = ebind (authorize_self_or_manage c i) (\<lambda>tgt.
     Inr (rev (sort_key ps_period (filter (\<lambda>p. ps_employee p = tgt) (payslips s)))))"

text \<open>Year to date: from the start of the financial year.\<close>

definition released_in_range :: "uuid \<Rightarrow> string \<Rightarrow> string \<Rightarrow> 'a payroll_db_scheme \<Rightarrow> payslip list" where
  "released_in_range i from_m to_m s =
     filter (\<lambda>p. ps_employee p = i \<and> from_m \<le> ps_period p \<and> ps_period p \<le> to_m) (payslips s)"

definition ytd_keys :: "(salary_breakdown \<Rightarrow> int) list" where
  "ytd_keys = [basic_minor, hra_minor, special_allowance_minor, employee_pf_minor, prof_tax_minor, income_tax_minor]"

definition ytd_totals :: "uuid \<Rightarrow> string \<Rightarrow> salary_breakdown option \<Rightarrow> 'a payroll_db_scheme \<Rightarrow> int list res" where
  "ytd_totals i period current s = ebind (fiscal_year_start period) (\<lambda>start.
     let released = released_in_range i start period s;
         slips = map ps_prorated released @
           (case current of Some c \<Rightarrow> if list_ex (\<lambda>p. ps_period p = period) released then [] else [c] | None \<Rightarrow> [])
     in Inr (map (\<lambda>k. sum_list (map k slips)) ytd_keys))"

end
