(* ===== verification/Reimbursement.thy ===== *)
theory Reimbursement
  imports PayrollOps
begin

text \<open>
  Expense claims and their two-step approval: \<open>app/models/reimbursement.py\<close>,
  \<open>app/repositories/reimbursement.py\<close>, \<open>app/services/reimbursement_service.py\<close> and the file sniffing of
  \<open>app/core/uploads.py\<close>.
\<close>

subsection \<open>Data\<close>

datatype claim_category = TRAVEL | MEALS | SUPPLIES | SOFTWARE | EQUIPMENT | TRAINING | OTHER

fun category_value :: "claim_category \<Rightarrow> string" where
  "category_value TRAVEL = ''travel''"
| "category_value MEALS = ''meals''"
| "category_value SUPPLIES = ''supplies''"
| "category_value SOFTWARE = ''software''"
| "category_value EQUIPMENT = ''equipment''"
| "category_value TRAINING = ''training''"
| "category_value OTHER = ''other''"

datatype claim_status = SUBMITTED | MANAGER_APPROVED | APPROVED | REJECTED | WITHDRAWN

fun status_value :: "claim_status \<Rightarrow> string" where
  "status_value SUBMITTED = ''submitted''"
| "status_value MANAGER_APPROVED = ''manager_approved''"
| "status_value APPROVED = ''approved''"
| "status_value REJECTED = ''rejected''"
| "status_value WITHDRAWN = ''withdrawn''"

record receipt =
  rec_id :: uuid
  rec_label :: string
  rec_filename :: "string option"
  rec_content_type :: string
  rec_size :: nat
  rec_object_key :: "string option"
  rec_content :: "string option"

record claim =
  claim_id :: uuid
  claimant :: uuid
  claim_amount :: int
  category :: claim_category
  description :: string
  expense_date :: date
  period_month :: string
  claim_receipts :: "receipt list"
  claim_status :: claim_status
  manager_reviewer_id :: "uuid option"
  manager_decided_at :: "datetime option"
  manager_note :: "string option"
  hr_reviewer_id :: "uuid option"
  hr_decided_at :: "datetime option"
  hr_note :: "string option"
  claim_created_at :: datetime

record claims_db = payroll_db +
  claims :: "claim list"

record claim_create =
  cc_amount :: int
  cc_category :: claim_category
  cc_description :: string
  cc_expense_date :: date

record claim_decision =
  cd_approve :: bool
  cd_note :: "string option"
  cd_settlement_month :: "string option"

subsection \<open>Repository\<close>

definition get_claim :: "uuid \<Rightarrow> 'a claims_db_scheme \<Rightarrow> claim option" where
  "get_claim i s = row_get claim_id i (claims s)"

definition put_claim :: "claim \<Rightarrow> 'a claims_db_scheme \<Rightarrow> 'a claims_db_scheme" where
  "put_claim r s = s\<lparr>claims := row_put claim_id r (claims s)\<rparr>"

text \<open>A column of the claimant's employee row, as a scalar subquery; \<open>NULL\<close> never compares equal.\<close>

definition claimant_column :: "(employee \<Rightarrow> 'b option) \<Rightarrow> uuid \<Rightarrow> 'a claims_db_scheme \<Rightarrow> 'b option" where
  "claimant_column f i s = Option.bind (find_employee i s) f"

definition sql_eq :: "'b option \<Rightarrow> 'b option \<Rightarrow> bool" where
  "sql_eq x y \<longleftrightarrow> x \<noteq> None \<and> x = y"

definition claim_scope :: "current_user \<Rightarrow> claim \<Rightarrow> 'a claims_db_scheme \<Rightarrow> bool" where
  "claim_scope c r s =
    (if can_review_reimbursements c then True
     else let reviewed_by_me = (manager_reviewer_id r = Some (cu_id c))
       in if cu_role c = SENIOR_MANAGER
          then sql_eq (claimant_column department (claimant r) s) (claimant_column department (cu_id c) s) \<or> reviewed_by_me
          else if cu_role c = VIEWER then claimant r = cu_id c \<or> reviewed_by_me
          else claimant r = cu_id c \<or> claimant_column manager_id (claimant r) s = Some (cu_id c) \<or> reviewed_by_me)"

definition get_claim_in_scope :: "current_user \<Rightarrow> uuid \<Rightarrow> 'a claims_db_scheme \<Rightarrow> claim option" where
  "get_claim_in_scope c i s = (case get_claim i s of None \<Rightarrow> None | Some r \<Rightarrow> if claim_scope c r s then Some r else None)"

text \<open>Newest expense first, then newest created; the page and the count of all.\<close>

definition list_claims ::
  "current_user \<Rightarrow> nat \<Rightarrow> nat \<Rightarrow> claim_status option \<Rightarrow> 'a claims_db_scheme \<Rightarrow> claim list \<times> nat" where
  "list_claims c off page st s =
    (let hits = filter (\<lambda>r. claim_scope c r s \<and> (case st of None \<Rightarrow> True | Some x \<Rightarrow> claim_status r = x)) (claims s)
     in (take page (drop off (rev (sort_key expense_date (sort_key claim_created_at hits)))), length hits))"

definition period_for :: "date \<Rightarrow> string" where
  "period_for d = period_str (year_of d) (month_of d)"

definition create_claim :: "claim_create \<Rightarrow> uuid \<Rightarrow> string \<Rightarrow> 'a claims_db_scheme \<Rightarrow> claim \<times> 'a claims_db_scheme" where
  "create_claim p i period s =
    (let r = \<lparr>claim_id = next_id s, claimant = i, claim_amount = cc_amount p, category = cc_category p,
        description = cc_description p, expense_date = cc_expense_date p, period_month = period,
        claim_receipts = [], claim_status = SUBMITTED, manager_reviewer_id = None,
        manager_decided_at = None, manager_note = None, hr_reviewer_id = None, hr_decided_at = None,
        hr_note = None, claim_created_at = now s\<rparr>
     in (r, s\<lparr>claims := row_add r (claims s), next_id := next_id s + 1\<rparr>))"

text \<open>What payroll pays a person for a month.\<close>

definition approved_for_month :: "uuid \<Rightarrow> string \<Rightarrow> 'a claims_db_scheme \<Rightarrow> int" where
  "approved_for_month i period s = sum_list (map claim_amount
     (filter (\<lambda>r. claimant r = i \<and> claim_status r = APPROVED \<and> period_month r = period) (claims s)))"

subsection \<open>Helpers of the service\<close>

definition can_review_hr :: "current_user \<Rightarrow> bool" where
  "can_review_hr c \<longleftrightarrow> can_review_reimbursements c"

definition may_manager_step :: "current_user \<Rightarrow> uuid option \<Rightarrow> bool" where
  "may_manager_step c m \<longleftrightarrow> can_review_hr c \<or> m = Some (cu_id c)"

definition is_manager_reviewer :: "current_user \<Rightarrow> claim \<Rightarrow> 'a claims_db_scheme \<Rightarrow> bool" where
  "is_manager_reviewer c r s = may_manager_step c
     (case find_employee (claimant r) s of Some e \<Rightarrow> manager_id e | None \<Rightarrow> None)"

definition claim_link :: string where
  "claim_link = ''/dashboard/me/reimbursements''"

definition claim_notice ::
  "uuid \<Rightarrow> notification_kind \<Rightarrow> string \<Rightarrow> string \<Rightarrow> uuid \<Rightarrow> uuid option \<Rightarrow> notice" where
  "claim_notice rcp k title body i act = \<lparr>no_to = rcp, no_kind = k, no_title = title, no_body = Some body,
     no_level = INFO, no_link = Some claim_link, no_entity_type = Some ''reimbursement'',
     no_entity_id = Some i, no_actor = act\<rparr>"

definition name_or :: "string \<Rightarrow> employee option \<Rightarrow> string" where
  "name_or d e = (case e of Some x \<Rightarrow> full_name x | None \<Rightarrow> d)"

text \<open>\<open>note or text\<close>\<close>

definition text_or :: "string option \<Rightarrow> string \<Rightarrow> string" where
  "text_or n t = (case n of Some x \<Rightarrow> if x = '''' then t else x | None \<Rightarrow> t)"

definition notify_all ::
  "env \<Rightarrow> uuid list \<Rightarrow> (uuid \<Rightarrow> notice) \<Rightarrow> 'a claims_db_scheme \<Rightarrow> 'a claims_db_scheme" where
  "notify_all E ids mk s = fold (\<lambda>i s. notify E (mk i) None s) ids s"

definition notify_step1_reviewers ::
  "env \<Rightarrow> current_user \<Rightarrow> claim \<Rightarrow> 'a claims_db_scheme \<Rightarrow> 'a claims_db_scheme" where
  "notify_step1_reviewers E c r s =
    (let who = name_or ''An employee'' (find_employee (cu_id c) s);
         body = who @ middot @ money (claim_amount r) @ middot @ category_value (category r);
         manager = Option.bind (cu_manager c) (\<lambda>m. find_employee m s);
         pool = map emp_id (list_by_role E HR s @ list_payroll_managers E s);
         recipients = (case manager of Some m \<Rightarrow> if is_active m then [emp_id m] else pool | None \<Rightarrow> pool)
     in notify_all E (dedup_from [cu_id c] recipients)
          (\<lambda>i. claim_notice i REIMBURSEMENT_SUBMITTED ''Reimbursement to review'' body (claim_id r) (Some (cu_id c))) s)"

definition notify_hr_reviewers ::
  "env \<Rightarrow> current_user \<Rightarrow> claim \<Rightarrow> 'a claims_db_scheme \<Rightarrow> 'a claims_db_scheme" where
  "notify_hr_reviewers E c r s =
    (let who = name_or ''An employee'' (find_employee (claimant r) s);
         body = who @ middot @ money (claim_amount r) @ middot @ ''manager-approved'';
         pool = map emp_id (list_by_role E HR s @ list_payroll_managers E s)
     in notify_all E (dedup_from [claimant r] pool)
          (\<lambda>i. claim_notice i REIMBURSEMENT_SUBMITTED ''Reimbursement for final approval'' body (claim_id r) (Some (cu_id c))) s)"

definition notify_applicant ::
  "env \<Rightarrow> claim \<Rightarrow> bool \<Rightarrow> string option \<Rightarrow> 'a claims_db_scheme \<Rightarrow> 'a claims_db_scheme" where
  "notify_applicant E r approved note s = notify E (claim_notice (claimant r) REIMBURSEMENT_DECISION
     (''Reimbursement '' @ (if approved then ''approved'' else ''declined''))
     (text_or note (money (claim_amount r) @ middot @ category_value (category r))) (claim_id r)
     (case hr_reviewer_id r of Some h \<Rightarrow> Some h | None \<Rightarrow> manager_reviewer_id r)) None s"

definition claim_audit ::
  "env \<Rightarrow> current_user \<Rightarrow> string \<Rightarrow> string \<Rightarrow> 'a claims_db_scheme \<Rightarrow> 'a claims_db_scheme" where
  "claim_audit E c act tgt s = audit_append E (uuid_str (cu_id c)) act (Some (''reimbursement:'' @ tgt)) s"

subsection \<open>Submitting and deciding\<close>

definition submit :: "env \<Rightarrow> current_user \<Rightarrow> claim_create \<Rightarrow> 'a claims_db_scheme \<Rightarrow> (claim \<times> 'a claims_db_scheme) res" where
  "submit E c p s =
    (let (r, s1) = create_claim p (cu_id c) (period_for (cc_expense_date p)) s;
         s2 = claim_audit E c ''reimbursement.submit'' (uuid_str (claim_id r)) s1
     in Inr (r, notify_step1_reviewers E c r s2))"

definition manager_decide ::
  "env \<Rightarrow> current_user \<Rightarrow> uuid \<Rightarrow> claim_decision \<Rightarrow> 'a claims_db_scheme \<Rightarrow> (claim \<times> 'a claims_db_scheme) res" where
  "manager_decide E c i d s =
    (case get_claim i s of None \<Rightarrow> Inl NotFoundError
     | Some r \<Rightarrow>
        if cu_id c = claimant r then Inl AuthorizationError
        else if \<not> is_manager_reviewer c r s then Inl AuthorizationError
        else if claim_status r \<noteq> SUBMITTED then Inl (ConflictError ''This claim is no longer awaiting manager review.'')
        else
          let r' = r\<lparr>manager_reviewer_id := Some (cu_id c), manager_decided_at := Some (now s),
                manager_note := cd_note d, claim_status := (if cd_approve d then MANAGER_APPROVED else REJECTED)\<rparr>;
              s1 = claim_audit E c ''reimbursement.manager_decide''
                (uuid_str (claim_id r') @ '':'' @ status_value (claim_status r')) (put_claim r' s)
          in Inr (r', if cd_approve d then notify_hr_reviewers E c r' s1
                      else notify_applicant E r' False (cd_note d) s1))"

definition settlement_month :: "claim \<Rightarrow> string option \<Rightarrow> 'a claims_db_scheme \<Rightarrow> string res" where
  "settlement_month r chosen s =
    (let month = text_or chosen (period_month r)
     in if payslips_for_month month s \<noteq> [] then Inl (ConflictError (''Payroll for '' @ month @
          '' has already been released, so nothing more can be paid into it. Settle this claim in a later month.''))
        else Inr month)"

definition hr_decide ::
  "env \<Rightarrow> current_user \<Rightarrow> uuid \<Rightarrow> claim_decision \<Rightarrow> 'a claims_db_scheme \<Rightarrow> (claim \<times> 'a claims_db_scheme) res" where
  "hr_decide E c i d s =
    (case get_claim i s of None \<Rightarrow> Inl NotFoundError
     | Some r \<Rightarrow>
        if \<not> can_review_hr c \<or> cu_id c = claimant r then Inl AuthorizationError
        else if claim_status r \<noteq> MANAGER_APPROVED then Inl (ConflictError ''This claim is not awaiting HR approval.'')
        else ebind (if cd_approve d then settlement_month r (cd_settlement_month d) s else Inr (period_month r)) (\<lambda>month.
          let r' = r\<lparr>period_month := month, hr_reviewer_id := Some (cu_id c), hr_decided_at := Some (now s),
                hr_note := cd_note d, claim_status := (if cd_approve d then APPROVED else REJECTED)\<rparr>;
              s1 = claim_audit E c ''reimbursement.hr_decide''
                (uuid_str (claim_id r') @ '':'' @ status_value (claim_status r')) (put_claim r' s)
          in Inr (r', notify_applicant E r' (cd_approve d) (cd_note d) s1)))"

definition move_settlement_month ::
  "env \<Rightarrow> current_user \<Rightarrow> uuid \<Rightarrow> string \<Rightarrow> 'a claims_db_scheme \<Rightarrow> (claim \<times> 'a claims_db_scheme) res" where
  "move_settlement_month E c i month s =
    (case get_claim i s of None \<Rightarrow> Inl NotFoundError
     | Some r \<Rightarrow>
        if \<not> can_review_hr c then Inl AuthorizationError
        else if claim_status r \<noteq> APPROVED then Inl (ConflictError ''Only an approved claim is scheduled into a payroll month.'')
        else if month = period_month r then Inr (r, s)
        else if payslips_for_month (period_month r) s \<noteq> [] then Inl (ConflictError (''This claim was already paid in '' @
               period_month r @ [CHR 0x27] @ ''s released payroll, so it cannot be moved out of it.''))
        else ebind (settlement_month r (Some month) s) (\<lambda>m.
          let r' = r\<lparr>period_month := m\<rparr>
          in Inr (r', claim_audit E c ''reimbursement.settlement_month_move''
               (uuid_str (claim_id r) @ '':'' @ period_month r @ ''->'' @ m) (put_claim r' s))))"

definition unschedule ::
  "env \<Rightarrow> current_user \<Rightarrow> uuid \<Rightarrow> string option \<Rightarrow> 'a claims_db_scheme \<Rightarrow> (claim \<times> 'a claims_db_scheme) res" where
  "unschedule E c i note s =
    (case get_claim i s of None \<Rightarrow> Inl NotFoundError
     | Some r \<Rightarrow>
        if \<not> can_review_hr c then Inl AuthorizationError
        else if claim_status r \<noteq> APPROVED then Inl (ConflictError ''This claim is not approved.'')
        else if payslips_for_month (period_month r) s \<noteq> [] then Inl (ConflictError (''This claim was already paid in '' @
               period_month r @ [CHR 0x27] @ ''s released payroll. Recover it through a payroll adjustment instead.''))
        else
          let r' = r\<lparr>claim_status := MANAGER_APPROVED, hr_reviewer_id := None, hr_decided_at := None, hr_note := None\<rparr>;
              s1 = claim_audit E c ''reimbursement.unschedule'' (uuid_str (claim_id r)) (put_claim r' s)
          in Inr (r', notify E (claim_notice (claimant r') REIMBURSEMENT_DECISION ''Reimbursement back under review''
               (text_or note (money (claim_amount r') @ middot @ ''taken out of this month'' @ [CHR 0x27] @ ''s payroll''))
               (claim_id r') (Some (cu_id c))) None s1))"

definition withdraw :: "env \<Rightarrow> current_user \<Rightarrow> uuid \<Rightarrow> 'a claims_db_scheme \<Rightarrow> (claim \<times> 'a claims_db_scheme) res" where
  "withdraw E c i s =
    (case get_claim i s of None \<Rightarrow> Inl NotFoundError
     | Some r \<Rightarrow>
        if claimant r \<noteq> cu_id c then Inl AuthorizationError
        else if claim_status r \<notin> {SUBMITTED, MANAGER_APPROVED}
        then Inl (ConflictError ''Only a claim still under review can be withdrawn.'')
        else let r' = r\<lparr>claim_status := WITHDRAWN\<rparr>
          in Inr (r', claim_audit E c ''reimbursement.withdraw'' (uuid_str (claim_id r)) (put_claim r' s)))"

text \<open>\<open>decidable_ids\<close>: the claims among \<open>rows\<close> the caller can act on now.\<close>

definition decidable_ids :: "current_user \<Rightarrow> claim list \<Rightarrow> 'a claims_db_scheme \<Rightarrow> uuid list" where
  "decidable_ids c rws s = map claim_id (filter (\<lambda>r. claimant r \<noteq> cu_id c \<and>
     (claim_status r = SUBMITTED \<and> may_manager_step c
        (case find_employee (claimant r) s of Some e \<Rightarrow> manager_id e | None \<Rightarrow> None)
      \<or> claim_status r = MANAGER_APPROVED \<and> can_review_hr c)) rws)"

subsection \<open>Proofs of a claim\<close>

text \<open>\<open>detect_media_type\<close>: the leading bytes decide, not the browser.\<close>

definition detect_media_type :: "string \<Rightarrow> string option" where
  "detect_media_type data =
    (let head = take 12 data in
     if take 5 head = ''%PDF-'' then Some ''application/pdf''
     else if take 8 head = [CHR 0x89, CHR ''P'', CHR ''N'', CHR ''G'', CHR 0x0D, CHR 0x0A, CHR 0x1A, CHR 0x0A]
     then Some ''image/png''
     else if take 3 head = [CHR 0xFF, CHR 0xD8, CHR 0xFF] then Some ''image/jpeg''
     else if take 4 head = ''RIFF'' \<and> take 4 (drop 8 head) = ''WEBP'' then Some ''image/webp''
     else None)"

definition allowed_receipt_types :: "string list" where
  "allowed_receipt_types = [''application/pdf'', ''image/png'', ''image/jpeg'', ''image/webp'']"

definition max_receipt_bytes :: nat where
  "max_receipt_bytes = 10 * 1024 * 1024"

definition max_receipts_per_claim :: nat where
  "max_receipts_per_claim = 10"

definition max_receipt_label :: nat where
  "max_receipt_label = 120"

definition receipt_label :: "string option \<Rightarrow> string option \<Rightarrow> string" where
  "receipt_label label filename =
    (let named = py_strip (or_empty label)
     in if named \<noteq> '''' then take max_receipt_label named
        else let stem = py_strip (hd (rsplit1 (CHR ''.'') (last (rsplit1 (CHR ''/'') (or_empty filename)))))
          in take max_receipt_label (if stem = '''' then ''Proof'' else stem))"

text \<open>Object storage (\<open>app/core/storage.py\<close>): \<open>None\<close> when it is off, else the key prefix and whether
  the upload of a key succeeds.\<close>

type_synonym object_store = "(string \<times> (string \<Rightarrow> bool)) option"

definition is_alnum :: "char \<Rightarrow> bool" where
  "is_alnum c \<longleftrightarrow> slug_char (to_lower c)"

definition workspace_object_key :: "string \<Rightarrow> string \<Rightarrow> string option \<Rightarrow> string" where
  "workspace_object_key prefix file_id filename =
    (let f = or_empty filename;
         cand = map to_lower (last (rsplit1 (CHR ''.'') f));
         ext = (if CHR ''.'' \<in> set f \<and> cand \<noteq> '''' \<and> list_all is_alnum cand \<and> length cand \<le> 8
                then ''.'' @ cand else '''')
     in strip_with (\<lambda>c. c = CHR ''/'') prefix @ ''/'' @ file_id @ ext)"

definition editable_claim :: "current_user \<Rightarrow> uuid \<Rightarrow> 'a claims_db_scheme \<Rightarrow> claim res" where
  "editable_claim c i s =
    (case get_claim_in_scope c i s of None \<Rightarrow> Inl NotFoundError
     | Some r \<Rightarrow> if claimant r \<noteq> cu_id c then Inl AuthorizationError
         else if claim_status r \<notin> {SUBMITTED, MANAGER_APPROVED}
         then Inl (ValidationError ''This claim can no longer be edited.'') else Inr r)"

definition add_receipt ::
  "env \<Rightarrow> object_store \<Rightarrow> current_user \<Rightarrow> uuid \<Rightarrow> string \<Rightarrow> string option \<Rightarrow> string option
   \<Rightarrow> 'a claims_db_scheme \<Rightarrow> (claim \<times> 'a claims_db_scheme) res" where
  "add_receipt E store c i data label filename s = ebind (editable_claim c i s) (\<lambda>r.
     if length (claim_receipts r) \<ge> max_receipts_per_claim
     then Inl (ValidationError ''A claim can carry at most 10 proofs. Remove one before adding another.'')
     else if data = '''' then Inl (ValidationError ''The file is empty.'')
     else if length data > max_receipt_bytes then Inl (ValidationError ''That file is too large (max 10 MB).'')
     else case detect_media_type data of
       None \<Rightarrow> Inl (ValidationError ''Proofs must be a PDF, PNG, JPG or WebP.'')
     | Some mt \<Rightarrow>
         if mt \<notin> set allowed_receipt_types then Inl (ValidationError ''Proofs must be a PDF, PNG, JPG or WebP.'')
         else
           let key = map_option (\<lambda>st. workspace_object_key (fst st) (hex_digits 32 (next_id s)) filename) store
           in if (case store of None \<Rightarrow> False | Some st \<Rightarrow> \<not> snd st (the key)) then Inl StorageError
              else
                let rid = (if store = None then next_id s else next_id s + 1);
                    x = \<lparr>rec_id = rid, rec_label = receipt_label label filename, rec_filename = filename,
                      rec_content_type = mt, rec_size = length data, rec_object_key = key,
                      rec_content = (if store = None then Some data else None)\<rparr>;
                    r' = r\<lparr>claim_receipts := claim_receipts r @ [x]\<rparr>
                in Inr (r', claim_audit E c ''reimbursement.receipt_attach'' (uuid_str (claim_id r))
                     (put_claim r' (s\<lparr>next_id := rid + 1\<rparr>))))"

definition find_receipt :: "claim \<Rightarrow> uuid \<Rightarrow> receipt option" where
  "find_receipt r i = List.find (\<lambda>x. rec_id x = i) (claim_receipts r)"

definition remove_receipt ::
  "env \<Rightarrow> current_user \<Rightarrow> uuid \<Rightarrow> uuid \<Rightarrow> 'a claims_db_scheme \<Rightarrow> (claim \<times> 'a claims_db_scheme) res" where
  "remove_receipt E c i rid s = ebind (editable_claim c i s) (\<lambda>r.
     if find_receipt r rid = None then Inl NotFoundError
     else let r' = r\<lparr>claim_receipts := filter (\<lambda>x. rec_id x \<noteq> rid) (claim_receipts r)\<rparr>
       in Inr (r', claim_audit E c ''reimbursement.receipt_remove'' (uuid_str (claim_id r)) (put_claim r' s)))"

definition get_receipt :: "current_user \<Rightarrow> uuid \<Rightarrow> uuid \<Rightarrow> 'a claims_db_scheme \<Rightarrow> receipt res" where
  "get_receipt c i rid s = ebind (require_some (get_claim_in_scope c i s) NotFoundError)
     (\<lambda>r. require_some (find_receipt r rid) NotFoundError)"

definition get_for_caller :: "current_user \<Rightarrow> uuid \<Rightarrow> 'a claims_db_scheme \<Rightarrow> claim res" where
  "get_for_caller c i s = require_some (get_claim_in_scope c i s) NotFoundError"

end
