(* ===== verification/PayrollOpsLaws.thy ===== *)
theory PayrollOpsLaws
  imports PayrollOps
begin

text \<open>
  Laws of the payroll tables: one override per field, one payslip per person and month, what a
  release leaves behind and whom it emails.
\<close>

lemma payroll_frames [simp, store_simps]:
  "adjustments (audit_append E a b t s) = adjustments (s :: 'a payroll_db_scheme)"
  "payslips (audit_append E a b t s) = payslips s"
  "payroll_runs (audit_append E a b t s) = payroll_runs s"
  "adjustments (snd (send_email E m s)) = adjustments s"
  "payslips (snd (send_email E m s)) = payslips s"
  "payroll_runs (snd (send_email E m s)) = payroll_runs s"
  by (simp_all add: audit_append_def send_email_def Let_def)

subsection \<open>Adjustments\<close>

text \<open>No two overrides of one field in one person's month.\<close>

definition adjustments_ok :: "'a payroll_db_scheme \<Rightarrow> bool" where
  "adjustments_ok s \<longleftrightarrow> (\<forall>i period. override_consistent (adjustments_for i period s))
     \<and> (\<forall>a \<in> set (adjustments s). adj_kind a = OVERRIDE \<longrightarrow> adj_target a \<noteq> None)"

lemma adjustments_for_del:
  "adjustments_for i period (s\<lparr>adjustments := filter P (adjustments s)\<rparr>) = filter P (adjustments_for i period s)"
  by (induction "adjustments s") (auto simp: adjustments_for_def filter_filter conj_commute intro: filter_cong)

lemma override_consistent_subset:
  "override_consistent as \<Longrightarrow> set bs \<subseteq> set as \<Longrightarrow> override_consistent bs"
  unfolding override_consistent_def by blast

lemma create_adjustment_ok:
  assumes "adjustments_ok s" "ac_kind p = OVERRIDE \<longrightarrow> ac_target p \<noteq> None"
    and "create_adjustment E c p s = Inr (row, s')"
  shows "adjustments_ok s'"
proof -
  define s1 where "s1 = (case (ac_kind p, ac_target p) of
      (OVERRIDE, Some tg) \<Rightarrow> delete_overrides_for (ac_employee p) (ac_period p) tg s | _ \<Rightarrow> s)"
  have adj': "adjustments s' = adjustments s1 @ [row]"
    and row: "adj_employee row = ac_employee p" "adj_period row = ac_period p" "adj_kind row = ac_kind p"
      "adj_target row = ac_target p"
    using assms(3) by (auto simp: create_adjustment_def insert_adjustment_def row_add_def s1_def Let_def
        split: if_splits option.splits)
  have sub: "set (adjustments s1) \<subseteq> set (adjustments s)"
    by (auto simp: s1_def delete_overrides_for_def split: adjustment_kind.splits option.splits)
  have gone: "\<not> (adj_kind a = OVERRIDE \<and> adj_target a = adj_target row)"
    if "a \<in> set (adjustments s1)" "adj_employee a = ac_employee p" "adj_period a = ac_period p" "adj_kind row = OVERRIDE" for a
    using that assms(2) row by (auto simp: s1_def delete_overrides_for_def split: option.splits)
  have "override_consistent (adjustments_for i period s')" for i period
    unfolding override_consistent_def
  proof (intro ballI impI, elim conjE)
    fix a b assume ab: "a \<in> set (adjustments_for i period s')" "b \<in> set (adjustments_for i period s')"
      "adj_kind a = OVERRIDE" "adj_kind b = OVERRIDE" "adj_target a = adj_target b"
    have old: "override_consistent (adjustments_for i period s)" using assms(1) by (simp add: adjustments_ok_def)
    have mem: "x \<in> set (adjustments_for i period s')
        \<longleftrightarrow> x = row \<and> adj_employee row = i \<and> adj_period row = period \<or> x \<in> set (adjustments s1) \<and> adj_employee x = i \<and> adj_period x = period" for x
      by (auto simp: adjustments_for_def adj')
    show "adj_amount a = adj_amount b"
    proof (cases "a = row \<or> b = row")
      case True
      then show ?thesis using ab mem gone row by metis
    next
      case False
      then have "a \<in> set (adjustments_for i period s)" "b \<in> set (adjustments_for i period s)"
        using ab mem sub by (auto simp: adjustments_for_def)
      then show ?thesis using old ab(3-5) unfolding override_consistent_def by blast
    qed
  qed
  moreover have "\<forall>a \<in> set (adjustments s'). adj_kind a = OVERRIDE \<longrightarrow> adj_target a \<noteq> None"
    using assms(1,2) sub row unfolding adj' adjustments_ok_def by auto
  ultimately show ?thesis by (simp add: adjustments_ok_def)
qed

lemma delete_adjustment_ok:
  assumes "adjustments_ok s" "delete_adjustment E c i s = Inr (u, s')"
  shows "adjustments_ok s'"
proof -
  have "adjustments s' = row_del adj_id i (adjustments s)"
    using assms(2) by (auto simp: delete_adjustment_def split: if_splits)
  then have sub: "set (adjustments s') \<subseteq> set (adjustments s)" by (auto simp: row_del_def)
  then have "set (adjustments_for j q s') \<subseteq> set (adjustments_for j q s)" for j q
    by (auto simp: adjustments_for_def)
  then show ?thesis using assms(1) sub override_consistent_subset unfolding adjustments_ok_def by blast
qed

subsection \<open>Payslips\<close>

abbreviation slips_unique :: "'a payroll_db_scheme \<Rightarrow> bool" where
  "slips_unique s \<equiv> keys_unique ps_key (payslips s)"

lemma upsert_payslip_laws:
  assumes "slips_unique s" "upsert_payslip f s = (p, s')"
  shows "slips_unique s'" "get_payslip (ps_employee f) (ps_period f) s' = Some p"
    "same_figures p f" "ps_key p = ps_key f"
    "(i, q) \<noteq> ps_key f \<Longrightarrow> get_payslip i q s' = get_payslip i q s"
    "ps_emailed_at f = None \<Longrightarrow> ps_emailed_at p = Option.bind (get_payslip (ps_employee f) (ps_period f) s) ps_emailed_at"
proof -
  let ?k = "(ps_employee f, ps_period f)"
  have k: "ps_key f = ?k" by (simp add: ps_key_def)
  show "same_figures p f" using assms(2)
    by (auto simp: upsert_payslip_def same_figures_def Let_def split: option.splits)
  show "ps_key p = ps_key f" using assms(2)
    by (auto simp: upsert_payslip_def ps_key_def Let_def split: option.splits)
  have "slips_unique s' \<and> get_payslip (ps_employee f) (ps_period f) s' = Some p
    \<and> ((i, q) \<noteq> ps_key f \<longrightarrow> get_payslip i q s' = get_payslip i q s)
    \<and> (ps_emailed_at f = None \<longrightarrow> ps_emailed_at p = Option.bind (get_payslip (ps_employee f) (ps_period f) s) ps_emailed_at)"
  proof (cases "get_payslip (ps_employee f) (ps_period f) s")
    case None
    then have p: "p = f" "payslips s' = row_add f (payslips s)" using assms(2) by (auto simp: upsert_payslip_def)
    have new: "ps_key f \<notin> ps_key ` set (payslips s)"
      using None rows.get_none[of ps_key ?k "payslips s"] by (auto simp: get_payslip_def k)
    have "slips_unique s'" unfolding p using assms(1) new by (rule rows.uniq_add)
    moreover have "get_payslip (ps_employee f) (ps_period f) s' = Some p"
      using rows.get_add_new[OF assms(1) new] by (simp add: get_payslip_def p k)
    moreover have "get_payslip i q s' = get_payslip i q s" if "(i, q) \<noteq> ps_key f"
      using rows.get_add_other[of "(i, q)" ps_key f] that by (simp add: get_payslip_def p)
    ultimately show ?thesis by (simp add: p None)
  next
    case (Some old)
    then have p: "p = f\<lparr>ps_emailed_at := ps_emailed_at old\<rparr>" "payslips s' = row_put ps_key p (payslips s)"
      using assms(2) by (auto simp: upsert_payslip_def Let_def)
    then have kp: "ps_key p = ?k" by (simp add: ps_key_def)
    have "slips_unique s'" unfolding p(2) using assms(1) by (rule rows.uniq_put)
    moreover have "get_payslip (ps_employee f) (ps_period f) s' = Some p"
      using rows.get_put_same[OF assms(1), of p old] Some by (simp add: get_payslip_def p(2) kp)
    moreover have "get_payslip i q s' = get_payslip i q s" if "(i, q) \<noteq> ps_key f"
      using rows.get_put_other[OF assms(1), of "(i, q)" p] that by (simp add: get_payslip_def p(2) kp k)
    ultimately show ?thesis by (simp add: p(1) Some)
  qed
  then show "slips_unique s'" "get_payslip (ps_employee f) (ps_period f) s' = Some p"
    "(i, q) \<noteq> ps_key f \<Longrightarrow> get_payslip i q s' = get_payslip i q s"
    "ps_emailed_at f = None \<Longrightarrow> ps_emailed_at p = Option.bind (get_payslip (ps_employee f) (ps_period f) s) ps_emailed_at"
    by blast+
qed

lemma upsert_payslip_frames:
  "upsert_payslip f s = (p, s') \<Longrightarrow> employees s' = employees s \<and> now s' = now s \<and> mail_log s' = mail_log s
    \<and> audit_log s' = audit_log s \<and> adjustments s' = adjustments s"
  by (auto simp: upsert_payslip_def Let_def split: option.splits)

lemma mark_emailed_laws:
  assumes "slips_unique s" "get_payslip (ps_employee p) (ps_period p) s = Some x"
  shows "slips_unique (mark_emailed p s)"
    "get_payslip (ps_employee p) (ps_period p) (mark_emailed p s) = Some (p\<lparr>ps_emailed_at := Some (now s)\<rparr>)"
    "(i, q) \<noteq> ps_key p \<Longrightarrow> get_payslip i q (mark_emailed p s) = get_payslip i q s"
proof -
  let ?p = "p\<lparr>ps_emailed_at := Some (now s)\<rparr>"
  have k: "ps_key ?p = (ps_employee p, ps_period p)" by (simp add: ps_key_def)
  show "slips_unique (mark_emailed p s)" using rows.uniq_put[OF assms(1), of ?p] by (simp add: mark_emailed_def)
  show "get_payslip (ps_employee p) (ps_period p) (mark_emailed p s) = Some ?p"
    using rows.get_put_same[OF assms(1), of ?p x] assms(2) by (simp add: get_payslip_def mark_emailed_def k)
  show "(i, q) \<noteq> ps_key p \<Longrightarrow> get_payslip i q (mark_emailed p s) = get_payslip i q s"
    using rows.get_put_other[OF assms(1), of "(i, q)" ?p] by (simp add: get_payslip_def mark_emailed_def k ps_key_def)
qed

lemma mark_emailed_frames [simp]:
  "employees (mark_emailed p s) = employees s" "now (mark_emailed p s) = now s"
  "audit_log (mark_emailed p s) = audit_log s" "mail_log (mark_emailed p s) = mail_log s"
  by (simp_all add: mark_emailed_def)

subsection \<open>One line of a release\<close>

definition owed :: "payroll_line \<Rightarrow> bool" where
  "owed l \<longleftrightarrow> \<not> ln_missing_compensation l \<and> 0 < ln_net l"

lemma snapshot_fields [simp]:
  "ps_employee (snapshot_of l m b t) = ln_employee l" "ps_period (snapshot_of l m b t) = m"
  "ps_emailed_at (snapshot_of l m b t) = None" "ps_key (snapshot_of l m b t) = (ln_employee l, m)"
  by (simp_all add: snapshot_of_def ps_key_def)

lemma same_figures_snapshot:
  "same_figures p (snapshot_of l m b t) = same_figures p (snapshot_of l m' b' t')"
  by (simp add: same_figures_def snapshot_of_def)

lemma release_line_not_owed: "\<not> owed l \<Longrightarrow> release_line E m lab b l (n, s) = (n\<lparr>rc_skipped := rc_skipped n + 1\<rparr>, s)"
  by (auto simp: release_line_def owed_def not_less)

text \<open>The effect on an owed line: a slip with the line's figures, everything else in place, and at
  most one email, which only goes out when the figures were not held.\<close>

lemma release_line_owed:
  assumes "owed l" "slips_unique s" "release_line E m lab b l (n, s) = (n', s')"
  shows "slips_unique s'"
    and "\<exists>p. get_payslip (ln_employee l) m s' = Some p \<and> same_figures p (snapshot_of l m b (now s))"
    and "(i, q) \<noteq> (ln_employee l, m) \<Longrightarrow> get_payslip i q s' = get_payslip i q s"
    and "employees s' = employees s" "now s' = now s" "audit_log s' = audit_log s"
    and "already_holds (get_payslip (ln_employee l) m s) (snapshot_of l m b (now s)) \<Longrightarrow>
      mail_log s' = mail_log s \<and> rc_emailed n' = rc_emailed n
      \<and> already_holds (get_payslip (ln_employee l) m s') (snapshot_of l m b (now s))"
    and "find_employee (ln_employee l) s = Some e \<Longrightarrow> work_email e \<noteq> '''' \<Longrightarrow> email_ok E (payslip_email e l lab m) \<Longrightarrow>
      already_holds (get_payslip (ln_employee l) m s') (snapshot_of l m b (now s))"
proof -
  let ?f = "snapshot_of l m b (now s)"
  define held where "held = already_holds (get_payslip (ln_employee l) m s) ?f"
  obtain p s1 where u: "upsert_payslip ?f s = (p, s1)" by fastforce
  note L = upsert_payslip_laws[OF assms(2) u, simplified]
  note F = upsert_payslip_frames[OF u]
  have kp: "ps_employee p = ln_employee l" "ps_period p = m" using L(4) by (simp_all add: ps_key_def)
  have fe: "find_employee i s1 = find_employee i s" for i using F by (simp add: find_employee_def)
  have held_p: "already_holds (Some p) ?f" if held
    using that L(3,6) by (auto simp: held_def already_holds_def split: option.splits)
  have rel: "\<not> ln_missing_compensation l" "\<not> ln_net l \<le> 0" using assms(1) by (auto simp: owed_def)
  consider (quiet) "s' = s1" "rc_emailed n' = rc_emailed n"
      "held \<or> (\<forall>e. find_employee (ln_employee l) s = Some e \<longrightarrow> work_email e = '''')"
    | (fail) e where "s' = snd (send_email E (payslip_email e l lab m) s1)" "rc_emailed n' = rc_emailed n" "\<not> held"
        "find_employee (ln_employee l) s = Some e" "\<not> email_ok E (payslip_email e l lab m)"
    | (sent) e where "s' = mark_emailed p (snd (send_email E (payslip_email e l lab m) s1))" "\<not> held"
        "find_employee (ln_employee l) s = Some e"
  proof (cases held)
    case True
    then show ?thesis using assms(3) rel u quiet by (auto simp: release_line_def held_def Let_def)
  next
    case False
    show ?thesis
    proof (cases "find_employee (ln_employee l) s")
      case None
      then show ?thesis using assms(3) rel u False fe quiet by (auto simp: release_line_def held_def Let_def)
    next
      case (Some e)
      show ?thesis
      proof (cases "work_email e = ''''")
        case True
        then show ?thesis using assms(3) rel u False fe Some quiet by (auto simp: release_line_def held_def Let_def)
      next
        case ne: False
        then show ?thesis using assms(3) rel u False fe Some fail[of e] sent[of e]
          by (cases "email_ok E (payslip_email e l lab m)")
            (auto simp: release_line_def held_def Let_def case_prod_unfold)
      qed
    qed
  qed
  note C = this
  have g1: "get_payslip i q (snd (send_email E x s1)) = get_payslip i q s1" for x i q
    by (simp add: get_payslip_def)
  have M: "slips_unique (mark_emailed p (snd (send_email E x s1)))"
    "get_payslip (ln_employee l) m (mark_emailed p (snd (send_email E x s1))) = Some (p\<lparr>ps_emailed_at := Some (now s1)\<rparr>)"
    "(i, q) \<noteq> (ln_employee l, m) \<Longrightarrow> get_payslip i q (mark_emailed p (snd (send_email E x s1))) = get_payslip i q s1" for x
    using mark_emailed_laws(1,2)[where s = "snd (send_email E x s1)" and p = p and x = p]
      mark_emailed_laws(3)[where s = "snd (send_email E x s1)" and p = p and x = p and i = i and q = q] L(1,2) kp
    by (simp_all add: g1 ps_key_def)
  show "slips_unique s'" using C by cases (use L M in simp_all)
  show "\<exists>p. get_payslip (ln_employee l) m s' = Some p \<and> same_figures p ?f"
    using C by cases (use L M g1 in \<open>simp_all add: same_figures_def\<close>)
  show "get_payslip i q s' = get_payslip i q s" if "(i, q) \<noteq> (ln_employee l, m)"
    using C by cases (use that L(5)[of i q] M(3) g1 in auto)
  show "employees s' = employees s" "now s' = now s" "audit_log s' = audit_log s"
    using C by (cases, use F in simp_all)+
  show "mail_log s' = mail_log s \<and> rc_emailed n' = rc_emailed n \<and> already_holds (get_payslip (ln_employee l) m s') ?f"
    if h: "already_holds (get_payslip (ln_employee l) m s) ?f"
  proof -
    have held using h by (simp add: held_def)
    from C show ?thesis by cases (use \<open>held\<close> F L(2) held_p in simp_all)
  qed
  show "already_holds (get_payslip (ln_employee l) m s') ?f"
    if "find_employee (ln_employee l) s = Some e" "work_email e \<noteq> ''''" "email_ok E (payslip_email e l lab m)"
    using C
  proof cases
    case quiet
    then show ?thesis using that L(2) held_p by simp
  next
    case (fail d)
    then show ?thesis using that by simp
  next
    case (sent d)
    then show ?thesis using M(2) L(3) by (simp add: already_holds_def same_figures_def)
  qed
qed

subsection \<open>A whole release\<close>

text \<open>The person already has a slip with the figures of the line, by email.\<close>

definition held :: "payroll_line \<Rightarrow> string \<Rightarrow> 'a payroll_db_scheme \<Rightarrow> bool" where
  "held l m s \<longleftrightarrow> already_holds (get_payslip (ln_employee l) m s) (snapshot_of l m None 0)"

lemma held_snapshot: "already_holds (get_payslip (ln_employee l) m s) (snapshot_of l m b t) \<longleftrightarrow> held l m s"
  by (simp add: held_def already_holds_def same_figures_def snapshot_of_def split: option.splits)

definition shows_line :: "payroll_line \<Rightarrow> string \<Rightarrow> 'a payroll_db_scheme \<Rightarrow> bool" where
  "shows_line l m s \<longleftrightarrow> (\<exists>p. get_payslip (ln_employee l) m s = Some p \<and> same_figures p (snapshot_of l m None 0))"

lemma shows_line_snapshot:
  "(\<exists>p. get_payslip (ln_employee l) m s = Some p \<and> same_figures p (snapshot_of l m b t)) \<longleftrightarrow> shows_line l m s"
  by (simp add: shows_line_def same_figures_def snapshot_of_def)

lemma release_lines:
  assumes "slips_unique s" "distinct (map ln_employee ls)"
    and "fold (release_line E m lab b) ls (n, s) = (n', s')"
  shows "slips_unique s' \<and> employees s' = employees s \<and> now s' = now s \<and> audit_log s' = audit_log s
    \<and> (\<forall>i q. i \<notin> ln_employee ` set ls \<or> q \<noteq> m \<longrightarrow> get_payslip i q s' = get_payslip i q s)
    \<and> (\<forall>l \<in> set ls. if owed l then shows_line l m s' else get_payslip (ln_employee l) m s' = get_payslip (ln_employee l) m s)
    \<and> ((\<forall>l \<in> set ls. owed l \<longrightarrow> held l m s) \<longrightarrow> mail_log s' = mail_log s \<and> rc_emailed n' = rc_emailed n)
    \<and> ((\<forall>x. email_ok E x) \<and> (\<forall>l \<in> set ls. owed l \<longrightarrow> (\<exists>e. find_employee (ln_employee l) s = Some e \<and> work_email e \<noteq> ''''))
        \<longrightarrow> (\<forall>l \<in> set ls. owed l \<longrightarrow> held l m s'))"
  using assms
proof (induction ls arbitrary: n s)
  case (Cons l ls)
  obtain n1 s1 where r: "release_line E m lab b l (n, s) = (n1, s1)" by fastforce
  have rest: "fold (release_line E m lab b) ls (n1, s1) = (n', s')" using Cons.prems(3) r by simp
  have d: "ln_employee l \<notin> ln_employee ` set ls" "distinct (map ln_employee ls)" using Cons.prems(2) by auto
  have step: "slips_unique s1 \<and> employees s1 = employees s \<and> now s1 = now s \<and> audit_log s1 = audit_log s
    \<and> (\<forall>i q. (i, q) \<noteq> (ln_employee l, m) \<longrightarrow> get_payslip i q s1 = get_payslip i q s)
    \<and> (if owed l then shows_line l m s1 else s1 = s)
    \<and> ((owed l \<longrightarrow> held l m s) \<longrightarrow> mail_log s1 = mail_log s \<and> rc_emailed n1 = rc_emailed n)
    \<and> ((\<forall>x. email_ok E x) \<and> owed l \<and> (\<exists>e. find_employee (ln_employee l) s = Some e \<and> work_email e \<noteq> '''') \<longrightarrow> held l m s1)"
  proof (cases "owed l")
    case True
    note R = release_line_owed[OF True Cons.prems(1) r, unfolded held_snapshot shows_line_snapshot]
    have "get_payslip i q s1 = get_payslip i q s" if "(i, q) \<noteq> (ln_employee l, m)" for i q
      by (rule release_line_owed(3)[OF True Cons.prems(1) r that])
    moreover have "held l m s1" if "\<forall>x. email_ok E x" "find_employee (ln_employee l) s = Some e" "work_email e \<noteq> ''''" for e
      by (rule release_line_owed(8)[OF True Cons.prems(1) r, unfolded held_snapshot]) (use that in simp_all)
    ultimately show ?thesis using R(1,2,4,5,6,7) True by auto
  next
    case False
    then have "n1 = n\<lparr>rc_skipped := rc_skipped n + 1\<rparr>" "s1 = s" using r by (simp_all add: release_line_not_owed[OF False])
    then show ?thesis using False Cons.prems(1) by simp
  qed
  have u1: "slips_unique s1" using step by blast
  note IH = Cons.IH[OF u1 d(2) rest]
  have other: "get_payslip (ln_employee x) m s1 = get_payslip (ln_employee x) m s" if "x \<in> set ls" for x
    using step d(1) that by (metis image_eqI prod.inject)
  have mine: "get_payslip (ln_employee l) m s' = get_payslip (ln_employee l) m s1" using IH d(1) by blast
  have fe: "find_employee i s1 = find_employee i s" for i using step by (simp add: find_employee_def)
  have h: "held x m s1 = held x m s" if "x \<in> set ls" for x using other[OF that] by (simp add: held_def)
  have hl: "held l m s' = held l m s1" "shows_line l m s' = shows_line l m s1"
    using mine by (simp_all add: held_def shows_line_def)
  show ?case
  proof (intro conjI impI allI ballI)
    show "slips_unique s'" "employees s' = employees s" "now s' = now s" "audit_log s' = audit_log s"
      using IH step by simp_all
    show "get_payslip i q s' = get_payslip i q s" if "i \<notin> ln_employee ` set (l # ls) \<or> q \<noteq> m" for i q
      using IH step that by auto
    show "if owed x then shows_line x m s' else get_payslip (ln_employee x) m s' = get_payslip (ln_employee x) m s"
      if "x \<in> set (l # ls)" for x
      using IH step that hl mine other by (cases "x = l") auto
    assume a: "\<forall>x \<in> set (l # ls). owed x \<longrightarrow> held x m s"
    then have "mail_log s' = mail_log s1 \<and> rc_emailed n' = rc_emailed n1" using IH h by simp
    then show "mail_log s' = mail_log s" "rc_emailed n' = rc_emailed n" using step a by simp_all
  next
    fix x assume a: "(\<forall>x. email_ok E x) \<and> (\<forall>l \<in> set (l # ls). owed l \<longrightarrow>
        (\<exists>e. find_employee (ln_employee l) s = Some e \<and> work_email e \<noteq> ''''))"
      and x: "x \<in> set (l # ls)" "owed x"
    show "held x m s'"
    proof (cases "x = l")
      case True
      then show ?thesis using step a x hl by auto
    next
      case False
      then show ?thesis using IH a x fe by simp
    qed
  qed
qed simp

lemma release_from_estimate_fold:
  assumes "release_from_estimate E est b s = Inr (n, s')"
  obtains lab where "fold (release_line E (est_month est) lab (map_option cu_id b)) (est_lines est)
    (\<lparr>rc_released = 0, rc_emailed = 0, rc_skipped = 0\<rparr>, s) = (n, s')"
  using assms by (auto simp: release_from_estimate_def ebind_Inr_iff)

subsection \<open>Properties\<close>

text \<open>However adjustments are added and removed, no field of a person's month ever has two
  forced values: creating an override replaces the one before it.\<close>

theorem one_override_per_field:
  assumes "adjustments_ok s" "ac_kind p = OVERRIDE \<longrightarrow> ac_target p \<noteq> None"
    and "create_adjustment E c p s = Inr (row, s')" "delete_adjustment E c i s' = Inr (u, s'')"
  shows "adjustments_ok s' \<and> adjustments_ok s''"
  using create_adjustment_ok[OF assms(1,2,3)] delete_adjustment_ok[OF _ assms(4)] by blast

definition demo_env :: "(email \<Rightarrow> bool) \<Rightarrow> env" where
  "demo_env ok = \<lparr>sha256_hex = (\<lambda>x. ''h''), insert_ok = (\<lambda>n. True), email_ok = ok, collate = (\<lambda>x. 0),
     utc_offset = (\<lambda>t. 0)\<rparr>"

definition demo_employee :: "uuid \<Rightarrow> role \<Rightarrow> employee" where
  "demo_employee i r = \<lparr>emp_id = i, work_email = ''x@y'', full_name = ''Name'', department = None,
     location = None, job_title = None, date_of_birth = None, gender = None, hire_date = None,
     probation_months = None, employee_number = None, manager_id = None, role = r,
     payroll_manager = False, is_guest = False, is_active = True, emp_created_at = 0\<rparr>"

definition demo_db :: payroll_db where
  "demo_db = \<lparr>now = 0, next_id = 100, employees = [demo_employee 1 HR, demo_employee 2 EXECUTIVE],
     audit_log = [], inbox = [], mail_log = [], adjustments = [], payslips = [], payroll_runs = []\<rparr>"

definition demo_line :: "int \<Rightarrow> payroll_line" where
  "demo_line net = \<lparr>ln_employee = 2, ln_name = ''Name'', ln_department = None, ln_job_title = None,
     ln_location = None, ln_hire_date = None, ln_currency = ''INR'', ln_monthly_ctc = 0,
     ln_breakdown = zero_breakdown, ln_prorated = zero_breakdown, ln_total_days = 31, ln_working_days = 23,
     ln_elapsed_working_days = 23, ln_present_days = 23, ln_paid_leave_days = 0, ln_lop_days = 0,
     ln_payable_days = 31, ln_base_days = 31, ln_adj_earnings = 0, ln_adj_deductions = 0,
     ln_reimbursement = 0, ln_net = net, ln_missing_compensation = False\<rparr>"

definition demo_estimate :: "int \<Rightarrow> payroll_estimate" where
  "demo_estimate net = \<lparr>est_month = ''2026-07'', est_currency = ''INR'', est_lines = [demo_line net]\<rparr>"

definition demo_create :: adjustment_create where
  "demo_create = \<lparr>ac_employee = 2, ac_period = ''2026-07'', ac_kind = OVERRIDE, ac_label = ''x'',
     ac_amount = 5, ac_target = Some BASIC\<rparr>"

lemmas demo_defs = demo_env_def demo_employee_def demo_db_def demo_line_def demo_estimate_def demo_create_def

theorem one_override_per_field_witness:
  "\<exists>row s' u s''. create_adjustment (demo_env (\<lambda>m. True)) (caller_of (demo_employee 1 HR)) demo_create demo_db = Inr (row, s')
    \<and> delete_adjustment (demo_env (\<lambda>m. True)) (caller_of (demo_employee 1 HR)) 100 s' = Inr (u, s'')
    \<and> adjustments_ok s' \<and> adjustments_ok s''"
proof -
  let ?E = "demo_env (\<lambda>m. True)" and ?c = "caller_of (demo_employee 1 HR)"
  obtain row s' where 1: "create_adjustment ?E ?c demo_create demo_db = Inr (row, s')"
    and a: "adjustments s' = [\<lparr>adj_id = 100, adj_employee = 2, adj_period = ''2026-07'', adj_kind = OVERRIDE,
      adj_label = ''x'', adj_amount = 5, adj_target = Some BASIC\<rparr>]"
    by (simp add: create_adjustment_def insert_adjustment_def delete_overrides_for_def can_manage_payroll_def
        caller_of_def normalize_role_def find_employee_def row_get_def row_add_def demo_defs Let_def)
  obtain u s'' where 2: "delete_adjustment ?E ?c 100 s' = Inr (u, s'')"
    by (simp add: delete_adjustment_def a row_get_def can_manage_payroll_def caller_of_def normalize_role_def demo_defs)
  have "adjustments_ok demo_db"
    by (simp add: adjustments_ok_def adjustments_for_def override_consistent_def demo_db_def)
  then show ?thesis using one_override_per_field[OF _ _ 1 2] 1 2 by (auto simp: demo_create_def)
qed


lemma demo_release:
  "\<exists>n s'. release_from_estimate (demo_env ok) (demo_estimate k) b s = Inr (n, s')"
proof -
  have "parse_month ''2026-07'' = Inr (2026, 7)" by code_simp
  then show ?thesis by (simp add: release_from_estimate_def demo_estimate_def)
qed

lemma demo_unique: "slips_unique demo_db" "distinct (map ln_employee (est_lines (demo_estimate k)))"
  by (simp_all add: demo_defs keys_unique_def)


lemma same_figures_refl [simp]: "same_figures x x"
  by (simp add: same_figures_def)

lemma shown_twice: "shows_line l m s1 \<Longrightarrow> shows_line l m s2 \<Longrightarrow>
  rel_option same_figures (get_payslip (ln_employee l) m s1) (get_payslip (ln_employee l) m s2)"
  by (auto simp: shows_line_def same_figures_def)

text \<open>C8 Releasing an unchanged month again changes no payslip and emails nobody: when every mail went out the first time, the
  second release sends none, counts none, and leaves every person of every month with the same payslip figures as the first -
  or, as before, without a payslip.\<close>

theorem rerelease_silent:
  assumes "slips_unique s" "distinct (map ln_employee (est_lines est))" "\<forall>x. email_ok E x"
    and "\<forall>l \<in> set (est_lines est). owed l \<longrightarrow>
      (\<exists>e. find_employee (ln_employee l) s = Some e \<and> work_email e \<noteq> '''')"
    and "release_from_estimate E est b s = Inr (n1, s1)" "release_from_estimate E est b' s1 = Inr (n2, s2)"
  shows "rc_emailed n2 = 0 \<and> mail_log s2 = mail_log s1
    \<and> (\<forall>i q. rel_option same_figures (get_payslip i q s1) (get_payslip i q s2))"
proof -
  obtain lab where f: "fold (release_line E (est_month est) lab (map_option cu_id b)) (est_lines est)
    (\<lparr>rc_released = 0, rc_emailed = 0, rc_skipped = 0\<rparr>, s) = (n1, s1)"
    using release_from_estimate_fold[OF assms(5)] .
  obtain lab' where g: "fold (release_line E (est_month est) lab' (map_option cu_id b')) (est_lines est)
    (\<lparr>rc_released = 0, rc_emailed = 0, rc_skipped = 0\<rparr>, s1) = (n2, s2)"
    using release_from_estimate_fold[OF assms(6)] .
  note 1 = release_lines[OF assms(1,2) f]
  then have h: "slips_unique s1" "\<forall>l \<in> set (est_lines est). owed l \<longrightarrow> held l (est_month est) s1"
    using assms(3,4) by blast+
  note 2 = release_lines[OF h(1) assms(2) g]
  have "rel_option same_figures (get_payslip i q s1) (get_payslip i q s2)" for i q
  proof (cases "\<exists>l \<in> set (est_lines est). owed l \<and> ln_employee l = i \<and> q = est_month est")
    case True
    then obtain l where l: "l \<in> set (est_lines est)" "owed l" "i = ln_employee l" "q = est_month est" by blast
    have "if owed l then shows_line l (est_month est) s1 else get_payslip (ln_employee l) (est_month est) s1 = get_payslip (ln_employee l) (est_month est) s"
      "if owed l then shows_line l (est_month est) s2 else get_payslip (ln_employee l) (est_month est) s2 = get_payslip (ln_employee l) (est_month est) s1"
      using 1 2 l(1) by blast+
    then have "shows_line l (est_month est) s1" "shows_line l (est_month est) s2" using l(2) by simp_all
    then show ?thesis unfolding l(3,4) by (rule shown_twice)
  next
    case False
    have "get_payslip i q s2 = get_payslip i q s1"
    proof (cases "i \<in> ln_employee ` set (est_lines est) \<and> q = est_month est")
      case True
      then obtain l where l: "l \<in> set (est_lines est)" "i = ln_employee l" "q = est_month est" by blast
      then have "\<not> owed l" using False by blast
      moreover have "if owed l then shows_line l (est_month est) s2 else get_payslip (ln_employee l) (est_month est) s2 = get_payslip (ln_employee l) (est_month est) s1"
        using 2 l(1) by blast
      ultimately show ?thesis unfolding l(2,3) by simp
    next
      case elsewhere: False
      then show ?thesis using 2 by blast
    qed
    then show ?thesis by (simp add: option.rel_refl)
  qed
  then show ?thesis using 2 h(2) by simp
qed

theorem rerelease_silent_witness:
  "\<exists>n1 s1 n2 s2. release_from_estimate (demo_env (\<lambda>m. True)) (demo_estimate 500) None demo_db = Inr (n1, s1)
    \<and> release_from_estimate (demo_env (\<lambda>m. True)) (demo_estimate 500) None s1 = Inr (n2, s2)
    \<and> rc_emailed n2 = 0"
proof -
  obtain n1 s1 where 1: "release_from_estimate (demo_env (\<lambda>m. True)) (demo_estimate 500) None demo_db = Inr (n1, s1)"
    using demo_release by blast
  obtain n2 s2 where 2: "release_from_estimate (demo_env (\<lambda>m. True)) (demo_estimate 500) None s1 = Inr (n2, s2)"
    using demo_release by blast
  have "\<forall>l \<in> set (est_lines (demo_estimate 500)). owed l \<longrightarrow>
      (\<exists>e. find_employee (ln_employee l) demo_db = Some e \<and> work_email e \<noteq> '''')"
    by (simp add: demo_defs find_employee_def row_get_def)
  then show ?thesis using rerelease_silent[OF demo_unique _ _ 1 2] 1 2 by (auto simp: demo_env_def)
qed

text \<open>A corrected slip whose email fails is never sent: the row keeps the mark of the first email,
  so the next release takes the corrected figures for already held. Released at 500 and emailed,
  corrected to 900 while the mail provider is down, and released once more, the person has only ever
  been sent 500.\<close>

theorem corrected_slip_never_emailed:
  "case release_from_estimate (demo_env (\<lambda>m. True)) (demo_estimate 500) None demo_db of
     Inl e \<Rightarrow> False
   | Inr (n1, s1) \<Rightarrow> (case release_from_estimate (demo_env (\<lambda>m. False)) (demo_estimate 900) None s1 of
       Inl e \<Rightarrow> False
     | Inr (n2, s2) \<Rightarrow> (case release_from_estimate (demo_env (\<lambda>m. True)) (demo_estimate 900) None s2 of
         Inl e \<Rightarrow> False
       | Inr (n3, s3) \<Rightarrow> map ps_net (payslips s3) = [900] \<and> rc_emailed n3 = 0
           \<and> map (\<lambda>m. mail_fields m ! 3) (mail_log s3) = [''500'']))"
  by code_simp


end
