(* ===== verification/ReimbursementLaws.thy ===== *)
theory ReimbursementLaws
  imports Reimbursement PayrollOpsLaws
begin

text \<open>
  The abstract life of a claim (\<open>claim_edge\<close>), that every operation of the service follows it
  (\<open>claim_step_refines\<close>), and what follows for approvals, paid months and the review queue.
\<close>

subsection \<open>Frames\<close>

lemma claims_frames [simp, store_simps]:
  "claims (audit_append E a b t s) = claims (s :: 'a claims_db_scheme)"
  "claims (notify E m d s) = claims s"
  "payslips (notify E m d s) = payslips s"
  "claims (put_claim r s) = row_put claim_id r (claims s)"
  "payslips (put_claim r s) = payslips s"
  "employees (put_claim r s) = employees s"
  "now (put_claim r s) = now s"
  "next_id (put_claim r s) = next_id s"
  "audit_log (put_claim r s) = audit_log s"
  by (simp_all add: audit_append_def notify_def put_claim_def Let_def)

lemma notify_all_frames [simp, store_simps]:
  "claims (notify_all E ids mk s) = claims s" "payslips (notify_all E ids mk s) = payslips s"
  "employees (notify_all E ids mk s) = employees s" "audit_log (notify_all E ids mk s) = audit_log s"
  "now (notify_all E ids mk s) = now s"
  by (induction ids arbitrary: s) (simp_all add: notify_all_def)

lemma notify_all_next: "next_id s \<le> next_id (notify_all E ids mk s)"
proof (induction ids arbitrary: s)
  case (Cons i ids)
  have "next_id s \<le> next_id (notify E (mk i) None s)" by (rule notify_next_id)
  also have "\<dots> \<le> next_id (notify_all E ids mk (notify E (mk i) None s))" by (rule Cons)
  finally show ?case by (simp add: notify_all_def)
qed (simp add: notify_all_def)

lemma reviewer_frames [simp, store_simps]:
  "claims (notify_step1_reviewers E c r s) = claims s" "payslips (notify_step1_reviewers E c r s) = payslips s"
  "claims (notify_hr_reviewers E c r s) = claims s" "payslips (notify_hr_reviewers E c r s) = payslips s"
  "claims (notify_applicant E r b n s) = claims s" "payslips (notify_applicant E r b n s) = payslips s"
  "claims (claim_audit E c a t s) = claims s" "payslips (claim_audit E c a t s) = payslips s"
  "employees (notify_step1_reviewers E c r s) = employees s"
  "employees (notify_hr_reviewers E c r s) = employees s"
  "employees (notify_applicant E r b n s) = employees s"
  "employees (claim_audit E c a t s) = employees s"
  "next_id (claim_audit E c a t s) = next_id s"
  by (simp_all add: notify_step1_reviewers_def notify_hr_reviewers_def notify_applicant_def claim_audit_def Let_def)

lemma reviewer_next [simp]:
  "k \<le> next_id s \<Longrightarrow> k \<le> next_id (notify_step1_reviewers E c r s)"
  "k \<le> next_id s \<Longrightarrow> k \<le> next_id (notify_hr_reviewers E c r s)"
  "k \<le> next_id s \<Longrightarrow> k \<le> next_id (notify_applicant E r b n s)"
  "k \<le> next_id s \<Longrightarrow> k \<le> next_id (notify E m d s)"
  by (auto simp: notify_step1_reviewers_def notify_hr_reviewers_def notify_applicant_def Let_def
      intro: order_trans[OF _ notify_all_next] order_trans[OF _ notify_next_id])

lemma get_claim_id: "get_claim i s = Some r \<Longrightarrow> claim_id r = i \<and> r \<in> set (claims s)"
  using row_get_SomeD[of claim_id] by (auto simp: get_claim_def)

subsection \<open>The life of a claim\<close>

text \<open>One change of one claim by the caller \<open>c\<close>; \<open>boss\<close> says whether the manager step is theirs and
  \<open>opn\<close> which payroll months have no released payslip.\<close>

inductive claim_edge :: "current_user \<Rightarrow> bool \<Rightarrow> (string \<Rightarrow> bool) \<Rightarrow> claim \<Rightarrow> claim \<Rightarrow> bool"
  for c boss opn where
  edge_manager: "claim_status r = SUBMITTED \<Longrightarrow> claimant r \<noteq> cu_id c \<Longrightarrow> boss \<Longrightarrow> st = MANAGER_APPROVED \<or> st = REJECTED \<Longrightarrow>
    claim_edge c boss opn r (r\<lparr>manager_reviewer_id := Some (cu_id c), manager_decided_at := Some t,
      manager_note := n, claim_status := st\<rparr>)"
| edge_approve: "claim_status r = MANAGER_APPROVED \<Longrightarrow> claimant r \<noteq> cu_id c \<Longrightarrow> can_review_hr c \<Longrightarrow> opn m \<Longrightarrow>
    claim_edge c boss opn r (r\<lparr>period_month := m, hr_reviewer_id := Some (cu_id c), hr_decided_at := Some t,
      hr_note := n, claim_status := APPROVED\<rparr>)"
| edge_reject: "claim_status r = MANAGER_APPROVED \<Longrightarrow> claimant r \<noteq> cu_id c \<Longrightarrow> can_review_hr c \<Longrightarrow>
    claim_edge c boss opn r (r\<lparr>hr_reviewer_id := Some (cu_id c), hr_decided_at := Some t,
      hr_note := n, claim_status := REJECTED\<rparr>)"
| edge_move: "claim_status r = APPROVED \<Longrightarrow> can_review_hr c \<Longrightarrow> opn (period_month r) \<Longrightarrow> opn m \<Longrightarrow>
    claim_edge c boss opn r (r\<lparr>period_month := m\<rparr>)"
| edge_unschedule: "claim_status r = APPROVED \<Longrightarrow> can_review_hr c \<Longrightarrow> opn (period_month r) \<Longrightarrow>
    claim_edge c boss opn r (r\<lparr>claim_status := MANAGER_APPROVED, hr_reviewer_id := None, hr_decided_at := None, hr_note := None\<rparr>)"
| edge_withdraw: "claim_status r \<in> {SUBMITTED, MANAGER_APPROVED} \<Longrightarrow> claimant r = cu_id c \<Longrightarrow>
    claim_edge c boss opn r (r\<lparr>claim_status := WITHDRAWN\<rparr>)"
| edge_proofs: "claim_status r \<in> {SUBMITTED, MANAGER_APPROVED} \<Longrightarrow> claimant r = cu_id c \<Longrightarrow> length xs \<le> max_receipts_per_claim \<Longrightarrow>
    claim_edge c boss opn r (r\<lparr>claim_receipts := xs\<rparr>)"

inductive_cases claim_edgeE: "claim_edge c boss opn r r'"

abbreviation month_open :: "'a claims_db_scheme \<Rightarrow> string \<Rightarrow> bool" where
  "month_open s m \<equiv> payslips_for_month m s = []"

text \<open>The operations of the service, as steps of its state.\<close>

inductive claim_step :: "env \<Rightarrow> object_store \<Rightarrow> current_user \<Rightarrow> 'a claims_db_scheme \<Rightarrow> 'a claims_db_scheme \<Rightarrow> bool"
  for E store c s where
  "submit E c p s = Inr (r, s') \<Longrightarrow> claim_step E store c s s'"
| "manager_decide E c i d s = Inr (r, s') \<Longrightarrow> claim_step E store c s s'"
| "hr_decide E c i d s = Inr (r, s') \<Longrightarrow> claim_step E store c s s'"
| "move_settlement_month E c i m s = Inr (r, s') \<Longrightarrow> claim_step E store c s s'"
| "unschedule E c i n s = Inr (r, s') \<Longrightarrow> claim_step E store c s s'"
| "withdraw E c i s = Inr (r, s') \<Longrightarrow> claim_step E store c s s'"
| "add_receipt E store c i data l f s = Inr (r, s') \<Longrightarrow> claim_step E store c s s'"
| "remove_receipt E c i x s = Inr (r, s') \<Longrightarrow> claim_step E store c s s'"

text \<open>What a step may do to the table.\<close>

definition edge_effect :: "current_user \<Rightarrow> 'a claims_db_scheme \<Rightarrow> 'a claims_db_scheme \<Rightarrow> bool" where
  "edge_effect c s s' \<longleftrightarrow> (\<exists>r r'. get_claim (claim_id r) s = Some r \<and> claims s' = row_put claim_id r' (claims s)
     \<and> claim_edge c (is_manager_reviewer c r s) (month_open s) r r')"

definition fresh_claim :: "current_user \<Rightarrow> 'a claims_db_scheme \<Rightarrow> claim \<Rightarrow> bool" where
  "fresh_claim c s r \<longleftrightarrow> claim_id r = next_id s \<and> claimant r = cu_id c \<and> claim_status r = SUBMITTED
     \<and> manager_reviewer_id r = None \<and> hr_reviewer_id r = None \<and> claim_receipts r = []
     \<and> period_month r = period_for (expense_date r)"

lemma edge_effectI:
  "get_claim i s = Some r \<Longrightarrow> claims s' = row_put claim_id r' (claims s) \<Longrightarrow>
   claim_edge c (is_manager_reviewer c r s) (month_open s) r r' \<Longrightarrow> edge_effect c s s'"
  unfolding edge_effect_def using get_claim_id by blast

lemma submit_effect:
  assumes "submit E c p s = Inr (r, s')"
  shows "claims s' = row_add r (claims s) \<and> fresh_claim c s r \<and> next_id s < next_id s' \<and> payslips s' = payslips s"
proof -
  have r: "r = fst (create_claim p (cu_id c) (period_for (cc_expense_date p)) s)"
    using assms by (simp add: submit_def Let_def case_prod_unfold)
  then have "Suc (next_id s) \<le> next_id s'"
    using assms by (auto simp: submit_def create_claim_def Let_def)
  then show ?thesis using assms r
    by (auto simp: submit_def create_claim_def fresh_claim_def Let_def)
qed

lemma manager_decide_effect:
  assumes "manager_decide E c i d s = Inr (r', s')"
  shows "edge_effect c s s' \<and> next_id s \<le> next_id s' \<and> payslips s' = payslips s"
proof -
  obtain r where r: "get_claim i s = Some r" "claimant r \<noteq> cu_id c" "is_manager_reviewer c r s" "claim_status r = SUBMITTED"
    and r': "r' = r\<lparr>manager_reviewer_id := Some (cu_id c), manager_decided_at := Some (now s),
      manager_note := cd_note d, claim_status := (if cd_approve d then MANAGER_APPROVED else REJECTED)\<rparr>"
    and s': "claims s' = row_put claim_id r' (claims s)" "payslips s' = payslips s"
    using assms by (auto simp: manager_decide_def Let_def split: option.splits if_splits)
  have "next_id s \<le> next_id s'"
    using assms by (auto simp: manager_decide_def Let_def split: option.splits if_splits)
  moreover have "claim_edge c (is_manager_reviewer c r s) (month_open s) r r'"
    unfolding r' using r by (intro edge_manager) auto
  ultimately show ?thesis using edge_effectI[OF r(1) s'(1)] s'(2) by blast
qed

lemma settlement_month_open:
  "settlement_month r ch s = Inr m \<Longrightarrow> month_open s m"
  by (auto simp: settlement_month_def Let_def split: if_splits)

lemma hr_decide_effect:
  assumes "hr_decide E c i d s = Inr (r', s')"
  shows "edge_effect c s s' \<and> next_id s \<le> next_id s' \<and> payslips s' = payslips s"
proof -
  obtain r where r: "get_claim i s = Some r" "claimant r \<noteq> cu_id c" "can_review_hr c" "claim_status r = MANAGER_APPROVED"
    using assms unfolding hr_decide_def by (cases "get_claim i s") (simp_all split: if_splits)
  let ?month = "if cd_approve d then settlement_month r (cd_settlement_month d) s else Inr (period_month r)"
  obtain m where m: "?month = Inr m"
    using assms r unfolding hr_decide_def by (cases ?month) simp_all
  have e: "hr_decide E c i d s = ebind (Inr m) (\<lambda>month.
          let r' = r\<lparr>period_month := month, hr_reviewer_id := Some (cu_id c), hr_decided_at := Some (now s),
                hr_note := cd_note d, claim_status := (if cd_approve d then APPROVED else REJECTED)\<rparr>;
              s1 = claim_audit E c ''reimbursement.hr_decide''
                (uuid_str (claim_id r') @ '':'' @ status_value (claim_status r')) (put_claim r' s)
          in Inr (r', notify_applicant E r' (cd_approve d) (cd_note d) s1))"
    unfolding m[symmetric] hr_decide_def using r by simp
  have r': "r' = r\<lparr>period_month := m, hr_reviewer_id := Some (cu_id c), hr_decided_at := Some (now s),
      hr_note := cd_note d, claim_status := (if cd_approve d then APPROVED else REJECTED)\<rparr>"
    using assms unfolding e ebind_simps Let_def by blast
  have s': "claims s' = row_put claim_id r' (claims s)" "payslips s' = payslips s" "next_id s \<le> next_id s'"
    using assms unfolding e ebind_simps Let_def r' by auto
  have "claim_edge c (is_manager_reviewer c r s) (month_open s) r r'"
  proof (cases "cd_approve d")
    case True
    then show ?thesis unfolding r' using r settlement_month_open[of r _ s m] m by (auto intro: edge_approve)
  next
    case False
    then have "r' = r\<lparr>hr_reviewer_id := Some (cu_id c), hr_decided_at := Some (now s), hr_note := cd_note d,
      claim_status := REJECTED\<rparr>" using r' m by simp
    then show ?thesis using r by (auto intro: edge_reject)
  qed
  then show ?thesis using edge_effectI[OF r(1) s'(1)] s' by blast
qed

lemma move_effect:
  assumes "move_settlement_month E c i m s = Inr (r', s')"
  shows "(edge_effect c s s' \<or> claims s' = claims s) \<and> next_id s' = next_id s \<and> payslips s' = payslips s"
proof (cases "s' = s")
  case False
  then obtain r k where r: "get_claim i s = Some r" "can_review_hr c" "claim_status r = APPROVED"
      "month_open s (period_month r)" "settlement_month r (Some m) s = Inr k"
    and s': "claims s' = row_put claim_id (r\<lparr>period_month := k\<rparr>) (claims s)" "payslips s' = payslips s" "next_id s' = next_id s"
    using assms by (auto simp: move_settlement_month_def Let_def ebind_Inr_iff split: option.splits if_splits)
  have "claim_edge c (is_manager_reviewer c r s) (month_open s) r (r\<lparr>period_month := k\<rparr>)"
    using r settlement_month_open by (intro edge_move) auto
  then show ?thesis using edge_effectI[OF r(1) s'(1)] s' by blast
qed simp

lemma unschedule_effect:
  assumes "unschedule E c i n s = Inr (r', s')"
  shows "edge_effect c s s' \<and> next_id s \<le> next_id s' \<and> payslips s' = payslips s"
proof -
  obtain r where r: "get_claim i s = Some r" "can_review_hr c" "claim_status r = APPROVED" "month_open s (period_month r)"
    and r': "r' = r\<lparr>claim_status := MANAGER_APPROVED, hr_reviewer_id := None, hr_decided_at := None, hr_note := None\<rparr>"
    and s': "claims s' = row_put claim_id r' (claims s)" "payslips s' = payslips s"
    using assms by (auto simp: unschedule_def Let_def split: option.splits if_splits)
  have "next_id s \<le> next_id s'"
    using assms by (auto simp: unschedule_def Let_def split: option.splits if_splits)
  moreover have "claim_edge c (is_manager_reviewer c r s) (month_open s) r r'"
    unfolding r' using r by (intro edge_unschedule)
  ultimately show ?thesis using edge_effectI[OF r(1) s'(1)] s'(2) by blast
qed

lemma withdraw_effect:
  assumes "withdraw E c i s = Inr (r', s')"
  shows "edge_effect c s s' \<and> next_id s' = next_id s \<and> payslips s' = payslips s"
proof -
  obtain r where r: "get_claim i s = Some r" "claimant r = cu_id c" "claim_status r \<in> {SUBMITTED, MANAGER_APPROVED}"
    and s': "claims s' = row_put claim_id (r\<lparr>claim_status := WITHDRAWN\<rparr>) (claims s)" "payslips s' = payslips s" "next_id s' = next_id s"
    using assms by (auto simp: withdraw_def Let_def split: option.splits if_splits)
  have "claim_edge c (is_manager_reviewer c r s) (month_open s) r (r\<lparr>claim_status := WITHDRAWN\<rparr>)"
    using r by (intro edge_withdraw)
  then show ?thesis using edge_effectI[OF r(1) s'(1)] s' by blast
qed

lemma editable_claimD:
  "editable_claim c i s = Inr r \<Longrightarrow> get_claim i s = Some r \<and> claimant r = cu_id c
    \<and> claim_status r \<in> {SUBMITTED, MANAGER_APPROVED} \<and> claim_scope c r s"
  by (auto simp: editable_claim_def get_claim_in_scope_def split: option.splits if_splits)

lemma add_receipt_effect:
  assumes "add_receipt E store c i data l f s = Inr (r', s')"
  shows "edge_effect c s s' \<and> next_id s \<le> next_id s' \<and> payslips s' = payslips s"
proof -
  obtain r x where r: "editable_claim c i s = Inr r" "length (claim_receipts r) < max_receipts_per_claim"
    and s': "claims s' = row_put claim_id (r\<lparr>claim_receipts := claim_receipts r @ [x]\<rparr>) (claims s)"
      "payslips s' = payslips s" "next_id s \<le> next_id s'"
    using assms by (auto simp: add_receipt_def Let_def ebind_Inr_iff split: option.splits if_splits)
  note e = editable_claimD[OF r(1)]
  have "claim_edge c (is_manager_reviewer c r s) (month_open s) r (r\<lparr>claim_receipts := claim_receipts r @ [x]\<rparr>)"
    using e r(2) by (intro edge_proofs) auto
  then show ?thesis using edge_effectI[of i s r] e s' by blast
qed

lemma remove_receipt_effect:
  assumes "remove_receipt E c i x s = Inr (r', s')" "\<forall>r \<in> set (claims s). length (claim_receipts r) \<le> max_receipts_per_claim"
  shows "edge_effect c s s' \<and> next_id s' = next_id s \<and> payslips s' = payslips s"
proof -
  obtain r where r: "editable_claim c i s = Inr r"
    and s': "claims s' = row_put claim_id (r\<lparr>claim_receipts := filter (\<lambda>y. rec_id y \<noteq> x) (claim_receipts r)\<rparr>) (claims s)"
      "payslips s' = payslips s" "next_id s' = next_id s"
    using assms(1) by (auto simp: remove_receipt_def Let_def ebind_Inr_iff split: if_splits)
  note e = editable_claimD[OF r(1)]
  have "length (claim_receipts r) \<le> max_receipts_per_claim" using e assms(2) get_claim_id by blast
  then have "claim_edge c (is_manager_reviewer c r s) (month_open s) r
      (r\<lparr>claim_receipts := filter (\<lambda>y. rec_id y \<noteq> x) (claim_receipts r)\<rparr>)"
    using e by (intro edge_proofs) (auto intro: order_trans[OF length_filter_le])
  then show ?thesis using edge_effectI[of i s r] e s' by blast
qed

subsection \<open>Invariants\<close>

text \<open>A claim that was approved at a step carries the reviewer of that step, never the claimant.\<close>

definition claim_ok :: "claim \<Rightarrow> bool" where
  "claim_ok r \<longleftrightarrow>
     (claim_status r \<in> {MANAGER_APPROVED, APPROVED} \<longrightarrow>
        (\<exists>m. manager_reviewer_id r = Some m \<and> m \<noteq> claimant r) \<and> manager_decided_at r \<noteq> None)
   \<and> (claim_status r = APPROVED \<longrightarrow>
        (\<exists>h. hr_reviewer_id r = Some h \<and> h \<noteq> claimant r) \<and> hr_decided_at r \<noteq> None)
   \<and> (claim_status r = SUBMITTED \<longrightarrow> manager_reviewer_id r = None)
   \<and> (claim_status r \<in> {SUBMITTED, MANAGER_APPROVED} \<longrightarrow> hr_reviewer_id r = None)
   \<and> length (claim_receipts r) \<le> max_receipts_per_claim"

definition claims_ok :: "'a claims_db_scheme \<Rightarrow> bool" where
  "claims_ok s \<longleftrightarrow> keys_unique claim_id (claims s) \<and> (\<forall>r \<in> set (claims s). claim_id r < next_id s \<and> claim_ok r)"

lemma claim_edge_ok: "claim_edge c b opn r r' \<Longrightarrow> claim_ok r \<Longrightarrow> claim_ok r' \<and> claim_id r' = claim_id r"
  by (erule claim_edge.cases) (auto simp: claim_ok_def)

lemma step_effect:
  assumes "claims_ok s" "claim_step E store c s s'"
  shows "(edge_effect c s s' \<or> claims s' = claims s
      \<or> (\<exists>r. fresh_claim c s r \<and> claims s' = row_add r (claims s) \<and> next_id s < next_id s'))
    \<and> next_id s \<le> next_id s' \<and> payslips s' = payslips s"
  using assms(2)
proof cases
  case (1 p r)
  then show ?thesis using submit_effect by fastforce
next
  case (8 i x r)
  have "\<forall>r \<in> set (claims s). length (claim_receipts r) \<le> max_receipts_per_claim"
    using assms(1) by (simp add: claims_ok_def claim_ok_def)
  then show ?thesis using remove_receipt_effect[OF 8] by simp
qed (use manager_decide_effect hr_decide_effect move_effect unschedule_effect withdraw_effect
    add_receipt_effect in fastforce)+

lemma claims_ok_step:
  assumes "claims_ok s" "claim_step E store c s s'"
  shows "claims_ok s'"
proof -
  have ok: "keys_unique claim_id (claims s)" "\<forall>r \<in> set (claims s). claim_id r < next_id s \<and> claim_ok r"
    using assms(1) by (simp_all add: claims_ok_def)
  consider (edge) "edge_effect c s s'" "next_id s \<le> next_id s'" | (same) "claims s' = claims s" "next_id s \<le> next_id s'"
    | (new) r where "fresh_claim c s r" "claims s' = row_add r (claims s)" "next_id s < next_id s'"
    using step_effect[OF assms] by blast
  then show ?thesis
  proof cases
    case edge
    then obtain r r' where r: "get_claim (claim_id r) s = Some r" "claims s' = row_put claim_id r' (claims s)"
      "claim_edge c (is_manager_reviewer c r s) (month_open s) r r'" by (auto simp: edge_effect_def)
    have "r \<in> set (claims s)" using get_claim_id[OF r(1)] by simp
    then have "claim_id r' < next_id s" "claim_ok r'" using claim_edge_ok[OF r(3)] ok(2) by auto
    then have "\<forall>x \<in> set (claims s'). claim_id x < next_id s \<and> claim_ok x"
      unfolding r(2) using ok(2) by (intro rows.all_put) auto
    then show ?thesis using rows.uniq_put[OF ok(1)] edge(2) unfolding claims_ok_def r(2) by (meson less_le_trans)
  next
    case same
    then show ?thesis using ok by (fastforce simp: claims_ok_def)
  next
    case (new r)
    then have r: "claim_id r = next_id s" "claim_ok r" by (auto simp: fresh_claim_def claim_ok_def max_receipts_per_claim_def)
    have "claim_id r \<notin> claim_id ` set (claims s)" using ok(2) r(1) by fastforce
    then have "keys_unique claim_id (claims s')" unfolding new(2) using ok(1) by (intro rows.uniq_add)
    moreover have "\<forall>x \<in> set (claims s'). claim_id x < next_id s' \<and> claim_ok x"
      unfolding new(2) by (intro rows.all_add) (use ok(2) r new(3) in fastforce)+
    ultimately show ?thesis by (simp add: claims_ok_def)
  qed
qed

text \<open>Everything that can happen: steps of the claim service and, in between, whatever other services do
  to the rest of the state.\<close>

inductive claim_reach :: "env \<Rightarrow> object_store \<Rightarrow> 'a claims_db_scheme \<Rightarrow> bool" for E store where
  reach_init: "claims s = [] \<Longrightarrow> claim_reach E store s"
| reach_step: "claim_reach E store s \<Longrightarrow> claim_step E store c s s' \<Longrightarrow> claim_reach E store s'"
| reach_other: "claim_reach E store s \<Longrightarrow> claims s' = claims s \<Longrightarrow> next_id s \<le> next_id s' \<Longrightarrow> claim_reach E store s'"

lemma claims_ok_reach: "claim_reach E store s \<Longrightarrow> claims_ok s"
proof (induction rule: claim_reach.induct)
  case (reach_init s)
  then show ?case by (simp add: claims_ok_def keys_unique_def)
next
  case (reach_step s c s')
  then show ?case using claims_ok_step by blast
next
  case (reach_other s s')
  then show ?case by (fastforce simp: claims_ok_def)
qed

text \<open>A person's approved total of a month, row by row.\<close>

definition contribution :: "uuid \<Rightarrow> string \<Rightarrow> claim \<Rightarrow> int" where
  "contribution i m r = (if claimant r = i \<and> claim_status r = APPROVED \<and> period_month r = m then claim_amount r else 0)"

lemma approved_for_month_sum: "approved_for_month i m s = sum_list (map (contribution i m) (claims s))"
proof -
  have "sum_list (map claim_amount (filter (\<lambda>r. claimant r = i \<and> claim_status r = APPROVED \<and> period_month r = m) rs))
      = sum_list (map (contribution i m) rs)" for rs
    by (induction rs) (auto simp: contribution_def)
  then show ?thesis by (simp add: approved_for_month_def)
qed

lemma edge_contribution: "claim_edge c b opn r r' \<Longrightarrow> \<not> opn m \<Longrightarrow> contribution i m r' = contribution i m r"
  by (erule claim_edge.cases) (auto simp: contribution_def)

lemma approved_frozen:
  assumes "claims_ok s" "claim_step E store c s s'" "payslips_for_month m s \<noteq> []"
  shows "approved_for_month i m s' = approved_for_month i m s"
proof -
  have u: "keys_unique claim_id (claims s)" using assms(1) by (simp add: claims_ok_def)
  consider (edge) "edge_effect c s s'" | (same) "claims s' = claims s"
    | (new) r where "fresh_claim c s r" "claims s' = row_add r (claims s)"
    using step_effect[OF assms(1,2)] by blast
  then show ?thesis
  proof cases
    case edge
    then obtain r r' where r: "get_claim (claim_id r) s = Some r" "claims s' = row_put claim_id r' (claims s)"
      "claim_edge c (is_manager_reviewer c r s) (month_open s) r r'" by (auto simp: edge_effect_def)
    have "contribution i m (if claim_id x = claim_id r' then r' else x) = contribution i m x" if "x \<in> set (claims s)" for x
    proof (cases "claim_id x = claim_id r'")
      case True
      have "claim_id r' = claim_id r" using r(3) by (rule claim_edge.cases) auto
      with True have id: "claim_id x = claim_id r" by (rule trans)
      have "get_claim (claim_id x) s = Some x" unfolding get_claim_def by (rule rows.content_get[OF u that])
      then have "x = r" unfolding id r(1) by simp
      then show ?thesis using edge_contribution[OF r(3), of m i] assms(3) True by simp
    qed simp
    then have "map (contribution i m) (claims s') = map (contribution i m) (claims s)"
      by (simp add: r(2) row_put_def)
    then show ?thesis unfolding approved_for_month_sum by simp
  qed (auto simp: approved_for_month_sum fresh_claim_def contribution_def row_add_def)
qed

subsection \<open>Properties\<close>

text \<open>A small organisation for the concrete instances: 1 is HR, 2 reports to 3, 5 reports to the senior
  manager 4 of another department.\<close>

definition demo_claims_db :: claims_db where
  "demo_claims_db = \<lparr>now = 0, next_id = 100, employees = [demo_employee 1 HR,
       (demo_employee 2 EXECUTIVE)\<lparr>manager_id := Some 3\<rparr>, demo_employee 3 MANAGER,
       (demo_employee 4 SENIOR_MANAGER)\<lparr>department := Some ''Sales''\<rparr>,
       (demo_employee 5 EXECUTIVE)\<lparr>manager_id := Some 4, department := Some ''Tech''\<rparr>],
     audit_log = [], inbox = [], mail_log = [], adjustments = [], payslips = [], payroll_runs = [], claims = []\<rparr>"

definition demo_claim :: claim_create where
  "demo_claim = \<lparr>cc_amount = 125000, cc_category = TRAVEL, cc_description = ''cab'', cc_expense_date = 739800\<rparr>"

definition demo_yes :: claim_decision where
  "demo_yes = \<lparr>cd_approve = True, cd_note = Some ''ok'', cd_settlement_month = None\<rparr>"

abbreviation demo_caller :: "uuid \<Rightarrow> role \<Rightarrow> current_user" where
  "demo_caller i r \<equiv> caller_of (demo_employee i r)"

definition demo_s1 :: claims_db where
  "demo_s1 = snd (projr (submit (demo_env (\<lambda>m. True)) ((demo_caller 2 EXECUTIVE)\<lparr>cu_manager := Some 3\<rparr>) demo_claim demo_claims_db))"

definition demo_s2 :: claims_db where
  "demo_s2 = snd (projr (manager_decide (demo_env (\<lambda>m. True)) (demo_caller 3 MANAGER) 100 demo_yes demo_s1))"

definition demo_s3 :: claims_db where
  "demo_s3 = snd (projr (hr_decide (demo_env (\<lambda>m. True)) (demo_caller 1 HR) 100 demo_yes demo_s2))"

lemma demo_step1:
  "claim_step (demo_env (\<lambda>m. True)) None ((demo_caller 2 EXECUTIVE)\<lparr>cu_manager := Some 3\<rparr>) demo_claims_db demo_s1"
  "claims demo_s1 = [\<lparr>claim_id = 100, claimant = 2, claim_amount = 125000, category = TRAVEL, description = ''cab'',
     expense_date = 739800, period_month = period_for 739800, claim_receipts = [], claim_status = SUBMITTED,
     manager_reviewer_id = None, manager_decided_at = None, manager_note = None, hr_reviewer_id = None,
     hr_decided_at = None, hr_note = None, claim_created_at = 0\<rparr>]"
  "employees demo_s1 = employees demo_claims_db" "payslips demo_s1 = []"
  unfolding demo_s1_def
  by (rule claim_step.intros(1)[where p = demo_claim], simp_all add: submit_def create_claim_def Let_def row_add_def
      demo_claims_db_def demo_claim_def caller_of_def demo_employee_def)

lemma demo_step2:
  "claim_step (demo_env (\<lambda>m. True)) None (demo_caller 3 MANAGER) demo_s1 demo_s2"
  "claims demo_s2 = [(hd (claims demo_s1))\<lparr>manager_reviewer_id := Some 3, manager_decided_at := Some (now demo_s1),
     manager_note := Some ''ok'', claim_status := MANAGER_APPROVED\<rparr>]"
  "employees demo_s2 = employees demo_claims_db" "payslips demo_s2 = []"
  unfolding demo_s2_def
  by (rule claim_step.intros(2)[where d = demo_yes and i = 100], simp_all add: manager_decide_def get_claim_def row_get_def
      is_manager_reviewer_def may_manager_step_def find_employee_def demo_step1(2-4) demo_claims_db_def demo_employee_def
      demo_yes_def caller_of_def Let_def row_put_def)

lemma demo_step3:
  "claim_step (demo_env (\<lambda>m. True)) None (demo_caller 1 HR) demo_s2 demo_s3"
  "claims demo_s3 = [(hd (claims demo_s2))\<lparr>hr_reviewer_id := Some 1, hr_decided_at := Some (now demo_s2),
     hr_note := Some ''ok'', claim_status := APPROVED\<rparr>]"
  unfolding demo_s3_def
  by (rule claim_step.intros(3)[where d = demo_yes and i = 100], simp_all add: hr_decide_def get_claim_def row_get_def
      can_review_hr_def can_review_reimbursements_def normalize_role_def settlement_month_def text_or_def
      payslips_for_month_def demo_step1(2) demo_step2(2-4) demo_employee_def demo_yes_def caller_of_def Let_def row_put_def)

lemmas demo_steps = demo_step1(1) demo_step2(1) demo_step3(1)

lemma demo_reach: "claim_reach (demo_env (\<lambda>m. True)) None demo_s3"
  by (intro reach_step[OF _ demo_steps(3)] reach_step[OF _ demo_steps(2)] reach_step[OF _ demo_steps(1)] reach_init)
    (simp add: demo_claims_db_def)

text \<open>C14 Every claim of every reachable state has been reviewed the way its status says: an approved
  claim was approved by a manager-step reviewer and by an HR reviewer, neither of them the claimant,
  and no claim carries more than ten proofs.\<close>

theorem approved_claims_reviewed:
  assumes "claim_reach E store s" "r \<in> set (claims s)"
  shows "(claim_status r \<in> {MANAGER_APPROVED, APPROVED} \<longrightarrow> (\<exists>m. manager_reviewer_id r = Some m \<and> m \<noteq> claimant r))
    \<and> (claim_status r = APPROVED \<longrightarrow> (\<exists>h. hr_reviewer_id r = Some h \<and> h \<noteq> claimant r))
    \<and> length (claim_receipts r) \<le> 10"
  using claims_ok_reach[OF assms(1)] assms(2)
  by (auto simp: claims_ok_def claim_ok_def max_receipts_per_claim_def)

theorem approved_claims_reviewed_witness:
  "\<exists>r \<in> set (claims demo_s3). claim_status r = APPROVED \<and> (\<exists>h. hr_reviewer_id r = Some h \<and> h \<noteq> claimant r)"
proof -
  have "hd (claims demo_s3) \<in> set (claims demo_s3)" "claim_status (hd (claims demo_s3)) = APPROVED"
    by (simp_all add: demo_step3(2))
  then show ?thesis using approved_claims_reviewed[OF demo_reach] by blast
qed

text \<open>C15 One step moves a claim only along its life: submitted to manager-approved or rejected by a
  manager-step reviewer, from there to approved or rejected by HR or a payroll manager, both never on
  their own claim, back from approved to manager-approved, and to withdrawn by the claimant alone.
  Rejected and withdrawn are final. Claimant, amount, category, description and expense date never
  change.\<close>

theorem claim_life:
  assumes "claims_ok s" "claim_step E store c s s'" "get_claim i s = Some r"
  shows "\<exists>r'. get_claim i s' = Some r'
    \<and> (claimant r', claim_amount r', category r', description r', expense_date r')
      = (claimant r, claim_amount r, category r, description r, expense_date r)
    \<and> (claim_status r' = claim_status r
       \<or> claim_status r = SUBMITTED \<and> claim_status r' \<in> {MANAGER_APPROVED, REJECTED}
           \<and> claimant r \<noteq> cu_id c \<and> is_manager_reviewer c r s
       \<or> claim_status r = MANAGER_APPROVED \<and> claim_status r' \<in> {APPROVED, REJECTED}
           \<and> claimant r \<noteq> cu_id c \<and> can_review_reimbursements c
       \<or> claim_status r = APPROVED \<and> claim_status r' = MANAGER_APPROVED \<and> can_review_reimbursements c
       \<or> claim_status r \<in> {SUBMITTED, MANAGER_APPROVED} \<and> claim_status r' = WITHDRAWN \<and> claimant r = cu_id c)"
proof -
  have u: "keys_unique claim_id (claims s)" using assms(1) by (simp add: claims_ok_def)
  have i: "claim_id r = i" "r \<in> set (claims s)" using get_claim_id[OF assms(3)] by auto
  consider (edge) "edge_effect c s s'" | (same) "claims s' = claims s"
    | (new) x where "fresh_claim c s x" "claims s' = row_add x (claims s)"
    using step_effect[OF assms(1,2)] by blast
  then show ?thesis
  proof cases
    case edge
    then obtain x x' where x: "get_claim (claim_id x) s = Some x" "claims s' = row_put claim_id x' (claims s)"
      "claim_edge c (is_manager_reviewer c x s) (month_open s) x x'" by (auto simp: edge_effect_def)
    have idx: "claim_id x' = claim_id x" using x(3) by (rule claim_edge.cases) auto
    show ?thesis
    proof (cases "claim_id x = i")
      case True
      then have xr: "x = r" using x(1) assms(3) by simp
      have "get_claim i s' = Some x'"
        using rows.get_put_same[OF u, of x' r] x(1,2) idx True xr by (simp add: get_claim_def)
      then show ?thesis using x(3) unfolding xr by (elim claim_edge.cases) (auto simp: can_review_hr_def)
    next
      case False
      then have "get_claim i s' = Some r"
        using rows.get_put_other[OF u, of i x'] x(2) idx assms(3) by (simp add: get_claim_def)
      then show ?thesis by auto
    qed
  next
    case same
    then show ?thesis using assms(3) by (auto simp: get_claim_def)
  next
    case (new x)
    have "i \<noteq> claim_id x" using assms(1) i new(1) by (auto simp: claims_ok_def fresh_claim_def)
    then have "get_claim i s' = Some r" using rows.get_add_other[of i claim_id x "claims s"] new(2) assms(3)
      by (simp add: get_claim_def)
    then show ?thesis by auto
  qed
qed

theorem claim_life_witness:
  "\<exists>r'. get_claim 100 demo_s2 = Some r' \<and> claim_amount r' = 125000"
proof -
  have ok: "claims_ok demo_s1"
    by (rule claims_ok_step[OF _ demo_step1(1)]) (simp add: claims_ok_def keys_unique_def demo_claims_db_def)
  have g: "get_claim 100 demo_s1 = Some (hd (claims demo_s1))" "claim_amount (hd (claims demo_s1)) = 125000"
    by (simp_all add: get_claim_def row_get_def demo_step1(2))
  show ?thesis using claim_life[OF ok demo_step2(1) g(1)] g(2) by auto
qed

text \<open>C16 Once a month's payslips are released, no operation on claims changes what anybody is paid in
  expenses for that month.\<close>

theorem released_month_frozen:
  assumes "claim_reach E store s" "claim_step E store c s s'" "payslips_for_month m s \<noteq> []"
  shows "approved_for_month i m s' = approved_for_month i m s"
  using approved_frozen[OF claims_ok_reach[OF assms(1)] assms(2,3)] .

theorem released_month_frozen_witness:
  "\<exists>(s :: claims_db) s'. payslips_for_month ''2026-07'' s \<noteq> [] \<and> claim_step (demo_env (\<lambda>m. True)) None (demo_caller 2 EXECUTIVE) s s'
    \<and> approved_for_month 2 ''2026-07'' s' = approved_for_month 2 ''2026-07'' s"
proof -
  let ?s = "demo_claims_db\<lparr>payslips := [snapshot_of (demo_line 500) ''2026-07'' None 0]\<rparr>"
  let ?s' = "snd (projr (submit (demo_env (\<lambda>m. True)) (demo_caller 2 EXECUTIVE) demo_claim ?s))"
  have 1: "payslips_for_month ''2026-07'' ?s \<noteq> []" by (simp add: payslips_for_month_def)
  have 2: "claim_step (demo_env (\<lambda>m. True)) None (demo_caller 2 EXECUTIVE) ?s ?s'"
    by (rule claim_step.intros(1)[where p = demo_claim]) (simp add: submit_def create_claim_def Let_def)
  have 3: "claim_reach (demo_env (\<lambda>m. True)) None ?s" by (rule reach_init) (simp add: demo_claims_db_def)
  have 4: "approved_for_month 2 ''2026-07'' ?s' = approved_for_month 2 ''2026-07'' ?s"
    by (rule released_month_frozen[OF 3 2 1])
  show ?thesis by (rule exI[of _ ?s], rule exI[of _ ?s'], intro conjI 1 2 4)
qed

text \<open>The review queue offers exactly the claims the caller can act on: a claim is in the list of
  decidable ids iff rejecting it at the manager step or at the HR step would succeed.\<close>

theorem decidable_ids_exact:
  assumes "claims_ok s" "r \<in> set (claims s)"
  shows "claim_id r \<in> set (decidable_ids c (claims s) s) \<longleftrightarrow>
    (\<exists>x. manager_decide E c (claim_id r) \<lparr>cd_approve = False, cd_note = n, cd_settlement_month = None\<rparr> s = Inr x)
    \<or> (\<exists>x. hr_decide E c (claim_id r) \<lparr>cd_approve = False, cd_note = n, cd_settlement_month = None\<rparr> s = Inr x)"
proof -
  have u: "keys_unique claim_id (claims s)" using assms(1) by (simp add: claims_ok_def)
  have g: "get_claim (claim_id r) s = Some r" unfolding get_claim_def by (rule rows.content_get[OF u assms(2)])
  have one: "x = r" if "x \<in> set (claims s)" "claim_id x = claim_id r" for x
    using rows.content_get[OF u that(1)] g that(2) by (simp add: get_claim_def)
  have mem: "claim_id r \<in> set (decidable_ids c (claims s) s) \<longleftrightarrow> claimant r \<noteq> cu_id c \<and>
     (claim_status r = SUBMITTED \<and> is_manager_reviewer c r s \<or> claim_status r = MANAGER_APPROVED \<and> can_review_hr c)"
  proof -
    have "claim_id r \<in> claim_id ` {x \<in> set (claims s). P x} \<longleftrightarrow> P r" for P
      using assms(2) one by (metis (mono_tags, lifting) image_iff mem_Collect_eq)
    then show ?thesis unfolding decidable_ids_def is_manager_reviewer_def by simp
  qed
  have "(\<exists>x. manager_decide E c (claim_id r) \<lparr>cd_approve = False, cd_note = n, cd_settlement_month = None\<rparr> s = Inr x)
      \<longleftrightarrow> claimant r \<noteq> cu_id c \<and> is_manager_reviewer c r s \<and> claim_status r = SUBMITTED"
    by (auto simp: manager_decide_def g Let_def)
  moreover have "(\<exists>x. hr_decide E c (claim_id r) \<lparr>cd_approve = False, cd_note = n, cd_settlement_month = None\<rparr> s = Inr x)
      \<longleftrightarrow> claimant r \<noteq> cu_id c \<and> can_review_hr c \<and> claim_status r = MANAGER_APPROVED"
    by (auto simp: hr_decide_def g Let_def)
  ultimately show ?thesis using mem by blast
qed

theorem decidable_ids_exact_witness:
  "100 \<in> set (decidable_ids (demo_caller 3 MANAGER) (claims demo_s1) demo_s1)"
proof -
  have ok: "claims_ok demo_s1"
    by (rule claims_ok_step[OF _ demo_step1(1)]) (simp add: claims_ok_def keys_unique_def demo_claims_db_def)
  have "\<exists>x. manager_decide (demo_env (\<lambda>m. True)) (demo_caller 3 MANAGER) 100
      \<lparr>cd_approve = False, cd_note = None, cd_settlement_month = None\<rparr> demo_s1 = Inr x"
    by (simp add: manager_decide_def get_claim_def row_get_def is_manager_reviewer_def may_manager_step_def
        find_employee_def demo_step1(2-4) demo_claims_db_def demo_employee_def caller_of_def Let_def)
  then show ?thesis
    using decidable_ids_exact[OF ok, of "hd (claims demo_s1)" "demo_caller 3 MANAGER" "demo_env (\<lambda>m. True)" None]
    by (simp add: demo_step1(2))
qed

text \<open>Deciding and seeing a claim do not agree for a senior manager: the claim of a direct report in
  another department is theirs to decide, but neither their list nor the claim itself opens for them.\<close>

theorem decidable_but_invisible:
  "let s = demo_claims_db\<lparr>claims := [fst (create_claim demo_claim 5 ''2026-07'' demo_claims_db)]\<rparr>
   in decidable_ids (demo_caller 4 SENIOR_MANAGER) (claims s) s = [100]
      \<and> list_claims (demo_caller 4 SENIOR_MANAGER) 0 50 None s = ([], 0)
      \<and> get_for_caller (demo_caller 4 SENIOR_MANAGER) 100 s = Inl NotFoundError"
  by (simp add: decidable_ids_def list_claims_def get_for_caller_def get_claim_in_scope_def get_claim_def row_get_def
      create_claim_def demo_claims_db_def demo_employee_def caller_of_def normalize_role_def claim_scope_def
      claimant_column_def sql_eq_def find_employee_def can_review_reimbursements_def may_manager_step_def Let_def)


end
