(* ===== verification/ReportingQuery.thy ===== *)
theory ReportingQuery
  imports OrgLaws "HOL-Library.While_Combinator"
begin

text \<open>
  The recursive query behind every visibility check (\<open>reporting_tree_ids\<close> in \<open>app/repositories/employee.py\<close>), run
  round by round the way the database runs it: a loop that stops when a round finds nobody new.
\<close>

definition query_start :: "uuid \<Rightarrow> employee list \<Rightarrow> uuid list \<times> uuid list" where
  "query_start m es = (let first = dedup_from [] (reports_of es [m]) in (first, first))"

definition query_round :: "employee list \<Rightarrow> uuid list \<times> uuid list \<Rightarrow> uuid list \<times> uuid list" where
  "query_round es q = (let new = dedup_from (fst q) (reports_of es (snd q)) in (fst q @ new, new))"

definition run_query :: "uuid \<Rightarrow> employee list \<Rightarrow> (uuid list \<times> uuid list) option" where
  "run_query m es = while_option (\<lambda>q. snd q \<noteq> []) (query_round es) (query_start m es)"

lemma query_loop: "while_option (\<lambda>q. snd q \<noteq> []) (query_round es) (found, fr) = Some (grow_tree es found fr, [])"
proof (induction es found fr rule: grow_tree.induct)
  case (1 es found)
  show ?case by (subst while_option_unfold) simp
next
  case (2 es found f fs)
  show ?case by (subst while_option_unfold) (simp add: query_round_def Let_def 2[OF refl])
qed

text \<open>C40 The query ends for every table of employees, cycles of managers included: it returns the ids below the manager,
  each once, and exactly the transitive closure of the reporting lines; one more round would find nobody.\<close>

theorem reporting_query_ends:
  "\<exists>ids. run_query m (employees s) = Some (ids, []) \<and> ids = reporting_tree_ids m s \<and> distinct ids
    \<and> set ids = (reports_to (employees s))\<^sup>+ `` {m} \<and> set (reports_of (employees s) ids) \<subseteq> set ids"
proof (intro exI conjI)
  let ?first = "dedup_from [] (reports_of (employees s) [m])"
  show "run_query m (employees s) = Some (reporting_tree_ids m s, [])"
    by (simp add: run_query_def query_start_def reporting_tree_ids_def Let_def query_loop)
  show "distinct (reporting_tree_ids m s)"
    by (simp add: reporting_tree_ids_def Let_def grow_tree_distinct distinct_dedup_from)
  show "set (reporting_tree_ids m s) = (reports_to (employees s))\<^sup>+ `` {m}" by (rule set_reporting_tree)
  show "set (reports_of (employees s) (reporting_tree_ids m s)) \<subseteq> set (reporting_tree_ids m s)"
    unfolding set_reports_of set_reporting_tree by (auto intro: trancl_into_trancl)
qed simp

text \<open>Two people who manage each other: each is below the other, and the query ends.\<close>

lemma managed_in_circles:
  "run_query 1 [e\<lparr>emp_id := 1, manager_id := Some 2\<rparr>, e\<lparr>emp_id := 2, manager_id := Some 1\<rparr>] = Some ([2, 1], [])"
  by (simp add: run_query_def query_start_def query_loop reports_of_def Let_def)

end
