(* ===== verification/Tenure.thy ===== *)
theory Tenure
  imports Calendar PyFloat
begin

text \<open>
  Tenure bands and the leave year: \<open>app/core/tenure.py\<close> and \<open>app/core/leave_year.py\<close>. Pure date
  arithmetic; the dates stay inside Python's range of years, so no operation overflows.
\<close>

datatype tenure_status = PROBATION | CONFIRMED | TENURED

definition months_in_year :: int where
  "months_in_year = 12"

text \<open>\<open>add_months\<close>: the shifted month, the day clamped to its last.\<close>

definition add_months :: "date \<Rightarrow> int \<Rightarrow> date" where
  "add_months start months =
    (let t = month_of start - 1 + months;
         year = year_of start + t div 12;
         month = t mod 12 + 1;
         last_day = (if month = 12 then 31 else mk_date year (month + 1) 1 - mk_date year month 1)
     in mk_date year month (min (day_of start) last_day))"

lemma month_start_step: "1 \<le> m \<Longrightarrow> m < 12 \<Longrightarrow> mk_date y (m + 1) 1 - mk_date y m 1 = month_len y m"
  using month_table[of m y] by (simp add: mk_date_def)

lemma last_day_branch:
  "1 \<le> m \<Longrightarrow> m \<le> 12 \<Longrightarrow> (if m = 12 then 31 else mk_date y (m + 1) 1 - mk_date y m 1) = month_len y m"
  using month_start_step[of m y] by (cases "m = 12") (simp_all add: month_len_def[of y 12])

definition month_index :: "date \<Rightarrow> int" where
  "month_index d = 12 * year_of d + (month_of d - 1)"

lemma add_months_date:
  "add_months start n = (let t = month_of start - 1 + n; y = year_of start + t div 12; m = t mod 12 + 1
     in mk_date y m (min (day_of start) (month_len y m)))"
proof -
  have "1 \<le> t mod 12 + 1 \<and> t mod 12 + 1 \<le> 12" for t :: int
    using pos_mod_bound[of 12 t] pos_mod_sign[of 12 t] by linarith
  then show ?thesis unfolding add_months_def Let_def by (simp only: last_day_branch)
qed

lemma add_months_ymd:
  shows "month_index (add_months start n) = month_index start + n"
    and "day_of (add_months start n) = min (day_of start) (month_len (year_of (add_months start n)) (month_of (add_months start n)))"
proof -
  define t where "t = month_of start - 1 + n"
  define y m where "y = year_of start + t div 12" and "m = t mod 12 + 1"
  have v: "valid_ymd y m (min (day_of start) (month_len y m))"
    using day_of_bounds[of start] month_len_bounds[of y m] by (simp add: valid_ymd_def m_def)
  have a: "add_months start n = mk_date y m (min (day_of start) (month_len y m))"
    by (simp add: add_months_date Let_def y_def m_def t_def)
  note of = of_mk_date[OF v, folded a]
  have "12 * (t div 12) + t mod 12 = t" by simp
  then show "month_index (add_months start n) = month_index start + n"
    by (simp add: month_index_def of y_def m_def t_def)
  show "day_of (add_months start n) = min (day_of start) (month_len (year_of (add_months start n)) (month_of (add_months start n)))"
    by (simp add: of)
qed

lemma month_index_less: "month_index a < month_index b \<Longrightarrow> a < b"
proof -
  assume *: "month_index a < month_index b"
  have "mk_date (year_of a) (month_of a) (day_of a) < mk_date (year_of b) (month_of b) (day_of b)"
  proof (cases "year_of a = year_of b")
    case True
    with * have "month_of a < month_of b" by (simp add: month_index_def)
    with True valid_ymd_of[of a] valid_ymd_of[of b] show ?thesis
      using mk_date_less_month[of "month_of a" "month_of b" "year_of b" "day_of a" "day_of b"] by simp
  next
    case False
    then have "year_of a < year_of b"
      using * month_of_bounds[of a] month_of_bounds[of b] by (simp add: month_index_def)
    then show ?thesis by (intro mk_date_less_year valid_ymd_of)
  qed
  then show ?thesis by simp
qed

lemma add_months_less [simp]: "add_months d m < add_months d n \<longleftrightarrow> m < n"
  using month_index_less[of "add_months d m" "add_months d n"] month_index_less[of "add_months d n" "add_months d m"]
  by (cases m n rule: linorder_cases) (auto simp: add_months_ymd(1))

lemma add_months_le [simp]: "add_months d m \<le> add_months d n \<longleftrightarrow> m \<le> n"
  by (meson add_months_less linorder_not_less)

text \<open>The two loops of \<open>months_to_reach\<close>.\<close>

function climb_months :: "date \<Rightarrow> date \<Rightarrow> int \<Rightarrow> int" where
  "climb_months start tgt months =
    (if add_months start months < tgt then climb_months start tgt (months + 1) else months)"
  by pat_completeness auto
termination
proof (relation "measure (\<lambda>(start, tgt, n). nat (tgt - add_months start n))")
  fix start tgt n
  assume "add_months start n < tgt"
  moreover have "add_months start n < add_months start (n + 1)" by simp
  ultimately show "((start, tgt, n + 1), start, tgt, n) \<in> measure (\<lambda>(start, tgt, n). nat (tgt - add_months start n))"
    by (simp del: add_months_less)
qed simp

function descend_months :: "date \<Rightarrow> date \<Rightarrow> int \<Rightarrow> int" where
  "descend_months start tgt months =
    (if months > 0 \<and> add_months start (months - 1) \<ge> tgt then descend_months start tgt (months - 1) else months)"
  by pat_completeness auto
termination
  by (relation "measure (\<lambda>(_, _, n). nat n)") auto

declare climb_months.simps [simp del] descend_months.simps [simp del]

definition months_to_reach :: "date \<Rightarrow> date \<Rightarrow> int" where
  "months_to_reach start tgt = descend_months start tgt (climb_months start tgt
     (max 0 ((year_of tgt - year_of start) * 12 + (month_of tgt - month_of start))))"

definition months_completed :: "date \<Rightarrow> date \<Rightarrow> int" where
  "months_completed start today =
    (if today \<le> start then 0
     else let months = (year_of today - year_of start) * 12 + (month_of today - month_of start)
       in max 0 (if day_of today < day_of start then months - 1 else months))"

definition probation_end :: "date \<Rightarrow> int \<Rightarrow> date" where
  "probation_end hired n = add_months hired n"

definition anniversaries_reached :: "date \<Rightarrow> date \<Rightarrow> int" where
  "anniversaries_reached start today =
    (let months = months_to_reach start today
     in if add_months start months = today then months else max 0 (months - 1))"

definition tenure_of :: "date \<Rightarrow> date \<Rightarrow> int \<Rightarrow> tenure_status" where
  "tenure_of hired today n =
    (let months = anniversaries_reached hired today
     in if months \<ge> months_in_year then TENURED else if months \<ge> n then CONFIRMED else PROBATION)"

definition accrued_units :: "date \<Rightarrow> date \<Rightarrow> pyfloat \<Rightarrow> pyfloat" where
  "accrued_units accrual_start today per_month =
    (if today < accrual_start then 0
     else fmul (to_float (min (months_completed accrual_start today + 1) months_in_year)) per_month)"

subsection \<open>The leave year\<close>

definition leave_year_start_month :: int where
  "leave_year_start_month = 4"

definition leave_year_window :: "date \<Rightarrow> date \<times> date" where
  "leave_year_window today =
    (let year = (if month_of today \<ge> leave_year_start_month then year_of today else year_of today - 1)
     in (mk_date year leave_year_start_month 1, mk_date (year + 1) leave_year_start_month 1 - 1))"

end
