(* ===== verification/TenureLaws.thy ===== *)
theory TenureLaws
  imports Tenure
begin

text \<open>
  Laws of the tenure bands: the loops find the least number of months, a band changes on exactly the
  date the screen shows, accrual never runs backwards, and leave years tile the calendar.
\<close>

subsection \<open>Months in order\<close>

lemma month_index_year: "month_index d div 12 = year_of d" and month_index_month: "month_index d mod 12 = month_of d - 1"
proof -
  have "0 \<le> month_of d - 1" "month_of d - 1 < 12" using month_of_bounds[of d] by simp_all
  then show "month_index d div 12 = year_of d" "month_index d mod 12 = month_of d - 1"
    by (simp_all add: month_index_def)
qed

lemma month_index_eq: "month_index a = month_index b \<longleftrightarrow> year_of a = year_of b \<and> month_of a = month_of b"
proof
  assume e: "month_index a = month_index b"
  then have "year_of a = year_of b" using month_index_year[of a] month_index_year[of b] by simp
  with e show "year_of a = year_of b \<and> month_of a = month_of b" by (simp add: month_index_def)
qed (simp add: month_index_def)

lemma month_index_mono: "a \<le> b \<Longrightarrow> month_index a \<le> month_index b"
  using month_index_less[of b a] by linarith

lemma same_month_days: "month_index a = month_index b \<Longrightarrow> a - b = day_of a - day_of b"
  using mk_date_of[of a] mk_date_of[of b] by (simp add: month_index_eq mk_date_def)

lemma first_of_month_le: "1 \<le> m \<Longrightarrow> m \<le> 12 \<Longrightarrow> mk_date y m 1 \<le> d \<longleftrightarrow> 12 * y + (m - 1) \<le> month_index d"
proof -
  assume m: "1 \<le> m" "m \<le> 12"
  have i: "month_index (mk_date y m 1) = 12 * y + (m - 1)"
    using of_first_of_month[OF m, of y] by (simp add: month_index_def)
  show ?thesis
  proof (cases "month_index d" "12 * y + (m - 1)" rule: linorder_cases)
    case equal
    then have "year_of d = y \<and> month_of d = m"
      using i month_index_eq[of d "mk_date y m 1"] of_first_of_month[OF m, of y] by simp
    then show ?thesis using equal month_encloses(1)[of d] by simp
  next
    case less
    then show ?thesis using month_index_less[of d "mk_date y m 1"] i by simp
  next
    case greater
    then show ?thesis using month_index_less[of "mk_date y m 1" d] i by simp
  qed
qed

lemma add_months_0 [simp]: "add_months d 0 = d"
  using same_month_days[of "add_months d 0" d] add_months_ymd[of d 0] day_of_bounds[of d]
  by (simp add: month_index_eq)

subsection \<open>The loops\<close>

lemma climb_months_spec: "n \<le> climb_months start tgt n \<and> tgt \<le> add_months start (climb_months start tgt n)"
proof (induction start tgt n rule: climb_months.induct)
  case (1 start tgt n)
  then show ?case by (subst (1 2) climb_months.simps) auto
qed

lemma descend_months_spec:
  "0 \<le> n \<Longrightarrow> tgt \<le> add_months start n \<Longrightarrow> 0 \<le> descend_months start tgt n
    \<and> tgt \<le> add_months start (descend_months start tgt n)
    \<and> (descend_months start tgt n = 0 \<or> add_months start (descend_months start tgt n - 1) < tgt)"
proof (induction start tgt n rule: descend_months.induct)
  case (1 start tgt n)
  show ?case
  proof (cases "n > 0 \<and> add_months start (n - 1) \<ge> tgt")
    case True
    then have "descend_months start tgt n = descend_months start tgt (n - 1)"
      by (simp only: descend_months.simps[of start tgt n] simp_thms if_True)
    then show ?thesis using 1 True by simp
  next
    case False
    then have "descend_months start tgt n = n" by (simp only: descend_months.simps[of start tgt n] if_False)
    then show ?thesis using 1 False by auto
  qed
qed

lemma months_to_reach_spec:
  "0 \<le> months_to_reach start tgt" "tgt \<le> add_months start (months_to_reach start tgt)"
  "0 \<le> k \<Longrightarrow> k < months_to_reach start tgt \<Longrightarrow> add_months start k < tgt"
proof -
  let ?n = "months_to_reach start tgt"
  define m where "m = max 0 ((year_of tgt - year_of start) * 12 + (month_of tgt - month_of start))"
  have "0 \<le> climb_months start tgt m"
    using climb_months_spec[of m start tgt] unfolding m_def by linarith
  then have d: "0 \<le> ?n \<and> tgt \<le> add_months start ?n \<and> (?n = 0 \<or> add_months start (?n - 1) < tgt)"
    unfolding months_to_reach_def m_def[symmetric]
    using descend_months_spec climb_months_spec by blast
  then show "0 \<le> ?n" "tgt \<le> add_months start ?n" by simp_all
  assume k: "0 \<le> k" "k < ?n"
  then have "add_months start k \<le> add_months start (?n - 1)" by simp
  then show "add_months start k < tgt" using d k by linarith
qed

lemma anniversaries_iff:
  assumes "1 \<le> k"
  shows "k \<le> anniversaries_reached start today \<longleftrightarrow> add_months start k \<le> today"
proof -
  let ?n = "months_to_reach start today"
  note s = months_to_reach_spec[where start = start and tgt = today]
  show ?thesis
  proof (cases "add_months start ?n = today")
    case True
    then have "add_months start k \<le> today \<longleftrightarrow> k \<le> ?n" using add_months_le[of start k ?n] by simp
    then show ?thesis using True by (simp add: anniversaries_reached_def)
  next
    case False
    then have "today < add_months start ?n" using s(2) by linarith
    then have "add_months start k \<le> today \<longleftrightarrow> k < ?n"
      using s(3)[of k] assms add_months_le[of start ?n k] by linarith
    then show ?thesis using False assms by (simp add: anniversaries_reached_def Let_def) linarith
  qed
qed

subsection \<open>Completed months and accrual\<close>

lemma months_completed_alt:
  "start < today \<Longrightarrow> months_completed start today
    = max 0 (month_index today - month_index start - (if day_of today < day_of start then 1 else 0))"
  by (simp add: months_completed_def month_index_def Let_def algebra_simps)

lemma months_completed_mono: "a \<le> b \<Longrightarrow> months_completed start a \<le> months_completed start b"
proof -
  assume ab: "a \<le> b"
  show ?thesis
  proof (cases "start < a")
    case True
    have "month_index a < month_index b \<or> month_index a = month_index b \<and> day_of a \<le> day_of b"
      using month_index_mono[OF ab] same_month_days[of a b] ab by linarith
    then show ?thesis using True ab by (auto simp: months_completed_alt)
  next
    case False
    then have "months_completed start a = 0" by (simp add: months_completed_def)
    then show ?thesis using months_completed_alt[of start b] by (simp add: months_completed_def Let_def)
  qed
qed

lemma months_completed_nonneg: "0 \<le> months_completed start today"
  by (simp add: months_completed_def Let_def)

lemma to_float_small: "\<bar>n\<bar> \<le> 2 ^ 53 \<Longrightarrow> to_float n = of_int n"
  by (simp add: to_float_def)

lemma accrued_units_alt:
  "start \<le> today \<Longrightarrow> accrued_units start today p
    = fl (of_int (min (months_completed start today + 1) 12) * p)"
  using months_completed_nonneg[of start today]
  by (simp add: accrued_units_def fmul_def months_in_year_def to_float_small)

subsection \<open>Leave years\<close>

definition leave_year_of :: "date \<Rightarrow> int" where
  "leave_year_of d = (month_index d - 3) div 12"

lemma leave_year_window_alt:
  "leave_year_window d = (mk_date (leave_year_of d) 4 1, mk_date (leave_year_of d + 1) 4 1 - 1)"
proof -
  have "leave_year_of d = (if month_of d \<ge> 4 then year_of d else year_of d - 1)"
    using month_of_bounds[of d] by (auto simp: leave_year_of_def month_index_def)
  then show ?thesis by (simp add: leave_year_window_def leave_year_start_month_def Let_def)
qed

lemma in_leave_year: "mk_date y 4 1 \<le> d \<and> d \<le> mk_date (y + 1) 4 1 - 1 \<longleftrightarrow> leave_year_of d = y"
  using first_of_month_le[of 4 y d] first_of_month_le[of 4 "y + 1" d] by (auto simp: leave_year_of_def)

lemma april_first_inj: "mk_date y 4 1 = mk_date z 4 1 \<Longrightarrow> y = z"
  proof -
  assume e: "mk_date y 4 1 = mk_date z 4 1"
  have f: "year_of (mk_date x 4 1) = x" for x by (rule of_first_of_month) simp_all
  show ?thesis using arg_cong[OF e, of year_of] unfolding f .
qed

lemma leave_year_length: "mk_date (y + 1) 4 1 - mk_date y 4 1 \<in> {365, 366}"
proof -
  have "days_before_month z 4 = 90 + (if is_leap z then 1 else 0)" for z
    by (simp add: days_before_month_def Let_def)
  then show ?thesis using days_before_year_Suc[of y] by (simp add: mk_date_def days_in_year_def)
qed

lemma window_same_year: "leave_year_window a = leave_year_window b \<longleftrightarrow> leave_year_of a = leave_year_of b"
  using april_first_inj[of "leave_year_of a" "leave_year_of b"] by (auto simp add: leave_year_window_alt)

lemma next_leave_year: "leave_year_of (mk_date (y + 1) 4 1) = y + 1"
  using first_of_month_le[of 4 "y + 1" "mk_date (y + 1) 4 1"] first_of_month_le[of 4 "y + 2" "mk_date (y + 1) 4 1"]
    in_leave_year[of "y + 1" "mk_date (y + 1) 4 1"] leave_year_length[of "y + 1"] by auto

subsection \<open>Properties\<close>

text \<open>C29 The tenure band changes on exactly the dates the screens show: probation ends on
  \<open>probation_end\<close>, and a person is tenured from the twelfth monthly anniversary of the hire date,
  month-end hires included.\<close>

theorem tenure_band_dates:
  assumes "1 \<le> n"
  shows "tenure_of hired today n = (if add_months hired 12 \<le> today then TENURED
    else if probation_end hired n \<le> today then CONFIRMED else PROBATION)"
  using anniversaries_iff[of 12 hired today] anniversaries_iff[OF assms, of hired today]
  by (simp add: tenure_of_def months_in_year_def probation_end_def Let_def)

theorem tenure_band_dates_witness:
  "tenure_of (mk_date 2025 8 31) (mk_date 2026 2 28) 6 = CONFIRMED
    \<and> tenure_of (mk_date 2025 8 31) (mk_date 2026 2 27) 6 = PROBATION"
proof -
  have "probation_end (mk_date 2025 8 31) 6 = mk_date 2026 2 28"
    "mk_date 2026 2 28 < add_months (mk_date 2025 8 31) 12" "mk_date 2026 2 27 < mk_date 2026 2 28" by code_simp+
  then show ?thesis by (simp add: tenure_band_dates)
qed

text \<open>Accrued leave grows with time, starts at one month's worth on the day accrual starts and
  stops at twelve months' worth.\<close>

theorem accrual_bounds:
  assumes "0 \<le> p" "start \<le> a" "a \<le> b"
  shows "accrued_units start a p \<le> accrued_units start b p \<and> accrued_units start start p = fl p
    \<and> fl p \<le> accrued_units start a p \<and> accrued_units start b p \<le> fl (12 * p)"
proof -
  let ?n = "\<lambda>d. min (months_completed start d + 1) 12"
  have n: "1 \<le> ?n a" "?n a \<le> ?n b" "?n b \<le> 12"
    using months_completed_mono[OF assms(3), of start] months_completed_nonneg[of start a] by auto
  have mono: "fl (of_int i * p) \<le> fl (of_int j * p)" if "i \<le> j" for i j
    by (intro fl_mono mult_right_mono) (use that assms(1) in auto)
  have "accrued_units start start p = fl p"
    using accrued_units_alt[of start start p] by (simp add: months_completed_def)
  then show ?thesis using mono[OF n(1)] mono[OF n(2)] mono[OF n(3)] assms
    by (simp add: accrued_units_alt)
qed

theorem accrual_bounds_witness: "accrued_units (mk_date 2026 4 1) (mk_date 2026 8 1) 1 \<le> fl 12"
  using accrual_bounds[of 1 "mk_date 2026 4 1" "mk_date 2026 8 1" "mk_date 2026 8 1"] by (simp add: mk_date_def days_before_month_def)

text \<open>Leave years tile the calendar: the window of a day contains it, is a year long, is the
  window of each of its days and of no other, and the next one starts on the day after it ends.\<close>

theorem leave_years_tile:
  "let (a, b) = leave_year_window today
   in a \<le> today \<and> today \<le> b \<and> b - a + 1 \<in> {365, 366}
      \<and> (\<forall>d. (a \<le> d \<and> d \<le> b) = (leave_year_window d = (a, b)))
      \<and> fst (leave_year_window (b + 1)) = b + 1"
proof -
  let ?y = "leave_year_of today"
  have w: "leave_year_window today = (mk_date ?y 4 1, mk_date (?y + 1) 4 1 - 1)" by (rule leave_year_window_alt)
  have "fst (leave_year_window (mk_date (?y + 1) 4 1)) = mk_date (?y + 1) 4 1"
    by (simp add: leave_year_window_alt next_leave_year)
  then show ?thesis
    using in_leave_year[of ?y today] in_leave_year[of ?y] leave_year_length[of ?y] window_same_year[of _ today]
    by (simp add: w)
qed

end
