(* ===== verification/Leave.thy ===== *)
theory Leave
  imports PayrollOps TenureLaws
begin

text \<open>
  Leave requests: the data (\<open>app/models/leave*.py\<close>), the pure rules (\<open>app/services/leave_rules.py\<close>),
  the repositories and the balance engine of \<open>app/services/leave_service.py\<close>. A leave's bounds are
  instants; their UTC days count. Rows of the decimal columns are rationals.
\<close>

subsection \<open>Data\<close>

datatype leave_type = PLANNED | ANNUAL | SICK | BEREAVEMENT | BIRTHDAY | MATERNITY | PATERNITY | MARRIAGE
  | UNPAID | HALF_DAY

fun leave_value :: "leave_type \<Rightarrow> string" where
  "leave_value PLANNED = ''planned''"
| "leave_value ANNUAL = ''annual''"
| "leave_value SICK = ''sick''"
| "leave_value BEREAVEMENT = ''bereavement''"
| "leave_value BIRTHDAY = ''birthday''"
| "leave_value MATERNITY = ''maternity''"
| "leave_value PATERNITY = ''paternity''"
| "leave_value MARRIAGE = ''marriage''"
| "leave_value UNPAID = ''unpaid''"
| "leave_value HALF_DAY = ''half_day''"

datatype half_day_period = FIRST_HALF | SECOND_HALF

fun half_value :: "half_day_period \<Rightarrow> string" where
  "half_value FIRST_HALF = ''first_half''"
| "half_value SECOND_HALF = ''second_half''"

datatype leave_status = DRAFT | SUBMITTED | APPROVED | REJECTED | CANCELLED | WITHDRAWN

fun leave_status_value :: "leave_status \<Rightarrow> string" where
  "leave_status_value DRAFT = ''draft''"
| "leave_status_value SUBMITTED = ''submitted''"
| "leave_status_value APPROVED = ''approved''"
| "leave_status_value REJECTED = ''rejected''"
| "leave_status_value CANCELLED = ''cancelled''"
| "leave_status_value WITHDRAWN = ''withdrawn''"

datatype withdrawal_status = W_NONE | W_REQUESTED | W_APPROVED | W_REJECTED

fun withdrawal_value :: "withdrawal_status \<Rightarrow> string" where
  "withdrawal_value W_NONE = ''none''"
| "withdrawal_value W_REQUESTED = ''requested''"
| "withdrawal_value W_APPROVED = ''approved''"
| "withdrawal_value W_REJECTED = ''rejected''"

record leave =
  leave_id :: uuid
  leave_employee :: uuid
  leave_kind :: leave_type
  half_period :: "half_day_period option"
  leave_start :: datetime
  leave_end :: datetime
  leave_reason :: "string option"
  leave_state :: leave_status
  reviewer_id :: "uuid option"
  decided_at :: "datetime option"
  decision_note :: "string option"
  withdrawal_status :: withdrawal_status
  withdrawal_reason :: "string option"
  withdrawal_requested_at :: "datetime option"
  withdrawal_reviewer_id :: "uuid option"
  withdrawal_decided_at :: "datetime option"
  withdrawal_decision_note :: "string option"

record leave_comment =
  lcm_id :: uuid
  lcm_leave :: uuid
  lcm_author :: uuid
  lcm_body :: string

record leave_policy =
  annual_planned_days :: int
  annual_sick_days :: int
  annual_days :: int
  bereavement_days :: int
  birthday_days :: int
  maternity_days :: int
  paternity_days :: int
  marriage_days :: int
  policy_probation_months :: int
  planned_min_notice_days :: int
  max_backdate_days :: int

definition default_leave_policy :: leave_policy where
  "default_leave_policy = \<lparr>annual_planned_days = 8, annual_sick_days = 6, annual_days = 6,
     bereavement_days = 3, birthday_days = 1, maternity_days = 90, paternity_days = 7, marriage_days = 5,
     policy_probation_months = 6, planned_min_notice_days = 2, max_backdate_days = 0\<rparr>"

text \<open>Per-employee overrides and the days taken before records began, by leave type.\<close>

record leave_allocation =
  al_employee :: uuid
  al_days :: "leave_type \<Rightarrow> int option"
  al_used_before :: "leave_type \<Rightarrow> rat option"
  al_used_before_year_start :: "date option"

record tier_quota =
  tq_tier :: tenure_status
  tq_type :: leave_type
  tq_annual_days :: "int option"
  tq_monthly_accrual :: "rat option"

record leave_db = payroll_db +
  leaves :: "leave list"
  leave_comments :: "leave_comment list"
  leave_policy_row :: "leave_policy option"
  allocations :: "leave_allocation list"
  tier_quotas :: "tier_quota list"
  holiday_dates :: "date list"
  work_week :: int

record leave_create =
  lc_type :: leave_type
  lc_start :: datetime
  lc_end :: datetime
  lc_half :: "half_day_period option"
  lc_reason :: "string option"

text \<open>The request validator: \<open>LeaveCreate._check_range\<close>.\<close>

definition leave_create_ok :: "leave_create \<Rightarrow> bool" where
  "leave_create_ok p \<longleftrightarrow> lc_start p \<le> lc_end p \<and>
     (if lc_type p = HALF_DAY then lc_half p \<noteq> None \<and> utc_day (lc_start p) = utc_day (lc_end p)
      else lc_half p = None)"

subsection \<open>Pure rules\<close>

definition may_decide :: "current_user \<Rightarrow> leave \<Rightarrow> uuid option \<Rightarrow> bool" where
  "may_decide c l m = (if cu_id c = leave_employee l then False
     else if cu_role c = HR then True else m \<noteq> None \<and> m = Some (cu_id c))"

definition can_decide_now :: "current_user \<Rightarrow> leave \<Rightarrow> uuid option \<Rightarrow> bool" where
  "can_decide_now c l m \<longleftrightarrow> leave_state l = SUBMITTED \<and> may_decide c l m"

definition may_cancel_approved :: "current_user \<Rightarrow> leave \<Rightarrow> uuid option \<Rightarrow> bool" where
  "may_cancel_approved c l m = (if leave_state l \<noteq> APPROVED then False
     else if cu_id c = leave_employee l then False
     else if cu_role c = HR then True else m \<noteq> None \<and> m = Some (cu_id c))"

definition may_request_withdrawal :: "current_user \<Rightarrow> leave \<Rightarrow> bool" where
  "may_request_withdrawal c l = (if leave_state l \<noteq> APPROVED then False
     else if cu_id c \<noteq> leave_employee l then False
     else withdrawal_status l \<in> {W_NONE, W_REJECTED})"

definition may_decide_withdrawal :: "current_user \<Rightarrow> leave \<Rightarrow> uuid option \<Rightarrow> bool" where
  "may_decide_withdrawal c l m = (if withdrawal_status l \<noteq> W_REQUESTED then False else may_decide c l m)"

definition weight_of :: "leave_type \<Rightarrow> pyfloat" where
  "weight_of t = (if t = HALF_DAY then 1 / 2 else 1)"

definition days_in_window ::
  "leave_type \<Rightarrow> datetime \<times> datetime \<Rightarrow> date \<times> date \<Rightarrow> date list \<Rightarrow> int \<Rightarrow> pyfloat" where
  "days_in_window t bounds window holidays wpw =
    (let start = max (fst window) (utc_day (fst bounds)); stop = min (snd window) (utc_day (snd bounds))
     in fmul (to_float (working_days_between start stop holidays wpw)) (weight_of t))"

definition clashes :: "leave \<Rightarrow> leave_type \<Rightarrow> half_day_period option \<Rightarrow> bool" where
  "clashes existing t half =
    (if leave_kind existing = HALF_DAY \<and> t = HALF_DAY \<and> half_period existing \<noteq> None \<and> half \<noteq> None
     then half_period existing = half else True)"

subsection \<open>Repository\<close>

definition find_leave :: "uuid \<Rightarrow> 'a leave_db_scheme \<Rightarrow> leave option" where
  "find_leave i s = row_get leave_id i (leaves s)"

definition put_leave :: "leave \<Rightarrow> 'a leave_db_scheme \<Rightarrow> 'a leave_db_scheme" where
  "put_leave l s = s\<lparr>leaves := row_put leave_id l (leaves s)\<rparr>"

definition requester_manager_id :: "leave \<Rightarrow> 'a leave_db_scheme \<Rightarrow> uuid option" where
  "requester_manager_id l s = (case find_employee (leave_employee l) s of Some e \<Rightarrow> manager_id e | None \<Rightarrow> None)"

definition leave_scope :: "current_user \<Rightarrow> leave \<Rightarrow> 'a leave_db_scheme \<Rightarrow> bool" where
  "leave_scope c l s =
    (if cu_role c = HR then True
     else let reviewed_by_me = (reviewer_id l = Some (cu_id c))
       in if cu_role c = SENIOR_MANAGER
          then (case find_employee (leave_employee l) s of None \<Rightarrow> False | Some e \<Rightarrow> same_department (cu_id c) e s)
               \<or> reviewed_by_me
          else if cu_role c = VIEWER then leave_employee l = cu_id c \<or> reviewed_by_me
          else leave_employee l = cu_id c \<or> requester_manager_id l s = Some (cu_id c) \<or> reviewed_by_me)"

definition find_leave_in_scope :: "current_user \<Rightarrow> uuid \<Rightarrow> 'a leave_db_scheme \<Rightarrow> leave option" where
  "find_leave_in_scope c i s = (case find_leave i s of None \<Rightarrow> None | Some l \<Rightarrow> if leave_scope c l s then Some l else None)"

definition create_leave :: "leave_create \<Rightarrow> uuid \<Rightarrow> uuid option \<Rightarrow> 'a leave_db_scheme \<Rightarrow> leave \<times> 'a leave_db_scheme" where
  "create_leave p i reviewer s =
    (let l = \<lparr>leave_id = next_id s, leave_employee = i, leave_kind = lc_type p, half_period = lc_half p,
        leave_start = lc_start p, leave_end = lc_end p, leave_reason = lc_reason p, leave_state = SUBMITTED,
        reviewer_id = reviewer, decided_at = None, decision_note = None, withdrawal_status = W_NONE,
        withdrawal_reason = None, withdrawal_requested_at = None, withdrawal_reviewer_id = None,
        withdrawal_decided_at = None, withdrawal_decision_note = None\<rparr>
     in (l, s\<lparr>leaves := row_add l (leaves s), next_id := next_id s + 1\<rparr>))"

text \<open>\<open>SELECT DISTINCT period_month ... IN months\<close>, sorted.\<close>

definition released_payroll_months :: "string list \<Rightarrow> 'a leave_db_scheme \<Rightarrow> string list" where
  "released_payroll_months months s = sort (remdups (filter (\<lambda>m. m \<in> set months) (map ps_period (payslips s))))"

text \<open>Newest first, with the number of comments; the page and the count of all.\<close>

definition list_leaves ::
  "current_user \<Rightarrow> nat \<Rightarrow> nat \<Rightarrow> leave_status option \<Rightarrow> 'a leave_db_scheme \<Rightarrow> (leave \<times> nat) list \<times> nat" where
  "list_leaves c off page st s =
    (let hits = filter (\<lambda>l. leave_scope c l s \<and> (case st of None \<Rightarrow> True | Some x \<Rightarrow> leave_state l = x)) (leaves s)
     in (map (\<lambda>l. (l, length (filter (\<lambda>x. lcm_leave x = leave_id l) (leave_comments s))))
           (take page (drop off (sort_key (\<lambda>l. - leave_start l) hits))), length hits))"

definition approved_paid_in_range ::
  "uuid \<Rightarrow> datetime \<Rightarrow> datetime \<Rightarrow> 'a leave_db_scheme \<Rightarrow> leave list" where
  "approved_paid_in_range i start stop s = filter (\<lambda>l. leave_employee l = i \<and> leave_state l = APPROVED
     \<and> leave_kind l \<noteq> UNPAID \<and> leave_start l < stop \<and> leave_end l \<ge> start) (leaves s)"

definition for_employee_in_window ::
  "uuid \<Rightarrow> datetime \<Rightarrow> datetime \<Rightarrow> leave_status \<Rightarrow> 'a leave_db_scheme \<Rightarrow> leave list" where
  "for_employee_in_window i start stop st s = filter (\<lambda>l. leave_employee l = i \<and> leave_state l = st
     \<and> leave_start l < stop \<and> leave_end l \<ge> start) (leaves s)"

definition overlapping ::
  "uuid \<Rightarrow> datetime \<Rightarrow> datetime \<Rightarrow> leave_status list \<Rightarrow> uuid option \<Rightarrow> 'a leave_db_scheme \<Rightarrow> leave list" where
  "overlapping i start stop statuses exclude s = filter (\<lambda>l. leave_employee l = i \<and> leave_state l \<in> set statuses
     \<and> leave_start l \<le> stop \<and> leave_end l \<ge> start \<and> exclude \<noteq> Some (leave_id l)) (leaves s)"

definition count_on_leave :: "uuid list \<Rightarrow> datetime \<Rightarrow> datetime \<Rightarrow> 'a leave_db_scheme \<Rightarrow> nat" where
  "count_on_leave ids start stop s = length (remdups (map leave_employee (filter (\<lambda>l. leave_employee l \<in> set ids
     \<and> leave_state l = APPROVED \<and> leave_start l < stop \<and> leave_end l \<ge> start) (leaves s))))"

definition holidays_in :: "date \<Rightarrow> date \<Rightarrow> 'a leave_db_scheme \<Rightarrow> date list" where
  "holidays_in a b s = filter (\<lambda>d. a \<le> d \<and> d \<le> b) (holiday_dates s)"

text \<open>\<open>get_or_create\<close> and \<open>seed_defaults\<close>: the rows read are the stored ones or the defaults.\<close>

definition get_leave_policy :: "'a leave_db_scheme \<Rightarrow> leave_policy" where
  "get_leave_policy s = (case leave_policy_row s of Some p \<Rightarrow> p | None \<Rightarrow> default_leave_policy)"

definition tier_seed :: "tier_quota list" where
  "tier_seed = map (\<lambda>(tier, t, annual, accrual). \<lparr>tq_tier = tier, tq_type = t, tq_annual_days = annual, tq_monthly_accrual = accrual\<rparr>)
    [(PROBATION, SICK, Some 4, None), (PROBATION, BIRTHDAY, Some 0, None), (PROBATION, PLANNED, Some 0, None),
     (PROBATION, ANNUAL, Some 0, None), (PROBATION, MARRIAGE, Some 0, None), (PROBATION, PATERNITY, Some 0, None),
     (PROBATION, MATERNITY, Some 0, None),
     (CONFIRMED, SICK, Some 4, None), (CONFIRMED, BIRTHDAY, Some 1, None), (CONFIRMED, PLANNED, None, Some 1),
     (CONFIRMED, ANNUAL, Some 0, None)]"

definition seed_tiers :: "tier_quota list \<Rightarrow> tier_quota list" where
  "seed_tiers rws = rws @ filter (\<lambda>q. (tq_tier q, tq_type q) \<notin> (\<lambda>r. (tq_tier r, tq_type r)) ` set rws) tier_seed"

definition allocation_of :: "uuid \<Rightarrow> 'a leave_db_scheme \<Rightarrow> leave_allocation option" where
  "allocation_of i s = row_get al_employee i (allocations s)"

subsection \<open>The balance\<close>

text \<open>\<open>_TRACKED_LEAVE\<close>: the paid types with a quota, the policy field they read and the types whose days
  they count.\<close>

definition tracked_leave :: "(leave_type \<times> (leave_policy \<Rightarrow> int) \<times> leave_type list) list" where
  "tracked_leave = [(PLANNED, annual_planned_days, [PLANNED, HALF_DAY]), (ANNUAL, annual_days, [ANNUAL]),
     (SICK, annual_sick_days, [SICK]), (BEREAVEMENT, bereavement_days, [BEREAVEMENT]),
     (BIRTHDAY, birthday_days, [BIRTHDAY]), (MATERNITY, maternity_days, [MATERNITY]),
     (PATERNITY, paternity_days, [PATERNITY]), (MARRIAGE, marriage_days, [MARRIAGE])]"

definition quota_bucket :: "leave_type \<Rightarrow> leave_type option" where
  "quota_bucket t = map_option fst (List.find (\<lambda>(_, _, members). t \<in> set members) tracked_leave)"

record leave_balance =
  b_type :: leave_type
  allocated :: pyfloat
  used :: pyfloat
  used_before :: pyfloat
  pending :: pyfloat
  remaining :: pyfloat
  eligible :: bool
  ineligible_reason :: "string option"

record balance_read =
  leave_year_start :: date
  leave_year_end :: date
  balances :: "leave_balance list"
  br_tenure :: tenure_status
  probation_end_date :: date
  accruing_types :: "leave_type list"

text \<open>What the closures of \<open>_compute_balance\<close> read.\<close>

record balance_context =
  bc_window :: "date \<times> date"
  bc_as_of :: date
  bc_policy :: leave_policy
  bc_allocation :: "leave_allocation option"
  bc_tier :: tenure_status
  bc_tier_row :: "leave_type \<Rightarrow> tier_quota option"
  bc_confirmed_on :: date
  bc_accrual_start :: date
  bc_holidays :: "date list"
  bc_week :: int

definition balance_context_of :: "env \<Rightarrow> employee \<Rightarrow> date option \<Rightarrow> 'a leave_db_scheme \<Rightarrow> balance_context" where
  "balance_context_of E e on s =
    (let today = local_day E (now s);
         window = leave_year_window (case on of Some d \<Rightarrow> d | None \<Rightarrow> today);
         as_of = min (max today (fst window)) (snd window);
         policy = get_leave_policy s;
         n = (case probation_months e of Some k \<Rightarrow> if k = 0 then policy_probation_months policy else k
              | None \<Rightarrow> policy_probation_months policy);
         anchor = (case hire_date e of Some d \<Rightarrow> d | None \<Rightarrow> utc_day (emp_created_at e));
         confirmed_on = probation_end anchor n;
         tier = (case hire_date e of Some d \<Rightarrow> tenure_of d as_of n | None \<Rightarrow> TENURED)
     in \<lparr>bc_window = window, bc_as_of = as_of, bc_policy = policy,
         bc_allocation = allocation_of (emp_id e) s, bc_tier = tier,
         bc_tier_row = (\<lambda>t. List.find (\<lambda>q. tq_type q = t)
            (rev (filter (\<lambda>q. tq_tier q = tier) (seed_tiers (tier_quotas s))))),
         bc_confirmed_on = confirmed_on, bc_accrual_start = max (fst window) confirmed_on,
         bc_holidays = holidays_in (fst window) (snd window) s, bc_week = work_week s\<rparr>)"

definition override_of :: "balance_context \<Rightarrow> leave_type \<Rightarrow> int option" where
  "override_of b t = Option.bind (bc_allocation b) (\<lambda>a. al_days a t)"

text \<open>\<open>quota\<close>: the override, else the band's accrual under its ceiling or its flat figure, else the
  policy. \<open>accrues\<close> says whether the accrual branch was taken.\<close>

definition quota :: "balance_context \<Rightarrow> leave_type \<Rightarrow> (leave_policy \<Rightarrow> int) \<Rightarrow> pyfloat" where
  "quota b t attr = (case override_of b t of Some d \<Rightarrow> to_float d
     | None \<Rightarrow> (case bc_tier_row b t of None \<Rightarrow> to_float (attr (bc_policy b))
        | Some q \<Rightarrow> (case tq_monthly_accrual q of
            Some m \<Rightarrow> min (accrued_units (bc_accrual_start b) (bc_as_of b) (fl m))
              (case tq_annual_days q of Some d \<Rightarrow> to_float d | None \<Rightarrow> to_float (attr (bc_policy b)))
          | None \<Rightarrow> (case tq_annual_days q of Some d \<Rightarrow> to_float d | None \<Rightarrow> to_float (attr (bc_policy b))))))"

definition accrues :: "balance_context \<Rightarrow> leave_type \<Rightarrow> bool" where
  "accrues b t \<longleftrightarrow> override_of b t = None \<and>
     (case bc_tier_row b t of None \<Rightarrow> False | Some q \<Rightarrow> tq_monthly_accrual q \<noteq> None)"

definition taken_before :: "balance_context \<Rightarrow> leave_type \<Rightarrow> pyfloat" where
  "taken_before b t = (case bc_allocation b of None \<Rightarrow> 0
     | Some a \<Rightarrow> if al_used_before_year_start a = Some (fst (bc_window b))
         then (case al_used_before a t of Some v \<Rightarrow> fl v | None \<Rightarrow> 0) else 0)"

text \<open>\<open>bucket\<close>: the working days of the rows inside the leave year.\<close>

definition bucket_days :: "balance_context \<Rightarrow> leave list \<Rightarrow> leave_type list \<Rightarrow> pyfloat" where
  "bucket_days b rws types = foldl (\<lambda>tot l. if leave_kind l \<notin> set types then tot
     else fadd tot (days_in_window (leave_kind l) (leave_start l, leave_end l) (bc_window b) (bc_holidays b) (bc_week b)))
     0 rws"

definition not_yet :: "balance_context \<Rightarrow> leave_type \<Rightarrow> bool" where
  "not_yet b t \<longleftrightarrow> override_of b t = None \<and> (case bc_tier_row b t of None \<Rightarrow> False
     | Some q \<Rightarrow> tq_monthly_accrual q = None \<and> tq_annual_days q = Some 0)"

definition ineligible_text :: "tenure_status \<Rightarrow> date \<Rightarrow> string" where
  "ineligible_text tier confirmed_on = (case tier of
     PROBATION \<Rightarrow> ''Available once you complete probation on '' @ fmt_d_b_Y confirmed_on
   | CONFIRMED \<Rightarrow> ''Available after one year of service''
   | TENURED \<Rightarrow> ''Not available on your current plan'')"

definition balance_row ::
  "balance_context \<Rightarrow> leave list \<Rightarrow> leave list \<Rightarrow> leave_type \<times> (leave_policy \<Rightarrow> int) \<times> leave_type list \<Rightarrow> leave_balance" where
  "balance_row b approved pend = (\<lambda>(t, attr, members).
     let a = quota b t attr; before = taken_before b t;
         u = fadd (bucket_days b approved members) before; p = bucket_days b pend members
     in \<lparr>b_type = t, allocated = a, used = u, used_before = before, pending = p,
         remaining = fsub (fsub a u) p, eligible = \<not> not_yet b t,
         ineligible_reason = (if not_yet b t then Some (ineligible_text (bc_tier b) (bc_confirmed_on b)) else None)\<rparr>)"

definition compute_balance :: "env \<Rightarrow> employee \<Rightarrow> date option \<Rightarrow> 'a leave_db_scheme \<Rightarrow> balance_read" where
  "compute_balance E e on s =
    (let b = balance_context_of E e on s;
         start_dt = utc_midnight (fst (bc_window b)); end_dt = utc_midnight (snd (bc_window b)) + day_us;
         approved = for_employee_in_window (emp_id e) start_dt end_dt APPROVED s;
         pend = for_employee_in_window (emp_id e) start_dt end_dt SUBMITTED s;
         uu = bucket_days b approved [UNPAID]; up = bucket_days b pend [UNPAID]
     in \<lparr>leave_year_start = fst (bc_window b), leave_year_end = snd (bc_window b),
         balances = map (balance_row b approved pend) tracked_leave @
           [\<lparr>b_type = UNPAID, allocated = 0, used = uu, used_before = 0, pending = up,
              remaining = fsub (- uu) up, eligible = True, ineligible_reason = None\<rparr>],
         br_tenure = bc_tier b, probation_end_date = bc_confirmed_on b,
         accruing_types = filter (accrues b) (map fst tracked_leave)\<rparr>)"

text \<open>\<open>_leave_year_windows\<close>, \<open>_leave_year_label\<close> and \<open>_months_between\<close>. The month of a date is at most
  12, so testing \<open>\<ge> 12\<close> is the code's \<open>== 12\<close> and makes the loop total.\<close>

function leave_year_windows :: "date \<Rightarrow> date \<Rightarrow> (date \<times> date) list" where
  "leave_year_windows day last_day = (if day \<le> last_day
     then leave_year_window day # leave_year_windows (snd (leave_year_window day) + 1) last_day else [])"
  by pat_completeness auto
termination
proof (relation "measure (\<lambda>(day, last_day). nat (last_day + 1 - day))")
  fix day last_day :: date
  assume "day \<le> last_day"
  then show "((snd (leave_year_window day) + 1, last_day), day, last_day) \<in> measure (\<lambda>(day, last_day). nat (last_day + 1 - day))"
    using in_leave_year[of "leave_year_of day" day] by (simp add: leave_year_window_alt)
qed simp

declare leave_year_windows.simps [simp del]

definition leave_year_label :: "date \<times> date \<Rightarrow> string" where
  "leave_year_label w = int_str (year_of (fst w)) @ ''-'' @ pad2 (year_of (snd w) mod 100)"

function months_from :: "int \<Rightarrow> int \<Rightarrow> date \<Rightarrow> string list" where
  "months_from year month last_day =
    (if year < year_of last_day \<or> year = year_of last_day \<and> month \<le> month_of last_day
     then period_str year month # (if month \<ge> 12 then months_from (year + 1) 1 last_day
                                   else months_from year (month + 1) last_day)
     else [])"
  by pat_completeness auto
termination
proof (relation "measures [\<lambda>(y, m, d). nat (year_of d + 1 - y), \<lambda>(y, m, d). if m \<le> 12 then nat (12 - m) else 0]")
qed (auto intro!: measures_lesseq measures_less)

declare months_from.simps [simp del]

definition months_between :: "date \<Rightarrow> date \<Rightarrow> string list" where
  "months_between first_day last_day = months_from (year_of first_day) (month_of first_day) last_day"

subsection \<open>Texts\<close>

text \<open>\<open>str.title\<close> on ASCII: a letter after a letter is lowered, any other one is raised.\<close>

definition to_upper :: "char \<Rightarrow> char" where
  "to_upper c = (let n = (of_char c :: nat) in if 97 \<le> n \<and> n \<le> 122 then char_of (n - 32) else c)"

definition is_alpha :: "char \<Rightarrow> bool" where
  "is_alpha c \<longleftrightarrow> (let n = (of_char (to_lower c) :: nat) in 97 \<le> n \<and> n \<le> 122)"

fun title_from :: "bool \<Rightarrow> string \<Rightarrow> string" where
  "title_from after_letter [] = []"
| "title_from after_letter (c # cs) =
     (if after_letter then to_lower c else to_upper c) # title_from (is_alpha c) cs"

definition title_words :: "string \<Rightarrow> string" where
  "title_words s = title_from False (map (\<lambda>c. if c = CHR ''_'' then CHR '' '' else c) s)"

definition leave_type_label :: "leave_type \<Rightarrow> half_day_period option \<Rightarrow> string" where
  "leave_type_label t half =
    (let label = (if t = BEREAVEMENT then ''Parent Bereavement'' else title_words (leave_value t))
     in case half of Some h \<Rightarrow> if t = HALF_DAY then label @ '' ('' @ title_words (half_value h) @ '')'' else label
        | None \<Rightarrow> label)"

definition date_range :: "leave \<Rightarrow> string" where
  "date_range l = fmt_d_b (utc_day (leave_start l)) @ '' - '' @ fmt_d_b (utc_day (leave_end l))"

definition leave_line :: "leave \<Rightarrow> string" where
  "leave_line l = leave_type_label (leave_kind l) (half_period l) @ middot @ date_range l"

text \<open>\<open>f"{x:g}"\<close> of a float that is not negative: six significant digits, trailing zeros dropped.\<close>

definition dec_exp :: "rat \<Rightarrow> int" where
  "dec_exp x = (if 1 \<le> x then int (length (nat_str (nat \<lfloor>x\<rfloor>))) - 1
     else - int (length (nat_str (nat (\<lceil>1 / x\<rceil> - 1)))))"

definition ten_pow :: "int \<Rightarrow> rat" where
  "ten_pow e = (if 0 \<le> e then 10 ^ nat e else 1 / 10 ^ nat (- e))"

definition drop_zeros :: "string \<Rightarrow> string" where
  "drop_zeros s = rev (dropWhile (\<lambda>c. c = CHR ''0'') (rev s))"

definition with_point :: "string \<Rightarrow> string \<Rightarrow> string" where
  "with_point a b = (if b = '''' then a else a @ ''.'' @ b)"

definition fmt_g :: "pyfloat \<Rightarrow> string" where
  "fmt_g x = (if x = 0 then ''0'' else
     let e0 = dec_exp x; n0 = nat (rhe (x * ten_pow (5 - e0)));
         e = (if n0 = 1000000 then e0 + 1 else e0);
         digits = nat_str (if n0 = 1000000 then 100000 else n0)
     in if e < -4 \<or> 6 \<le> e
        then with_point [hd digits] (drop_zeros (tl digits)) @ ''e'' @ (if e < 0 then ''-'' else ''+'') @ pad2 \<bar>e\<bar>
        else if 0 \<le> e then with_point (take (nat e + 1) digits) (drop_zeros (drop (nat e + 1) digits))
        else ''0.'' @ replicate (nat (- e) - 1) (CHR ''0'') @ drop_zeros digits)"

text \<open>\<open>text.strip(" \<cdot>")\<close> where the second character is the middle dot.\<close>

fun strip_dots_left :: "string \<Rightarrow> string" where
  "strip_dots_left (a # b # cs) = (if a = CHR '' '' then strip_dots_left (b # cs)
     else if a = CHR 0xC2 \<and> b = CHR 0xB7 then strip_dots_left cs else a # b # cs)"
| "strip_dots_left [a] = (if a = CHR '' '' then [] else [a])"
| "strip_dots_left [] = []"

fun strip_dots_rev :: "string \<Rightarrow> string" where
  "strip_dots_rev (a # b # cs) = (if a = CHR '' '' then strip_dots_rev (b # cs)
     else if a = CHR 0xB7 \<and> b = CHR 0xC2 then strip_dots_rev cs else a # b # cs)"
| "strip_dots_rev [a] = (if a = CHR '' '' then [] else [a])"
| "strip_dots_rev [] = []"

definition strip_dots :: "string \<Rightarrow> string" where
  "strip_dots s = rev (strip_dots_rev (rev (strip_dots_left s)))"

end
