(* ===== verification/LeaveOps.thy ===== *)
theory LeaveOps
  imports Leave
begin

text \<open>
  The operations of \<open>app/services/leave_service.py\<close>: the rules that applying and approving enforce,
  applying, deciding, withdrawing, cancelling, the withdrawal cycle of an approved leave, the
  permission flags, balances and comments. Row locks make each operation one step.
\<close>

subsection \<open>Rules\<close>

text \<open>\<open>_Request\<close>: what the rules look at.\<close>

record leave_request =
  rq_type :: leave_type
  rq_start :: datetime
  rq_end :: datetime
  rq_half :: "half_day_period option"

definition from_create :: "leave_create \<Rightarrow> leave_request" where
  "from_create p = \<lparr>rq_type = lc_type p, rq_start = lc_start p, rq_end = lc_end p, rq_half = lc_half p\<rparr>"

definition from_leave :: "leave \<Rightarrow> leave_request" where
  "from_leave l = \<lparr>rq_type = leave_kind l, rq_start = leave_start l, rq_end = leave_end l, rq_half = half_period l\<rparr>"

definition plural_days :: "bool \<Rightarrow> string" where
  "plural_days one = (if one then '''' else ''s'')"

definition apostrophe :: string where
  "apostrophe = [CHR 0x27]"

definition enforce_not_past :: "env \<Rightarrow> leave_create \<Rightarrow> 'a leave_db_scheme \<Rightarrow> unit res" where
  "enforce_not_past E p s =
    (let backdate = max_backdate_days (get_leave_policy s);
         earliest = local_day E (now s) - max 0 backdate
     in if utc_day (lc_start p) < earliest
        then if backdate \<le> 0
             then Inl (ValidationError (''You can'' @ apostrophe @ ''t apply for leave for a past date.''))
             else Inl (ValidationError (''Leave can be backdated at most '' @ int_str backdate @ '' day''
                    @ plural_days (backdate = 1) @ ''.''))
        else Inr ())"

definition notice_types :: "leave_type list" where
  "notice_types = [PLANNED, ANNUAL]"

definition enforce_min_notice :: "env \<Rightarrow> leave_create \<Rightarrow> 'a leave_db_scheme \<Rightarrow> unit res" where
  "enforce_min_notice E p s =
    (let required = planned_min_notice_days (get_leave_policy s);
         days_ahead = utc_day (lc_start p) - local_day E (now s)
     in if lc_type p \<notin> set notice_types then Inr ()
        else if required \<le> 0 then Inr ()
        else if days_ahead < 0 then Inr ()
        else if days_ahead < required
        then Inl (ValidationError (''This leave must be applied at least '' @ int_str required @ '' day''
               @ plural_days (required = 1) @ '' in advance. Use sick leave if you need time off sooner.''))
        else Inr ())"

definition enforce_eligibility :: "employee \<Rightarrow> leave_type \<Rightarrow> datetime \<Rightarrow> unit res" where
  "enforce_eligibility e t start =
    (if t \<notin> {MATERNITY, PATERNITY, BIRTHDAY} then Inr ()
     else if t = MATERNITY \<and> gender e \<noteq> Some FEMALE
     then Inl (ValidationError ''Maternity leave is available to female employees.'')
     else if t = PATERNITY \<and> gender e \<noteq> Some MALE
     then Inl (ValidationError ''Paternity leave is available to male employees.'')
     else if t = BIRTHDAY
     then (case date_of_birth e of
         None \<Rightarrow> Inl (ValidationError ''Add your date of birth to your profile to take birthday leave.'')
       | Some d \<Rightarrow> if month_of (utc_day start) \<noteq> month_of d
           then Inl (ValidationError ''Birthday leave must fall in your birth month.'') else Inr ())
     else Inr ())"

definition probation_half_days_per_month :: nat where
  "probation_half_days_per_month = 2"

definition rule_statuses :: "bool \<Rightarrow> leave_status list" where
  "rule_statuses at_approval = (if at_approval then [APPROVED] else [SUBMITTED, APPROVED])"

definition enforce_probation_half_day_cap ::
  "employee \<Rightarrow> leave_request \<Rightarrow> bool \<Rightarrow> 'a leave_db_scheme \<Rightarrow> unit res" where
  "enforce_probation_half_day_cap e r at_approval s =
    (if rq_type r \<noteq> HALF_DAY then Inr ()
     else
       let day = utc_day (rq_start r);
           month_start = mk_date (year_of day) (month_of day) 1;
           d32 = month_start + 32;
           next_month = mk_date (year_of d32) (month_of d32) 1;
           booked = overlapping (emp_id e) (utc_midnight month_start) (utc_midnight next_month - 1)
             (rule_statuses at_approval) None s;
           taken = length (filter (\<lambda>l. leave_kind l = HALF_DAY) booked)
       in if taken < probation_half_days_per_month then Inr ()
          else if at_approval
          then Inl (ValidationError (full_name e @ '' is on probation and already has '' @ nat_str taken
                 @ '' approved half days in '' @ fmt_B_Y day @ ''; the limit is ''
                 @ nat_str probation_half_days_per_month
                 @ '' a month. Ask them to apply for unpaid leave instead.''))
          else Inl (ValidationError (''During probation you can take up to '' @ nat_str probation_half_days_per_month
                 @ '' half days a month; '' @ fmt_B_Y day @ '' already has '' @ nat_str taken
                 @ ''. Apply for unpaid leave instead.'')))"

definition enforce_year_balance ::
  "env \<Rightarrow> employee \<Rightarrow> leave_request \<Rightarrow> leave_type \<Rightarrow> bool \<Rightarrow> date \<times> date \<Rightarrow> bool \<Rightarrow> 'a leave_db_scheme \<Rightarrow> unit res" where
  "enforce_year_balance E e r bucket at_approval window label_year s =
    (case List.find (\<lambda>b. b_type b = bucket) (balances (compute_balance E e (Some (fst window)) s)) of
       None \<Rightarrow> Inr ()
     | Some row \<Rightarrow>
        let label = leave_type_label bucket None;
            year = (if label_year then '' for the '' @ leave_year_label window @ '' leave year'' else '''')
        in if \<not> eligible row
           then if rq_type r \<noteq> bucket then enforce_probation_half_day_cap e r at_approval s
                else Inl (ValidationError (case ineligible_reason row of
                    Some t \<Rightarrow> if t = '''' then ''You are not eligible for '' @ label @ '' leave yet.'' else t
                  | None \<Rightarrow> ''You are not eligible for '' @ label @ '' leave yet.''))
           else
             let requested = days_in_window (rq_type r) (rq_start r, rq_end r) window
                   (holidays_in (fst window) (snd window) s) (work_week s);
                 available = (if at_approval then fsub (allocated row) (used row) else remaining row)
             in if requested > available
                then Inl (ValidationError (''Not enough '' @ label @ '' leave'' @ year @ '': '' @ fmt_g requested
                       @ '' day'' @ plural_days (requested = 1) @ '' requested, '' @ fmt_g (max available 0)
                       @ '' available.''))
                else Inr ())"

fun each :: "('x \<Rightarrow> unit res) \<Rightarrow> 'x list \<Rightarrow> unit res" where
  "each f [] = Inr ()"
| "each f (x # xs) = ebind (f x) (\<lambda>_. each f xs)"

definition enforce_balance :: "env \<Rightarrow> employee \<Rightarrow> leave_request \<Rightarrow> bool \<Rightarrow> 'a leave_db_scheme \<Rightarrow> unit res" where
  "enforce_balance E e r at_approval s =
    (case quota_bucket (rq_type r) of None \<Rightarrow> Inr ()
     | Some bucket \<Rightarrow>
        let current = leave_year_window (local_day E (now s))
        in each (\<lambda>w. enforce_year_balance E e r bucket at_approval w (w \<noteq> current) s)
             (leave_year_windows (utc_day (rq_start r)) (utc_day (rq_end r))))"

definition enforce_no_overlap :: "employee \<Rightarrow> leave_request \<Rightarrow> uuid option \<Rightarrow> 'a leave_db_scheme \<Rightarrow> unit res" where
  "enforce_no_overlap e r exclude s =
    (let existing = overlapping (emp_id e) (utc_midnight (utc_day (rq_start r)))
           (utc_midnight (utc_day (rq_end r)) + day_us - 1) (rule_statuses (exclude \<noteq> None)) exclude s
     in case List.find (\<lambda>l. clashes l (rq_type r) (rq_half r)) existing of
          None \<Rightarrow> Inr ()
        | Some l \<Rightarrow>
           if exclude \<noteq> None
           then Inl (ValidationError (full_name e @ '' already has approved leave on '' @ date_range l
                  @ '' that overlaps these dates.''))
           else Inl (ValidationError (''You already have '' @ leave_status_value (leave_state l) @ '' leave on ''
                  @ date_range l @ '' that overlaps these dates.'')))"

definition enforce_leave_rules :: "env \<Rightarrow> employee \<Rightarrow> leave_request \<Rightarrow> uuid option \<Rightarrow> 'a leave_db_scheme \<Rightarrow> unit res" where
  "enforce_leave_rules E e r exclude s =
    ebind (enforce_eligibility e (rq_type r) (rq_start r)) (\<lambda>_.
    ebind (enforce_no_overlap e r exclude s) (\<lambda>_.
    enforce_balance E e r (exclude \<noteq> None) s))"

subsection \<open>Notifications and emails\<close>

definition leaves_link :: string where
  "leaves_link = ''/dashboard/time/leaves''"

definition leave_notice ::
  "uuid \<Rightarrow> notification_kind \<Rightarrow> string \<Rightarrow> string option \<Rightarrow> notification_level \<Rightarrow> uuid \<Rightarrow> uuid \<Rightarrow> notice" where
  "leave_notice rcp k title body level i act = \<lparr>no_to = rcp, no_kind = k, no_title = title, no_body = body,
     no_level = level, no_link = Some leaves_link, no_entity_type = Some ''leave'', no_entity_id = Some i,
     no_actor = Some act\<rparr>"

text \<open>\<open>_deciders_for\<close>: the active manager, else every HR person but the requester.\<close>

definition deciders_for :: "env \<Rightarrow> uuid \<Rightarrow> uuid option \<Rightarrow> 'a leave_db_scheme \<Rightarrow> uuid list" where
  "deciders_for E i m s =
    (let hrs = filter (\<lambda>x. x \<noteq> i) (map emp_id (list_by_role E HR s))
     in case Option.bind m (\<lambda>x. find_employee x s) of
          Some e \<Rightarrow> if is_active e then [emp_id e] else hrs
        | None \<Rightarrow> hrs)"

definition request_email :: "employee \<Rightarrow> employee \<Rightarrow> leave \<Rightarrow> email" where
  "request_email rcp requester l = \<lparr>mail_to = work_email rcp, mail_template = ''leave_request'',
     mail_fields = [full_name rcp, full_name requester, leave_type_label (leave_kind l) (half_period l), date_range l,
       or_empty (leave_reason l), leaves_link]\<rparr>"

definition email_request :: "env \<Rightarrow> leave \<Rightarrow> uuid list \<Rightarrow> 'a leave_db_scheme \<Rightarrow> 'a leave_db_scheme" where
  "email_request E l reviewers s = (case find_employee (leave_employee l) s of
     None \<Rightarrow> s
   | Some requester \<Rightarrow> fold (\<lambda>i s. case find_employee i s of
         None \<Rightarrow> s
       | Some rcp \<Rightarrow> if is_active rcp then snd (send_email E (request_email rcp requester l) s) else s)
       (dedup_from [leave_employee l] reviewers) s)"

definition email_decision :: "env \<Rightarrow> leave \<Rightarrow> current_user \<Rightarrow> bool \<Rightarrow> string option \<Rightarrow> 'a leave_db_scheme \<Rightarrow> 'a leave_db_scheme" where
  "email_decision E l c approved note s = (case find_employee (leave_employee l) s of
     None \<Rightarrow> s
   | Some rcp \<Rightarrow> snd (send_email E \<lparr>mail_to = work_email rcp, mail_template = ''leave_decision'',
       mail_fields = [full_name rcp, (if approved then ''approved'' else ''rejected''),
         leave_type_label (leave_kind l) (half_period l), date_range l,
         (case find_employee (cu_id c) s of Some d \<Rightarrow> full_name d | None \<Rightarrow> ''Your manager''),
         or_empty note, leaves_link]\<rparr> s))"

definition leave_audit :: "env \<Rightarrow> current_user \<Rightarrow> string \<Rightarrow> string \<Rightarrow> 'a leave_db_scheme \<Rightarrow> 'a leave_db_scheme" where
  "leave_audit E c act tgt s = audit_append E (uuid_str (cu_id c)) act (Some tgt) s"

text \<open>Notices to a list of recipients, the actor excepted.\<close>

definition notify_others ::
  "env \<Rightarrow> current_user \<Rightarrow> (uuid \<times> notice) list \<Rightarrow> 'a leave_db_scheme \<Rightarrow> 'a leave_db_scheme" where
  "notify_others E c rcps s = fold (\<lambda>(i, n) s. if i = cu_id c then s else notify E n None s) rcps s"

definition notify_withdrawal_requested :: "env \<Rightarrow> current_user \<Rightarrow> leave \<Rightarrow> 'a leave_db_scheme \<Rightarrow> 'a leave_db_scheme" where
  "notify_withdrawal_requested E c l s =
    (let requester = find_employee (leave_employee l) s;
         who = (case requester of Some e \<Rightarrow> full_name e | None \<Rightarrow> ''An employee'');
         body = strip_dots (leave_line l @ middot @ or_empty (withdrawal_reason l))
     in notify_others E c (map (\<lambda>i. (i, leave_notice i LEAVE_REQUEST (who @ '' asked to withdraw approved leave'')
            (Some body) WARNING (leave_id l) (cu_id c)))
          (deciders_for E (leave_employee l) (requester_manager_id l s) s)) s)"

definition note_suffix :: "string option \<Rightarrow> string" where
  "note_suffix n = (if or_empty n = '''' then '''' else middot @ or_empty n)"

definition notify_withdrawal_decided :: "env \<Rightarrow> current_user \<Rightarrow> leave \<Rightarrow> 'a leave_db_scheme \<Rightarrow> 'a leave_db_scheme" where
  "notify_withdrawal_decided E c l s =
    (let granted = (withdrawal_status l = W_APPROVED)
     in notify_others E c [(leave_employee l, leave_notice (leave_employee l) LEAVE_DECISION
          (if granted then ''Your leave was withdrawn'' else ''Your withdrawal request was declined'')
          (Some (leave_line l @ note_suffix (withdrawal_decision_note l)))
          (if granted then INFO else WARNING) (leave_id l) (cu_id c))] s)"

text \<open>The employee first, then the deciders not named yet (\<open>setdefault\<close>).\<close>

definition notify_cancelled :: "env \<Rightarrow> current_user \<Rightarrow> leave \<Rightarrow> string option \<Rightarrow> 'a leave_db_scheme \<Rightarrow> 'a leave_db_scheme" where
  "notify_cancelled E c l note s =
    (let body = Some (leave_line l @ note_suffix note);
         others = dedup_from [leave_employee l] (deciders_for E (leave_employee l) (requester_manager_id l s) s);
         mk = (\<lambda>i title. (i, leave_notice i LEAVE_DECISION title body WARNING (leave_id l) (cu_id c)))
     in notify_others E c (mk (leave_employee l) ''Your leave was cancelled''
          # map (\<lambda>i. mk i ''An approved leave was cancelled'') others) s)"

subsection \<open>Applying and deciding\<close>

definition apply_leave :: "env \<Rightarrow> current_user \<Rightarrow> leave_create \<Rightarrow> 'a leave_db_scheme \<Rightarrow> (leave \<times> 'a leave_db_scheme) res" where
  "apply_leave E c p s =
    ebind (require_some (find_employee (cu_id c) s) NotFoundError) (\<lambda>e.
    ebind (enforce_not_past E p s) (\<lambda>_.
    ebind (enforce_min_notice E p s) (\<lambda>_.
    ebind (enforce_leave_rules E e (from_create p) None s) (\<lambda>_.
      let (l, s1) = create_leave p (cu_id c) (cu_manager c) s;
          s2 = leave_audit E c ''leave.apply'' (''leave:'' @ uuid_str (leave_id l) @ '':'' @ leave_value (lc_type p)) s1;
          reviewers = deciders_for E (cu_id c) (cu_manager c) s2;
          s3 = fold (\<lambda>i s. notify E (leave_notice i LEAVE_REQUEST ''Leave request to approve'' (Some (leave_line l))
                 INFO (leave_id l) (cu_id c)) None s) reviewers s2
      in Inr (l, email_request E l reviewers s3)))))"

definition decide :: "env \<Rightarrow> current_user \<Rightarrow> uuid \<Rightarrow> bool \<Rightarrow> string option \<Rightarrow> 'a leave_db_scheme \<Rightarrow> (leave \<times> 'a leave_db_scheme) res" where
  "decide E c i approve note s =
    ebind (require_some (find_leave_in_scope c i s) NotFoundError) (\<lambda>l.
    if \<not> may_decide c l (requester_manager_id l s) then Inl AuthorizationError
    else if leave_state l \<noteq> SUBMITTED then Inl (ConflictError ''This request can no longer be decided.'')
    else ebind (if approve
           then ebind (require_some (find_employee (leave_employee l) s) NotFoundError)
                  (\<lambda>e. enforce_leave_rules E e (from_leave l) (Some (leave_id l)) s)
           else Inr ()) (\<lambda>_.
      let l' = l\<lparr>leave_state := (if approve then APPROVED else REJECTED), reviewer_id := Some (cu_id c),
             decided_at := Some (now s), decision_note := note\<rparr>;
          s1 = leave_audit E c ''leave.decide'' (''leave:'' @ uuid_str (leave_id l') @ '':'' @ leave_status_value (leave_state l'))
                 (put_leave l' s);
          s2 = notify E (leave_notice (leave_employee l') LEAVE_DECISION
                 (''Leave '' @ (if approve then ''approved'' else ''rejected'')) note
                 (if approve then INFO else WARNING) (leave_id l') (cu_id c)) None s1
      in Inr (l', email_decision E l' c approve note s2)))"

definition withdraw_leave :: "env \<Rightarrow> current_user \<Rightarrow> uuid \<Rightarrow> 'a leave_db_scheme \<Rightarrow> (leave \<times> 'a leave_db_scheme) res" where
  "withdraw_leave E c i s =
    ebind (require_some (find_leave i s) NotFoundError) (\<lambda>l.
    if leave_employee l \<noteq> cu_id c then Inl AuthorizationError
    else if leave_state l \<notin> {SUBMITTED, DRAFT} then Inl (ConflictError ''Only a pending request can be withdrawn.'')
    else let l' = l\<lparr>leave_state := WITHDRAWN\<rparr>
      in Inr (l', leave_audit E c ''leave.withdraw'' (''leave:'' @ uuid_str (leave_id l)) (put_leave l' s)))"

subsection \<open>Taking approved leave back\<close>

definition enforce_payroll_open :: "leave \<Rightarrow> 'a leave_db_scheme \<Rightarrow> unit res" where
  "enforce_payroll_open l s =
    (case released_payroll_months (months_between (utc_day (leave_start l)) (utc_day (leave_end l))) s of
       [] \<Rightarrow> Inr ()
     | m # _ \<Rightarrow> Inl (ConflictError (''Payroll for '' @ m
          @ '' is already released; correct it through a payroll adjustment.'')))"

definition cancel_approved :: "env \<Rightarrow> current_user \<Rightarrow> uuid \<Rightarrow> string option \<Rightarrow> 'a leave_db_scheme \<Rightarrow> (leave \<times> 'a leave_db_scheme) res" where
  "cancel_approved E c i note s =
    ebind (require_some (find_leave_in_scope c i s) NotFoundError) (\<lambda>l.
    if leave_state l \<noteq> APPROVED then Inl (ConflictError ''Only an approved leave can be cancelled.'')
    else if \<not> may_cancel_approved c l (requester_manager_id l s)
    then if cu_id c = leave_employee l
         then Inl (ConflictError ''Your own approved leave is given back by requesting a withdrawal, which your manager approves.'')
         else Inl AuthorizationError
    else ebind (enforce_payroll_open l s) (\<lambda>_.
      let l' = l\<lparr>leave_state := CANCELLED\<rparr>
      in Inr (l', notify_cancelled E c l' note
           (leave_audit E c ''leave.cancel'' (''leave:'' @ uuid_str (leave_id l)) (put_leave l' s)))))"

definition request_withdrawal :: "env \<Rightarrow> current_user \<Rightarrow> uuid \<Rightarrow> string \<Rightarrow> 'a leave_db_scheme \<Rightarrow> (leave \<times> 'a leave_db_scheme) res" where
  "request_withdrawal E c i reason s =
    (case find_leave i s of None \<Rightarrow> Inl NotFoundError
     | Some l \<Rightarrow>
        if leave_employee l \<noteq> cu_id c then Inl NotFoundError
        else if leave_state l \<noteq> APPROVED then Inl (ConflictError ''Only an approved leave can be withdrawn.'')
        else if \<not> may_request_withdrawal c l
        then Inl (ConflictError ''A withdrawal request is already waiting for a decision.'')
        else ebind (enforce_payroll_open l s) (\<lambda>_.
          let l' = l\<lparr>withdrawal_status := W_REQUESTED, withdrawal_reason := Some reason,
                withdrawal_requested_at := Some (now s), withdrawal_reviewer_id := None,
                withdrawal_decided_at := None, withdrawal_decision_note := None\<rparr>
          in Inr (l', notify_withdrawal_requested E c l'
               (leave_audit E c ''leave.withdrawal.request'' (''leave:'' @ uuid_str (leave_id l)) (put_leave l' s)))))"

definition decide_withdrawal ::
  "env \<Rightarrow> current_user \<Rightarrow> uuid \<Rightarrow> bool \<Rightarrow> string option \<Rightarrow> 'a leave_db_scheme \<Rightarrow> (leave \<times> 'a leave_db_scheme) res" where
  "decide_withdrawal E c i approve note s =
    ebind (require_some (find_leave_in_scope c i s) NotFoundError) (\<lambda>l.
    if withdrawal_status l \<noteq> W_REQUESTED
    then Inl (ConflictError ''There is no withdrawal request waiting on this leave.'')
    else if \<not> may_decide_withdrawal c l (requester_manager_id l s) then Inl AuthorizationError
    else ebind (if approve then enforce_payroll_open l s else Inr ()) (\<lambda>_.
      let l1 = (if approve then l\<lparr>leave_state := CANCELLED, withdrawal_status := W_APPROVED\<rparr>
                else l\<lparr>withdrawal_status := W_REJECTED\<rparr>);
          l' = l1\<lparr>withdrawal_reviewer_id := Some (cu_id c), withdrawal_decided_at := Some (now s),
                withdrawal_decision_note := note\<rparr>
      in Inr (l', notify_withdrawal_decided E c l'
           (leave_audit E c ''leave.withdrawal.decide''
              (''leave:'' @ uuid_str (leave_id l) @ '':'' @ withdrawal_value (withdrawal_status l')) (put_leave l' s)))))"

subsection \<open>Reads and comments\<close>

record leave_permissions =
  lp_can_decide :: bool
  lp_can_cancel :: bool
  lp_can_request_withdrawal :: bool
  lp_can_decide_withdrawal :: bool

definition permissions :: "current_user \<Rightarrow> leave list \<Rightarrow> 'a leave_db_scheme \<Rightarrow> (uuid \<times> leave_permissions) list" where
  "permissions c ls s = map (\<lambda>l. let m = requester_manager_id l s in (leave_id l,
     \<lparr>lp_can_decide = can_decide_now c l m, lp_can_cancel = may_cancel_approved c l m,
      lp_can_request_withdrawal = may_request_withdrawal c l, lp_can_decide_withdrawal = may_decide_withdrawal c l m\<rparr>)) ls"

definition read_balance :: "env \<Rightarrow> current_user \<Rightarrow> uuid option \<Rightarrow> 'a leave_db_scheme \<Rightarrow> (balance_read \<times> 'a leave_db_scheme) res" where
  "read_balance E c i s =
    (let tgt = (case i of Some x \<Rightarrow> x | None \<Rightarrow> cu_id c)
     in if tgt \<noteq> cu_id c \<and> \<not> can_read c tgt s then Inl NotFoundError
        else case find_employee tgt s of None \<Rightarrow> Inl NotFoundError
          | Some e \<Rightarrow> if \<not> is_active e then Inl NotFoundError
              else Inr (compute_balance E e None s, leave_audit E c ''leave.balance.read'' (''employee:'' @ uuid_str tgt) s))"

definition get_leave_for_caller :: "current_user \<Rightarrow> uuid \<Rightarrow> 'a leave_db_scheme \<Rightarrow> leave res" where
  "get_leave_for_caller c i s = require_some (find_leave_in_scope c i s) NotFoundError"

definition list_comments :: "current_user \<Rightarrow> uuid \<Rightarrow> 'a leave_db_scheme \<Rightarrow> leave_comment list res" where
  "list_comments c i s = (if find_leave_in_scope c i s = None then Inl NotFoundError
     else Inr (filter (\<lambda>x. lcm_leave x = i) (leave_comments s)))"

definition add_comment :: "env \<Rightarrow> current_user \<Rightarrow> uuid \<Rightarrow> string \<Rightarrow> 'a leave_db_scheme \<Rightarrow> (leave_comment \<times> 'a leave_db_scheme) res" where
  "add_comment E c i body s = (if find_leave_in_scope c i s = None then Inl NotFoundError
     else let x = \<lparr>lcm_id = next_id s, lcm_leave = i, lcm_author = cu_id c, lcm_body = body\<rparr>
       in Inr (x, leave_audit E c ''leave.comment'' (''leave:'' @ uuid_str i)
            (s\<lparr>leave_comments := row_add x (leave_comments s), next_id := next_id s + 1\<rparr>)))"

end
