(* ===== verification/Effects.thy ===== *)
theory Effects
  imports OrgLaws
begin

text \<open>
  Side effects that leave the business tables alone: audit entries, notifications and emails. A state
  \<open>quiet\<close>ly follows another when only the log, the inbox, the mail and the id counter may have moved.
  The service proofs step over their whole reporting tail with these rules.
\<close>

named_theorems quiet_intros "operations that only report"

definition quiet :: "'a core_scheme \<Rightarrow> 'a core_scheme \<Rightarrow> bool" where
  "quiet s s' \<longleftrightarrow> core.more s' = core.more s \<and> employees s' = employees s \<and> now s' = now s \<and> next_id s \<le> next_id s'"

lemma quiet_refl [simp, quiet_intros]: "quiet s s"
  by (simp add: quiet_def)

lemma quiet_trans: "quiet s t \<Longrightarrow> quiet t u \<Longrightarrow> quiet s u"
  by (auto simp: quiet_def)

lemma quiet_audit: "quiet s (audit_append E a b t s)"
  by (simp add: quiet_def)

lemma quiet_notify: "quiet s (notify E m d s)"
  by (simp add: quiet_def notify_next_id)

lemma quiet_mail: "quiet s (snd (send_email E m s))"
  by (simp add: quiet_def)

text \<open>In goals the last effect is stripped first.\<close>

lemma quiet_step [quiet_intros]:
  "quiet s t \<Longrightarrow> quiet s (audit_append E a b x t)"
  "quiet s t \<Longrightarrow> quiet s (notify E m d t)"
  "quiet s t \<Longrightarrow> quiet s (snd (send_email E e t))"
  by (blast intro: quiet_trans quiet_audit quiet_notify quiet_mail)+

lemma quiet_fold [quiet_intros]: "(\<And>x t. quiet t (f x t)) \<Longrightarrow> quiet s t \<Longrightarrow> quiet s (fold f xs t)"
proof (induction xs arbitrary: t)
  case (Cons x xs)
  then have "quiet s (f x t)" using quiet_trans by blast
  then show ?case using Cons.IH[OF Cons.prems(1)] by simp
qed simp

lemma quiet_employee: "quiet s s' \<Longrightarrow> find_employee i s' = find_employee i s"
  by (simp add: quiet_def find_employee_def)

lemma quiet_core: "quiet s s' \<Longrightarrow> core.more s' = core.more s \<and> now s' = now s \<and> employees s' = employees s
  \<and> next_id s \<le> next_id s'"
  by (simp add: quiet_def)

end
