(* ===== verification/Lifecycle.thy ===== *)
theory Lifecycle
  imports Tables
begin

text \<open>
  The contract that the workflow services share. A service keeps a table of rows with fresh keys; each
  of its operations leaves the table alone, rewrites one row along an allowed edge, or adds a fresh row.
  From that follow, once for all services, that keys stay unique, that a row property the edges keep
  holds of every row ever stored, and that a row only ever moves along edges.
\<close>

definition rows_ok :: "('r \<Rightarrow> nat) \<Rightarrow> ('r \<Rightarrow> bool) \<Rightarrow> nat \<Rightarrow> 'r list \<Rightarrow> bool" where
  "rows_ok key ok n rws \<longleftrightarrow> keys_unique key rws \<and> (\<forall>r \<in> set rws. key r < n \<and> ok r)"

text \<open>Runs: operations of the service, labelled by who asked, interleaved with what the rest of the
  program does to the state.\<close>

inductive run :: "('l \<Rightarrow> 's \<Rightarrow> 's \<Rightarrow> bool) \<Rightarrow> ('s \<Rightarrow> 's \<Rightarrow> bool) \<Rightarrow> ('s \<Rightarrow> bool) \<Rightarrow> 's \<Rightarrow> bool" for step other init where
  run_init: "init s \<Longrightarrow> run step other init s"
| run_step: "run step other init s \<Longrightarrow> step l s s' \<Longrightarrow> run step other init s'"
| run_other: "run step other init s \<Longrightarrow> other s s' \<Longrightarrow> run step other init s'"

text \<open>What the rest of the program leaves alone: the rows; ids only grow.\<close>

definition others_keep :: "('s \<Rightarrow> 'r list) \<Rightarrow> ('s \<Rightarrow> nat) \<Rightarrow> 's \<Rightarrow> 's \<Rightarrow> bool" where
  "others_keep table fresh_id s s' \<longleftrightarrow> table s' = table s \<and> fresh_id s \<le> fresh_id s'"

definition no_rows :: "('s \<Rightarrow> 'r list) \<Rightarrow> 's \<Rightarrow> bool" where
  "no_rows table s \<longleftrightarrow> table s = []"

lemma rows_ok_getD: "rows_ok key ok n rws \<Longrightarrow> row_get key i rws = Some r \<Longrightarrow> key r = i \<and> r \<in> set rws \<and> ok r \<and> i < n"
  using row_get_SomeD[of key i rws r] by (auto simp: rows_ok_def)

lemma rows_ok_get: "rows_ok key ok n rws \<Longrightarrow> r \<in> set rws \<Longrightarrow> row_get key (key r) rws = Some r"
  unfolding rows_ok_def by (erule conjE) (rule rows.content_get)

lemma rows_ok_inj: "rows_ok key ok n rws \<Longrightarrow> a \<in> set rws \<Longrightarrow> b \<in> set rws \<Longrightarrow> key a = key b \<Longrightarrow> a = b"
  by (metis option.inject rows_ok_get)

lemma rows_ok_grow: "rows_ok key ok n rws \<Longrightarrow> n \<le> n' \<Longrightarrow> rows_ok key ok n' rws"
  by (fastforce simp: rows_ok_def)

lemma rows_ok_put:
  assumes "rows_ok key ok n rws" "row_get key (key r) rws = Some r0" "ok r"
  shows "rows_ok key ok n (row_put key r rws)"
proof -
  have "key r < n" using rows_ok_getD[OF assms(1,2)] by simp
  then have "\<forall>x \<in> set (row_put key r rws). key x < n \<and> ok x"
    using assms(1,3) by (intro rows.all_put) (auto simp: rows_ok_def)
  then show ?thesis using assms(1) rows.uniq_put by (auto simp: rows_ok_def)
qed

lemma rows_ok_add:
  assumes "rows_ok key ok n rws" "key r = n" "ok r" "n < n'"
  shows "rows_ok key ok n' (row_add r rws)"
proof -
  have "key r \<notin> key ` set rws" using assms(1,2) by (auto simp: rows_ok_def)
  then have "keys_unique key (row_add r rws)" using assms(1) rows.uniq_add by (auto simp: rows_ok_def)
  moreover have "\<forall>x \<in> set (row_add r rws). key x < n' \<and> ok x"
    by (intro rows.all_add) (use assms in \<open>fastforce simp: rows_ok_def\<close>)+
  ultimately show ?thesis by (simp add: rows_ok_def)
qed

locale row_life =
  fixes key :: "'r \<Rightarrow> nat" and table :: "'s \<Rightarrow> 'r list" and fresh_id :: "'s \<Rightarrow> nat"
    and step :: "'l \<Rightarrow> 's \<Rightarrow> 's \<Rightarrow> bool" and edge :: "'l \<Rightarrow> 's \<Rightarrow> 'r \<Rightarrow> 'r \<Rightarrow> bool"
    and fresh :: "'l \<Rightarrow> 's \<Rightarrow> 'r \<Rightarrow> bool" and ok :: "'r \<Rightarrow> bool"
  assumes step_effect: "rows_ok key ok (fresh_id s) (table s) \<Longrightarrow> step l s s' \<Longrightarrow>
      fresh_id s \<le> fresh_id s' \<and> (table s' = table s
        \<or> (\<exists>r r'. row_get key (key r) (table s) = Some r \<and> edge l s r r' \<and> table s' = row_put key r' (table s))
        \<or> (\<exists>r. fresh l s r \<and> table s' = row_add r (table s) \<and> fresh_id s < fresh_id s'))"
    and edge_ok: "edge l s r r' \<Longrightarrow> ok r \<Longrightarrow> ok r' \<and> key r' = key r"
    and fresh_ok: "fresh l s r \<Longrightarrow> ok r \<and> key r = fresh_id s"
begin

lemma step_cases:
  assumes "rows_ok key ok (fresh_id s) (table s)" "step l s s'"
  obtains (same) "table s' = table s" "fresh_id s \<le> fresh_id s'"
  | (edge) r r' where "row_get key (key r) (table s) = Some r" "edge l s r r'" "ok r" "ok r'" "key r' = key r"
      "table s' = row_put key r' (table s)" "fresh_id s \<le> fresh_id s'"
  | (new) r where "fresh l s r" "ok r" "key r = fresh_id s" "table s' = row_add r (table s)" "fresh_id s < fresh_id s'"
  using step_effect[OF assms] rows_ok_getD[OF assms(1)] edge_ok fresh_ok by metis

lemma rows_ok_step:
  assumes "rows_ok key ok (fresh_id s) (table s)" "step l s s'"
  shows "rows_ok key ok (fresh_id s') (table s')"
  using assms
proof (cases rule: step_cases)
  case same
  then show ?thesis using rows_ok_grow[OF assms(1)] by simp
next
  case (edge r r')
  then show ?thesis using rows_ok_grow[OF rows_ok_put[OF assms(1), of r' r]] by simp
next
  case (new r)
  then show ?thesis using rows_ok_add[OF assms(1)] by simp
qed

lemma rows_ok_run:
  "run step (others_keep table fresh_id) (no_rows table) s \<Longrightarrow> rows_ok key ok (fresh_id s) (table s)"
proof (induction rule: run.induct)
  case (run_init s)
  then show ?case by (simp add: no_rows_def rows_ok_def keys_unique_def)
next
  case (run_step s l s')
  then show ?case using rows_ok_step by blast
next
  case (run_other s s')
  then show ?case using rows_ok_grow by (auto simp: others_keep_def)
qed

text \<open>A stored row stays stored and moves along an edge or not at all.\<close>

lemma row_moves:
  assumes "rows_ok key ok (fresh_id s) (table s)" "step l s s'" "row_get key i (table s) = Some r"
  shows "\<exists>r'. row_get key i (table s') = Some r' \<and> (r' = r \<or> edge l s r r')"
  using assms(1,2)
proof (cases rule: step_cases)
  case same
  then show ?thesis using assms(3) by simp
next
  case (edge x x')
  have u: "keys_unique key (table s)" using assms(1) by (simp add: rows_ok_def)
  show ?thesis
  proof (cases "key x = i")
    case True
    then show ?thesis using edge assms(3) rows.get_put_same[OF u, of x' x] by auto
  next
    case False
    then show ?thesis using edge assms(3) rows.get_put_other[OF u, of i x'] by auto
  qed
next
  case (new x)
  then have "i \<noteq> key x" using rows_ok_getD[OF assms(1,3)] by simp
  then show ?thesis using new assms(3) rows.get_add_other[of i key x "table s"] by simp
qed

text \<open>A row that was not there before is fresh.\<close>

lemma new_rows_fresh:
  assumes "rows_ok key ok (fresh_id s) (table s)" "step l s s'" "r \<in> set (table s')" "row_get key (key r) (table s) = None"
  shows "fresh l s r"
  using assms(1,2)
proof (cases rule: step_cases)
  case same
  then show ?thesis using assms(3,4) rows.get_none[of key "key r" "table s"] by auto
next
  case (edge x x')
  then show ?thesis using assms(3,4) rows.get_none[of key "key r" "table s"] rows.put_content_cases[of r key x' "table s"]
    by (auto dest: row_get_SomeD)
next
  case (new x)
  then have "r = x \<or> r \<in> set (table s)" using assms(3) by (auto simp: row_add_def)
  then show ?thesis using new assms(4) rows.get_none[of key "key r" "table s"] by auto
qed

end

end
