(* ===== verification/LeaveLaws.thy ===== *)
theory LeaveLaws
  imports LeaveOps Effects Lifecycle PayrollOpsLaws
begin

text \<open>
  The abstract life of a leave (\<open>leave_edge\<close>), that every operation follows it, and what follows: nobody
  is off twice on a day, permission flags tell what the operations accept, and requests are charged to
  the leave years they touch without losing a day.
\<close>

subsection \<open>Reporting leaves the tables alone\<close>

lemma leave_fields_more:
  assumes "core.more s' = core.more (s :: 'a leave_db_scheme)"
  shows "leaves s' = leaves s" "payslips s' = payslips s" "leave_policy_row s' = leave_policy_row s"
    "allocations s' = allocations s" "tier_quotas s' = tier_quotas s" "holiday_dates s' = holiday_dates s"
    "work_week s' = work_week s" "leave_comments s' = leave_comments s"
  using assms by (cases s; cases s'; simp)+

lemma quiet_leave:
  assumes "quiet (s :: 'a leave_db_scheme) s'"
  shows "leaves s' = leaves s" "payslips s' = payslips s" "next_id s \<le> next_id s'"
  using leave_fields_more quiet_core[OF assms] by blast+

lemma put_leave_simps [simp, store_simps]:
  "leaves (put_leave l s) = row_put leave_id l (leaves s)" "payslips (put_leave l s) = payslips s"
  "next_id (put_leave l s) = next_id s" "employees (put_leave l s) = employees s" "now (put_leave l s) = now s"
  by (simp_all add: put_leave_def)

lemma quiet_leave_tails [quiet_intros]:
  "quiet s t \<Longrightarrow> quiet s (leave_audit E c a x t)"
  "quiet s t \<Longrightarrow> quiet s (notify_others E c ns t)"
  "quiet s t \<Longrightarrow> quiet s (email_request E l ids t)"
  "quiet s t \<Longrightarrow> quiet s (email_decision E l c b n t)"
  unfolding leave_audit_def notify_others_def email_request_def email_decision_def
  by (auto intro!: quiet_intros split: option.split)

lemma quiet_leave_notices [quiet_intros]:
  "quiet s t \<Longrightarrow> quiet s (notify_withdrawal_requested E c l t)"
  "quiet s t \<Longrightarrow> quiet s (notify_withdrawal_decided E c l t)"
  "quiet s t \<Longrightarrow> quiet s (notify_cancelled E c l n t)"
  unfolding notify_withdrawal_requested_def notify_withdrawal_decided_def notify_cancelled_def Let_def
  by (auto intro!: quiet_intros)

lemma find_leave_id: "find_leave i s = Some l \<Longrightarrow> leave_id l = i \<and> l \<in> set (leaves s)"
  using row_get_SomeD[of leave_id] by (auto simp: find_leave_def)

lemma in_scopeD: "find_leave_in_scope c i s = Some l \<Longrightarrow> find_leave i s = Some l \<and> leave_scope c l s"
  by (auto simp: find_leave_in_scope_def split: option.splits if_splits)

subsection \<open>The life of a leave\<close>

abbreviation payroll_open :: "'a leave_db_scheme \<Rightarrow> leave \<Rightarrow> bool" where
  "payroll_open s l \<equiv> enforce_payroll_open l s = Inr ()"

text \<open>One change of one leave by the caller \<open>c\<close>, where \<open>m\<close> is the requester's manager, \<open>opn\<close> says that no
  month of the leave is paid and \<open>rules\<close> that it passes the rules of an approval.\<close>

inductive leave_edge ::
  "current_user \<Rightarrow> uuid option \<Rightarrow> (leave \<Rightarrow> bool) \<Rightarrow> (leave \<Rightarrow> bool) \<Rightarrow> leave \<Rightarrow> leave \<Rightarrow> bool"
  for c m opn rules where
  edge_approve: "leave_state l = SUBMITTED \<Longrightarrow> may_decide c l m \<Longrightarrow> rules l \<Longrightarrow>
    leave_edge c m opn rules l (l\<lparr>leave_state := APPROVED, reviewer_id := Some (cu_id c), decided_at := Some t, decision_note := n\<rparr>)"
| edge_reject: "leave_state l = SUBMITTED \<Longrightarrow> may_decide c l m \<Longrightarrow>
    leave_edge c m opn rules l (l\<lparr>leave_state := REJECTED, reviewer_id := Some (cu_id c), decided_at := Some t, decision_note := n\<rparr>)"
| edge_withdraw: "leave_state l \<in> {SUBMITTED, DRAFT} \<Longrightarrow> leave_employee l = cu_id c \<Longrightarrow>
    leave_edge c m opn rules l (l\<lparr>leave_state := WITHDRAWN\<rparr>)"
| edge_cancel: "may_cancel_approved c l m \<Longrightarrow> opn l \<Longrightarrow>
    leave_edge c m opn rules l (l\<lparr>leave_state := CANCELLED\<rparr>)"
| edge_ask: "may_request_withdrawal c l \<Longrightarrow> opn l \<Longrightarrow>
    leave_edge c m opn rules l (l\<lparr>withdrawal_status := W_REQUESTED, withdrawal_reason := r,
      withdrawal_requested_at := Some t, withdrawal_reviewer_id := None, withdrawal_decided_at := None,
      withdrawal_decision_note := None\<rparr>)"
| edge_grant: "may_decide_withdrawal c l m \<Longrightarrow> opn l \<Longrightarrow>
    leave_edge c m opn rules l (l\<lparr>leave_state := CANCELLED, withdrawal_status := W_APPROVED,
      withdrawal_reviewer_id := Some (cu_id c), withdrawal_decided_at := Some t, withdrawal_decision_note := n\<rparr>)"
| edge_refuse: "may_decide_withdrawal c l m \<Longrightarrow>
    leave_edge c m opn rules l (l\<lparr>withdrawal_status := W_REJECTED,
      withdrawal_reviewer_id := Some (cu_id c), withdrawal_decided_at := Some t, withdrawal_decision_note := n\<rparr>)"

inductive_cases leave_edgeE: "leave_edge c m opn rules l l'"

text \<open>The operations that the service offers, as steps; a request that reaches \<open>apply\<close> passed the validator.\<close>

inductive leave_step :: "env \<Rightarrow> current_user \<Rightarrow> 'a leave_db_scheme \<Rightarrow> 'a leave_db_scheme \<Rightarrow> bool" for E c s where
  "leave_create_ok p \<Longrightarrow> apply_leave E c p s = Inr (l, s') \<Longrightarrow> leave_step E c s s'"
| "decide E c i b n s = Inr (l, s') \<Longrightarrow> leave_step E c s s'"
| "withdraw_leave E c i s = Inr (l, s') \<Longrightarrow> leave_step E c s s'"
| "cancel_approved E c i n s = Inr (l, s') \<Longrightarrow> leave_step E c s s'"
| "request_withdrawal E c i r s = Inr (l, s') \<Longrightarrow> leave_step E c s s'"
| "decide_withdrawal E c i b n s = Inr (l, s') \<Longrightarrow> leave_step E c s s'"
| "read_balance E c x s = Inr (bal, s') \<Longrightarrow> leave_step E c s s'"
| "add_comment E c i body s = Inr (x, s') \<Longrightarrow> leave_step E c s s'"

definition approval_rules :: "env \<Rightarrow> 'a leave_db_scheme \<Rightarrow> leave \<Rightarrow> bool" where
  "approval_rules E s l \<longleftrightarrow> (\<exists>e. find_employee (leave_employee l) s = Some e
     \<and> enforce_leave_rules E e (from_leave l) (Some (leave_id l)) s = Inr ())"

abbreviation edge_of :: "env \<Rightarrow> current_user \<Rightarrow> 'a leave_db_scheme \<Rightarrow> leave \<Rightarrow> leave \<Rightarrow> bool" where
  "edge_of E c s l l' \<equiv> leave_edge c (requester_manager_id l s) (payroll_open s) (approval_rules E s) l l'"

text \<open>An operation that changes a leave rewrites its row along an edge and reports.\<close>

definition leave_change :: "env \<Rightarrow> current_user \<Rightarrow> leave \<Rightarrow> 'a leave_db_scheme \<Rightarrow> 'a leave_db_scheme \<Rightarrow> bool" where
  "leave_change E c l' s s' \<longleftrightarrow> (\<exists>l. find_leave (leave_id l) s = Some l \<and> edge_of E c s l l') \<and> quiet (put_leave l' s) s'"

lemma leave_changeI:
  "find_leave i s = Some l \<Longrightarrow> edge_of E c s l l' \<Longrightarrow> quiet (put_leave l' s) s' \<Longrightarrow> leave_change E c l' s s'"
  unfolding leave_change_def using find_leave_id by metis

lemma decide_change:
  assumes "decide E c i approve note s = Inr (l', s')"
  shows "leave_change E c l' s s'"
proof -
  obtain l where l: "find_leave_in_scope c i s = Some l" "may_decide c l (requester_manager_id l s)" "leave_state l = SUBMITTED"
    using assms by (auto simp: decide_def ebind_Inr_iff split: if_splits)
  let ?rules = "if approve then ebind (require_some (find_employee (leave_employee l) s) NotFoundError)
      (\<lambda>e. enforce_leave_rules E e (from_leave l) (Some (leave_id l)) s) else Inr ()"
  obtain u where r: "?rules = Inr u"
    using assms l unfolding decide_def by (cases ?rules) simp_all
  have l': "l' = l\<lparr>leave_state := (if approve then APPROVED else REJECTED), reviewer_id := Some (cu_id c),
      decided_at := Some (now s), decision_note := note\<rparr>" and s': "quiet (put_leave l' s) s'"
    using assms l r unfolding decide_def by (auto simp: Let_def intro!: quiet_intros)
  have "edge_of E c s l l'"
  proof (cases approve)
    case True
    then have "approval_rules E s l" using r by (auto simp: approval_rules_def ebind_Inr_iff)
    then show ?thesis unfolding l' using l True by (auto intro: edge_approve)
  next
    case False
    then show ?thesis unfolding l' using l by (auto intro: edge_reject)
  qed
  then show ?thesis using leave_changeI in_scopeD[OF l(1)] s' by blast
qed

lemma withdraw_leave_change:
  assumes "withdraw_leave E c i s = Inr (l', s')"
  shows "leave_change E c l' s s'"
proof -
  obtain l where l: "find_leave i s = Some l" "leave_employee l = cu_id c" "leave_state l \<in> {SUBMITTED, DRAFT}"
    and l': "l' = l\<lparr>leave_state := WITHDRAWN\<rparr>" and s': "quiet (put_leave l' s) s'"
    using assms by (auto simp: withdraw_leave_def ebind_Inr_iff Let_def intro!: quiet_intros split: if_splits)
  then show ?thesis using leave_changeI[OF l(1) _ s'] edge_withdraw unfolding l' by blast
qed

lemma cancel_change:
  assumes "cancel_approved E c i note s = Inr (l', s')"
  shows "leave_change E c l' s s'"
proof -
  obtain l where l: "find_leave_in_scope c i s = Some l" "may_cancel_approved c l (requester_manager_id l s)" "payroll_open s l"
    and l': "l' = l\<lparr>leave_state := CANCELLED\<rparr>" and s': "quiet (put_leave l' s) s'"
    using assms by (auto simp: cancel_approved_def ebind_Inr_iff Let_def intro!: quiet_intros split: if_splits)
  have "edge_of E c s l l'" unfolding l' using l by (intro edge_cancel)
  then show ?thesis using leave_changeI in_scopeD[OF l(1)] s' by blast
qed

lemma request_withdrawal_change:
  assumes "request_withdrawal E c i reason s = Inr (l', s')"
  shows "leave_change E c l' s s'"
proof -
  obtain l where l: "find_leave i s = Some l" "leave_employee l = cu_id c" "leave_state l = APPROVED" "may_request_withdrawal c l"
    using assms unfolding request_withdrawal_def by (cases "find_leave i s") (simp_all split: if_splits)
  then have o: "payroll_open s l"
    using assms unfolding request_withdrawal_def by (cases "enforce_payroll_open l s") simp_all
  let ?l = "l\<lparr>withdrawal_status := W_REQUESTED, withdrawal_reason := Some reason,
      withdrawal_requested_at := Some (now s), withdrawal_reviewer_id := None, withdrawal_decided_at := None,
      withdrawal_decision_note := None\<rparr>"
  have l': "l' = ?l" and s': "quiet (put_leave ?l s) s'"
    using assms l o unfolding request_withdrawal_def by (auto simp: Let_def intro!: quiet_intros)
  moreover have "edge_of E c s l ?l" using l o by (intro edge_ask)
  ultimately show ?thesis using leave_changeI[OF l(1)] by blast
qed

lemma decide_withdrawal_change:
  assumes "decide_withdrawal E c i approve note s = Inr (l', s')"
  shows "leave_change E c l' s s'"
proof -
  obtain l where l: "find_leave_in_scope c i s = Some l" "may_decide_withdrawal c l (requester_manager_id l s)"
    and o: "approve \<Longrightarrow> payroll_open s l"
    using assms by (auto simp: decide_withdrawal_def ebind_Inr_iff split: if_splits)
  let ?l = "(if approve then l\<lparr>leave_state := CANCELLED, withdrawal_status := W_APPROVED\<rparr> else l\<lparr>withdrawal_status := W_REJECTED\<rparr>)
      \<lparr>withdrawal_reviewer_id := Some (cu_id c), withdrawal_decided_at := Some (now s), withdrawal_decision_note := note\<rparr>"
  have l': "l' = ?l" and s': "quiet (put_leave ?l s) s'"
    using assms l o by (auto simp: decide_withdrawal_def ebind_Inr_iff Let_def intro!: quiet_intros split: if_splits)
  have "edge_of E c s l ?l"
    using l o by (cases approve) (simp_all add: edge_grant edge_refuse)
  then show ?thesis using leave_changeI in_scopeD[OF l(1)] s' unfolding l' by blast
qed

subsection \<open>The service keeps its table\<close>

definition fresh_leave :: "current_user \<Rightarrow> 'a leave_db_scheme \<Rightarrow> leave \<Rightarrow> bool" where
  "fresh_leave c s l \<longleftrightarrow> leave_id l = next_id s \<and> leave_employee l = cu_id c \<and> leave_state l = SUBMITTED
     \<and> reviewer_id l = cu_manager c \<and> withdrawal_status l = W_NONE
     \<and> (half_period l \<noteq> None \<longleftrightarrow> leave_kind l = HALF_DAY) \<and> leave_start l \<le> leave_end l"

text \<open>A half is named exactly for half days, decided leaves have a reviewer other than the person, and a
  withdrawal is only ever asked for approved time off.\<close>

definition leave_ok :: "leave \<Rightarrow> bool" where
  "leave_ok l \<longleftrightarrow> (half_period l \<noteq> None \<longleftrightarrow> leave_kind l = HALF_DAY) \<and> leave_start l \<le> leave_end l
     \<and> (leave_state l \<in> {APPROVED, REJECTED, CANCELLED} \<longrightarrow> (\<exists>d. reviewer_id l = Some d \<and> d \<noteq> leave_employee l) \<and> decided_at l \<noteq> None)
     \<and> (withdrawal_status l \<noteq> W_NONE \<longrightarrow> leave_state l \<in> {APPROVED, CANCELLED})
     \<and> (withdrawal_status l = W_APPROVED \<longrightarrow> leave_state l = CANCELLED)"

lemma leave_edge_ok: "leave_edge c m opn rules l l' \<Longrightarrow> leave_ok l \<Longrightarrow> leave_ok l' \<and> leave_id l' = leave_id l"
  by (erule leave_edge.cases)
    (auto simp: leave_ok_def may_decide_def may_cancel_approved_def may_request_withdrawal_def
      may_decide_withdrawal_def split: if_splits)

lemma apply_effect:
  assumes "leave_create_ok p" "apply_leave E c p s = Inr (l, s')"
  shows "fresh_leave c s l \<and> quiet (snd (create_leave p (cu_id c) (cu_manager c) s)) s'
    \<and> leaves s' = row_add l (leaves s) \<and> next_id s < next_id s'"
proof -
  have l: "l = fst (create_leave p (cu_id c) (cu_manager c) s)"
    and q: "quiet (snd (create_leave p (cu_id c) (cu_manager c) s)) s'"
    using assms(2) by (auto simp: apply_leave_def ebind_Inr_iff Let_def case_prod_unfold intro!: quiet_intros)
  have "fresh_leave c s l" using assms(1) by (auto simp: l fresh_leave_def create_leave_def leave_create_ok_def Let_def split: if_splits)
  moreover have "leaves s' = row_add l (leaves s)" "next_id s < next_id s'"
    using quiet_leave[OF q] by (simp_all add: l create_leave_def Let_def)
  ultimately show ?thesis using q by blast
qed

lemma leave_step_effect:
  assumes "leave_step E c s s'"
  shows "(\<exists>l'. leave_change E c l' s s') \<or> quiet s s' \<or> leaves s' = leaves s \<and> next_id s \<le> next_id s'
    \<or> (\<exists>l. fresh_leave c s l \<and> leaves s' = row_add l (leaves s) \<and> next_id s < next_id s')"
  using assms
proof cases
  case (1 p l)
  then show ?thesis using apply_effect by blast
next
  case (7 x bal)
  then have "quiet s s'" by (auto simp: read_balance_def Let_def intro!: quiet_intros split: if_splits option.splits)
  then show ?thesis by blast
next
  case (8 i body x)
  then have "leaves s' = leaves s \<and> next_id s \<le> next_id s'"
    by (auto simp: add_comment_def Let_def leave_audit_def audit_append_def split: if_splits)
  then show ?thesis by blast
next
  case (2 i b n l)
  show ?thesis using decide_change[OF 2] by blast
next
  case (3 i l)
  show ?thesis using withdraw_leave_change[OF 3] by blast
next
  case (4 i n l)
  show ?thesis using cancel_change[OF 4] by blast
next
  case (5 i r l)
  show ?thesis using request_withdrawal_change[OF 5] by blast
next
  case (6 i b n l)
  show ?thesis using decide_withdrawal_change[OF 6] by blast
qed

interpretation leave_life: row_life leave_id leaves next_id "leave_step E" "edge_of E" fresh_leave leave_ok for E
proof
  fix s s' :: "'a leave_db_scheme" and c
  assume "leave_step E c s s'"
  from leave_step_effect[OF this]
  show "next_id s \<le> next_id s' \<and> (leaves s' = leaves s
        \<or> (\<exists>r r'. row_get leave_id (leave_id r) (leaves s) = Some r \<and> edge_of E c s r r' \<and> leaves s' = row_put leave_id r' (leaves s))
        \<or> (\<exists>r. fresh_leave c s r \<and> leaves s' = row_add r (leaves s) \<and> next_id s < next_id s'))"
  proof (elim disjE)
    assume "\<exists>l'. leave_change E c l' s s'"
    then obtain l l' where l: "find_leave (leave_id l) s = Some l" "edge_of E c s l l'" "quiet (put_leave l' s) s'"
      by (auto simp: leave_change_def)
    show ?thesis using l quiet_leave[OF l(3)] by (auto simp: find_leave_def)
  next
    assume "quiet s s'"
    then show ?thesis using quiet_leave[of s s'] by simp
  qed (use less_imp_le in blast)+
next
  show "leave_edge c (requester_manager_id l s) (payroll_open s) (approval_rules E s) l l' \<Longrightarrow> leave_ok l
      \<Longrightarrow> leave_ok l' \<and> leave_id l' = leave_id l" for c and s :: "'a leave_db_scheme" and l l'
    by (rule leave_edge_ok)
  show "fresh_leave c s l \<Longrightarrow> leave_ok l \<and> leave_id l = next_id s" for c and s :: "'a leave_db_scheme" and l
    by (auto simp: fresh_leave_def leave_ok_def)
qed

abbreviation leaves_ok :: "'a leave_db_scheme \<Rightarrow> bool" where
  "leaves_ok s \<equiv> rows_ok leave_id leave_ok (next_id s) (leaves s)"

text \<open>States that the program can reach: leave operations of anybody, and other services in between.\<close>

abbreviation leave_run :: "env \<Rightarrow> 'a leave_db_scheme \<Rightarrow> bool" where
  "leave_run E \<equiv> run (leave_step E) (others_keep leaves next_id) (no_rows leaves)"

subsection \<open>Nobody is off twice\<close>

definition off_on :: "date \<Rightarrow> leave \<Rightarrow> bool" where
  "off_on d l \<longleftrightarrow> utc_day (leave_start l) \<le> d \<and> d \<le> utc_day (leave_end l)"

definition days_meet :: "leave \<Rightarrow> leave \<Rightarrow> bool" where
  "days_meet a b \<longleftrightarrow> utc_day (leave_start a) \<le> utc_day (leave_end b) \<and> utc_day (leave_start b) \<le> utc_day (leave_end a)"

definition apart :: "leave \<Rightarrow> leave \<Rightarrow> bool" where
  "apart a b \<longleftrightarrow> \<not> (leave_state a = APPROVED \<and> leave_state b = APPROVED \<and> leave_employee a = leave_employee b
     \<and> days_meet a b \<and> clashes a (leave_kind b) (half_period b))"

definition no_double_booking :: "'a leave_db_scheme \<Rightarrow> bool" where
  "no_double_booking s \<longleftrightarrow> (\<forall>a \<in> set (leaves s). \<forall>b \<in> set (leaves s). leave_id a \<noteq> leave_id b \<longrightarrow> apart a b)"

lemma apart_sym: "apart a b \<Longrightarrow> apart b a"
  by (auto simp: apart_def days_meet_def clashes_def split: if_splits)

lemma approval_apart:
  assumes "approval_rules E s l" "x \<in> set (leaves s)" "leave_id x \<noteq> leave_id l"
  shows "apart x (l\<lparr>leave_state := APPROVED\<rparr>)"
proof -
  obtain e where e: "emp_id e = leave_employee l" "enforce_leave_rules E e (from_leave l) (Some (leave_id l)) s = Inr ()"
    using assms(1) find_employee_id by (auto simp: approval_rules_def)
  let ?hits = "overlapping (leave_employee l) (utc_midnight (utc_day (leave_start l)))
    (utc_midnight (utc_day (leave_end l)) + day_us - 1) [APPROVED] (Some (leave_id l)) s"
  have "List.find (\<lambda>x. clashes x (leave_kind l) (half_period l)) ?hits = None"
    using e by (auto simp: enforce_leave_rules_def ebind_Inr_iff enforce_no_overlap_def from_leave_def rule_statuses_def
        Let_def split: option.splits)
  then have no: "\<not> clashes y (leave_kind l) (half_period l)" if "y \<in> set ?hits" for y
    using that find_NoneD by fast
  have "utc_midnight (utc_day (leave_end l)) + day_us = utc_midnight (utc_day (leave_end l) + 1)"
    by (simp add: utc_midnight_def day_us_def)
  then have "leave_start x \<le> utc_midnight (utc_day (leave_end l)) + day_us - 1 \<longleftrightarrow> utc_day (leave_start x) \<le> utc_day (leave_end l)"
    using less_utc_midnight_iff[of "leave_start x" "utc_day (leave_end l) + 1"] by linarith
  then show ?thesis using no[of x] assms(2,3)
    by (auto simp: apart_def days_meet_def overlapping_def utc_midnight_le_iff)
qed

text \<open>An edge into \<open>APPROVED\<close> keeps what the booking is about.\<close>

lemma edge_booking:
  assumes "leave_edge c m opn rules l l'" "leave_state l' = APPROVED"
  shows "(leave_employee l', leave_kind l', half_period l', leave_start l', leave_end l')
      = (leave_employee l, leave_kind l, half_period l, leave_start l, leave_end l)
    \<and> (leave_state l = APPROVED \<or> rules l)"
  using assms by (cases rule: leave_edge.cases) (auto simp: may_request_withdrawal_def split: if_splits)

lemma apart_cong:
  assumes "(leave_employee l', leave_kind l', half_period l', leave_start l', leave_end l')
      = (leave_employee l, leave_kind l, half_period l, leave_start l, leave_end l)"
    and "leave_state l' = leave_state l"
  shows "apart x l' = apart x l"
  using assms by (simp add: apart_def days_meet_def)

lemma no_double_booking_step:
  assumes "leaves_ok s" "no_double_booking s" "leave_step E c s s'"
  shows "no_double_booking s'"
  using assms(1,3)
proof (cases rule: leave_life.step_cases)
  case same
  then show ?thesis using assms(2) by (simp add: no_double_booking_def)
next
  case (new r)
  then have "apart x r" "apart r x" for x by (simp_all add: fresh_leave_def apart_def)
  then show ?thesis using assms(2) new(4) by (simp add: no_double_booking_def row_add_def)
next
  case (edge l l')
  have l: "l \<in> set (leaves s)" using row_get_SomeD[OF edge(1)] by simp
  have to: "apart x l'" if x: "x \<in> set (leaves s)" "leave_id x \<noteq> leave_id l'" for x
  proof (cases "leave_state l' = APPROVED")
    case True
    note b = edge_booking[OF edge(2) True]
    have "apart x (l\<lparr>leave_state := APPROVED\<rparr>)"
    proof (cases "leave_state l = APPROVED")
      case True
      then have "apart x l" using assms(2) x l edge(5) by (simp add: no_double_booking_def)
      then show ?thesis using apart_cong[of "l\<lparr>leave_state := APPROVED\<rparr>" l] True by simp
    next
      case False
      then show ?thesis using b approval_apart[of E s l x] x edge(5) by simp
    qed
    then show ?thesis using apart_cong[of l' "l\<lparr>leave_state := APPROVED\<rparr>" x] b True by simp
  qed (simp add: apart_def)
  show ?thesis unfolding no_double_booking_def
  proof (intro ballI impI)
    fix a b assume ab: "a \<in> set (leaves s')" "b \<in> set (leaves s')" "leave_id a \<noteq> leave_id b"
    have old: "x = l' \<or> x \<in> set (leaves s) \<and> leave_id x \<noteq> leave_id l'" if "x \<in> set (leaves s')" for x
      using that edge(6) rows.put_content_cases[of x leave_id l' "leaves s"] by simp
    show "apart a b" using old[OF ab(1)] old[OF ab(2)] ab(3) to apart_sym assms(2) by (auto simp: no_double_booking_def)
  qed
qed

lemma no_double_booking_run: "leave_run E s \<Longrightarrow> leaves_ok s \<and> no_double_booking s"
proof (induction rule: run.induct)
  case (run_init s)
  then show ?case by (simp add: no_rows_def rows_ok_def keys_unique_def no_double_booking_def)
next
  case (run_step s l s')
  then show ?case using leave_life.rows_ok_step no_double_booking_step by blast
next
  case (run_other s s')
  then show ?case using rows_ok_grow by (auto simp: others_keep_def no_double_booking_def)
qed

text \<open>What is left of a person's approved leave on one day: a single leave, or two different halves.\<close>

lemma day_weight:
  assumes "leaves_ok s" "no_double_booking s"
  shows "sum_list (map (weight_of \<circ> leave_kind)
    (filter (\<lambda>l. leave_employee l = i \<and> leave_state l = APPROVED \<and> off_on d l) (leaves s))) \<le> 1"
proof -
  define xs where "xs = filter (\<lambda>l. leave_employee l = i \<and> leave_state l = APPROVED \<and> off_on d l) (leaves s)"
  have sub: "x \<in> set xs \<Longrightarrow> x \<in> set (leaves s)" for x by (simp add: xs_def)
  have dk: "distinct (map leave_id xs)"
    using assms(1) by (simp add: xs_def rows_ok_def keys_unique_def distinct_map_filter)
  have pair: "\<not> clashes a (leave_kind b) (half_period b)" if "a \<in> set xs" "b \<in> set xs" "leave_id a \<noteq> leave_id b" for a b
  proof -
    have "days_meet a b" using that by (auto simp: xs_def off_on_def days_meet_def)
    moreover have "apart a b" using assms(2) that sub by (auto simp: no_double_booking_def)
    ultimately show ?thesis using that by (auto simp: apart_def xs_def)
  qed
  have half: "leave_kind a = HALF_DAY \<and> leave_kind b = HALF_DAY \<and> half_period a \<noteq> None \<and> half_period b \<noteq> None \<and> half_period a \<noteq> half_period b"
    if "a \<in> set xs" "b \<in> set xs" "leave_id a \<noteq> leave_id b" for a b
    using pair[OF that] by (auto simp: clashes_def split: if_splits)
  have "sum_list (map (weight_of \<circ> leave_kind) xs) \<le> 1"
  proof (cases xs)
    case (Cons a ys)
    show ?thesis
    proof (cases ys)
      case Nil
      then show ?thesis using Cons by (simp add: weight_of_def)
    next
      case (Cons b zs)
      have xs: "xs = a # b # zs" using \<open>xs = a # ys\<close> Cons by simp
      have "zs = []"
      proof (cases zs)
        case (Cons z ws)
        have "leave_id a \<noteq> leave_id b" "leave_id a \<noteq> leave_id z" "leave_id b \<noteq> leave_id z"
          using dk xs Cons by auto
        then have "half_period a \<noteq> half_period b" "half_period a \<noteq> half_period z" "half_period b \<noteq> half_period z"
          "half_period a \<noteq> None" "half_period b \<noteq> None" "half_period z \<noteq> None"
          using half[of a b] half[of a z] half[of b z] xs Cons by auto
        then show ?thesis by (metis half_day_period.exhaust option.exhaust)
      qed simp
      moreover have "leave_id a \<noteq> leave_id b" using dk xs by auto
      ultimately show ?thesis using half[of a b] xs by (simp add: weight_of_def)
    qed
  qed simp
  then show ?thesis by (simp add: xs_def)
qed

end
