(* ===== verification/LeaveProps.thy ===== *)
theory LeaveProps
  imports LeaveLaws
begin

text \<open>
  The properties of leave: what the workflow guarantees of every run, that the flags shown to a caller are
  what the operations accept, and that requests are charged to their leave years exactly.
\<close>

subsection \<open>A small run\<close>

definition demo_leave_db :: leave_db where
  "demo_leave_db = \<lparr>now = 0, next_id = 100, employees = [demo_employee 1 HR,
       (demo_employee 2 EXECUTIVE)\<lparr>manager_id := Some 3\<rparr>, demo_employee 3 MANAGER],
     audit_log = [], inbox = [], mail_log = [], adjustments = [], payslips = [], payroll_runs = [],
     leaves = [], leave_comments = [], leave_policy_row = None, allocations = [], tier_quotas = [],
     holiday_dates = [], work_week = 5\<rparr>"

definition demo_apply :: leave_create where
  "demo_apply = \<lparr>lc_type = UNPAID, lc_start = 10 * day_us, lc_end = 11 * day_us, lc_half = None, lc_reason = None\<rparr>"

definition demo_leave :: leave where
  "demo_leave = \<lparr>leave_id = 100, leave_employee = 2, leave_kind = UNPAID, half_period = None,
     leave_start = 10 * day_us, leave_end = 11 * day_us, leave_reason = None, leave_state = SUBMITTED,
     reviewer_id = Some 3, decided_at = None, decision_note = None, withdrawal_status = W_NONE,
     withdrawal_reason = None, withdrawal_requested_at = None, withdrawal_reviewer_id = None,
     withdrawal_decided_at = None, withdrawal_decision_note = None\<rparr>"

abbreviation demo_E :: env where
  "demo_E \<equiv> demo_env (\<lambda>m. True)"

abbreviation demo_staff :: current_user where
  "demo_staff \<equiv> \<lparr>cu_id = 2, cu_role = EXECUTIVE, cu_manager = Some 3, cu_payroll_manager = False\<rparr>"

abbreviation demo_lead :: current_user where
  "demo_lead \<equiv> \<lparr>cu_id = 3, cu_role = MANAGER, cu_manager = None, cu_payroll_manager = False\<rparr>"

lemmas demo_leave_defs = demo_leave_db_def demo_apply_def demo_leave_def demo_env_def demo_employee_def

lemma demo_apply_ok: "\<exists>s1. apply_leave demo_E demo_staff demo_apply demo_leave_db = Inr (demo_leave, s1)"
proof -
  have e: "find_employee 2 demo_leave_db = Some ((demo_employee 2 EXECUTIVE)\<lparr>manager_id := Some 3\<rparr>)"
    by (simp add: find_employee_def row_get_def demo_leave_defs)
  have 1: "enforce_not_past demo_E demo_apply demo_leave_db = Inr ()"
    by (simp add: enforce_not_past_def get_leave_policy_def default_leave_policy_def local_day_def utc_day_def
        day_us_def demo_leave_defs)
  have 2: "enforce_min_notice demo_E demo_apply demo_leave_db = Inr ()"
    by (simp add: enforce_min_notice_def notice_types_def demo_apply_def Let_def)
  have 3: "enforce_leave_rules demo_E x (from_create demo_apply) None demo_leave_db = Inr ()" for x
    by (simp add: enforce_leave_rules_def enforce_eligibility_def enforce_no_overlap_def enforce_balance_def
        from_create_def overlapping_def quota_bucket_def tracked_leave_def demo_apply_def demo_leave_db_def)
  have "fst (create_leave demo_apply 2 (Some 3) demo_leave_db) = demo_leave"
    by (simp add: create_leave_def demo_leave_defs Let_def)
  then show ?thesis by (simp add: apply_leave_def e 1 2 3 case_prod_unfold Let_def)
qed

text \<open>The employee applies, the manager approves, the employee asks for it back; then the manager first
  cancels it outright and afterwards declines the request that is still open.\<close>

definition demo_approved :: leave where
  "demo_approved = demo_leave\<lparr>leave_state := APPROVED, reviewer_id := Some 3, decided_at := Some 0, decision_note := None\<rparr>"

definition demo_asked :: leave where
  "demo_asked = demo_approved\<lparr>withdrawal_status := W_REQUESTED, withdrawal_reason := Some ''x'',
     withdrawal_requested_at := Some 0, withdrawal_reviewer_id := None, withdrawal_decided_at := None,
     withdrawal_decision_note := None\<rparr>"

text \<open>What each state of the run shows.\<close>

definition demo_state :: "leave \<Rightarrow> leave_db \<Rightarrow> bool" where
  "demo_state l s \<longleftrightarrow> leaves s = [l] \<and> employees s = employees demo_leave_db \<and> payslips s = [] \<and> now s = 0
     \<and> leave_run demo_E s"

lemma demo_stateI:
  assumes "quiet (s0 :: leave_db) s" "leaves s0 = [l]" "employees s0 = employees demo_leave_db" "payslips s0 = []"
    "now s0 = 0" "leave_run demo_E p" "leave_step demo_E c p s"
  shows "demo_state l s"
  using quiet_leave[OF assms(1)] quiet_core[OF assms(1)] assms(2-5) run_step[OF assms(6,7)]
  by (simp add: demo_state_def)

lemma demo_init: "leave_run demo_E demo_leave_db"
  by (rule run_init) (simp add: no_rows_def demo_leave_db_def)

lemma demo_1: "\<exists>s1. leave_step demo_E demo_staff demo_leave_db s1 \<and> demo_state demo_leave s1"
proof -
  obtain s1 where a: "apply_leave demo_E demo_staff demo_apply demo_leave_db = Inr (demo_leave, s1)"
    using demo_apply_ok by blast
  have v: "leave_create_ok demo_apply" by (simp add: leave_create_ok_def demo_apply_def day_us_def)
  have q: "quiet (snd (create_leave demo_apply 2 (Some 3) demo_leave_db)) s1" using apply_effect[OF v a] by simp
  have st: "leave_step demo_E demo_staff demo_leave_db s1" using leave_step.intros(1)[OF v a] .
  have "demo_state demo_leave s1"
    by (rule demo_stateI[OF q _ _ _ _ demo_init st])
      (simp_all add: create_leave_def row_add_def demo_leave_defs Let_def)
  then show ?thesis using st by blast
qed

lemma demo_lookup:
  assumes "demo_state l s" "leave_id l = 100" "leave_employee l = 2" "reviewer_id l = Some 3"
  shows "find_leave 100 s = Some l" "requester_manager_id l s = Some 3" "find_leave_in_scope demo_lead 100 s = Some l"
    "find_employee 2 s = Some ((demo_employee 2 EXECUTIVE)\<lparr>manager_id := Some 3\<rparr>)" "payroll_open s l"
  using assms by (simp_all add: demo_state_def find_leave_def row_get_def requester_manager_id_def find_employee_def
      find_leave_in_scope_def leave_scope_def enforce_payroll_open_def released_payroll_months_def demo_leave_defs Let_def)

lemma demo_put:
  assumes "demo_state l s" "leave_id l' = leave_id l" "leave_change demo_E c l' s s'" "leave_step demo_E c s s'"
  shows "demo_state l' s'"
  using assms(1,2,3) by (intro demo_stateI[OF _ _ _ _ _ _ assms(4), of "put_leave l' s"])
    (simp_all add: demo_state_def row_put_def leave_change_def)

lemma demo_put_step:
  assumes "demo_state l s" "map_sum id fst r = Inr l'" "leave_id l' = leave_id l"
    and "\<And>s'. r = Inr (l', s') \<Longrightarrow> leave_step demo_E c s s' \<and> leave_change demo_E c l' s s'"
  shows "\<exists>s'. leave_step demo_E c s s' \<and> demo_state l' s'"
proof -
  obtain s' where "r = Inr (l', s')" using assms(2) by (cases r) auto
  then show ?thesis using assms(4)[of s'] demo_put[OF assms(1,3)] by blast
qed

lemma demo_2:
  assumes "demo_state demo_leave s"
  shows "\<exists>s'. leave_step demo_E demo_lead s s' \<and> demo_state demo_approved s'"
proof -
  have l: "leave_id demo_leave = 100" "leave_employee demo_leave = 2" "reviewer_id demo_leave = Some 3"
    and st: "leave_state demo_leave = SUBMITTED" by (simp_all add: demo_leave_def)
  note f = demo_lookup[OF assms l]
  have r: "enforce_leave_rules demo_E x (from_leave demo_leave) (Some 100) s = Inr ()" if "emp_id x = 2" for x
    using assms that
    by (simp add: enforce_leave_rules_def enforce_eligibility_def enforce_no_overlap_def enforce_balance_def
        from_leave_def overlapping_def quota_bucket_def tracked_leave_def demo_leave_def demo_state_def)
  have "map_sum id fst (decide demo_E demo_lead 100 True None s) = Inr demo_approved"
    using assms by (simp add: decide_def f r may_decide_def l st Let_def demo_employee_def)
      (simp add: demo_approved_def demo_state_def)
  then show ?thesis
    by (rule demo_put_step[OF assms]) (auto simp: demo_approved_def intro: decide_change leave_step.intros(2))
qed

lemma demo_3:
  assumes "demo_state demo_approved s"
  shows "\<exists>s'. leave_step demo_E demo_staff s s' \<and> demo_state demo_asked s'"
proof -
  have l: "leave_id demo_approved = 100" "leave_employee demo_approved = 2" "reviewer_id demo_approved = Some 3"
    and st: "leave_state demo_approved = APPROVED" "withdrawal_status demo_approved = W_NONE"
    by (simp_all add: demo_leave_def demo_approved_def)
  note f = demo_lookup[OF assms l]
  have "map_sum id fst (request_withdrawal demo_E demo_staff 100 ''x'' s) = Inr demo_asked"
    using assms by (simp add: request_withdrawal_def f may_request_withdrawal_def l st Let_def)
      (simp add: demo_approved_def demo_asked_def demo_leave_def demo_state_def)
  then show ?thesis
    by (rule demo_put_step[OF assms]) (auto simp: demo_asked_def intro: request_withdrawal_change leave_step.intros(5))
qed

lemma demo_4:
  assumes "demo_state demo_asked s"
  shows "\<exists>s'. leave_step demo_E demo_lead s s' \<and> demo_state (demo_asked\<lparr>leave_state := CANCELLED\<rparr>) s'"
proof -
  let ?l = "demo_asked\<lparr>leave_state := CANCELLED\<rparr>"
  have l: "leave_id demo_asked = 100" "leave_employee demo_asked = 2" "reviewer_id demo_asked = Some 3"
    and st: "leave_state demo_asked = APPROVED" by (simp_all add: demo_leave_def demo_approved_def demo_asked_def)
  note f = demo_lookup[OF assms l]
  have "map_sum id fst (cancel_approved demo_E demo_lead 100 None s) = Inr ?l"
    using assms by (simp add: cancel_approved_def f may_cancel_approved_def l st Let_def)
  then show ?thesis
    by (rule demo_put_step[OF assms]) (auto intro: cancel_change leave_step.intros(4))
qed

lemma demo_5:
  assumes "demo_state (demo_asked\<lparr>leave_state := CANCELLED\<rparr>) s"
  shows "\<exists>s' l. leave_step demo_E demo_lead s s' \<and> demo_state l s' \<and> leave_state l = CANCELLED \<and> withdrawal_status l = W_REJECTED"
proof -
  let ?l = "demo_asked\<lparr>leave_state := CANCELLED, withdrawal_status := W_REJECTED, withdrawal_reviewer_id := Some 3,
    withdrawal_decided_at := Some 0, withdrawal_decision_note := None\<rparr>"
  have l: "leave_id (demo_asked\<lparr>leave_state := CANCELLED\<rparr>) = 100" "leave_employee (demo_asked\<lparr>leave_state := CANCELLED\<rparr>) = 2"
    "reviewer_id (demo_asked\<lparr>leave_state := CANCELLED\<rparr>) = Some 3"
    and st: "withdrawal_status demo_asked = W_REQUESTED" by (simp_all add: demo_leave_def demo_approved_def demo_asked_def)
  note f = demo_lookup[OF assms l]
  have "map_sum id fst (decide_withdrawal demo_E demo_lead 100 False None s) = Inr ?l"
    using assms by (simp add: decide_withdrawal_def f may_decide_withdrawal_def may_decide_def l st Let_def)
      (simp add: demo_approved_def demo_asked_def demo_leave_def demo_state_def)
  then have "\<exists>s'. leave_step demo_E demo_lead s s' \<and> demo_state ?l s'"
    by (rule demo_put_step[OF assms]) (auto intro: decide_withdrawal_change leave_step.intros(6))
  then show ?thesis by fastforce
qed

lemma demo_run:
  obtains s1 s2 s3 s4 s5 l where "demo_state demo_leave s1" "leave_step demo_E demo_lead s1 s2" "demo_state demo_approved s2"
    "leave_step demo_E demo_staff s2 s3" "demo_state demo_asked s3"
    "leave_step demo_E demo_lead s3 s4" "demo_state (demo_asked\<lparr>leave_state := CANCELLED\<rparr>) s4"
    "demo_state l s5" "leave_state l = CANCELLED" "withdrawal_status l = W_REJECTED"
  using demo_1 demo_2 demo_3 demo_4 demo_5 by metis

lemma demo_stateD:
  assumes "demo_state l s"
  shows "leave_run demo_E s" "leaves s = [l]" "leaves_ok s" "no_double_booking s"
  using assms no_double_booking_run[of demo_E s] by (simp_all add: demo_state_def)

subsection \<open>Days of a request\<close>

lemma working_days_bound: "0 \<le> working_days_between a b hs w \<and> working_days_between a b hs w \<le> max 0 (b - a + 1)"
  using counted_days_less[of a b hs w] by (simp add: working_days_between_filter)

lemma days_in_window_exact:
  assumes "snd w - fst w \<le> 366"
  shows "days_in_window t (a, b) w hs k
    = of_int (working_days_between (max (fst w) (utc_day a)) (min (snd w) (utc_day b)) hs k) * weight_of t"
proof -
  let ?n = "working_days_between (max (fst w) (utc_day a)) (min (snd w) (utc_day b)) hs k"
  have "0 \<le> ?n" "?n \<le> 367" using working_days_bound[of "max (fst w) (utc_day a)" "min (snd w) (utc_day b)" hs k] assms by linarith+
  then show ?thesis using fl_half_int[of ?n] fl_of_int[of ?n]
    by (simp add: days_in_window_def weight_of_def fmul_def to_float_small Let_def)
qed

lemma window_facts:
  defines "a d \<equiv> fst (leave_year_window d)" and "b d \<equiv> snd (leave_year_window d)"
  shows "a d \<le> d" "d \<le> b d" "b d - a d \<le> 366" "fst (leave_year_window (b d + 1)) = b d + 1"
  using leave_years_tile[of d] by (auto simp: a_def b_def case_prod_unfold Let_def)

text \<open>Holidays outside the range do not matter.\<close>

lemma working_days_holidays:
  assumes "\<And>d. a \<le> d \<Longrightarrow> d \<le> b \<Longrightarrow> d \<in> set hs \<longleftrightarrow> d \<in> set hs'"
  shows "working_days_between a b hs w = working_days_between a b hs' w"
proof -
  have "counted_days a b hs w = counted_days a b hs' w"
    unfolding counted_days_def by (rule filter_cong) (use assms in auto)
  then show ?thesis by (simp add: working_days_between_filter)
qed

lemma windows_split:
  assumes "start = day \<or> start \<le> day \<and> fst (leave_year_window day) = day"
  shows "sum_list (map (\<lambda>w. working_days_between (max (fst w) start) (min (snd w) last_day) hs k) (leave_year_windows day last_day))
    = working_days_between day last_day hs k"
  using assms
proof (induction day last_day rule: leave_year_windows.induct)
  case (1 day last_day)
  let ?w = "leave_year_window day"
  note f = window_facts[of day]
  show ?case
  proof (cases "day \<le> last_day")
    case True
    have m: "max (fst ?w) start = day" using 1(2) f(1) by auto
    have le: "start \<le> snd ?w + 1" using 1(2) f(2) by auto
    have rest: "sum_list (map (\<lambda>w. working_days_between (max (fst w) start) (min (snd w) last_day) hs k)
        (leave_year_windows (snd ?w + 1) last_day)) = working_days_between (snd ?w + 1) last_day hs k"
      by (rule 1(1)[OF True]) (use le f(4) in auto)
    have "working_days_between day (min (snd ?w) last_day) hs k + working_days_between (snd ?w + 1) last_day hs k
        = working_days_between day last_day hs k"
    proof (cases "snd ?w \<le> last_day")
      case True
      then show ?thesis using counted_days_split[of day "snd ?w" last_day hs k] f(2)
        by (simp add: working_days_between_filter)
    next
      case False
      then show ?thesis by (simp add: working_days_between_def)
    qed
    then show ?thesis using True m rest by (subst leave_year_windows.simps) simp
  next
    case False
    then show ?thesis by (subst leave_year_windows.simps) (simp add: working_days_between_def)
  qed
qed

lemma windows_are_years: "w \<in> set (leave_year_windows day last_day) \<Longrightarrow> \<exists>d. w = leave_year_window d"
proof (induction day last_day rule: leave_year_windows.induct)
  case (1 day last_day)
  then show ?case by (subst (asm) leave_year_windows.simps) (auto split: if_splits)
qed

subsection \<open>Properties\<close>

text \<open>C17 In every state the program reaches, a person's approved leave on a day adds up to at most one
  whole day: a single leave, or the two different halves. Applications, decisions and withdrawals of
  anybody may come in any order.\<close>

theorem one_day_per_day:
  assumes "leave_run E s"
  shows "sum_list (map (weight_of \<circ> leave_kind)
    (filter (\<lambda>l. leave_employee l = i \<and> leave_state l = APPROVED \<and> off_on d l) (leaves s))) \<le> 1"
  using no_double_booking_run[OF assms] day_weight by blast

theorem one_day_per_day_witness:
  "\<exists>s :: leave_db. (\<exists>l \<in> set (leaves s). leave_state l = APPROVED \<and> off_on 719173 l)
    \<and> sum_list (map (weight_of \<circ> leave_kind)
        (filter (\<lambda>l. leave_employee l = 2 \<and> leave_state l = APPROVED \<and> off_on 719173 l) (leaves s))) \<le> 1"
proof -
  obtain s where s: "demo_state demo_approved s" using demo_run by metis
  have "leave_state demo_approved = APPROVED \<and> off_on 719173 demo_approved"
    by (simp add: demo_approved_def demo_leave_def off_on_def utc_day_def epoch_def day_us_def)
  then show ?thesis using one_day_per_day[OF demo_stateD(1)[OF s], of 2 719173] demo_stateD(2)[OF s]
    by (intro exI[of _ s]) simp
qed

text \<open>C19 One operation moves a leave only along its life, and never at the wish of its owner alone: HR or
  the direct manager, never the person, approves, rejects or cancels; the person may only withdraw a
  request still pending. Whose leave it is, its type and its dates never change.\<close>

theorem leave_life_steps:
  assumes "leaves_ok s" "leave_step E c s s'" "find_leave i s = Some l"
  shows "\<exists>l'. find_leave i s' = Some l'
    \<and> (leave_employee l', leave_kind l', half_period l', leave_start l', leave_end l')
      = (leave_employee l, leave_kind l, half_period l, leave_start l, leave_end l)
    \<and> (leave_state l' = leave_state l
       \<or> leave_state l \<in> {SUBMITTED, DRAFT} \<and> leave_state l' = WITHDRAWN \<and> cu_id c = leave_employee l
       \<or> cu_id c \<noteq> leave_employee l \<and> (cu_role c = HR \<or> requester_manager_id l s = Some (cu_id c))
         \<and> (leave_state l = SUBMITTED \<and> leave_state l' \<in> {APPROVED, REJECTED}
            \<or> leave_state l = APPROVED \<and> leave_state l' = CANCELLED \<and> payroll_open s l))"
proof -
  have ok: "leave_ok l" using rows_ok_getD[OF assms(1)] assms(3) by (simp add: find_leave_def)
  obtain l' where l': "find_leave i s' = Some l'" "l' = l \<or> edge_of E c s l l'"
    using leave_life.row_moves[OF assms(1,2)] assms(3) by (auto simp: find_leave_def)
  have "edge_of E c s l l' \<Longrightarrow> ?thesis"
    using l'(1) ok by (intro exI[of _ l'], elim leave_edgeE)
      (auto simp: may_decide_def may_cancel_approved_def may_decide_withdrawal_def leave_ok_def split: if_splits)
  then show ?thesis using l' by auto
qed

theorem leave_life_steps_witness:
  "\<exists>(s :: leave_db) s' l'. leave_step demo_E demo_lead s s' \<and> find_leave 100 s' = Some l' \<and> leave_kind l' = UNPAID"
proof -
  obtain s s' where s: "demo_state demo_leave s" "leave_step demo_E demo_lead s s'" using demo_run by metis
  have f: "find_leave 100 s = Some demo_leave"
    using demo_stateD(2)[OF s(1)] by (simp add: find_leave_def row_get_def demo_leave_def)
  show ?thesis using leave_life_steps[OF demo_stateD(3)[OF s(1)] s(2) f] s(2) by (auto simp: demo_leave_def)
qed

text \<open>C20 The flags shown next to a leave are what the operations accept: a caller who can see the leave
  may decide it, or its withdrawal, exactly when the flag says so, and may cancel it, or ask for it
  back, exactly when the flag says so and none of its months is paid.\<close>

theorem permission_flags_exact:
  assumes "find_leave_in_scope c i s = Some l" "permissions c [l] s = [(i, p)]"
  shows "(lp_can_decide p \<longleftrightarrow> (\<exists>x. decide E c i False n s = Inr x))
    \<and> (lp_can_decide_withdrawal p \<longleftrightarrow> (\<exists>x. decide_withdrawal E c i False n s = Inr x))
    \<and> (lp_can_cancel p \<and> payroll_open s l \<longleftrightarrow> (\<exists>x. cancel_approved E c i n s = Inr x))
    \<and> (lp_can_request_withdrawal p \<and> payroll_open s l \<longleftrightarrow> (\<exists>x. request_withdrawal E c i r s = Inr x))"
proof -
  note f = in_scopeD[OF assms(1), THEN conjunct1]
  have p: "p = \<lparr>lp_can_decide = can_decide_now c l (requester_manager_id l s), lp_can_cancel = may_cancel_approved c l (requester_manager_id l s),
      lp_can_request_withdrawal = may_request_withdrawal c l, lp_can_decide_withdrawal = may_decide_withdrawal c l (requester_manager_id l s)\<rparr>"
    using assms(2) by (auto simp: permissions_def Let_def)
  have "lp_can_decide p \<longleftrightarrow> (\<exists>x. decide E c i False n s = Inr x)"
    by (simp add: p decide_def assms(1) can_decide_now_def Let_def)
  moreover have "lp_can_decide_withdrawal p \<longleftrightarrow> (\<exists>x. decide_withdrawal E c i False n s = Inr x)"
    by (simp add: p decide_withdrawal_def assms(1) may_decide_withdrawal_def Let_def)
  moreover have "lp_can_cancel p \<and> payroll_open s l \<longleftrightarrow> (\<exists>x. cancel_approved E c i n s = Inr x)"
    by (cases "enforce_payroll_open l s") (auto simp: p cancel_approved_def assms(1) may_cancel_approved_def Let_def)
  moreover have "lp_can_request_withdrawal p \<and> payroll_open s l \<longleftrightarrow> (\<exists>x. request_withdrawal E c i r s = Inr x)"
    by (cases "enforce_payroll_open l s") (auto simp: p request_withdrawal_def f may_request_withdrawal_def Let_def)
  ultimately show ?thesis by blast
qed

theorem permission_flags_exact_witness:
  "\<exists>(s :: leave_db) x. demo_state demo_leave s \<and> decide demo_E demo_lead 100 False None s = Inr x"
proof -
  obtain s where s: "demo_state demo_leave s" using demo_run by metis
  have l: "leave_id demo_leave = 100" "leave_employee demo_leave = 2" "reviewer_id demo_leave = Some 3"
    "leave_state demo_leave = SUBMITTED" by (simp_all add: demo_leave_def)
  note f = demo_lookup[OF s l(1,2,3)]
  let ?p = "snd (hd (permissions demo_lead [demo_leave] s))"
  have "permissions demo_lead [demo_leave] s = [(100, ?p)]" by (simp add: permissions_def l Let_def)
  moreover have "lp_can_decide ?p" by (simp add: permissions_def can_decide_now_def may_decide_def l f Let_def)
  ultimately have "\<exists>x. decide demo_E demo_lead 100 False None s = Inr x"
    using permission_flags_exact[OF f(3), of ?p demo_E None] by blast
  then show ?thesis using s by blast
qed

text \<open>C22 Charging a request to the leave years it touches loses no day and counts none twice: the parts
  add up to its working days, halves for a half day, with no rounding.\<close>

theorem leave_years_split_exact:
  "sum_list (map (\<lambda>w. days_in_window t (a, b) w (holidays_in (fst w) (snd w) s) (work_week s))
     (leave_year_windows (utc_day a) (utc_day b)))
   = of_int (working_days_between (utc_day a) (utc_day b) (holiday_dates s) (work_week s)) * weight_of t"
proof -
  let ?ws = "leave_year_windows (utc_day a) (utc_day b)"
  let ?n = "\<lambda>w. working_days_between (max (fst w) (utc_day a)) (min (snd w) (utc_day b)) (holiday_dates s) (work_week s)"
  have one: "days_in_window t (a, b) w (holidays_in (fst w) (snd w) s) (work_week s) = of_int (?n w) * weight_of t"
    if w: "w \<in> set ?ws" for w
  proof -
    obtain d where d: "w = leave_year_window d" using windows_are_years[OF w] by blast
    have "working_days_between (max (fst w) (utc_day a)) (min (snd w) (utc_day b)) (holidays_in (fst w) (snd w) s) (work_week s) = ?n w"
      by (rule working_days_holidays) (auto simp: holidays_in_def)
    then show ?thesis using days_in_window_exact[of w t a b] window_facts(3)[of d] d by simp
  qed
  have "sum_list (map (\<lambda>w. of_int (?n w) * weight_of t) ws) = of_int (sum_list (map ?n ws)) * weight_of t" for ws
    by (induction ws) (simp_all add: algebra_simps)
  then show ?thesis using one windows_split[of "utc_day a" "utc_day a" "utc_day b"] by (simp cong: map_cong)
qed

text \<open>C21 An approved leave of a month whose payslips are out stays approved, whatever anybody does.\<close>

theorem paid_leave_frozen:
  assumes "leaves_ok s" "leave_step E c s s'" "find_leave i s = Some l" "leave_state l = APPROVED"
    and "m \<in> set (months_between (utc_day (leave_start l)) (utc_day (leave_end l)))" "payslips_for_month m s \<noteq> []"
  shows "\<exists>l'. find_leave i s' = Some l' \<and> leave_state l' = APPROVED"
proof -
  obtain p where "p \<in> set (payslips s)" "ps_period p = m"
    using assms(6) by (auto simp: payslips_for_month_def filter_empty_conv)
  then have "m \<in> set (released_payroll_months (months_between (utc_day (leave_start l)) (utc_day (leave_end l))) s)"
    using assms(5) by (auto simp: released_payroll_months_def)
  then have "\<not> payroll_open s l"
    by (cases "released_payroll_months (months_between (utc_day (leave_start l)) (utc_day (leave_end l))) s")
      (simp_all add: enforce_payroll_open_def)
  then show ?thesis using leave_life_steps[OF assms(1-3)] assms(4) by auto
qed

theorem paid_leave_frozen_witness:
  "\<exists>(s :: leave_db) s' l'. payslips_for_month ''1970-01'' s \<noteq> [] \<and> leave_step demo_E demo_staff s s'
    \<and> find_leave 100 s' = Some l' \<and> leave_state l' = APPROVED"
proof -
  let ?s = "demo_leave_db\<lparr>leaves := [demo_approved], next_id := 101,
    payslips := [snapshot_of (demo_line 500) ''1970-01'' None 0]\<rparr>"
  have days: "utc_day (leave_start demo_approved) = 719173" "utc_day (leave_end demo_approved) = 719174"
    by (simp_all add: demo_approved_def demo_leave_def utc_day_def epoch_def day_us_def)
  have m: "''1970-01'' \<in> set (months_between 719173 719174)" by code_simp
  have ok: "leaves_ok ?s"
    by (simp add: rows_ok_def keys_unique_def leave_ok_def demo_approved_def demo_leave_def day_us_def)
  have f: "find_leave 100 ?s = Some demo_approved" "leave_state demo_approved = APPROVED"
    by (simp_all add: find_leave_def row_get_def demo_approved_def demo_leave_def)
  have p: "payslips_for_month ''1970-01'' ?s \<noteq> []" by (simp add: payslips_for_month_def)
  obtain x s' where "read_balance demo_E demo_staff None ?s = Inr (x, s')"
    by (simp add: read_balance_def find_employee_def row_get_def demo_leave_db_def demo_employee_def)
  then have st: "leave_step demo_E demo_staff ?s s'" by (rule leave_step.intros(7))
  have "\<exists>l'. find_leave 100 s' = Some l' \<and> leave_state l' = APPROVED"
    by (rule paid_leave_frozen[OF ok st f _ p]) (simp only: days m)
  then show ?thesis using st p by blast
qed

text \<open>A leave cancelled while its withdrawal request is open can still have that request declined: the
  record then says both that the leave is cancelled and that it stands.\<close>

theorem cancelled_but_declined:
  "\<exists>(s :: leave_db) l. leave_run demo_E s \<and> leaves s = [l] \<and> leave_state l = CANCELLED \<and> withdrawal_status l = W_REJECTED"
proof -
  obtain s l where "demo_state l s" "leave_state l = CANCELLED" "withdrawal_status l = W_REJECTED" using demo_run by metis
  then show ?thesis using demo_stateD[of l s] by blast
qed

end
