(* ===== verification/LeaveQuota.thy ===== *)
theory LeaveQuota
  imports LeaveProps
begin

text \<open>
  Approving leave never overspends a quota. The balance is a sum of half days in floats; as long as the
  figures are half days and the table is of a sane size every sum is exact, and the days used after an
  approval are the days used before plus the days of the leave, within the allocation.
\<close>

subsection \<open>Sums over a table\<close>

lemma sum_row_put:
  fixes f :: "'r \<Rightarrow> 'b :: ab_group_add"
  assumes "keys_unique key rws" "row_get key (key r') rws = Some r"
  shows "sum_list (map f (row_put key r' rws)) = sum_list (map f rws) - f r + f r'"
  using assms
proof (induction rws)
  case (Cons x xs)
  show ?case
  proof (cases "key x = key r'")
    case True
    have "key r' \<notin> key ` set xs" using Cons.prems(1) True by (auto simp: keys_unique_def)
    then have "row_put key r' xs = xs" unfolding row_put_def by (intro map_idI) (auto simp: rev_image_eqI)
    then show ?thesis using True Cons.prems(2) by (simp add: row_put_def row_get_def)
  next
    case False
    then have "row_get key (key r') xs = Some r" using Cons.prems(2) by (simp add: row_get_def)
    then show ?thesis using Cons False by (simp add: row_put_def keys_unique_def algebra_simps)
  qed
qed (simp add: row_get_def)

subsection \<open>Half days add exactly\<close>

definition half_days :: "rat \<Rightarrow> bool" where
  "half_days x \<longleftrightarrow> x = of_int \<lfloor>2 * x\<rfloor> / 2 \<and> \<bar>x\<bar> \<le> 1000000"

lemma half_daysE:
  assumes "half_days x"
  obtains k :: int where "x = of_int k / 2" "\<bar>k\<bar> \<le> 2000000"
proof
  show x: "x = of_int \<lfloor>2 * x\<rfloor> / 2" using assms by (simp add: half_days_def)
  have "\<bar>of_int \<lfloor>2 * x\<rfloor> / 2 :: rat\<bar> \<le> 1000000" using assms x by (simp add: half_days_def)
  then have "\<bar>of_int \<lfloor>2 * x\<rfloor> :: rat\<bar> \<le> 2000000" by simp
  then show "\<bar>\<lfloor>2 * x\<rfloor>\<bar> \<le> 2000000" by linarith
qed

definition part_of :: "balance_context \<Rightarrow> leave_type list \<Rightarrow> leave \<Rightarrow> rat" where
  "part_of b types l = (if leave_kind l \<in> set types
     then days_in_window (leave_kind l) (leave_start l, leave_end l) (bc_window b) (bc_holidays b) (bc_week b) else 0)"

lemma part_half:
  assumes "snd (bc_window b) - fst (bc_window b) \<le> 366"
  obtains k :: int where "0 \<le> k" "k \<le> 734" "part_of b types l = of_int k / 2"
proof -
  let ?n = "working_days_between (max (fst (bc_window b)) (utc_day (leave_start l)))
    (min (snd (bc_window b)) (utc_day (leave_end l))) (bc_holidays b) (bc_week b)"
  have n: "0 \<le> ?n" "?n \<le> 367"
    using working_days_bound[of "max (fst (bc_window b)) (utc_day (leave_start l))"
        "min (snd (bc_window b)) (utc_day (leave_end l))" "bc_holidays b" "bc_week b"] assms by linarith+
  have "part_of b types l = (if leave_kind l \<in> set types then of_int ?n * weight_of (leave_kind l) else 0)"
    using days_in_window_exact[OF assms] by (simp add: part_of_def)
  then have "part_of b types l = of_int (if leave_kind l \<in> set types then if leave_kind l = HALF_DAY then ?n else 2 * ?n else 0) / 2"
    by (simp add: weight_of_def)
  then show thesis using n by (intro that) (auto split: if_splits)
qed

lemma bucket_days_sum:
  assumes w: "snd (bc_window b) - fst (bc_window b) \<le> 366" and "length rws \<le> 1000000"
  shows "bucket_days b rws types = sum_list (map (part_of b types) rws)
    \<and> (\<exists>k :: int. 0 \<le> k \<and> k \<le> 734 * int (length rws) \<and> sum_list (map (part_of b types) rws) = of_int k / 2)"
  using assms(2)
proof (induction rws rule: rev_induct)
  case Nil
  show ?case by (intro conjI exI[of _ 0]) (simp_all add: bucket_days_def)
next
  case (snoc l rws)
  obtain k :: int where k: "0 \<le> k" "k \<le> 734 * int (length rws)" "sum_list (map (part_of b types) rws) = of_int k / 2"
    and s: "bucket_days b rws types = sum_list (map (part_of b types) rws)" using snoc by auto
  obtain j :: int where j: "0 \<le> j" "j \<le> 734" "part_of b types l = of_int j / 2" by (rule part_half[OF w])
  have "\<bar>k + j\<bar> \<le> 2 ^ 53" using k(1,2) j(1,2) snoc.prems by simp
  then have f: "fl (of_int (k + j) / 2) = of_int (k + j) / 2" by (rule fl_half_int)
  have z: "fl (of_int k / 2) = of_int k / 2" using k(1,2) snoc.prems by (intro fl_half_int) simp
  have "bucket_days b (rws @ [l]) types = of_int (k + j) / 2"
  proof (cases "leave_kind l \<in> set types")
    case True
    then have "bucket_days b (rws @ [l]) types = fadd (bucket_days b rws types) (part_of b types l)"
      by (simp add: bucket_days_def part_of_def)
    then show ?thesis using s k(3) j(3) f by (simp add: fadd_def add_divide_distrib)
  next
    case False
    then have "part_of b types l = 0" by (simp add: part_of_def)
    moreover have "bucket_days b (rws @ [l]) types = bucket_days b rws types" using False by (simp add: bucket_days_def)
    ultimately show ?thesis using s k(3) j(3) by simp
  qed
  moreover have "sum_list (map (part_of b types) (rws @ [l])) = of_int (k + j) / 2"
    using k(3) j(3) by (simp add: add_divide_distrib)
  ultimately show ?case using k(1,2) j(1,2) by (intro conjI exI[of _ "k + j"]) simp_all
qed

subsection \<open>Rows of the balance\<close>

lemma b_type_row [simp]: "b_type (balance_row b a p x) = fst x"
  by (simp add: balance_row_def case_prod_unfold Let_def)

definition tracked_row :: "env \<Rightarrow> employee \<Rightarrow> date option \<Rightarrow> 'a leave_db_scheme \<Rightarrow>
    leave_type \<times> (leave_policy \<Rightarrow> int) \<times> leave_type list \<Rightarrow> leave_balance" where
  "tracked_row E e on s x = (let b = balance_context_of E e on s;
      rws = (\<lambda>st. for_employee_in_window (emp_id e) (utc_midnight (fst (bc_window b)))
        (utc_midnight (snd (bc_window b)) + day_us) st s)
    in balance_row b (rws APPROVED) (rws SUBMITTED) x)"

lemma quota_bucket_row:
  assumes "quota_bucket t = Some q"
  shows "\<exists>attr members. t \<in> set members \<and> (\<forall>E e on s. List.find (\<lambda>r. b_type r = q) (balances (compute_balance E e on s))
      = Some (tracked_row E e on s (q, attr, members)))"
proof -
  obtain x where x: "List.find (\<lambda>(_, _, members). t \<in> set members) tracked_leave = Some x" "fst x = q"
    using assms by (auto simp: quota_bucket_def)
  then have m: "x \<in> set tracked_leave" "t \<in> set (snd (snd x))" using find_Some_set by fastforce+
  have "List.find (\<lambda>r. b_type r = q) (map (balance_row b a p) tracked_leave @ ys) = Some (balance_row b a p x)" for b a p ys
    using m(1) x(2) by (auto simp: tracked_leave_def)
  then show ?thesis using m(2) x(2) by (intro exI[of _ "fst (snd x)"] exI[of _ "snd (snd x)"]) (auto simp: compute_balance_def tracked_row_def Let_def)
qed

lemma window_again: "leave_year_window (fst (leave_year_window d)) = leave_year_window d"
proof -
  obtain a b where w: "leave_year_window d = (a, b)" by (cases "leave_year_window d")
  have t: "a \<le> d \<and> d \<le> b \<and> (\<forall>x. (a \<le> x \<and> x \<le> b) = (leave_year_window x = (a, b)))"
    using leave_years_tile[of d] unfolding w by simp
  then have "leave_year_window a = (a, b)" by (metis order.trans order_refl)
  then show ?thesis by (simp add: w)
qed

lemma context_same:
  assumes "quiet (put_leave l s) s'"
  shows "balance_context_of E e on s' = balance_context_of E e on s"
proof -
  note m = leave_fields_more[OF quiet_core[OF assms, THEN conjunct1]] quiet_core[OF assms]
  show ?thesis using m
    by (simp add: balance_context_of_def get_leave_policy_def allocation_of_def holidays_in_def put_leave_def)
qed

lemma each_Inr: "each f xs = Inr () \<Longrightarrow> x \<in> set xs \<Longrightarrow> f x = Inr ()"
  by (induction xs) (auto simp: ebind_Inr_iff)

lemma approve_facts:
  assumes "decide E c i True n s = Inr (l', s')"
  obtains l e where "find_leave (leave_id l) s = Some l" "leave_state l = SUBMITTED"
    "find_employee (leave_employee l) s = Some e"
    "enforce_leave_rules E e (from_leave l) (Some (leave_id l)) s = Inr ()"
    "l' = l\<lparr>leave_state := APPROVED, reviewer_id := Some (cu_id c), decided_at := Some (now s), decision_note := n\<rparr>"
proof -
  obtain l where l: "find_leave_in_scope c i s = Some l" "may_decide c l (requester_manager_id l s)" "leave_state l = SUBMITTED"
    using assms by (auto simp: decide_def ebind_Inr_iff split: if_splits)
  then obtain e where e: "find_employee (leave_employee l) s = Some e"
    using assms unfolding decide_def by (cases "find_employee (leave_employee l) s") simp_all
  then have r: "enforce_leave_rules E e (from_leave l) (Some (leave_id l)) s = Inr ()"
    using assms l unfolding decide_def by (cases "enforce_leave_rules E e (from_leave l) (Some (leave_id l)) s") simp_all
  have "find_leave (leave_id l) s = Some l" using in_scopeD[OF l(1)] find_leave_id by metis
  then show thesis using that[OF _ l(3) e r] assms l e r unfolding decide_def by (simp add: Let_def)
qed

text \<open>C18 Approving leave never overspends: in every leave year the request touches, if the person's
  band grants the type, the days used after the approval are those used before plus the days of the
  request inside that year, and they are within the allocation.\<close>

theorem approval_within_quota:
  fixes s s' :: "'a leave_db_scheme"
  assumes "leaves_ok s" "decide E c i True n s = Inr (l', s')" "find_employee (leave_employee l') s = Some e"
    and "quota_bucket (leave_kind l') = Some q"
    and "w \<in> set (leave_year_windows (utc_day (leave_start l')) (utc_day (leave_end l')))"
    and "List.find (\<lambda>r. b_type r = q) (balances (compute_balance E e (Some (fst w)) s)) = Some r" "eligible r"
    and "List.find (\<lambda>r. b_type r = q) (balances (compute_balance E e (Some (fst w)) s')) = Some r'"
    and "half_days (allocated r)" "half_days (used_before r)" "length (leaves s) \<le> 1000000"
  shows "used r' = used r + days_in_window (leave_kind l') (leave_start l', leave_end l') w
           (holidays_in (fst w) (snd w) s) (work_week s)
    \<and> used r' \<le> allocated r' \<and> allocated r' = allocated r"
proof -
  obtain l x where l: "find_leave (leave_id l) s = Some l" "leave_state l = SUBMITTED"
    and x: "find_employee (leave_employee l) s = Some x" "enforce_leave_rules E x (from_leave l) (Some (leave_id l)) s = Inr ()"
    and l': "l' = l\<lparr>leave_state := APPROVED, reviewer_id := Some (cu_id c), decided_at := Some (now s), decision_note := n\<rparr>"
    by (rule approve_facts[OF assms(2)])
  have "x = e" using x(1) assms(3) by (simp add: l')
  note rules = x(2)[unfolded this]
  have q: "quiet (put_leave l' s) s'" using decide_change[OF assms(2)] by (simp add: leave_change_def)
  obtain attr members where row: "leave_kind l' \<in> set members"
    and find: "\<forall>E e on s. List.find (\<lambda>r. b_type r = q) (balances (compute_balance E e on (s :: 'a leave_db_scheme)))
      = Some (tracked_row E e on s (q, attr, members))"
    using quota_bucket_row[OF assms(4)] by blast
  define b where "b = balance_context_of E e (Some (fst w)) s"
  obtain d where d: "w = leave_year_window d" using windows_are_years[OF assms(5)] by blast
  have bw: "bc_window b = w"
    using window_again[of d] by (simp add: d b_def balance_context_of_def Let_def)
  have len: "snd (bc_window b) - fst (bc_window b) \<le> 366" using window_facts(3)[of d] bw d by simp
  have bh: "bc_holidays b = holidays_in (fst w) (snd w) s" "bc_week b = work_week s"
    using bw by (auto simp: b_def balance_context_of_def Let_def)
  have b': "balance_context_of E e (Some (fst w)) s' = b" using context_same[OF q] by (simp add: b_def)
  define hit where "hit x \<longleftrightarrow> leave_employee x = emp_id e \<and> leave_state x = APPROVED
    \<and> leave_start x < utc_midnight (snd w) + day_us \<and> leave_end x \<ge> utc_midnight (fst w)" for x :: leave
  define g where "g x = (if hit x then part_of b members x else 0)" for x
  have used: "used r = fadd (bucket_days b (filter hit (leaves s)) members) (used_before r)"
      "used r' = fadd (bucket_days b (filter hit (leaves s')) members) (used_before r)"
      "allocated r' = allocated r" "allocated r = quota b q attr"
    using assms(6,8) find[rule_format, of E e "Some (fst w)" s] find[rule_format, of E e "Some (fst w)" s'] b' b_def[symmetric] bw
    by (auto simp: tracked_row_def balance_row_def for_employee_in_window_def hit_def[abs_def] Let_def)
  have lv: "leaves s' = row_put leave_id l' (leaves s)" using quiet_leave[OF q] by simp
  have small: "length (filter hit xs) \<le> length xs" for xs by (rule length_filter_le)
  have sums: "bucket_days b (filter hit xs) members = sum_list (map g xs)
      \<and> (\<exists>k :: int. 0 \<le> k \<and> k \<le> 734000000 \<and> sum_list (map g xs) = of_int k / 2)" if "length xs \<le> 1000000" for xs
  proof -
    have le: "length (filter hit xs) \<le> 1000000" using small[of xs] that by linarith
    then have "734 * int (length (filter hit xs)) \<le> 734000000" by simp
    moreover have "sum_list (map (part_of b members) (filter hit xs)) = sum_list (map g xs)"
      by (simp add: sum_list_map_filter' g_def[abs_def])
    ultimately show ?thesis using bucket_days_sum[OF len le, of members] by (auto intro: order_trans)
  qed
  obtain k :: int where k: "0 \<le> k" "k \<le> 734000000" "bucket_days b (filter hit (leaves s)) members = of_int k / 2"
    "sum_list (map g (leaves s)) = of_int k / 2" using sums[OF assms(11)] by auto
  obtain u :: int where u: "used_before r = of_int u / 2" "\<bar>u\<bar> \<le> 2000000" by (rule half_daysE[OF assms(10)])
  obtain a :: int where a: "allocated r = of_int a / 2" "\<bar>a\<bar> \<le> 2000000" by (rule half_daysE[OF assms(9)])
  have half: "fl (of_int x / 2) = of_int x / 2" if "\<bar>x\<bar> \<le> 3000000000" for x using that by (intro fl_half_int) simp
  have hadd: "fadd (of_int x / 2) (of_int y / 2) = of_int (x + y) / 2" if "\<bar>x + y\<bar> \<le> 3000000000" for x y
    using half[OF that] by (simp add: fadd_def add_divide_distrib)
  have hsub: "fsub (of_int x / 2) (of_int y / 2) = of_int (x - y) / 2" if "\<bar>x - y\<bar> \<le> 3000000000" for x y
    using half[OF that] by (simp add: fsub_def diff_divide_distrib)
  have ur: "used r = of_int (k + u) / 2"
    unfolding used(1) k(3) u(1) by (rule hadd) (use k u in linarith)
  have em: "emp_id e = leave_employee l'" using find_employee_id[OF assms(3)] by simp
  let ?days = "days_in_window (leave_kind l') (leave_start l', leave_end l') w (holidays_in (fst w) (snd w) s) (work_week s)"
  have part: "part_of b members l' = ?days" using row bw bh by (simp add: part_of_def)
  obtain j :: int where j: "0 \<le> j" "j \<le> 734" "?days = of_int j / 2"
    using part_half[OF len, of members l'] part by auto
  have gl: "g l = 0" using l(2) by (simp add: g_def hit_def)
  have gl': "g l' = ?days"
  proof (cases "hit l'")
    case True
    then show ?thesis using part by (simp add: g_def)
  next
    case False
    then have "utc_midnight (snd w + 1) \<le> leave_start l' \<or> leave_end l' < utc_midnight (fst w)"
      using em by (auto simp: hit_def l' utc_midnight_def day_us_def)
    then have "snd w + 1 \<le> utc_day (leave_start l') \<or> utc_day (leave_end l') < fst w"
      by (simp add: utc_midnight_le_iff less_utc_midnight_iff)
    then have "working_days_between (max (fst w) (utc_day (leave_start l'))) (min (snd w) (utc_day (leave_end l')))
        (holidays_in (fst w) (snd w) s) (work_week s) = 0"
      using window_facts(1,2)[of d] d by (auto simp: working_days_between_def)
    then have "?days = 0" by (simp add: days_in_window_def to_float_def fmul_def Let_def)
    then show ?thesis using False by (simp add: g_def)
  qed
  have un: "keys_unique leave_id (leaves s)" using assms(1) by (simp add: rows_ok_def)
  have get: "row_get leave_id (leave_id l') (leaves s) = Some l" using l(1) by (simp add: l' find_leave_def)
  have s': "sum_list (map g (leaves s')) = of_int (k + j) / 2"
    unfolding lv sum_row_put[OF un get] using gl gl' k(4) j(3) by (simp add: add_divide_distrib)
  have "length (leaves s') \<le> 1000000" using assms(11) by (simp add: lv)
  then have "bucket_days b (filter hit (leaves s')) members = of_int (k + j) / 2" using sums[of "leaves s'"] s' by simp
  then have ur': "used r' = of_int (k + j + u) / 2"
    unfolding used(2) u(1) by (simp only: ) (rule hadd, use k j u in linarith)
  have "enforce_balance E e (from_leave l) True s = Inr ()"
    using rules by (auto simp: enforce_leave_rules_def ebind_Inr_iff)
  then have "enforce_year_balance E e (from_leave l) q True w (w \<noteq> leave_year_window (local_day E (now s))) s = Inr ()"
    using assms(4,5) each_Inr by (fastforce simp: enforce_balance_def from_leave_def l' Let_def)
  then have "?days \<le> fsub (allocated r) (used r)"
    using assms(6,7) by (auto simp: enforce_year_balance_def from_leave_def l' Let_def split: if_splits)
  also have "fsub (allocated r) (used r) = of_int (a - (k + u)) / 2"
    unfolding a(1) ur by (rule hsub) (use k u a in linarith)
  finally have "?days \<le> of_int (a - (k + u)) / 2" .
  then have "j \<le> a - (k + u)" by (simp add: j(3))
  then show ?thesis using ur ur' j(3) a(1) used(3) by (simp add: add_divide_distrib[symmetric])
qed

text \<open>A sick request of one working day on a fresh quota of six.\<close>

definition demo_sick :: leave where
  "demo_sick = demo_leave\<lparr>leave_kind := SICK\<rparr>"

definition demo_sick_db :: leave_db where
  "demo_sick_db = demo_leave_db\<lparr>leaves := [demo_sick], next_id := 101\<rparr>"

definition demo_person :: employee where
  "demo_person = (demo_employee 2 EXECUTIVE)\<lparr>manager_id := Some 3\<rparr>"

lemma demo_windows: "leave_year_windows 719173 719174 = [leave_year_window 719173]"
  by code_simp

lemma demo_sick_row:
  obtains r where "List.find (\<lambda>r. b_type r = SICK) (balances (compute_balance demo_E demo_person on demo_sick_db)) = Some r"
    "eligible r" "half_days (allocated r)" "half_days (used_before r)" "allocated r = 6" "used r = 0"
proof -
  let ?r = "tracked_row demo_E demo_person on demo_sick_db (SICK, annual_sick_days, [SICK])"
  let ?b = "balance_context_of demo_E demo_person on demo_sick_db"
  have f: "List.find (\<lambda>r. b_type r = SICK) (balances (compute_balance demo_E demo_person on demo_sick_db)) = Some ?r"
    by (simp add: compute_balance_def tracked_row_def tracked_leave_def Let_def)
  have b: "bc_allocation ?b = None" "bc_tier_row ?b SICK = None" "bc_policy ?b = default_leave_policy"
    by (simp_all add: balance_context_of_def allocation_of_def row_get_def seed_tiers_def tier_seed_def get_leave_policy_def
        demo_sick_db_def demo_person_def demo_leave_defs Let_def)
  have none: "for_employee_in_window (emp_id demo_person) x y APPROVED demo_sick_db = []" for x y
    by (simp add: for_employee_in_window_def demo_sick_db_def demo_sick_def demo_leave_def)
  have six: "to_float 6 = 6" by (simp add: to_float_small)
  have "eligible ?r" "allocated ?r = 6" "used_before ?r = 0" "used ?r = 0"
    by (simp_all add: tracked_row_def balance_row_def not_yet_def override_of_def quota_def taken_before_def b none six
        default_leave_policy_def bucket_days_def fadd_def Let_def)
  then show thesis using that[OF f] by (simp add: half_days_def)
qed

lemma demo_sick_balance: "enforce_balance demo_E demo_person (from_leave demo_sick) True demo_sick_db = Inr ()"
proof -
  let ?w = "leave_year_window 719173"
  have days: "utc_day (leave_start demo_sick) = 719173" "utc_day (leave_end demo_sick) = 719174" "leave_kind demo_sick = SICK"
    by (simp_all add: demo_sick_def demo_leave_def utc_day_def epoch_def day_us_def)
  obtain r where r: "List.find (\<lambda>r. b_type r = SICK) (balances (compute_balance demo_E demo_person (Some (fst ?w)) demo_sick_db)) = Some r"
    "eligible r" "allocated r = 6" "used r = 0" by (rule demo_sick_row)
  let ?n = "working_days_between (max (fst ?w) 719173) (min (snd ?w) 719174) (holidays_in (fst ?w) (snd ?w) demo_sick_db) (work_week demo_sick_db)"
  have "?n \<le> 2"
    using working_days_bound[of "max (fst ?w) 719173" "min (snd ?w) 719174"
        "holidays_in (fst ?w) (snd ?w) demo_sick_db" "work_week demo_sick_db"] by linarith
  moreover have "days_in_window SICK (leave_start demo_sick, leave_end demo_sick) ?w
      (holidays_in (fst ?w) (snd ?w) demo_sick_db) (work_week demo_sick_db) = of_int ?n"
    using days_in_window_exact[OF window_facts(3), of SICK "leave_start demo_sick" "leave_end demo_sick" 719173] days
    by (simp add: weight_of_def)
  moreover have "fsub 6 0 = 6" using fl_of_int[of 6] by (simp add: fsub_def)
  ultimately have "enforce_year_balance demo_E demo_person (from_leave demo_sick) SICK True ?w lab demo_sick_db = Inr ()" for lab
    by (simp add: enforce_year_balance_def r from_leave_def days Let_def)
  then show ?thesis
    by (simp add: enforce_balance_def from_leave_def days demo_windows quota_bucket_def tracked_leave_def Let_def)
qed

theorem approval_within_quota_witness:
  "\<exists>l' s' r'. decide demo_E demo_lead 100 True None demo_sick_db = Inr (l', s')
    \<and> List.find (\<lambda>r. b_type r = SICK) (balances (compute_balance demo_E demo_person (Some (fst (leave_year_window 719173))) s')) = Some r'
    \<and> used r' \<le> 6"
proof -
  let ?s = "demo_sick_db" and ?w = "leave_year_window 719173"
  have l: "leave_id demo_sick = 100" "leave_employee demo_sick = 2" "reviewer_id demo_sick = Some 3"
    "leave_state demo_sick = SUBMITTED" "leave_kind demo_sick = SICK" by (simp_all add: demo_sick_def demo_leave_def)
  have days: "utc_day (leave_start demo_sick) = 719173" "utc_day (leave_end demo_sick) = 719174"
    by (simp_all add: demo_sick_def demo_leave_def utc_day_def epoch_def day_us_def)
  have sc: "find_leave_in_scope demo_lead 100 ?s = Some demo_sick" "requester_manager_id demo_sick ?s = Some 3"
    and e: "find_employee 2 ?s = Some demo_person"
    by (simp_all add: find_leave_in_scope_def find_leave_def row_get_def leave_scope_def requester_manager_id_def
        find_employee_def demo_person_def demo_sick_db_def demo_sick_def demo_leave_defs Let_def)
  have r: "enforce_leave_rules demo_E demo_person (from_leave demo_sick) (Some 100) ?s = Inr ()"
    using demo_sick_balance
    by (simp add: enforce_leave_rules_def enforce_eligibility_def enforce_no_overlap_def overlapping_def Let_def)
      (simp add: demo_sick_db_def demo_sick_def demo_leave_def from_leave_def)
  let ?l = "demo_sick\<lparr>leave_state := APPROVED, reviewer_id := Some 3, decided_at := Some (now ?s), decision_note := None\<rparr>"
  obtain s' where d: "decide demo_E demo_lead 100 True None ?s = Inr (?l, s')"
    by (simp add: decide_def sc e r l may_decide_def Let_def)
  have ok: "leaves_ok ?s"
    by (simp add: rows_ok_def keys_unique_def leave_ok_def demo_sick_db_def demo_sick_def demo_leave_def day_us_def)
  obtain x where x: "List.find (\<lambda>r. b_type r = SICK) (balances (compute_balance demo_E demo_person (Some (fst ?w)) ?s)) = Some x"
    "eligible x" "half_days (allocated x)" "half_days (used_before x)" "allocated x = 6"
    by (rule demo_sick_row)
  have q: "quota_bucket SICK = Some SICK" by (simp add: quota_bucket_def tracked_leave_def)
  obtain x' where x': "List.find (\<lambda>r. b_type r = SICK) (balances (compute_balance demo_E demo_person (Some (fst ?w)) s')) = Some x'"
    using quota_bucket_row[OF q] by blast
  have "used x' \<le> allocated x' \<and> allocated x' = allocated x"
    using approval_within_quota[OF ok d _ _ _ x(1,2) x' x(3,4)] e q
    by (simp add: l days demo_windows demo_sick_db_def)
  then show ?thesis using d x' x(5) by auto
qed

end
