(* ===== verification/DayRules.thy ===== *)
theory DayRules
  imports LeaveQuota "HOL-Library.AList" "HOL-Library.List_Lexorder" "HOL-Library.Char_ord"
begin

text \<open>
  Attendance rules: the policy and the classification of one employee-day (\<open>app/core/attendance.py\<close>), and
  the rows the attendance services keep (\<open>app/models/work_session.py\<close>, \<open>regularization.py\<close>,
  \<open>attendance_override.py\<close>, \<open>out_of_office.py\<close>, \<open>resignation.py\<close>, \<open>activity.py\<close>,
  \<open>attendance_policy.py\<close>). Local days are dates; where the code keeps a day as text that a client sent, it is
  text here, and text is ordered character by character. Naive timestamps are UTC, so every instant is aware.
\<close>

subsection \<open>Policy\<close>

record policy_spec =
  work_start_minute :: int
  work_end_minute :: int
  buffer_minutes :: int
  regularization_window_minutes :: int
  full_day_min_minutes :: int
  half_day_min_minutes :: int
  monthly_regularizations :: int
  working_days_per_week :: int
  full_day_grace_minutes :: int
  late_full_day_minutes :: int
  monthly_late_allowance :: int

definition on_time_cutoff :: "policy_spec \<Rightarrow> int" where
  "on_time_cutoff p = work_start_minute p + buffer_minutes p"

definition regularizable_cutoff :: "policy_spec \<Rightarrow> int" where
  "regularizable_cutoff p = on_time_cutoff p + regularization_window_minutes p"

definition full_day_hours_cutoff :: "policy_spec \<Rightarrow> int" where
  "full_day_hours_cutoff p = max 0 (full_day_min_minutes p - full_day_grace_minutes p)"

datatype att_status = FULL_DAY | HALF_DAY | LATE | ABSENT | ON_LEAVE | OUT_OF_OFFICE | PRESENT

fun att_value :: "att_status \<Rightarrow> string" where
  "att_value FULL_DAY = ''full_day''"
| "att_value HALF_DAY = ''half_day''"
| "att_value LATE = ''late''"
| "att_value ABSENT = ''absent''"
| "att_value ON_LEAVE = ''on_leave''"
| "att_value OUT_OF_OFFICE = ''out_of_office''"
| "att_value PRESENT = ''present''"

definition contestable :: "att_status list" where
  "contestable = [LATE, HALF_DAY, ABSENT]"

record day_verdict =
  dv_status :: att_status
  late_login :: bool
  regularizable :: bool
  regularized :: bool
  early_logout :: bool
  arrival_minute :: "int option"

text \<open>Minutes past local midnight.\<close>

definition minute_us :: int where
  "minute_us = 60000000"

definition local_minute :: "env \<Rightarrow> datetime \<Rightarrow> int" where
  "local_minute E t = ((t + utc_offset E t) div minute_us) mod 1440"

definition classify_day ::
  "env \<Rightarrow> datetime option \<Rightarrow> int \<Rightarrow> bool \<Rightarrow> policy_spec \<Rightarrow> bool \<Rightarrow> int \<Rightarrow> day_verdict" where
  "classify_day E login_at worked regd p day_over prior_lates =
    (case login_at of
       None \<Rightarrow> \<lparr>dv_status = ABSENT, late_login = False, regularizable = \<not> regd, regularized = regd,
                early_logout = False, arrival_minute = None\<rparr>
     | Some t \<Rightarrow>
       (let arrival = local_minute E t;
            on_time = arrival \<le> on_time_cutoff p;
            required = (if \<not> on_time then late_full_day_minutes p else full_day_hours_cutoff p);
            hours_ok = worked \<ge> required;
            too_few_hours = day_over \<and> worked < half_day_min_minutes p;
            early = (day_over \<and> worked < required);
            over_late_allowance = (\<not> on_time \<and> prior_lates \<ge> monthly_late_allowance p);
            status = (if over_late_allowance \<and> \<not> regd then HALF_DAY
                      else if too_few_hours then HALF_DAY
                      else if hours_ok then FULL_DAY
                      else if regd then FULL_DAY
                      else if \<not> day_over then PRESENT
                      else if \<not> on_time then LATE
                      else HALF_DAY)
        in \<lparr>dv_status = status, late_login = \<not> on_time, regularizable = \<not> regd \<and> status \<in> set contestable,
            regularized = regd, early_logout = early, arrival_minute = Some arrival\<rparr>))"

text \<open>\<open>report_month_bounds\<close>: \<open>None\<close> is the \<open>ValueError\<close>. The pattern accepts four digits, a hyphen and a month
  01 to 12, and nothing else.\<close>

definition bad_report_month :: string where
  "bad_report_month = ''Month must be a real month in YYYY-MM form, for example 2026-09.''"

definition report_month_bounds :: "string \<Rightarrow> (date \<times> date) option" where
  "report_month_bounds month =
    (case split_on (CHR ''-'') month of
       [y, m] \<Rightarrow>
         (if length y = 4 \<and> length m = 2 then
            (case (read_nat y, read_nat m) of
               (Some yn, Some mn) \<Rightarrow>
                 (let year = int yn; mon = int mn
                  in if 1 \<le> mon \<and> mon \<le> 12 \<and> 2000 \<le> year \<and> year \<le> 2100
                     then Some (mk_date year mon 1, mk_date year mon (month_len year mon)) else None)
             | _ \<Rightarrow> None)
          else None)
     | _ \<Rightarrow> None)"

subsection \<open>Rows\<close>

record work_session =
  ws_id :: uuid
  ws_employee :: uuid
  clock_in_at :: datetime
  clock_out_at :: "datetime option"
  ws_source :: string
  clock_out_source :: "string option"
  ip_address :: "string option"
  ws_location :: "string option"
  ws_latitude :: "rat option"
  ws_longitude :: "rat option"

record activity_sample =
  sm_employee :: uuid
  sm_received_at :: datetime
  sm_idle_seconds :: int

datatype reg_status = REG_PENDING | REG_APPROVED | REG_REJECTED

fun reg_value :: "reg_status \<Rightarrow> string" where
  "reg_value REG_PENDING = ''pending''"
| "reg_value REG_APPROVED = ''approved''"
| "reg_value REG_REJECTED = ''rejected''"

record regularization =
  reg_id :: uuid
  reg_employee :: uuid
  reg_day :: string
  reg_reason :: "string option"
  reg_state :: reg_status
  reviewed_by_id :: "uuid option"
  review_note :: "string option"

datatype override_status = OV_FULL_DAY | OV_HALF_DAY | OV_ABSENT

fun override_value :: "override_status \<Rightarrow> string" where
  "override_value OV_FULL_DAY = ''full_day''"
| "override_value OV_HALF_DAY = ''half_day''"
| "override_value OV_ABSENT = ''absent''"

record att_override =
  ov_id :: uuid
  ov_employee :: uuid
  ov_day :: string
  ov_status :: override_status
  ov_note :: "string option"
  ov_created_by :: "uuid option"

datatype portion = P_FULL_DAY | P_HALF_DAY

datatype ooo_status = OOO_PENDING | OOO_APPROVED | OOO_REJECTED | OOO_CANCELLED

fun ooo_value :: "ooo_status \<Rightarrow> string" where
  "ooo_value OOO_PENDING = ''pending''"
| "ooo_value OOO_APPROVED = ''approved''"
| "ooo_value OOO_REJECTED = ''rejected''"
| "ooo_value OOO_CANCELLED = ''cancelled''"

text \<open>The stored days of an entry are the ISO texts of real dates, kept here as the dates.\<close>

record out_of_office =
  ooo_id :: uuid
  ooo_employee :: uuid
  start_day :: date
  end_day :: date
  ooo_portion :: portion
  ooo_location :: string
  ooo_reason :: string
  ooo_state :: ooo_status
  ooo_reviewed_by :: "uuid option"
  ooo_decided_at :: "datetime option"
  ooo_note :: "string option"

datatype res_status = RES_SUBMITTED | RES_ACCEPTED | RES_REJECTED | RES_WITHDRAWN

fun res_value :: "res_status \<Rightarrow> string" where
  "res_value RES_SUBMITTED = ''submitted''"
| "res_value RES_ACCEPTED = ''accepted''"
| "res_value RES_REJECTED = ''rejected''"
| "res_value RES_WITHDRAWN = ''withdrawn''"

record resignation =
  res_id :: uuid
  res_employee :: uuid
  res_reason :: "string option"
  last_working_day :: date
  res_state :: res_status
  res_reviewer :: "uuid option"
  res_decided_at :: "datetime option"
  res_note :: "string option"

text \<open>The policy row. Its \<open>working_days_per_week\<close> is the \<open>work_week\<close> of the state; the time zone is the one of
  the environment.\<close>

record att_policy =
  pol_id :: uuid
  pol_work_start :: int
  pol_work_end :: int
  pol_buffer :: int
  pol_reg_window :: int
  pol_full_day_min :: int
  pol_half_day_min :: int
  pol_full_day_grace :: int
  pol_monthly_regs :: int
  require_location_for_clock_in :: bool
  pol_updated_by :: "uuid option"

definition default_att_policy :: att_policy where
  "default_att_policy = \<lparr>pol_id = 0, pol_work_start = 540, pol_work_end = 1080, pol_buffer = 15, pol_reg_window = 30,
     pol_full_day_min = 480, pol_half_day_min = 240, pol_full_day_grace = 15, pol_monthly_regs = 2,
     require_location_for_clock_in = False, pol_updated_by = None\<rparr>"

text \<open>\<open>app/models/office_location.py\<close>, and the columns of an employee row that only attendance reads.\<close>

record office =
  office_name :: string
  office_latitude :: rat
  office_longitude :: rat
  radius_m :: int
  office_active :: bool

record time_db = leave_db +
  biometric_id :: "uuid \<Rightarrow> string option"
  hr_external_id :: "uuid \<Rightarrow> string"
  location_check_exempt :: "uuid \<Rightarrow> bool"
  offices :: "office list"
  work_sessions :: "work_session list"
  samples :: "activity_sample list"
  regs :: "regularization list"
  day_overrides :: "att_override list"
  ooo_entries :: "out_of_office list"
  resignations :: "resignation list"
  att_policy_row :: att_policy

definition spec_of :: "'a time_db_scheme \<Rightarrow> policy_spec" where
  "spec_of s = (let p = att_policy_row s in
     \<lparr>work_start_minute = pol_work_start p, work_end_minute = pol_work_end p, buffer_minutes = pol_buffer p,
      regularization_window_minutes = pol_reg_window p, full_day_min_minutes = pol_full_day_min p,
      half_day_min_minutes = pol_half_day_min p, monthly_regularizations = pol_monthly_regs p,
      working_days_per_week = work_week s, full_day_grace_minutes = pol_full_day_grace p,
      late_full_day_minutes = 480, monthly_late_allowance = 3\<rparr>)"

end
