(* ===== verification/WorkSessions.thy ===== *)
theory WorkSessions
  imports DayRules
begin

text \<open>
  Work sessions: the repository (\<open>app/repositories/work_session.py\<close>), clocking in and out
  (\<open>app/services/work_session_service.py\<close>), biometric punches (\<open>biometric_service.py\<close>), the sweep that
  closes forgotten sessions (\<open>auto_checkout_service.py\<close>) and the monitoring gate
  (\<open>monitoring_gate.py\<close>). Wall times of the office zone are turned into instants with the zone's
  offset at that reading, which is exact for a zone of fixed offset such as the office's.
\<close>

subsection \<open>Local time\<close>

definition wall_to_utc :: "env \<Rightarrow> datetime \<Rightarrow> datetime" where
  "wall_to_utc E w = w - utc_offset E w"

definition local_midnight :: "env \<Rightarrow> date \<Rightarrow> datetime" where
  "local_midnight E d = wall_to_utc E (utc_midnight d)"

definition local_bounds :: "env \<Rightarrow> date \<Rightarrow> datetime \<times> datetime" where
  "local_bounds E d = (local_midnight E d, local_midnight E (d + 1))"

definition day_work_end_utc :: "env \<Rightarrow> date \<Rightarrow> int \<Rightarrow> datetime" where
  "day_work_end_utc E d work_end = wall_to_utc E (utc_midnight d + work_end * minute_us)"

text \<open>\<open>int(seconds // 60)\<close> of a difference, floored at 0.\<close>

definition minutes_between :: "datetime \<Rightarrow> datetime \<Rightarrow> int" where
  "minutes_between a b = max 0 ((b - a) div minute_us)"

subsection \<open>Repository\<close>

definition find_session :: "uuid \<Rightarrow> 'a time_db_scheme \<Rightarrow> work_session option" where
  "find_session i s = row_get ws_id i (work_sessions s)"

definition put_session :: "work_session \<Rightarrow> 'a time_db_scheme \<Rightarrow> 'a time_db_scheme" where
  "put_session w s = s\<lparr>work_sessions := row_put ws_id w (work_sessions s)\<rparr>"

definition first_by :: "('x \<Rightarrow> int) \<Rightarrow> 'x list \<Rightarrow> 'x option" where
  "first_by f xs = (case sort_key f xs of [] \<Rightarrow> None | x # _ \<Rightarrow> Some x)"

definition get_open :: "uuid \<Rightarrow> 'a time_db_scheme \<Rightarrow> work_session option" where
  "get_open i s = first_by (\<lambda>w. - clock_in_at w)
     (filter (\<lambda>w. ws_employee w = i \<and> clock_out_at w = None) (work_sessions s))"

definition open_employee_ids :: "uuid list \<Rightarrow> 'a time_db_scheme \<Rightarrow> uuid list" where
  "open_employee_ids ids s = remdups (map ws_employee
     (filter (\<lambda>w. ws_employee w \<in> set ids \<and> clock_out_at w = None) (work_sessions s)))"

definition create_session ::
  "uuid \<Rightarrow> datetime \<Rightarrow> datetime option \<Rightarrow> string \<Rightarrow> string option \<Rightarrow> string option \<Rightarrow> string option \<Rightarrow> rat option \<Rightarrow> rat option
   \<Rightarrow> 'a time_db_scheme \<Rightarrow> work_session \<times> 'a time_db_scheme" where
  "create_session i cin cout src cout_src ip loc lat lon s =
    (let w = \<lparr>ws_id = next_id s, ws_employee = i, clock_in_at = cin, clock_out_at = cout, ws_source = src,
              clock_out_source = cout_src, ip_address = ip, ws_location = loc, ws_latitude = lat, ws_longitude = lon\<rparr>
     in (w, s\<lparr>work_sessions := row_add w (work_sessions s), next_id := next_id s + 1\<rparr>))"

definition list_open_before :: "datetime \<Rightarrow> 'a time_db_scheme \<Rightarrow> work_session list" where
  "list_open_before cutoff s = sort_key clock_in_at
     (filter (\<lambda>w. clock_out_at w = None \<and> clock_in_at w \<le> cutoff) (work_sessions s))"

definition sessions_in_range ::
  "uuid list \<Rightarrow> datetime \<Rightarrow> datetime \<Rightarrow> string option \<Rightarrow> 'a time_db_scheme \<Rightarrow> work_session list" where
  "sessions_in_range ids start stop src s = sort_key clock_in_at
     (filter (\<lambda>w. ws_employee w \<in> set ids \<and> start \<le> clock_in_at w \<and> clock_in_at w < stop
        \<and> (case src of None \<Rightarrow> True | Some x \<Rightarrow> ws_source w = x)) (work_sessions s))"

text \<open>The merge of the day's biometric session with the punches of a batch.\<close>

definition closes_at :: "datetime option \<Rightarrow> datetime \<Rightarrow> string \<Rightarrow> datetime \<Rightarrow> datetime option" where
  "closes_at cout last_at last_dir cin =
    (if cout = None \<and> last_dir = ''auto'' \<and> last_at > cin then Some last_at else cout)"

definition merge_punch :: "datetime \<Rightarrow> datetime option \<Rightarrow> datetime \<Rightarrow> string \<Rightarrow> work_session \<Rightarrow> work_session" where
  "merge_punch cin cout last_at last_dir w =
    (let w1 = (if cin < clock_in_at w then w\<lparr>clock_in_at := cin\<rparr> else w)
     in case closes_at cout last_at last_dir (clock_in_at w1) of
          None \<Rightarrow> w1
        | Some c \<Rightarrow> if (case clock_out_at w of None \<Rightarrow> True | Some out \<Rightarrow> c > out)
                    then w1\<lparr>clock_out_at := Some c, clock_out_source := Some ''biometric''\<rparr> else w1)"

definition biometric_session :: "uuid \<Rightarrow> datetime \<Rightarrow> datetime \<Rightarrow> 'a time_db_scheme \<Rightarrow> work_session option" where
  "biometric_session i day_start day_stop s = first_by clock_in_at
     (filter (\<lambda>w. ws_employee w = i \<and> ws_source w = ''biometric'' \<and> day_start \<le> clock_in_at w \<and> clock_in_at w < day_stop)
        (work_sessions s))"

definition upsert_biometric_day ::
  "uuid \<Rightarrow> datetime \<times> datetime \<Rightarrow> datetime \<Rightarrow> datetime option \<Rightarrow> datetime \<Rightarrow> string \<Rightarrow> 'a time_db_scheme
   \<Rightarrow> (work_session \<times> bool) \<times> 'a time_db_scheme" where
  "upsert_biometric_day i bounds cin cout last_at last_dir s =
    (case biometric_session i (fst bounds) (snd bounds) s of
       None \<Rightarrow> (let (w, s') = create_session i cin cout ''biometric''
                               (if cout = None then None else Some ''biometric'') None None None None s
                in ((w, True), s'))
     | Some w \<Rightarrow> (let w' = merge_punch cin cout last_at last_dir w in ((w', False), put_session w' s)))"

text \<open>The span of one person's sessions of a day: the fold of \<open>_spans\<close>.\<close>

record day_span =
  sp_login :: datetime
  sp_logout :: "datetime option"
  sp_ip :: "string option"
  sp_in_source :: "string option"
  sp_out_source :: "string option"

record span_acc =
  sa_first_in :: datetime
  sa_in_source :: string
  sa_ip :: "string option"
  sa_last_out :: "datetime option"
  sa_out_source :: "string option"
  sa_open :: bool

definition span_add :: "work_session \<Rightarrow> span_acc option \<Rightarrow> span_acc option" where
  "span_add w acc =
    (let a0 = (case acc of None \<Rightarrow> \<lparr>sa_first_in = clock_in_at w, sa_in_source = ws_source w, sa_ip = ip_address w,
                   sa_last_out = None, sa_out_source = None, sa_open = False\<rparr> | Some a \<Rightarrow> a);
         a1 = (if clock_in_at w < sa_first_in a0 then a0\<lparr>sa_first_in := clock_in_at w, sa_in_source := ws_source w\<rparr> else a0);
         a2 = (if sa_ip a1 = None then a1\<lparr>sa_ip := ip_address w\<rparr> else a1)
     in Some (case clock_out_at w of
         None \<Rightarrow> a2\<lparr>sa_open := True\<rparr>
       | Some out \<Rightarrow> if (case sa_last_out a2 of None \<Rightarrow> True | Some l \<Rightarrow> out > l)
                     then a2\<lparr>sa_last_out := Some out, sa_out_source := clock_out_source w\<rparr> else a2))"

definition day_span_of ::
  "uuid \<Rightarrow> datetime \<times> datetime \<Rightarrow> string option \<Rightarrow> 'a time_db_scheme \<Rightarrow> day_span option" where
  "day_span_of i bounds src s =
    map_option (\<lambda>a. \<lparr>sp_login = sa_first_in a, sp_logout = (if sa_open a then None else sa_last_out a), sp_ip = sa_ip a,
                     sp_in_source = Some (sa_in_source a), sp_out_source = (if sa_open a then None else sa_out_source a)\<rparr>)
      (fold span_add (sessions_in_range [i] (fst bounds) (snd bounds) src s) None)"

subsection \<open>Activity of a day\<close>

record daily_agg =
  ag_login :: datetime
  ag_logout :: datetime
  ag_count :: int
  ag_idle :: int

definition idle_sample_seconds :: int where
  "idle_sample_seconds = 300"

definition daily_aggregate :: "uuid \<Rightarrow> datetime \<times> datetime \<Rightarrow> 'a time_db_scheme \<Rightarrow> daily_agg option" where
  "daily_aggregate i bounds s =
    (let hits = filter (\<lambda>m. sm_employee m = i \<and> fst bounds \<le> sm_received_at m \<and> sm_received_at m < snd bounds) (samples s);
         times = map sm_received_at hits
     in case times of [] \<Rightarrow> None
        | t # ts \<Rightarrow> Some \<lparr>ag_login = fold min ts t, ag_logout = fold max ts t, ag_count = int (length hits),
             ag_idle = int (length (filter (\<lambda>m. sm_idle_seconds m \<ge> idle_sample_seconds) hits))\<rparr>)"

definition idle_minutes :: "daily_agg \<Rightarrow> int \<Rightarrow> int" where
  "idle_minutes a worked = (if ag_count a \<le> 0 \<or> worked \<le> 0 then 0
     else min worked (py_round (int_div (worked * ag_idle a) (ag_count a))))"

subsection \<open>Clocking in and out\<close>

definition is_valid_coord :: "rat option \<Rightarrow> rat option \<Rightarrow> bool" where
  "is_valid_coord lat lon = (case (lat, lon) of
     (Some a, Some b) \<Rightarrow> - 90 \<le> a \<and> a \<le> 90 \<and> - 180 \<le> b \<and> b \<le> 180 \<and> \<not> (a = 0 \<and> b = 0)
   | _ \<Rightarrow> False)"

text \<open>The offices in order of their names; the distance in metres is a parameter, since \<open>haversine_m\<close> is
  arithmetic on the C library's trigonometric functions.\<close>

definition list_active_offices :: "env \<Rightarrow> 'a time_db_scheme \<Rightarrow> office list" where
  "list_active_offices E s = sort_key (\<lambda>p. collate E (office_name p)) (filter office_active (offices s))"

fun match_office :: "(rat \<Rightarrow> rat \<Rightarrow> rat \<Rightarrow> rat \<Rightarrow> pyfloat) \<Rightarrow> rat \<Rightarrow> rat \<Rightarrow> office list \<Rightarrow> (string \<times> pyfloat) option \<Rightarrow> string res" where
  "match_office metres lat lon [] nearest =
     Inl (ValidationError (''You must be at an office to clock in. Nearest is ''
       @ (case nearest of None \<Rightarrow> ''None'' | Some (n, _) \<Rightarrow> n) @ '', about ''
       @ (case nearest of None \<Rightarrow> ''inf'' | Some (_, g) \<Rightarrow> int_str (py_round g)) @ '' m away.''))"
| "match_office metres lat lon (p # ps) nearest =
     (let d = metres lat lon (office_latitude p) (office_longitude p); gap = fsub d (to_float (radius_m p))
      in if d \<le> to_float (radius_m p) then Inr (office_name p)
         else match_office metres lat lon ps
           (if (case nearest of None \<Rightarrow> True | Some (_, g) \<Rightarrow> gap < g) then Some (office_name p, gap) else nearest))"

definition enforce_location ::
  "env \<Rightarrow> (rat \<Rightarrow> rat \<Rightarrow> rat \<Rightarrow> rat \<Rightarrow> pyfloat) \<Rightarrow> current_user \<Rightarrow> rat option \<Rightarrow> rat option \<Rightarrow> 'a time_db_scheme \<Rightarrow> string option res" where
  "enforce_location E metres c lat lon s =
    (if \<not> require_location_for_clock_in (att_policy_row s) then Inr None
     else if find_employee (cu_id c) s \<noteq> None \<and> location_check_exempt s (cu_id c) then Inr None
     else ebind (require (is_valid_coord lat lon) (ValidationError
            ''Location is required to clock in. Turn on location access in your browser and try again.'')) (\<lambda>_.
          ebind (require (list_active_offices E s \<noteq> []) (ValidationError
            ''Location-restricted clock-in is on but no office locations are set. Ask an admin to add one.'')) (\<lambda>_.
          ebind (match_office metres (the lat) (the lon) (list_active_offices E s) None) (\<lambda>n. Inr (Some n)))))"

definition session_audit :: "env \<Rightarrow> string \<Rightarrow> string \<Rightarrow> work_session \<Rightarrow> 'a core_scheme \<Rightarrow> 'a core_scheme" where
  "session_audit E act acn w s = audit_append E act acn (Some (''session:'' @ uuid_str (ws_id w))) s"

definition clock_in ::
  "env \<Rightarrow> (rat \<Rightarrow> rat \<Rightarrow> rat \<Rightarrow> rat \<Rightarrow> pyfloat) \<Rightarrow> current_user \<Rightarrow> string option \<Rightarrow> rat option \<Rightarrow> rat option \<Rightarrow> 'a time_db_scheme
   \<Rightarrow> (work_session \<times> 'a time_db_scheme) res" where
  "clock_in E metres c ip lat lon s =
    (case get_open (cu_id c) s of
       Some w \<Rightarrow> Inr (w, s)
     | None \<Rightarrow> ebind (enforce_location E metres c lat lon s) (\<lambda>matched.
         (let valid = is_valid_coord lat lon;
              (w, s1) = create_session (cu_id c) (now s) None ''dashboard'' None ip matched
                          (if valid then lat else None) (if valid then lon else None) s
          in Inr (w, session_audit E (uuid_str (cu_id c)) ''attendance.clock_in'' w s1))))"

definition clock_out :: "env \<Rightarrow> current_user \<Rightarrow> 'a time_db_scheme \<Rightarrow> (work_session \<times> 'a time_db_scheme) res" where
  "clock_out E c s = ebind (require_some (get_open (cu_id c) s) (ValidationError ''You are not clocked in.'')) (\<lambda>w.
     (let w' = w\<lparr>clock_out_at := Some (now s), clock_out_source := Some ''dashboard''\<rparr>
      in Inr (w', session_audit E (uuid_str (cu_id c)) ''attendance.clock_out'' w' (put_session w' s))))"

subsection \<open>Biometric punches\<close>

record punch =
  pu_external_id :: string
  pu_at :: datetime
  pu_naive :: bool
  pu_direction :: string

record punch_window =
  pw_first :: datetime
  pw_last :: datetime
  pw_dir :: string

definition get_by_biometric_id :: "string \<Rightarrow> 'a time_db_scheme \<Rightarrow> employee option" where
  "get_by_biometric_id x s = (case sort_key (\<lambda>e. (if is_active e then 0 else 1 :: int))
       (sort_key (\<lambda>e. - emp_created_at e) (filter (\<lambda>e. biometric_id s (emp_id e) = Some x) (employees s)))
     of [] \<Rightarrow> None | e # _ \<Rightarrow> Some e)"

definition get_by_external_id :: "string \<Rightarrow> 'a time_db_scheme \<Rightarrow> employee option" where
  "get_by_external_id x s = List.find (\<lambda>e. hr_external_id s (emp_id e) = x) (employees s)"

definition get_by_work_email :: "string \<Rightarrow> 'a time_db_scheme \<Rightarrow> employee option" where
  "get_by_work_email x s = List.find (\<lambda>e. work_email e = x) (employees s)"

definition resolve_punch :: "string \<Rightarrow> 'a time_db_scheme \<Rightarrow> employee option" where
  "resolve_punch x s =
    (let e1 = get_by_biometric_id x s;
         e2 = (if e1 = None then get_by_external_id x s else e1);
         e3 = (if e2 = None \<and> CHR ''@'' \<in> set x then get_by_work_email (map to_lower x) s else e2)
     in case e3 of None \<Rightarrow> None | Some e \<Rightarrow> if is_active e then Some e else None)"

definition punch_utc :: "env \<Rightarrow> punch \<Rightarrow> datetime" where
  "punch_utc E p = (if pu_naive p then wall_to_utc E (pu_at p) else pu_at p)"

definition window_add :: "datetime \<Rightarrow> string \<Rightarrow> punch_window option \<Rightarrow> punch_window" where
  "window_add t dir w = (case w of
     None \<Rightarrow> \<lparr>pw_first = t, pw_last = t, pw_dir = dir\<rparr>
   | Some x \<Rightarrow> (let y = x\<lparr>pw_first := min (pw_first x) t\<rparr>
               in if t \<ge> pw_last x then y\<lparr>pw_last := t, pw_dir := dir\<rparr> else y))"

definition bucket_punch ::
  "env \<Rightarrow> 'a time_db_scheme \<Rightarrow> punch \<Rightarrow> ((uuid \<times> date) \<times> punch_window) list \<Rightarrow> ((uuid \<times> date) \<times> punch_window) list" where
  "bucket_punch E s p bs = (case resolve_punch (pu_external_id p) s of
     None \<Rightarrow> bs
   | Some e \<Rightarrow> (let t = punch_utc E p; k = (emp_id e, local_day E t)
               in AList.update k (window_add t (pu_direction p) (map_of bs k)) bs))"

definition window_clock_out :: "punch_window \<Rightarrow> datetime option" where
  "window_clock_out w = (if pw_dir w = ''out'' then Some (pw_last w) else if pw_dir w = ''in'' then None
     else if pw_last w > pw_first w then Some (pw_last w) else None)"

definition apply_bucket :: "env \<Rightarrow> (uuid \<times> date) \<times> punch_window \<Rightarrow> 'a time_db_scheme \<Rightarrow> 'a time_db_scheme" where
  "apply_bucket E b s = (case b of ((i, d), w) \<Rightarrow>
     snd (upsert_biometric_day i (local_bounds E d) (pw_first w) (window_clock_out w) (pw_last w) (pw_dir w) s))"

record ingest_result =
  ir_received :: nat
  ir_matched :: nat
  ir_upserted :: nat
  ir_unmatched :: "string list"

definition ingest :: "env \<Rightarrow> punch list \<Rightarrow> 'a time_db_scheme \<Rightarrow> ingest_result \<times> 'a time_db_scheme" where
  "ingest E ps s =
    (let buckets = fold (bucket_punch E s) ps [];
         unmatched = filter (\<lambda>p. resolve_punch (pu_external_id p) s = None) ps;
         matched = length ps - length unmatched;
         s1 = fold (apply_bucket E) buckets s
     in (\<lparr>ir_received = length ps, ir_matched = matched, ir_upserted = length buckets,
          ir_unmatched = sort (remdups (map pu_external_id unmatched))\<rparr>,
         audit_append E ''biometric-connector'' ''biometric.ingest''
           (Some (''punches:'' @ nat_str (length ps) @ '';matched:'' @ nat_str matched)) s1))"

subsection \<open>Auto-checkout\<close>

record checkout_settings =
  auto_checkout_hour :: int
  auto_checkout_minute :: int
  auto_checkout_after_work_end_minutes :: int
  auto_checkout_idle_grace_minutes :: int

definition trigger_minute :: "checkout_settings \<Rightarrow> int \<Rightarrow> int" where
  "trigger_minute k work_end = max (auto_checkout_hour k * 60 + auto_checkout_minute k)
     (work_end + auto_checkout_after_work_end_minutes k)"

definition checkout_time :: "env \<Rightarrow> checkout_settings \<Rightarrow> work_session \<Rightarrow> 'a time_db_scheme \<Rightarrow> datetime option" where
  "checkout_time E k w s =
    (let t = now s; today = local_day E t; now_minute = local_minute E t; work_end = pol_work_end (att_policy_row s);
         cin = clock_in_at w; d = local_day E cin
     in if d > today then None
        else let window_end = day_work_end_utc E d work_end;
                 last_seen = map_option ag_logout (daily_aggregate (ws_employee w) (local_bounds E d) s);
                 finished_at = (case last_seen of None \<Rightarrow> None | Some x \<Rightarrow> if x \<ge> window_end then Some x else None);
                 checkout = (if d = today
                   then if now_minute < trigger_minute k work_end then None
                        else (case finished_at of None \<Rightarrow> None
                              | Some f \<Rightarrow> if t - f < auto_checkout_idle_grace_minutes k * minute_us then None else Some f)
                   else Some (case finished_at of Some f \<Rightarrow> f | None \<Rightarrow> window_end))
             in map_option (\<lambda>x. min (max x cin) t) checkout)"

text \<open>\<open>%b %-d\<close> and \<open>%-I:%M %p\<close> of the local time.\<close>

definition day_label :: "env \<Rightarrow> datetime \<Rightarrow> string" where
  "day_label E t = (let d = local_day E t in month_abbr (month_of d) @ '' '' @ int_str (day_of d))"

definition clock_label :: "env \<Rightarrow> datetime \<Rightarrow> string" where
  "clock_label E t = (let m = local_minute E t; h = m div 60; h12 = (if h mod 12 = 0 then 12 else h mod 12)
     in int_str h12 @ '':'' @ pad2 (m mod 60) @ (if h < 12 then '' AM'' else '' PM''))"

definition checkout_email :: "env \<Rightarrow> work_session \<Rightarrow> datetime \<Rightarrow> 'a core_scheme \<Rightarrow> 'a core_scheme" where
  "checkout_email E w t s = (case find_employee (ws_employee w) s of
     None \<Rightarrow> s
   | Some e \<Rightarrow> if work_email e = '''' then s else snd (send_email E \<lparr>mail_to = work_email e,
       mail_template = ''forgot_checkout'', mail_fields = [full_name e, day_label E t, clock_label E t]\<rparr> s))"

definition close_if_due :: "env \<Rightarrow> checkout_settings \<Rightarrow> work_session \<Rightarrow> nat \<times> 'a time_db_scheme \<Rightarrow> nat \<times> 'a time_db_scheme" where
  "close_if_due E k w ns = (case checkout_time E k w (snd ns) of
     None \<Rightarrow> ns
   | Some t \<Rightarrow> (let w' = w\<lparr>clock_out_at := Some t, clock_out_source := Some ''auto''\<rparr>
      in (fst ns + 1, session_audit E ''system:auto-checkout'' ''attendance.auto_checkout'' w'
           (checkout_email E w' t (put_session w' (snd ns))))))"

definition run_due :: "env \<Rightarrow> checkout_settings \<Rightarrow> 'a time_db_scheme \<Rightarrow> nat \<times> 'a time_db_scheme" where
  "run_due E k s = fold (close_if_due E k) (list_open_before (now s) s) (0, s)"

subsection \<open>Monitoring gate\<close>

datatype capture_state = CAPTURING | NOT_CLOCKED_IN | NON_WORKING_DAY

definition state_for :: "env \<Rightarrow> uuid \<Rightarrow> 'a time_db_scheme \<Rightarrow> capture_state" where
  "state_for E i s =
    (if \<not> is_working_day (local_day E (now s)) (work_week s) then NON_WORKING_DAY
     else if i \<in> set (open_employee_ids [i] s) then CAPTURING else NOT_CLOCKED_IN)"

definition should_suppress :: "env \<Rightarrow> uuid \<Rightarrow> 'a time_db_scheme \<Rightarrow> bool" where
  "should_suppress E i s \<longleftrightarrow> state_for E i s \<noteq> CAPTURING"

end
