(* ===== verification/Attendance.thy ===== *)
theory Attendance
  imports WorkSessions
begin

text \<open>
  The attendance register: \<open>app/services/attendance_service.py\<close> with the reads it makes of regularizations,
  overrides, out-of-office entries, holidays and leavers. Dictionaries keyed by employee and day are association
  lists in insertion order; a dictionary of counters is a function that is 0 where the dictionary has no entry.
\<close>

subsection \<open>Reads\<close>

text \<open>\<open>RegularizationRepository.approved_days\<close>: the pairs of employee and day text.\<close>

definition approved_days :: "uuid list \<Rightarrow> date \<Rightarrow> date \<Rightarrow> 'a time_db_scheme \<Rightarrow> (uuid \<times> string) list" where
  "approved_days ids a b s = map (\<lambda>r. (reg_employee r, reg_day r))
     (filter (\<lambda>r. reg_employee r \<in> set ids \<and> reg_state r = REG_APPROVED
        \<and> isoformat a \<le> reg_day r \<and> reg_day r \<le> isoformat b) (regs s))"

definition overrides_for_range :: "uuid list \<Rightarrow> date \<Rightarrow> date \<Rightarrow> 'a time_db_scheme \<Rightarrow> ((uuid \<times> string) \<times> override_status) list" where
  "overrides_for_range ids a b s = fold (\<lambda>r. AList.update (ov_employee r, ov_day r) (ov_status r))
     (filter (\<lambda>r. ov_employee r \<in> set ids \<and> isoformat a \<le> ov_day r \<and> ov_day r \<le> isoformat b)
       (day_overrides s)) []"

definition expand_days :: "date \<Rightarrow> date \<Rightarrow> date list" where
  "expand_days a b = [a..b]"

definition away_days :: "uuid list \<Rightarrow> date \<Rightarrow> date \<Rightarrow> 'a time_db_scheme \<Rightarrow> ((uuid \<times> date) \<times> portion) list" where
  "away_days ids a b s = fold (\<lambda>e. fold (\<lambda>d. AList.update (ooo_employee e, d) (ooo_portion e))
        (filter (\<lambda>d. a \<le> d \<and> d \<le> b) (expand_days (start_day e) (end_day e))))
     (filter (\<lambda>e. ooo_employee e \<in> set ids \<and> ooo_state e = OOO_APPROVED \<and> start_day e \<le> b \<and> end_day e \<ge> a)
       (ooo_entries s)) []"

fun override_to_status :: "override_status \<Rightarrow> att_status" where
  "override_to_status OV_FULL_DAY = FULL_DAY"
| "override_to_status OV_HALF_DAY = HALF_DAY"
| "override_to_status OV_ABSENT = ABSENT"

fun hours_credit :: "att_status \<Rightarrow> pyfloat" where
  "hours_credit FULL_DAY = 1"
| "hours_credit LATE = 1"
| "hours_credit PRESENT = 1"
| "hours_credit HALF_DAY = 1 / 2"
| "hours_credit _ = 0"

definition out_of_office_credit :: "portion \<Rightarrow> att_status \<Rightarrow> pyfloat" where
  "out_of_office_credit p st = (if p = P_FULL_DAY then 1 else min 1 (fadd (1 / 2) (hours_credit st)))"

text \<open>Employed days: \<open>_Employment\<close>, \<open>_leaver_last_day\<close> and \<open>last_known_days\<close>.\<close>

record employment =
  em_first :: "date option"
  em_last :: "date option"

definition always_employed :: employment where
  "always_employed = \<lparr>em_first = None, em_last = None\<rparr>"

definition covers :: "employment \<Rightarrow> date \<Rightarrow> bool" where
  "covers w d \<longleftrightarrow> (case em_first w of None \<Rightarrow> True | Some f \<Rightarrow> d \<ge> f) \<and> (case em_last w of None \<Rightarrow> True | Some l \<Rightarrow> d \<le> l)"

definition max_opt :: "int list \<Rightarrow> int option" where
  "max_opt xs = (case xs of [] \<Rightarrow> None | x # xs \<Rightarrow> Some (fold max xs x))"

record leaver_evidence =
  ev_last_working_day :: "date option"
  ev_last_session :: "datetime option"
  ev_last_leave_end :: "datetime option"

definition last_known_days :: "uuid \<Rightarrow> 'a time_db_scheme \<Rightarrow> leaver_evidence" where
  "last_known_days i s =
    \<lparr>ev_last_working_day = max_opt (map last_working_day (filter (\<lambda>r. res_employee r = i \<and> res_state r = RES_ACCEPTED) (resignations s))),
     ev_last_session = max_opt (map clock_in_at (filter (\<lambda>w. ws_employee w = i) (work_sessions s))),
     ev_last_leave_end = max_opt (map leave_end (filter (\<lambda>l. leave_employee l = i \<and> leave_state l = APPROVED) (leaves s)))\<rparr>"

definition leaver_last_day :: "env \<Rightarrow> leaver_evidence \<Rightarrow> date option" where
  "leaver_last_day E v = (case ev_last_working_day v of
     Some d \<Rightarrow> Some d
   | None \<Rightarrow> max_opt (map (local_day E) (List.map_filter id [ev_last_session v, ev_last_leave_end v])))"

definition employment_of :: "env \<Rightarrow> 'a time_db_scheme \<Rightarrow> employee \<Rightarrow> employment" where
  "employment_of E s e = \<lparr>em_first = hire_date e,
     em_last = (if is_active e then None else leaver_last_day E (last_known_days (emp_id e) s))\<rparr>"

text \<open>Working dates and the dates of approved paid leave.\<close>

definition working_dates_in :: "date \<Rightarrow> date \<Rightarrow> 'a time_db_scheme \<Rightarrow> date list" where
  "working_dates_in a b s = (if b < a then [] else
     filter (\<lambda>d. is_working_day d (work_week s) \<and> d \<notin> set (holidays_in a b s)) [a..b])"

definition approved_leave_dates :: "env \<Rightarrow> uuid \<Rightarrow> date \<Rightarrow> date \<Rightarrow> 'a time_db_scheme \<Rightarrow> date list" where
  "approved_leave_dates E i a b s = concat (map (\<lambda>l. [local_day E (leave_start l)..local_day E (leave_end l)])
     (approved_paid_in_range i (fst (local_bounds E a)) (snd (local_bounds E b)) s))"

subsection \<open>Grouping sessions into days\<close>

record day_acc =
  da_login :: datetime
  da_logout :: "datetime option"
  da_worked :: int
  da_open :: bool
  da_in_source :: string
  da_out_source :: "string option"

text \<open>\<open>_accumulate\<close>, for the session \<open>w\<close> of the local day \<open>d\<close>.\<close>

definition open_cutoff :: "env \<Rightarrow> date \<Rightarrow> 'a time_db_scheme \<Rightarrow> datetime" where
  "open_cutoff E d s = (if d = local_day E (now s) then now s else day_work_end_utc E d (pol_work_end (att_policy_row s)))"

definition acc_add :: "datetime \<Rightarrow> work_session \<Rightarrow> day_acc option \<Rightarrow> day_acc" where
  "acc_add cutoff w acc =
    (let a0 = (case acc of None \<Rightarrow> \<lparr>da_login = clock_in_at w, da_logout = None, da_worked = 0, da_open = False,
                                   da_in_source = ws_source w, da_out_source = None\<rparr> | Some a \<Rightarrow> a);
         a1 = (if clock_in_at w < da_login a0 then a0\<lparr>da_login := clock_in_at w, da_in_source := ws_source w\<rparr> else a0);
         a2 = (case clock_out_at w of
                 None \<Rightarrow> a1\<lparr>da_open := True\<rparr>
               | Some out \<Rightarrow> if (case da_logout a1 of None \<Rightarrow> True | Some l \<Rightarrow> out > l)
                             then a1\<lparr>da_logout := Some out, da_out_source := clock_out_source w\<rparr> else a1)
     in a2\<lparr>da_worked := da_worked a2 + minutes_between (clock_in_at w) (case clock_out_at w of Some out \<Rightarrow> out | None \<Rightarrow> cutoff)\<rparr>)"

definition session_key :: "env \<Rightarrow> work_session \<Rightarrow> uuid \<times> date" where
  "session_key E w = (ws_employee w, local_day E (clock_in_at w))"

definition accumulate ::
  "env \<Rightarrow> 'a time_db_scheme \<Rightarrow> work_session \<Rightarrow> ((uuid \<times> date) \<times> day_acc) list \<Rightarrow> ((uuid \<times> date) \<times> day_acc) list" where
  "accumulate E s w g = (let k = session_key E w
     in AList.update k (acc_add (open_cutoff E (snd k) s) w (map_of g k)) g)"

definition grouped_days :: "env \<Rightarrow> uuid list \<Rightarrow> date \<Rightarrow> date \<Rightarrow> 'a time_db_scheme \<Rightarrow> ((uuid \<times> date) \<times> day_acc) list" where
  "grouped_days E ids a b s =
    (let start = fst (local_bounds E a); stop = snd (local_bounds E b);
         bio = sessions_in_range ids start stop (Some ''biometric'') s;
         bio_days = map (session_key E) bio;
         rest = filter (\<lambda>w. session_key E w \<notin> set bio_days) (sessions_in_range ids start stop None s)
     in fold (accumulate E s) (bio @ rest) [])"

subsection \<open>Classifying days in order\<close>

definition window_closed :: "env \<Rightarrow> date \<Rightarrow> 'a time_db_scheme \<Rightarrow> bool" where
  "window_closed E d s \<longleftrightarrow> d < local_day E (now s)
     \<or> d = local_day E (now s) \<and> local_minute E (now s) \<ge> work_end_minute (spec_of s)"

definition day_out_source :: "day_acc \<Rightarrow> string option" where
  "day_out_source a = (if da_open a then None else da_out_source a)"

definition verdict_of ::
  "env \<Rightarrow> 'a time_db_scheme \<Rightarrow> (uuid \<times> string) list \<Rightarrow> int \<Rightarrow> (uuid \<times> date) \<times> day_acc \<Rightarrow> day_verdict" where
  "verdict_of E s approved prior x = (case x of ((i, d), a) \<Rightarrow>
     classify_day E (Some (da_login a)) (da_worked a) ((i, isoformat d) \<in> set approved) (spec_of s)
       (window_closed E d s \<or> day_out_source a \<in> {Some ''dashboard'', Some ''auto''}) prior)"

fun classify_run ::
  "env \<Rightarrow> 'a time_db_scheme \<Rightarrow> (uuid \<times> string) list \<Rightarrow> ((uuid \<times> date) \<times> day_acc) list \<Rightarrow> (uuid \<Rightarrow> int)
   \<Rightarrow> (((uuid \<times> date) \<times> day_acc) \<times> day_verdict) list \<times> (uuid \<Rightarrow> int)" where
  "classify_run E s approved [] lates = ([], lates)"
| "classify_run E s approved (x # xs) lates =
    (let i = fst (fst x); v = verdict_of E s approved (lates i) x;
         (vs, end_lates) = classify_run E s approved xs (if late_login v then lates(i := lates i + 1) else lates)
     in ((x, v) # vs, end_lates))"

text \<open>\<open>_classified\<close>: by day, and within a day by the text of the id, which for UUIDs is their order.\<close>

definition classified ::
  "env \<Rightarrow> 'a time_db_scheme \<Rightarrow> (uuid \<times> string) list \<Rightarrow> ((uuid \<times> date) \<times> day_acc) list \<Rightarrow> (uuid \<Rightarrow> int)
   \<Rightarrow> (((uuid \<times> date) \<times> day_acc) \<times> day_verdict) list \<times> (uuid \<Rightarrow> int)" where
  "classified E s approved g lates =
     classify_run E s approved (sort_key (\<lambda>x. snd (fst x)) (sort_key (\<lambda>x. fst (fst x)) g)) lates"

definition month_start :: "date \<Rightarrow> date" where
  "month_start d = mk_date (year_of d) (month_of d) 1"

definition lates_before :: "env \<Rightarrow> uuid list \<Rightarrow> date \<Rightarrow> 'a time_db_scheme \<Rightarrow> uuid \<Rightarrow> int" where
  "lates_before E ids d s = (if d \<le> month_start d then (\<lambda>_. 0) else
     snd (classified E s (approved_days ids (month_start d) (d - 1) s)
            (grouped_days E ids (month_start d) (d - 1) s) (\<lambda>_. 0)))"

subsection \<open>Day rows\<close>

record att_row =
  ar_employee :: uuid
  ar_day :: string
  ar_status :: att_status
  ar_login :: "datetime option"
  ar_logout :: "datetime option"
  ar_worked :: int
  ar_late :: bool
  ar_regularizable :: bool
  ar_regularized :: bool
  ar_in_source :: "string option"
  ar_out_source :: "string option"
  ar_credit :: pyfloat

definition blank_row :: "uuid \<Rightarrow> string \<Rightarrow> att_status \<Rightarrow> bool \<Rightarrow> pyfloat \<Rightarrow> att_row" where
  "blank_row i d st regd credit = \<lparr>ar_employee = i, ar_day = d, ar_status = st, ar_login = None, ar_logout = None,
     ar_worked = 0, ar_late = False, ar_regularizable = False, ar_regularized = regd, ar_in_source = None,
     ar_out_source = None, ar_credit = credit\<rparr>"

definition worked_row ::
  "((uuid \<times> string) \<times> override_status) list \<Rightarrow> ((uuid \<times> date) \<times> portion) list
   \<Rightarrow> ((uuid \<times> date) \<times> day_acc) \<times> day_verdict \<Rightarrow> att_row" where
  "worked_row overrides away xv = (case xv of (((i, d), a), v) \<Rightarrow>
    (let ov = map_of overrides (i, isoformat d); p = map_of away (i, d);
         st = (case ov of Some o' \<Rightarrow> override_to_status o'
               | None \<Rightarrow> if p \<noteq> None then OUT_OF_OFFICE else dv_status v)
     in \<lparr>ar_employee = i, ar_day = isoformat d, ar_status = st, ar_login = Some (da_login a),
         ar_logout = (if da_open a then None else da_logout a), ar_worked = da_worked a, ar_late = late_login v,
         ar_regularizable = regularizable v \<and> ov = None, ar_regularized = regularized v \<or> ov \<noteq> None,
         ar_in_source = Some (da_in_source a), ar_out_source = day_out_source a,
         ar_credit = (case p of None \<Rightarrow> 0 | Some x \<Rightarrow> out_of_office_credit x (dv_status v))\<rparr>))"

text \<open>Days that an approved entry or an override puts on the register without a session.\<close>

definition away_rows ::
  "uuid list \<Rightarrow> ((uuid \<times> date) \<times> day_acc) list \<Rightarrow> ((uuid \<times> string) \<times> override_status) list
   \<Rightarrow> ((uuid \<times> date) \<times> portion) list \<Rightarrow> att_row list" where
  "away_rows ids g overrides away = map (\<lambda>((i, d), p). blank_row i (isoformat d) OUT_OF_OFFICE False (out_of_office_credit p ABSENT))
     (filter (\<lambda>((i, d), p). (i, d) \<notin> fst ` set g \<and> i \<in> set ids \<and> (i, isoformat d) \<notin> fst ` set overrides) away)"

definition day_keys :: "((uuid \<times> date) \<times> day_acc) list \<Rightarrow> (uuid \<times> string) list" where
  "day_keys g = map (\<lambda>x. (fst (fst x), isoformat (snd (fst x)))) g"

definition override_rows ::
  "uuid list \<Rightarrow> ((uuid \<times> date) \<times> day_acc) list \<Rightarrow> ((uuid \<times> string) \<times> override_status) list \<Rightarrow> att_row list" where
  "override_rows ids g overrides = map (\<lambda>((i, t), st). blank_row i t (override_to_status st) True 0)
     (filter (\<lambda>((i, t), st). (i, t) \<notin> set (day_keys g) \<and> i \<in> set ids) overrides)"

definition absence_rows ::
  "env \<Rightarrow> uuid list \<Rightarrow> date \<Rightarrow> date \<Rightarrow> (uuid \<times> string) list \<Rightarrow> (uuid \<Rightarrow> employment) \<Rightarrow> 'a time_db_scheme \<Rightarrow> att_row list" where
  "absence_rows E ids a b existing windows s =
    (let last_d = min b (local_day E (now s))
     in if last_d < a then []
        else concat (map (\<lambda>i. List.map_filter (\<lambda>d.
               if (i, isoformat d) \<in> set existing \<or> \<not> covers (windows i) d then None
               else Some (blank_row i (isoformat d) (if d \<in> set (approved_leave_dates E i a last_d s) then ON_LEAVE else ABSENT) False 0))
             (working_dates_in a last_d s)) ids))"

definition row_key :: "att_row \<Rightarrow> uuid \<times> string" where
  "row_key r = (ar_employee r, ar_day r)"

definition day_rows :: "env \<Rightarrow> uuid list \<Rightarrow> (uuid \<Rightarrow> employment) \<Rightarrow> date \<Rightarrow> date \<Rightarrow> 'a time_db_scheme \<Rightarrow> att_row list" where
  "day_rows E ids windows a b s =
    (let g = grouped_days E ids a b s;
         approved = approved_days ids a b s;
         overrides = overrides_for_range ids a b s;
         away = away_days ids a b s;
         verdicts = fst (classified E s approved g (lates_before E ids a s));
         rows = map (worked_row overrides away) verdicts @ away_rows ids g overrides away
                @ override_rows ids g overrides;
         all_rows = rows @ absence_rows E ids a b (map row_key rows) windows s
     in sort_key ar_day (sort_key ar_employee all_rows))"

end
