(* ===== verification/AttendanceReport.thy ===== *)
theory AttendanceReport
  imports Attendance
begin

text \<open>
  What the attendance service answers: the live day, the date range, the monthly report that payroll reads and
  the status column of the exported register (\<open>app/services/attendance_service.py\<close>), with the historical
  roster of \<open>app/repositories/employee.py\<close>.
\<close>

subsection \<open>The live day\<close>

definition agg_resolved ::
  "daily_agg \<Rightarrow> datetime option \<times> datetime option \<times> int \<times> string option \<times> string option \<times> string option" where
  "agg_resolved g = (Some (ag_login g), Some (ag_logout g), minutes_between (ag_login g) (ag_logout g), None,
     Some ''agent'', Some ''agent'')"

definition resolve_day ::
  "day_span option \<Rightarrow> day_span option \<Rightarrow> daily_agg option \<Rightarrow> datetime \<Rightarrow> bool \<Rightarrow> datetime \<Rightarrow> string
   \<Rightarrow> datetime option \<times> datetime option \<times> int \<times> string option \<times> string option \<times> string option" where
  "resolve_day bio oth agg t is_today day_stop prefer =
    (case (prefer = ''agent'', agg) of
       (True, Some g) \<Rightarrow> agg_resolved g
     | _ \<Rightarrow>
       (case (if prefer = ''agent'' then (if oth = None then bio else oth) else if bio = None then oth else bio) of
          Some sp \<Rightarrow> (let out = (case sp_logout sp of Some l \<Rightarrow> l
                              | None \<Rightarrow> if is_today then t else (case agg of Some g \<Rightarrow> ag_logout g | None \<Rightarrow> day_stop))
                     in (Some (sp_login sp), sp_logout sp, minutes_between (sp_login sp) out, sp_ip sp,
                         sp_in_source sp, sp_out_source sp))
        | None \<Rightarrow> (case agg of Some g \<Rightarrow> agg_resolved g | None \<Rightarrow> (None, None, 0, None, None, None))))"

record attendance_read =
  rd_employee :: uuid
  rd_status :: att_status
  rd_login :: "datetime option"
  rd_logout :: "datetime option"
  rd_worked :: int
  rd_idle :: int
  rd_active :: int
  rd_productivity :: int
  rd_late :: bool
  rd_early :: bool
  rd_missed_logout :: bool
  rd_regularizable :: bool
  rd_regularized :: bool
  rd_ip :: "string option"
  rd_in_source :: "string option"
  rd_out_source :: "string option"

definition daily_row ::
  "env \<Rightarrow> string \<Rightarrow> date \<Rightarrow> (uuid \<Rightarrow> int) \<Rightarrow> 'a time_db_scheme \<Rightarrow> employee \<Rightarrow> attendance_read option" where
  "daily_row E prefer d lates s e =
    (let i = emp_id e; b = local_bounds E d; agg = daily_aggregate i b s;
         (login, logout, worked, ip, in_src, out_src) = resolve_day (day_span_of i b (Some ''biometric'') s)
            (day_span_of i b None s) agg (now s) (d = local_day E (now s))
            (day_work_end_utc E d (pol_work_end (att_policy_row s))) prefer;
         regd = (i, isoformat d) \<in> set (approved_days [i] d d s);
         v = classify_day E login worked regd (spec_of s)
               (window_closed E d s \<or> out_src \<in> {Some ''dashboard'', Some ''auto''}) (lates i);
         idle = (case agg of None \<Rightarrow> 0 | Some g \<Rightarrow> idle_minutes g worked);
         active = max 0 (worked - idle);
         ov = map_of (overrides_for_range [i] d d s) (i, isoformat d);
         p = map_of (away_days [i] d d s) (i, d);
         status = (case ov of Some x \<Rightarrow> override_to_status x
                   | None \<Rightarrow> if p \<noteq> None then OUT_OF_OFFICE
                            else if dv_status v = ABSENT \<and> d \<in> set (approved_leave_dates E i d d s) then ON_LEAVE
                            else dv_status v)
     in if \<not> (covers (employment_of E s e) d \<or> login \<noteq> None \<or> ov \<noteq> None) then None
        else Some \<lparr>rd_employee = i, rd_status = status, rd_login = login, rd_logout = logout, rd_worked = worked,
               rd_idle = idle, rd_active = active,
               rd_productivity = (if worked \<noteq> 0 then py_round (fmul (int_div active worked) 100) else 0),
               rd_late = late_login v, rd_early = early_logout v \<and> dv_status v \<noteq> ABSENT,
               rd_missed_logout = (logout = None \<and> login \<noteq> None \<and> d < local_day E (now s)),
               rd_regularizable = regularizable v, rd_regularized = regularized v, rd_ip = ip,
               rd_in_source = in_src, rd_out_source = out_src\<rparr>)"

definition daily_attendance :: "env \<Rightarrow> current_user \<Rightarrow> datetime \<Rightarrow> string \<Rightarrow> 'a time_db_scheme \<Rightarrow> attendance_read list" where
  "daily_attendance E c day prefer s =
    (let d = local_day E day; es = all_in_scope E c s; lates = lates_before E (map emp_id es) d s
     in List.map_filter (daily_row E prefer d lates s) es)"

definition my_biometric_today :: "env \<Rightarrow> current_user \<Rightarrow> 'a time_db_scheme \<Rightarrow> (datetime \<times> datetime option) option" where
  "my_biometric_today E c s = map_option (\<lambda>sp. (sp_login sp, sp_logout sp))
     (day_span_of (cu_id c) (local_bounds E (local_day E (now s))) (Some ''biometric'') s)"

subsection \<open>Date range\<close>

definition max_range_days :: int where
  "max_range_days = 92"

definition attendance_range ::
  "env \<Rightarrow> current_user \<Rightarrow> date \<Rightarrow> date \<Rightarrow> uuid option \<Rightarrow> 'a time_db_scheme \<Rightarrow> att_row list res" where
  "attendance_range E c a b only s =
    ebind (require (\<not> a > b) (ValidationError ''Start date must be on or before the end date.'')) (\<lambda>_.
    ebind (require (\<not> b - a > max_range_days)
      (ValidationError (''Date range can be at most '' @ int_str max_range_days @ '' days.''))) (\<lambda>_.
    (let es = all_in_scope E c s; ids = map emp_id es
     in ebind (require (case only of None \<Rightarrow> True | Some i \<Rightarrow> i \<in> set ids) NotFoundError) (\<lambda>_.
        (let windows = (\<lambda>i. case find_employee i s of None \<Rightarrow> always_employed | Some e \<Rightarrow> employment_of E s e);
             rows = day_rows E ids windows a b s
         in Inr (case only of None \<Rightarrow> rows | Some i \<Rightarrow> filter (\<lambda>r. ar_employee r = i) rows))))))"

subsection \<open>Monthly report\<close>

record att_summary = month_summary +
  absent_days :: int
  days_on_leave :: int
  regularized_days :: int
  worked_minutes :: int
  avg_check_in :: "int option"
  avg_check_out :: "int option"

definition zero_summary :: att_summary where
  "zero_summary = \<lparr>full_days = 0, late_days = 0, month_summary.half_days = 0, out_of_office_days = 0, absent_days = 0,
     days_on_leave = 0, regularized_days = 0, worked_minutes = 0, avg_check_in = None, avg_check_out = None\<rparr>"

definition count_row :: "att_row \<Rightarrow> att_summary \<Rightarrow> att_summary" where
  "count_row r m =
    (let m1 = m\<lparr>worked_minutes := worked_minutes m + ar_worked r\<rparr>;
         m2 = (case ar_status r of
                 FULL_DAY \<Rightarrow> m1\<lparr>full_days := full_days m1 + 1\<rparr>
               | HALF_DAY \<Rightarrow> m1\<lparr>half_days := month_summary.half_days m1 + 1\<rparr>
               | LATE \<Rightarrow> m1\<lparr>late_days := late_days m1 + 1\<rparr>
               | ABSENT \<Rightarrow> m1\<lparr>absent_days := absent_days m1 + 1\<rparr>
               | ON_LEAVE \<Rightarrow> m1\<lparr>days_on_leave := days_on_leave m1 + 1\<rparr>
               | OUT_OF_OFFICE \<Rightarrow> m1\<lparr>out_of_office_days := fadd (out_of_office_days m1) (ar_credit r)\<rparr>
               | PRESENT \<Rightarrow> m1)
     in if ar_regularized r then m2\<lparr>regularized_days := regularized_days m2 + 1\<rparr> else m2)"

definition mean_minute :: "int list \<Rightarrow> int option" where
  "mean_minute xs = (if xs = [] then None else Some (py_round (int_div (sum_list xs) (int (length xs)))))"

definition summarize :: "env \<Rightarrow> att_row list \<Rightarrow> uuid \<Rightarrow> att_summary" where
  "summarize E rws i =
    (let mine = filter (\<lambda>r. ar_employee r = i) rws
     in (fold count_row mine zero_summary)
          \<lparr>avg_check_in := mean_minute (map (local_minute E) (List.map_filter ar_login mine)),
           avg_check_out := mean_minute (map (local_minute E) (List.map_filter ar_logout mine))\<rparr>)"

definition month_bounds :: "string \<Rightarrow> (date \<times> date) res" where
  "month_bounds month = require_some (report_month_bounds month) (ValidationError bad_report_month)"

text \<open>The roster of a period: staff hired by its end who are active or left a trace in it.\<close>

definition on_the_books :: "env \<Rightarrow> date \<Rightarrow> date \<Rightarrow> 'a time_db_scheme \<Rightarrow> employee \<Rightarrow> bool" where
  "on_the_books E a b s e \<longleftrightarrow>
    (let start = fst (local_bounds E a); stop = snd (local_bounds E b)
     in \<not> is_guest e \<and> (case hire_date e of None \<Rightarrow> True | Some h \<Rightarrow> h \<le> b) \<and>
        (is_active e
         \<or> list_ex (\<lambda>w. ws_employee w = emp_id e \<and> start \<le> clock_in_at w \<and> clock_in_at w < stop) (work_sessions s)
         \<or> list_ex (\<lambda>l. leave_employee l = emp_id e \<and> leave_state l = APPROVED \<and> leave_start l < stop \<and> leave_end l \<ge> start) (leaves s)
         \<or> list_ex (\<lambda>r. res_employee r = emp_id e \<and> res_state r = RES_ACCEPTED \<and> last_working_day r \<ge> a) (resignations s)))"

definition all_in_scope_for_period ::
  "env \<Rightarrow> current_user \<Rightarrow> date \<Rightarrow> date \<Rightarrow> bool \<Rightarrow> 'a time_db_scheme \<Rightarrow> employee list" where
  "all_in_scope_for_period E c a b org_wide s =
     by_name E (filter (\<lambda>e. (org_wide \<or> scope_clause c e s) \<and> on_the_books E a b s e) (employees s))"

definition month_register ::
  "env \<Rightarrow> current_user \<Rightarrow> string \<Rightarrow> bool \<Rightarrow> 'a time_db_scheme \<Rightarrow> (employee list \<times> att_row list) res" where
  "month_register E c month org_wide s = ebind (month_bounds month) (\<lambda>(a, b).
     (let es = all_in_scope_for_period E c a b org_wide s;
          windows = (\<lambda>i. case find_employee i s of None \<Rightarrow> always_employed | Some e \<Rightarrow> employment_of E s e)
      in Inr (es, day_rows E (map emp_id es) windows a b s)))"

definition monthly_report ::
  "env \<Rightarrow> current_user \<Rightarrow> string \<Rightarrow> bool \<Rightarrow> 'a time_db_scheme \<Rightarrow> (employee \<times> att_summary) list res" where
  "monthly_report E c month org_wide s = ebind (month_register E c month org_wide s) (\<lambda>(es, rows).
     Inr (map (\<lambda>e. (e, summarize E rows (emp_id e))) es))"

subsection \<open>The register sheet\<close>

definition off_day_label :: "date \<Rightarrow> (date \<times> string) list \<Rightarrow> int \<Rightarrow> string option" where
  "off_day_label d holidays wpw = (case map_of holidays d of
     Some name \<Rightarrow> Some (''Holiday: '' @ name)
   | None \<Rightarrow> if \<not> is_working_day d wpw then Some ''Weekend'' else None)"

definition status_label :: "att_status \<Rightarrow> string" where
  "status_label st = title_words (map (\<lambda>ch. if ch = CHR ''_'' then CHR '' '' else ch) (att_value st))"

definition register_status :: "att_row option \<Rightarrow> date \<Rightarrow> employment \<Rightarrow> string option \<Rightarrow> date \<Rightarrow> string" where
  "register_status row d window off_day today =
    (case row of
       Some r \<Rightarrow> (case off_day of Some l \<Rightarrow> l @ '' ('' @ status_label (ar_status r) @ '')'' | None \<Rightarrow> status_label (ar_status r))
     | None \<Rightarrow>
         if (case em_first window of Some f \<Rightarrow> d < f | None \<Rightarrow> False) then ''Not yet joined''
         else if (case em_last window of Some l \<Rightarrow> d > l | None \<Rightarrow> False) then ''Left''
         else (case off_day of Some l \<Rightarrow> l | None \<Rightarrow> if d > today then ''Upcoming'' else ''-''))"

definition clock_minute :: "int option \<Rightarrow> string" where
  "clock_minute m = (case m of None \<Rightarrow> ''-'' | Some x \<Rightarrow> pad2 (x div 60) @ '':'' @ pad2 (x mod 60))"

end
