(* ===== verification/DayRequests.thy ===== *)
theory DayRequests
  imports AttendanceReport
begin

text \<open>
  Two requests about a day of attendance and who decides them: correcting a day
  (\<open>app/services/regularization_service.py\<close>, \<open>app/repositories/regularization.py\<close>) and a day worked away from the
  office (\<open>app/services/out_of_office_service.py\<close>, \<open>app/repositories/out_of_office.py\<close>, with the validator of
  \<open>app/schemas/out_of_office.py\<close>).
\<close>

subsection \<open>Text\<close>

definition starts_with :: "string \<Rightarrow> string \<Rightarrow> bool" where
  "starts_with p x \<longleftrightarrow> take (length p) x = p"

text \<open>\<open>text[:n]\<close> on UTF-8 bytes: a continuation byte belongs to the character before it.\<close>

definition continuation :: "char \<Rightarrow> bool" where
  "continuation x \<longleftrightarrow> (let b = of_char x :: nat in 128 \<le> b \<and> b < 192)"

fun take_chars :: "nat \<Rightarrow> string \<Rightarrow> string" where
  "take_chars n [] = []"
| "take_chars n (x # xs) = (if continuation x then x # take_chars n xs
     else (case n of 0 \<Rightarrow> [] | Suc m \<Rightarrow> x # take_chars m xs))"

text \<open>Rows by a text column, the largest first.\<close>

definition by_text_desc :: "('x \<Rightarrow> string) \<Rightarrow> 'x list \<Rightarrow> 'x list" where
  "by_text_desc f xs = rev (sort_key f (rev xs))"

definition manager_of :: "uuid \<Rightarrow> 'a core_scheme \<Rightarrow> uuid option" where
  "manager_of i s = Option.bind (find_employee i s) manager_id"

definition time_audit :: "env \<Rightarrow> current_user \<Rightarrow> string \<Rightarrow> string \<Rightarrow> 'a core_scheme \<Rightarrow> 'a core_scheme" where
  "time_audit E c act tgt s = audit_append E (uuid_str (cu_id c)) act (Some tgt) s"

subsection \<open>Regularizations\<close>

definition regularizations_link :: string where
  "regularizations_link = ''/dashboard/time/regularizations''"

definition find_reg :: "uuid \<Rightarrow> 'a time_db_scheme \<Rightarrow> regularization option" where
  "find_reg i s = row_get reg_id i (regs s)"

definition put_reg :: "regularization \<Rightarrow> 'a time_db_scheme \<Rightarrow> 'a time_db_scheme" where
  "put_reg r s = s\<lparr>regs := row_put reg_id r (regs s)\<rparr>"

definition create_reg :: "uuid \<Rightarrow> string \<Rightarrow> string option \<Rightarrow> 'a time_db_scheme \<Rightarrow> regularization \<times> 'a time_db_scheme" where
  "create_reg i day reason s =
    (let r = \<lparr>reg_id = next_id s, reg_employee = i, reg_day = day, reg_reason = reason, reg_state = REG_PENDING,
              reviewed_by_id = None, review_note = None\<rparr>
     in (r, s\<lparr>regs := row_add r (regs s), next_id := next_id s + 1\<rparr>))"

definition get_active_for_day :: "uuid \<Rightarrow> string \<Rightarrow> 'a time_db_scheme \<Rightarrow> regularization option" where
  "get_active_for_day i day s =
     List.find (\<lambda>r. reg_employee r = i \<and> reg_day r = day \<and> reg_state r \<noteq> REG_REJECTED) (regs s)"

definition list_regs :: "uuid list \<Rightarrow> string option \<Rightarrow> reg_status option \<Rightarrow> 'a time_db_scheme \<Rightarrow> regularization list" where
  "list_regs ids month st s = by_text_desc reg_day (filter (\<lambda>r. reg_employee r \<in> set ids
     \<and> (case month of None \<Rightarrow> True | Some m \<Rightarrow> starts_with m (reg_day r))
     \<and> (case st of None \<Rightarrow> True | Some x \<Rightarrow> reg_state r = x)) (regs s))"

definition count_approved_in_month :: "uuid \<Rightarrow> string \<Rightarrow> 'a time_db_scheme \<Rightarrow> int" where
  "count_approved_in_month i month s =
     int (length (filter (\<lambda>r. reg_employee r = i \<and> reg_state r = REG_APPROVED \<and> starts_with month (reg_day r)) (regs s)))"

definition reg_may_decide :: "current_user \<Rightarrow> regularization \<Rightarrow> uuid option \<Rightarrow> bool" where
  "reg_may_decide c r m = (if cu_id c = reg_employee r then False
     else if cu_role c = HR then True
     else m \<noteq> None \<and> m = Some (cu_id c))"

text \<open>\<open>_reviewers_for\<close>: the active manager, else HR and the admins.\<close>

definition reg_reviewers_for :: "env \<Rightarrow> current_user \<Rightarrow> 'a core_scheme \<Rightarrow> uuid list" where
  "reg_reviewers_for E c s =
    (let fallback = dedup_from [] (filter (\<lambda>i. i \<noteq> cu_id c) (map emp_id (list_by_role E HR s @ list_admins E s)))
     in case Option.bind (cu_manager c) (\<lambda>m. find_employee m s) of
          Some e \<Rightarrow> if is_active e then [emp_id e] else fallback
        | None \<Rightarrow> fallback)"

definition reg_notice ::
  "uuid \<Rightarrow> notification_kind \<Rightarrow> string \<Rightarrow> string \<Rightarrow> notification_level \<Rightarrow> uuid \<Rightarrow> uuid \<Rightarrow> notice" where
  "reg_notice rcp k title body level i act = \<lparr>no_to = rcp, no_kind = k, no_title = title,
     no_body = Some (take_chars 200 body), no_level = level, no_link = Some regularizations_link,
     no_entity_type = Some ''regularization'', no_entity_id = Some i, no_actor = Some act\<rparr>"

definition py_none_text :: "string option \<Rightarrow> string" where
  "py_none_text x = (case x of None \<Rightarrow> ''None'' | Some t \<Rightarrow> t)"

definition reg_request :: "env \<Rightarrow> current_user \<Rightarrow> string \<Rightarrow> string option \<Rightarrow> 'a time_db_scheme
    \<Rightarrow> (regularization \<times> 'a time_db_scheme) res" where
  "reg_request E c day reason s =
    (if get_active_for_day (cu_id c) day s \<noteq> None
     then Inl (ValidationError ''A regularization for that day already exists.'')
     else let (r, s1) = create_reg (cu_id c) day reason s;
              s2 = time_audit E c ''regularization.request'' (''regularization:'' @ uuid_str (reg_id r) @ '':'' @ day) s1
          in Inr (r, fold (\<lambda>i s. notify E (reg_notice i REGULARIZATION_REQUEST ''Attendance fix to review''
               (day @ middot @ py_none_text reason) INFO (reg_id r) (cu_id c)) None s) (reg_reviewers_for E c s2) s2))"

definition regs_for_caller ::
  "env \<Rightarrow> current_user \<Rightarrow> string option \<Rightarrow> reg_status option \<Rightarrow> 'a time_db_scheme \<Rightarrow> regularization list" where
  "regs_for_caller E c month st s = list_regs (map emp_id (all_in_scope E c s)) month st s"

definition reg_decidable_ids :: "current_user \<Rightarrow> regularization list \<Rightarrow> 'a time_db_scheme \<Rightarrow> uuid list" where
  "reg_decidable_ids c rs s = map reg_id (filter (\<lambda>r. reg_state r = REG_PENDING
     \<and> reg_may_decide c r (manager_of (reg_employee r) s)) rs)"

definition reg_notify_decision :: "env \<Rightarrow> current_user \<Rightarrow> regularization \<Rightarrow> 'a core_scheme \<Rightarrow> 'a core_scheme" where
  "reg_notify_decision E c r s =
    (let approved = (reg_state r = REG_APPROVED)
     in notify E (reg_notice (reg_employee r) SYSTEM (''Attendance fix '' @ (if approved then ''approved'' else ''rejected''))
          (case review_note r of None \<Rightarrow> reg_day r | Some n \<Rightarrow> if n = '''' then reg_day r else reg_day r @ middot @ n)
          (if approved then INFO else WARNING) (reg_id r) (cu_id c)) None s)"

definition reg_review :: "env \<Rightarrow> current_user \<Rightarrow> uuid \<Rightarrow> bool \<Rightarrow> string option \<Rightarrow> 'a time_db_scheme
    \<Rightarrow> (regularization \<times> 'a time_db_scheme) res" where
  "reg_review E c i approve note s =
    ebind (require_some (find_reg i s) NotFoundError) (\<lambda>r.
    if \<not> can_read c (reg_employee r) s then Inl NotFoundError
    else if reg_employee r = cu_id c then Inl AuthorizationError
    else if \<not> reg_may_decide c r (manager_of (reg_employee r) s) then Inl AuthorizationError
    else if reg_state r \<noteq> REG_PENDING then Inl (ValidationError ''This regularization was already reviewed.'')
    else if approve \<and> count_approved_in_month (reg_employee r) (take 7 (reg_day r)) s
           \<ge> monthly_regularizations (spec_of s)
    then Inl (ValidationError ''No regularization credits left this month.'')
    else let r' = r\<lparr>reg_state := (if approve then REG_APPROVED else REG_REJECTED), reviewed_by_id := Some (cu_id c),
                review_note := note\<rparr>;
             s1 = time_audit E c (''regularization.'' @ reg_value (reg_state r')) (''regularization:'' @ uuid_str (reg_id r))
                (put_reg r' s)
         in Inr (r', reg_notify_decision E c r' s1))"

subsection \<open>Days out of the office\<close>

definition ooo_link :: string where
  "ooo_link = ''/dashboard/time/out-of-office''"

record ooo_create =
  oc_start :: date
  oc_end :: date
  oc_portion :: portion
  oc_location :: string
  oc_reason :: string

definition max_span_days :: int where
  "max_span_days = 31"

definition ooo_create_ok :: "ooo_create \<Rightarrow> bool" where
  "ooo_create_ok p \<longleftrightarrow> \<not> oc_end p < oc_start p \<and> \<not> oc_end p - oc_start p + 1 > max_span_days
     \<and> \<not> (oc_portion p = P_HALF_DAY \<and> oc_end p - oc_start p + 1 > 1)"

fun portion_label :: "portion \<Rightarrow> string" where
  "portion_label P_FULL_DAY = ''full day''"
| "portion_label P_HALF_DAY = ''half day''"

definition ooo_day_label :: "out_of_office \<Rightarrow> string" where
  "ooo_day_label x = (if start_day x = end_day x then isoformat (start_day x)
     else isoformat (start_day x) @ '' to '' @ isoformat (end_day x)) @ '' ('' @ portion_label (ooo_portion x) @ '')''"

definition ooo_live :: "out_of_office \<Rightarrow> bool" where
  "ooo_live x \<longleftrightarrow> ooo_state x \<in> {OOO_PENDING, OOO_APPROVED}"

definition find_ooo :: "uuid \<Rightarrow> 'a time_db_scheme \<Rightarrow> out_of_office option" where
  "find_ooo i s = row_get ooo_id i (ooo_entries s)"

definition put_ooo :: "out_of_office \<Rightarrow> 'a time_db_scheme \<Rightarrow> 'a time_db_scheme" where
  "put_ooo x s = s\<lparr>ooo_entries := row_put ooo_id x (ooo_entries s)\<rparr>"

definition create_ooo :: "uuid \<Rightarrow> date \<Rightarrow> date \<Rightarrow> portion \<Rightarrow> string \<Rightarrow> string \<Rightarrow> 'a time_db_scheme
    \<Rightarrow> out_of_office \<times> 'a time_db_scheme" where
  "create_ooo i a b p loc reason s =
    (let x = \<lparr>ooo_id = next_id s, ooo_employee = i, start_day = a, end_day = b, ooo_portion = p, ooo_location = loc,
              ooo_reason = reason, ooo_state = OOO_PENDING, ooo_reviewed_by = None, ooo_decided_at = None, ooo_note = None\<rparr>
     in (x, s\<lparr>ooo_entries := row_add x (ooo_entries s), next_id := next_id s + 1\<rparr>))"

definition ooo_overlapping :: "uuid \<Rightarrow> date \<Rightarrow> date \<Rightarrow> 'a time_db_scheme \<Rightarrow> out_of_office option" where
  "ooo_overlapping i a b s =
     List.find (\<lambda>x. ooo_employee x = i \<and> ooo_live x \<and> start_day x \<le> b \<and> end_day x \<ge> a) (ooo_entries s)"

definition list_ooo :: "uuid list \<Rightarrow> string option \<Rightarrow> ooo_status option \<Rightarrow> 'a time_db_scheme \<Rightarrow> out_of_office list" where
  "list_ooo ids month st s = by_text_desc (\<lambda>x. isoformat (start_day x)) (filter (\<lambda>x. ooo_employee x \<in> set ids
     \<and> (case month of None \<Rightarrow> True | Some m \<Rightarrow> isoformat (start_day x) \<le> m @ ''-31'' \<and> isoformat (end_day x) \<ge> m @ ''-01'')
     \<and> (case st of None \<Rightarrow> True | Some v \<Rightarrow> ooo_state x = v)) (ooo_entries s))"

definition ooo_may_decide :: "current_user \<Rightarrow> out_of_office \<Rightarrow> uuid option \<Rightarrow> bool" where
  "ooo_may_decide c x m = (if cu_id c = ooo_employee x then False
     else if cu_role c = HR then True
     else m \<noteq> None \<and> m = Some (cu_id c))"

text \<open>\<open>OFFICE_TZ\<close> is Asia/Kolkata, five and a half hours ahead, whatever zone the policy names.\<close>

definition office_to_utc :: "datetime \<Rightarrow> datetime" where
  "office_to_utc w = w - 19800 * 1000000"

definition assert_not_on_leave :: "uuid \<Rightarrow> date \<Rightarrow> date \<Rightarrow> 'a time_db_scheme \<Rightarrow> unit res" where
  "assert_not_on_leave i a b s =
    (let start = office_to_utc (utc_midnight a); stop = office_to_utc (utc_midnight b + 86399 * 1000000)
     in require (approved_paid_in_range i start stop s = [])
          (ValidationError (''You have approved leave on those dates. Withdraw the leave first, ''
             @ ''or pick days you are not already on leave.'')))"

definition ooo_reviewers_for :: "env \<Rightarrow> current_user \<Rightarrow> 'a core_scheme \<Rightarrow> employee list" where
  "ooo_reviewers_for E c s =
    (let fallback = dedup_from [] (filter (\<lambda>e. emp_id e \<noteq> cu_id c) (list_by_role E HR s @ list_admins E s))
     in case Option.bind (cu_manager c) (\<lambda>m. find_employee m s) of
          Some e \<Rightarrow> if is_active e then [e] else fallback
        | None \<Rightarrow> fallback)"

definition ooo_notice :: "uuid \<Rightarrow> string \<Rightarrow> out_of_office \<Rightarrow> notification_level \<Rightarrow> uuid \<Rightarrow> notice" where
  "ooo_notice rcp title x level act = \<lparr>no_to = rcp, no_kind = SYSTEM, no_title = title,
     no_body = Some (take_chars 200 (ooo_day_label x @ middot @ ooo_location x)), no_level = level,
     no_link = Some ooo_link, no_entity_type = Some ''out_of_office'', no_entity_id = Some (ooo_id x),
     no_actor = Some act\<rparr>"

definition ooo_tell_reviewers :: "env \<Rightarrow> current_user \<Rightarrow> out_of_office \<Rightarrow> 'a core_scheme \<Rightarrow> 'a core_scheme" where
  "ooo_tell_reviewers E c x s = fold (\<lambda>e s. notify E (ooo_notice (emp_id e) ''Out-of-office request to review'' x INFO
     (cu_id c)) None s) (ooo_reviewers_for E c s) s"

definition ooo_request :: "env \<Rightarrow> current_user \<Rightarrow> ooo_create \<Rightarrow> 'a time_db_scheme
    \<Rightarrow> (out_of_office \<times> 'a time_db_scheme) res" where
  "ooo_request E c p s =
    (case ooo_overlapping (cu_id c) (oc_start p) (oc_end p) s of
       Some clash \<Rightarrow> Inl (ValidationError (''You already have an out-of-office entry covering ''
         @ isoformat (start_day clash) @ '' to '' @ isoformat (end_day clash) @ ''.''))
     | None \<Rightarrow> ebind (assert_not_on_leave (cu_id c) (oc_start p) (oc_end p) s) (\<lambda>_.
         let (x, s1) = create_ooo (cu_id c) (oc_start p) (oc_end p) (oc_portion p) (py_strip (oc_location p))
               (py_strip (oc_reason p)) s;
             s2 = time_audit E c ''out_of_office.request'' (''out_of_office:'' @ uuid_str (ooo_id x) @ '':''
               @ isoformat (oc_start p) @ ''..'' @ isoformat (oc_end p)) s1
         in Inr (x, ooo_tell_reviewers E c x s2)))"

definition ooo_for_caller ::
  "env \<Rightarrow> current_user \<Rightarrow> string option \<Rightarrow> ooo_status option \<Rightarrow> 'a time_db_scheme \<Rightarrow> out_of_office list" where
  "ooo_for_caller E c month st s = list_ooo (map emp_id (all_in_scope E c s)) month st s"

definition ooo_decidable_ids :: "current_user \<Rightarrow> out_of_office list \<Rightarrow> 'a time_db_scheme \<Rightarrow> uuid list" where
  "ooo_decidable_ids c xs s = map ooo_id (filter (\<lambda>x. ooo_state x = OOO_PENDING
     \<and> ooo_may_decide c x (manager_of (ooo_employee x) s)) xs)"

definition ooo_cancel :: "env \<Rightarrow> current_user \<Rightarrow> uuid \<Rightarrow> 'a time_db_scheme \<Rightarrow> (out_of_office \<times> 'a time_db_scheme) res" where
  "ooo_cancel E c i s =
    (case find_ooo i s of
       None \<Rightarrow> Inl NotFoundError
     | Some x \<Rightarrow>
         if ooo_employee x \<noteq> cu_id c then Inl NotFoundError
         else if ooo_state x \<noteq> OOO_PENDING then Inl (ValidationError ''That request was already reviewed.'')
         else let x' = x\<lparr>ooo_state := OOO_CANCELLED\<rparr>
              in Inr (x', time_audit E c ''out_of_office.cancelled'' (''out_of_office:'' @ uuid_str (ooo_id x)) (put_ooo x' s)))"

definition ooo_notify_decision :: "env \<Rightarrow> current_user \<Rightarrow> out_of_office \<Rightarrow> employee option \<Rightarrow> 'a core_scheme \<Rightarrow> 'a core_scheme" where
  "ooo_notify_decision E c x requester s =
    (let approved = (ooo_state x = OOO_APPROVED);
         s1 = notify E (ooo_notice (ooo_employee x) (''Out of office '' @ (if approved then ''approved'' else ''rejected'')) x
                (if approved then INFO else WARNING) (cu_id c)) None s
     in case requester of
          None \<Rightarrow> s1
        | Some r \<Rightarrow>
            if \<not> approved \<or> work_email r = '''' then s1
            else snd (send_email E \<lparr>mail_to = work_email r, mail_template = ''out_of_office_approved'',
              mail_fields = [full_name r, (case find_employee (cu_id c) s1 of Some a \<Rightarrow> full_name a | None \<Rightarrow> ''Your manager''),
                ooo_day_label x, ooo_location x, ooo_reason x, ooo_link]\<rparr> s1))"

definition ooo_review :: "env \<Rightarrow> current_user \<Rightarrow> uuid \<Rightarrow> bool \<Rightarrow> string option \<Rightarrow> 'a time_db_scheme
    \<Rightarrow> (out_of_office \<times> 'a time_db_scheme) res" where
  "ooo_review E c i approve note s =
    ebind (require_some (find_ooo i s) NotFoundError) (\<lambda>x.
    if \<not> can_read c (ooo_employee x) s then Inl NotFoundError
    else if ooo_employee x = cu_id c then Inl AuthorizationError
    else if \<not> ooo_may_decide c x (manager_of (ooo_employee x) s) then Inl AuthorizationError
    else if ooo_state x \<noteq> OOO_PENDING then Inl (ValidationError ''That request was already reviewed.'')
    else let x' = x\<lparr>ooo_state := (if approve then OOO_APPROVED else OOO_REJECTED), ooo_reviewed_by := Some (cu_id c),
                ooo_note := note, ooo_decided_at := Some (now s)\<rparr>;
             s1 = time_audit E c (''out_of_office.'' @ ooo_value (ooo_state x')) (''out_of_office:'' @ uuid_str (ooo_id x))
                (put_ooo x' s)
         in Inr (x', ooo_notify_decision E c x' (find_employee (ooo_employee x) s) s1))"

end
