(* ===== verification/ExclusiveRows.thy ===== *)
theory ExclusiveRows
  imports LeaveLaws
begin

text \<open>
  Workflows whose rows exclude each other: no two live entries on a day, one request under review per person. The
  service checks the table before it adds a row or moves one along an edge; from that check alone no two rows of any
  reachable state conflict.
\<close>

locale exclusive_rows = row_life key table fresh_id step edge fresh ok
  for key :: "'r \<Rightarrow> nat" and table :: "'s \<Rightarrow> 'r list" and fresh_id :: "'s \<Rightarrow> nat"
    and step :: "'l \<Rightarrow> 's \<Rightarrow> 's \<Rightarrow> bool" and edge :: "'l \<Rightarrow> 's \<Rightarrow> 'r \<Rightarrow> 'r \<Rightarrow> bool"
    and fresh :: "'l \<Rightarrow> 's \<Rightarrow> 'r \<Rightarrow> bool" and ok :: "'r \<Rightarrow> bool" +
  fixes separate :: "'r \<Rightarrow> 'r \<Rightarrow> bool"
  assumes separate_sym: "separate x y \<Longrightarrow> separate y x"
    and edge_separate: "edge l s r r' \<Longrightarrow> x \<in> set (table s) \<Longrightarrow> key x \<noteq> key r \<Longrightarrow> separate x r \<Longrightarrow> separate x r'"
    and fresh_separate: "fresh l s r \<Longrightarrow> x \<in> set (table s) \<Longrightarrow> separate x r"
begin

definition all_separate :: "'s \<Rightarrow> bool" where
  "all_separate s \<longleftrightarrow> (\<forall>x \<in> set (table s). \<forall>y \<in> set (table s). key x \<noteq> key y \<longrightarrow> separate x y)"

lemma all_separate_step:
  assumes "rows_ok key ok (fresh_id s) (table s)" "step l s s'" "all_separate s"
  shows "all_separate s'"
  using assms(1,2)
proof (cases rule: step_cases)
  case same
  then show ?thesis using assms(3) by (simp add: all_separate_def)
next
  case (edge r r')
  have r: "r \<in> set (table s)" using edge(1) row_get_SomeD[of key] by blast
  have new: "separate x r'" if "x \<in> set (table s)" "key x \<noteq> key r" for x
    using edge_separate[OF edge(2) that] assms(3) that r by (auto simp: all_separate_def)
  show ?thesis unfolding all_separate_def edge(6)
  proof (intro ballI impI)
    fix x y
    assume "x \<in> set (row_put key r' (table s))" "y \<in> set (row_put key r' (table s))" "key x \<noteq> key y"
    then show "separate x y"
      using rows.put_content_cases[of x key r' "table s"] rows.put_content_cases[of y key r' "table s"] new
        separate_sym assms(3) edge(5) unfolding all_separate_def by metis
  qed
next
  case (new r)
  have "separate x r" if "x \<in> set (table s)" for x using fresh_separate[OF new(1) that] .
  then show ?thesis using assms(3) separate_sym by (auto simp: all_separate_def new(4) row_add_def)
qed

lemma all_separate_run:
  "run step (others_keep table fresh_id) (no_rows table) s \<Longrightarrow> all_separate s"
proof (induction rule: run.induct)
  case (run_init s)
  then show ?case by (simp add: no_rows_def all_separate_def)
next
  case (run_step s l s')
  then show ?case using all_separate_step rows_ok_run by blast
next
  case (run_other s s')
  then show ?case by (simp add: others_keep_def all_separate_def)
qed

lemma separate_run:
  assumes "run step (others_keep table fresh_id) (no_rows table) s" "x \<in> set (table s)" "y \<in> set (table s)" "x \<noteq> y"
  shows "separate x y"
  using all_separate_run[OF assms(1)] rows_ok_inj[OF rows_ok_run[OF assms(1)] assms(2,3)] assms(2-4)
  by (auto simp: all_separate_def)

end

end
