(* ===== verification/DayRequestLaws.thy ===== *)
theory DayRequestLaws
  imports DayRequests ExclusiveRows
begin

text \<open>
  The lives of regularizations and of days out of the office, as instances of the shared contract: who moves a request
  and when, that no two live requests of a person meet on a day, and what approving spends.
\<close>

lemma request_fields_more:
  assumes "core.more s' = core.more (s :: 'a time_db_scheme)"
  shows "regs s' = regs s" "ooo_entries s' = ooo_entries s" "resignations s' = resignations s"
    "day_overrides s' = day_overrides s" "att_policy_row s' = att_policy_row s" "leaves s' = leaves s" "spec_of s' = spec_of s"
  using assms by (cases s; cases s'; simp add: spec_of_def Let_def)+

lemma quiet_requests:
  assumes "quiet (s :: 'a time_db_scheme) s'"
  shows "regs s' = regs s" "ooo_entries s' = ooo_entries s" "resignations s' = resignations s"
    "day_overrides s' = day_overrides s" "att_policy_row s' = att_policy_row s" "spec_of s' = spec_of s" "next_id s \<le> next_id s'"
  using request_fields_more quiet_core[OF assms] by blast+

lemma quiet_time_audit [quiet_intros]: "quiet s t \<Longrightarrow> quiet s (time_audit E c a x t)"
  unfolding time_audit_def by (intro quiet_intros)

lemma put_reg_simps [simp, store_simps]:
  "regs (put_reg r s) = row_put reg_id r (regs s)" "next_id (put_reg r s) = next_id s"
  "spec_of (put_reg r s) = spec_of s" "employees (put_reg r s) = employees s"
  by (simp_all add: put_reg_def spec_of_def)

lemma put_ooo_simps [simp, store_simps]:
  "ooo_entries (put_ooo x s) = row_put ooo_id x (ooo_entries s)" "next_id (put_ooo x s) = next_id s"
  "employees (put_ooo x s) = employees s"
  by (simp_all add: put_ooo_def)

lemma quiet_reg_notify [quiet_intros]: "quiet s t \<Longrightarrow> quiet s (reg_notify_decision E c r t)"
  by (simp add: reg_notify_decision_def Let_def quiet_intros)

lemma quiet_ooo_notify [quiet_intros]:
  "quiet s t \<Longrightarrow> quiet s (ooo_notify_decision E c x e t)" "quiet s t \<Longrightarrow> quiet s (ooo_tell_reviewers E c x t)"
  by (auto simp: ooo_notify_decision_def ooo_tell_reviewers_def Let_def intro!: quiet_intros split: option.split)

subsection \<open>Regularizations\<close>

inductive reg_edge :: "current_user \<Rightarrow> 'a time_db_scheme \<Rightarrow> regularization \<Rightarrow> regularization \<Rightarrow> bool" for c s where
  reg_approve: "reg_state r = REG_PENDING \<Longrightarrow> reg_may_decide c r (manager_of (reg_employee r) s) \<Longrightarrow>
    count_approved_in_month (reg_employee r) (take 7 (reg_day r)) s < monthly_regularizations (spec_of s) \<Longrightarrow>
    reg_edge c s r (r\<lparr>reg_state := REG_APPROVED, reviewed_by_id := Some (cu_id c), review_note := n\<rparr>)"
| reg_reject: "reg_state r = REG_PENDING \<Longrightarrow> reg_may_decide c r (manager_of (reg_employee r) s) \<Longrightarrow>
    reg_edge c s r (r\<lparr>reg_state := REG_REJECTED, reviewed_by_id := Some (cu_id c), review_note := n\<rparr>)"

inductive_cases reg_edgeE: "reg_edge c s r r'"

inductive reg_step :: "env \<Rightarrow> current_user \<Rightarrow> 'a time_db_scheme \<Rightarrow> 'a time_db_scheme \<Rightarrow> bool" for E c s where
  "reg_request E c day reason s = Inr (r, s') \<Longrightarrow> reg_step E c s s'"
| "reg_review E c i approve note s = Inr (r, s') \<Longrightarrow> reg_step E c s s'"

definition fresh_reg :: "current_user \<Rightarrow> 'a time_db_scheme \<Rightarrow> regularization \<Rightarrow> bool" where
  "fresh_reg c s r \<longleftrightarrow> reg_id r = next_id s \<and> reg_employee r = cu_id c \<and> reg_state r = REG_PENDING
     \<and> reviewed_by_id r = None \<and> get_active_for_day (cu_id c) (reg_day r) s = None"

definition reg_ok :: "regularization \<Rightarrow> bool" where
  "reg_ok r \<longleftrightarrow> (if reg_state r = REG_PENDING then reviewed_by_id r = None
     else \<exists>d. reviewed_by_id r = Some d \<and> d \<noteq> reg_employee r)"

text \<open>Two requests of one person for one day: one of them was rejected.\<close>

definition reg_apart :: "regularization \<Rightarrow> regularization \<Rightarrow> bool" where
  "reg_apart x y \<longleftrightarrow> \<not> (reg_employee x = reg_employee y \<and> reg_day x = reg_day y
     \<and> reg_state x \<noteq> REG_REJECTED \<and> reg_state y \<noteq> REG_REJECTED)"

lemma reg_request_effect:
  assumes "reg_request E c day reason s = Inr (r, s')"
  shows "fresh_reg c s r \<and> reg_day r = day \<and> regs s' = row_add r (regs s) \<and> next_id s < next_id s' \<and> spec_of s' = spec_of s"
proof -
  have no: "get_active_for_day (cu_id c) day s = None" and r: "r = fst (create_reg (cu_id c) day reason s)"
    and q: "quiet (snd (create_reg (cu_id c) day reason s)) s'"
    using assms by (auto simp: reg_request_def Let_def case_prod_unfold intro!: quiet_intros split: if_splits)
  show ?thesis using quiet_requests[OF q] no by (simp add: r fresh_reg_def create_reg_def Let_def spec_of_def)
qed

lemma reg_review_effect:
  assumes "reg_review E c i approve note s = Inr (r', s')"
  shows "\<exists>r. find_reg i s = Some r \<and> reg_edge c s r r' \<and> reg_state r' = (if approve then REG_APPROVED else REG_REJECTED)
    \<and> quiet (put_reg r' s) s'"
proof -
  obtain r where r: "find_reg i s = Some r" "reg_may_decide c r (manager_of (reg_employee r) s)" "reg_state r = REG_PENDING"
    and cap: "approve \<Longrightarrow> count_approved_in_month (reg_employee r) (take 7 (reg_day r)) s < monthly_regularizations (spec_of s)"
    and r': "r' = r\<lparr>reg_state := (if approve then REG_APPROVED else REG_REJECTED), reviewed_by_id := Some (cu_id c), review_note := note\<rparr>"
    and q: "quiet (put_reg r' s) s'"
    using assms by (auto simp: reg_review_def ebind_Inr_iff Let_def intro!: quiet_intros split: if_splits)
  have "reg_edge c s r r'" unfolding r' using r cap reg_approve reg_reject by (cases approve) simp_all
  then show ?thesis using r q r' by auto
qed

lemma reg_edge_fields:
  "reg_edge c s r r' \<Longrightarrow> reg_id r' = reg_id r \<and> reg_employee r' = reg_employee r \<and> reg_day r' = reg_day r
     \<and> reg_state r = REG_PENDING"
  by (erule reg_edgeE) simp_all

interpretation reg_life: exclusive_rows reg_id regs next_id "reg_step E" reg_edge fresh_reg reg_ok reg_apart for E
proof unfold_locales
  fix l s s'
  assume "reg_step E l (s :: 'a time_db_scheme) s'"
  then show "next_id s \<le> next_id s' \<and> (regs s' = regs s
        \<or> (\<exists>r r'. row_get reg_id (reg_id r) (regs s) = Some r \<and> reg_edge l s r r' \<and> regs s' = row_put reg_id r' (regs s))
        \<or> (\<exists>r. fresh_reg l s r \<and> regs s' = row_add r (regs s) \<and> next_id s < next_id s'))"
  proof cases
    case (1 day reason r)
    then show ?thesis using reg_request_effect[OF 1] by auto
  next
    case (2 i approve n r')
    obtain r where r: "find_reg i s = Some r" "reg_edge l s r r'" "quiet (put_reg r' s) s'" using reg_review_effect[OF 2] by blast
    then have "row_get reg_id (reg_id r) (regs s) = Some r" using row_get_SomeD[of reg_id i "regs s" r] by (simp add: find_reg_def)
    then show ?thesis using r(2) quiet_requests[OF r(3)] by auto
  qed
next
  show "reg_edge l s r r' \<Longrightarrow> reg_ok r \<Longrightarrow> reg_ok r' \<and> reg_id r' = reg_id r" for l s r r'
    by (erule reg_edge.cases) (auto simp: reg_ok_def reg_may_decide_def split: if_splits)
  show "fresh_reg l s r \<Longrightarrow> reg_ok r \<and> reg_id r = next_id s" for l s r by (simp add: fresh_reg_def reg_ok_def)
  show "reg_apart x y \<Longrightarrow> reg_apart y x" for x y by (auto simp: reg_apart_def)
  show "reg_edge l s r r' \<Longrightarrow> x \<in> set (regs s) \<Longrightarrow> reg_id x \<noteq> reg_id r \<Longrightarrow> reg_apart x r \<Longrightarrow> reg_apart x r'" for l s r r' x
    using reg_edge_fields[of l s r r'] by (auto simp: reg_apart_def)
  show "fresh_reg l s r \<Longrightarrow> x \<in> set (regs s) \<Longrightarrow> reg_apart x r" for l s r x
    by (auto simp: fresh_reg_def reg_apart_def get_active_for_day_def find_None_iff)
qed

abbreviation reg_run :: "env \<Rightarrow> 'a time_db_scheme \<Rightarrow> bool" where
  "reg_run E \<equiv> run (reg_step E) (others_keep regs next_id) (no_rows regs)"

subsection \<open>Days out of the office\<close>

inductive ooo_edge :: "current_user \<Rightarrow> 'a time_db_scheme \<Rightarrow> out_of_office \<Rightarrow> out_of_office \<Rightarrow> bool" for c s where
  ooo_decided: "ooo_state x = OOO_PENDING \<Longrightarrow> ooo_may_decide c x (manager_of (ooo_employee x) s) \<Longrightarrow>
    st \<in> {OOO_APPROVED, OOO_REJECTED} \<Longrightarrow>
    ooo_edge c s x (x\<lparr>ooo_state := st, ooo_reviewed_by := Some (cu_id c), ooo_note := n, ooo_decided_at := Some t\<rparr>)"
| ooo_cancelled: "ooo_state x = OOO_PENDING \<Longrightarrow> ooo_employee x = cu_id c \<Longrightarrow>
    ooo_edge c s x (x\<lparr>ooo_state := OOO_CANCELLED\<rparr>)"

inductive_cases ooo_edgeE: "ooo_edge c s x x'"

inductive ooo_step :: "env \<Rightarrow> current_user \<Rightarrow> 'a time_db_scheme \<Rightarrow> 'a time_db_scheme \<Rightarrow> bool" for E c s where
  "ooo_create_ok p \<Longrightarrow> ooo_request E c p s = Inr (x, s') \<Longrightarrow> ooo_step E c s s'"
| "ooo_cancel E c i s = Inr (x, s') \<Longrightarrow> ooo_step E c s s'"
| "ooo_review E c i approve n s = Inr (x, s') \<Longrightarrow> ooo_step E c s s'"

definition fresh_ooo :: "env \<Rightarrow> current_user \<Rightarrow> 'a time_db_scheme \<Rightarrow> out_of_office \<Rightarrow> bool" where
  "fresh_ooo E c s x \<longleftrightarrow> ooo_id x = next_id s \<and> ooo_employee x = cu_id c \<and> ooo_state x = OOO_PENDING
     \<and> ooo_reviewed_by x = None \<and> start_day x \<le> end_day x \<and> end_day x - start_day x < max_span_days
     \<and> (ooo_portion x = P_HALF_DAY \<longrightarrow> start_day x = end_day x)
     \<and> ooo_overlapping (cu_id c) (start_day x) (end_day x) s = None
     \<and> assert_not_on_leave (cu_id c) (start_day x) (end_day x) s = Inr ()"

text \<open>Entries are at most 31 days long, halves are of one day, and nobody but another person decided them.\<close>

definition ooo_ok :: "out_of_office \<Rightarrow> bool" where
  "ooo_ok x \<longleftrightarrow> start_day x \<le> end_day x \<and> end_day x - start_day x < max_span_days
     \<and> (ooo_portion x = P_HALF_DAY \<longrightarrow> start_day x = end_day x)
     \<and> (if ooo_state x \<in> {OOO_APPROVED, OOO_REJECTED} then \<exists>d. ooo_reviewed_by x = Some d \<and> d \<noteq> ooo_employee x
        else ooo_reviewed_by x = None)"

definition covers_day :: "date \<Rightarrow> out_of_office \<Rightarrow> bool" where
  "covers_day d x \<longleftrightarrow> start_day x \<le> d \<and> d \<le> end_day x"

definition ooo_apart :: "out_of_office \<Rightarrow> out_of_office \<Rightarrow> bool" where
  "ooo_apart x y \<longleftrightarrow> \<not> (ooo_employee x = ooo_employee y \<and> ooo_live x \<and> ooo_live y
     \<and> start_day x \<le> end_day y \<and> start_day y \<le> end_day x)"

lemma ooo_request_effect:
  assumes "ooo_create_ok p" "ooo_request E c p s = Inr (x, s')"
  shows "fresh_ooo E c s x \<and> start_day x = oc_start p \<and> end_day x = oc_end p
    \<and> ooo_entries s' = row_add x (ooo_entries s) \<and> next_id s < next_id s'"
proof -
  let ?new = "create_ooo (cu_id c) (oc_start p) (oc_end p) (oc_portion p) (py_strip (oc_location p)) (py_strip (oc_reason p)) s"
  have no: "ooo_overlapping (cu_id c) (oc_start p) (oc_end p) s = None" "assert_not_on_leave (cu_id c) (oc_start p) (oc_end p) s = Inr ()"
    and x: "x = fst ?new" and q: "quiet (snd ?new) s'"
    using assms(2) by (auto simp: ooo_request_def ebind_Inr_iff Let_def case_prod_unfold intro!: quiet_intros split: option.splits)
  show ?thesis using quiet_requests[OF q] no assms(1)
    by (auto simp: x fresh_ooo_def create_ooo_def Let_def ooo_create_ok_def)
qed

lemma ooo_cancel_effect:
  assumes "ooo_cancel E c i s = Inr (x', s')"
  shows "\<exists>x. find_ooo i s = Some x \<and> ooo_edge c s x x' \<and> ooo_state x' = OOO_CANCELLED \<and> quiet (put_ooo x' s) s'"
proof -
  obtain x where x: "find_ooo i s = Some x" "ooo_employee x = cu_id c" "ooo_state x = OOO_PENDING"
    and x': "x' = x\<lparr>ooo_state := OOO_CANCELLED\<rparr>" and q: "quiet (put_ooo x' s) s'"
    using assms by (auto simp: ooo_cancel_def Let_def intro!: quiet_intros split: option.splits if_splits)
  show ?thesis using x q ooo_cancelled[of x c s] by (auto simp: x')
qed

lemma ooo_review_effect:
  assumes "ooo_review E c i approve n s = Inr (x', s')"
  shows "\<exists>x. find_ooo i s = Some x \<and> ooo_edge c s x x' \<and> ooo_state x' = (if approve then OOO_APPROVED else OOO_REJECTED)
    \<and> quiet (put_ooo x' s) s'"
proof -
  obtain x where x: "find_ooo i s = Some x" "ooo_may_decide c x (manager_of (ooo_employee x) s)" "ooo_state x = OOO_PENDING"
    and x': "x' = x\<lparr>ooo_state := (if approve then OOO_APPROVED else OOO_REJECTED), ooo_reviewed_by := Some (cu_id c),
                ooo_note := n, ooo_decided_at := Some (now s)\<rparr>"
    and q: "quiet (put_ooo x' s) s'"
    using assms by (auto simp: ooo_review_def ebind_Inr_iff Let_def intro!: quiet_intros split: if_splits)
  have "ooo_edge c s x x'" unfolding x' using x by (intro ooo_decided) auto
  then show ?thesis using x q x' by auto
qed

lemma ooo_edge_fields:
  "ooo_edge c s x x' \<Longrightarrow> ooo_id x' = ooo_id x \<and> ooo_employee x' = ooo_employee x \<and> start_day x' = start_day x
     \<and> end_day x' = end_day x \<and> ooo_portion x' = ooo_portion x \<and> ooo_state x = OOO_PENDING"
  by (erule ooo_edgeE) simp_all

lemma ooo_edge_stored:
  "find_ooo i s = Some x \<Longrightarrow> ooo_edge c s x x' \<Longrightarrow> quiet (put_ooo x' s) s' \<Longrightarrow>
   next_id s \<le> next_id s' \<and> row_get ooo_id (ooo_id x) (ooo_entries s) = Some x \<and> ooo_entries s' = row_put ooo_id x' (ooo_entries s)"
  using row_get_SomeD[of ooo_id i "ooo_entries s" x] quiet_requests[of "put_ooo x' s" s'] by (simp add: find_ooo_def)

interpretation ooo_life: exclusive_rows ooo_id ooo_entries next_id "ooo_step E" ooo_edge "fresh_ooo E" ooo_ok ooo_apart for E
proof unfold_locales
  fix l s s'
  assume "ooo_step E l (s :: 'a time_db_scheme) s'"
  then show "next_id s \<le> next_id s' \<and> (ooo_entries s' = ooo_entries s
        \<or> (\<exists>r r'. row_get ooo_id (ooo_id r) (ooo_entries s) = Some r \<and> ooo_edge l s r r' \<and> ooo_entries s' = row_put ooo_id r' (ooo_entries s))
        \<or> (\<exists>r. fresh_ooo E l s r \<and> ooo_entries s' = row_add r (ooo_entries s) \<and> next_id s < next_id s'))"
  proof cases
    case (1 p x)
    then show ?thesis using ooo_request_effect[OF 1] by auto
  next
    case (2 i x')
    then show ?thesis using ooo_cancel_effect[OF 2] ooo_edge_stored by metis
  next
    case (3 i approve n x')
    then show ?thesis using ooo_review_effect[OF 3] ooo_edge_stored by metis
  qed
next
  show "ooo_edge l s r r' \<Longrightarrow> ooo_ok r \<Longrightarrow> ooo_ok r' \<and> ooo_id r' = ooo_id r" for l s r r'
    by (erule ooo_edge.cases) (auto simp: ooo_ok_def ooo_may_decide_def split: if_splits)
  show "fresh_ooo E l s r \<Longrightarrow> ooo_ok r \<and> ooo_id r = next_id s" for l s r by (simp add: fresh_ooo_def ooo_ok_def)
  show "ooo_apart x y \<Longrightarrow> ooo_apart y x" for x y by (auto simp: ooo_apart_def)
  show "ooo_edge l s r r' \<Longrightarrow> x \<in> set (ooo_entries s) \<Longrightarrow> ooo_id x \<noteq> ooo_id r \<Longrightarrow> ooo_apart x r \<Longrightarrow> ooo_apart x r'" for l s r r' x
    using ooo_edge_fields[of l s r r'] by (auto simp: ooo_apart_def ooo_live_def)
  show "fresh_ooo E l s r \<Longrightarrow> x \<in> set (ooo_entries s) \<Longrightarrow> ooo_apart x r" for l s r x
    by (auto simp: fresh_ooo_def ooo_apart_def ooo_overlapping_def find_None_iff)
qed

abbreviation ooo_run :: "env \<Rightarrow> 'a time_db_scheme \<Rightarrow> bool" where
  "ooo_run E \<equiv> run (ooo_step E) (others_keep ooo_entries next_id) (no_rows ooo_entries)"

end
