(* ===== verification/WorkSessionLaws.thy ===== *)
theory WorkSessionLaws
  imports AttendanceReport
begin

text \<open>
  Laws of the work sessions: the sweep of forgotten sessions, the single punch session of a person's day, and
  what re-sent punches do.
\<close>

subsection \<open>The sweep\<close>

lemma time_fields_more:
  "core.more (s' :: 'a time_db_scheme) = core.more s \<Longrightarrow> work_sessions s' = work_sessions s \<and> samples s' = samples s
    \<and> att_policy_row s' = att_policy_row s \<and> work_week s' = work_week s \<and> biometric_id s' = biometric_id s
    \<and> hr_external_id s' = hr_external_id s \<and> regs s' = regs s \<and> ooo_entries s' = ooo_entries s
    \<and> resignations s' = resignations s \<and> leaves s' = leaves s \<and> day_overrides s' = day_overrides s"
  by (cases s; cases s') simp

lemma quiet_time:
  assumes "quiet (s :: 'a time_db_scheme) s'"
  shows "work_sessions s' = work_sessions s" "samples s' = samples s" "att_policy_row s' = att_policy_row s"
    "work_week s' = work_week s" "regs s' = regs s" "ooo_entries s' = ooo_entries s" "resignations s' = resignations s"
    "leaves s' = leaves s" "day_overrides s' = day_overrides s" "biometric_id s' = biometric_id s"
    "hr_external_id s' = hr_external_id s"
  using time_fields_more quiet_core[OF assms] by blast+

lemma put_session_simps [simp, store_simps]:
  "work_sessions (put_session w s) = row_put ws_id w (work_sessions s)" "samples (put_session w s) = samples s"
  "att_policy_row (put_session w s) = att_policy_row s" "now (put_session w s) = now s"
  "next_id (put_session w s) = next_id s" "employees (put_session w s) = employees s"
  by (simp_all add: put_session_def)

lemma quiet_session_tails [quiet_intros]:
  "quiet s t \<Longrightarrow> quiet s (session_audit E a b w t)"
  "quiet s t \<Longrightarrow> quiet s (checkout_email E w x t)"
  unfolding session_audit_def checkout_email_def by (auto intro!: quiet_intros split: option.split)

lemma daily_aggregate_cong: "samples s' = samples s \<Longrightarrow> daily_aggregate i b s' = daily_aggregate i b s"
  by (simp add: daily_aggregate_def)

lemma checkout_time_cong:
  assumes "now s' = now s" "samples s' = samples s" "att_policy_row s' = att_policy_row (s :: 'a time_db_scheme)"
  shows "checkout_time E k w s' = checkout_time E k w s"
  by (simp only: checkout_time_def assms(1,3) daily_aggregate_cong[OF assms(2)])

definition swept :: "env \<Rightarrow> checkout_settings \<Rightarrow> 'a time_db_scheme \<Rightarrow> work_session \<Rightarrow> work_session" where
  "swept E k s w = (case checkout_time E k w s of None \<Rightarrow> w
     | Some t \<Rightarrow> w\<lparr>clock_out_at := Some t, clock_out_source := Some ''auto''\<rparr>)"

lemma close_if_due_effect:
  fixes s :: "'a time_db_scheme"
  assumes "close_if_due E k w (n, s) = (n', s')" "keys_unique ws_id (work_sessions s)" "w \<in> set (work_sessions s)"
  shows "work_sessions s' = row_put ws_id (swept E k s w) (work_sessions s)" "now s' = now s"
    "samples s' = samples s" "att_policy_row s' = att_policy_row s"
proof -
  have put_self: "row_put ws_id w (work_sessions s) = work_sessions s"
    unfolding row_put_def using assms(2,3) by (intro map_idI) (auto simp: keys_unique_def distinct_map dest: inj_onD)
  have q: "quiet (put_session w' s) (session_audit E a b w' (checkout_email E w' t (put_session w' s)))" for w' a b t
    by (intro quiet_intros)
  show "work_sessions s' = row_put ws_id (swept E k s w) (work_sessions s)" "now s' = now s"
    "samples s' = samples s" "att_policy_row s' = att_policy_row s"
    using assms(1) quiet_time[OF q] quiet_core[OF q] put_self
    by (auto simp: close_if_due_def swept_def Let_def split: option.splits)
qed

lemma swept_id [simp]: "ws_id (swept E k s w) = ws_id w"
  by (simp add: swept_def split: option.split)

lemma swept_cong: "now s' = now s \<Longrightarrow> samples s' = samples s \<Longrightarrow> att_policy_row s' = att_policy_row s
   \<Longrightarrow> swept E k s' = swept E k (s :: 'a time_db_scheme)"
  by (rule ext) (simp only: swept_def checkout_time_cong[of s' s])

lemma sweep_fold:
  fixes s :: "'a time_db_scheme"
  assumes "keys_unique ws_id (work_sessions s)" "distinct ws" "set ws \<subseteq> set (work_sessions s)"
  shows "work_sessions (snd (fold (close_if_due E k) ws (n, s)))
    = map (\<lambda>x. if x \<in> set ws then swept E k s x else x) (work_sessions s)"
  using assms
proof (induction ws arbitrary: n s)
  case (Cons w ws)
  obtain n1 s1 where c: "close_if_due E k w (n, s) = (n1, s1)" by (cases "close_if_due E k w (n, s)")
  have w: "w \<in> set (work_sessions s)" using Cons.prems by simp
  note e = close_if_due_effect[OF c Cons.prems(1) w]
  have inj: "x \<in> set (work_sessions s) \<Longrightarrow> ws_id x = ws_id w \<Longrightarrow> x = w" for x
    using Cons.prems(1) w by (auto simp: keys_unique_def distinct_map dest: inj_onD)
  have s1: "work_sessions s1 = map (\<lambda>x. if x = w then swept E k s w else x) (work_sessions s)"
    unfolding e(1) row_put_def using inj by (intro map_cong refl) auto
  have u: "keys_unique ws_id (work_sessions s1)" unfolding e(1) by (rule rows.uniq_put[OF Cons.prems(1)])
  have sub: "set ws \<subseteq> set (work_sessions s1)" using Cons.prems(2,3) unfolding s1 by (auto intro!: image_eqI)
  have "work_sessions (snd (fold (close_if_due E k) (w # ws) (n, s)))
      = map (\<lambda>x. if x \<in> set ws then swept E k s x else x) (work_sessions s1)"
    using Cons.IH[OF u _ sub, of n1] Cons.prems(2) c swept_cong[OF e(2-4), of E k] by simp
  also have "\<dots> = map (\<lambda>x. if x \<in> set (w # ws) then swept E k s x else x) (work_sessions s)"
  proof -
    have new: "swept E k s w \<notin> set ws" using inj[of "swept E k s w"] Cons.prems(2,3) by auto
    then show ?thesis using Cons.prems(2) unfolding s1 map_map
      by (intro map_cong refl) (auto simp: comp_def)
  qed
  finally show ?case .
qed simp

lemma checkout_bounds:
  assumes "checkout_time E k w s = Some t" "clock_in_at w \<le> now s"
  shows "clock_in_at w \<le> t" "t \<le> now s"
    "min (day_work_end_utc E (local_day E (clock_in_at w)) (pol_work_end (att_policy_row s))) (now s) \<le> t"
  using assms by (auto simp: checkout_time_def Let_def min_def max_def split: if_splits option.splits)

lemma checkout_past:
  "local_day E (clock_in_at w) < local_day E (now s) \<Longrightarrow> checkout_time E k w s \<noteq> None"
  by (simp add: checkout_time_def Let_def)

text \<open>C26 The sweep of forgotten sessions. Every session stays with its clock-in; one that was closed, or that
  is not due, is unchanged; one that is closed gets a clock-out between its clock-in and now that never lies
  before the end of its day's office window (or now, if that is earlier); and no session of an earlier local day
  is open afterwards.\<close>

theorem auto_checkout_sweep:
  assumes "keys_unique ws_id (work_sessions s)" "w \<in> set (work_sessions s)"
  shows "\<exists>w' \<in> set (work_sessions (snd (run_due E k s))).
     ws_id w' = ws_id w \<and> ws_employee w' = ws_employee w \<and> clock_in_at w' = clock_in_at w \<and>
     (w' = w \<or> clock_out_at w = None \<and> clock_out_source w' = Some ''auto'' \<and>
        (\<exists>t. clock_out_at w' = Some t \<and> clock_in_at w \<le> t \<and> t \<le> now s \<and>
             min (day_work_end_utc E (local_day E (clock_in_at w)) (pol_work_end (att_policy_row s))) (now s) \<le> t)) \<and>
     (clock_in_at w \<le> now s \<and> local_day E (clock_in_at w) < local_day E (now s) \<longrightarrow> clock_out_at w' \<noteq> None)"
proof -
  let ?ws = "list_open_before (now s) s" and ?w' = "if w \<in> set (list_open_before (now s) s) then swept E k s w else w"
  have d: "distinct ?ws" using assms(1) by (simp add: list_open_before_def keys_unique_def distinct_map)
  have sub: "set ?ws \<subseteq> set (work_sessions s)" by (auto simp: list_open_before_def)
  have mem: "?w' \<in> set (work_sessions (snd (run_due E k s)))"
    unfolding run_due_def sweep_fold[OF assms(1) d sub] using assms(2) by (auto intro!: image_eqI[of _ _ w])
  have op: "w \<in> set ?ws \<longleftrightarrow> clock_out_at w = None \<and> clock_in_at w \<le> now s"
    using assms(2) by (auto simp: list_open_before_def)
  show ?thesis
    using op checkout_bounds[of E k w s] checkout_past[of E w s k]
    by (intro bexI[OF _ mem]) (auto simp: swept_def split: option.splits)
qed

definition demo_session :: "uuid \<Rightarrow> uuid \<Rightarrow> datetime \<Rightarrow> datetime option \<Rightarrow> string \<Rightarrow> work_session" where
  "demo_session i e cin cout src = \<lparr>ws_id = i, ws_employee = e, clock_in_at = cin, clock_out_at = cout, ws_source = src,
     clock_out_source = None, ip_address = None, ws_location = None, ws_latitude = None, ws_longitude = None\<rparr>"

definition demo_time_db :: "datetime \<Rightarrow> work_session list \<Rightarrow> time_db" where
  "demo_time_db t ws = \<lparr>now = t, next_id = 100, employees = [demo_employee 1 HR,
       (demo_employee 2 EXECUTIVE)\<lparr>manager_id := Some 3\<rparr>, demo_employee 3 MANAGER],
     audit_log = [], inbox = [], mail_log = [], adjustments = [], payslips = [], payroll_runs = [],
     leaves = [], leave_comments = [], leave_policy_row = None, allocations = [], tier_quotas = [],
     holiday_dates = [], work_week = 5, biometric_id = (\<lambda>i. if i = 2 then Some ''7'' else None),
     hr_external_id = nat_str, location_check_exempt = (\<lambda>i. False), offices = [], work_sessions = ws,
     samples = [], regs = [], day_overrides = [], ooo_entries = [], resignations = [],
     att_policy_row = default_att_policy\<rparr>"

theorem auto_checkout_sweep_witness:
  "clock_out_at (demo_session 5 2 0 None ''dashboard'') = None \<and>
   (\<exists>w' \<in> set (work_sessions (snd (run_due demo_E \<lparr>auto_checkout_hour = 17, auto_checkout_minute = 0,
        auto_checkout_after_work_end_minutes = 120, auto_checkout_idle_grace_minutes = 30\<rparr>
        (demo_time_db (2 * day_us) [demo_session 5 2 0 None ''dashboard''])))).
      ws_id w' = 5 \<and> clock_out_source w' = Some ''auto'')"
proof -
  let ?w = "demo_session 5 2 0 None ''dashboard''" and ?s = "demo_time_db (2 * day_us) [demo_session 5 2 0 None ''dashboard'']"
  have 1: "keys_unique ws_id (work_sessions ?s)" "?w \<in> set (work_sessions ?s)"
    by (simp_all add: demo_time_db_def keys_unique_def)
  have 2: "clock_in_at ?w \<le> now ?s" "local_day demo_E (clock_in_at ?w) < local_day demo_E (now ?s)"
    "clock_out_at ?w = None" "ws_id ?w = 5"
    by (simp_all add: demo_time_db_def demo_session_def local_day_def utc_day_def demo_env_def day_us_def)
  show ?thesis using auto_checkout_sweep[OF 1, of demo_E] 2 by fastforce
qed

subsection \<open>One punch session per person and day\<close>

text \<open>The zone of the office has one offset, as Asia/Kolkata has.\<close>

definition fixed_zone :: "env \<Rightarrow> bool" where
  "fixed_zone E \<longleftrightarrow> utc_offset E = (\<lambda>t. utc_offset E 0)"

lemma fixed_zoneD: "fixed_zone E \<Longrightarrow> utc_offset E t = utc_offset E 0"
  by (metis fixed_zone_def)

lemma in_local_bounds:
  assumes "fixed_zone E"
  shows "fst (local_bounds E d) \<le> t \<and> t < snd (local_bounds E d) \<longleftrightarrow> local_day E t = d"
proof -
  obtain z where z: "utc_offset E = (\<lambda>x. z)" using assms unfolding fixed_zone_def by blast
  have "fst (local_bounds E d) \<le> t \<and> t < snd (local_bounds E d)
      \<longleftrightarrow> utc_midnight d \<le> t + z \<and> t + z < utc_midnight (d + 1)"
    by (auto simp: local_bounds_def local_midnight_def wall_to_utc_def z)
  also have "\<dots> \<longleftrightarrow> local_day E t = d"
    by (auto simp: utc_midnight_le_iff less_utc_midnight_iff local_day_def z)
  finally show ?thesis .
qed

definition punch_rows :: "env \<Rightarrow> uuid \<Rightarrow> date \<Rightarrow> work_session list \<Rightarrow> work_session list" where
  "punch_rows E i d ws = filter (\<lambda>w. ws_employee w = i \<and> ws_source w = ''biometric'' \<and> local_day E (clock_in_at w) = d) ws"

lemma biometric_session_rows:
  "fixed_zone E \<Longrightarrow> biometric_session i (fst (local_bounds E d)) (snd (local_bounds E d)) s
    = first_by clock_in_at (punch_rows E i d (work_sessions s))"
  by (simp add: biometric_session_def punch_rows_def in_local_bounds conj_assoc)

text \<open>The invariant: fresh ids, and at most one punch session per person and day.\<close>

definition punches_ok :: "env \<Rightarrow> 'a time_db_scheme \<Rightarrow> bool" where
  "punches_ok E s \<longleftrightarrow> rows_ok ws_id (\<lambda>w. True) (next_id s) (work_sessions s)
     \<and> (\<forall>i d. length (punch_rows E i d (work_sessions s)) \<le> 1)"

definition new_punch_session :: "uuid \<Rightarrow> uuid \<Rightarrow> punch_window \<Rightarrow> work_session" where
  "new_punch_session n i w = \<lparr>ws_id = n, ws_employee = i, clock_in_at = pw_first w, clock_out_at = window_clock_out w,
     ws_source = ''biometric'', clock_out_source = (if window_clock_out w = None then None else Some ''biometric''),
     ip_address = None, ws_location = None, ws_latitude = None, ws_longitude = None\<rparr>"

definition merge_window :: "punch_window \<Rightarrow> work_session \<Rightarrow> work_session" where
  "merge_window w = merge_punch (pw_first w) (window_clock_out w) (pw_last w) (pw_dir w)"

lemma merge_window_simps [simp]:
  "ws_id (merge_window w x) = ws_id x" "ws_employee (merge_window w x) = ws_employee x"
  "ws_source (merge_window w x) = ws_source x" "clock_in_at (merge_window w x) = min (pw_first w) (clock_in_at x)"
  by (auto simp: merge_window_def merge_punch_def Let_def split: option.split)

lemma filter_put_outside:
  assumes "\<And>x. x \<in> set xs \<Longrightarrow> key x = key r \<Longrightarrow> \<not> P x" "\<not> P r"
  shows "filter P (row_put key r xs) = filter P xs"
  using assms(1) by (induction xs) (auto simp: row_put_def assms(2))

lemma filter_put_inside:
  assumes "\<And>x. x \<in> set xs \<Longrightarrow> key x = key r \<Longrightarrow> P x" "P r"
  shows "filter P (row_put key r xs) = row_put key r (filter P xs)"
  using assms(1) by (induction xs) (auto simp: row_put_def assms(2))

lemma biometric_lookup:
  assumes "fixed_zone E" "length (punch_rows E i d (work_sessions s)) \<le> 1"
  shows "biometric_session i (fst (local_bounds E d)) (snd (local_bounds E d)) s
      = (case punch_rows E i d (work_sessions s) of [] \<Rightarrow> None | x # _ \<Rightarrow> Some x)"
  unfolding biometric_session_rows[OF assms(1)] first_by_def using assms(2)
  by (cases "punch_rows E i d (work_sessions s)") (auto simp: le_Suc_eq split: list.split)

lemma apply_bucket_rows:
  fixes s :: "'a time_db_scheme" and i :: uuid
  assumes "fixed_zone E" "punches_ok E s" "local_day E (pw_first w) = d"
  defines "s' \<equiv> apply_bucket E ((i, d), w) s"
  shows "punch_rows E i d (work_sessions s') = [case punch_rows E i d (work_sessions s) of
      [] \<Rightarrow> new_punch_session (next_id s) i w | x # _ \<Rightarrow> merge_window w x]"
    and "(j, e) \<noteq> (i, d) \<Longrightarrow> punch_rows E j e (work_sessions s') = punch_rows E j e (work_sessions s)"
    and "rows_ok ws_id (\<lambda>w. True) (next_id s') (work_sessions s')"
proof -
  let ?ws = "work_sessions s"
  have ok: "rows_ok ws_id (\<lambda>w. True) (next_id s) ?ws" and one: "length (punch_rows E i d ?ws) \<le> 1"
    using assms(2) by (auto simp: punches_ok_def)
  note look = biometric_lookup[OF assms(1) one]
  have all: "punch_rows E i d (work_sessions s') = [case punch_rows E i d ?ws of
        [] \<Rightarrow> new_punch_session (next_id s) i w | x # _ \<Rightarrow> merge_window w x]
    \<and> ((j, e) \<noteq> (i, d) \<longrightarrow> punch_rows E j e (work_sessions s') = punch_rows E j e ?ws)
    \<and> rows_ok ws_id (\<lambda>w. True) (next_id s') (work_sessions s')"
  proof (cases "punch_rows E i d ?ws")
    case Nil
    let ?n = "new_punch_session (next_id s) i w"
    have s': "work_sessions s' = row_add ?n ?ws" "next_id s' = Suc (next_id s)"
      using look Nil by (simp_all add: s'_def apply_bucket_def upsert_biometric_day_def create_session_def
          new_punch_session_def Let_def)
    have "rows_ok ws_id (\<lambda>w. True) (next_id s') (work_sessions s')"
      unfolding s' by (rule rows_ok_add[OF ok]) (simp_all add: new_punch_session_def)
    moreover have "punch_rows E j e (row_add ?n ?ws) = punch_rows E j e ?ws @ (if (j, e) = (i, d) then [?n] else [])" for j e
      using assms(3) by (simp add: punch_rows_def row_add_def new_punch_session_def)
    ultimately show ?thesis using Nil by (simp add: s')
  next
    case (Cons x xs)
    then have x: "punch_rows E i d ?ws = [x]" using one by simp
    then have mem: "x \<in> set ?ws" "ws_employee x = i" "ws_source x = ''biometric''" "local_day E (clock_in_at x) = d"
      using set_filter[of _ ?ws] by (auto simp: punch_rows_def filter_eq_Cons_iff)
    let ?m = "merge_window w x"
    have s': "work_sessions s' = row_put ws_id ?m ?ws" "next_id s' = next_id s"
      using look x by (simp_all add: s'_def apply_bucket_def upsert_biometric_day_def merge_window_def Let_def)
    have inj: "y \<in> set ?ws \<Longrightarrow> ws_id y = ws_id ?m \<Longrightarrow> y = x" for y
      using rows_ok_inj[OF ok _ mem(1)] by simp
    have in_day: "local_day E (clock_in_at ?m) = d" using mem(4) assms(3) by (simp add: min_def)
    have "rows_ok ws_id (\<lambda>w. True) (next_id s') (work_sessions s')"
      unfolding s' by (rule rows_ok_put[OF ok, of ?m x]) (use rows_ok_get[OF ok mem(1)] in simp_all)
    moreover have "punch_rows E i d (row_put ws_id ?m ?ws) = [?m]"
      unfolding punch_rows_def
      by (subst filter_put_inside)
        (use inj mem in_day x in \<open>auto simp: punch_rows_def[symmetric] row_put_def\<close>)
    moreover have "(j, e) \<noteq> (i, d) \<Longrightarrow> punch_rows E j e (row_put ws_id ?m ?ws) = punch_rows E j e ?ws"
      unfolding punch_rows_def by (rule filter_put_outside) (use inj mem in_day in auto)
    ultimately show ?thesis using x by (simp add: s')
  qed
  then show "punch_rows E i d (work_sessions s') = [case punch_rows E i d ?ws of
      [] \<Rightarrow> new_punch_session (next_id s) i w | x # _ \<Rightarrow> merge_window w x]"
    and "(j, e) \<noteq> (i, d) \<Longrightarrow> punch_rows E j e (work_sessions s') = punch_rows E j e ?ws"
    and "rows_ok ws_id (\<lambda>w. True) (next_id s') (work_sessions s')" by blast+
qed

lemma apply_bucket_frames [simp]:
  "employees (apply_bucket E b s) = employees s" "biometric_id (apply_bucket E b s) = biometric_id s"
  "hr_external_id (apply_bucket E b s) = hr_external_id s"
  by (simp_all add: apply_bucket_def upsert_biometric_day_def create_session_def put_session_def Let_def
      split: prod.split option.split)

lemma fold_bucket_frames [simp]:
  "employees (fold (apply_bucket E) bs s) = employees s" "biometric_id (fold (apply_bucket E) bs s) = biometric_id s"
  "hr_external_id (fold (apply_bucket E) bs s) = hr_external_id s"
  by (induction bs arbitrary: s) simp_all

lemma bucket_punch_cong:
  assumes "employees s' = employees s" "biometric_id s' = biometric_id s" "hr_external_id s' = hr_external_id s"
  shows "bucket_punch E s' = bucket_punch E s"
  by (intro ext) (simp only: bucket_punch_def resolve_punch_def get_by_biometric_id_def get_by_external_id_def
      get_by_work_email_def assms)

text \<open>What the buckets of a batch are: one per person and day, each with a first punch of its day.\<close>

definition buckets_ok :: "env \<Rightarrow> ((uuid \<times> date) \<times> punch_window) list \<Rightarrow> bool" where
  "buckets_ok E bs \<longleftrightarrow> distinct (map fst bs) \<and> (\<forall>b \<in> set bs. local_day E (pw_first (snd b)) = snd (fst b))"

lemma update_subset: "set (AList.update k v al) \<subseteq> insert (k, v) (set al)"
  by (induction al) auto

lemma buckets_ok_punch:
  assumes "buckets_ok E bs"
  shows "buckets_ok E (bucket_punch E s p bs)"
proof (cases "resolve_punch (pu_external_id p) s")
  case None
  then show ?thesis using assms by (simp add: bucket_punch_def)
next
  case (Some e)
  let ?t = "punch_utc E p" and ?k = "(emp_id e, local_day E (punch_utc E p))"
  let ?w = "window_add ?t (pu_direction p) (map_of bs ?k)"
  have "local_day E (pw_first ?w) = local_day E ?t"
  proof (cases "map_of bs ?k")
    case (Some x)
    then have "local_day E (pw_first x) = local_day E ?t"
      using assms map_of_SomeD[OF Some] by (fastforce simp: buckets_ok_def)
    then show ?thesis using Some by (simp add: window_add_def Let_def min_def)
  qed (simp add: window_add_def)
  then have "\<forall>b \<in> set (AList.update ?k ?w bs). local_day E (pw_first (snd b)) = snd (fst b)"
    using assms update_subset[of ?k ?w bs] by (auto simp: buckets_ok_def)
  then show ?thesis using assms Some by (simp add: bucket_punch_def buckets_ok_def distinct_update Let_def)
qed

lemma buckets_ok_fold: "buckets_ok E bs \<Longrightarrow> buckets_ok E (fold (bucket_punch E s) ps bs)"
  by (induction ps arbitrary: bs) (simp_all add: buckets_ok_punch)

lemma merge_window_idem: "merge_window w (merge_window w x) = merge_window w x"
  by (auto simp: merge_window_def merge_punch_def closes_at_def Let_def split: option.splits)

lemma merge_new: "merge_window w (new_punch_session n i w) = new_punch_session n i w"
  by (auto simp: merge_window_def merge_punch_def closes_at_def new_punch_session_def window_clock_out_def Let_def
      split: option.splits)

definition absorbed :: "env \<Rightarrow> work_session list \<Rightarrow> (uuid \<times> date) \<times> punch_window \<Rightarrow> bool" where
  "absorbed E ws b \<longleftrightarrow> (\<exists>r. punch_rows E (fst (fst b)) (snd (fst b)) ws = [r] \<and> merge_window (snd b) r = r)"

lemma apply_bucket_step:
  assumes "fixed_zone E" "punches_ok E s" "local_day E (pw_first (snd b)) = snd (fst b)"
  shows "punches_ok E (apply_bucket E b s)" "absorbed E (work_sessions (apply_bucket E b s)) b"
    "fst c \<noteq> fst b \<Longrightarrow> absorbed E (work_sessions s) c \<Longrightarrow> absorbed E (work_sessions (apply_bucket E b s)) c"
proof -
  obtain i d w where b: "b = ((i, d), w)" by (metis surj_pair)
  have day: "local_day E (pw_first w) = d" using assms(3) b by simp
  note e = apply_bucket_rows[OF assms(1,2) day, where i = i]
  have "length (punch_rows E j f (work_sessions (apply_bucket E b s))) \<le> 1" for j f
    using e(1) e(2)[where j = j and e = f] assms(2) unfolding b punches_ok_def by (cases "(j, f) = (i, d)") auto
  then show "punches_ok E (apply_bucket E b s)" using e(3) by (simp add: punches_ok_def b)
  show "absorbed E (work_sessions (apply_bucket E b s)) b"
    using e(1) by (auto simp: absorbed_def b merge_window_idem merge_new split: list.split)
  show "absorbed E (work_sessions (apply_bucket E b s)) c" if "fst c \<noteq> fst b" "absorbed E (work_sessions s) c"
    using that e(2)[where j = "fst (fst c)" and e = "snd (fst c)"] unfolding b absorbed_def by (metis fst_conv prod.collapse)
qed

lemma fold_buckets:
  assumes "fixed_zone E" "punches_ok E s" "buckets_ok E bs"
  shows "punches_ok E (fold (apply_bucket E) bs s)" "\<forall>b \<in> set bs. absorbed E (work_sessions (fold (apply_bucket E) bs s)) b"
proof -
  have "punches_ok E (fold (apply_bucket E) bs s) \<and> (\<forall>b \<in> set bs \<union> D. absorbed E (work_sessions (fold (apply_bucket E) bs s)) b)"
    if "punches_ok E s" "buckets_ok E bs" "\<forall>b \<in> D. absorbed E (work_sessions s) b \<and> fst b \<notin> fst ` set bs" for D
    using that
  proof (induction bs arbitrary: s D)
    case (Cons b bs)
    have day: "local_day E (pw_first (snd b)) = snd (fst b)" and bs: "buckets_ok E bs" "fst b \<notin> fst ` set bs"
      using Cons.prems(2) by (auto simp: buckets_ok_def)
    note e = apply_bucket_step[OF assms(1) Cons.prems(1) day]
    have "\<forall>c \<in> insert b D. absorbed E (work_sessions (apply_bucket E b s)) c \<and> fst c \<notin> fst ` set bs"
      using e(2) e(3) Cons.prems(3) bs(2) by auto
    from Cons.IH[OF e(1) bs(1) this] show ?case by simp
  qed simp
  from this[of "{}"] assms(2,3) show "punches_ok E (fold (apply_bucket E) bs s)"
    "\<forall>b \<in> set bs. absorbed E (work_sessions (fold (apply_bucket E) bs s)) b" by simp_all
qed

lemma apply_absorbed:
  assumes "fixed_zone E" "punches_ok E s" "absorbed E (work_sessions s) b"
  shows "work_sessions (apply_bucket E b s) = work_sessions s" "next_id (apply_bucket E b s) = next_id s"
proof -
  obtain i d w where b: "b = ((i, d), w)" by (metis surj_pair)
  obtain r where r: "punch_rows E i d (work_sessions s) = [r]" "merge_window w r = r"
    using assms(3) by (auto simp: absorbed_def b)
  have ok: "rows_ok ws_id (\<lambda>w. True) (next_id s) (work_sessions s)" using assms(2) by (simp add: punches_ok_def)
  have mem: "r \<in> set (work_sessions s)" using r(1) by (auto simp: punch_rows_def filter_eq_Cons_iff)
  have "row_put ws_id r (work_sessions s) = work_sessions s"
    unfolding row_put_def by (intro map_idI) (use rows_ok_inj[OF ok mem] in auto)
  moreover have "biometric_session i (fst (local_bounds E d)) (snd (local_bounds E d)) s = Some r"
    using biometric_lookup[OF assms(1), of i d s] r(1) by simp
  ultimately show "work_sessions (apply_bucket E b s) = work_sessions s" "next_id (apply_bucket E b s) = next_id s"
    using r(2) unfolding b apply_bucket_def upsert_biometric_day_def merge_window_def Let_def
    by (simp_all del: merge_window_simps)
qed

lemma fold_absorbed:
  assumes "fixed_zone E" "punches_ok E s" "\<forall>b \<in> set bs. absorbed E (work_sessions s) b"
  shows "work_sessions (fold (apply_bucket E) bs s) = work_sessions s"
  using assms(2,3)
proof (induction bs arbitrary: s)
  case (Cons b bs)
  have b: "work_sessions (apply_bucket E b s) = work_sessions s" "next_id (apply_bucket E b s) = next_id s"
    using apply_absorbed[OF assms(1) Cons.prems(1), of b] Cons.prems(2) by simp_all
  have "punches_ok E (apply_bucket E b s)" using Cons.prems(1) by (simp add: punches_ok_def b)
  with Cons.IH[OF this] Cons.prems(2) b(1) show ?case by simp
qed simp

lemma ingest_sessions:
  "work_sessions (snd (ingest E ps s)) = work_sessions (fold (apply_bucket E) (fold (bucket_punch E s) ps []) s)"
  "punches_ok E (snd (ingest E ps s)) \<longleftrightarrow> punches_ok E (fold (apply_bucket E) (fold (bucket_punch E s) ps []) s)"
  by (simp_all add: ingest_def punches_ok_def Let_def quiet_time(1)[OF quiet_audit])

text \<open>C27 Punches pushed by the connector: a person keeps at most one punch session a day, and pushing the
  same batch again changes no session.\<close>

theorem punches_idempotent:
  assumes "fixed_zone E" "punches_ok E s"
  shows "punches_ok E (snd (ingest E ps s))
    \<and> work_sessions (snd (ingest E ps (snd (ingest E ps s)))) = work_sessions (snd (ingest E ps s))"
proof -
  let ?bs = "fold (bucket_punch E s) ps []" and ?s1 = "snd (ingest E ps s)"
  have bs: "buckets_ok E ?bs" by (rule buckets_ok_fold) (simp add: buckets_ok_def)
  note f = fold_buckets[OF assms bs]
  have ok: "punches_ok E ?s1" unfolding ingest_sessions using f(1) .
  have same: "fold (bucket_punch E ?s1) ps [] = ?bs"
    by (subst bucket_punch_cong[of ?s1 s]) (simp_all add: ingest_def Let_def quiet_time(10,11)[OF quiet_audit])
  have "\<forall>b \<in> set ?bs. absorbed E (work_sessions ?s1) b" using f(2) by (simp add: ingest_sessions)
  then have "work_sessions (snd (ingest E ps ?s1)) = work_sessions ?s1"
    unfolding ingest_sessions(1)[of E ps ?s1] same by (rule fold_absorbed[OF assms(1) ok])
  with ok show ?thesis by blast
qed

definition demo_punch :: "datetime \<Rightarrow> string \<Rightarrow> punch" where
  "demo_punch t dir = \<lparr>pu_external_id = ''7'', pu_at = t, pu_naive = False, pu_direction = dir\<rparr>"

lemma demo_fixed_zone: "fixed_zone demo_E"
  by (simp add: fixed_zone_def demo_env_def)

lemma demo_punches_ok: "punches_ok E (demo_time_db t [])"
  by (simp add: punches_ok_def demo_time_db_def rows_ok_def keys_unique_def punch_rows_def)

theorem punches_idempotent_witness:
  "work_sessions (snd (ingest demo_E [demo_punch 5 ''in''] (snd (ingest demo_E [demo_punch 5 ''in''] (demo_time_db 9 [])))))
    = work_sessions (snd (ingest demo_E [demo_punch 5 ''in''] (demo_time_db 9 [])))
   \<and> punches_ok demo_E (snd (ingest demo_E [demo_punch 5 ''in''] (demo_time_db 9 [])))"
  using punches_idempotent[OF demo_fixed_zone demo_punches_ok] by blast

subsection \<open>A second open session\<close>

definition at_hour :: "int \<Rightarrow> datetime" where
  "at_hour h = 4 * day_us + h * 60 * minute_us"

lemmas demo_time_defs = demo_time_db_def demo_env_def demo_employee_def default_att_policy_def

lemma demo_clock_in:
  "clock_in demo_E metres demo_staff None None None (demo_time_db (at_hour 9) [])
    = Inr (demo_session 100 2 (at_hour 9) None ''dashboard'',
        session_audit demo_E (uuid_str 2) ''attendance.clock_in'' (demo_session 100 2 (at_hour 9) None ''dashboard'')
          ((demo_time_db (at_hour 9) [demo_session 100 2 (at_hour 9) None ''dashboard''])\<lparr>next_id := 101\<rparr>))"
  by (simp add: clock_in_def get_open_def first_by_def enforce_location_def create_session_def demo_time_defs
      demo_session_def is_valid_coord_def row_add_def Let_def)

lemma ingest_single_in:
  assumes "resolve_punch x s = Some e"
    and "biometric_session (emp_id e) (fst (local_bounds E (local_day E t))) (snd (local_bounds E (local_day E t))) s = None"
  shows "work_sessions (snd (ingest E [\<lparr>pu_external_id = x, pu_at = t, pu_naive = False, pu_direction = ''in''\<rparr>] s))
    = work_sessions s @ [demo_session (next_id s) (emp_id e) t None ''biometric'']"
  using assms unfolding ingest_sessions(1)
  by (simp add: bucket_punch_def punch_utc_def window_add_def apply_bucket_def upsert_biometric_day_def
      create_session_def row_add_def window_clock_out_def demo_session_def Let_def)

lemma ingest_frames:
  "now (snd (ingest E ps s)) = now s" "work_week (snd (ingest E ps s)) = work_week s"
proof -
  have "now (fold (apply_bucket E) bs s) = now s \<and> work_week (fold (apply_bucket E) bs s) = work_week s" for bs
    by (induction bs arbitrary: s) (simp_all add: apply_bucket_def upsert_biometric_day_def create_session_def
        put_session_def Let_def split: prod.split option.split)
  then show "now (snd (ingest E ps s)) = now s" "work_week (snd (ingest E ps s)) = work_week s"
    by (simp_all add: ingest_def Let_def quiet_time(4)[OF quiet_audit])
qed

lemma open_two:
  assumes "work_sessions s = [a, b]" "clock_out_at a = None" "clock_out_at b = None" "ws_employee a = cu_id c"
    "ws_employee b = cu_id c" "clock_in_at a < clock_in_at b" "ws_id a \<noteq> ws_id b"
    "is_working_day (local_day E (now s)) (work_week s)"
  shows "\<exists>w s'. clock_out E c s = Inr (w, s') \<and> clock_out_at w = Some (now s) \<and> get_open (cu_id c) s' = Some a
    \<and> state_for E (cu_id c) s' = CAPTURING"
proof -
  let ?b = "b\<lparr>clock_out_at := Some (now s), clock_out_source := Some ''dashboard''\<rparr>"
  have o: "get_open (cu_id c) s = Some b" using assms by (simp add: get_open_def first_by_def)
  define s' where "s' = session_audit E (uuid_str (cu_id c)) ''attendance.clock_out'' ?b (put_session ?b s)"
  have q: "quiet (put_session ?b s) s'" unfolding s'_def by (intro quiet_intros)
  have ws: "work_sessions s' = [a, ?b]" "now s' = now s" "work_week s' = work_week s"
    using quiet_time(1,4)[OF q] quiet_core[OF q] assms(1,7) by (simp_all add: put_session_def row_put_def)
  have "clock_out E c s = Inr (?b, s')" by (simp add: clock_out_def o s'_def Let_def)
  moreover have "get_open (cu_id c) s' = Some a" using ws assms by (simp add: get_open_def first_by_def)
  moreover have "state_for E (cu_id c) s' = CAPTURING" using ws assms by (simp add: state_for_def open_employee_ids_def)
  ultimately show ?thesis by (intro exI[of _ ?b] exI[of _ s']) simp
qed

text \<open>Clocking out does not always end the capture of a working day. Somebody who clocks in on the
  dashboard and then passes the punch reader has two open sessions; clocking out closes the later one only, so the
  first stays open and the monitoring gate keeps recording.\<close>

theorem clocked_out_still_captured:
  "\<exists>w1 s1 w2 s3. clock_in demo_E metres demo_staff None None None (demo_time_db (at_hour 9) []) = Inr (w1, s1) \<and>
     clock_out demo_E demo_staff ((snd (ingest demo_E [demo_punch (at_hour 10) ''in''] (s1\<lparr>now := at_hour 11\<rparr>)))\<lparr>now := at_hour 18\<rparr>)
       = Inr (w2, s3) \<and>
     clock_out_at w2 = Some (at_hour 18) \<and> get_open 2 s3 = Some w1 \<and> state_for demo_E 2 s3 = CAPTURING"
proof -
  let ?d = "demo_session 100 2 (at_hour 9) None ''dashboard''"
  let ?s0 = "(demo_time_db (at_hour 9) [?d])\<lparr>next_id := 101\<rparr>"
  define s1 where "s1 = session_audit demo_E (uuid_str 2) ''attendance.clock_in'' ?d ?s0"
  define s2 where "s2 = (snd (ingest demo_E [demo_punch (at_hour 10) ''in''] (s1\<lparr>now := at_hour 11\<rparr>)))\<lparr>now := at_hour 18\<rparr>"
  have q: "quiet ?s0 s1" unfolding s1_def by (intro quiet_intros)
  have s1: "work_sessions s1 = [?d]" "next_id s1 = 101" "biometric_id s1 = (\<lambda>i. if i = 2 then Some ''7'' else None)"
    "employees s1 = employees (demo_time_db 0 [])" "work_week s1 = 5"
    using quiet_time[OF q] quiet_core[OF q] by (simp_all add: demo_time_db_def s1_def session_audit_def)
  have "resolve_punch ''7'' (s1\<lparr>now := t\<rparr>) = Some ((demo_employee 2 EXECUTIVE)\<lparr>manager_id := Some 3\<rparr>)" for t
    by (simp add: resolve_punch_def get_by_biometric_id_def s1 demo_time_defs)
  note in_punch = ingest_single_in[OF this, of demo_E "at_hour 10" "at_hour 11"]
  have ws: "work_sessions s2 = [?d, demo_session 101 2 (at_hour 10) None ''biometric'']"
    using in_punch by (simp add: s2_def s1 demo_punch_def biometric_session_def first_by_def demo_session_def demo_employee_def)
  have "is_working_day (local_day demo_E (now s2)) (work_week s2)"
    by (simp add: s2_def ingest_frames s1 local_day_def utc_day_def at_hour_def day_us_def minute_us_def demo_env_def
        is_working_day_def weekday_def epoch_def)
  then obtain w2 s3 where "clock_out demo_E demo_staff s2 = Inr (w2, s3)" "clock_out_at w2 = Some (now s2)"
    "get_open 2 s3 = Some ?d" "state_for demo_E 2 s3 = CAPTURING"
    using open_two[OF ws, of demo_staff demo_E] by (auto simp: demo_session_def at_hour_def minute_us_def)
  then show ?thesis using demo_clock_in[of metres]
    by (intro exI[of _ ?d] exI[of _ s1] exI[of _ w2] exI[of _ s3]) (simp add: s1_def[symmetric] s2_def)
qed

end
