(* ===== verification/IsoDays.thy ===== *)
theory IsoDays
  imports WorkSessionLaws
begin

text \<open>
  Days as text: \<open>YYYY-MM-DD\<close> texts of real dates are ordered, character by character, as the dates are. The
  repositories compare stored days as text on the strength of this.
\<close>

lemma foldl_digits_bounds:
  assumes "list_all is_digit xs"
  shows "a * 10 ^ length xs \<le> foldl (\<lambda>a c. 10 * a + digit_val c) a xs
    \<and> foldl (\<lambda>a c. 10 * a + digit_val c) a xs < (a + 1) * 10 ^ length xs"
  using assms
proof (induction xs arbitrary: a)
  case (Cons x xs)
  let ?b = "10 * a + digit_val x"
  have x: "digit_val x \<le> 9" using Cons.prems by (auto simp: is_digit_def digit_val_def)
  have IH: "?b * 10 ^ length xs \<le> foldl (\<lambda>a c. 10 * a + digit_val c) ?b xs"
    "foldl (\<lambda>a c. 10 * a + digit_val c) ?b xs < (?b + 1) * 10 ^ length xs" using Cons by simp_all
  have "\<exists>m. m = 10 ^ length xs \<and> digit_val x * m \<le> 9 * m" using mult_le_mono1[OF x] by blast
  then obtain m where m: "10 ^ length xs = m" "digit_val x * m \<le> 9 * m" by metis
  then show ?case using IH unfolding length_Cons power_Suc foldl_Cons m(1) distrib_right mult.assoc mult.left_commute[of 10]
    by linarith
qed simp

lemma digits_less_value:
  assumes "length xs = length ys" "list_all is_digit xs" "list_all is_digit ys" "xs < ys"
  shows "foldl (\<lambda>a c. 10 * a + digit_val c) a xs < foldl (\<lambda>a c. 10 * a + digit_val c) a ys"
  using assms
proof (induction xs ys arbitrary: a rule: list_induct2)
  case (Cons x xs y ys)
  show ?case
  proof (cases "x = y")
    case True
    then show ?thesis using Cons by simp
  next
    case False
    then have "x < y" using Cons.prems(3) by simp
    then have "digit_val x < digit_val y" using Cons.prems(1,2) by (auto simp: less_char_def is_digit_def digit_val_def)
    then have "(10 * a + digit_val x + 1) * 10 ^ length xs \<le> (10 * a + digit_val y) * 10 ^ length ys"
      using Cons.hyps mult_le_mono1[of "10 * a + digit_val x + 1" "10 * a + digit_val y" "10 ^ length ys"] by simp
    moreover have "foldl (\<lambda>a c. 10 * a + digit_val c) (10 * a + digit_val x) xs < (10 * a + digit_val x + 1) * 10 ^ length xs"
      "(10 * a + digit_val y) * 10 ^ length ys \<le> foldl (\<lambda>a c. 10 * a + digit_val c) (10 * a + digit_val y) ys"
      using foldl_digits_bounds Cons.prems(1,2) by simp_all
    ultimately show ?thesis by simp
  qed
qed simp

lemma read_less:
  assumes "length xs = length ys" "read_nat xs = Some m" "read_nat ys = Some n" "m < n"
  shows "xs < ys"
proof -
  have d: "list_all is_digit xs" "list_all is_digit ys" "foldl (\<lambda>a c. 10 * a + digit_val c) 0 xs = m"
    "foldl (\<lambda>a c. 10 * a + digit_val c) 0 ys = n" using assms(2,3) by (auto simp: read_nat_def split: if_splits)
  show ?thesis using digits_less_value[OF assms(1)[symmetric] d(2,1), of 0] d(3,4) assms(4) by (metis less_asym linorder_cases)
qed

lemma append_less: "length xs = length ys \<Longrightarrow> xs < ys \<Longrightarrow> xs @ us < ys @ (vs :: string)"
  by (induction xs ys rule: list_induct2) auto

lemma append_same_less: "us < vs \<Longrightarrow> xs @ us < xs @ (vs :: string)"
  by (induction xs) auto

lemma pad_less:
  "0 \<le> m \<Longrightarrow> m < n \<Longrightarrow> n < 10000 \<Longrightarrow> pad4 m < pad4 n"
  "0 \<le> m \<Longrightarrow> m < n \<Longrightarrow> n < 100 \<Longrightarrow> pad2 m < pad2 n"
  by (rule read_less[of _ _ "nat m" "nat n"]; simp add: length_pad4 length_pad2 read_nat_pad4 read_nat_pad2)+

definition max_date :: date where
  "max_date = 3652059"

lemma year_in_range: "1 \<le> d \<Longrightarrow> d \<le> max_date \<Longrightarrow> 1 \<le> year_of d \<and> year_of d \<le> 9999"
proof -
  have "year_of 1 = 1" "year_of 3652059 = 9999" by (rule year_of_unique; simp add: days_before_year_def)+
  then show "1 \<le> d \<Longrightarrow> d \<le> max_date \<Longrightarrow> 1 \<le> year_of d \<and> year_of d \<le> 9999"
    using year_of_mono[of 1 d] year_of_mono[of d 3652059] by (simp add: max_date_def)
qed

text \<open>ISO texts of real dates are ordered as the dates.\<close>

lemma isoformat_less:
  assumes "1 \<le> a" "a < b" "b \<le> max_date"
  shows "isoformat a < isoformat b"
proof -
  have y: "1 \<le> year_of a" "year_of a \<le> year_of b" "year_of b \<le> 9999"
    using year_in_range[of a] year_in_range[of b] year_of_mono[of a b] assms by simp_all
  have m: "1 \<le> month_of a" "month_of a \<le> 12" "1 \<le> month_of b" "month_of b \<le> 12" "1 \<le> day_of a" "day_of b \<le> 31"
    "1 \<le> day_of b" "day_of a \<le> 31"
    using month_of_bounds[of a] month_of_bounds[of b] day_of_bounds[of a] day_of_bounds[of b]
      month_len_bounds[of "year_of a" "month_of a"] month_len_bounds[of "year_of b" "month_of b"] by auto
  have l: "length (pad4 (year_of a)) = length (pad4 (year_of b))" "length (pad2 (month_of a)) = length (pad2 (month_of b))"
    using y m by (simp_all add: length_pad4 length_pad2)
  consider "year_of a < year_of b" | "year_of a = year_of b" "month_of a < month_of b"
    | "year_of a = year_of b" "month_of a = month_of b" "day_of a < day_of b"
  proof -
    have ab: "mk_date (year_of a) (month_of a) (day_of a) < mk_date (year_of b) (month_of b) (day_of b)" using assms(2) by simp
    have "\<not> (month_of b < month_of a \<and> year_of a = year_of b)"
      using mk_date_less_month[of "month_of b" "month_of a" "year_of b" "day_of b" "day_of a"] ab
        valid_ymd_of[of b] valid_ymd_of[of a] assms(2) by (metis mk_date_of not_less_iff_gr_or_eq)
    moreover have "year_of a = year_of b \<Longrightarrow> month_of a = month_of b \<Longrightarrow> day_of a < day_of b" using ab by (simp add: mk_date_def)
    ultimately show ?thesis using that y(2) by linarith
  qed
  then show ?thesis
  proof cases
    case 1
    then show ?thesis using y by (simp add: isoformat_def append_less[OF l(1)] pad_less)
  next
    case 2
    then show ?thesis using m append_less[OF l(2) pad_less(2)] by (simp add: isoformat_def append_same_less)
  next
    case 3
    then show ?thesis using m pad_less(2)[of "day_of a" "day_of b"] by (simp add: isoformat_def append_same_less)
  qed
qed

lemma isoformat_le_iff: "1 \<le> a \<Longrightarrow> a \<le> max_date \<Longrightarrow> 1 \<le> b \<Longrightarrow> b \<le> max_date \<Longrightarrow> isoformat a \<le> isoformat b \<longleftrightarrow> a \<le> b"
  using isoformat_less[of a b] isoformat_less[of b a] by (metis less_le_not_le linorder_not_less order_le_less)

lemma isoformat_inj: "1 \<le> a \<Longrightarrow> a \<le> max_date \<Longrightarrow> 1 \<le> b \<Longrightarrow> b \<le> max_date \<Longrightarrow> isoformat a = isoformat b \<longleftrightarrow> a = b"
  using isoformat_less[of a b] isoformat_less[of b a] by (metis less_irrefl linorder_neqE)

end
