(* ===== verification/AttendanceLaws.thy ===== *)
theory AttendanceLaws
  imports IsoDays
begin

text \<open>
  Laws of the attendance register: what classification does, that the days of a range do not depend on where it
  starts within its month, and that the register has one row per person and day.
\<close>

subsection \<open>Days of a range\<close>

lemma in_range_bounds:
  assumes "fixed_zone E"
  shows "fst (local_bounds E a) \<le> t \<and> t < snd (local_bounds E b) \<longleftrightarrow> a \<le> local_day E t \<and> local_day E t \<le> b"
proof -
  obtain z where z: "utc_offset E = (\<lambda>x. z)" using assms unfolding fixed_zone_def by blast
  have "fst (local_bounds E a) \<le> t \<and> t < snd (local_bounds E b)
      \<longleftrightarrow> utc_midnight a \<le> t + z \<and> t + z < utc_midnight (b + 1)"
    by (auto simp: local_bounds_def local_midnight_def wall_to_utc_def z)
  also have "\<dots> \<longleftrightarrow> a \<le> local_day E t \<and> local_day E t \<le> b"
    by (auto simp: utc_midnight_le_iff less_utc_midnight_iff local_day_def z)
  finally show ?thesis .
qed

text \<open>What the register makes of one person's day: the punches if there are any, else every session.\<close>

definition day_sessions :: "env \<Rightarrow> uuid \<Rightarrow> date \<Rightarrow> string option \<Rightarrow> 'a time_db_scheme \<Rightarrow> work_session list" where
  "day_sessions E i d src s = sort_key clock_in_at (filter (\<lambda>w. session_key E w = (i, d)
     \<and> (case src of None \<Rightarrow> True | Some x \<Rightarrow> ws_source w = x)) (work_sessions s))"

definition day_acc_of :: "env \<Rightarrow> uuid \<Rightarrow> date \<Rightarrow> 'a time_db_scheme \<Rightarrow> day_acc option" where
  "day_acc_of E i d s =
    (let bio = day_sessions E i d (Some ''biometric'') s;
         ws = (if bio = [] then day_sessions E i d None s else bio)
     in fold (\<lambda>w acc. Some (acc_add (open_cutoff E d s) w acc)) ws None)"

lemma fold_accumulate:
  "map_of (fold (accumulate E s) ws g) k =
    fold (\<lambda>w acc. Some (acc_add (open_cutoff E (snd k) s) w acc)) (filter (\<lambda>w. session_key E w = k) ws) (map_of g k)"
  by (induction ws arbitrary: g) (auto simp: accumulate_def update_conv' Let_def)

lemma filter_range_sessions:
  assumes "fixed_zone E"
  shows "filter (\<lambda>w. session_key E w = (i, d)) (sessions_in_range ids (fst (local_bounds E a)) (snd (local_bounds E b)) src s)
    = (if i \<in> set ids \<and> a \<le> d \<and> d \<le> b then day_sessions E i d src s else [])"
proof -
  have "filter (\<lambda>w. session_key E w = (i, d)) (filter (\<lambda>w. ws_employee w \<in> set ids \<and> fst (local_bounds E a) \<le> clock_in_at w
        \<and> clock_in_at w < snd (local_bounds E b) \<and> (case src of None \<Rightarrow> True | Some x \<Rightarrow> ws_source w = x)) (work_sessions s))
    = (if i \<in> set ids \<and> a \<le> d \<and> d \<le> b then filter (\<lambda>w. session_key E w = (i, d)
        \<and> (case src of None \<Rightarrow> True | Some x \<Rightarrow> ws_source w = x)) (work_sessions s) else [])"
    unfolding filter_filter using in_range_bounds[OF assms, of a _ b]
    by (auto simp: session_key_def filter_empty_conv intro!: filter_cong)
  then show ?thesis by (simp add: sessions_in_range_def day_sessions_def filter_sort)
qed

lemma filter_key_avoid:
  "filter (\<lambda>w. f w = k) (filter (\<lambda>w. f w \<notin> K) xs) = (if k \<in> K then [] else filter (\<lambda>w. f w = k) xs)"
  by (induction xs) auto

lemma grouped_at:
  assumes "fixed_zone E"
  shows "map_of (grouped_days E ids a b s) (i, d)
    = (if i \<in> set ids \<and> a \<le> d \<and> d \<le> b then day_acc_of E i d s else None)"
proof -
  let ?r = "\<lambda>src. sessions_in_range ids (fst (local_bounds E a)) (snd (local_bounds E b)) src s"
  let ?on = "i \<in> set ids \<and> a \<le> d \<and> d \<le> b" and ?bio = "day_sessions E i d (Some ''biometric'') s"
  have k: "(i, d) \<in> set (map (session_key E) (?r (Some ''biometric''))) \<longleftrightarrow> ?on \<and> ?bio \<noteq> []"
  proof -
    have "(i, d) \<in> set (map (session_key E) (?r (Some ''biometric'')))
        \<longleftrightarrow> filter (\<lambda>w. session_key E w = (i, d)) (?r (Some ''biometric'')) \<noteq> []"
      by (force simp: filter_empty_conv)
    then show ?thesis unfolding filter_range_sessions[OF assms] by auto
  qed
  show ?thesis
    unfolding grouped_days_def Let_def fold_accumulate filter_append filter_key_avoid k filter_range_sessions[OF assms]
    by (auto simp: day_acc_of_def)
qed

lemma grouped_distinct: "distinct (map fst (grouped_days E ids a b s))"
proof -
  have "distinct (map fst g) \<Longrightarrow> distinct (map fst (fold (accumulate E s) ws g))" for ws g
    by (induction ws arbitrary: g) (simp_all add: accumulate_def distinct_update Let_def)
  then show ?thesis by (simp add: grouped_days_def Let_def)
qed

lemma grouped_mem:
  assumes "fixed_zone E"
  shows "((i, d), x) \<in> set (grouped_days E ids a b s) \<longleftrightarrow> i \<in> set ids \<and> a \<le> d \<and> d \<le> b \<and> day_acc_of E i d s = Some x"
  using grouped_at[OF assms, of ids a b s i d] map_of_eq_Some_iff[OF grouped_distinct] by (metis option.distinct(1))

subsection \<open>Counting lates\<close>

definition late_acc :: "env \<Rightarrow> 'a time_db_scheme \<Rightarrow> day_acc \<Rightarrow> bool" where
  "late_acc E s x \<longleftrightarrow> local_minute E (da_login x) > on_time_cutoff (spec_of s)"

lemma late_verdict: "late_login (verdict_of E s approved n ((i, d), x)) \<longleftrightarrow> late_acc E s x"
  by (auto simp: verdict_of_def classify_day_def late_acc_def Let_def)

definition late_in :: "env \<Rightarrow> 'a time_db_scheme \<Rightarrow> uuid \<Rightarrow> ((uuid \<times> date) \<times> day_acc) list \<Rightarrow> int" where
  "late_in E s i g = int (length (filter (\<lambda>y. fst (fst y) = i \<and> late_acc E s (snd y)) g))"

lemma classify_run_spec:
  "snd (classify_run E s ap xs lates) i = lates i + late_in E s i xs"
  "fst (classify_run E s ap xs lates)
    = map (\<lambda>n. (xs ! n, verdict_of E s ap (lates (fst (fst (xs ! n))) + late_in E s (fst (fst (xs ! n))) (take n xs)) (xs ! n)))
        [0..<length xs]"
proof (induction xs arbitrary: lates)
  case (Cons x xs)
  obtain j d a where x: "x = ((j, d), a)" by (metis surj_pair)
  define next_l where "next_l = (\<lambda>lates. if late_acc E s a then lates(j := lates j + 1 :: int) else lates)"
  have step: "classify_run E s ap (x # xs) lates = ((x, verdict_of E s ap (lates j) x) # fst (classify_run E s ap xs (next_l lates)),
      snd (classify_run E s ap xs (next_l lates)))" for lates
    by (simp add: x Let_def late_verdict next_l_def split: prod.split)
  have l: "next_l lates k + late_in E s k ys = lates k + late_in E s k (x # ys)" for k ys lates
    by (auto simp: late_in_def x next_l_def)
  {
    case 1
    then show ?case by (simp only: step snd_conv Cons.IH(1) l)
  next
    case 2
    show ?case
      unfolding step fst_conv Cons.IH(2) length_Cons upt_conv_Cons[OF zero_less_Suc] map_Suc_upt[symmetric] list.map map_map
        comp_def nth_Cons_0 nth_Cons_Suc take_Suc_Cons take_0 l
      by (simp add: x late_in_def)
  }
qed (simp_all add: late_in_def)

text \<open>In day order, what comes before a person's day are that person's earlier days.\<close>

lemma take_before:
  assumes "sorted (map (\<lambda>y. snd (fst y)) xs)" "distinct (map fst xs)" "n < length xs" "fst (xs ! n) = (i, d)"
  shows "filter (\<lambda>y. fst (fst y) = i \<and> P y) (take n xs) = filter (\<lambda>y. fst (fst y) = i \<and> snd (fst y) < d \<and> P y) xs"
proof -
  have split: "xs = take n xs @ drop n xs" by simp
  have le: "snd (fst (xs ! m)) \<le> d" if "m < n" for m
    using sorted_nth_mono[OF assms(1), of m n] that assms(3,4) by simp
  have ge: "d \<le> snd (fst (xs ! m))" if "n \<le> m" "m < length xs" for m
    using sorted_nth_mono[OF assms(1), of n m] that assms(4) by simp
  have ne: "fst (xs ! m) \<noteq> (i, d)" if "m < n" for m
    using assms(2,3,4) that nth_eq_iff_index_eq[OF assms(2), of m n] by auto
  have "\<not> snd (fst y) < d" if "y \<in> set (drop n xs)" for y
  proof -
    obtain k where "k < length xs - n" "y = xs ! (n + k)" using \<open>y \<in> set (drop n xs)\<close> assms(3) by (auto simp: in_set_conv_nth)
    then show ?thesis using ge[of "n + k"] by (simp add: less_diff_conv add.commute not_less)
  qed
  then have "filter (\<lambda>y. fst (fst y) = i \<and> snd (fst y) < d \<and> P y) (drop n xs) = []"
    by (auto simp: filter_empty_conv)
  moreover have "filter (\<lambda>y. fst (fst y) = i \<and> snd (fst y) < d \<and> P y) (take n xs) = filter (\<lambda>y. fst (fst y) = i \<and> P y) (take n xs)"
    using le ne by (intro filter_cong refl) (fastforce simp: in_set_conv_nth prod_eq_iff)
  ultimately show ?thesis by (subst (2) split) (simp only: filter_append append_Nil2)
qed

text \<open>Late days of a person, by the day.\<close>

definition late_days_in :: "env \<Rightarrow> uuid \<Rightarrow> date \<Rightarrow> date \<Rightarrow> 'a time_db_scheme \<Rightarrow> int" where
  "late_days_in E i a b s = int (length (filter (\<lambda>d. case day_acc_of E i d s of None \<Rightarrow> False | Some x \<Rightarrow> late_acc E s x) [a..b]))"

lemma late_days_split: "a \<le> b + 1 \<Longrightarrow> b \<le> c \<Longrightarrow> late_days_in E i a c s = late_days_in E i a b s + late_days_in E i (b + 1) c s"
proof -
  assume "a \<le> b + 1" "b \<le> c"
  then have "a = b + 1 \<or> [a..c] = [a..b] @ [b + 1..c]" using upto_split2[of a b c] by linarith
  then show ?thesis by (auto simp: late_days_in_def)
qed

lemma late_days_empty: "b < a \<Longrightarrow> late_days_in E i a b s = 0"
  by (simp add: late_days_in_def)

lemma late_in_grouped:
  assumes "fixed_zone E" "i \<in> set ids" "c \<le> b + 1"
  shows "int (length (filter (\<lambda>y. fst (fst y) = i \<and> snd (fst y) < c \<and> late_acc E s (snd y)) (grouped_days E ids a b s)))
    = late_days_in E i a (c - 1) s"
proof -
  let ?g = "grouped_days E ids a b s" and ?P = "\<lambda>y. fst (fst y) = i \<and> snd (fst y) < c \<and> late_acc E s (snd y)"
  let ?Q = "\<lambda>d. case day_acc_of E i d s of None \<Rightarrow> False | Some x \<Rightarrow> late_acc E s x"
  have dg: "distinct ?g" using grouped_distinct distinct_map by blast
  have img: "(\<lambda>y. snd (fst y)) ` set (filter ?P ?g) = set (filter ?Q [a..c - 1])"
  proof (rule set_eqI)
    fix d
    have "d \<in> (\<lambda>y. snd (fst y)) ` set (filter ?P ?g) \<longleftrightarrow> (\<exists>x. ((i, d), x) \<in> set ?g \<and> d < c \<and> late_acc E s x)"
      by (force simp: image_iff)
    also have "\<dots> \<longleftrightarrow> a \<le> d \<and> d < c \<and> (\<exists>x. day_acc_of E i d s = Some x \<and> late_acc E s x)"
      unfolding grouped_mem[OF assms(1)] using assms(2,3) by auto
    also have "\<dots> \<longleftrightarrow> d \<in> set (filter ?Q [a..c - 1])" by (auto split: option.splits)
    finally show "d \<in> (\<lambda>y. snd (fst y)) ` set (filter ?P ?g) \<longleftrightarrow> d \<in> set (filter ?Q [a..c - 1])" .
  qed
  have inj: "inj_on (\<lambda>y. snd (fst y)) (set (filter ?P ?g))"
  proof (rule inj_onI)
    fix x y assume xy: "x \<in> set (filter ?P ?g)" "y \<in> set (filter ?P ?g)" "snd (fst x) = snd (fst y)"
    then have "fst x = fst y" by (simp add: prod_eq_iff)
    then show "x = y" using xy grouped_distinct[of E ids a b s] by (auto simp: distinct_map dest: inj_onD)
  qed
  have "length (filter ?P ?g) = card (set (filter ?P ?g))" using distinct_card[OF distinct_filter[OF dg]] by metis
  also have "\<dots> = card (set (filter ?Q [a..c - 1]))" using card_image[OF inj] img by simp
  also have "\<dots> = length (filter ?Q [a..c - 1])" by (rule distinct_card) simp
  finally show ?thesis by (simp add: late_days_in_def)
qed

lemma classified_mem:
  assumes "fixed_zone E" "i \<in> set ids"
  shows "(((i, d), x), v) \<in> set (fst (classified E s ap (grouped_days E ids a b s) lates))
    \<longleftrightarrow> a \<le> d \<and> d \<le> b \<and> day_acc_of E i d s = Some x \<and> v = verdict_of E s ap (lates i + late_days_in E i a (d - 1) s) ((i, d), x)"
proof -
  let ?g = "grouped_days E ids a b s"
  let ?xs = "sort_key (\<lambda>x. snd (fst x)) (sort_key (\<lambda>x. fst (fst x)) ?g)"
  have srt: "sorted (map (\<lambda>y. snd (fst y)) ?xs)" by simp
  have dist: "distinct (map fst ?xs)" using grouped_distinct[of E ids a b s] by (simp add: distinct_map)
  have set: "set ?xs = set ?g" by simp
  have count: "late_in E s i (take n ?xs) = late_days_in E i a (d - 1) s"
    if "n < length ?xs" "fst (?xs ! n) = (i, d)" "d \<le> b" for n
  proof -
    have "length (filter P ?xs) = length (filter P ?g)" for P by (simp add: filter_sort)
    then show ?thesis using late_in_grouped[OF assms, of d b s a] that(3)
      unfolding late_in_def take_before[OF srt dist that(1,2)] by simp
  qed
  have bnd: "d \<le> b" if "n < length ?xs" "fst (?xs ! n) = (i, d)" for n
    using grouped_mem[OF assms(1)] that nth_mem[OF that(1)] unfolding set by (metis prod.collapse)
  have run: "(y, v) \<in> set (fst (classified E s ap ?g lates))
      \<longleftrightarrow> (\<exists>n < length ?xs. y = ?xs ! n \<and> v = verdict_of E s ap (lates (fst (fst y)) + late_in E s (fst (fst y)) (take n ?xs)) y)" for y
    unfolding classified_def classify_run_spec(2) by auto
  have "(((i, d), x), v) \<in> set (fst (classified E s ap ?g lates))
      \<longleftrightarrow> (\<exists>n < length ?xs. ((i, d), x) = ?xs ! n) \<and> v = verdict_of E s ap (lates i + late_days_in E i a (d - 1) s) ((i, d), x)"
    unfolding run fst_conv using count bnd by (metis fst_conv)
  also have "(\<exists>n < length ?xs. ((i, d), x) = ?xs ! n) \<longleftrightarrow> ((i, d), x) \<in> set ?g"
    unfolding set[symmetric] by (metis in_set_conv_nth)
  finally show ?thesis unfolding grouped_mem[OF assms(1)] using assms(2) by blast
qed

lemma lates_before_count:
  assumes "fixed_zone E" "i \<in> set ids"
  shows "lates_before E ids d s i = late_days_in E i (month_start d) (d - 1) s"
proof (cases "d \<le> month_start d")
  case True
  then show ?thesis by (simp add: lates_before_def late_days_empty)
next
  case False
  let ?g = "grouped_days E ids (month_start d) (d - 1) s"
  have days: "((i, e), x) \<in> set ?g \<Longrightarrow> e < d" for e x by (simp add: grouped_mem[OF assms(1)])
  have "filter (\<lambda>y. fst (fst y) = i \<and> late_acc E s (snd y)) ?g = filter (\<lambda>y. fst (fst y) = i \<and> snd (fst y) < d \<and> late_acc E s (snd y)) ?g"
    by (rule filter_cong) (use days in \<open>auto\<close>)
  then show ?thesis using False late_in_grouped[OF assms, of d "d - 1" s "month_start d"]
    by (simp add: lates_before_def classified_def classify_run_spec(1) late_in_def filter_sort)
qed

text \<open>The tally a day is judged by counts from the month in which the range starts.\<close>

lemma range_verdicts:
  assumes "fixed_zone E" "i \<in> set ids"
  shows "(((i, d), x), v) \<in> set (fst (classified E s ap (grouped_days E ids a b s) (lates_before E ids a s)))
    \<longleftrightarrow> a \<le> d \<and> d \<le> b \<and> day_acc_of E i d s = Some x
        \<and> v = verdict_of E s ap (late_days_in E i (month_start a) (d - 1) s) ((i, d), x)"
proof -
  have ms: "month_start a \<le> a" using month_encloses[of a] by (simp add: month_start_def)
  have "a \<le> d \<Longrightarrow> late_days_in E i (month_start a) (a - 1) s + late_days_in E i a (d - 1) s = late_days_in E i (month_start a) (d - 1) s"
    using late_days_split[of "month_start a" "a - 1" "d - 1" E i s] ms by simp
  then show ?thesis unfolding classified_mem[OF assms] lates_before_count[OF assms] by auto
qed

subsection \<open>The row of one day\<close>

definition override_at :: "uuid \<Rightarrow> string \<Rightarrow> 'a time_db_scheme \<Rightarrow> override_status option" where
  "override_at i t s = fold (\<lambda>r acc. if ov_employee r = i \<and> ov_day r = t then Some (ov_status r) else acc) (day_overrides s) None"

definition away_at :: "uuid \<Rightarrow> date \<Rightarrow> 'a time_db_scheme \<Rightarrow> portion option" where
  "away_at i d s = fold (\<lambda>e acc. if ooo_employee e = i \<and> ooo_state e = OOO_APPROVED \<and> start_day e \<le> d \<and> d \<le> end_day e
     then Some (ooo_portion e) else acc) (ooo_entries s) None"

definition regularized_at :: "uuid \<Rightarrow> date \<Rightarrow> 'a time_db_scheme \<Rightarrow> bool" where
  "regularized_at i d s = list_ex (\<lambda>r. reg_employee r = i \<and> reg_state r = REG_APPROVED \<and> reg_day r = isoformat d) (regs s)"

definition on_leave_at :: "env \<Rightarrow> uuid \<Rightarrow> date \<Rightarrow> 'a time_db_scheme \<Rightarrow> bool" where
  "on_leave_at E i d s = list_ex (\<lambda>l. leave_employee l = i \<and> leave_state l = APPROVED \<and> leave_kind l \<noteq> UNPAID
     \<and> local_day E (leave_start l) \<le> d \<and> d \<le> local_day E (leave_end l)) (leaves s)"

text \<open>The specification: one row for a person and a day at most, from what is on file for that day alone and the
  number of late days since \<open>m\<close>.\<close>

definition day_row_spec :: "env \<Rightarrow> (uuid \<Rightarrow> employment) \<Rightarrow> date \<Rightarrow> uuid \<Rightarrow> date \<Rightarrow> 'a time_db_scheme \<Rightarrow> att_row option" where
  "day_row_spec E windows m i d s =
    (let ov = override_at i (isoformat d) s; p = away_at i d s
     in case day_acc_of E i d s of
          Some x \<Rightarrow>
            (let v = classify_day E (Some (da_login x)) (da_worked x) (regularized_at i d s) (spec_of s)
                       (window_closed E d s \<or> day_out_source x \<in> {Some ''dashboard'', Some ''auto''})
                       (late_days_in E i m (d - 1) s)
             in Some \<lparr>ar_employee = i, ar_day = isoformat d,
                  ar_status = (case ov of Some o' \<Rightarrow> override_to_status o'
                               | None \<Rightarrow> if p \<noteq> None then OUT_OF_OFFICE else dv_status v),
                  ar_login = Some (da_login x), ar_logout = (if da_open x then None else da_logout x),
                  ar_worked = da_worked x, ar_late = late_login v, ar_regularizable = regularizable v \<and> ov = None,
                  ar_regularized = regularized v \<or> ov \<noteq> None, ar_in_source = Some (da_in_source x),
                  ar_out_source = day_out_source x,
                  ar_credit = (case p of None \<Rightarrow> 0 | Some y \<Rightarrow> out_of_office_credit y (dv_status v))\<rparr>)
        | None \<Rightarrow>
            (case ov of Some st \<Rightarrow> Some (blank_row i (isoformat d) (override_to_status st) True 0)
             | None \<Rightarrow>
                (case p of Some y \<Rightarrow> Some (blank_row i (isoformat d) OUT_OF_OFFICE False (out_of_office_credit y ABSENT))
                 | None \<Rightarrow> if d \<le> local_day E (now s) \<and> is_working_day d (work_week s) \<and> d \<notin> set (holiday_dates s) \<and> covers (windows i) d
                     then Some (blank_row i (isoformat d) (if on_leave_at E i d s then ON_LEAVE else ABSENT) False 0)
                     else None)))"

lemma fold_update_map_of:
  "map_of (fold (\<lambda>r. AList.update (key r) (val r)) rs al) k = fold (\<lambda>r acc. if key r = k then Some (val r) else acc) rs (map_of al k)"
  by (induction rs arbitrary: al) (auto simp: update_conv')

lemma fold_filter_acc: "fold f (filter P xs) a = fold (\<lambda>x acc. if P x then f x acc else acc) xs a"
  by (induction xs arbitrary: a) auto

lemma fold_If_Some: "fold (\<lambda>x acc. if P x then Some (v x) else acc) xs None \<noteq> None \<Longrightarrow> \<exists>x \<in> set xs. P x"
proof -
  have "fold (\<lambda>x acc. if P x then Some (v x) else acc) xs acc \<noteq> acc \<Longrightarrow> \<exists>x \<in> set xs. P x" for acc
    by (induction xs arbitrary: acc) (auto split: if_splits)
  then show "fold (\<lambda>x acc. if P x then Some (v x) else acc) xs None \<noteq> None \<Longrightarrow> \<exists>x \<in> set xs. P x" .
qed

lemma fold_update_distinct:
  "distinct (map fst al) \<Longrightarrow> distinct (map fst (fold (\<lambda>r. AList.update (key r) (val r)) rs al))"
  by (induction rs arbitrary: al) (simp_all add: distinct_update)

lemma overrides_at:
  assumes "i \<in> set ids" "isoformat a \<le> t" "t \<le> isoformat b"
  shows "map_of (overrides_for_range ids a b s) (i, t) = override_at i t s"
  unfolding overrides_for_range_def fold_update_map_of override_at_def map_of.simps
  unfolding fold_filter_acc
  by (intro fold_cong refl ext) (use assms in auto)

lemma overrides_keys:
  "distinct (map fst (overrides_for_range ids a b s))"
  "((i, t), st) \<in> set (overrides_for_range ids a b s) \<Longrightarrow> isoformat a \<le> t \<and> t \<le> isoformat b"
  "((i, t), st) \<in> set (overrides_for_range ids a b s) \<Longrightarrow> \<exists>x \<in> set (day_overrides s). ov_day x = t"
proof -
  show "distinct (map fst (overrides_for_range ids a b s))"
    unfolding overrides_for_range_def by (rule fold_update_distinct) simp
  have *: "k \<in> fst ` set (fold (\<lambda>r. AList.update (ov_employee r, ov_day r) (ov_status r)) rs al)
      \<Longrightarrow> k \<in> fst ` set al \<or> (\<exists>r \<in> set rs. k = (ov_employee r, ov_day r))" for k rs al
  proof (induction rs arbitrary: al)
    case (Cons r rs)
    from Cons.IH[of "AList.update (ov_employee r, ov_day r) (ov_status r) al"] Cons.prems show ?case by (auto simp: dom_update)
  qed simp
  then show "((i, t), st) \<in> set (overrides_for_range ids a b s) \<Longrightarrow> isoformat a \<le> t \<and> t \<le> isoformat b"
    unfolding overrides_for_range_def by (force dest!: *[of "(i, t)"])
  show "((i, t), st) \<in> set (overrides_for_range ids a b s) \<Longrightarrow> \<exists>x \<in> set (day_overrides s). ov_day x = t"
    using * unfolding overrides_for_range_def by (force dest!: *[of "(i, t)"])
qed

lemma away_fold:
  "map_of (fold (\<lambda>e. fold (\<lambda>d. AList.update (emp e, d) (val e)) (days e)) es al) (i, d)
    = fold (\<lambda>e acc. if emp e = i \<and> d \<in> set (days e) then Some (val e) else acc) es (map_of al (i, d))"
proof (induction es arbitrary: al)
  case (Cons e es)
  have "map_of (fold (\<lambda>d. AList.update (emp e, d) (val e)) ds al) (i, d)
      = (if emp e = i \<and> d \<in> set ds then Some (val e) else map_of al (i, d))" for ds al
    by (induction ds arbitrary: al) (auto simp: update_conv')
  then show ?case using Cons by simp
qed simp

lemma away_at_days:
  assumes "i \<in> set ids" "a \<le> d" "d \<le> b"
  shows "map_of (away_days ids a b s) (i, d) = away_at i d s"
  unfolding away_days_def away_fold away_at_def map_of.simps
  unfolding fold_filter_acc
  by (intro fold_cong refl ext) (use assms in \<open>auto simp: expand_days_def\<close>)

lemma away_keys:
  "distinct (map fst (away_days ids a b s))"
  "((i, d), p) \<in> set (away_days ids a b s) \<Longrightarrow> a \<le> d \<and> d \<le> b"
proof -
  have dist: "distinct (map fst al) \<Longrightarrow> distinct (map fst (fold (\<lambda>e. fold (\<lambda>d. AList.update (emp e, d) (val e)) (days e)) es al))"
    for es al and emp :: "'b \<Rightarrow> uuid" and val :: "'b \<Rightarrow> portion" and days :: "'b \<Rightarrow> date list"
  proof (induction es arbitrary: al)
    case (Cons e es)
    have "distinct (map fst (fold (\<lambda>d. AList.update (emp e, d) (val e)) (days e) al))"
      using fold_update_distinct[OF Cons.prems, of "\<lambda>d. (emp e, d)" "\<lambda>d. val e"] by simp
    then show ?case using Cons.IH by simp
  qed simp
  show "distinct (map fst (away_days ids a b s))" unfolding away_days_def by (rule dist) simp
  assume "((i, d), p) \<in> set (away_days ids a b s)"
  then have "map_of (away_days ids a b s) (i, d) \<noteq> None" by (metis map_of_eq_None_iff image_eqI fst_conv)
  then show "a \<le> d \<and> d \<le> b"
    unfolding away_days_def away_fold map_of.simps by (drule_tac fold_If_Some) auto
qed

lemma approved_at:
  assumes "i \<in> set ids" "isoformat a \<le> isoformat d" "isoformat d \<le> isoformat b"
  shows "(i, isoformat d) \<in> set (approved_days ids a b s) \<longleftrightarrow> regularized_at i d s"
  using assms by (force simp: approved_days_def regularized_at_def list_ex_iff)

lemma leave_dates_at:
  assumes "fixed_zone E" "a \<le> d" "d \<le> b"
  shows "d \<in> set (approved_leave_dates E i a b s) \<longleftrightarrow> on_leave_at E i d s"
proof -
  have "leave_start l < snd (local_bounds E b) \<and> leave_end l \<ge> fst (local_bounds E a)"
    if "local_day E (leave_start l) \<le> d" "d \<le> local_day E (leave_end l)" for l
  proof -
    obtain z where z: "utc_offset E = (\<lambda>x. z)" using assms(1) unfolding fixed_zone_def by blast
    have "utc_midnight a \<le> leave_end l + z" "leave_start l + z < utc_midnight (b + 1)"
      using that assms(2,3) by (simp_all add: utc_midnight_le_iff less_utc_midnight_iff local_day_def z)
    then show ?thesis by (simp add: local_bounds_def local_midnight_def wall_to_utc_def z)
  qed
  then show ?thesis by (auto simp: approved_leave_dates_def approved_paid_in_range_def on_leave_at_def list_ex_iff)
qed

lemma classified_rows: "map fst (fst (classified E s ap g lates)) = sort_key (\<lambda>x. snd (fst x)) (sort_key (\<lambda>x. fst (fst x)) g)"
  by (rule nth_equalityI) (simp_all add: classified_def classify_run_spec(2))

lemma row_keys [simp]:
  "row_key (worked_row ov aw (((i, d), x), v)) = (i, isoformat d)" "row_key (blank_row i t st b c) = (i, t)"
  by (simp_all add: row_key_def worked_row_def blank_row_def Let_def)

lemma worked_keys: "map row_key (map (worked_row ov aw) vs) = map (\<lambda>y. (fst (fst (fst y)), isoformat (snd (fst (fst y))))) vs"
  unfolding map_map by (intro map_cong refl) (auto simp: row_key_def worked_row_def Let_def split: prod.split)

text \<open>The dates of the range are real dates, so that their texts tell them apart.\<close>

definition real_range :: "date \<Rightarrow> date \<Rightarrow> bool" where
  "real_range a b \<longleftrightarrow> 1 \<le> a \<and> b \<le> max_date"

lemma iso_in: "real_range a b \<Longrightarrow> a \<le> d \<Longrightarrow> d \<le> b \<Longrightarrow> isoformat a \<le> isoformat d \<and> isoformat d \<le> isoformat b"
  by (simp add: isoformat_le_iff real_range_def)

lemma iso_same:
  "real_range a b \<Longrightarrow> a \<le> d \<Longrightarrow> d \<le> b \<Longrightarrow> a \<le> e \<Longrightarrow> e \<le> b \<Longrightarrow> isoformat d = isoformat e \<longleftrightarrow> d = e"
  using isoformat_inj[of d e] by (simp add: real_range_def)

lemma grouped_key_at:
  assumes "fixed_zone E" "i \<in> set ids" "a \<le> d" "d \<le> b" "real_range a b"
  shows "(i, isoformat d) \<in> set (day_keys (grouped_days E ids a b s)) \<longleftrightarrow> day_acc_of E i d s \<noteq> None"
    and "(i, d) \<in> fst ` set (grouped_days E ids a b s) \<longleftrightarrow> day_acc_of E i d s \<noteq> None"
proof -
  show g: "(i, d) \<in> fst ` set (grouped_days E ids a b s) \<longleftrightarrow> day_acc_of E i d s \<noteq> None"
    using grouped_at[OF assms(1), of ids a b s i d] assms(2-4) by (metis map_of_eq_None_iff)
  have "(i, isoformat d) \<in> set (day_keys (grouped_days E ids a b s))
      \<longleftrightarrow> (\<exists>e x. ((i, e), x) \<in> set (grouped_days E ids a b s) \<and> isoformat e = isoformat d)"
    by (force simp: day_keys_def image_iff)
  also have "\<dots> \<longleftrightarrow> (i, d) \<in> fst ` set (grouped_days E ids a b s)"
  proof
    assume "\<exists>e x. ((i, e), x) \<in> set (grouped_days E ids a b s) \<and> isoformat e = isoformat d"
    then obtain e x where x: "((i, e), x) \<in> set (grouped_days E ids a b s)" "isoformat e = isoformat d" by blast
    then have "e = d" using iso_same[OF assms(5) _ _ assms(3,4), of e] by (simp add: grouped_mem[OF assms(1)])
    then show "(i, d) \<in> fst ` set (grouped_days E ids a b s)" using x(1) by force
  qed force
  finally show "(i, isoformat d) \<in> set (day_keys (grouped_days E ids a b s)) \<longleftrightarrow> day_acc_of E i d s \<noteq> None"
    using g by simp
qed

lemma worked_at:
  assumes "fixed_zone E" "i \<in> set ids" "a \<le> d" "d \<le> b" "real_range a b"
  shows "r \<in> set (map (worked_row (overrides_for_range ids a b s) (away_days ids a b s))
        (fst (classified E s (approved_days ids a b s) (grouped_days E ids a b s) (lates_before E ids a s))))
      \<and> row_key r = (i, isoformat d)
    \<longleftrightarrow> day_acc_of E i d s \<noteq> None \<and> day_row_spec E windows (month_start a) i d s = Some r"
proof -
  let ?c = "fst (classified E s (approved_days ids a b s) (grouped_days E ids a b s) (lates_before E ids a s))"
  let ?w = "worked_row (overrides_for_range ids a b s) (away_days ids a b s)"
  have days: "((j, e), x) \<in> fst ` set ?c \<Longrightarrow> j \<in> set ids \<and> a \<le> e \<and> e \<le> b" for j e x
  proof -
    have "fst ` set ?c = set (grouped_days E ids a b s)"
      using arg_cong[OF classified_rows, of set E s "approved_days ids a b s" "grouped_days E ids a b s"] by simp
    then show "((j, e), x) \<in> fst ` set ?c \<Longrightarrow> j \<in> set ids \<and> a \<le> e \<and> e \<le> b" by (simp add: grouped_mem[OF assms(1)])
  qed
  have "r \<in> set (map ?w ?c) \<and> row_key r = (i, isoformat d) \<longleftrightarrow> (\<exists>x v. (((i, d), x), v) \<in> set ?c \<and> r = ?w (((i, d), x), v))"
  proof
    assume "r \<in> set (map ?w ?c) \<and> row_key r = (i, isoformat d)"
    then obtain j e x v where c: "(((j, e), x), v) \<in> set ?c" "r = ?w (((j, e), x), v)" "row_key r = (i, isoformat d)" by auto
    have "((j, e), x) \<in> fst ` set ?c" using c(1) by force
    then have "a \<le> e \<and> e \<le> b" using days by blast
    then have "j = i" "e = d" using c(2,3) iso_same[OF assms(5) _ _ assms(3,4), of e] by simp_all
    then show "\<exists>x v. (((i, d), x), v) \<in> set ?c \<and> r = ?w (((i, d), x), v)" using c(1,2) by blast
  qed force
  also have "\<dots> \<longleftrightarrow> (\<exists>x. day_acc_of E i d s = Some x \<and> r = ?w (((i, d), x),
      verdict_of E s (approved_days ids a b s) (late_days_in E i (month_start a) (d - 1) s) ((i, d), x)))"
    unfolding range_verdicts[OF assms(1,2)] using assms(3,4) by blast
  also have "\<dots> \<longleftrightarrow> day_acc_of E i d s \<noteq> None \<and> day_row_spec E windows (month_start a) i d s = Some r"
  proof -
    have iso: "isoformat a \<le> isoformat d" "isoformat d \<le> isoformat b" using iso_in[OF assms(5,3,4)] by blast+
    note at = overrides_at[OF assms(2) iso] away_at_days[OF assms(2-4)] approved_at[OF assms(2) iso]
    have "day_acc_of E i d s = Some x \<Longrightarrow> day_row_spec E windows (month_start a) i d s = Some (?w (((i, d), x),
        verdict_of E s (approved_days ids a b s) (late_days_in E i (month_start a) (d - 1) s) ((i, d), x)))" for x
      by (cases "away_at i d s") (simp_all add: worked_row_def verdict_of_def day_row_spec_def at Let_def)
    then show ?thesis by (cases "day_acc_of E i d s") auto
  qed
  finally show ?thesis .
qed

lemma override_rows_at:
  assumes "fixed_zone E" "i \<in> set ids" "a \<le> d" "d \<le> b" "real_range a b"
  shows "r \<in> set (override_rows ids (grouped_days E ids a b s) (overrides_for_range ids a b s)) \<and> row_key r = (i, isoformat d)
    \<longleftrightarrow> day_acc_of E i d s = None \<and> (\<exists>st. override_at i (isoformat d) s = Some st \<and> r = blank_row i (isoformat d) (override_to_status st) True 0)"
proof -
  have iso: "isoformat a \<le> isoformat d" "isoformat d \<le> isoformat b" using iso_in[OF assms(5,3,4)] by blast+
  have "r \<in> set (override_rows ids (grouped_days E ids a b s) (overrides_for_range ids a b s)) \<and> row_key r = (i, isoformat d)
      \<longleftrightarrow> (i, isoformat d) \<notin> set (day_keys (grouped_days E ids a b s))
        \<and> (\<exists>st. ((i, isoformat d), st) \<in> set (overrides_for_range ids a b s) \<and> r = blank_row i (isoformat d) (override_to_status st) True 0)"
    using assms(2) by (force simp: override_rows_def image_iff)
  then show ?thesis
    unfolding grouped_key_at(1)[OF assms] using overrides_at[OF assms(2) iso] map_of_eq_Some_iff[OF overrides_keys(1)] by metis
qed

lemma away_rows_at:
  assumes "fixed_zone E" "i \<in> set ids" "a \<le> d" "d \<le> b" "real_range a b"
  shows "r \<in> set (away_rows ids (grouped_days E ids a b s) (overrides_for_range ids a b s) (away_days ids a b s))
      \<and> row_key r = (i, isoformat d)
    \<longleftrightarrow> day_acc_of E i d s = None \<and> override_at i (isoformat d) s = None
      \<and> (\<exists>p. away_at i d s = Some p \<and> r = blank_row i (isoformat d) OUT_OF_OFFICE False (out_of_office_credit p ABSENT))"
proof -
  have iso: "isoformat a \<le> isoformat d" "isoformat d \<le> isoformat b" using iso_in[OF assms(5,3,4)] by blast+
  define G where "G = fst ` set (grouped_days E ids a b s)"
  define V where "V = fst ` set (overrides_for_range ids a b s)"
  let ?x = "\<lambda>e p. ((i, e), p) \<in> set (away_days ids a b s) \<and> (i, e) \<notin> G \<and> (i, isoformat e) \<notin> V
      \<and> r = blank_row i (isoformat e) OUT_OF_OFFICE False (out_of_office_credit p ABSENT) \<and> isoformat e = isoformat d"
  have "r \<in> set (away_rows ids (grouped_days E ids a b s) (overrides_for_range ids a b s) (away_days ids a b s))
      \<and> row_key r = (i, isoformat d) \<longleftrightarrow> (\<exists>e p. ?x e p)"
  proof -
    have "r \<in> set (away_rows ids (grouped_days E ids a b s) (overrides_for_range ids a b s) (away_days ids a b s)) \<longleftrightarrow>
        (\<exists>j e p. ((j, e), p) \<in> set (away_days ids a b s) \<and> (j, e) \<notin> G \<and> j \<in> set ids \<and> (j, isoformat e) \<notin> V
          \<and> r = blank_row j (isoformat e) OUT_OF_OFFICE False (out_of_office_credit p ABSENT))"
      unfolding away_rows_def G_def[symmetric] V_def[symmetric] by force
    then show ?thesis using assms(2) by (metis prod.inject row_keys(2))
  qed
  also have "\<dots> \<longleftrightarrow> (\<exists>p. ?x d p)"
  proof -
    have "((i, e), p) \<in> set (away_days ids a b s) \<Longrightarrow> isoformat e = isoformat d \<Longrightarrow> e = d" for e p
      using away_keys(2)[of i e p ids a b s] iso_same[OF assms(5) _ _ assms(3,4), of e] by simp
    then show ?thesis by metis
  qed
  also have "\<dots> \<longleftrightarrow> day_acc_of E i d s = None \<and> override_at i (isoformat d) s = None
      \<and> (\<exists>p. away_at i d s = Some p \<and> r = blank_row i (isoformat d) OUT_OF_OFFICE False (out_of_office_credit p ABSENT))"
    unfolding G_def V_def grouped_key_at(2)[OF assms] map_of_eq_None_iff[symmetric] overrides_at[OF assms(2) iso]
      map_of_eq_Some_iff[OF away_keys(1), symmetric] away_at_days[OF assms(2-4)] by blast
  finally show ?thesis .
qed

lemma absence_rows_at:
  assumes "fixed_zone E" "i \<in> set ids" "a \<le> d" "d \<le> b" "real_range a b"
  shows "r \<in> set (absence_rows E ids a b existing windows s) \<and> row_key r = (i, isoformat d)
    \<longleftrightarrow> (i, isoformat d) \<notin> set existing \<and> d \<le> local_day E (now s) \<and> is_working_day d (work_week s)
      \<and> d \<notin> set (holiday_dates s) \<and> covers (windows i) d
      \<and> r = blank_row i (isoformat d) (if on_leave_at E i d s then ON_LEAVE else ABSENT) False 0"
proof -
  define l where "l = min b (local_day E (now s))"
  define st where "st = (\<lambda>j e. if e \<in> set (approved_leave_dates E j a l s) then ON_LEAVE else ABSENT)"
  have st: "(if e \<in> set (approved_leave_dates E j a l s) then ON_LEAVE else ABSENT) = st j e" for j e
    by (simp add: st_def)
  have "r \<in> set (absence_rows E ids a b existing windows s) \<longleftrightarrow>
      (\<exists>j \<in> set ids. \<exists>e. e \<in> set (working_dates_in a l s) \<and> (j, isoformat e) \<notin> set existing \<and> covers (windows j) e
        \<and> r = blank_row j (isoformat e) (st j e) False 0)"
  proof (cases "l < a")
    case True
    then show ?thesis by (simp add: absence_rows_def l_def[symmetric] working_dates_in_def)
  next
    case False
    then show ?thesis unfolding absence_rows_def l_def[symmetric] Let_def st by (auto simp: map_filter_def)
  qed
  then have "r \<in> set (absence_rows E ids a b existing windows s) \<and> row_key r = (i, isoformat d) \<longleftrightarrow>
      (\<exists>e. e \<in> set (working_dates_in a l s) \<and> isoformat e = isoformat d \<and> (i, isoformat e) \<notin> set existing
        \<and> covers (windows i) e \<and> r = blank_row i (isoformat e) (st i e) False 0)"
    using assms(2) by auto
  also have "\<dots> \<longleftrightarrow> (d \<in> set (working_dates_in a l s) \<and> (i, isoformat d) \<notin> set existing
        \<and> covers (windows i) d \<and> r = blank_row i (isoformat d) (st i d) False 0)"
  proof -
    have "e \<in> set (working_dates_in a l s) \<Longrightarrow> isoformat e = isoformat d \<Longrightarrow> e = d" for e
      using iso_same[OF assms(5) _ _ assms(3,4), of e] by (auto simp: working_dates_in_def l_def split: if_splits)
    then show ?thesis by auto
  qed
  also have "\<dots> \<longleftrightarrow> (i, isoformat d) \<notin> set existing \<and> d \<le> local_day E (now s) \<and> is_working_day d (work_week s)
      \<and> d \<notin> set (holiday_dates s) \<and> covers (windows i) d
      \<and> r = blank_row i (isoformat d) (if on_leave_at E i d s then ON_LEAVE else ABSENT) False 0"
    using leave_dates_at[OF assms(1,3), of l i s] assms(3,4)
    by (auto simp: working_dates_in_def holidays_in_def l_def st_def)
  finally show ?thesis .
qed

subsection \<open>One row per person and day\<close>

lemma iso_keys_distinct:
  assumes "real_range a b" "distinct (map key xs)" "\<And>x. x \<in> set xs \<Longrightarrow> a \<le> snd (key x) \<and> snd (key x) \<le> b"
  shows "distinct (map (\<lambda>x. (fst (key x), isoformat (snd (key x)))) xs)"
proof -
  have "inj_on (\<lambda>x. (fst (key x), isoformat (snd (key x)))) (set xs)"
  proof (rule inj_onI)
    fix x y assume xy: "x \<in> set xs" "y \<in> set xs" "(fst (key x), isoformat (snd (key x))) = (fst (key y), isoformat (snd (key y)))"
    then have "key x = key y"
      using iso_same[OF assms(1), of "snd (key x)" "snd (key y)"] assms(3)[of x] assms(3)[of y] by (simp add: prod_eq_iff)
    then show "x = y" using assms(2) xy by (auto simp: distinct_map dest: inj_onD)
  qed
  then show ?thesis using assms(2) by (simp add: distinct_map)
qed

lemma filter_one:
  assumes "distinct (map key xs)" "\<And>r. r \<in> set xs \<and> key r = k \<longleftrightarrow> o' = Some r"
  shows "filter (\<lambda>r. key r = k) xs = (case o' of None \<Rightarrow> [] | Some r \<Rightarrow> [r])"
proof -
  let ?f = "filter (\<lambda>r. key r = k) xs"
  have mem: "r \<in> set ?f \<longleftrightarrow> o' = Some r" for r using assms(2)[of r] by auto
  have "distinct ?f" using assms(1) by (simp add: distinct_map)
  show ?thesis
  proof (cases ?f)
    case Nil
    then have "\<And>r. o' \<noteq> Some r" using mem by auto
    then show ?thesis using Nil by (cases o') auto
  next
    case (Cons r rs)
    then have r: "o' = Some r" using mem[of r] by simp
    have "rs = []"
    proof (cases rs)
      case (Cons q qs)
      then have "o' = Some q" using mem[of q] \<open>?f = r # rs\<close> by simp
      then show ?thesis using r Cons \<open>?f = r # rs\<close> \<open>distinct ?f\<close> by simp
    qed simp
    then show ?thesis using Cons r by simp
  qed
qed

lemma absence_rows_product:
  "map row_key (absence_rows E ids a b existing windows s) =
     map (\<lambda>x. (fst x, isoformat (snd x))) (filter (\<lambda>x. (fst x, isoformat (snd x)) \<notin> set existing \<and> covers (windows (fst x)) (snd x))
       (List.product ids (working_dates_in a (min b (local_day E (now s))) s)))"
proof -
  have "map row_key (List.map_filter (\<lambda>d. if (i, isoformat d) \<in> set existing \<or> \<not> covers (windows i) d then None
        else Some (blank_row i (isoformat d) (st d) False 0)) ds)
      = map (\<lambda>x. (fst x, isoformat (snd x))) (filter (\<lambda>x. (fst x, isoformat (snd x)) \<notin> set existing \<and> covers (windows (fst x)) (snd x)) (map (Pair i) ds))"
    for i st ds by (induction ds) (simp_all add: map_filter_simps)
  then show ?thesis
    unfolding absence_rows_def Let_def product_concat_map by (simp add: map_concat filter_concat comp_def working_dates_in_def)
qed

text \<open>The four groups of rows.\<close>

definition worked_part :: "env \<Rightarrow> uuid list \<Rightarrow> date \<Rightarrow> date \<Rightarrow> 'a time_db_scheme \<Rightarrow> att_row list" where
  "worked_part E ids a b s = map (worked_row (overrides_for_range ids a b s) (away_days ids a b s))
     (fst (classified E s (approved_days ids a b s) (grouped_days E ids a b s) (lates_before E ids a s)))"

definition away_part :: "env \<Rightarrow> uuid list \<Rightarrow> date \<Rightarrow> date \<Rightarrow> 'a time_db_scheme \<Rightarrow> att_row list" where
  "away_part E ids a b s = away_rows ids (grouped_days E ids a b s) (overrides_for_range ids a b s) (away_days ids a b s)"

definition override_part :: "env \<Rightarrow> uuid list \<Rightarrow> date \<Rightarrow> date \<Rightarrow> 'a time_db_scheme \<Rightarrow> att_row list" where
  "override_part E ids a b s = override_rows ids (grouped_days E ids a b s) (overrides_for_range ids a b s)"

definition recorded_part :: "env \<Rightarrow> uuid list \<Rightarrow> date \<Rightarrow> date \<Rightarrow> 'a time_db_scheme \<Rightarrow> att_row list" where
  "recorded_part E ids a b s = worked_part E ids a b s @ away_part E ids a b s @ override_part E ids a b s"

definition absence_part :: "env \<Rightarrow> uuid list \<Rightarrow> (uuid \<Rightarrow> employment) \<Rightarrow> date \<Rightarrow> date \<Rightarrow> 'a time_db_scheme \<Rightarrow> att_row list" where
  "absence_part E ids windows a b s = absence_rows E ids a b (map row_key (recorded_part E ids a b s)) windows s"

lemma day_rows_split:
  "day_rows E ids windows a b s = sort_key ar_day (sort_key ar_employee (recorded_part E ids a b s @ absence_part E ids windows a b s))"
  by (simp add: day_rows_def recorded_part_def absence_part_def worked_part_def away_part_def override_part_def Let_def)

lemmas parts_at = worked_at[folded worked_part_def] away_rows_at[folded away_part_def] override_rows_at[folded override_part_def]

definition in_range_key :: "uuid list \<Rightarrow> date \<Rightarrow> date \<Rightarrow> uuid \<times> string \<Rightarrow> bool" where
  "in_range_key ids a b k \<longleftrightarrow> (\<exists>d. k = (fst k, isoformat d) \<and> fst k \<in> set ids \<and> a \<le> d \<and> d \<le> b)"

lemma worked_part_keys:
  assumes "fixed_zone E" "real_range a b"
  shows "distinct (map row_key (worked_part E ids a b s))"
    and "r \<in> set (worked_part E ids a b s) \<Longrightarrow> in_range_key ids a b (row_key r)"
proof -
  let ?g = "grouped_days E ids a b s"
  let ?c = "fst (classified E s (approved_days ids a b s) ?g (lates_before E ids a s))"
  have c: "map fst ?c = sort_key (\<lambda>x. snd (fst x)) (sort_key (\<lambda>x. fst (fst x)) ?g)" by (rule classified_rows)
  have "fst ` set ?c = set ?g" using arg_cong[OF c, of set] by simp
  then have cset: "(((i, d), x), v) \<in> set ?c \<Longrightarrow> i \<in> set ids \<and> a \<le> d \<and> d \<le> b" for i d x v
    using grouped_mem[OF assms(1), of i d x ids a b s] by (metis fst_conv image_eqI)
  have "distinct (map fst (map fst ?c))" unfolding c using grouped_distinct[of E ids a b s] by (simp add: distinct_map)
  then have "distinct (map (\<lambda>y. fst (fst y)) ?c)" by (simp add: comp_def)
  then show "distinct (map row_key (worked_part E ids a b s))" unfolding worked_part_def worked_keys
    by (rule iso_keys_distinct[OF assms(2)]) (use cset in \<open>metis prod.collapse\<close>)
  show "r \<in> set (worked_part E ids a b s) \<Longrightarrow> in_range_key ids a b (row_key r)"
    using cset by (auto simp: worked_part_def in_range_key_def)
qed

lemma away_part_keys:
  assumes "real_range a b"
  shows "distinct (map row_key (away_part E ids a b s))"
    and "r \<in> set (away_part E ids a b s) \<Longrightarrow> in_range_key ids a b (row_key r)"
proof -
  define P where "P = (\<lambda>((i, d), p :: portion). (i, d) \<notin> fst ` set (grouped_days E ids a b s) \<and> i \<in> set ids
      \<and> (i, isoformat d) \<notin> fst ` set (overrides_for_range ids a b s))"
  have keys: "map row_key (away_part E ids a b s) = map (\<lambda>x. (fst (fst x), isoformat (snd (fst x)))) (filter P (away_days ids a b s))"
    unfolding away_part_def away_rows_def map_map P_def by (intro map_cong refl) auto
  show "distinct (map row_key (away_part E ids a b s))" unfolding keys
    by (rule iso_keys_distinct[OF assms(1)])
      (use away_keys(1)[of ids a b s] away_keys(2)[of _ _ _ ids a b s] in \<open>auto simp: distinct_map intro: inj_on_subset\<close>)
  show "r \<in> set (away_part E ids a b s) \<Longrightarrow> in_range_key ids a b (row_key r)"
    using away_keys(2)[of _ _ _ ids a b s] by (auto simp: away_part_def away_rows_def in_range_key_def)
qed

lemma override_part_distinct: "distinct (map row_key (override_part E ids a b s))"
proof -
  have "map row_key (override_part E ids a b s)
      = map fst (filter (\<lambda>((i, t), st). (i, t) \<notin> set (day_keys (grouped_days E ids a b s)) \<and> i \<in> set ids) (overrides_for_range ids a b s))"
    unfolding override_part_def override_rows_def map_map by (intro map_cong refl) auto
  then show ?thesis using overrides_keys(1)[of ids a b s] by (simp add: distinct_map_filter)
qed

lemma absence_part_keys:
  assumes "real_range a b" "distinct ids"
  shows "distinct (map row_key (absence_part E ids windows a b s))"
    and "r \<in> set (absence_part E ids windows a b s) \<Longrightarrow> row_key r \<notin> row_key ` set (recorded_part E ids a b s)"
proof -
  have "distinct (List.product ids (working_dates_in a (min b (local_day E (now s))) s))"
    using assms(2) by (intro distinct_product) (simp_all add: working_dates_in_def)
  then show "distinct (map row_key (absence_part E ids windows a b s))" unfolding absence_part_def absence_rows_product
    by (intro iso_keys_distinct[OF assms(1), where key = id, simplified]) (auto simp: working_dates_in_def split: if_splits)
  assume "r \<in> set (absence_part E ids windows a b s)"
  then have "row_key r \<in> set (map row_key (absence_part E ids windows a b s))" by simp
  then obtain x where "row_key r = (fst x, isoformat (snd x))" "(fst x, isoformat (snd x)) \<notin> set (map row_key (recorded_part E ids a b s))"
    unfolding absence_part_def absence_rows_product set_map set_filter by blast
  then show "row_key r \<notin> row_key ` set (recorded_part E ids a b s)" by (simp only: set_map not_False_eq_True)
qed

lemma recorded_part_distinct:
  assumes "fixed_zone E" "real_range a b"
  shows "distinct (map row_key (recorded_part E ids a b s))"
proof -
  have at: "row_key r = row_key q \<Longrightarrow> r \<in> set (worked_part E ids a b s) \<union> set (away_part E ids a b s) \<Longrightarrow>
      (q \<in> set (away_part E ids a b s) \<longrightarrow> r \<notin> set (worked_part E ids a b s)) \<and> q \<notin> set (override_part E ids a b s)" for r q
  proof -
    assume k: "row_key r = row_key q" and r: "r \<in> set (worked_part E ids a b s) \<union> set (away_part E ids a b s)"
    obtain i d where d: "row_key r = (i, isoformat d)" "i \<in> set ids" "a \<le> d" "d \<le> b"
      using worked_part_keys(2)[OF assms] away_part_keys(2)[OF assms(2)] r unfolding in_range_key_def by blast
    note p = parts_at[OF assms(1) d(2-4) assms(2)]
    show ?thesis using p(1)[of r s "\<lambda>i. always_employed"] p(2)[of r s] p(2)[of q s] p(3)[of q s] k d(1) r
      by (metis UnE option.distinct(1))
  qed
  have disj: "row_key ` set (worked_part E ids a b s) \<inter> row_key ` (set (away_part E ids a b s) \<union> set (override_part E ids a b s)) = {}"
    "row_key ` set (away_part E ids a b s) \<inter> row_key ` set (override_part E ids a b s) = {}"
    using at by blast+
  show ?thesis
    unfolding recorded_part_def map_append distinct_append set_append set_map
    by (intro conjI worked_part_keys(1)[OF assms] away_part_keys(1)[OF assms(2)] override_part_distinct)
      (use disj in \<open>simp_all add: image_Un\<close>)
qed

lemma day_rows_distinct:
  assumes "fixed_zone E" "real_range a b" "distinct ids"
  shows "distinct (map row_key (day_rows E ids windows a b s))"
proof -
  have "row_key ` set (recorded_part E ids a b s) \<inter> row_key ` set (absence_part E ids windows a b s) = {}"
    using absence_part_keys(2)[OF assms(2,3), where windows = windows] by fastforce
  then have "distinct (map row_key (recorded_part E ids a b s @ absence_part E ids windows a b s))"
    unfolding map_append distinct_append set_map
    by (intro conjI recorded_part_distinct[OF assms(1,2)] absence_part_keys(1)[OF assms(2,3)])
  then show ?thesis by (simp only: day_rows_split distinct_map distinct_sort set_sort)
qed

lemma day_rows_at:
  assumes "fixed_zone E" "real_range a b" "i \<in> set ids" "a \<le> d" "d \<le> b"
  shows "r \<in> set (day_rows E ids windows a b s) \<and> row_key r = (i, isoformat d)
    \<longleftrightarrow> day_row_spec E windows (month_start a) i d s = Some r"
proof -
  note at = parts_at[OF assms(1,3,4,5,2)]
  let ?ex = "\<lambda>xs. \<exists>q \<in> set xs. row_key q = (i, isoformat d)"
  have ex: "(i, isoformat d) \<notin> set (map row_key (recorded_part E ids a b s))
      \<longleftrightarrow> day_acc_of E i d s = None \<and> override_at i (isoformat d) s = None \<and> away_at i d s = None"
  proof -
    have "?ex (worked_part E ids a b s) \<longleftrightarrow> day_acc_of E i d s \<noteq> None"
      using at(1)[where windows = "\<lambda>i. always_employed" and s = s]
      by (cases "day_acc_of E i d s") (auto simp: day_row_spec_def Let_def)
    moreover have "?ex (away_part E ids a b s) \<longleftrightarrow> day_acc_of E i d s = None \<and> override_at i (isoformat d) s = None \<and> away_at i d s \<noteq> None"
      using at(2)[where s = s] by (cases "away_at i d s") auto
    moreover have "?ex (override_part E ids a b s) \<longleftrightarrow> day_acc_of E i d s = None \<and> override_at i (isoformat d) s \<noteq> None"
      using at(3)[where s = s] by (cases "override_at i (isoformat d) s") auto
    ultimately show ?thesis by (simp only: recorded_part_def map_append set_append set_map Un_iff image_iff) metis
  qed
  have "r \<in> set (day_rows E ids windows a b s) \<and> row_key r = (i, isoformat d) \<longleftrightarrow>
      (r \<in> set (worked_part E ids a b s) \<and> row_key r = (i, isoformat d)) \<or>
      (r \<in> set (away_part E ids a b s) \<and> row_key r = (i, isoformat d)) \<or>
      (r \<in> set (override_part E ids a b s) \<and> row_key r = (i, isoformat d)) \<or>
      (r \<in> set (absence_part E ids windows a b s) \<and> row_key r = (i, isoformat d))"
    by (auto simp: day_rows_split recorded_part_def)
  also have "\<dots> \<longleftrightarrow> day_row_spec E windows (month_start a) i d s = Some r"
    unfolding at(1)[where windows = windows] at(2,3) absence_part_def absence_rows_at[OF assms(1,3,4,5,2)] ex
    by (cases "day_acc_of E i d s"; cases "override_at i (isoformat d) s"; cases "away_at i d s") (auto simp: day_row_spec_def Let_def)
  finally show ?thesis .
qed

text \<open>C2 The register implements its day-by-day specification: for every person asked for and every date of the
  range there is exactly the row that the records of that one day give (the punches of the day if there are any, an
  HR override above an approved day away, above the classified hours; without any record an absence or a leave on
  a working day of somebody employed, up to today), the late days being counted from the first of the month in
  which the range starts.\<close>

theorem register_refines_days:
  assumes "fixed_zone E" "real_range a b" "distinct ids" "i \<in> set ids" "a \<le> d" "d \<le> b"
  shows "filter (\<lambda>r. row_key r = (i, isoformat d)) (day_rows E ids windows a b s)
    = (case day_row_spec E windows (month_start a) i d s of None \<Rightarrow> [] | Some r \<Rightarrow> [r])"
  by (rule filter_one[OF day_rows_distinct[OF assms(1-3)] day_rows_at[OF assms(1,2,4-6)]])

end
