(* ===== verification/AttendanceProps.thy ===== *)
theory AttendanceProps
  imports AttendanceLaws
begin

text \<open>
  The properties of attendance that reach pay: what a range may and may not change, what lateness and a
  regularization do to a day, and how many days the monthly report credits.
\<close>

subsection \<open>Ranges\<close>

text \<open>Inside a month the register does not depend on the range asked for: two ranges that start in the same
  month show the same row for every person and date they share.\<close>

theorem range_start_irrelevant:
  assumes "fixed_zone E" "real_range a b" "real_range a' b'" "distinct ids" "distinct ids'" "i \<in> set ids" "i \<in> set ids'"
    and "a \<le> d" "d \<le> b" "a' \<le> d" "d \<le> b'" "month_start a = month_start a'"
  shows "filter (\<lambda>r. row_key r = (i, isoformat d)) (day_rows E ids windows a b s)
    = filter (\<lambda>r. row_key r = (i, isoformat d)) (day_rows E ids' windows a' b' s)"
  using register_refines_days assms by metis

definition demo_day :: "int \<Rightarrow> int \<Rightarrow> date" where
  "demo_day m d = mk_date 1970 m d"

definition demo_stay :: "uuid \<Rightarrow> date \<Rightarrow> int \<Rightarrow> int \<Rightarrow> work_session" where
  "demo_stay n d from_h to_h = demo_session n 2 (utc_midnight d + from_h * 60 * minute_us)
     (Some (utc_midnight d + to_h * 60 * minute_us)) ''dashboard''"

text \<open>Three late days at the end of January, and a late one in February, each of nine hours.\<close>

definition demo_lates :: time_db where
  "demo_lates = demo_time_db (utc_midnight (demo_day 2 4))
     [demo_stay 1 (demo_day 1 28) 10 19, demo_stay 2 (demo_day 1 29) 10 19, demo_stay 3 (demo_day 1 30) 10 19,
      demo_stay 4 (demo_day 2 2) 10 19]"

lemma demo_days: "demo_day 1 1 = 719163" "demo_day 1 28 = 719190" "demo_day 1 29 = 719191" "demo_day 1 30 = 719192"
    "demo_day 2 1 = 719194" "demo_day 2 2 = 719195" "demo_day 2 3 = 719196" "demo_day 2 4 = 719197"
    "month_start 719190 = 719163" "month_start 719194 = 719194" "epoch = 719163"
  by code_simp+

lemma demo_month:
  "day_acc_of demo_E 2 d demo_lates = (if d \<in> {719190, 719191, 719192, 719195}
     then Some \<lparr>da_login = utc_midnight d + 10 * 60 * minute_us, da_logout = Some (utc_midnight d + 19 * 60 * minute_us),
       da_worked = 540, da_open = False, da_in_source = ''dashboard'', da_out_source = None\<rparr> else None)"
proof -
  have k: "session_key demo_E (demo_stay n e 10 19) = (2, e)" for n e
    by (simp add: session_key_def demo_stay_def demo_session_def local_day_def demo_env_def utc_day_def utc_midnight_def
        minute_us_def day_us_def)
  have f: "acc_add c (demo_stay n e 10 19) None
      = \<lparr>da_login = utc_midnight e + 10 * 60 * minute_us, da_logout = Some (utc_midnight e + 19 * 60 * minute_us),
       da_worked = 540, da_open = False, da_in_source = ''dashboard'', da_out_source = None\<rparr>" for n e c
    by (simp add: acc_add_def demo_stay_def demo_session_def minutes_between_def minute_us_def)
  have src: "ws_source (demo_stay n e 10 19) = ''dashboard''" for n e by (simp add: demo_stay_def demo_session_def)
  have "day_sessions demo_E 2 d (Some ''biometric'') demo_lates = []"
    by (simp add: day_sessions_def demo_lates_def demo_time_db_def src)
  moreover have "day_sessions demo_E 2 d None demo_lates = (if d = 719190 then [demo_stay 1 d 10 19]
      else if d = 719191 then [demo_stay 2 d 10 19] else if d = 719192 then [demo_stay 3 d 10 19]
      else if d = 719195 then [demo_stay 4 d 10 19] else [])"
    by (simp add: day_sessions_def demo_lates_def demo_time_db_def demo_days k)
  ultimately show ?thesis by (simp add: day_acc_of_def f[simplified])
qed

lemma demo_late: "late_acc demo_E demo_lates \<lparr>da_login = utc_midnight d + 600 * minute_us, da_logout = l,
    da_worked = w, da_open = b, da_in_source = x, da_out_source = y\<rparr>"
proof -
  have "1440 * d - 1035594120 = 600 + (d - 719163) * 1440" by simp
  then have "(1440 * d - 1035594120) mod 1440 = 600" by (simp only: mod_mult_self1) simp
  then show ?thesis
    by (simp add: late_acc_def local_minute_def demo_env_def utc_midnight_def epoch_def day_us_def minute_us_def
        on_time_cutoff_def spec_of_def demo_lates_def demo_time_db_def default_att_policy_def Let_def)
qed

lemma demo_late_days: "late_days_in demo_E 2 719163 719194 demo_lates = 3" "late_days_in demo_E 2 719194 719194 demo_lates = 0"
proof -
  have l: "(case day_acc_of demo_E 2 d demo_lates of None \<Rightarrow> False | Some x \<Rightarrow> late_acc demo_E demo_lates x)
      \<longleftrightarrow> d \<in> {719190, 719191, 719192, 719195}" for d
    unfolding demo_month by (simp add: demo_late)
  have "filter (\<lambda>d. d \<in> {719190, 719191, 719192, 719195}) [719163..719194] = [719190, 719191, 719192 :: int]" by code_simp
  then show "late_days_in demo_E 2 719163 719194 demo_lates = 3" unfolding late_days_in_def l by simp
  show "late_days_in demo_E 2 719194 719194 demo_lates = 0" unfolding late_days_in_def l by simp
qed

text \<open>Across months it does depend on it, although the allowance of late days is monthly. The same person's
  second of February is a full day when the range starts in February, and a half day when it starts in January,
  because the late days of January are carried over.\<close>

theorem lates_carried_over:
  "\<exists>r q. filter (\<lambda>r. row_key r = (2, isoformat 719195)) (day_rows demo_E [2] (\<lambda>i. always_employed) 719194 719196 demo_lates) = [r]
     \<and> filter (\<lambda>r. row_key r = (2, isoformat 719195)) (day_rows demo_E [2] (\<lambda>i. always_employed) 719190 719196 demo_lates) = [q]
     \<and> ar_status r = FULL_DAY \<and> ar_status q = HALF_DAY \<and> ar_login r = ar_login q \<and> ar_worked r = ar_worked q"
proof -
  let ?w = "\<lambda>i :: uuid. always_employed"
  have real: "real_range 719194 719196" "real_range 719190 719196" by (simp_all add: real_range_def max_date_def)
  have acc: "day_acc_of demo_E 2 719195 demo_lates = Some \<lparr>da_login = utc_midnight 719195 + 600 * minute_us,
      da_logout = Some (utc_midnight 719195 + 1140 * minute_us), da_worked = 540, da_open = False,
      da_in_source = ''dashboard'', da_out_source = None\<rparr>" by (simp add: demo_month)
  have none: "override_at 2 t demo_lates = None" "away_at 2 d demo_lates = None" "\<not> regularized_at 2 d demo_lates" for t d
    by (simp_all add: override_at_def away_at_def regularized_at_def demo_lates_def demo_time_db_def)
  have row: "\<exists>r. day_row_spec demo_E ?w m 2 719195 demo_lates = Some r \<and> ar_login r = Some (utc_midnight 719195 + 600 * minute_us)
      \<and> ar_worked r = 540 \<and> ar_status r = (if late_days_in demo_E 2 m 719194 demo_lates \<ge> 3 then HALF_DAY else FULL_DAY)" for m
    using demo_late[of 719195 "Some (utc_midnight 719195 + 1140 * minute_us)" 540 False "''dashboard''" None]
    by (simp add: day_row_spec_def acc none classify_day_def late_acc_def Let_def)
      (simp add: spec_of_def demo_lates_def demo_time_db_def default_att_policy_def Let_def)
  have two: "2 \<in> set [2 :: uuid]" "distinct [2 :: uuid]" by simp_all
  show ?thesis
    using row[of 719163] row[of 719194] demo_late_days demo_days
      register_refines_days[OF demo_fixed_zone real(1) two(2,1), of 719195 ?w demo_lates]
      register_refines_days[OF demo_fixed_zone real(2) two(2,1), of 719195 ?w demo_lates] by auto
qed

theorem register_refines_days_witness:
  "\<exists>r. filter (\<lambda>r. row_key r = (2, isoformat 719192)) (day_rows demo_E [2] (\<lambda>i. always_employed) 719190 719192 demo_lates) = [r]"
proof -
  have 1: "real_range 719190 719192" "distinct [2 :: uuid]" "2 \<in> set [2 :: uuid]" by (simp_all add: real_range_def max_date_def)
  have "day_acc_of demo_E 2 719192 demo_lates \<noteq> None" by (simp add: demo_month)
  then have "day_row_spec demo_E (\<lambda>i. always_employed) (month_start 719190) 2 719192 demo_lates \<noteq> None"
    by (auto simp: day_row_spec_def Let_def)
  then show ?thesis
    using register_refines_days[OF demo_fixed_zone 1, of 719192 "\<lambda>i. always_employed" demo_lates] by auto
qed

theorem range_start_irrelevant_witness:
  "filter (\<lambda>r. row_key r = (2, isoformat 719192)) (day_rows demo_E [2] (\<lambda>i. always_employed) 719190 719192 demo_lates)
    = filter (\<lambda>r. row_key r = (2, isoformat 719192)) (day_rows demo_E [3, 2] (\<lambda>i. always_employed) 719192 719193 demo_lates)"
proof -
  have "month_start 719192 = 719163" by code_simp
  then show ?thesis
    by (intro range_start_irrelevant[OF demo_fixed_zone]) (simp_all add: real_range_def max_date_def demo_days)
qed

subsection \<open>What a day is worth\<close>

text \<open>Classification is fair in the small: with the arrival fixed, working longer, having fewer late days
  before, or having the day regularized never lowers what a finished day is credited.\<close>

theorem day_credit_monotone:
  assumes "w \<le> w'" "n' \<le> n" "regd \<longrightarrow> regd'"
  shows "hours_credit (dv_status (classify_day E (Some t) w regd p True n))
    \<le> hours_credit (dv_status (classify_day E (Some t) w' regd' p True n'))"
  using assms by (simp add: classify_day_def Let_def)

theorem day_credit_monotone_witness:
  "hours_credit (dv_status (classify_day demo_E (Some 0) 300 False (spec_of demo_lates) True 3))
    \<le> hours_credit (dv_status (classify_day demo_E (Some 0) 480 True (spec_of demo_lates) True 1))"
  by (rule day_credit_monotone) simp_all

text \<open>Across arrivals it is not: with hours between the half-day and the full-day bar, somebody on time gets
  half a day, while somebody late (within the allowance) gets a late day, which payroll credits in full.\<close>

theorem late_beats_on_time:
  assumes "local_minute E t \<le> on_time_cutoff p" "on_time_cutoff p < local_minute E t'"
    and "half_day_min_minutes p \<le> w" "w < full_day_hours_cutoff p" "w < late_full_day_minutes p" "n < monthly_late_allowance p"
  shows "dv_status (classify_day E (Some t) w False p True n) = HALF_DAY
    \<and> dv_status (classify_day E (Some t') w False p True n) = LATE
    \<and> hours_credit HALF_DAY < hours_credit LATE"
  using assms by (auto simp: classify_day_def Let_def)

theorem late_beats_on_time_witness:
  "dv_status (classify_day demo_E (Some 0) 300 False (spec_of demo_lates) True 0) = HALF_DAY
   \<and> dv_status (classify_day demo_E (Some (600 * minute_us)) 300 False (spec_of demo_lates) True 0) = LATE
   \<and> hours_credit HALF_DAY < hours_credit LATE"
proof -
  let ?p = "spec_of demo_lates"
  have p: "local_minute demo_E 0 \<le> on_time_cutoff ?p" "on_time_cutoff ?p < local_minute demo_E (600 * minute_us)"
    "half_day_min_minutes ?p \<le> 300" "300 < full_day_hours_cutoff ?p" "300 < late_full_day_minutes ?p" "0 < monthly_late_allowance ?p"
    by (simp_all add: spec_of_def demo_lates_def demo_time_db_def default_att_policy_def on_time_cutoff_def
        full_day_hours_cutoff_def local_minute_def demo_env_def minute_us_def Let_def)
  show ?thesis using late_beats_on_time[OF p] by blast
qed

text \<open>A day without any session stays what it is however it is regularized: the approval of a missed punch
  spends a credit of the month and changes no row.\<close>

theorem regularized_absence_stays:
  assumes "day_acc_of E i d s = None"
  shows "day_row_spec E windows m i d (s\<lparr>regs := rs\<rparr>) = day_row_spec E windows m i d s"
proof -
  have "day_acc_of E i d (s\<lparr>regs := rs\<rparr>) = day_acc_of E i d s"
    by (simp add: day_acc_of_def day_sessions_def open_cutoff_def cong: if_cong)
  then show ?thesis
    using assms by (simp add: day_row_spec_def override_at_def away_at_def on_leave_at_def cong: option.case_cong)
qed

theorem regularized_absence_stays_witness:
  "map_option ar_status (day_row_spec demo_E (\<lambda>i. always_employed) 719194 2 719196 (demo_lates\<lparr>regs := [\<lparr>reg_id = 9, reg_employee = 2,
     reg_day = isoformat 719196, reg_reason = None, reg_state = REG_APPROVED, reviewed_by_id = Some 3, review_note = None\<rparr>]\<rparr>))
   = Some ABSENT"
proof -
  have none: "day_acc_of demo_E 2 719196 demo_lates = None" by (simp add: demo_month)
  have f: "day_overrides demo_lates = []" "ooo_entries demo_lates = []" "leaves demo_lates = []" "holiday_dates demo_lates = []"
    "work_week demo_lates = 5" "now demo_lates = utc_midnight 719197"
    by (simp_all add: demo_lates_def demo_time_db_def demo_days)
  have t: "719196 \<le> local_day demo_E (utc_midnight 719197)" by (simp add: local_day_def demo_env_def)
  have "day_row_spec demo_E (\<lambda>i. always_employed) 719194 2 719196 demo_lates = Some (blank_row 2 (isoformat 719196) ABSENT False 0)"
    using t by (simp add: day_row_spec_def none override_at_def away_at_def on_leave_at_def f covers_def always_employed_def
        is_working_day_def weekday_def)
  then show ?thesis unfolding regularized_absence_stays[OF none] by (simp add: blank_row_def)
qed

subsection \<open>The days payroll credits\<close>

definition row_credit :: "att_row \<Rightarrow> rat" where
  "row_credit r = (case ar_status r of FULL_DAY \<Rightarrow> 1 | LATE \<Rightarrow> 1 | HALF_DAY \<Rightarrow> 1 / 2 | OUT_OF_OFFICE \<Rightarrow> ar_credit r | _ \<Rightarrow> 0)"

definition half_units :: "rat \<Rightarrow> bool" where
  "half_units x \<longleftrightarrow> (\<exists>n :: int. x = of_int n / 2)"

lemma out_of_office_credit_cases: "out_of_office_credit p st = 1 \<or> out_of_office_credit p st = 1 / 2"
proof -
  have "fadd (1 / 2) 0 = 1 / 2" "fadd (1 / 2) 1 = 3 / 2" "fadd (1 / 2) (1 / 2) = 1"
    using fl_half_int[of 1] fl_half_int[of 3] fl_1 by (simp_all add: fadd_def)
  then show ?thesis by (cases st) (simp_all add: out_of_office_credit_def)
qed

text \<open>A row that is marked out of office carries a credit of one or a half.\<close>

definition credit_ok :: "att_row \<Rightarrow> bool" where
  "credit_ok r \<longleftrightarrow> (ar_status r = OUT_OF_OFFICE \<longrightarrow> ar_credit r = 1 \<or> ar_credit r = 1 / 2)"

lemma override_never_away [simp]: "override_to_status x \<noteq> OUT_OF_OFFICE"
  by (cases x) simp_all

lemma classified_never_away: "dv_status (classify_day E t w b p c n) \<noteq> OUT_OF_OFFICE"
  by (simp add: classify_day_def Let_def split: option.split)

lemma classified_verdict: "(x, v) \<in> set (fst (classified E s ap g lates)) \<Longrightarrow> \<exists>n. v = verdict_of E s ap n x"
  by (auto simp: classified_def classify_run_spec(2))

lemma credit_ok_worked: "dv_status v \<noteq> OUT_OF_OFFICE \<Longrightarrow> credit_ok (worked_row ov aw (((i, d), x), v))"
  using out_of_office_credit_cases by (auto simp: credit_ok_def worked_row_def Let_def split: option.splits)

lemma credit_ok_blank: "st \<noteq> OUT_OF_OFFICE \<or> c = 1 \<or> c = 1 / 2 \<Longrightarrow> credit_ok (blank_row i t st b c)"
  by (auto simp: credit_ok_def blank_row_def)

lemma day_rows_credit: "r \<in> set (day_rows E ids windows a b s) \<Longrightarrow> credit_ok r"
proof -
  have w: "r \<in> set (worked_part E ids a b s) \<Longrightarrow> credit_ok r"
    unfolding worked_part_def using classified_never_away
    by (auto intro!: credit_ok_worked dest!: classified_verdict simp: verdict_of_def)
  have aw: "r \<in> set (away_part E ids a b s) \<Longrightarrow> credit_ok r"
  proof -
    assume "r \<in> set (away_part E ids a b s)"
    then obtain i t p where "r = blank_row i t OUT_OF_OFFICE False (out_of_office_credit p ABSENT)"
      by (auto simp: away_part_def away_rows_def)
    then show "credit_ok r" using credit_ok_blank out_of_office_credit_cases by blast
  qed
  have ov: "r \<in> set (override_part E ids a b s) \<Longrightarrow> credit_ok r"
    unfolding override_part_def override_rows_def by (auto intro!: credit_ok_blank)
  have ab: "r \<in> set (absence_part E ids windows a b s) \<Longrightarrow> credit_ok r"
    unfolding absence_part_def absence_rows_def Let_def
    by (auto intro!: credit_ok_blank simp: map_filter_def split: if_splits)
  show "r \<in> set (day_rows E ids windows a b s) \<Longrightarrow> credit_ok r"
    using w aw ov ab by (auto simp: day_rows_split recorded_part_def)
qed

text \<open>The counters of the month.\<close>

lemma count_row_fields:
  "full_days (count_row r m) = full_days m + (if ar_status r = FULL_DAY then 1 else 0)"
  "late_days (count_row r m) = late_days m + (if ar_status r = LATE then 1 else 0)"
  "month_summary.half_days (count_row r m) = month_summary.half_days m + (if ar_status r = HALF_DAY then 1 else 0)"
  "out_of_office_days (count_row r m) = (if ar_status r = OUT_OF_OFFICE then fadd (out_of_office_days m) (ar_credit r) else out_of_office_days m)"
  by (cases "ar_status r"; simp add: count_row_def Let_def)+

definition counted :: "att_summary \<Rightarrow> rat" where
  "counted m = of_int (full_days m) + of_int (late_days m) + of_int (month_summary.half_days m) / 2 + out_of_office_days m"

definition small_summary :: "int \<Rightarrow> att_summary \<Rightarrow> bool" where
  "small_summary n m \<longleftrightarrow> 0 \<le> full_days m \<and> 0 \<le> late_days m \<and> 0 \<le> month_summary.half_days m \<and>
     (\<exists>k. out_of_office_days m = of_int k / 2 \<and> 0 \<le> k \<and> full_days m + late_days m + month_summary.half_days m + k \<le> 2 * n)"

lemma fadd_half:
  assumes "0 \<le> k" "0 \<le> j" "k + j \<le> 2 ^ 53"
  shows "fadd (of_int k / 2) (of_int j / 2) = of_int (k + j) / 2"
proof -
  have "of_int k / 2 + of_int j / 2 = (of_int (k + j) / 2 :: rat)" by (simp add: add_divide_distrib)
  then show ?thesis unfolding fadd_def by (simp only: fl_half_int) (rule fl_half_int, use assms in simp)
qed

lemma count_row_step:
  assumes "credit_ok r" "small_summary n m" "0 \<le> n" "n < 2 ^ 50"
  shows "small_summary (n + 1) (count_row r m)" "counted (count_row r m) = counted m + row_credit r"
proof -
  obtain k where k: "out_of_office_days m = of_int k / 2" "0 \<le> k" "full_days m + late_days m + month_summary.half_days m + k \<le> 2 * n"
    and pos: "0 \<le> full_days m" "0 \<le> late_days m" "0 \<le> month_summary.half_days m" using assms(2) by (auto simp: small_summary_def)
  have "ar_status r = OUT_OF_OFFICE \<Longrightarrow> \<exists>j. ar_credit r = of_int j / 2 \<and> 0 \<le> j \<and> j \<le> 2"
    using assms(1) unfolding credit_ok_def by (auto intro: exI[of _ 1] exI[of _ 2])
  then obtain j where j: "ar_status r = OUT_OF_OFFICE \<Longrightarrow> ar_credit r = of_int j / 2 \<and> 0 \<le> j \<and> j \<le> 2" by blast
  have add: "ar_status r = OUT_OF_OFFICE \<Longrightarrow> fadd (out_of_office_days m) (ar_credit r) = of_int (k + j) / 2"
  proof -
    assume st: "ar_status r = OUT_OF_OFFICE"
    show "fadd (out_of_office_days m) (ar_credit r) = of_int (k + j) / 2"
      unfolding conjunct1[OF j[OF st]] k(1) by (rule fadd_half) (use j[OF st] k pos assms(3,4) in simp_all)
  qed
  show "small_summary (n + 1) (count_row r m)"
    unfolding small_summary_def count_row_fields using pos k j add
    by (cases "ar_status r") (auto intro: exI[of _ k] exI[of _ "k + j"])
  show "counted (count_row r m) = counted m + row_credit r"
    unfolding counted_def count_row_fields row_credit_def using k(1) j add
    by (cases "ar_status r") (simp_all add: add_divide_distrib)
qed

lemma count_rows:
  assumes "\<forall>r \<in> set rws. credit_ok r" "small_summary n m" "0 \<le> n" "n + int (length rws) < 2 ^ 50"
  shows "small_summary (n + int (length rws)) (fold count_row rws m)"
    "counted (fold count_row rws m) = counted m + (\<Sum>r\<leftarrow>rws. row_credit r)"
proof -
  have "small_summary (n + int (length rws)) (fold count_row rws m) \<and>
    counted (fold count_row rws m) = counted m + (\<Sum>r\<leftarrow>rws. row_credit r)"
    using assms
  proof (induction rws arbitrary: n m)
    case (Cons r rws)
    have s: "small_summary (n + 1) (count_row r m)" "counted (count_row r m) = counted m + row_credit r"
      using count_row_step[of r n m] Cons.prems by simp_all
    show ?case using Cons.IH[OF _ s(1)] Cons.prems s(2) by (simp add: algebra_simps)
  qed simp
  then show "small_summary (n + int (length rws)) (fold count_row rws m)"
    "counted (fold count_row rws m) = counted m + (\<Sum>r\<leftarrow>rws. row_credit r)" by blast+
qed

lemma zero_counted: "small_summary 0 zero_summary" "counted zero_summary = 0"
  by (simp_all add: small_summary_def counted_def zero_summary_def exI[of _ 0])

lemma present_days_counted:
  assumes "small_summary n m" "n < 2 ^ 50"
  shows "present_days (Some (month_summary.truncate m)) = counted m"
proof -
  obtain k where k: "out_of_office_days m = of_int k / 2" "0 \<le> k" "full_days m + late_days m + month_summary.half_days m + k \<le> 2 * n"
    and pos: "0 \<le> full_days m" "0 \<le> late_days m" "0 \<le> month_summary.half_days m" using assms(1) by (auto simp: small_summary_def)
  let ?w = "full_days m + late_days m" and ?h = "month_summary.half_days m"
  have tf: "to_float ?w = of_int (2 * ?w) / 2" "to_float ?h = of_int ?h"
    using to_float_exact[of ?w] to_float_exact[of ?h] k pos assms(2) by simp_all
  have m: "fmul (1 / 2) (of_int ?h) = of_int ?h / 2"
    using fl_half_int[of ?h] k pos assms(2) by (simp add: fmul_def)
  have "fadd (of_int (2 * ?w) / 2) (of_int ?h / 2) = of_int (2 * ?w + ?h) / 2"
    by (rule fadd_half) (use k pos assms(2) in simp_all)
  moreover have "fadd (of_int (2 * ?w + ?h) / 2) (of_int k / 2) = of_int (2 * ?w + ?h + k) / 2"
    by (rule fadd_half) (use k pos assms(2) in simp_all)
  ultimately have "present_days (Some (month_summary.truncate m)) = of_int (2 * ?w + ?h + k) / 2"
    by (simp only: present_days_def option.case month_summary.truncate_def month_summary.simps k(1) tf m)
  then show ?thesis by (simp add: counted_def k(1) add_divide_distrib)
qed

lemma row_credit_bounds: "credit_ok r \<Longrightarrow> 0 \<le> row_credit r \<and> row_credit r \<le> 1"
  by (auto simp: row_credit_def credit_ok_def split: att_status.split)

lemma sum_credit_bounds:
  "\<forall>r \<in> set rws. credit_ok r \<Longrightarrow> 0 \<le> (\<Sum>r\<leftarrow>rws. row_credit r) \<and> (\<Sum>r\<leftarrow>rws. row_credit r) \<le> of_nat (length rws)"
proof (induction rws)
  case (Cons r rws)
  then show ?case using row_credit_bounds[of r] by auto
qed simp

definition override_days_real :: "'a time_db_scheme \<Rightarrow> bool" where
  "override_days_real s = (\<forall>x \<in> set (day_overrides s). \<exists>d. 1 \<le> d \<and> d \<le> max_date \<and> ov_day x = isoformat d)"

lemma row_days:
  assumes "fixed_zone E" "real_range a b" "distinct ids" "override_days_real s" "r \<in> set (day_rows E ids windows a b s)"
    "a \<le> b"
  shows "ar_day r \<in> isoformat ` {a..b}"
proof -
  have key: "in_range_key ids a b (row_key r) \<Longrightarrow> ar_day r \<in> isoformat ` {a..b}"
    by (auto simp: in_range_key_def row_key_def)
  have "r \<in> set (worked_part E ids a b s) \<or> r \<in> set (away_part E ids a b s) \<or> r \<in> set (override_part E ids a b s)
      \<or> r \<in> set (absence_part E ids windows a b s)"
    using assms(5) by (auto simp: day_rows_split recorded_part_def)
  then consider "r \<in> set (worked_part E ids a b s)" | "r \<in> set (away_part E ids a b s)" | "r \<in> set (override_part E ids a b s)"
    | "r \<in> set (absence_part E ids windows a b s)" by blast
  then show ?thesis
  proof cases
    case 1
    then show ?thesis using worked_part_keys(2)[OF assms(1,2)] key by blast
  next
    case 2
    then show ?thesis using away_part_keys(2)[OF assms(2)] key by blast
  next
    case 3
    then obtain i t st where x: "((i, t), st) \<in> set (overrides_for_range ids a b s)" "ar_day r = t"
      by (auto simp: override_part_def override_rows_def blank_row_def)
    then obtain d where d: "1 \<le> d" "d \<le> max_date" "t = isoformat d"
      using overrides_keys(3)[OF x(1)] assms(4) by (auto simp: override_days_real_def)
    have ab: "1 \<le> a" "b \<le> max_date" using assms(2) by (simp_all add: real_range_def)
    have "isoformat a \<le> isoformat d" "isoformat d \<le> isoformat b" using overrides_keys(2)[OF x(1)] d(3) by simp_all
    then have "a \<le> d" "d \<le> b" using d isoformat_le_iff[of a d] isoformat_le_iff[of d b] ab assms(6) by auto
    then show ?thesis using d(3) x(2) by simp
  next
    case 4
    then show ?thesis by (auto simp: absence_part_def absence_rows_def Let_def map_filter_def blank_row_def working_dates_in_def split: if_splits)
  qed
qed

lemma rows_per_person:
  assumes "fixed_zone E" "real_range a b" "distinct ids" "override_days_real s" "a \<le> b"
  shows "length (filter (\<lambda>r. ar_employee r = i) (day_rows E ids windows a b s)) \<le> nat (b - a + 1)"
proof -
  let ?m = "filter (\<lambda>r. ar_employee r = i) (day_rows E ids windows a b s)"
  have "distinct (map row_key ?m)" using day_rows_distinct[OF assms(1-3), of windows s] by (simp add: distinct_map_filter)
  moreover have "map row_key ?m = map (Pair i) (map ar_day ?m)" by (simp add: row_key_def)
  ultimately have "distinct (map ar_day ?m)" by (metis distinct_map)
  then have "length ?m = card (ar_day ` set ?m)" by (metis distinct_card length_map set_map)
  also have "\<dots> \<le> card (isoformat ` {a..b})"
    by (rule card_mono) (use row_days[OF assms(1-4) _ assms(5)] in auto)
  also have "\<dots> \<le> card {a..b}" by (rule card_image_le) simp
  finally show ?thesis by simp
qed

text \<open>C1 The days payroll reads off the month: the present days of a person's month are, exactly and in spite of
  the floating-point accumulation, the sum of the day credits of that person's register rows (one for a full or a
  late day, a half for a half day, the stated credit for a day out of office), and they lie between zero and the
  number of calendar days of the range, because the register has at most one row a day.\<close>

theorem month_presence_exact:
  fixes E :: env and s :: "'a time_db_scheme" and windows :: "uuid \<Rightarrow> employment"
  assumes "fixed_zone E" "real_range a b" "distinct ids" "override_days_real s" "a \<le> b"
  defines "rws \<equiv> day_rows E ids windows a b s"
  shows "present_days (Some (month_summary.truncate (summarize E rws i)))
      = (\<Sum>r\<leftarrow>filter (\<lambda>r. ar_employee r = i) rws. row_credit r)
    \<and> 0 \<le> present_days (Some (month_summary.truncate (summarize E rws i)))
    \<and> present_days (Some (month_summary.truncate (summarize E rws i))) \<le> of_int (b - a + 1)"
proof -
  let ?m = "filter (\<lambda>r. ar_employee r = i) rws"
  have len: "length ?m \<le> nat (b - a + 1)" unfolding rws_def by (rule rows_per_person[OF assms(1-5)])
  have small: "b - a + 1 < 2 ^ 50" using assms(2,5) by (simp add: real_range_def max_date_def)
  have ok: "\<forall>r \<in> set ?m. credit_ok r" using day_rows_credit by (auto simp: rws_def)
  have sum: "small_summary (int (length ?m)) (fold count_row ?m zero_summary)"
    "counted (fold count_row ?m zero_summary) = (\<Sum>r\<leftarrow>?m. row_credit r)"
    using count_rows[OF ok zero_counted(1)] zero_counted(2) len small by auto
  have "month_summary.truncate (summarize E rws i) = month_summary.truncate (fold count_row ?m zero_summary)"
    by (simp add: summarize_def Let_def month_summary.truncate_def)
  moreover have "present_days (Some (month_summary.truncate (fold count_row ?m zero_summary))) = (\<Sum>r\<leftarrow>?m. row_credit r)"
    using present_days_counted[OF sum(1)] sum(2) len small by auto
  moreover have "of_nat (length ?m) \<le> (of_int (b - a + 1) :: rat)"     using len assms(5) of_int_le_iff[where 'a = rat, of "int (length ?m)" "b - a + 1"] by simp
  ultimately show ?thesis using sum_credit_bounds[OF ok] by auto
qed

theorem month_presence_exact_witness:
  "0 \<le> present_days (Some (month_summary.truncate
      (summarize demo_E (day_rows demo_E [2] (\<lambda>_. always_employed) 719163 719193 demo_lates) 2)))
    \<and> present_days (Some (month_summary.truncate
      (summarize demo_E (day_rows demo_E [2] (\<lambda>_. always_employed) 719163 719193 demo_lates) 2))) \<le> 31"
proof -
  have "override_days_real demo_lates" by (simp add: override_days_real_def demo_lates_def demo_time_db_def)
  moreover have "real_range 719163 719193" "distinct [2 :: uuid]" by (simp_all add: real_range_def max_date_def)
  ultimately show ?thesis
    using month_presence_exact[OF demo_fixed_zone, of 719163 719193 "[2]" demo_lates "\<lambda>_. always_employed" 2] by simp
qed

end
