(* ===== verification/DayRequestProps.thy ===== *)
theory DayRequestProps
  imports DayRequestLaws AttendanceProps
begin

text \<open>
  What day requests promise, alone and together with the register: one claim per day, approved days are credited,
  approvals stay within the month's credits, and where the reviewers' rules leave gaps.
\<close>

lemma run_mono:
  assumes "run step other init s" "\<And>s s'. other s s' \<Longrightarrow> other' s s'" "\<And>s. init s \<Longrightarrow> init' s"
  shows "run step other' init' s"
  using assms(1)
proof (induction rule: run.induct)
  case (run_init s)
  then show ?case by (intro run.run_init assms(3))
next
  case (run_step s l s')
  show ?case by (rule run.run_step[OF run_step.IH run_step.hyps(2)])
next
  case (run_other s s')
  show ?case by (rule run.run_other[OF run_other.IH assms(2)[OF run_other.hyps(2)]])
qed

lemma fold_last: "fold (\<lambda>x acc. if P x then Some (v x) else acc) xs acc
    = (if filter P xs = [] then acc else Some (v (last (filter P xs))))"
  by (induction xs arbitrary: acc) auto

lemma filter_at_most_one:
  assumes "distinct xs" "\<And>x y. x \<in> set xs \<Longrightarrow> y \<in> set xs \<Longrightarrow> P x \<Longrightarrow> P y \<Longrightarrow> x = y"
  shows "length (filter P xs) \<le> 1"
proof -
  have "card (set (filter P xs)) \<le> Suc 0" unfolding card_le_Suc0_iff_eq[OF finite_set] using assms(2) by auto
  then show ?thesis using assms(1) distinct_card[of "filter P xs"] by simp
qed

lemma single_row:
  assumes "fixed_zone E" "real_range a b" "distinct ids" "i \<in> set ids" "a \<le> d" "d \<le> b"
    "day_row_spec E windows (month_start a) i d s = Some r"
  shows "filter (\<lambda>r. row_key r = (i, isoformat d)) (day_rows E ids windows a b s) = [r]"
proof -
  have "filter (\<lambda>r. row_key r = (i, isoformat d)) (day_rows E ids windows a b s)
      = (case day_row_spec E windows (month_start a) i d s of None \<Rightarrow> [] | Some r \<Rightarrow> [r])"
    by (rule filter_one[OF day_rows_distinct[OF assms(1-3)] day_rows_at[OF assms(1,2,4-6)]])
  then show ?thesis using assms(7) by simp
qed

subsection \<open>One claim per day\<close>

definition claims_day :: "uuid \<Rightarrow> date \<Rightarrow> out_of_office \<Rightarrow> bool" where
  "claims_day i d x \<longleftrightarrow> ooo_employee x = i \<and> ooo_state x = OOO_APPROVED \<and> covers_day d x"

lemma claims_unique:
  assumes "ooo_run E s" "x \<in> set (ooo_entries s)" "y \<in> set (ooo_entries s)" "claims_day i d x" "claims_day i d y"
  shows "x = y"
  using ooo_life.separate_run[OF assms(1-3)] assms(4,5)
  by (auto simp: claims_day_def ooo_apart_def ooo_live_def covers_day_def)

lemma away_at_claims:
  "away_at i d s = (if filter (claims_day i d) (ooo_entries s) = [] then None
     else Some (ooo_portion (last (filter (claims_day i d) (ooo_entries s)))))"
  unfolding away_at_def claims_day_def covers_day_def by (rule fold_last)

lemma away_at_claimed:
  assumes "ooo_run E s" "x \<in> set (ooo_entries s)" "claims_day i d x"
  shows "away_at i d s = Some (ooo_portion x)"
proof -
  have ne: "filter (claims_day i d) (ooo_entries s) \<noteq> []" using assms(2,3) by (auto simp: filter_empty_conv)
  then have "last (filter (claims_day i d) (ooo_entries s)) \<in> set (filter (claims_day i d) (ooo_entries s))" by (rule last_in_set)
  then have "last (filter (claims_day i d) (ooo_entries s)) = x" using claims_unique[OF assms(1)] assms(2,3) by auto
  then show ?thesis using ne by (simp add: away_at_claims)
qed

text \<open>C25 However requests, reviews and cancellations interleave, at most one approved entry of a person claims a
  day, so the portion that the register credits for it is the portion of that entry and does not depend on the order
  in which the rows are read.\<close>

theorem one_claim_per_day:
  assumes "ooo_run E s"
  shows "length (filter (claims_day i d) (ooo_entries s)) \<le> 1
    \<and> (\<forall>x \<in> set (ooo_entries s). claims_day i d x \<longrightarrow> away_at i d s = Some (ooo_portion x))"
proof -
  have "distinct (ooo_entries s)" using ooo_life.rows_ok_run[OF assms] by (simp add: rows_ok_def keys_unique_def distinct_map)
  then show ?thesis using filter_at_most_one[of "ooo_entries s" "claims_day i d"] claims_unique[OF assms] away_at_claimed[OF assms]
    by blast
qed

text \<open>Approving a day out of the office puts it on the register: whatever else is on file for it, unless HR
  overrode the day, the person's row for every covered date of the range reads out of office and is credited a full
  day for a full-day entry and at least a half for a half-day one.\<close>

theorem approved_day_credited:
  assumes run: "ooo_run E s" and ok: "ooo_review E c k True n s = Inr (x, s')" and day: "covers_day d x"
    and range: "fixed_zone E" "real_range a b" "distinct ids" "ooo_employee x \<in> set ids" "a \<le> d" "d \<le> b"
    and no_ov: "override_at (ooo_employee x) (isoformat d) s' = None"
  shows "\<exists>r. filter (\<lambda>r. row_key r = (ooo_employee x, isoformat d)) (day_rows E ids windows a b s') = [r]
    \<and> ar_status r = OUT_OF_OFFICE \<and> (if ooo_portion x = P_FULL_DAY then row_credit r = 1 else 1 / 2 \<le> row_credit r \<and> row_credit r \<le> 1)"
proof -
  obtain x0 where x: "find_ooo k s = Some x0" "ooo_edge c s x0 x" "ooo_state x = OOO_APPROVED" "quiet (put_ooo x s) s'"
    using ooo_review_effect[OF ok] by auto
  have "x0 \<in> set (ooo_entries s)" "ooo_id x0 = ooo_id x"
    using x(1) row_get_SomeD[of ooo_id k "ooo_entries s" x0] ooo_edge_fields[OF x(2)] by (simp_all add: find_ooo_def)
  then have mem: "x \<in> set (ooo_entries s')"  using quiet_requests(2)[OF x(4)] by (force simp: row_put_set)
  have run': "ooo_run E s'" using run.run_step[OF run ooo_step.intros(3)[OF ok]] .
  have away: "away_at (ooo_employee x) d s' = Some (ooo_portion x)"
    by (rule away_at_claimed[OF run' mem]) (use x(3) day in \<open>simp add: claims_day_def\<close>)
  have credit: "if p = P_FULL_DAY then out_of_office_credit p st = 1
      else 1 / 2 \<le> out_of_office_credit p st \<and> out_of_office_credit p st \<le> 1" for p st
    using out_of_office_credit_cases[of p st] by (auto simp: out_of_office_credit_def)
  obtain r st where r: "day_row_spec E windows (month_start a) (ooo_employee x) d s' = Some r" "ar_status r = OUT_OF_OFFICE"
      "ar_credit r = out_of_office_credit (ooo_portion x) st"
    using away no_ov by (cases "day_acc_of E (ooo_employee x) d s'") (auto simp: day_row_spec_def Let_def blank_row_def)
  then show ?thesis using single_row[OF range r(1)] r(2,3) credit[of "ooo_portion x" st] by (cases "ooo_portion x = P_FULL_DAY") (simp_all add: row_credit_def)
qed

subsection \<open>Credits of the month\<close>

lemma filter_put_count:
  assumes "keys_unique key rws" "row_get key (key r) rws = Some r" "key r' = key r"
  shows "length (filter P (row_put key r' rws)) + (if P r then 1 else 0) = length (filter P rws) + (if P r' then 1 else 0)"
proof -
  obtain us vs where s: "rws = us @ r # vs" using split_list row_get_SomeD[OF assms(2)] by metis
  have "key y \<noteq> key r" if "y \<in> set us \<union> set vs" for y
    using assms(1) that by (auto simp: s keys_unique_def) (metis image_eqI)+
  then have "row_put key r' us = us" "row_put key r' vs = vs" using assms(3) by (auto simp: row_put_def intro!: map_idI)
  then show ?thesis using assms(3) by (simp add: s row_put_def)
qed

lemma count_same: "count_approved_in_month i m (s :: 'a time_db_scheme) = count_approved_in_month i m s'" if "regs s = regs s'"
  using that by (simp add: count_approved_in_month_def)

lemma reg_step_count:
  assumes "reg_run E s" "reg_step E c s s'" "length m = 7"
  shows "spec_of s' = spec_of s \<and> (count_approved_in_month i m s' = count_approved_in_month i m s
     \<or> count_approved_in_month i m s' = count_approved_in_month i m s + 1
       \<and> count_approved_in_month i m s < monthly_regularizations (spec_of s))"
  using assms(2)
proof cases
  case (1 day reason r)
  then show ?thesis using reg_request_effect[OF 1] by (simp add: count_approved_in_month_def row_add_def fresh_reg_def)
next
  case (2 k approve n r')
  obtain r where r: "find_reg k s = Some r" "reg_edge c s r r'" "reg_state r' = (if approve then REG_APPROVED else REG_REJECTED)"
    "quiet (put_reg r' s) s'" using reg_review_effect[OF 2] by blast
  have get: "row_get reg_id (reg_id r) (regs s) = Some r" using r(1) row_get_SomeD[of reg_id k "regs s" r] by (simp add: find_reg_def)
  have u: "keys_unique reg_id (regs s)" using reg_life.rows_ok_run[OF assms(1)] by (simp add: rows_ok_def)
  let ?P = "\<lambda>r. reg_employee r = i \<and> reg_state r = REG_APPROVED \<and> starts_with m (reg_day r)"
  have f: "reg_id r' = reg_id r" "reg_employee r' = reg_employee r" "reg_day r' = reg_day r" "reg_state r = REG_PENDING"
    using reg_edge_fields[OF r(2)] by simp_all
  have "length (filter ?P (row_put reg_id r' (regs s))) = length (filter ?P (regs s)) + (if ?P r' then 1 else 0)"
    using filter_put_count[OF u get f(1), of ?P] f(4) by simp
  then have count: "count_approved_in_month i m s' = count_approved_in_month i m s + (if ?P r' then 1 else 0)"
    using quiet_requests(1)[OF r(4)] by (simp add: count_approved_in_month_def)
  have "count_approved_in_month i m s < monthly_regularizations (spec_of s)" if "?P r'"
  proof -
    have "take 7 (reg_day r) = m" using that f assms(3) by (simp add: starts_with_def)
    moreover have "count_approved_in_month (reg_employee r) (take 7 (reg_day r)) s < monthly_regularizations (spec_of s)"
      using r(2) that by cases simp_all
    ultimately show ?thesis using that f(2) by simp
  qed
  then show ?thesis using count quiet_requests(6)[OF r(4)] by simp
qed

text \<open>What the rest of the program may do meanwhile: anything but touch the requests or lower the policy's credits.\<close>

definition credits_kept :: "'a time_db_scheme \<Rightarrow> 'a time_db_scheme \<Rightarrow> bool" where
  "credits_kept s s' \<longleftrightarrow> others_keep regs next_id s s' \<and> monthly_regularizations (spec_of s) \<le> monthly_regularizations (spec_of s')"

definition credits_start :: "'a time_db_scheme \<Rightarrow> bool" where
  "credits_start s \<longleftrightarrow> no_rows regs s \<and> 0 \<le> monthly_regularizations (spec_of s)"

text \<open>C24 Approving attendance fixes never overspends: in every reachable state a person has at most the policy's
  number of approved fixes in any month, as long as the policy is not made stricter meanwhile.\<close>

theorem credits_never_overspent:
  assumes "run (reg_step E) credits_kept credits_start s" "length m = 7"
  shows "count_approved_in_month i m s \<le> monthly_regularizations (spec_of s)"
  using assms(1)
proof (induction rule: run.induct)
  case (run_init s)
  then show ?case by (simp add: credits_start_def no_rows_def count_approved_in_month_def)
next
  case (run_step s c s')
  have "reg_run E s" using run_mono[OF run_step.hyps(1)] by (simp add: credits_kept_def credits_start_def)
  then show ?case using reg_step_count[OF _ run_step.hyps(2) assms(2), of i] run_step.IH by auto
next
  case (run_other s s')
  then have "regs s' = regs s" by (simp add: credits_kept_def others_keep_def)
  then show ?case using run_other count_same[of s' s i m] by (simp add: credits_kept_def)
qed

subsection \<open>A concrete course of events\<close>

abbreviation demo_hr :: current_user where
  "demo_hr \<equiv> \<lparr>cu_id = 1, cu_role = HR, cu_manager = None, cu_payroll_manager = False\<rparr>"

definition demo_ooo :: ooo_create where
  "demo_ooo = \<lparr>oc_start = 719200, oc_end = 719200, oc_portion = P_FULL_DAY, oc_location = ''Site'', oc_reason = ''Visit''\<rparr>"

definition demo_quiet_db :: time_db where
  "demo_quiet_db = demo_time_db 0 []"

lemma demo_quiet_fields [simp]:
  "regs demo_quiet_db = []" "ooo_entries demo_quiet_db = []" "leaves demo_quiet_db = []" "next_id demo_quiet_db = 100"
  "day_overrides demo_quiet_db = []" "resignations demo_quiet_db = []" "monthly_regularizations (spec_of demo_quiet_db) = 2"
  "find_employee 2 demo_quiet_db = Some ((demo_employee 2 EXECUTIVE)\<lparr>manager_id := Some 3\<rparr>)"
  "find_employee 3 demo_quiet_db = Some (demo_employee 3 MANAGER)"
  by (simp_all add: demo_quiet_db_def demo_time_db_def spec_of_def default_att_policy_def find_employee_def row_get_def demo_employee_def)

lemma quiet_run_init: "run step others (no_rows f) demo_quiet_db" if "f demo_quiet_db = []"
  using that by (intro run.run_init) (simp add: no_rows_def)

lemma demo_hr_reads: "find_employee i s = Some e \<Longrightarrow> can_read demo_hr i s"
  by (simp add: can_read_def scope_clause_def)

lemma demo_ooo_events:
  obtains x s1 x' s2 where "ooo_request demo_E demo_staff demo_ooo demo_quiet_db = Inr (x, s1)" "ooo_run demo_E s1"
    "ooo_review demo_E demo_hr 100 True None s1 = Inr (x', s2)" "ooo_employee x' = 2" "covers_day 719200 x'"
    "day_overrides s2 = []"
proof -
  have "\<exists>x s1. ooo_request demo_E demo_staff demo_ooo demo_quiet_db = Inr (x, s1)"
    by (simp add: ooo_request_def ooo_overlapping_def assert_not_on_leave_def approved_paid_in_range_def Let_def case_prod_unfold)
  then obtain x s1 where 1: "ooo_request demo_E demo_staff demo_ooo demo_quiet_db = Inr (x, s1)" by blast
  have ok: "ooo_create_ok demo_ooo" by (simp add: ooo_create_ok_def demo_ooo_def max_span_days_def)
  note x = ooo_request_effect[OF ok 1]
  have q: "quiet (snd (create_ooo 2 719200 719200 P_FULL_DAY (py_strip ''Site'') (py_strip ''Visit'') demo_quiet_db)) s1"
    using 1 by (auto simp: ooo_request_def ebind_Inr_iff Let_def case_prod_unfold demo_ooo_def intro!: quiet_intros split: option.splits)
  have e: "find_employee 2 s1 = Some ((demo_employee 2 EXECUTIVE)\<lparr>manager_id := Some 3\<rparr>)" "day_overrides s1 = []"
    using quiet_employee[OF q, of 2] demo_quiet_fields(8) quiet_requests(4)[OF q]
    by (simp_all add: create_ooo_def Let_def find_employee_def)
  have run: "ooo_run demo_E s1"
  proof -
    have "ooo_step demo_E demo_staff demo_quiet_db s1" by (rule ooo_step.intros(1)[OF ok 1])
    moreover have "ooo_run demo_E demo_quiet_db" by (rule quiet_run_init) simp
    ultimately show ?thesis by (rule run.run_step[rotated])
  qed
  have f: "find_ooo 100 s1 = Some x" "ooo_employee x = 2" "ooo_state x = OOO_PENDING"
    using x by (simp_all add: find_ooo_def row_get_def row_add_def fresh_ooo_def)
  have "\<exists>x' s2. ooo_review demo_E demo_hr 100 True None s1 = Inr (x', s2)"
    using f demo_hr_reads[OF e(1)] by (simp add: ooo_review_def ooo_may_decide_def Let_def)
  then obtain x' s2 where 2: "ooo_review demo_E demo_hr 100 True None s1 = Inr (x', s2)" by blast
  obtain x0 where x0: "find_ooo 100 s1 = Some x0" "ooo_edge demo_hr s1 x0 x'" "quiet (put_ooo x' s1) s2"
    using ooo_review_effect[OF 2] by blast
  have "ooo_employee x' = 2" "covers_day 719200 x'"
    using ooo_edge_fields[OF x0(2)] x0(1) f x by (simp_all add: covers_day_def demo_ooo_def)
  moreover have "day_overrides s2 = []" using quiet_requests(4)[OF x0(3)] e(2) by (simp add: put_ooo_def)
  ultimately show ?thesis using that 1 2 run by blast
qed

theorem one_claim_per_day_witness:
  "\<exists>s. ooo_run demo_E (s :: time_db) \<and> ooo_entries s \<noteq> [] \<and> length (filter (claims_day 2 719200) (ooo_entries s)) \<le> 1"
proof -
  obtain x s1 where 1: "ooo_request demo_E demo_staff demo_ooo demo_quiet_db = Inr (x, s1)" "ooo_run demo_E s1"
    by (rule demo_ooo_events) blast
  have "ooo_create_ok demo_ooo" by (simp add: ooo_create_ok_def demo_ooo_def max_span_days_def)
  then show ?thesis using one_claim_per_day[OF 1(2), of 2 719200] ooo_request_effect[OF _ 1(1)] 1(2) by (auto simp: row_add_def)
qed

theorem approved_day_credited_witness:
  "\<exists>s' :: time_db. \<exists>r. filter (\<lambda>r. row_key r = (2, isoformat 719200)) (day_rows demo_E [2] (\<lambda>_. always_employed) 719194 719221 s') = [r]
    \<and> ar_status r = OUT_OF_OFFICE"
proof -
  obtain x' and s1 s2 :: time_db where 1: "ooo_run demo_E s1" "ooo_review demo_E demo_hr 100 True None s1 = Inr (x', s2)" "ooo_employee x' = 2"
      "covers_day 719200 x'" "day_overrides s2 = []"
    by (rule demo_ooo_events) blast
  have "real_range 719194 719221" "distinct [2 :: uuid]" by (simp_all add: real_range_def max_date_def)
  moreover have "override_at 2 (isoformat 719200) s2 = None" by (simp add: override_at_def 1(5))
  ultimately show ?thesis
    using approved_day_credited[OF 1(1,2,4) demo_fixed_zone, of 719194 719221 "[2]" "\<lambda>_. always_employed"] 1(3) by auto
qed

lemma demo_reg_events:
  obtains r s1 r' s2 where "reg_request demo_E demo_staff (isoformat 719200) None demo_quiet_db = Inr (r, s1)"
    "reg_review demo_E demo_hr 100 True None s1 = Inr (r', s2)"
proof -
  have "\<exists>r s1. reg_request demo_E demo_staff (isoformat 719200) None demo_quiet_db = Inr (r, s1)"
    by (simp add: reg_request_def get_active_for_day_def Let_def case_prod_unfold)
  then obtain r s1 where 1: "reg_request demo_E demo_staff (isoformat 719200) None demo_quiet_db = Inr (r, s1)" by blast
  note r = reg_request_effect[OF 1]
  have q: "quiet (snd (create_reg 2 (isoformat 719200) None demo_quiet_db)) s1"
    using 1 by (auto simp: reg_request_def get_active_for_day_def Let_def case_prod_unfold intro!: quiet_intros)
  have e: "find_employee 2 s1 = Some ((demo_employee 2 EXECUTIVE)\<lparr>manager_id := Some 3\<rparr>)"
    using quiet_employee[OF q, of 2] demo_quiet_fields(8) by (simp add: create_reg_def Let_def find_employee_def)
  have f: "find_reg 100 s1 = Some r" "reg_employee r = 2" "reg_state r = REG_PENDING" "regs s1 = [r]"
    "monthly_regularizations (spec_of s1) = 2"
    using r by (simp_all add: find_reg_def row_get_def row_add_def fresh_reg_def)
  have "\<exists>r' s2. reg_review demo_E demo_hr 100 True None s1 = Inr (r', s2)"
    using f demo_hr_reads[OF e] by (simp add: reg_review_def reg_may_decide_def Let_def count_approved_in_month_def)
  then show ?thesis using that 1 by blast
qed

theorem credits_never_overspent_witness:
  "\<exists>s. run (reg_step demo_E) credits_kept credits_start (s :: time_db) \<and> regs s \<noteq> []
    \<and> count_approved_in_month 2 ''1970-02'' s \<le> monthly_regularizations (spec_of s)"
proof -
  obtain r s1 r' s2 where 1: "reg_request demo_E demo_staff (isoformat 719200) None demo_quiet_db = Inr (r, s1)"
    "reg_review demo_E demo_hr 100 True None s1 = Inr (r', s2)" by (rule demo_reg_events)
  have "run (reg_step demo_E) credits_kept credits_start demo_quiet_db"
    by (intro run.run_init) (simp add: credits_start_def no_rows_def)
  then have run: "run (reg_step demo_E) credits_kept credits_start s2"
    using 1 reg_step.intros run.run_step by metis
  obtain r0 where "find_reg 100 s1 = Some r0" "quiet (put_reg r' s1) s2" using reg_review_effect[OF 1(2)] by blast
  then have "regs s2 \<noteq> []" using quiet_requests(1)[of "put_reg r' s1" s2] by (auto simp: find_reg_def row_get_def row_put_def)
  then show ?thesis using credits_never_overspent[OF run, of "''1970-02''" 2] run by auto
qed

end
