(* ===== verification/DayOverrides.thy ===== *)
theory DayOverrides
  imports DayRequestProps
begin

text \<open>
  What HR sets directly: the status of a person's day (\<open>app/services/attendance_override_service.py\<close>,
  \<open>app/repositories/attendance_override.py\<close>) and the attendance policy
  (\<open>app/services/attendance_policy_service.py\<close>, \<open>app/schemas/attendance_policy.py\<close>).
\<close>

subsection \<open>Overrides\<close>

record override_create =
  oc_employee :: uuid
  oc_day :: string
  oc_status :: override_status
  oc_note :: "string option"

definition find_override :: "uuid \<Rightarrow> 'a time_db_scheme \<Rightarrow> att_override option" where
  "find_override i s = row_get ov_id i (day_overrides s)"

definition upsert_override :: "override_create \<Rightarrow> uuid option \<Rightarrow> 'a time_db_scheme \<Rightarrow> att_override \<times> 'a time_db_scheme" where
  "upsert_override p by_id s =
    (case List.find (\<lambda>o'. ov_employee o' = oc_employee p \<and> ov_day o' = oc_day p) (day_overrides s) of
       Some x \<Rightarrow> (let x' = x\<lparr>ov_status := oc_status p, ov_note := oc_note p, ov_created_by := by_id\<rparr>
                  in (x', s\<lparr>day_overrides := row_put ov_id x' (day_overrides s)\<rparr>))
     | None \<Rightarrow> (let x = \<lparr>ov_id = next_id s, ov_employee = oc_employee p, ov_day = oc_day p, ov_status = oc_status p,
                       ov_note = oc_note p, ov_created_by = by_id\<rparr>
                in (x, s\<lparr>day_overrides := row_add x (day_overrides s), next_id := next_id s + 1\<rparr>)))"

definition list_overrides :: "string \<Rightarrow> 'a time_db_scheme \<Rightarrow> att_override list" where
  "list_overrides month s = by_text_desc ov_day (filter (\<lambda>x. starts_with (month @ ''-'') (ov_day x)) (day_overrides s))"

definition overrides_for_period :: "current_user \<Rightarrow> string \<Rightarrow> 'a time_db_scheme \<Rightarrow> att_override list res" where
  "overrides_for_period c month s =
    (if \<not> can_manage_payroll c then Inl AuthorizationError else Inr (list_overrides month s))"

definition set_override :: "env \<Rightarrow> current_user \<Rightarrow> override_create \<Rightarrow> 'a time_db_scheme \<Rightarrow> (att_override \<times> 'a time_db_scheme) res" where
  "set_override E c p s =
    (if \<not> can_manage_payroll c then Inl AuthorizationError
     else if (case find_employee (oc_employee p) s of None \<Rightarrow> True | Some e \<Rightarrow> \<not> is_active e)
     then Inl (ValidationError ''Unknown or inactive employee.'')
     else let (x, s1) = upsert_override p (Some (cu_id c)) s
          in Inr (x, time_audit E c ''attendance.override.set'' (''override:'' @ uuid_str (ov_id x) @ '':''
               @ uuid_str (oc_employee p) @ '':'' @ oc_day p @ '':'' @ override_value (oc_status p)) s1))"

definition delete_override :: "env \<Rightarrow> current_user \<Rightarrow> uuid \<Rightarrow> 'a time_db_scheme \<Rightarrow> 'a time_db_scheme res" where
  "delete_override E c i s =
    (if \<not> can_manage_payroll c then Inl AuthorizationError
     else if find_override i s = None then Inl NotFoundError
     else Inr (time_audit E c ''attendance.override.delete'' (''override:'' @ uuid_str i)
            (s\<lparr>day_overrides := row_del ov_id i (day_overrides s)\<rparr>)))"

subsection \<open>The policy\<close>

definition hhmm :: "int \<Rightarrow> string" where
  "hhmm m = pad2 (m div 60) @ '':'' @ pad2 (m mod 60)"

text \<open>\<open>None\<close> is the \<open>ValueError\<close> of a text that is not two integers with a colon between.\<close>

definition to_minutes :: "string \<Rightarrow> int option" where
  "to_minutes v = (case split_on CHR '':'' v of
     [h, m] \<Rightarrow> Option.bind (py_int h) (\<lambda>x. map_option (\<lambda>y. x * 60 + y) (py_int m))
   | _ \<Rightarrow> None)"

text \<open>The pattern of the times in a request, \<open>([01]\d|2[0-3]):[0-5]\d\<close>.\<close>

definition hhmm_pattern :: "string \<Rightarrow> bool" where
  "hhmm_pattern v = (case v of
     [a, b, x, d, e] \<Rightarrow> (a \<in> {CHR ''0'', CHR ''1''} \<and> is_digit b \<or> a = CHR ''2'' \<and> b \<in> {CHR ''0'', CHR ''1'', CHR ''2'', CHR ''3''})
        \<and> x = CHR '':'' \<and> d \<in> {CHR ''0'', CHR ''1'', CHR ''2'', CHR ''3'', CHR ''4'', CHR ''5''} \<and> is_digit e
   | _ \<Rightarrow> False)"

text \<open>The fields that a request sets; the time zone belongs to the environment.\<close>

record policy_update =
  pu_work_start :: "string option"
  pu_work_end :: "string option"
  pu_buffer :: "int option"
  pu_reg_window :: "int option"
  pu_full_day_min :: "int option"
  pu_half_day_min :: "int option"
  pu_full_day_grace :: "int option"
  pu_monthly_regs :: "int option"
  pu_working_days :: "int option"
  pu_require_location :: "bool option"

definition bounded_by :: "int \<Rightarrow> int \<Rightarrow> int option \<Rightarrow> bool" where
  "bounded_by a b x = (case x of None \<Rightarrow> True | Some v \<Rightarrow> a \<le> v \<and> v \<le> b)"

definition policy_update_ok :: "policy_update \<Rightarrow> bool" where
  "policy_update_ok u \<longleftrightarrow> (case pu_work_start u of None \<Rightarrow> True | Some t \<Rightarrow> hhmm_pattern t)
     \<and> (case pu_work_end u of None \<Rightarrow> True | Some t \<Rightarrow> hhmm_pattern t)
     \<and> bounded_by 0 240 (pu_buffer u) \<and> bounded_by 0 240 (pu_reg_window u) \<and> bounded_by 0 1440 (pu_full_day_min u)
     \<and> bounded_by 0 1440 (pu_half_day_min u) \<and> bounded_by 0 240 (pu_full_day_grace u) \<and> bounded_by 0 31 (pu_monthly_regs u)
     \<and> bounded_by 1 7 (pu_working_days u)"

definition set_if :: "'x option \<Rightarrow> 'x \<Rightarrow> 'x" where
  "set_if x old = (case x of None \<Rightarrow> old | Some v \<Rightarrow> v)"

definition can_manage_policy :: "current_user \<Rightarrow> bool" where
  "can_manage_policy c \<longleftrightarrow> cu_role c \<in> {ADMIN, HR}"

definition update_policy :: "env \<Rightarrow> current_user \<Rightarrow> policy_update \<Rightarrow> 'a time_db_scheme \<Rightarrow> (att_policy \<times> 'a time_db_scheme) res" where
  "update_policy E c u s =
    (if \<not> can_manage_policy c then Inl AuthorizationError
     else let p = att_policy_row s;
              p1 = (case pu_work_start u of None \<Rightarrow> p | Some t \<Rightarrow>
                      (case to_minutes t of None \<Rightarrow> p | Some m \<Rightarrow> p\<lparr>pol_work_start := m\<rparr>));
              p2 = (case pu_work_end u of None \<Rightarrow> p1 | Some t \<Rightarrow>
                      (case to_minutes t of None \<Rightarrow> p1 | Some m \<Rightarrow> p1\<lparr>pol_work_end := m\<rparr>));
              p' = p2\<lparr>pol_buffer := set_if (pu_buffer u) (pol_buffer p2),
                      pol_reg_window := set_if (pu_reg_window u) (pol_reg_window p2),
                      pol_full_day_min := set_if (pu_full_day_min u) (pol_full_day_min p2),
                      pol_half_day_min := set_if (pu_half_day_min u) (pol_half_day_min p2),
                      pol_full_day_grace := set_if (pu_full_day_grace u) (pol_full_day_grace p2),
                      pol_monthly_regs := set_if (pu_monthly_regs u) (pol_monthly_regs p2),
                      require_location_for_clock_in := set_if (pu_require_location u) (require_location_for_clock_in p2),
                      pol_updated_by := Some (cu_id c)\<rparr>
          in Inr (p', time_audit E c ''attendance_policy.update'' (''policy:'' @ uuid_str (pol_id p'))
               (s\<lparr>att_policy_row := p', work_week := set_if (pu_working_days u) (work_week s)\<rparr>)))"

record policy_read =
  pr_work_start :: string
  pr_work_end :: string
  pr_buffer :: int
  pr_reg_window :: int
  pr_full_day_min :: int
  pr_half_day_min :: int
  pr_full_day_grace :: int
  pr_monthly_regs :: int
  pr_working_days :: int
  pr_require_location :: bool

definition read_policy :: "'a time_db_scheme \<Rightarrow> policy_read" where
  "read_policy s = (let p = att_policy_row s in
     \<lparr>pr_work_start = hhmm (pol_work_start p), pr_work_end = hhmm (pol_work_end p), pr_buffer = pol_buffer p,
      pr_reg_window = pol_reg_window p, pr_full_day_min = pol_full_day_min p, pr_half_day_min = pol_half_day_min p,
      pr_full_day_grace = pol_full_day_grace p, pr_monthly_regs = pol_monthly_regs p, pr_working_days = work_week s,
      pr_require_location = require_location_for_clock_in p\<rparr>)"

end
