(* ===== verification/DayOverrideProps.thy ===== *)
theory DayOverrideProps
  imports DayOverrides
begin

text \<open>
  HR's corrections take effect exactly where they should: one override per person and day, the register follows it
  and forgets it, and the policy reads back what was set.
\<close>

subsection \<open>One override per day\<close>

definition ov_day_key :: "att_override \<Rightarrow> uuid \<times> string" where
  "ov_day_key x = (ov_employee x, ov_day x)"

definition overrides_ok :: "'a time_db_scheme \<Rightarrow> bool" where
  "overrides_ok s \<longleftrightarrow> rows_ok ov_id (\<lambda>x. True) (next_id s) (day_overrides s) \<and> distinct (map ov_day_key (day_overrides s))"

inductive override_step :: "env \<Rightarrow> current_user \<Rightarrow> 'a time_db_scheme \<Rightarrow> 'a time_db_scheme \<Rightarrow> bool" for E c s where
  "set_override E c p s = Inr (x, s') \<Longrightarrow> override_step E c s s'"
| "delete_override E c i s = Inr s' \<Longrightarrow> override_step E c s s'"

lemma set_override_effect:
  assumes "set_override E c p s = Inr (x, s')"
  shows "can_manage_payroll c \<and> x = fst (upsert_override p (Some (cu_id c)) s)
    \<and> quiet (snd (upsert_override p (Some (cu_id c)) s)) s'"
  using assms by (auto simp: set_override_def Let_def case_prod_unfold intro!: quiet_intros split: if_splits)

lemma delete_override_effect:
  assumes "delete_override E c i s = Inr s'"
  shows "can_manage_payroll c \<and> quiet (s\<lparr>day_overrides := row_del ov_id i (day_overrides s)\<rparr>) s'"
  using assms by (auto simp: delete_override_def intro!: quiet_intros split: if_splits)

lemma map_row_put: "key r' = key r \<Longrightarrow> f r' = f r \<Longrightarrow> keys_unique key rws \<Longrightarrow> r \<in> set rws \<Longrightarrow> map f (row_put key r' rws) = map f rws"
  by (auto simp: row_put_def keys_unique_def distinct_map dest: inj_onD)

text \<open>Setting a day: its row is rewritten, or a row is added.\<close>

lemma upsert_cases:
  assumes "overrides_ok s" "(x, s') = upsert_override p by_id s"
  shows "overrides_ok s' \<and> x \<in> set (day_overrides s') \<and> ov_day_key x = (oc_employee p, oc_day p) \<and> ov_status x = oc_status p
    \<and> (\<forall>y \<in> set (day_overrides s). ov_day_key y \<noteq> ov_day_key x \<longrightarrow> y \<in> set (day_overrides s'))
    \<and> (\<forall>y \<in> set (day_overrides s'). y = x \<or> y \<in> set (day_overrides s))"
proof (cases "List.find (\<lambda>o'. ov_employee o' = oc_employee p \<and> ov_day o' = oc_day p) (day_overrides s)")
  case None
  let ?x = "\<lparr>ov_id = next_id s, ov_employee = oc_employee p, ov_day = oc_day p, ov_status = oc_status p,
      ov_note = oc_note p, ov_created_by = by_id\<rparr>"
  have e: "x = ?x" "s' = s\<lparr>day_overrides := row_add ?x (day_overrides s), next_id := next_id s + 1\<rparr>"
    using assms(2) None by (simp_all add: upsert_override_def Let_def)
  have "rows_ok ov_id (\<lambda>x. True) (next_id s + 1) (row_add ?x (day_overrides s))"
    by (rule rows_ok_add[of ov_id _ "next_id s"]) (use assms(1) in \<open>simp_all add: overrides_ok_def\<close>)
  moreover have "ov_day_key ?x \<notin> ov_day_key ` set (day_overrides s)"
    using None by (auto simp: find_None_iff ov_day_key_def)
  ultimately show ?thesis using assms(1) by (auto simp: e overrides_ok_def ov_day_key_def row_add_def)
next
  case (Some y)
  then have y: "y \<in> set (day_overrides s)" "ov_day_key y = (oc_employee p, oc_day p)"
    using find_Some_set[OF Some] by (auto simp: ov_day_key_def)
  let ?x = "y\<lparr>ov_status := oc_status p, ov_note := oc_note p, ov_created_by := by_id\<rparr>"
  have e: "x = ?x" "s' = s\<lparr>day_overrides := row_put ov_id ?x (day_overrides s)\<rparr>"
    using assms(2) Some by (simp_all add: upsert_override_def Let_def)
  have u: "keys_unique ov_id (day_overrides s)" using assms(1) by (simp add: overrides_ok_def rows_ok_def)
  have get: "row_get ov_id (ov_id y) (day_overrides s) = Some y" by (rule rows.content_get[OF u y(1)])
  have "map ov_day_key (row_put ov_id ?x (day_overrides s)) = map ov_day_key (day_overrides s)"
    by (rule map_row_put[OF _ _ u y(1)]) (simp_all add: ov_day_key_def)
  moreover have "rows_ok ov_id (\<lambda>x. True) (next_id s) (row_put ov_id ?x (day_overrides s))"
    using rows_ok_put[of ov_id _ "next_id s" "day_overrides s" ?x y] assms(1) get by (simp add: overrides_ok_def)
  moreover have "?x \<in> set (row_put ov_id ?x (day_overrides s))" using y(1) by (force simp: row_put_set)
  moreover have "z \<in> set (row_put ov_id ?x (day_overrides s))" if "z \<in> set (day_overrides s)" "ov_day_key z \<noteq> ov_day_key y" for z
  proof -
    have "ov_id z \<noteq> ov_id y" using that y(1) u by (auto simp: keys_unique_def distinct_map dest: inj_onD)
    then show ?thesis using that(1) by (force simp: row_put_set)
  qed
  moreover have "ov_day_key ?x = ov_day_key y" by (simp add: ov_day_key_def)
  ultimately show ?thesis using assms(1) y(2) rows.put_content_cases[of _ ov_id ?x "day_overrides s"]
    by (simp add: e overrides_ok_def) blast
qed

lemma overrides_ok_quiet: "quiet s s' \<Longrightarrow> overrides_ok s \<Longrightarrow> overrides_ok s'"
  using quiet_requests(4,7)[of s s'] rows_ok_grow by (auto simp: overrides_ok_def)

lemma overrides_ok_step:
  assumes "overrides_ok s" "override_step E c s s'"
  shows "overrides_ok s'"
  using assms(2)
proof cases
  case (1 p x)
  then show ?thesis using set_override_effect[OF 1] upsert_cases[OF assms(1) prod.collapse] overrides_ok_quiet by blast
next
  case (2 i)
  have "overrides_ok (s\<lparr>day_overrides := row_del ov_id i (day_overrides s)\<rparr>)"
    using assms(1) by (auto simp: overrides_ok_def rows_ok_def keys_unique_def row_del_def distinct_map_filter)
  then show ?thesis using delete_override_effect[OF 2] overrides_ok_quiet by blast
qed

lemma override_at_mem:
  assumes "overrides_ok s" "x \<in> set (day_overrides s)"
  shows "override_at (ov_employee x) (ov_day x) s = Some (ov_status x)"
proof -
  let ?P = "\<lambda>r. ov_employee r = ov_employee x \<and> ov_day r = ov_day x"
  have ne: "filter ?P (day_overrides s) \<noteq> []" using assms(2) by (auto simp: filter_empty_conv)
  have "y = x" if "y \<in> set (filter ?P (day_overrides s))" for y
  proof (rule inj_onD[of ov_day_key "set (day_overrides s)"])
    show "inj_on ov_day_key (set (day_overrides s))" using assms(1) by (simp add: overrides_ok_def distinct_map)
  qed (use that assms(2) in \<open>simp_all add: ov_day_key_def\<close>)
  then have "last (filter ?P (day_overrides s)) = x" using last_in_set[OF ne] by blast
  then show ?thesis using ne unfolding override_at_def fold_last by simp
qed

lemma override_at_none: "override_at i t s = None \<longleftrightarrow> (\<forall>x \<in> set (day_overrides s). ov_day_key x \<noteq> (i, t))"
  unfolding override_at_def fold_last by (auto simp: filter_empty_conv ov_day_key_def)

subsection \<open>The register follows\<close>

text \<open>What a row of the register depends on, besides the override of its own day.\<close>

definition same_records :: "'a time_db_scheme \<Rightarrow> 'a time_db_scheme \<Rightarrow> bool" where
  "same_records s s' \<longleftrightarrow> now s' = now s \<and> work_sessions s' = work_sessions s \<and> regs s' = regs s
     \<and> ooo_entries s' = ooo_entries s \<and> leaves s' = leaves s \<and> att_policy_row s' = att_policy_row s
     \<and> holiday_dates s' = holiday_dates s \<and> work_week s' = work_week s"

lemma day_row_spec_frame:
  assumes "same_records s s'" "override_at i (isoformat d) s' = override_at i (isoformat d) s"
  shows "day_row_spec E windows m i d s' = day_row_spec E windows m i d s"
proof -
  note f = assms(1)[unfolded same_records_def]
  have acc: "day_acc_of E j e s' = day_acc_of E j e s" for j e
  proof -
    have "day_sessions E j e src s' = day_sessions E j e src s" for src using f by (simp only: day_sessions_def)
    moreover have "open_cutoff E e s' = open_cutoff E e s" using f by (simp only: open_cutoff_def)
    ultimately show ?thesis by (simp only: day_acc_of_def)
  qed
  have spec: "spec_of s' = spec_of s" using f by (simp add: spec_of_def)
  have late: "late_acc E s' = late_acc E s" by (rule ext) (simp add: late_acc_def spec)
  have "late_days_in E i m (d - 1) s' = late_days_in E i m (d - 1) s"
    unfolding late_days_in_def acc late ..
  moreover have "window_closed E d s' = window_closed E d s" using f by (simp add: window_closed_def spec)
  moreover have "regularized_at i d s' = regularized_at i d s" "away_at i d s' = away_at i d s"
    "on_leave_at E i d s' = on_leave_at E i d s"
    using f by (simp_all only: regularized_at_def away_at_def on_leave_at_def)
  ultimately show ?thesis using f assms(2) by (simp only: day_row_spec_def acc spec)
qed

lemma rows_of_key:
  assumes "fixed_zone E" "real_range a b" "distinct ids" "i \<in> set ids" "a \<le> d" "d \<le> b"
  shows "filter (\<lambda>r. row_key r = (i, isoformat d)) (day_rows E ids windows a b s)
    = (case day_row_spec E windows (month_start a) i d s of None \<Rightarrow> [] | Some r \<Rightarrow> [r])"
  by (rule filter_one[OF day_rows_distinct[OF assms(1-3)] day_rows_at[OF assms(1,2,4-6)]])

lemma set_override_records:
  assumes "set_override E c p s = Inr (x, s')"
  shows "same_records s s'"
proof -
  have "same_records s (snd (upsert_override p (Some (cu_id c)) s))"
    by (simp add: same_records_def upsert_override_def Let_def split: option.split)
  moreover have q: "quiet (snd (upsert_override p (Some (cu_id c)) s)) s'" using set_override_effect[OF assms] by blast
  ultimately show ?thesis
    using quiet_time[OF q] quiet_core[OF q] leave_fields_more[of s' "snd (upsert_override p (Some (cu_id c)) s)"]
    by (auto simp: same_records_def)
qed

lemma set_override_at:
  assumes "overrides_ok s" "set_override E c p s = Inr (x, s')"
  shows "override_at (oc_employee p) (oc_day p) s' = Some (oc_status p)"
    and "(i, t) \<noteq> (oc_employee p, oc_day p) \<Longrightarrow> override_at i t s' = override_at i t s"
proof -
  let ?t = "snd (upsert_override p (Some (cu_id c)) s)"
  have x: "x = fst (upsert_override p (Some (cu_id c)) s)" and q: "quiet ?t s'" using set_override_effect[OF assms(2)] by blast+
  have same: "override_at j u s' = override_at j u ?t" for j u using quiet_requests(4)[OF q] by (simp add: override_at_def)
  note up = upsert_cases[OF assms(1), of x ?t p "Some (cu_id c)", unfolded x, OF prod.collapse]
  show "override_at (oc_employee p) (oc_day p) s' = Some (oc_status p)"
    using override_at_mem[of ?t x] up by (simp add: same x ov_day_key_def)
  assume ne: "(i, t) \<noteq> (oc_employee p, oc_day p)"
  show "override_at i t s' = override_at i t s"
  proof (cases "override_at i t s")
    case None
    then have "override_at i t ?t = None" using up ne unfolding override_at_none by metis
    then show ?thesis using None same by simp
  next
    case (Some st)
    then obtain y where y: "y \<in> set (day_overrides s)" "ov_day_key y = (i, t)"
      using override_at_none[of i t s] by auto
    then have "y \<in> set (day_overrides ?t)" using up ne by simp
    then show ?thesis using override_at_mem[of ?t y] override_at_mem[OF assms(1) y(1)] up y(2) same
      by (simp add: ov_day_key_def)
  qed
qed

text \<open>C23 HR's correction of a day decides that day and nothing else: after it the person's row for the date carries
  the status set, marked as corrected and closed to further fixes, and the row of every other person or date is the
  same as before.\<close>

theorem override_decides_day:
  assumes "overrides_ok s" "set_override E c p s = Inr (x, s')" "oc_day p = isoformat d"
    "fixed_zone E" "real_range a b" "distinct ids" "i \<in> set ids" "a \<le> d" "d \<le> b" "a \<le> e" "e \<le> b"
  shows "(oc_employee p = i \<longrightarrow> (\<exists>r. filter (\<lambda>r. row_key r = (i, isoformat d)) (day_rows E ids windows a b s') = [r]
      \<and> ar_status r = override_to_status (oc_status p) \<and> ar_regularized r \<and> \<not> ar_regularizable r))
    \<and> (oc_employee p \<noteq> i \<or> e \<noteq> d \<longrightarrow> filter (\<lambda>r. row_key r = (i, isoformat e)) (day_rows E ids windows a b s')
      = filter (\<lambda>r. row_key r = (i, isoformat e)) (day_rows E ids windows a b s))"
proof (intro conjI impI)
  assume i: "oc_employee p = i"
  then have "override_at i (isoformat d) s' = Some (oc_status p)" using set_override_at(1)[OF assms(1,2)] assms(3) by simp
  then obtain r where "day_row_spec E windows (month_start a) i d s' = Some r"
      "ar_status r = override_to_status (oc_status p) \<and> ar_regularized r \<and> \<not> ar_regularizable r"
    by (cases "day_acc_of E i d s'") (auto simp: day_row_spec_def Let_def blank_row_def)
  then show "\<exists>r. filter (\<lambda>r. row_key r = (i, isoformat d)) (day_rows E ids windows a b s') = [r]
      \<and> ar_status r = override_to_status (oc_status p) \<and> ar_regularized r \<and> \<not> ar_regularizable r"
    using single_row[OF assms(4-9)] by blast
next
  assume other: "oc_employee p \<noteq> i \<or> e \<noteq> d"
  have "isoformat e = isoformat d \<longleftrightarrow> e = d"
    by (rule isoformat_inj) (use assms(5,8-11) in \<open>simp_all add: real_range_def\<close>)
  then have "(i, isoformat e) \<noteq> (oc_employee p, oc_day p)" using other assms(3) by auto
  then have "day_row_spec E windows (month_start a) i e s' = day_row_spec E windows (month_start a) i e s"
    by (intro day_row_spec_frame set_override_records[OF assms(2)] set_override_at(2)[OF assms(1,2)])
  then show "filter (\<lambda>r. row_key r = (i, isoformat e)) (day_rows E ids windows a b s')
      = filter (\<lambda>r. row_key r = (i, isoformat e)) (day_rows E ids windows a b s)"
    by (simp only: rows_of_key[OF assms(4-7,10,11)])
qed


lemma demo_override_set:
  obtains x s' where "set_override demo_E demo_hr \<lparr>oc_employee = 2, oc_day = isoformat 719200, oc_status = OV_HALF_DAY, oc_note = None\<rparr>
    demo_quiet_db = Inr (x, s')"
proof -
  have "\<exists>x s'. set_override demo_E demo_hr \<lparr>oc_employee = 2, oc_day = isoformat 719200, oc_status = OV_HALF_DAY, oc_note = None\<rparr>
    demo_quiet_db = Inr (x, s')"
    by (simp add: set_override_def can_manage_payroll_def demo_employee_def Let_def case_prod_unfold)
  then show ?thesis using that by blast
qed

lemma demo_overrides_ok: "overrides_ok demo_quiet_db"
  by (simp add: overrides_ok_def rows_ok_def keys_unique_def)

theorem override_decides_day_witness:
  "\<exists>s' :: time_db. \<exists>r. filter (\<lambda>r. row_key r = (2, isoformat 719200)) (day_rows demo_E [2] (\<lambda>_. always_employed) 719194 719221 s') = [r]
    \<and> ar_status r = HALF_DAY"
proof -
  obtain x s' where 1: "set_override demo_E demo_hr \<lparr>oc_employee = 2, oc_day = isoformat 719200, oc_status = OV_HALF_DAY, oc_note = None\<rparr>
    demo_quiet_db = Inr (x, s')" by (rule demo_override_set)
  have "real_range 719194 719221" "distinct [2 :: uuid]" "2 \<in> set [2 :: uuid]" by (simp_all add: real_range_def max_date_def)
  from override_decides_day[OF demo_overrides_ok 1 _ demo_fixed_zone this, of 719200 719201 "\<lambda>_. always_employed"]
  show ?thesis by auto
qed

text \<open>Taking a correction back restores the register: setting the status of a day that had no override and
  deleting that override leaves every row of every person and date as it was.\<close>

theorem override_undone:
  assumes "overrides_ok s" "override_at (oc_employee p) (oc_day p) s = None"
    "set_override E c p s = Inr (x, s1)" "delete_override E c' (ov_id x) s1 = Inr s2"
    "fixed_zone E" "real_range a b" "distinct ids" "i \<in> set ids" "a \<le> d" "d \<le> b"
  shows "filter (\<lambda>r. row_key r = (i, isoformat d)) (day_rows E ids windows a b s2)
    = filter (\<lambda>r. row_key r = (i, isoformat d)) (day_rows E ids windows a b s)"
proof -
  have none: "List.find (\<lambda>o'. ov_employee o' = oc_employee p \<and> ov_day o' = oc_day p) (day_overrides s) = None"
    using assms(2) by (auto simp: override_at_none find_None_iff ov_day_key_def)
  have q: "quiet (snd (upsert_override p (Some (cu_id c)) s)) s1" and x: "x = fst (upsert_override p (Some (cu_id c)) s)"
    using set_override_effect[OF assms(3)] by blast+
  have q2: "quiet (s1\<lparr>day_overrides := row_del ov_id (ov_id x) (day_overrides s1)\<rparr>) s2"
    using delete_override_effect[OF assms(4)] by blast
  have "day_overrides s1 = row_add x (day_overrides s)" "ov_id x = next_id s"
    using quiet_requests(4)[OF q] none by (simp_all add: x upsert_override_def Let_def)
  then have "day_overrides s2 = day_overrides s"
    using quiet_requests(4)[OF q2] assms(1)
    by (auto simp: row_del_def row_add_def overrides_ok_def rows_ok_def filter_id_conv)
  then have ov: "override_at i (isoformat d) s2 = override_at i (isoformat d) s" by (simp only: override_at_def)
  have "same_records s s1" by (rule set_override_records[OF assms(3)])
  moreover have "same_records s1 s2"
    using quiet_time[OF q2] quiet_core[OF q2] leave_fields_more[of s2 "s1\<lparr>day_overrides := row_del ov_id (ov_id x) (day_overrides s1)\<rparr>"]
    by (simp add: same_records_def)
  ultimately have "same_records s s2" by (simp add: same_records_def)
  from day_row_spec_frame[OF this ov] show ?thesis unfolding rows_of_key[OF assms(5-10)] by (rule arg_cong)
qed

theorem override_undone_witness:
  "\<exists>s2 :: time_db. \<exists>x s1. set_override demo_E demo_hr \<lparr>oc_employee = 2, oc_day = isoformat 719200, oc_status = OV_HALF_DAY, oc_note = None\<rparr>
    demo_quiet_db = Inr (x, s1) \<and> filter (\<lambda>r. row_key r = (2, isoformat 719200)) (day_rows demo_E [2] (\<lambda>_. always_employed) 719194 719221 s2)
    = filter (\<lambda>r. row_key r = (2, isoformat 719200)) (day_rows demo_E [2] (\<lambda>_. always_employed) 719194 719221 demo_quiet_db)"
proof -
  let ?p = "\<lparr>oc_employee = 2, oc_day = isoformat 719200, oc_status = OV_HALF_DAY, oc_note = None\<rparr>"
  obtain x s1 where 1: "set_override demo_E demo_hr ?p demo_quiet_db = Inr (x, s1)" by (rule demo_override_set)
  have q: "quiet (snd (upsert_override ?p (Some (cu_id demo_hr)) demo_quiet_db)) s1" and
    x: "x = fst (upsert_override ?p (Some (cu_id demo_hr)) demo_quiet_db)"
    using set_override_effect[OF 1] by blast+
  have "find_override (ov_id x) s1 = Some x"
    using quiet_requests(4)[OF q] by (simp add: x find_override_def upsert_override_def Let_def row_get_def row_add_def)
  then have "\<exists>s2. delete_override demo_E demo_hr (ov_id x) s1 = Inr s2"
    by (simp add: delete_override_def can_manage_payroll_def)
  then obtain s2 where 2: "delete_override demo_E demo_hr (ov_id x) s1 = Inr s2" by blast
  have r: "real_range 719194 719221" "distinct [2 :: uuid]" "2 \<in> set [2 :: uuid]" by (simp_all add: real_range_def max_date_def)
  have "override_at (oc_employee ?p) (oc_day ?p) demo_quiet_db = None" by (simp add: override_at_none)
  from override_undone[OF demo_overrides_ok this 1 2 demo_fixed_zone r, of 719200 "\<lambda>_. always_employed"] 1
  show ?thesis by auto
qed


subsection \<open>The policy reads back\<close>

lemma two_digits:
  assumes "x < 10" "y < 10"
  shows "pad2 (int (10 * x + y)) = [digit x, digit y]" "py_int [digit x, digit y] = Some (int (10 * x + y))"
proof -
  show "pad2 (int (10 * x + y)) = [digit x, digit y]"
  proof (cases "x = 0")
    case True
    then show ?thesis using assms by (simp add: pad2_def pad_left_def int_str_def nat_str.simps CHR_0_digit)
  next
    case False
    then have "\<not> 10 * x + y < 10" "(10 * x + y) div 10 = x" "(10 * x + y) mod 10 = y" using assms by auto
    moreover have "nat (int (10 * x + y)) = 10 * x + y" by simp
    ultimately show ?thesis using assms by (simp only: pad2_def int_str_def nat_str.simps[of "10 * x + y"] nat_str.simps[of x])
        (simp add: pad_left_def)
  qed
  show "py_int [digit x, digit y] = Some (int (10 * x + y))"
    using assms by (simp add: py_int_digits read_nat_def)
qed

lemma digitE:
  assumes "is_digit c"
  obtains n where "n < 10" "c = digit n"
proof
  have "48 \<le> (of_char c :: nat)" "(of_char c :: nat) \<le> 57" using assms by (simp_all add: is_digit_def)
  then show "digit_val c < 10" "c = digit (digit_val c)" unfolding digit_val_def digit_def by (linarith, simp)
qed

lemma minutes_split: "0 \<le> y \<Longrightarrow> y < 60 \<Longrightarrow> (x * 60 + y) div 60 = x \<and> (x * 60 + y) mod 60 = (y :: int)"
  by simp

lemma digits_upto: "CHR ''0'' = digit 0" "CHR ''1'' = digit 1" "CHR ''2'' = digit 2" "CHR ''3'' = digit 3" "CHR ''4'' = digit 4" "CHR ''5'' = digit 5"
  by code_simp+

lemma pattern_digits:
  assumes "hhmm_pattern v"
  obtains x y z w where "v = [digit x, digit y, CHR '':'', digit z, digit w]" "x < 10" "y < 10" "z < 6" "w < 10" "10 * x + y < 24"
proof -
  obtain a b x' d e where v: "v = [a, b, x', d, e]" using assms
    by (auto simp: hhmm_pattern_def split: list.splits)
  then have p: "(a \<in> {CHR ''0'', CHR ''1''} \<and> is_digit b \<or> a = CHR ''2'' \<and> b \<in> {CHR ''0'', CHR ''1'', CHR ''2'', CHR ''3''})"
    "x' = CHR '':''" "d \<in> {CHR ''0'', CHR ''1'', CHR ''2'', CHR ''3'', CHR ''4'', CHR ''5''}" "is_digit e"
    using assms by (simp_all add: hhmm_pattern_def)
  obtain w where w: "w < 10" "e = digit w" using p(4) by (rule digitE)
  have "\<exists>z. z < 6 \<and> d = digit z" using p(3) unfolding digits_upto
    by (elim insertE emptyE) (rule exI, rule conjI[rotated], assumption, simp)+
  then obtain z where z: "z < 6" "d = digit z" by blast
  have "\<exists>x y. a = digit x \<and> b = digit y \<and> x < 10 \<and> y < 10 \<and> 10 * x + y < 24"
    using p(1)
  proof (elim disjE conjE)
    assume a: "a \<in> {CHR ''0'', CHR ''1''}" "is_digit b"
    obtain y where "y < 10" "b = digit y" using a(2) by (rule digitE)
    then show ?thesis using a(1) unfolding digits_upto
      by (elim insertE emptyE) (rule exI[of _ 0], rule exI[of _ y], simp, rule exI[of _ 1], rule exI[of _ y], simp)
  next
    assume a: "a = CHR ''2''" "b \<in> {CHR ''0'', CHR ''1'', CHR ''2'', CHR ''3''}"
    then have "\<exists>y. y < 4 \<and> b = digit y" unfolding digits_upto
      by (elim insertE emptyE) (rule exI, rule conjI[rotated], assumption, simp)+
    then obtain y where "y < 4" "b = digit y" by blast
    then show ?thesis using a(1) unfolding digits_upto by (intro exI[of _ 2] exI[of _ y]) simp
  qed
  then show ?thesis using that v p(2) w z by metis
qed

lemma hhmm_to_minutes:
  assumes "hhmm_pattern v"
  shows "\<exists>m. to_minutes v = Some m \<and> 0 \<le> m \<and> m < 1440 \<and> hhmm m = v"
proof -
  obtain x y z w where v: "v = [digit x, digit y, CHR '':'', digit z, digit w]"
    and b: "x < 10" "y < 10" "z < 6" "w < 10" "10 * x + y < 24" by (rule pattern_digits[OF assms])
  have z: "z < 10" using b(3) by simp
  have nc: "digit k \<noteq> CHR '':''" if "k < 10" for k
  proof
    assume "digit k = CHR '':''"
    then have "(of_char (digit k) :: nat) = of_char CHR '':''" by simp
    then show False using that by (simp add: of_char_digit)
  qed
  have "split_on CHR '':'' ([digit x, digit y] @ CHR '':'' # [digit z, digit w]) = [[digit x, digit y], [digit z, digit w]]"
    using nc[OF b(1)] nc[OF b(2)] nc[OF z] nc[OF b(4)] by (simp add: split_on_join split_on_none)
  then have sp: "split_on CHR '':'' v = [[digit x, digit y], [digit z, digit w]]" by (simp add: v)
  let ?m = "int (10 * x + y) * 60 + int (10 * z + w)"
  have "to_minutes v = Some ?m"
    using two_digits(2)[OF b(1,2)] two_digits(2)[OF z b(4)] by (simp add: to_minutes_def sp)
  moreover have "0 \<le> int (10 * z + w)" "int (10 * z + w) < 60" using b by simp_all
  then have "?m div 60 = int (10 * x + y)" "?m mod 60 = int (10 * z + w)" using minutes_split by blast+
  then have "hhmm ?m = v"
    unfolding hhmm_def using two_digits(1)[OF b(1,2)] two_digits(1)[OF z b(4)] by (simp only: v append.simps)
  moreover have "?m < 1440" "0 \<le> ?m" using b by simp_all
  ultimately show ?thesis by blast
qed

text \<open>The policy reads back as it was set: of a valid request every time and number it names is what the next
  read shows, in the same text form, and everything it does not name is shown as before.\<close>

theorem policy_roundtrip:
  assumes "policy_update_ok u" "update_policy E c u s = Inr (p, s')"
  shows "read_policy s' = \<lparr>pr_work_start = set_if (pu_work_start u) (pr_work_start (read_policy s)),
    pr_work_end = set_if (pu_work_end u) (pr_work_end (read_policy s)),
    pr_buffer = set_if (pu_buffer u) (pr_buffer (read_policy s)),
    pr_reg_window = set_if (pu_reg_window u) (pr_reg_window (read_policy s)),
    pr_full_day_min = set_if (pu_full_day_min u) (pr_full_day_min (read_policy s)),
    pr_half_day_min = set_if (pu_half_day_min u) (pr_half_day_min (read_policy s)),
    pr_full_day_grace = set_if (pu_full_day_grace u) (pr_full_day_grace (read_policy s)),
    pr_monthly_regs = set_if (pu_monthly_regs u) (pr_monthly_regs (read_policy s)),
    pr_working_days = set_if (pu_working_days u) (pr_working_days (read_policy s)),
    pr_require_location = set_if (pu_require_location u) (pr_require_location (read_policy s))\<rparr>"
proof -
  have t: "pu_work_start u = Some v \<Longrightarrow> \<exists>m. to_minutes v = Some m \<and> hhmm m = v"
    "pu_work_end u = Some v \<Longrightarrow> \<exists>m. to_minutes v = Some m \<and> hhmm m = v" for v
    using assms(1) hhmm_to_minutes[of v] by (auto simp: policy_update_ok_def)
  have ws: "hhmm (pol_work_start (case pu_work_start u of None \<Rightarrow> q
        | Some t \<Rightarrow> (case to_minutes t of None \<Rightarrow> q | Some m \<Rightarrow> q\<lparr>pol_work_start := m\<rparr>))) = set_if (pu_work_start u) (hhmm (pol_work_start q))" for q
    using t(1) by (cases "pu_work_start u") (auto simp: set_if_def)
  have we: "hhmm (pol_work_end (case pu_work_end u of None \<Rightarrow> q
        | Some t \<Rightarrow> (case to_minutes t of None \<Rightarrow> q | Some m \<Rightarrow> q\<lparr>pol_work_end := m\<rparr>))) = set_if (pu_work_end u) (hhmm (pol_work_end q))" for q
    using t(2) by (cases "pu_work_end u") (auto simp: set_if_def)
  have others: "pol_work_start (case pu_work_end u of None \<Rightarrow> q
        | Some t \<Rightarrow> (case to_minutes t of None \<Rightarrow> q | Some m \<Rightarrow> q\<lparr>pol_work_end := m\<rparr>)) = pol_work_start q"
      "f (case pu_work_end u of None \<Rightarrow> q
        | Some t \<Rightarrow> (case to_minutes t of None \<Rightarrow> q | Some m \<Rightarrow> q\<lparr>pol_work_end := m\<rparr>)) = f q" 
    if "\<And>m. f (q\<lparr>pol_work_end := m\<rparr>) = f q" for f :: "att_policy \<Rightarrow> 'x" and q
    using that by (auto split: option.split)
  have others': "f (case pu_work_start u of None \<Rightarrow> q
        | Some t \<Rightarrow> (case to_minutes t of None \<Rightarrow> q | Some m \<Rightarrow> q\<lparr>pol_work_start := m\<rparr>)) = f q" 
    if "\<And>m. f (q\<lparr>pol_work_start := m\<rparr>) = f q" for f :: "att_policy \<Rightarrow> 'x" and q
    using that by (auto split: option.split)
  show ?thesis using assms(2)
    by (auto simp: update_policy_def read_policy_def Let_def time_audit_def audit_append_def ws we others others' split: if_splits)
qed

definition demo_update :: policy_update where
  "demo_update = \<lparr>pu_work_start = Some ''10:05'', pu_work_end = None, pu_buffer = Some 20, pu_reg_window = None,
     pu_full_day_min = None, pu_half_day_min = None, pu_full_day_grace = None, pu_monthly_regs = Some 3,
     pu_working_days = None, pu_require_location = None\<rparr>"

theorem policy_roundtrip_witness:
  "\<exists>p s' :: time_db. update_policy demo_E demo_hr demo_update demo_quiet_db = Inr (p, s') \<and> pr_work_start (read_policy s') = ''10:05''
    \<and> pr_buffer (read_policy s') = 20"
proof -
  have "\<exists>p s'. update_policy demo_E demo_hr demo_update demo_quiet_db = Inr (p, s')"
    by (simp add: update_policy_def can_manage_policy_def Let_def)
  then obtain p s' where 1: "update_policy demo_E demo_hr demo_update demo_quiet_db = Inr (p, s')" by blast
  have "policy_update_ok demo_update"
    by (simp add: policy_update_ok_def demo_update_def hhmm_pattern_def bounded_by_def is_digit_def)
  from policy_roundtrip[OF this 1] 1 show ?thesis by (simp add: demo_update_def set_if_def)
qed

end
