(* ===== verification/Resignations.thy ===== *)
theory Resignations
  imports DayRequestProps
begin

text \<open>
  Resignations: \<open>app/services/resignation_service.py\<close>, \<open>app/repositories/resignation.py\<close> and the validator of
  \<open>app/schemas/resignation.py\<close>. Rows stand in the table in the order of their creation.
\<close>

definition resignation_link :: string where
  "resignation_link = ''/dashboard/me/resignation''"

record resignation_create =
  rc_reason :: "string option"
  rc_last_day :: date

definition resignation_create_ok :: "datetime \<Rightarrow> resignation_create \<Rightarrow> bool" where
  "resignation_create_ok t p \<longleftrightarrow> \<not> rc_last_day p < utc_day t"

subsection \<open>Repository\<close>

definition put_resignation :: "resignation \<Rightarrow> 'a time_db_scheme \<Rightarrow> 'a time_db_scheme" where
  "put_resignation r s = s\<lparr>resignations := row_put res_id r (resignations s)\<rparr>"

definition resignation_scope :: "current_user \<Rightarrow> resignation \<Rightarrow> 'a core_scheme \<Rightarrow> bool" where
  "resignation_scope c r s =
    (if cu_role c \<in> {ADMIN, HR} then True
     else if cu_role c = VIEWER then res_employee r = cu_id c
     else res_employee r = cu_id c \<or> manager_of (res_employee r) s = Some (cu_id c))"

definition create_resignation :: "resignation_create \<Rightarrow> uuid \<Rightarrow> 'a time_db_scheme \<Rightarrow> resignation \<times> 'a time_db_scheme" where
  "create_resignation p i s =
    (let r = \<lparr>res_id = next_id s, res_employee = i, res_reason = rc_reason p, last_working_day = rc_last_day p,
              res_state = RES_SUBMITTED, res_reviewer = None, res_decided_at = None, res_note = None\<rparr>
     in (r, s\<lparr>resignations := row_add r (resignations s), next_id := next_id s + 1\<rparr>))"

definition find_resignation_in_scope :: "current_user \<Rightarrow> uuid \<Rightarrow> 'a time_db_scheme \<Rightarrow> resignation option" where
  "find_resignation_in_scope c i s = (case row_get res_id i (resignations s) of
     None \<Rightarrow> None | Some r \<Rightarrow> if resignation_scope c r s then Some r else None)"

definition has_active :: "uuid \<Rightarrow> 'a time_db_scheme \<Rightarrow> bool" where
  "has_active i s = list_ex (\<lambda>r. res_employee r = i \<and> res_state r = RES_SUBMITTED) (resignations s)"

definition list_resignations :: "current_user \<Rightarrow> nat \<Rightarrow> nat \<Rightarrow> 'a time_db_scheme \<Rightarrow> resignation list \<times> nat" where
  "list_resignations c offset limit s =
    (let rows = filter (\<lambda>r. resignation_scope c r s) (resignations s)
     in (take limit (drop offset (rev rows)), length rows))"

subsection \<open>Service\<close>

definition can_review_resignations :: "current_user \<Rightarrow> bool" where
  "can_review_resignations c \<longleftrightarrow> cu_role c \<in> {ADMIN, HR}"

text \<open>\<open>read_for\<close>: the reason and HR's note are for the person and HR.\<close>

definition resignation_read_for :: "current_user \<Rightarrow> resignation \<Rightarrow> resignation" where
  "resignation_read_for c r = (if can_review_resignations c \<or> cu_id c = res_employee r then r
     else r\<lparr>res_reason := None, res_note := None\<rparr>)"

definition get_resignation :: "current_user \<Rightarrow> uuid \<Rightarrow> 'a time_db_scheme \<Rightarrow> resignation res" where
  "get_resignation c i s = require_some (find_resignation_in_scope c i s) NotFoundError"

definition resignation_notice ::
  "uuid \<Rightarrow> notification_kind \<Rightarrow> string \<Rightarrow> string option \<Rightarrow> notification_level \<Rightarrow> uuid \<Rightarrow> uuid \<Rightarrow> notice" where
  "resignation_notice rcp k title body level i act = \<lparr>no_to = rcp, no_kind = k, no_title = title, no_body = body,
     no_level = level, no_link = Some resignation_link, no_entity_type = Some ''resignation'', no_entity_id = Some i,
     no_actor = Some act\<rparr>"

definition resignation_email_submitted :: "env \<Rightarrow> employee \<Rightarrow> string \<Rightarrow> resignation \<Rightarrow> 'a core_scheme \<Rightarrow> 'a core_scheme" where
  "resignation_email_submitted E e name r s = snd (send_email E \<lparr>mail_to = work_email e,
     mail_template = ''resignation_submitted'', mail_fields = [full_name e, name, fmt_d_b_Y (last_working_day r),
       or_empty (res_reason r), resignation_link]\<rparr> s)"

text \<open>HR and the admins, each once and never the person, are told and mailed; then the reporting manager is told.\<close>

definition resignation_reviewers :: "env \<Rightarrow> current_user \<Rightarrow> 'a core_scheme \<Rightarrow> employee list" where
  "resignation_reviewers E c s =
    List.map_filter (\<lambda>i. find_employee i s) (dedup_from [cu_id c] (map emp_id (list_admins E s @ list_by_role E HR s)))"

definition resignation_notify_manager ::
  "env \<Rightarrow> current_user \<Rightarrow> resignation \<Rightarrow> string \<Rightarrow> uuid list \<Rightarrow> 'a core_scheme \<Rightarrow> 'a core_scheme" where
  "resignation_notify_manager E c r body already s =
    (case cu_manager c of
       None \<Rightarrow> s
     | Some m \<Rightarrow> if m \<in> set already then s
         else (case find_employee m s of
             None \<Rightarrow> s
           | Some e \<Rightarrow> if \<not> is_active e then s
               else notify E (resignation_notice m RESIGNATION_SUBMITTED ''Resignation from your team'' (Some body) WARNING
                      (res_id r) (cu_id c)) None s))"

definition submit_resignation :: "env \<Rightarrow> current_user \<Rightarrow> resignation_create \<Rightarrow> 'a time_db_scheme
    \<Rightarrow> (resignation \<times> 'a time_db_scheme) res" where
  "submit_resignation E c p s =
    (if has_active (cu_id c) s then Inl (ConflictError ''You already have a resignation under review.'')
     else let (r, s1) = create_resignation p (cu_id c) s;
              s2 = time_audit E c ''resignation.submit'' (''resignation:'' @ uuid_str (res_id r)) s1;
              name = (case find_employee (cu_id c) s2 of Some e \<Rightarrow> full_name e | None \<Rightarrow> ''An employee'');
              body = name @ middot @ ''last day '' @ fmt_d_b_Y (rc_last_day p);
              reviewers = resignation_reviewers E c s2;
              s3 = fold (\<lambda>e s. resignation_email_submitted E e name r
                     (notify E (resignation_notice (emp_id e) RESIGNATION_SUBMITTED ''Resignation to review'' (Some body) WARNING
                        (res_id r) (cu_id c)) None s)) reviewers s2
          in Inr (r, resignation_notify_manager E c r body (cu_id c # map emp_id reviewers) s3))"

definition resignation_email_decision ::
  "env \<Rightarrow> current_user \<Rightarrow> resignation \<Rightarrow> bool \<Rightarrow> string option \<Rightarrow> 'a core_scheme \<Rightarrow> 'a core_scheme" where
  "resignation_email_decision E c r accepted note s =
    (case find_employee (res_employee r) s of
       None \<Rightarrow> s
     | Some e \<Rightarrow> snd (send_email E \<lparr>mail_to = work_email e, mail_template = ''resignation_decision'',
         mail_fields = [full_name e, (if accepted then ''accepted'' else ''declined''), fmt_d_b_Y (last_working_day r),
           (case find_employee (cu_id c) s of Some d \<Rightarrow> full_name d | None \<Rightarrow> ''HR''), or_empty note, resignation_link]\<rparr> s))"

definition decide_resignation :: "env \<Rightarrow> current_user \<Rightarrow> uuid \<Rightarrow> bool \<Rightarrow> string option \<Rightarrow> 'a time_db_scheme
    \<Rightarrow> (resignation \<times> 'a time_db_scheme) res" where
  "decide_resignation E c i accepted note s =
    ebind (require_some (find_resignation_in_scope c i s) NotFoundError) (\<lambda>r.
    if \<not> can_review_resignations c \<or> cu_id c = res_employee r then Inl AuthorizationError
    else if res_state r \<noteq> RES_SUBMITTED then Inl (ConflictError ''This resignation can no longer be decided.'')
    else let r' = r\<lparr>res_state := (if accepted then RES_ACCEPTED else RES_REJECTED), res_reviewer := Some (cu_id c),
                res_decided_at := Some (now s), res_note := note\<rparr>;
             s1 = time_audit E c ''resignation.decide'' (''resignation:'' @ uuid_str (res_id r) @ '':'' @ res_value (res_state r'))
                (put_resignation r' s);
             s2 = notify E (resignation_notice (res_employee r) RESIGNATION_DECISION
                (''Resignation '' @ (if accepted then ''accepted'' else ''declined'')) note INFO (res_id r) (cu_id c)) None s1
         in Inr (r', resignation_email_decision E c r' accepted note s2))"

definition withdraw_resignation :: "env \<Rightarrow> current_user \<Rightarrow> uuid \<Rightarrow> 'a time_db_scheme \<Rightarrow> (resignation \<times> 'a time_db_scheme) res" where
  "withdraw_resignation E c i s =
    ebind (require_some (find_resignation_in_scope c i s) NotFoundError) (\<lambda>r.
    if res_employee r \<noteq> cu_id c then Inl AuthorizationError
    else if res_state r \<noteq> RES_SUBMITTED then Inl (ConflictError ''Only a pending resignation can be withdrawn.'')
    else let r' = r\<lparr>res_state := RES_WITHDRAWN\<rparr>
         in Inr (r', time_audit E c ''resignation.withdraw'' (''resignation:'' @ uuid_str (res_id r)) (put_resignation r' s)))"

subsection \<open>The life of a resignation\<close>

lemma put_resignation_simps [simp, store_simps]:
  "resignations (put_resignation r s) = row_put res_id r (resignations s)" "next_id (put_resignation r s) = next_id s"
  by (simp_all add: put_resignation_def)

lemma quiet_resignation [quiet_intros]:
  "quiet s t \<Longrightarrow> quiet s (resignation_email_submitted E e nm r t)"
  "quiet s t \<Longrightarrow> quiet s (resignation_notify_manager E c r body seen t)"
  "quiet s t \<Longrightarrow> quiet s (resignation_email_decision E c r b n t)"
  by (auto simp: resignation_email_submitted_def resignation_notify_manager_def resignation_email_decision_def
      intro!: quiet_intros split: option.split)

inductive resignation_edge :: "current_user \<Rightarrow> 'a time_db_scheme \<Rightarrow> resignation \<Rightarrow> resignation \<Rightarrow> bool" for c s where
  res_decided: "res_state r = RES_SUBMITTED \<Longrightarrow> can_review_resignations c \<Longrightarrow> cu_id c \<noteq> res_employee r \<Longrightarrow>
    st \<in> {RES_ACCEPTED, RES_REJECTED} \<Longrightarrow> resignation_edge c s r
      (r\<lparr>res_state := st, res_reviewer := Some (cu_id c), res_decided_at := Some (now s), res_note := n\<rparr>)"
| res_withdrawn: "res_state r = RES_SUBMITTED \<Longrightarrow> res_employee r = cu_id c \<Longrightarrow>
    resignation_edge c s r (r\<lparr>res_state := RES_WITHDRAWN\<rparr>)"

inductive resignation_step :: "env \<Rightarrow> current_user \<Rightarrow> 'a time_db_scheme \<Rightarrow> 'a time_db_scheme \<Rightarrow> bool" for E c s where
  "resignation_create_ok (now s) p \<Longrightarrow> submit_resignation E c p s = Inr (r, s') \<Longrightarrow> resignation_step E c s s'"
| "decide_resignation E c i b n s = Inr (r, s') \<Longrightarrow> resignation_step E c s s'"
| "withdraw_resignation E c i s = Inr (r, s') \<Longrightarrow> resignation_step E c s s'"

definition fresh_resignation :: "current_user \<Rightarrow> 'a time_db_scheme \<Rightarrow> resignation \<Rightarrow> bool" where
  "fresh_resignation c s r \<longleftrightarrow> res_id r = next_id s \<and> res_employee r = cu_id c \<and> res_state r = RES_SUBMITTED
     \<and> res_reviewer r = None \<and> res_decided_at r = None \<and> \<not> has_active (cu_id c) s"

definition resignation_ok :: "resignation \<Rightarrow> bool" where
  "resignation_ok r \<longleftrightarrow> (if res_state r \<in> {RES_ACCEPTED, RES_REJECTED}
     then (\<exists>d. res_reviewer r = Some d \<and> d \<noteq> res_employee r) \<and> res_decided_at r \<noteq> None
     else res_reviewer r = None \<and> res_decided_at r = None)"

definition resignation_apart :: "resignation \<Rightarrow> resignation \<Rightarrow> bool" where
  "resignation_apart x y \<longleftrightarrow> \<not> (res_employee x = res_employee y \<and> res_state x = RES_SUBMITTED \<and> res_state y = RES_SUBMITTED)"

lemma submit_resignation_effect:
  assumes "submit_resignation E c p s = Inr (r, s')"
  shows "fresh_resignation c s r \<and> last_working_day r = rc_last_day p \<and> resignations s' = row_add r (resignations s) \<and> next_id s < next_id s'"
proof -
  have no: "\<not> has_active (cu_id c) s" and r: "r = fst (create_resignation p (cu_id c) s)"
    and q: "quiet (snd (create_resignation p (cu_id c) s)) s'"
    using assms by (auto simp: submit_resignation_def Let_def case_prod_unfold intro!: quiet_intros split: if_splits)
  show ?thesis using quiet_requests[OF q] no by (simp add: r fresh_resignation_def create_resignation_def Let_def)
qed

lemma decide_resignation_effect:
  assumes "decide_resignation E c i b n s = Inr (r', s')"
  shows "\<exists>r. row_get res_id i (resignations s) = Some r \<and> resignation_scope c r s \<and> resignation_edge c s r r' \<and> quiet (put_resignation r' s) s'"
proof -
  obtain r where r: "find_resignation_in_scope c i s = Some r" "can_review_resignations c" "cu_id c \<noteq> res_employee r"
      "res_state r = RES_SUBMITTED"
    and r': "r' = r\<lparr>res_state := (if b then RES_ACCEPTED else RES_REJECTED), res_reviewer := Some (cu_id c),
                res_decided_at := Some (now s), res_note := n\<rparr>"
    and q: "quiet (put_resignation r' s) s'"
    using assms by (auto simp: decide_resignation_def ebind_Inr_iff Let_def intro!: quiet_intros split: if_splits)
  have "resignation_edge c s r r'" unfolding r' using r by (intro res_decided) auto
  then show ?thesis using r(1) q by (auto simp: find_resignation_in_scope_def split: option.splits if_splits)
qed

lemma withdraw_resignation_effect:
  assumes "withdraw_resignation E c i s = Inr (r', s')"
  shows "\<exists>r. row_get res_id i (resignations s) = Some r \<and> resignation_scope c r s \<and> resignation_edge c s r r' \<and> quiet (put_resignation r' s) s'"
proof -
  obtain r where r: "find_resignation_in_scope c i s = Some r" "res_employee r = cu_id c" "res_state r = RES_SUBMITTED"
    and r': "r' = r\<lparr>res_state := RES_WITHDRAWN\<rparr>" and q: "quiet (put_resignation r' s) s'"
    using assms by (auto simp: withdraw_resignation_def ebind_Inr_iff Let_def intro!: quiet_intros split: if_splits)
  have "resignation_edge c s r r'" unfolding r' using r by (intro res_withdrawn)
  then show ?thesis using r(1) q by (auto simp: find_resignation_in_scope_def split: option.splits if_splits)
qed

lemma resignation_edge_fields:
  "resignation_edge c s r r' \<Longrightarrow> res_id r' = res_id r \<and> res_employee r' = res_employee r
     \<and> last_working_day r' = last_working_day r \<and> res_state r = RES_SUBMITTED \<and> res_state r' \<noteq> RES_SUBMITTED"
  by (erule resignation_edge.cases) auto

lemma resignation_stored:
  "row_get res_id i (resignations s) = Some r \<Longrightarrow> quiet (put_resignation r' s) s' \<Longrightarrow>
   next_id s \<le> next_id s' \<and> row_get res_id (res_id r) (resignations s) = Some r \<and> resignations s' = row_put res_id r' (resignations s)"
  using row_get_SomeD[of res_id i "resignations s" r] quiet_requests[of "put_resignation r' s" s'] by simp

interpretation resignation_life: exclusive_rows res_id resignations next_id "resignation_step E" resignation_edge
  fresh_resignation resignation_ok resignation_apart for E
proof unfold_locales
  fix l s s'
  assume "resignation_step E l (s :: 'a time_db_scheme) s'"
  then show "next_id s \<le> next_id s' \<and> (resignations s' = resignations s
        \<or> (\<exists>r r'. row_get res_id (res_id r) (resignations s) = Some r \<and> resignation_edge l s r r' \<and> resignations s' = row_put res_id r' (resignations s))
        \<or> (\<exists>r. fresh_resignation l s r \<and> resignations s' = row_add r (resignations s) \<and> next_id s < next_id s'))"
  proof cases
    case (1 p r)
    then show ?thesis using submit_resignation_effect[OF 1(2)] by auto
  next
    case (2 i b n r')
    then show ?thesis using decide_resignation_effect[OF 2] resignation_stored by metis
  next
    case (3 i r')
    then show ?thesis using withdraw_resignation_effect[OF 3] resignation_stored by metis
  qed
next
  show "resignation_edge l s r r' \<Longrightarrow> resignation_ok r \<Longrightarrow> resignation_ok r' \<and> res_id r' = res_id r" for l s r r'
    by (erule resignation_edge.cases) (auto simp: resignation_ok_def)
  show "fresh_resignation l s r \<Longrightarrow> resignation_ok r \<and> res_id r = next_id s" for l s r
    by (simp add: fresh_resignation_def resignation_ok_def)
  show "resignation_apart x y \<Longrightarrow> resignation_apart y x" for x y by (auto simp: resignation_apart_def)
  show "resignation_edge l s r r' \<Longrightarrow> x \<in> set (resignations s) \<Longrightarrow> res_id x \<noteq> res_id r \<Longrightarrow> resignation_apart x r
      \<Longrightarrow> resignation_apart x r'" for l s r r' x
    using resignation_edge_fields[of l s r r'] by (auto simp: resignation_apart_def)
  show "fresh_resignation l s r \<Longrightarrow> x \<in> set (resignations s) \<Longrightarrow> resignation_apart x r" for l s r x
    by (auto simp: fresh_resignation_def resignation_apart_def has_active_def list_ex_iff)
qed

abbreviation resignation_run :: "env \<Rightarrow> 'a time_db_scheme \<Rightarrow> bool" where
  "resignation_run E \<equiv> run (resignation_step E) (others_keep resignations next_id) (no_rows resignations)"

end
