(* ===== verification/RequestAccess.thy ===== *)
theory RequestAccess
  imports Resignations
begin

text \<open>
  Who may see and move requests: resignations are decided once, by HR, and their reasons stay private; and two gaps in
  the rules for days out of the office.
\<close>

subsection \<open>Resignations\<close>

text \<open>In every reachable state a person has at most one resignation under review, and a resignation that was
  decided or withdrawn stays as it is whatever anybody does next; one that is under review is only ever closed by HR
  or an admin other than the person, or withdrawn by the person.\<close>

theorem resignations_final:
  assumes "resignation_run E s" "resignation_step E c s s'" "row_get res_id i (resignations s) = Some r"
  shows "length (filter (\<lambda>x. res_employee x = e \<and> res_state x = RES_SUBMITTED) (resignations s)) \<le> 1
    \<and> (\<exists>r'. row_get res_id i (resignations s') = Some r' \<and> (r' = r \<or> res_state r = RES_SUBMITTED \<and>
        (if res_state r' = RES_WITHDRAWN then cu_id c = res_employee r
         else res_state r' \<in> {RES_ACCEPTED, RES_REJECTED} \<and> cu_role c \<in> {ADMIN, HR} \<and> cu_id c \<noteq> res_employee r)))"
proof
  have ok: "rows_ok res_id resignation_ok (next_id s) (resignations s)" by (rule resignation_life.rows_ok_run[OF assms(1)])
  show "length (filter (\<lambda>x. res_employee x = e \<and> res_state x = RES_SUBMITTED) (resignations s)) \<le> 1"
  proof (rule filter_at_most_one)
    show "distinct (resignations s)" using ok by (simp add: rows_ok_def keys_unique_def distinct_map)
    show "x = y" if "x \<in> set (resignations s)" "y \<in> set (resignations s)" "res_employee x = e \<and> res_state x = RES_SUBMITTED"
      "res_employee y = e \<and> res_state y = RES_SUBMITTED" for x y
      using resignation_life.separate_run[OF assms(1) that(1,2)] that(3,4) by (auto simp: resignation_apart_def)
  qed
  obtain r' where r': "row_get res_id i (resignations s') = Some r'" "r' = r \<or> resignation_edge c s r r'"
    using resignation_life.row_moves[OF ok assms(2,3)] by blast
  have "res_state r = RES_SUBMITTED \<and> (if res_state r' = RES_WITHDRAWN then cu_id c = res_employee r
         else res_state r' \<in> {RES_ACCEPTED, RES_REJECTED} \<and> cu_role c \<in> {ADMIN, HR} \<and> cu_id c \<noteq> res_employee r)"
    if "resignation_edge c s r r'"
    using that by cases (auto simp: can_review_resignations_def)
  then show "\<exists>r'. row_get res_id i (resignations s') = Some r' \<and> (r' = r \<or> res_state r = RES_SUBMITTED \<and>
        (if res_state r' = RES_WITHDRAWN then cu_id c = res_employee r
         else res_state r' \<in> {RES_ACCEPTED, RES_REJECTED} \<and> cu_role c \<in> {ADMIN, HR} \<and> cu_id c \<noteq> res_employee r))"
    using r' by blast
qed

definition demo_resignation :: resignation_create where
  "demo_resignation = \<lparr>rc_reason = Some ''Moving'', rc_last_day = 719200\<rparr>"

theorem resignations_final_witness:
  "\<exists>s s' :: time_db. \<exists>r. row_get res_id 100 (resignations s) = Some r \<and> resignation_step demo_E demo_hr s s'
    \<and> (\<exists>r'. row_get res_id 100 (resignations s') = Some r' \<and> (r' = r \<or> res_state r = RES_SUBMITTED))"
proof -
  have ok: "resignation_create_ok (now demo_quiet_db) demo_resignation"
    by (simp add: resignation_create_ok_def demo_resignation_def demo_quiet_db_def demo_time_db_def utc_day_def day_us_def epoch_def
        mk_date_def days_before_year_def days_before_month_def)
  have "\<exists>r s1. submit_resignation demo_E demo_staff demo_resignation demo_quiet_db = Inr (r, s1)"
    by (simp add: submit_resignation_def has_active_def Let_def case_prod_unfold)
  then obtain r s1 where 1: "submit_resignation demo_E demo_staff demo_resignation demo_quiet_db = Inr (r, s1)" by blast
  have r: "fresh_resignation demo_staff demo_quiet_db r" "resignations s1 = [r]"
    using submit_resignation_effect[OF 1] by (simp_all add: row_add_def)
  have st: "resignation_step demo_E demo_staff demo_quiet_db s1" by (rule resignation_step.intros(1)[OF ok 1])
  have run: "resignation_run demo_E s1"
  proof -
    have "resignation_run demo_E demo_quiet_db" by (rule quiet_run_init) simp
    then show ?thesis using st by (rule run.run_step)
  qed
  have get: "row_get res_id 100 (resignations s1) = Some r"
    using r by (simp add: row_get_def fresh_resignation_def)
  have "\<exists>r' s2. decide_resignation demo_E demo_hr 100 True None s1 = Inr (r', s2)"
    using get r(1) by (simp add: decide_resignation_def find_resignation_in_scope_def resignation_scope_def
        can_review_resignations_def fresh_resignation_def Let_def)
  then obtain r' s2 where 2: "decide_resignation demo_E demo_hr 100 True None s1 = Inr (r', s2)" by blast
  have "resignation_step demo_E demo_hr s1 s2" by (rule resignation_step.intros(2)[OF 2])
  with resignations_final[OF run this get] get show ?thesis by blast
qed

text \<open>What a reporting manager may learn of a resignation: everything but the reason and HR's note.\<close>

definition unreasoned :: "resignation \<Rightarrow> resignation" where
  "unreasoned r = r\<lparr>res_reason := None, res_note := None\<rparr>"

lemma unreasoned_fields [simp]:
  "res_employee (unreasoned r) = res_employee r" "res_id (unreasoned r) = res_id r" "resignation_scope c (unreasoned r) s = resignation_scope c r s"
  by (simp_all add: unreasoned_def resignation_scope_def)

lemma read_for_unreasoned:
  "\<not> can_review_resignations c \<Longrightarrow> cu_id c \<noteq> res_employee r \<Longrightarrow> resignation_read_for c r = unreasoned r"
  by (simp add: resignation_read_for_def unreasoned_def)

text \<open>Reasons are private: a caller who is neither HR nor an admin reads the same list of other people's
  resignations whatever reasons and decision notes are on file.\<close>

theorem reasons_private:
  fixes s s' :: "'a time_db_scheme"
  assumes "\<not> can_review_resignations c" "employees s' = employees s"
    "map unreasoned (resignations s') = map unreasoned (resignations s)"
    "\<forall>r \<in> set (resignations s). res_employee r \<noteq> cu_id c"
  shows "map (resignation_read_for c) (fst (list_resignations c offset limit s'))
      = map (resignation_read_for c) (fst (list_resignations c offset limit s))"
proof -
  have scope: "resignation_scope c r s' = resignation_scope c r s" for r
    using assms(2) by (simp add: resignation_scope_def manager_of_def find_employee_def)
  have un: "map unreasoned (filter (\<lambda>r. resignation_scope c r s) xs)
      = filter (\<lambda>r. resignation_scope c r s) (map unreasoned xs)" for xs
    by (induction xs) simp_all
  have "map unreasoned (fst (list_resignations c offset limit t))
      = take limit (drop offset (rev (filter (\<lambda>r. resignation_scope c r s) (map unreasoned (resignations t)))))"
    if "t = s \<or> t = s'" for t
    using that by (auto simp: list_resignations_def Let_def take_map[symmetric] drop_map[symmetric] rev_map un[symmetric] scope)
  then have eq: "map unreasoned (fst (list_resignations c offset limit s')) = map unreasoned (fst (list_resignations c offset limit s))"
    using assms(3) by simp
  have mem: "set (fst (list_resignations c offset limit t)) \<subseteq> set (resignations t)" for t
    by (auto simp: list_resignations_def Let_def dest!: in_set_takeD in_set_dropD)
  have others: "\<forall>r \<in> set (resignations s'). res_employee r \<noteq> cu_id c"
  proof
    fix r assume "r \<in> set (resignations s')"
    then have "unreasoned r \<in> unreasoned ` set (resignations s)" using arg_cong[OF assms(3), of set] by auto
    then obtain q where "q \<in> set (resignations s)" "unreasoned r = unreasoned q" by auto
    then show "res_employee r \<noteq> cu_id c" using assms(4) unreasoned_fields(1)[of r] unreasoned_fields(1)[of q] by auto
  qed
  have read: "map (resignation_read_for c) (fst (list_resignations c offset limit t)) = map unreasoned (fst (list_resignations c offset limit t))"
    if "\<forall>r \<in> set (resignations t). res_employee r \<noteq> cu_id c" for t
    using that mem[of t] read_for_unreasoned[OF assms(1)] by (intro map_cong refl) (metis subsetD)
  show ?thesis unfolding read[OF assms(4)] read[OF others] by (rule eq)
qed

definition demo_resigned :: "string \<Rightarrow> time_db" where
  "demo_resigned reason = demo_quiet_db\<lparr>resignations := [\<lparr>res_id = 5, res_employee = 2, res_reason = Some reason,
     last_working_day = 719200, res_state = RES_SUBMITTED, res_reviewer = None, res_decided_at = None, res_note = None\<rparr>]\<rparr>"

theorem reasons_private_witness:
  "map (resignation_read_for demo_lead) (fst (list_resignations demo_lead 0 10 (demo_resigned ''a'')))
   = map (resignation_read_for demo_lead) (fst (list_resignations demo_lead 0 10 (demo_resigned ''b'')))
   \<and> resignations (demo_resigned ''a'') \<noteq> resignations (demo_resigned ''b'')"
proof -
  have "map unreasoned (resignations (demo_resigned ''a'')) = map unreasoned (resignations (demo_resigned ''b''))"
    "\<forall>r \<in> set (resignations (demo_resigned ''b'')). res_employee r \<noteq> cu_id demo_lead"
    "employees (demo_resigned ''a'') = employees (demo_resigned ''b'')" "\<not> can_review_resignations demo_lead"
    by (simp_all add: demo_resigned_def unreasoned_def can_review_resignations_def)
  from reasons_private[OF this(4,3,1,2), of 0 10] show ?thesis by (simp add: demo_resigned_def)
qed

subsection \<open>Two gaps\<close>

text \<open>The person told about a request cannot always decide it: a senior manager of another department is the only
  one notified of a direct report's day out of the office, and yet their review answers that no such entry exists.\<close>

theorem told_but_locked_out:
  assumes "find_employee m s = Some e" "is_active e" "cu_manager c = Some m" "cu_role v = SENIOR_MANAGER" "cu_id v = m"
    "find_ooo i s = Some x" "ooo_employee x = cu_id c" "find_employee (cu_id c) s = Some r" "department r \<noteq> department e"
  shows "map emp_id (ooo_reviewers_for E c s) = [m] \<and> ooo_review E v i approve note s = Inl NotFoundError"
proof
  have m: "emp_id e = m" using assms(1) find_employee_id by blast
  show "map emp_id (ooo_reviewers_for E c s) = [m]" using assms(1-3) m by (simp add: ooo_reviewers_for_def)
  have "\<not> can_read v (cu_id c) s"
    using assms by (auto simp: can_read_def scope_clause_def same_department_def)
  then show "ooo_review E v i approve note s = Inl NotFoundError" using assms(6,7) by (simp add: ooo_review_def)
qed

definition demo_other_department :: time_db where
  "demo_other_department = demo_quiet_db\<lparr>employees := [(demo_employee 2 EXECUTIVE)\<lparr>manager_id := Some 3, department := Some ''Sales''\<rparr>,
     (demo_employee 3 SENIOR_MANAGER)\<lparr>department := Some ''Design''\<rparr>],
     ooo_entries := [\<lparr>ooo_id = 5, ooo_employee = 2, start_day = 719200, end_day = 719200, ooo_portion = P_FULL_DAY,
       ooo_location = ''Site'', ooo_reason = ''Visit'', ooo_state = OOO_PENDING, ooo_reviewed_by = None,
       ooo_decided_at = None, ooo_note = None\<rparr>]\<rparr>"

theorem told_but_locked_out_witness:
  "map emp_id (ooo_reviewers_for demo_E demo_staff demo_other_department) = [3]
   \<and> ooo_review demo_E \<lparr>cu_id = 3, cu_role = SENIOR_MANAGER, cu_manager = None, cu_payroll_manager = False\<rparr> 5 True None
       demo_other_department = Inl NotFoundError"
  by (rule told_but_locked_out[where e = "(demo_employee 3 SENIOR_MANAGER)\<lparr>department := Some ''Design''\<rparr>"
      and r = "(demo_employee 2 EXECUTIVE)\<lparr>manager_id := Some 3, department := Some ''Sales''\<rparr>"
      and x = "\<lparr>ooo_id = 5, ooo_employee = 2, start_day = 719200, end_day = 719200, ooo_portion = P_FULL_DAY,
       ooo_location = ''Site'', ooo_reason = ''Visit'', ooo_state = OOO_PENDING, ooo_reviewed_by = None,
       ooo_decided_at = None, ooo_note = None\<rparr>"])
    (simp_all add: demo_other_department_def find_employee_def row_get_def find_ooo_def demo_employee_def)

text \<open>The refusal of days on leave holds when the entry is requested and not when it is approved: whether an
  approval goes through does not depend on the leave table at all, so leave approved in between counts twice.\<close>

theorem approval_ignores_leave:
  "isl (ooo_review E c i approve note (s\<lparr>leaves := ls\<rparr>)) = isl (ooo_review E c i approve note s)"
proof -
  have f: "find_ooo i (s\<lparr>leaves := ls\<rparr>) = find_ooo i s" "can_read c j (s\<lparr>leaves := ls\<rparr>) = can_read c j s"
    "manager_of j (s\<lparr>leaves := ls\<rparr>) = manager_of j s" for j
    by (simp_all add: find_ooo_def can_read_def manager_of_def find_employee_def scope_clause_def same_department_def
        reporting_tree_ids_def cong: option.case_cong)
  show ?thesis by (cases "find_ooo i s") (simp_all add: ooo_review_def f Let_def)
qed

end
