(* ===== verification/Probation.thy ===== *)
theory Probation
  imports RequestAccess "HOL-Library.Product_Lexorder"
begin

text \<open>
  Probation reviews: the checklist of \<open>app/core/probation.py\<close>, its rows (\<open>app/models/probation_checklist.py\<close>,
  \<open>app/repositories/probation_checklist.py\<close>), the recorded outcome (\<open>app/models/probation_decision.py\<close>,
  \<open>app/repositories/probation_decision.py\<close>), the shapes of \<open>app/schemas/probation.py\<close> and
  \<open>app/services/probation_service.py\<close>. The layout of the two letters is left out: an attachment is its file name.
\<close>

subsection \<open>The checklist\<close>

datatype step_owner = OWN_HR | OWN_EMPLOYEE | OWN_MANAGER | OWN_HR_AND_MANAGER

record probation_step =
  step_no :: int
  step_title :: string
  step_owner :: step_owner
  step_timeline :: string
  step_detail :: "string list"

definition pstep :: "int \<Rightarrow> string \<Rightarrow> step_owner \<Rightarrow> string \<Rightarrow> string list \<Rightarrow> probation_step" where
  "pstep n t ow when d = \<lparr>step_no = n, step_title = t, step_owner = ow, step_timeline = when, step_detail = d\<rparr>"

definition before_meeting :: string where
  "before_meeting = ''Before review meeting''"

definition before_end :: string where
  "before_end = ''Before probation end date''"

definition three_weeks :: string where
  "three_weeks = ''3 weeks (21 days) before probation end date''"

definition probation_steps :: "probation_step list" where
  "probation_steps = [
     pstep 1 ''Initiate probation review process'' OWN_HR three_weeks [],
     pstep 2 ''Share employee self-assessment form'' OWN_HR three_weeks [],
     pstep 3 ''Employee completes self-assessment'' OWN_EMPLOYEE ''Before manager review''
       [''Covering achievements, challenges and areas of improvement''],
     pstep 4 ''Share probation form to reporting manager'' OWN_HR '''' [],
     pstep 5 ''Reporting manager reviews performance'' OWN_MANAGER before_meeting
       [''Against role expectations, KPIs, deliverables and objectives''],
     pstep 6 ''Reporting manager completes probation evaluation / performance matrix'' OWN_MANAGER before_meeting [],
     pstep 7 ''Finalise confirmation / extension / termination decision'' OWN_HR_AND_MANAGER before_end [],
     pstep 8 ''HR reviews attendance and punctuality records'' OWN_HR before_meeting [],
     pstep 9 ''HR reviews adherence to company policies and conduct'' OWN_HR before_meeting [],
     pstep 10 ''Collect additional feedback from relevant team members / CEO, if applicable'' OWN_HR_AND_MANAGER
       before_meeting [],
     pstep 12 ''Schedule and conduct the probation review meeting'' OWN_HR before_end
       [''With the employee, reporting manager and HR'',
        ''Discuss performance, achievements, gaps and future expectations'',
        ''Employee shares feedback, concerns and future goals''],
     pstep 13 ''Prepare the relevant letter / documentation'' OWN_HR ''After decision''
       [''Confirmation'', ''Extension'', ''Termination of employment''],
     pstep 14 ''Employee acknowledges and signs the confirmation / extension documentation'' OWN_EMPLOYEE
       ''As per HR timeline'' [],
     pstep 15 ''Update HRMS (Avora)'' OWN_HR ''After documentation'' [],
     pstep 16 ''Update Insurance GoDigit Portal'' OWN_HR ''After confirmation'' []]"

definition acknowledge_step :: int where
  "acknowledge_step = 14"

definition review_lead_days :: int where
  "review_lead_days = 21"

definition recent_confirmation_days :: int where
  "recent_confirmation_days = 60"

definition max_probation_months :: int where
  "max_probation_months = 24"

definition step_or_none :: "int \<Rightarrow> probation_step option" where
  "step_or_none n = row_get step_no n probation_steps"

subsection \<open>Rows\<close>

datatype step_status = STEP_PENDING | STEP_DONE | STEP_SKIPPED

fun step_status_value :: "step_status \<Rightarrow> string" where
  "step_status_value STEP_PENDING = ''pending''"
| "step_status_value STEP_DONE = ''done''"
| "step_status_value STEP_SKIPPED = ''skipped''"

record checklist_item =
  ci_employee :: uuid
  ci_step :: int
  ci_status :: step_status
  ci_note :: "string option"
  ci_actor :: "uuid option"
  ci_acted_at :: "datetime option"

datatype probation_outcome = OUT_CONFIRMED | OUT_EXTENDED | OUT_TERMINATED

fun outcome_value :: "probation_outcome \<Rightarrow> string" where
  "outcome_value OUT_CONFIRMED = ''confirmed''"
| "outcome_value OUT_EXTENDED = ''extended''"
| "outcome_value OUT_TERMINATED = ''terminated''"

record probation_decision =
  pd_employee :: uuid
  pd_outcome :: probation_outcome
  pd_effective :: date
  pd_job_title :: "string option"
  pd_note :: "string option"
  pd_original_end :: "date option"
  pd_expectations :: "string list option"
  pd_decided_by :: "uuid option"
  pd_decided_at :: "datetime option"
  pd_letter_sent_at :: "datetime option"

record probation_db = time_db +
  checklist_items :: "checklist_item list"
  probation_decisions :: "probation_decision list"

text \<open>The unique constraints make the employee and the step, and the employee, the keys of the two tables.\<close>

definition item_key :: "checklist_item \<Rightarrow> uuid \<times> int" where
  "item_key r = (ci_employee r, ci_step r)"

definition new_item :: "uuid \<Rightarrow> int \<Rightarrow> checklist_item" where
  "new_item i n = \<lparr>ci_employee = i, ci_step = n, ci_status = STEP_PENDING, ci_note = None, ci_actor = None, ci_acted_at = None\<rparr>"

definition get_item :: "uuid \<Rightarrow> int \<Rightarrow> 'a probation_db_scheme \<Rightarrow> checklist_item option" where
  "get_item i n s = row_get item_key (i, n) (checklist_items s)"

definition items_of :: "uuid \<Rightarrow> 'a probation_db_scheme \<Rightarrow> checklist_item list" where
  "items_of i s = sort_key ci_step (filter (\<lambda>r. ci_employee r = i) (checklist_items s))"

text \<open>The row is fetched, or added when it is not there, and its columns assigned.\<close>

definition upsert :: "('r \<Rightarrow> 'k) \<Rightarrow> 'r \<Rightarrow> 'r list \<Rightarrow> 'r list" where
  "upsert key r rows = (case row_get key (key r) rows of None \<Rightarrow> row_add r rows | Some _ \<Rightarrow> row_put key r rows)"

definition save_item :: "checklist_item \<Rightarrow> 'a probation_db_scheme \<Rightarrow> 'a probation_db_scheme" where
  "save_item r s = s\<lparr>checklist_items := upsert item_key r (checklist_items s)\<rparr>"

definition get_decision :: "uuid \<Rightarrow> 'a probation_db_scheme \<Rightarrow> probation_decision option" where
  "get_decision i s = row_get pd_employee i (probation_decisions s)"

definition save_decision :: "probation_decision \<Rightarrow> 'a probation_db_scheme \<Rightarrow> 'a probation_db_scheme" where
  "save_decision d s = s\<lparr>probation_decisions := upsert pd_employee d (probation_decisions s)\<rparr>"

definition settled_count :: "uuid \<Rightarrow> int list \<Rightarrow> 'a probation_db_scheme \<Rightarrow> nat" where
  "settled_count i ns s = length (filter (\<lambda>r. ci_employee r = i \<and> ci_step r \<in> set ns \<and> ci_status r \<noteq> STEP_PENDING)
     (checklist_items s))"

definition system_note :: string where
  "system_note = ''Done in Avora: ''"

definition starts_with :: "string \<Rightarrow> string \<Rightarrow> bool" where
  "starts_with p x \<longleftrightarrow> take (length p) x = p"

definition settled_by_system :: "checklist_item \<Rightarrow> bool" where
  "settled_by_system r \<longleftrightarrow> ci_actor r = None \<and> starts_with system_note (or_empty (ci_note r))"

definition system_item :: "uuid \<Rightarrow> int \<Rightarrow> string \<Rightarrow> datetime \<Rightarrow> checklist_item" where
  "system_item i n txt t = \<lparr>ci_employee = i, ci_step = n, ci_status = STEP_DONE, ci_note = Some (system_note @ txt),
     ci_actor = None, ci_acted_at = Some t\<rparr>"

definition system_tick :: "uuid \<Rightarrow> datetime \<Rightarrow> int \<times> string \<Rightarrow> 'a probation_db_scheme \<Rightarrow> 'a probation_db_scheme" where
  "system_tick i t nt s =
    (case get_item i (fst nt) s of
       None \<Rightarrow> save_item (system_item i (fst nt) (snd nt) t) s
     | Some r \<Rightarrow> if ci_status r \<noteq> STEP_PENDING \<and> \<not> settled_by_system r then s
         else save_item (system_item i (fst nt) (snd nt) t) s)"

definition mark_done_by_system :: "uuid \<Rightarrow> (int \<times> string) list \<Rightarrow> datetime \<Rightarrow> 'a probation_db_scheme \<Rightarrow> 'a probation_db_scheme" where
  "mark_done_by_system i notes t s = fold (system_tick i t) notes s"

subsection \<open>Who may see and move what\<close>

definition org_today :: "env \<Rightarrow> 'a core_scheme \<Rightarrow> date" where
  "org_today E s = local_day E (now s)"

definition probation_months_of :: "employee \<Rightarrow> 'a leave_db_scheme \<Rightarrow> int" where
  "probation_months_of e s = (case probation_months e of
     None \<Rightarrow> policy_probation_months (get_leave_policy s)
   | Some n \<Rightarrow> if n = 0 then policy_probation_months (get_leave_policy s) else n)"

definition may_manage :: "current_user \<Rightarrow> bool" where
  "may_manage c \<longleftrightarrow> cu_role c \<in> {ADMIN, HR}"

definition may_update_step :: "current_user \<Rightarrow> employee \<Rightarrow> step_owner \<Rightarrow> bool" where
  "may_update_step c e ow =
    (let is_self = (cu_id c = emp_id e); is_their_manager = (manager_id e = Some (cu_id c))
     in case ow of
          OWN_EMPLOYEE \<Rightarrow> is_self
        | OWN_HR \<Rightarrow> may_manage c
        | OWN_MANAGER \<Rightarrow> is_their_manager \<or> may_manage c
        | OWN_HR_AND_MANAGER \<Rightarrow> is_their_manager \<or> may_manage c)"

definition visible_employee :: "current_user \<Rightarrow> uuid \<Rightarrow> 'a core_scheme \<Rightarrow> employee res" where
  "visible_employee c i s =
    (if i = cu_id c then Inl NotFoundError
     else if \<not> can_read c i s then Inl NotFoundError
     else require_some (find_employee i s) NotFoundError)"

subsection \<open>Letters\<close>

definition truthy :: "string option \<Rightarrow> bool" where
  "truthy x \<longleftrightarrow> or_empty x \<noteq> ''''"

definition letter_available :: "probation_decision \<Rightarrow> bool" where
  "letter_available d =
    (if pd_job_title d = None then False
     else case pd_outcome d of
         OUT_CONFIRMED \<Rightarrow> True
       | OUT_EXTENDED \<Rightarrow> (case pd_expectations d of None \<Rightarrow> False | Some xs \<Rightarrow> xs \<noteq> []) \<and> pd_original_end d \<noteq> None
       | OUT_TERMINATED \<Rightarrow> False)"

text \<open>The file name of the standard letter, when HR's template can be filled in.\<close>

definition standard_letter :: "probation_decision \<Rightarrow> string option" where
  "standard_letter d =
    (if \<not> letter_available d then None
     else if pd_outcome d = OUT_CONFIRMED then Some ''probation-confirmation-letter.pdf''
     else Some ''probation-extension-letter.pdf'')"

definition fmt_d_B_Y :: "date \<Rightarrow> string" where
  "fmt_d_B_Y d = pad2 (day_of d) @ '' '' @ month_name (month_of d) @ '' '' @ int_str (year_of d)"

definition letter_mail :: "employee \<Rightarrow> probation_decision \<Rightarrow> string option \<Rightarrow> email" where
  "letter_mail e d letter =
    (let when = fmt_d_B_Y (pd_effective d)
     in if pd_outcome d = OUT_CONFIRMED
        then \<lparr>mail_to = work_email e, mail_template = ''probation_confirmed'',
               mail_fields = [full_name e, (if truthy (pd_job_title d) then or_empty (pd_job_title d) else ''your role''),
                 when, or_empty letter]\<rparr>
        else \<lparr>mail_to = work_email e, mail_template = ''probation_extended'',
               mail_fields = [full_name e, when, or_empty letter]\<rparr>)"

text \<open>\<open>_send_letter\<close>: best effort; \<open>letter_sent_at\<close> is stamped only when the provider took the mail.\<close>

definition send_letter ::
  "env \<Rightarrow> employee \<Rightarrow> probation_decision \<Rightarrow> string option \<Rightarrow> 'a probation_db_scheme \<Rightarrow> probation_decision \<times> 'a probation_db_scheme" where
  "send_letter E e d letter s =
    (if pd_outcome d = OUT_TERMINATED then (d, s)
     else let (sent, s1) = send_email E (letter_mail e d letter) s
          in if sent then let d' = d\<lparr>pd_letter_sent_at := Some (now s)\<rparr> in (d', save_decision d' s1) else (d, s1))"

definition decision_ticks :: "probation_decision \<Rightarrow> bool \<Rightarrow> (int \<times> string) list" where
  "decision_ticks d has_letter =
    (let decided = (7, ''outcome recorded ('' @ outcome_value (pd_outcome d) @ '').'')
     in if pd_outcome d = OUT_TERMINATED then [decided]
        else [decided, (15, ''probation end date and status updated from the recorded outcome.'')]
          @ (if has_letter then [(13, if pd_letter_sent_at d \<noteq> None then ''letter prepared and emailed to the employee.''
                                      else ''letter prepared (not emailed from Avora).'')] else []))"

subsection \<open>Reads\<close>

record decision_read =
  dr_row :: probation_decision
  dr_decider :: "string option"
  dr_letter_available :: bool

record step_read =
  sr_step :: probation_step
  sr_position :: nat
  sr_status :: step_status
  sr_note :: "string option"
  sr_actor :: "uuid option"
  sr_actor_name :: "string option"
  sr_acted_at :: "datetime option"
  sr_can_update :: bool

record checklist_read =
  cr_employee :: uuid
  cr_name :: string
  cr_hire_date :: "date option"
  cr_ends_on :: "date option"
  cr_starts_on :: "date option"
  cr_days_to_end :: "int option"
  cr_on_probation :: bool
  cr_settled :: nat
  cr_total :: nat
  cr_steps :: "step_read list"
  cr_decision :: "decision_read option"
  cr_can_decide :: bool

record my_probation =
  my_employee :: uuid
  my_hire_date :: date
  my_ends_on :: date
  my_starts_on :: date
  my_days_to_end :: int
  my_on_probation :: bool
  my_decision :: "decision_read option"
  my_needs_acknowledgement :: bool

record roster_entry =
  ro_employee :: uuid
  ro_name :: string
  ro_department :: "string option"
  ro_hire_date :: date
  ro_ends_on :: date
  ro_days_to_end :: int
  ro_review_due :: bool
  ro_on_probation :: bool
  ro_settled :: nat
  ro_total :: nat

definition decision_read_of :: "probation_decision \<Rightarrow> 'a core_scheme \<Rightarrow> decision_read" where
  "decision_read_of d s = \<lparr>dr_row = d,
     dr_decider = (case pd_decided_by d of None \<Rightarrow> None | Some i \<Rightarrow> map_option full_name (find_employee i s)),
     dr_letter_available = letter_available d\<rparr>"

definition step_read_of :: "current_user \<Rightarrow> employee \<Rightarrow> 'a probation_db_scheme \<Rightarrow> nat \<times> probation_step \<Rightarrow> step_read" where
  "step_read_of c e s ps =
    (let r = get_item (emp_id e) (step_no (snd ps)) s
     in \<lparr>sr_step = snd ps, sr_position = fst ps,
         sr_status = (case r of None \<Rightarrow> STEP_PENDING | Some x \<Rightarrow> ci_status x),
         sr_note = Option.bind r ci_note, sr_actor = Option.bind r ci_actor,
         sr_actor_name = Option.bind (Option.bind r ci_actor) (\<lambda>i. map_option full_name (find_employee i s)),
         sr_acted_at = Option.bind r ci_acted_at,
         sr_can_update = may_update_step c e (step_owner (snd ps))\<rparr>)"

definition on_probation :: "date option \<Rightarrow> date \<Rightarrow> int \<Rightarrow> bool" where
  "on_probation hired today months = (case hired of None \<Rightarrow> False | Some h \<Rightarrow> tenure_of h today months = PROBATION)"

definition build_checklist :: "env \<Rightarrow> current_user \<Rightarrow> employee \<Rightarrow> 'a probation_db_scheme \<Rightarrow> checklist_read" where
  "build_checklist E c e s =
    (let today = org_today E s; months = probation_months_of e s;
         ends_on = map_option (\<lambda>h. probation_end h months) (hire_date e);
         steps = map (step_read_of c e s) (enumerate 1 probation_steps)
     in \<lparr>cr_employee = emp_id e, cr_name = full_name e, cr_hire_date = hire_date e, cr_ends_on = ends_on,
         cr_starts_on = map_option (\<lambda>d. d - review_lead_days) ends_on,
         cr_days_to_end = map_option (\<lambda>d. d - today) ends_on,
         cr_on_probation = on_probation (hire_date e) today months,
         cr_settled = length (filter (\<lambda>x. sr_status x \<noteq> STEP_PENDING) steps), cr_total = length probation_steps,
         cr_steps = steps, cr_decision = map_option (\<lambda>d. decision_read_of d s) (get_decision (emp_id e) s),
         cr_can_decide = may_manage c\<rparr>)"

definition roster_entry_of :: "date \<Rightarrow> 'a probation_db_scheme \<Rightarrow> employee \<Rightarrow> roster_entry option" where
  "roster_entry_of today s e =
    (case hire_date e of
       None \<Rightarrow> None
     | Some h \<Rightarrow>
        let months = probation_months_of e s; ends_on = probation_end h months;
            still_on = (tenure_of h today months = PROBATION)
        in if still_on \<or> today - ends_on \<le> recent_confirmation_days
           then Some \<lparr>ro_employee = emp_id e, ro_name = full_name e, ro_department = department e, ro_hire_date = h,
                  ro_ends_on = ends_on, ro_days_to_end = ends_on - today,
                  ro_review_due = (still_on \<and> ends_on - today \<le> review_lead_days), ro_on_probation = still_on,
                  ro_settled = settled_count (emp_id e) (map step_no probation_steps) s,
                  ro_total = length probation_steps\<rparr>
           else None)"

definition probation_roster :: "env \<Rightarrow> current_user \<Rightarrow> 'a probation_db_scheme \<Rightarrow> roster_entry list \<times> 'a probation_db_scheme" where
  "probation_roster E c s =
    (let candidates = filter (\<lambda>e. emp_id e \<noteq> cu_id c) (all_in_scope E c s);
         entries = List.map_filter (roster_entry_of (org_today E s) s) candidates
     in (sort_key (\<lambda>x. (\<not> ro_on_probation x, ro_days_to_end x, ro_name x)) entries,
         time_audit E c ''probation.roster.read'' ''probation'' s))"

definition read_checklist :: "env \<Rightarrow> current_user \<Rightarrow> uuid \<Rightarrow> 'a probation_db_scheme \<Rightarrow> (checklist_read \<times> 'a probation_db_scheme) res" where
  "read_checklist E c i s =
    ebind (visible_employee c i s) (\<lambda>e.
    Inr (build_checklist E c e s, time_audit E c ''probation.checklist.read'' (''employee:'' @ uuid_str (emp_id e)) s))"

definition my_probation_of :: "env \<Rightarrow> current_user \<Rightarrow> 'a probation_db_scheme \<Rightarrow> my_probation option" where
  "my_probation_of E c s =
    Option.bind (find_employee (cu_id c) s) (\<lambda>e. Option.bind (hire_date e) (\<lambda>h.
    let today = org_today E s; months = probation_months_of e s; ends_on = probation_end h months;
        d = get_decision (emp_id e) s; still_on = (tenure_of h today months = PROBATION)
    in if \<not> still_on \<and> d = None then None
       else let ack = get_item (emp_id e) acknowledge_step s
            in Some \<lparr>my_employee = emp_id e, my_hire_date = h, my_ends_on = ends_on, my_starts_on = ends_on - review_lead_days,
                 my_days_to_end = ends_on - today, my_on_probation = still_on,
                 my_decision = map_option (\<lambda>x. decision_read_of x s) d,
                 my_needs_acknowledgement = ((case d of None \<Rightarrow> False | Some x \<Rightarrow> pd_outcome x \<noteq> OUT_TERMINATED)
                   \<and> (case ack of None \<Rightarrow> True | Some r \<Rightarrow> ci_status r = STEP_PENDING))\<rparr>))"

subsection \<open>Writes\<close>

definition acknowledge :: "env \<Rightarrow> current_user \<Rightarrow> 'a probation_db_scheme \<Rightarrow> (my_probation option \<times> 'a probation_db_scheme) res" where
  "acknowledge E c s =
    ebind (require_some (find_employee (cu_id c) s) NotFoundError) (\<lambda>e.
    if (case get_decision (emp_id e) s of None \<Rightarrow> True | Some d \<Rightarrow> pd_outcome d = OUT_TERMINATED)
    then Inl (ConflictError ''There is no letter to acknowledge yet.'')
    else let r = \<lparr>ci_employee = emp_id e, ci_step = acknowledge_step, ci_status = STEP_DONE,
                  ci_note = Some ''Acknowledged by the employee in Avora.'', ci_actor = Some (cu_id c), ci_acted_at = Some (now s)\<rparr>;
             s1 = time_audit E c ''probation.acknowledge'' (''employee:'' @ uuid_str (emp_id e)) (save_item r s)
         in Inr (my_probation_of E c s1, s1))"

definition set_step :: "env \<Rightarrow> current_user \<Rightarrow> uuid \<Rightarrow> int \<Rightarrow> step_status \<Rightarrow> string option \<Rightarrow> 'a probation_db_scheme
    \<Rightarrow> (checklist_read \<times> 'a probation_db_scheme) res" where
  "set_step E c i n st txt s =
    ebind (visible_employee c i s) (\<lambda>e.
    ebind (require_some (step_or_none n) (ValidationError ''That step is not part of the probation checklist.'')) (\<lambda>ps.
    if \<not> may_update_step c e (step_owner ps) then Inl AuthorizationError
    else let settled = (st \<noteq> STEP_PENDING);
             r = \<lparr>ci_employee = emp_id e, ci_step = n, ci_status = st, ci_note = txt,
                  ci_actor = (if settled then Some (cu_id c) else None), ci_acted_at = (if settled then Some (now s) else None)\<rparr>;
             s1 = time_audit E c ''probation.step.update''
               (''employee:'' @ uuid_str (emp_id e) @ '':step:'' @ int_str n @ '':'' @ step_status_value st) (save_item r s)
         in Inr (build_checklist E c e s1, s1)))"

record decision_create =
  dc_outcome :: probation_outcome
  dc_effective :: date
  dc_job_title :: "string option"
  dc_note :: "string option"
  dc_send_letter :: bool
  dc_expectations :: "string list"

text \<open>The validators of \<open>ProbationDecisionCreate\<close> on the cleaned items.\<close>

definition decision_create_ok :: "decision_create \<Rightarrow> bool" where
  "decision_create_ok p \<longleftrightarrow> length (dc_expectations p) \<le> 5
     \<and> list_all (\<lambda>x. x \<noteq> '''') (dc_expectations p)
     \<and> (dc_expectations p = [] \<or> dc_outcome p = OUT_EXTENDED)"

definition check_standard_letter_inputs :: "employee \<Rightarrow> decision_create \<Rightarrow> bool \<Rightarrow> unit res" where
  "check_standard_letter_inputs e p uploaded =
    (if \<not> (dc_send_letter p \<and> \<not> uploaded \<and> dc_outcome p \<noteq> OUT_TERMINATED) then Inr ()
     else if \<not> (truthy (dc_job_title p) \<or> truthy (job_title e)) then Inl (ValidationError ''Add the job title the letter should name.'')
     else if dc_outcome p = OUT_EXTENDED \<and> dc_expectations p = []
       then Inl (ValidationError ''List at least one expectation for the extension letter, or upload a signed letter.'')
     else Inr ())"

definition end_before_extension :: "employee \<Rightarrow> probation_decision option \<Rightarrow> decision_create \<Rightarrow> 'a leave_db_scheme \<Rightarrow> date option" where
  "end_before_extension e prev p s =
    (case hire_date e of
       None \<Rightarrow> None
     | Some h \<Rightarrow>
        if dc_outcome p \<noteq> OUT_EXTENDED then None
        else (case prev of
            Some d \<Rightarrow> if pd_outcome d = OUT_EXTENDED \<and> pd_original_end d \<noteq> None then pd_original_end d
              else Some (probation_end h (probation_months_of e s))
          | None \<Rightarrow> Some (probation_end h (probation_months_of e s))))"

text \<open>\<open>_apply_outcome\<close>: the effective date to record and the months the employee's row is to hold.\<close>

definition apply_outcome :: "date \<Rightarrow> int \<Rightarrow> employee \<Rightarrow> probation_decision option \<Rightarrow> decision_create \<Rightarrow> (date \<times> int option) res" where
  "apply_outcome today months e prev p =
    (if dc_outcome p = OUT_TERMINATED then Inr (dc_effective p, probation_months e)
     else case hire_date e of
       None \<Rightarrow> Inl (ValidationError ''Set a joining date before recording a probation outcome.'')
     | Some h \<Rightarrow>
        let current_end = probation_end h months
        in if dc_outcome p = OUT_CONFIRMED
           then Inr (dc_effective p, if current_end > dc_effective p
                  then Some (max 1 (anniversaries_reached h (dc_effective p))) else probation_months e)
           else let n = months_to_reach h (dc_effective p); new_end = probation_end h n;
                    re_extending = (case prev of None \<Rightarrow> False | Some d \<Rightarrow> pd_outcome d = OUT_EXTENDED)
                in if new_end \<le> today then Inl (ValidationError ''The new probation end date must be in the future.'')
                   else if \<not> re_extending \<and> new_end \<le> current_end
                     then Inl (ValidationError (''An extension must end after the current probation end date (''
                            @ fmt_d_b_Y current_end @ '').''))
                   else if n > max_probation_months
                     then Inl (ValidationError (''Probation can run at most '' @ int_str max_probation_months
                            @ '' months from the joining date.''))
                   else Inr (new_end, Some n))"

definition put_probation_months :: "employee \<Rightarrow> int option \<Rightarrow> 'a core_scheme \<Rightarrow> 'a core_scheme" where
  "put_probation_months e n s = s\<lparr>employees := row_put emp_id (e\<lparr>probation_months := n\<rparr>) (employees s)\<rparr>"

definition decision_of :: "current_user \<Rightarrow> employee \<Rightarrow> decision_create \<Rightarrow> date \<Rightarrow> date option \<Rightarrow> datetime \<Rightarrow> probation_decision" where
  "decision_of c e p effective original t = \<lparr>pd_employee = emp_id e, pd_outcome = dc_outcome p, pd_effective = effective,
     pd_job_title = (if truthy (dc_job_title p) then dc_job_title p else job_title e), pd_note = dc_note p,
     pd_original_end = original, pd_expectations = (if dc_expectations p = [] then None else Some (dc_expectations p)),
     pd_decided_by = Some (cu_id c), pd_decided_at = Some t, pd_letter_sent_at = None\<rparr>"

definition decide_probation :: "env \<Rightarrow> current_user \<Rightarrow> uuid \<Rightarrow> decision_create \<Rightarrow> string option \<Rightarrow> 'a probation_db_scheme
    \<Rightarrow> (checklist_read \<times> 'a probation_db_scheme) res" where
  "decide_probation E c i p uploaded s =
    ebind (visible_employee c i s) (\<lambda>e.
    if \<not> may_manage c then Inl AuthorizationError
    else ebind (check_standard_letter_inputs e p (uploaded \<noteq> None)) (\<lambda>_.
    let prev = get_decision (emp_id e) s; original = end_before_extension e prev p s
    in ebind (apply_outcome (org_today E s) (probation_months_of e s) e prev p) (\<lambda>(effective, months).
    let d = decision_of c e p effective original (now s);
        s1 = save_decision d (put_probation_months e months s);
        attachment = (if uploaded \<noteq> None then uploaded else standard_letter d);
        (d2, s2) = (if dc_send_letter p then send_letter E e d attachment s1 else (d, s1));
        s3 = mark_done_by_system (emp_id e) (decision_ticks d2 (attachment \<noteq> None)) (now s) s2;
        s4 = time_audit E c ''probation.decision.record''
          (''employee:'' @ uuid_str (emp_id e) @ '':'' @ outcome_value (dc_outcome p)) s3
    in Inr (build_checklist E c (e\<lparr>probation_months := months\<rparr>) s4, s4))))"

text \<open>\<open>letter_pdf\<close>: the file name under which the re-rendered letter is served.\<close>

definition letter_pdf :: "env \<Rightarrow> current_user \<Rightarrow> uuid \<Rightarrow> 'a probation_db_scheme \<Rightarrow> (string \<times> 'a probation_db_scheme) res" where
  "letter_pdf E c i s =
    ebind (visible_employee c i s) (\<lambda>e.
    if \<not> may_manage c then Inl AuthorizationError
    else ebind (require_some (Option.bind (get_decision (emp_id e) s) standard_letter) NotFoundError) (\<lambda>f.
    Inr (f, time_audit E c ''probation.letter.download'' (''employee:'' @ uuid_str (emp_id e) @ '':'' @ f) s)))"

end
