(* ===== verification/ProbationLaws.thy ===== *)
theory ProbationLaws
  imports Probation
begin

text \<open>
  How the operations on a probation review change its rows, and what holds of every row that was ever
  stored: who settled a step, and what a recorded outcome carries.
\<close>

subsection \<open>Rows under upsert\<close>

lemma row_get_put: "row_get key k rows = Some x \<Longrightarrow> row_get key k (row_put key r rows) = (if k = key r then Some r else Some x)"
proof (induction rows)
  case (Cons a rows)
  then show ?case by (cases "key a = k"; cases "key a = key r") (simp_all add: row_get_def row_put_def)
qed (simp add: row_get_def)

lemma row_get_put_none: "row_get key k rows = None \<Longrightarrow> row_get key k (row_put key r rows) = None"
proof (induction rows)
  case (Cons a rows)
  then show ?case by (cases "key a = k"; cases "key a = key r") (simp_all add: row_get_def row_put_def)
qed (simp add: row_get_def row_put_def)

lemma row_get_add: "row_get key k (row_add r rows) = (case row_get key k rows of None \<Rightarrow> if k = key r then Some r else None | Some x \<Rightarrow> Some x)"
proof (induction rows)
  case (Cons a rows)
  then show ?case by (cases "key a = k") (simp_all add: row_get_def row_add_def)
qed (simp add: row_get_def row_add_def)

lemma row_get_upsert [store_simps]: "row_get key k (upsert key r rows) = (if k = key r then Some r else row_get key k rows)"
proof (cases "k = key r")
  case True
  show ?thesis by (cases "row_get key (key r) rows") (simp_all add: True upsert_def row_get_add row_get_put)
next
  case False
  have "row_get key k (row_put key r rows) = row_get key k rows"
    by (cases "row_get key k rows") (simp_all add: row_get_put row_get_put_none False)
  moreover have "row_get key k (row_add r rows) = row_get key k rows"
    by (cases "row_get key k rows") (simp_all add: row_get_add False)
  ultimately show ?thesis using False by (simp add: upsert_def split: option.split)
qed

lemma upsert_all: "\<forall>x \<in> set rows. P x \<Longrightarrow> P r \<Longrightarrow> \<forall>x \<in> set (upsert key r rows). P x"
  unfolding upsert_def by (split option.split, intro conjI impI allI) (rule rows.all_add rows.all_put; assumption)+

lemma upsert_unique: "keys_unique key rows \<Longrightarrow> keys_unique key (upsert key r rows)"
proof (cases "row_get key (key r) rows")
  case None
  assume "keys_unique key rows"
  moreover have "key r \<notin> key ` set rows" using None rows.get_none[of key "key r" rows] by auto
  ultimately show ?thesis using None rows.uniq_add[of key rows r] by (simp add: upsert_def)
next
  case (Some x)
  assume "keys_unique key rows"
  then show ?thesis using Some rows.uniq_put[of key rows r] by (simp add: upsert_def)
qed

lemma row_put_add: "row_get key (key r) rows = None \<Longrightarrow> key r' = key r \<Longrightarrow> row_put key r' (row_add r rows) = row_add r' rows"
  using rows.get_none[of key "key r" rows] by (simp add: row_put_def row_add_def map_idI)

lemma row_put_put: "key r' = key r \<Longrightarrow> row_put key r' (row_put key r rows) = row_put key r' rows"
  by (simp add: row_put_def)

lemma upsert_upsert [simp]: "key r' = key r \<Longrightarrow> upsert key r' (upsert key r rows) = upsert key r' rows"
proof -
  assume k: "key r' = key r"
  have "row_get key (key r') (upsert key r rows) = Some r" by (simp add: row_get_upsert k)
  then have "upsert key r' (upsert key r rows) = row_put key r' (upsert key r rows)" by (simp add: upsert_def)
  then show ?thesis using k by (cases "row_get key (key r) rows") (simp_all add: upsert_def row_put_add row_put_put)
qed

subsection \<open>What the operations leave alone\<close>

lemma probation_more:
  assumes "core.more (s' :: 'a probation_db_scheme) = core.more s"
  shows "checklist_items s' = checklist_items s" "probation_decisions s' = probation_decisions s"
    "leave_policy_row s' = leave_policy_row s"
  using assms by (cases s; cases s'; simp)+

lemma quiet_probation:
  assumes "quiet (s :: 'a probation_db_scheme) s'"
  shows "checklist_items s' = checklist_items s" "probation_decisions s' = probation_decisions s"
    "leave_policy_row s' = leave_policy_row s" "employees s' = employees s" "now s' = now s"
  using probation_more quiet_core[OF assms] by blast+

lemma save_simps [simp, store_simps]:
  "checklist_items (save_item r s) = upsert item_key r (checklist_items s)"
  "probation_decisions (save_item r s) = probation_decisions s"
  "employees (save_item r s) = employees s" "now (save_item r s) = now s" "leave_policy_row (save_item r s) = leave_policy_row s"
  "probation_decisions (save_decision d s) = upsert pd_employee d (probation_decisions s)"
  "checklist_items (save_decision d s) = checklist_items s"
  "employees (save_decision d s) = employees s" "now (save_decision d s) = now s"
  "leave_policy_row (save_decision d s) = leave_policy_row s"
  by (simp_all add: save_item_def save_decision_def)

lemma put_months_simps [simp, store_simps]:
  "checklist_items (put_probation_months e n (s :: 'a probation_db_scheme)) = checklist_items s"
  "probation_decisions (put_probation_months e n s) = probation_decisions s"
  "leave_policy_row (put_probation_months e n s) = leave_policy_row s"
  "now (put_probation_months e n s) = now s"
  "employees (put_probation_months e n s) = row_put emp_id (e\<lparr>probation_months := n\<rparr>) (employees s)"
  by (simp_all add: put_probation_months_def)

text \<open>A tick by the system rewrites at most one item.\<close>

lemma system_tick_cases: "system_tick i t nt s = s \<or> system_tick i t nt s = save_item (system_item i (fst nt) (snd nt) t) s"
  by (simp add: system_tick_def split: option.split)

lemma system_tick_frame [simp]:
  "probation_decisions (system_tick i t nt s) = probation_decisions s" "employees (system_tick i t nt s) = employees s"
  "now (system_tick i t nt s) = now s" "leave_policy_row (system_tick i t nt s) = leave_policy_row s"
  using system_tick_cases[of i t nt s] by auto

lemma system_tick_other: "(j, m) \<noteq> (i, fst nt) \<Longrightarrow> get_item j m (system_tick i t nt s) = get_item j m s"
  using system_tick_cases[of i t nt s] by (auto simp: get_item_def row_get_upsert item_key_def system_item_def)

lemma mark_done_frame [simp]:
  "probation_decisions (mark_done_by_system i ticks t s) = probation_decisions s"
  "employees (mark_done_by_system i ticks t s) = employees s" "now (mark_done_by_system i ticks t s) = now s"
  "leave_policy_row (mark_done_by_system i ticks t s) = leave_policy_row s"
  by (induction ticks arbitrary: s; simp add: mark_done_by_system_def)+

lemma mark_done_other: "j \<noteq> i \<or> m \<notin> fst ` set ticks \<Longrightarrow> get_item j m (mark_done_by_system i ticks t s) = get_item j m s"
proof (induction ticks arbitrary: s)
  case (Cons nt ticks)
  then have "get_item j m (system_tick i t nt s) = get_item j m s" by (intro system_tick_other) auto
  then show ?case using Cons by (auto simp: mark_done_by_system_def)
qed (simp add: mark_done_by_system_def)

lemma mark_done_all:
  assumes "\<forall>x \<in> set (checklist_items s). P x" "keys_unique item_key (checklist_items s)"
    "\<And>n txt. (n, txt) \<in> set ticks \<Longrightarrow> P (system_item i n txt t)"
  shows "(\<forall>x \<in> set (checklist_items (mark_done_by_system i ticks t s)). P x)
    \<and> keys_unique item_key (checklist_items (mark_done_by_system i ticks t s))"
  using assms
proof (induction ticks arbitrary: s)
  case (Cons nt ticks)
  have "P (system_item i (fst nt) (snd nt) t)" using Cons.prems(3)[of "fst nt" "snd nt"] by simp
  then have "(\<forall>x \<in> set (checklist_items (system_tick i t nt s)). P x) \<and> keys_unique item_key (checklist_items (system_tick i t nt s))"
    using system_tick_cases[of i t nt s] Cons.prems(1,2) upsert_all[OF Cons.prems(1)] upsert_unique[OF Cons.prems(2)]
    by (elim disjE) simp_all
  then show ?case using Cons.IH[of "system_tick i t nt s"] Cons.prems(3) by (simp add: mark_done_by_system_def)
qed (simp add: mark_done_by_system_def)

subsection \<open>The effect of each operation\<close>

lemma send_letter_effect:
  "send_letter E e d letter s = (d2, s2) \<Longrightarrow>
   (d2 = d \<and> quiet s s2) \<or> (d2 = d\<lparr>pd_letter_sent_at := Some (now s)\<rparr> \<and> pd_outcome d \<noteq> OUT_TERMINATED
     \<and> (\<exists>s1. quiet s s1 \<and> s2 = save_decision d2 s1))"
  using quiet_mail[of s E "letter_mail e d letter"]
  by (auto simp: send_letter_def Let_def split: if_splits prod.splits)

lemma acknowledge_effect:
  assumes "acknowledge E c s = Inr (m, s')"
  shows "\<exists>e d. find_employee (cu_id c) s = Some e \<and> get_decision (emp_id e) s = Some d \<and> pd_outcome d \<noteq> OUT_TERMINATED
    \<and> quiet (save_item \<lparr>ci_employee = emp_id e, ci_step = acknowledge_step, ci_status = STEP_DONE,
          ci_note = Some ''Acknowledged by the employee in Avora.'', ci_actor = Some (cu_id c), ci_acted_at = Some (now s)\<rparr> s) s'"
  using assms by (auto simp: acknowledge_def ebind_Inr_iff Let_def intro!: quiet_intros split: if_splits option.splits)

lemma set_step_effect:
  assumes "set_step E c i n st txt s = Inr (r, s')"
  shows "\<exists>e ps. visible_employee c i s = Inr e \<and> step_or_none n = Some ps \<and> may_update_step c e (step_owner ps)
    \<and> quiet (save_item \<lparr>ci_employee = emp_id e, ci_step = n, ci_status = st, ci_note = txt,
          ci_actor = (if st \<noteq> STEP_PENDING then Some (cu_id c) else None),
          ci_acted_at = (if st \<noteq> STEP_PENDING then Some (now s) else None)\<rparr> s) s'"
  using assms by (auto simp: set_step_def ebind_Inr_iff Let_def intro!: quiet_intros split: if_splits)

lemma visible_employeeD: "visible_employee c i s = Inr e \<Longrightarrow> find_employee i s = Some e \<and> emp_id e = i \<and> i \<noteq> cu_id c \<and> can_read c i s"
  using row_get_SomeD[of emp_id i "employees s" e] by (auto simp: visible_employee_def find_employee_def split: if_splits)

lemma decide_effect:
  assumes "decide_probation E c i p uploaded s = Inr (r, s')"
  shows "\<exists>e effective months d s2. visible_employee c i s = Inr e \<and> may_manage c
    \<and> apply_outcome (org_today E s) (probation_months_of e s) e (get_decision (emp_id e) s) p = Inr (effective, months)
    \<and> (let d0 = decision_of c e p effective (end_before_extension e (get_decision (emp_id e) s) p s) (now s)
       in d = d0 \<or> d = d0\<lparr>pd_letter_sent_at := Some (now s)\<rparr> \<and> dc_outcome p \<noteq> OUT_TERMINATED)
    \<and> probation_decisions s2 = upsert pd_employee d (probation_decisions s) \<and> checklist_items s2 = checklist_items s
    \<and> employees s2 = row_put emp_id (e\<lparr>probation_months := months\<rparr>) (employees s) \<and> leave_policy_row s2 = leave_policy_row s
    \<and> (\<exists>b. quiet (mark_done_by_system (emp_id e) (decision_ticks d b) (now s) s2) s')"
proof -
  obtain e effective months where e: "visible_employee c i s = Inr e" "may_manage c"
      "apply_outcome (org_today E s) (probation_months_of e s) e (get_decision (emp_id e) s) p = Inr (effective, months)"
    using assms by (auto simp: decide_probation_def ebind_Inr_iff Let_def split: if_splits)
  define d0 where "d0 = decision_of c e p effective (end_before_extension e (get_decision (emp_id e) s) p s) (now s)"
  define att where "att = (if uploaded \<noteq> None then uploaded else standard_letter d0)"
  define s1 where "s1 = save_decision d0 (put_probation_months e months s)"
  define ds where "ds = (if dc_send_letter p then send_letter E e d0 att s1 else (d0, s1))"
  have q: "quiet (mark_done_by_system (emp_id e) (decision_ticks (fst ds) (att \<noteq> None)) (now s) (snd ds)) s'"
    using assms e by (auto simp: decide_probation_def ebind_Inr_iff Let_def case_prod_unfold ds_def att_def s1_def d0_def
        intro!: quiet_intros split: if_splits)
  have out: "pd_outcome d0 = dc_outcome p" "now s1 = now s" by (simp_all add: d0_def decision_of_def s1_def)
  have "fst ds = d0 \<and> quiet s1 (snd ds) \<or> fst ds = d0\<lparr>pd_letter_sent_at := Some (now s)\<rparr> \<and> dc_outcome p \<noteq> OUT_TERMINATED
      \<and> (\<exists>t. quiet s1 t \<and> snd ds = save_decision (fst ds) t)"
    using send_letter_effect[of E e d0 att s1 "fst ds" "snd ds"] out by (cases "dc_send_letter p") (auto simp: ds_def)
  then have "(fst ds = d0 \<or> fst ds = d0\<lparr>pd_letter_sent_at := Some (now s)\<rparr> \<and> dc_outcome p \<noteq> OUT_TERMINATED)
      \<and> probation_decisions (snd ds) = upsert pd_employee (fst ds) (probation_decisions s) \<and> checklist_items (snd ds) = checklist_items s
      \<and> employees (snd ds) = row_put emp_id (e\<lparr>probation_months := months\<rparr>) (employees s)
      \<and> leave_policy_row (snd ds) = leave_policy_row s"
    using quiet_probation[of s1] by (auto simp: s1_def)
  then show ?thesis using e q unfolding Let_def d0_def by blast
qed

subsection \<open>What holds of every stored row\<close>

text \<open>The operations on reviews; the form services tick the steps their forms settle, as Avora.\<close>

definition form_steps :: "int list" where
  "form_steps = [1, 2, 3, 4, 5, 6, 8, 9]"

inductive review_step :: "env \<Rightarrow> current_user \<Rightarrow> 'a probation_db_scheme \<Rightarrow> 'a probation_db_scheme \<Rightarrow> bool" for E c s where
  review_moved: "set_step E c i n st txt s = Inr (r, s') \<Longrightarrow> review_step E c s s'"
| review_acknowledged: "acknowledge E c s = Inr (m, s') \<Longrightarrow> review_step E c s s'"
| review_decided: "decision_create_ok p \<Longrightarrow> decide_probation E c i p letter s = Inr (r, s') \<Longrightarrow> review_step E c s s'"
| review_form: "fst ` set ticks \<subseteq> set form_steps \<Longrightarrow> review_step E c s (mark_done_by_system i ticks (now s) s)"

definition review_others :: "'a probation_db_scheme \<Rightarrow> 'a probation_db_scheme \<Rightarrow> bool" where
  "review_others s s' \<longleftrightarrow> checklist_items s' = checklist_items s \<and> probation_decisions s' = probation_decisions s"

definition no_reviews :: "'a probation_db_scheme \<Rightarrow> bool" where
  "no_reviews s \<longleftrightarrow> checklist_items s = [] \<and> probation_decisions s = []"

definition item_ok :: "checklist_item \<Rightarrow> bool" where
  "item_ok r \<longleftrightarrow> ci_step r \<in> step_no ` set probation_steps
     \<and> (if ci_status r = STEP_PENDING then ci_actor r = None \<and> ci_acted_at r = None
        else ci_acted_at r \<noteq> None \<and> (case ci_actor r of None \<Rightarrow> settled_by_system r
               | Some a \<Rightarrow> (a = ci_employee r) = (ci_step r = acknowledge_step)))
     \<and> (ci_step r = acknowledge_step \<longrightarrow> ci_status r = STEP_DONE \<and> ci_actor r = Some (ci_employee r))
     \<and> (ci_step r = 3 \<longrightarrow> settled_by_system r)"

definition decision_ok :: "probation_decision \<Rightarrow> bool" where
  "decision_ok d \<longleftrightarrow> (\<exists>a. pd_decided_by d = Some a \<and> a \<noteq> pd_employee d) \<and> pd_decided_at d \<noteq> None
     \<and> (pd_original_end d \<noteq> None) = (pd_outcome d = OUT_EXTENDED)
     \<and> (pd_expectations d \<noteq> None \<longrightarrow> pd_outcome d = OUT_EXTENDED)
     \<and> (pd_outcome d = OUT_TERMINATED \<longrightarrow> pd_letter_sent_at d = None \<and> standard_letter d = None)"

definition reviews_ok :: "'a probation_db_scheme \<Rightarrow> bool" where
  "reviews_ok s \<longleftrightarrow> keys_unique item_key (checklist_items s) \<and> keys_unique pd_employee (probation_decisions s)
     \<and> (\<forall>r \<in> set (checklist_items s). item_ok r) \<and> (\<forall>d \<in> set (probation_decisions s). decision_ok d)"

lemma reviews_ok_same: "reviews_ok s \<Longrightarrow> checklist_items s' = checklist_items s \<Longrightarrow> probation_decisions s' = probation_decisions s \<Longrightarrow> reviews_ok s'"
  by (simp add: reviews_ok_def)

lemma reviews_ok_item: "reviews_ok s \<Longrightarrow> item_ok r \<Longrightarrow> quiet (save_item r s) s' \<Longrightarrow> reviews_ok s'"
  using upsert_all[of "checklist_items s" item_ok r item_key] upsert_unique[of item_key "checklist_items s" r]
    quiet_probation[of "save_item r s" s'] by (simp add: reviews_ok_def)

lemma step_owners: "step_or_none n = Some ps \<Longrightarrow> n \<in> step_no ` set probation_steps \<and> (step_owner ps = OWN_EMPLOYEE \<longleftrightarrow> n \<in> {3, 14})"
  unfolding step_or_none_def
  by (drule row_get_SomeD) (auto simp: probation_steps_def pstep_def)

lemma starts_with_append [simp]: "starts_with p (p @ x)"
  by (simp add: starts_with_def)

lemma system_item_ok: "n \<in> step_no ` set probation_steps \<Longrightarrow> n \<noteq> 14 \<Longrightarrow> item_ok (system_item i n txt t)"
  by (simp add: item_ok_def system_item_def settled_by_system_def or_empty_def acknowledge_step_def)

lemma reviews_ok_system:
  assumes "reviews_ok s" "\<And>n. n \<in> fst ` set ticks \<Longrightarrow> n \<in> step_no ` set probation_steps \<and> n \<noteq> 14"
  shows "reviews_ok (mark_done_by_system i ticks t s)"
proof -
  have "item_ok (system_item i n x t)" if "(n, x) \<in> set ticks" for n x
    using assms(2)[of n] that by (intro system_item_ok) force+
  then show ?thesis using mark_done_all[of s item_ok ticks i t] assms(1) by (simp add: reviews_ok_def)
qed

lemma form_steps_known: "n \<in> set form_steps \<Longrightarrow> n \<in> step_no ` set probation_steps \<and> n \<noteq> 14"
  by (auto simp: form_steps_def probation_steps_def pstep_def)

lemma decision_ticks_steps: "fst ` set (decision_ticks d b) \<subseteq> {7, 13, 15}"
  by (auto simp: decision_ticks_def Let_def)

lemma decision_ticks_terminated: "pd_outcome d = OUT_TERMINATED \<Longrightarrow> fst ` set (decision_ticks d b) = {7}"
  by (simp add: decision_ticks_def Let_def)

lemma decision_ticks_known: "n \<in> fst ` set (decision_ticks d b) \<Longrightarrow> n \<in> step_no ` set probation_steps \<and> n \<noteq> 14"
proof -
  assume "n \<in> fst ` set (decision_ticks d b)"
  then have "n \<in> {7, 13, 15}" using decision_ticks_steps by blast
  then show ?thesis by (auto simp: probation_steps_def pstep_def)
qed

lemma decision_of_ok:
  assumes "apply_outcome today k e prev p = Inr (effective, months)" "decision_create_ok p" "emp_id e \<noteq> cu_id c"
    and "case prev of None \<Rightarrow> True | Some d \<Rightarrow> decision_ok d"
  shows "decision_ok (decision_of c e p effective (end_before_extension e prev p s) t)"
  using assms by (auto simp: decision_ok_def decision_of_def decision_create_ok_def end_before_extension_def apply_outcome_def
      standard_letter_def letter_available_def Let_def split: option.splits if_splits)

lemma reviews_ok_decide:
  assumes "reviews_ok s" "decision_create_ok p" "decide_probation E c i p letter s = Inr (r, s')"
  shows "reviews_ok s'"
proof -
  obtain e effective months d s2 b where e: "visible_employee c i s = Inr e"
      and a: "apply_outcome (org_today E s) (probation_months_of e s) e (get_decision (emp_id e) s) p = Inr (effective, months)"
      and d: "d = decision_of c e p effective (end_before_extension e (get_decision (emp_id e) s) p s) (now s)
        \<or> d = (decision_of c e p effective (end_before_extension e (get_decision (emp_id e) s) p s) (now s))
             \<lparr>pd_letter_sent_at := Some (now s)\<rparr> \<and> dc_outcome p \<noteq> OUT_TERMINATED"
      and s2: "probation_decisions s2 = upsert pd_employee d (probation_decisions s)" "checklist_items s2 = checklist_items s"
      and q: "quiet (mark_done_by_system (emp_id e) (decision_ticks d b) (now s) s2) s'"
    using decide_effect[OF assms(3)] unfolding Let_def by blast
  have prev: "case get_decision (emp_id e) s of None \<Rightarrow> True | Some x \<Rightarrow> decision_ok x"
    using assms(1) row_get_SomeD[of pd_employee "emp_id e" "probation_decisions s"]
    by (auto simp: reviews_ok_def get_decision_def split: option.split)
  have "decision_ok d"
    using d decision_of_ok[OF a assms(2) _ prev, of c s "now s"] visible_employeeD[OF e]
    by (auto simp: decision_ok_def decision_of_def standard_letter_def letter_available_def split: if_splits)
  then have "\<forall>x \<in> set (upsert pd_employee d (probation_decisions s)). decision_ok x"
    using assms(1) by (intro upsert_all) (simp_all add: reviews_ok_def)
  then have "reviews_ok s2" using assms(1) s2 upsert_unique by (auto simp: reviews_ok_def)
  then have "reviews_ok (mark_done_by_system (emp_id e) (decision_ticks d b) (now s) s2)"
    using decision_ticks_known by (intro reviews_ok_system)
  then show ?thesis using quiet_probation(1,2)[OF q] by (rule reviews_ok_same)
qed

lemma reviews_ok_set_step:
  assumes "reviews_ok s" "set_step E c i n st txt s = Inr (r, s')"
  shows "reviews_ok s'"
proof -
  obtain e ps where e: "visible_employee c i s = Inr e" "step_or_none n = Some ps" "may_update_step c e (step_owner ps)"
      and q: "quiet (save_item \<lparr>ci_employee = emp_id e, ci_step = n, ci_status = st, ci_note = txt,
          ci_actor = (if st \<noteq> STEP_PENDING then Some (cu_id c) else None),
          ci_acted_at = (if st \<noteq> STEP_PENDING then Some (now s) else None)\<rparr> s) s'"
    using set_step_effect[OF assms(2)] by blast
  have "cu_id c \<noteq> emp_id e" using visible_employeeD[OF e(1)] by auto
  moreover from this have "step_owner ps \<noteq> OWN_EMPLOYEE" using e(3) by (auto simp: may_update_step_def Let_def)
  ultimately show ?thesis using step_owners[OF e(2)]
    by (intro reviews_ok_item[OF assms(1) _ q]) (simp add: item_ok_def acknowledge_step_def)
qed

lemma reviews_ok_acknowledge:
  assumes "reviews_ok s" "acknowledge E c s = Inr (m, s')"
  shows "reviews_ok s'"
proof -
  obtain e where e: "find_employee (cu_id c) s = Some e"
      and q: "quiet (save_item \<lparr>ci_employee = emp_id e, ci_step = acknowledge_step, ci_status = STEP_DONE,
          ci_note = Some ''Acknowledged by the employee in Avora.'', ci_actor = Some (cu_id c), ci_acted_at = Some (now s)\<rparr> s) s'"
    using acknowledge_effect[OF assms(2)] by blast
  have "emp_id e = cu_id c" using e row_get_SomeD[of emp_id "cu_id c" "employees s" e] by (simp add: find_employee_def)
  then show ?thesis
    by (intro reviews_ok_item[OF assms(1) _ q]) (simp add: item_ok_def acknowledge_step_def probation_steps_def pstep_def)
qed

lemma reviews_ok_run:
  assumes "run (review_step E) review_others no_reviews s"
  shows "reviews_ok s"
  using assms
proof (induction rule: run.induct)
  case (run_init s)
  then show ?case by (simp add: no_reviews_def reviews_ok_def keys_unique_def)
next
  case (run_other s s')
  then show ?case using reviews_ok_same by (auto simp: review_others_def)
next
  case (run_step s l s')
  note ok = run_step.IH
  from \<open>review_step E l s s'\<close> show ?case
  proof cases
    case (review_moved i n st remark r)
    then show ?thesis by (intro reviews_ok_set_step[OF ok])
  next
    case (review_acknowledged m)
    then show ?thesis by (intro reviews_ok_acknowledge[OF ok])
  next
    case (review_decided p i letter r)
    then show ?thesis by (intro reviews_ok_decide[OF ok])
  next
    case (review_form ticks i)
    then show ?thesis using form_steps_known by (auto intro!: reviews_ok_system[OF ok])
  qed
qed

subsection \<open>Who signs\<close>

text \<open>Who may sign a step: the employee under review their own; a line manager or HR the manager's and the shared ones; HR alone
  the rest; and nobody another's as the person under review.\<close>

definition owner_signs :: "current_user \<Rightarrow> employee \<Rightarrow> step_owner \<Rightarrow> bool" where
  "owner_signs c e ow \<longleftrightarrow> (if ow = OWN_EMPLOYEE then cu_id c = emp_id e
     else cu_id c \<noteq> emp_id e \<and> (cu_role c \<in> {ADMIN, HR} \<or> ow \<in> {OWN_MANAGER, OWN_HR_AND_MANAGER} \<and> manager_id e = Some (cu_id c)))"

definition signed_by_owner :: "current_user \<Rightarrow> 'a probation_db_scheme \<Rightarrow> 'a probation_db_scheme \<Rightarrow> bool" where
  "signed_by_owner c s s' \<longleftrightarrow> (\<forall>i n r a. get_item i n s' = Some r \<and> get_item i n s \<noteq> Some r \<and> ci_actor r = Some a \<longrightarrow> a = cu_id c
     \<and> (\<exists>e ps. find_employee i s = Some e \<and> step_or_none n = Some ps \<and> owner_signs c e (step_owner ps)))"

lemma signed_save:
  assumes "quiet (save_item x s) s'"
    and "\<And>a. ci_actor x = Some a \<Longrightarrow> a = cu_id c \<and> (\<exists>e ps. find_employee (ci_employee x) s = Some e \<and> step_or_none (ci_step x) = Some ps \<and> owner_signs c e (step_owner ps))"
  shows "signed_by_owner c s s'"
  using assms(2) quiet_probation(1)[OF assms(1)]
  by (auto simp: signed_by_owner_def get_item_def row_get_upsert item_key_def split: if_splits)

lemma signed_system: "signed_by_owner c s s' \<Longrightarrow> signed_by_owner c s (mark_done_by_system i ticks t s')"
proof (induction ticks arbitrary: s')
  case (Cons nt ticks)
  have "signed_by_owner c s (system_tick i t nt s')"
    using system_tick_cases[of i t nt s'] Cons.prems
    by (auto simp: signed_by_owner_def get_item_def row_get_upsert item_key_def system_item_def split: if_splits)
  then show ?case using Cons.IH by (simp add: mark_done_by_system_def)
qed (simp add: mark_done_by_system_def)

lemma signed_same: "signed_by_owner c s t \<Longrightarrow> checklist_items s' = checklist_items t \<Longrightarrow> signed_by_owner c s s'"
  unfolding signed_by_owner_def get_item_def by (simp only:)

lemma signed_refl: "checklist_items s' = checklist_items s \<Longrightarrow> signed_by_owner c s s'"
  unfolding signed_by_owner_def get_item_def by (simp only:) blast

lemma review_step_signed:
  assumes "review_step E c s s'"
  shows "signed_by_owner c s s'"
  using assms
proof cases
  case (review_moved i n st remark r)
  then obtain e ps where e: "visible_employee c i s = Inr e" "step_or_none n = Some ps" "may_update_step c e (step_owner ps)"
      and q: "quiet (save_item \<lparr>ci_employee = emp_id e, ci_step = n, ci_status = st, ci_note = remark,
          ci_actor = (if st \<noteq> STEP_PENDING then Some (cu_id c) else None),
          ci_acted_at = (if st \<noteq> STEP_PENDING then Some (now s) else None)\<rparr> s) s'"
    using set_step_effect by blast
  have "owner_signs c e (step_owner ps)" using e(3) visible_employeeD[OF e(1)]
    by (cases "step_owner ps") (auto simp: may_update_step_def may_manage_def owner_signs_def Let_def)
  then show ?thesis using e visible_employeeD[OF e(1)] by (intro signed_save[OF q]) (auto split: if_splits)
next
  case (review_acknowledged m)
  then obtain e where e: "find_employee (cu_id c) s = Some e"
      and q: "quiet (save_item \<lparr>ci_employee = emp_id e, ci_step = acknowledge_step, ci_status = STEP_DONE,
          ci_note = Some ''Acknowledged by the employee in Avora.'', ci_actor = Some (cu_id c), ci_acted_at = Some (now s)\<rparr> s) s'"
    using acknowledge_effect by blast
  have "emp_id e = cu_id c" using e row_get_SomeD[of emp_id "cu_id c" "employees s" e] by (simp add: find_employee_def)
  moreover have "\<exists>ps. step_or_none acknowledge_step = Some ps \<and> step_owner ps = OWN_EMPLOYEE"
    by (simp add: step_or_none_def row_get_def probation_steps_def pstep_def acknowledge_step_def)
  ultimately show ?thesis using e by (intro signed_save[OF q]) (auto simp: owner_signs_def)
next
  case (review_decided p i letter r)
  obtain e effective months d s2 b where "visible_employee c i s = Inr e" "checklist_items s2 = checklist_items s"
      "quiet (mark_done_by_system (emp_id e) (decision_ticks d b) (now s) s2) s'"
    using decide_effect[OF review_decided(2)] unfolding Let_def by blast
  then show ?thesis using signed_same[OF signed_system[OF signed_refl]] quiet_probation(1) by blast
next
  case (review_form ticks i)
  then show ?thesis using signed_system[OF signed_refl] by blast
qed

text \<open>An outcome is recorded by HR or an administrator, about somebody else.\<close>

definition decided_by_hr :: "current_user \<Rightarrow> 'a probation_db_scheme \<Rightarrow> 'a probation_db_scheme \<Rightarrow> bool" where
  "decided_by_hr c s s' \<longleftrightarrow> (\<forall>i d. get_decision i s' = Some d \<and> get_decision i s \<noteq> Some d \<longrightarrow>
     pd_decided_by d = Some (cu_id c) \<and> cu_role c \<in> {ADMIN, HR} \<and> cu_id c \<noteq> i)"

lemma review_step_decided:
  assumes "review_step E c s s'"
  shows "decided_by_hr c s s'"
  using assms
proof cases
  case (review_decided p i letter r)
  obtain e effective months d s2 b where e: "visible_employee c i s = Inr e" "may_manage c"
      and d: "d = decision_of c e p effective (end_before_extension e (get_decision (emp_id e) s) p s) (now s)
        \<or> d = (decision_of c e p effective (end_before_extension e (get_decision (emp_id e) s) p s) (now s))
             \<lparr>pd_letter_sent_at := Some (now s)\<rparr> \<and> dc_outcome p \<noteq> OUT_TERMINATED"
      and s2: "probation_decisions s2 = upsert pd_employee d (probation_decisions s)"
      and q: "quiet (mark_done_by_system (emp_id e) (decision_ticks d b) (now s) s2) s'"
    using decide_effect[OF review_decided(2)] unfolding Let_def by blast
  have "probation_decisions s' = upsert pd_employee d (probation_decisions s)" using quiet_probation(2)[OF q] s2 by simp
  moreover have "pd_decided_by d = Some (cu_id c)" "pd_employee d = i" "cu_id c \<noteq> i"
    using d visible_employeeD[OF e(1)] by (auto simp: decision_of_def)
  ultimately show ?thesis using e(2)
    by (auto simp: decided_by_hr_def get_decision_def row_get_upsert may_manage_def split: if_splits)
next
  case (review_moved i n st remark r)
  then obtain x where "quiet (save_item x s) s'" using set_step_effect by blast
  then show ?thesis using quiet_probation(2) by (fastforce simp: decided_by_hr_def get_decision_def)
next
  case (review_acknowledged m)
  then obtain x where "quiet (save_item x s) s'" using acknowledge_effect by blast
  then show ?thesis using quiet_probation(2) by (fastforce simp: decided_by_hr_def get_decision_def)
qed (simp add: decided_by_hr_def get_decision_def)

text \<open>C28 Every signature on a review is that of somebody entitled to it: whatever operation runs after whatever sequence of them, each
  step whose row it changes and that then carries a signature carries the caller's, and the caller owns the step - the employee for
  the employee's steps, the line manager or HR for the manager's and the shared ones, HR or an administrator for the rest, never
  the person under review for another's step - and each outcome it records is recorded by HR or an administrator about somebody else.
  Moreover the stored review stays consistent: one row per step and one outcome; a pending step without signature; the
  acknowledgement signed by the employee; the self-assessment only ever ticked by the system; an extension, and only it, with the
  end it replaced; and a termination without letter.\<close>

theorem review_signatures:
  assumes "run (review_step E) review_others no_reviews s" "review_step E c s s'"
  shows "signed_by_owner c s s' \<and> decided_by_hr c s s' \<and> reviews_ok s'"
  using review_step_signed[OF assms(2)] review_step_decided[OF assms(2)] reviews_ok_run[OF run.run_step[OF assms]] by blast

end
