(* ===== verification/ProbationProps.thy ===== *)
theory ProbationProps
  imports ProbationLaws
begin

text \<open>
  What a recorded outcome does to the probation window, which steps it settles and which it leaves, and
  the order of the roster.
\<close>

subsection \<open>The window after a decision\<close>

lemma months_to_reach_least: "0 \<le> k \<Longrightarrow> tgt \<le> add_months start k \<Longrightarrow> months_to_reach start tgt \<le> k"
  using months_to_reach_spec(3)[of k start tgt] by linarith

lemma on_probation_window:
  "1 \<le> n \<Longrightarrow> on_probation (Some h) t n \<longleftrightarrow> t < min (probation_end h n) (add_months h 12)"
  using anniversaries_iff[of 12 h t] anniversaries_iff[of n h t]
  by (auto simp: on_probation_def tenure_of_def Let_def months_in_year_def probation_end_def)

lemma decide_stored:
  assumes "decide_probation E c i p letter s = Inr (r, s')"
  shows "\<exists>e effective months e' d. find_employee i s = Some e
    \<and> apply_outcome (org_today E s) (probation_months_of e s) e (get_decision i s) p = Inr (effective, months)
    \<and> e' = e\<lparr>probation_months := months\<rparr> \<and> find_employee i s' = Some e' \<and> leave_policy_row s' = leave_policy_row s
    \<and> get_decision i s' = Some d \<and> pd_outcome d = dc_outcome p \<and> pd_effective d = effective"
proof -
  obtain e effective months d s2 b where e: "visible_employee c i s = Inr e"
      and a: "apply_outcome (org_today E s) (probation_months_of e s) e (get_decision (emp_id e) s) p = Inr (effective, months)"
      and d: "d = decision_of c e p effective (end_before_extension e (get_decision (emp_id e) s) p s) (now s)
        \<or> d = (decision_of c e p effective (end_before_extension e (get_decision (emp_id e) s) p s) (now s))
             \<lparr>pd_letter_sent_at := Some (now s)\<rparr> \<and> dc_outcome p \<noteq> OUT_TERMINATED"
      and s2: "probation_decisions s2 = upsert pd_employee d (probation_decisions s)"
        "employees s2 = row_put emp_id (e\<lparr>probation_months := months\<rparr>) (employees s)" "leave_policy_row s2 = leave_policy_row s"
      and q: "quiet (mark_done_by_system (emp_id e) (decision_ticks d b) (now s) s2) s'"
    using decide_effect[OF assms] unfolding Let_def by blast
  have i: "find_employee i s = Some e" "emp_id e = i" using visible_employeeD[OF e] by simp_all
  have "find_employee i s' = Some (e\<lparr>probation_months := months\<rparr>)"
    using i quiet_probation(4)[OF q] by (simp add: find_employee_def s2 row_get_put)
  moreover have "pd_employee d = i" "pd_outcome d = dc_outcome p" "pd_effective d = effective"
    using d i(2) by (auto simp: decision_of_def)
  moreover from this have "get_decision i s' = Some d"
    using quiet_probation(2)[OF q] by (simp add: get_decision_def s2 row_get_upsert)
  ultimately show ?thesis using i a s2(3) quiet_probation(3)[OF q] by auto
qed

lemma months_after:
  assumes "leave_policy_row s' = leave_policy_row s"
  shows "probation_months_of (e\<lparr>probation_months := Some n\<rparr>) s' = (if n = 0 then policy_probation_months (get_leave_policy s) else n)"
    "probation_months_of (e\<lparr>probation_months := probation_months e\<rparr>) s' = probation_months_of e s"
proof -
  have p: "get_leave_policy s' = get_leave_policy s" using assms by (simp add: get_leave_policy_def)
  show "probation_months_of (e\<lparr>probation_months := Some n\<rparr>) s' = (if n = 0 then policy_probation_months (get_leave_policy s) else n)"
    "probation_months_of (e\<lparr>probation_months := probation_months e\<rparr>) s' = probation_months_of e s"
    unfolding probation_months_of_def p by simp_all
qed

text \<open>An extension that is accepted moves the end of the probation of somebody who has joined to the first monthly
  anniversary on or after the date HR picked; that is the date recorded for the letter, it lies in the future and at
  most 24 months after joining; and from then on the person counts as on probation on exactly the days before it that
  lie in their first year.
\<close>

theorem extension_sets_window:
  assumes "decide_probation E c i p letter s = Inr (r, s')" "dc_outcome p = OUT_EXTENDED"
    and "find_employee i s = Some e" "hire_date e = Some h" "h \<le> org_today E s"
  shows "\<exists>e' d. find_employee i s' = Some e' \<and> get_decision i s' = Some d
    \<and> pd_effective d = probation_end h (probation_months_of e' s') \<and> dc_effective p \<le> pd_effective d
    \<and> (\<forall>k. 0 \<le> k \<and> dc_effective p \<le> add_months h k \<longrightarrow> pd_effective d \<le> add_months h k)
    \<and> org_today E s < pd_effective d \<and> pd_effective d \<le> add_months h 24
    \<and> (\<forall>t. on_probation (hire_date e') t (probation_months_of e' s') = (t < min (pd_effective d) (add_months h 12)))"
proof -
  obtain effective months d where a: "apply_outcome (org_today E s) (probation_months_of e s) e (get_decision i s) p = Inr (effective, months)"
      and e': "find_employee i s' = Some (e\<lparr>probation_months := months\<rparr>)" "leave_policy_row s' = leave_policy_row s"
      and d: "get_decision i s' = Some d" "pd_effective d = effective"
    using decide_stored[OF assms(1)] assms(3) by auto
  define n where "n = months_to_reach h (dc_effective p)"
  have n: "effective = probation_end h n" "months = Some n" "org_today E s < effective" "n \<le> 24"
    using a assms(2,4) by (auto simp: apply_outcome_def Let_def n_def max_probation_months_def split: if_splits)
  have spec: "0 \<le> n" "dc_effective p \<le> add_months h n" using months_to_reach_spec[where start=h and tgt="dc_effective p"] by (simp_all add: n_def)
  have "n \<noteq> 0" using n(1,3) assms(5) by (auto simp: probation_end_def)
  then have m: "probation_months_of (e\<lparr>probation_months := months\<rparr>) s' = n" and "1 \<le> n"
    using months_after(1)[OF e'(2)] n(2) spec(1) by simp_all
  have "add_months h n \<le> add_months h k" if "0 \<le> k" "dc_effective p \<le> add_months h k" for k
    using months_to_reach_least[OF that] by (simp add: n_def)
  then show ?thesis using e'(1) d m n spec assms(4) on_probation_window[OF \<open>1 \<le> n\<close>]
    by (auto simp: probation_end_def)
qed

text \<open>A confirmation that is accepted records the date HR picked, and from that date on the person is not on probation
  any more, whatever window they had before; only somebody confirmed within their first month stays on probation until
  that month is over.
\<close>

theorem confirmation_ends_probation:
  assumes "decide_probation E c i p letter s = Inr (r, s')" "dc_outcome p = OUT_CONFIRMED"
    and "find_employee i s = Some e" "hire_date e = Some h" "1 \<le> probation_months_of e s"
    and "dc_effective p \<le> t" "add_months h 1 \<le> t"
  shows "\<exists>e' d. find_employee i s' = Some e' \<and> get_decision i s' = Some d \<and> pd_effective d = dc_effective p
    \<and> \<not> on_probation (hire_date e') t (probation_months_of e' s')"
proof -
  obtain effective months d where a: "apply_outcome (org_today E s) (probation_months_of e s) e (get_decision i s) p = Inr (effective, months)"
      and e': "find_employee i s' = Some (e\<lparr>probation_months := months\<rparr>)" "leave_policy_row s' = leave_policy_row s"
      and d: "get_decision i s' = Some d" "pd_effective d = effective"
    using decide_stored[OF assms(1)] assms(3) by auto
  let ?n = "probation_months_of (e\<lparr>probation_months := months\<rparr>) s'"
  let ?k = "max 1 (anniversaries_reached h (dc_effective p))"
  have eff: "effective = dc_effective p" and months: "months = (if probation_end h (probation_months_of e s) > dc_effective p
      then Some ?k else probation_months e)"
    using a assms(2,4) by (auto simp: apply_outcome_def Let_def)
  have "1 \<le> ?n \<and> probation_end h ?n \<le> t"
  proof (cases "probation_end h (probation_months_of e s) > dc_effective p")
    case True
    moreover have "?k \<noteq> 0" by simp
    ultimately have "?n = ?k" using months_after(1)[OF e'(2), of ?k e] months by simp
    moreover have "add_months h ?k \<le> t"
    proof (cases "1 \<le> anniversaries_reached h (dc_effective p)")
      case True
      then show ?thesis using anniversaries_iff[OF True, of h "dc_effective p"] assms(6) by simp
    next
      case False
      then show ?thesis using assms(7) by simp
    qed
    ultimately show ?thesis by (simp add: probation_end_def)
  next
    case False
    then have "?n = probation_months_of e s" using months_after(2)[OF e'(2), of e] months by simp
    then show ?thesis using False assms(5,6) by simp
  qed
  then show ?thesis using e'(1) d eff assms(4) on_probation_window[of ?n h t] by auto
qed

subsection \<open>A decision on a concrete review\<close>

lemma decide_succeeds:
  assumes "visible_employee c i s = Inr e" "may_manage c" "check_standard_letter_inputs e p (letter \<noteq> None) = Inr ()"
    and "apply_outcome (org_today E s) (probation_months_of e s) e (get_decision (emp_id e) s) p = Inr x"
  shows "\<exists>r s'. decide_probation E c i p letter s = Inr (r, s')"
  using assms by (cases x) (auto simp: decide_probation_def Let_def case_prod_unfold)

definition demo_probationer :: employee where
  "demo_probationer = (demo_employee 2 EXECUTIVE)\<lparr>manager_id := Some 3, hire_date := Some (mk_date 1969 9 15)\<rparr>"

definition demo_review_db :: "checklist_item list \<Rightarrow> probation_db" where
  "demo_review_db xs = \<lparr>now = 0, next_id = 100, employees = [demo_employee 1 HR, demo_probationer, demo_employee 3 MANAGER],
     audit_log = [], inbox = [], mail_log = [], adjustments = [], payslips = [], payroll_runs = [],
     leaves = [], leave_comments = [], leave_policy_row = None, allocations = [], tier_quotas = [],
     holiday_dates = [], work_week = 5, biometric_id = (\<lambda>i. None),
     hr_external_id = nat_str, location_check_exempt = (\<lambda>i. False), offices = [], work_sessions = [],
     samples = [], regs = [], day_overrides = [], ooo_entries = [], resignations = [],
     att_policy_row = default_att_policy, checklist_items = xs, probation_decisions = []\<rparr>"

definition demo_decision :: "probation_outcome \<Rightarrow> date \<Rightarrow> decision_create" where
  "demo_decision out d = \<lparr>dc_outcome = out, dc_effective = d, dc_job_title = Some ''Engineer'', dc_note = None,
     dc_send_letter = True, dc_expectations = (if out = OUT_EXTENDED then [''Ship on time''] else [])\<rparr>"

lemma demo_epoch: "utc_day 0 = mk_date 1970 1 1"
  by code_simp

lemma demo_review_fields [simp]:
  "find_employee 2 (demo_review_db xs) = Some demo_probationer" "get_decision i (demo_review_db xs) = None"
  "hire_date demo_probationer = Some (mk_date 1969 9 15)" "emp_id demo_probationer = 2"
  "probation_months_of demo_probationer (demo_review_db xs) = 6" "org_today demo_E (demo_review_db xs) = mk_date 1970 1 1"
  "visible_employee demo_hr 2 (demo_review_db xs) = Inr demo_probationer" "may_manage demo_hr"
  by (simp_all add: demo_review_db_def find_employee_def row_get_def demo_employee_def demo_probationer_def get_decision_def
      probation_months_of_def get_leave_policy_def default_leave_policy_def org_today_def local_day_def
      visible_employee_def can_read_def scope_clause_def may_manage_def demo_env_def demo_epoch)

lemma demo_outcomes [simp]:
  "apply_outcome (mk_date 1970 1 1) 6 demo_probationer None (demo_decision OUT_EXTENDED (mk_date 1970 5 1)) = Inr (mk_date 1970 5 15, Some 8)"
  "apply_outcome (mk_date 1970 1 1) 6 demo_probationer None (demo_decision OUT_CONFIRMED (mk_date 1970 1 20)) = Inr (mk_date 1970 1 20, Some 4)"
  by code_simp+

lemma demo_decides:
  assumes "apply_outcome (mk_date 1970 1 1) 6 demo_probationer None (demo_decision out d) = Inr x"
  shows "\<exists>r s'. decide_probation demo_E demo_hr 2 (demo_decision out d) None (demo_review_db xs) = Inr (r, s')"
  by (rule decide_succeeds[OF demo_review_fields(7,8), where x=x])
    (use assms in \<open>simp_all add: check_standard_letter_inputs_def demo_decision_def truthy_def or_empty_def\<close>)

theorem extension_sets_window_witness:
  "\<exists>r s' d. decide_probation demo_E demo_hr 2 (demo_decision OUT_EXTENDED (mk_date 1970 5 1)) None (demo_review_db []) = Inr (r, s')
     \<and> get_decision 2 s' = Some d \<and> mk_date 1970 5 1 \<le> pd_effective d"
proof -
  obtain r s' where d: "decide_probation demo_E demo_hr 2 (demo_decision OUT_EXTENDED (mk_date 1970 5 1)) None (demo_review_db []) = Inr (r, s')"
    using demo_decides[OF demo_outcomes(1)] by blast
  have "mk_date 1969 9 15 \<le> mk_date 1970 1 1" by code_simp
  then have "mk_date 1969 9 15 \<le> org_today demo_E (demo_review_db [])" by simp
  from extension_sets_window[OF d _ demo_review_fields(1,3) this] d show ?thesis
    by (auto simp: demo_decision_def)
qed

theorem confirmation_ends_probation_witness:
  "\<exists>r s' e'. decide_probation demo_E demo_hr 2 (demo_decision OUT_CONFIRMED (mk_date 1970 1 20)) None (demo_review_db []) = Inr (r, s')
     \<and> find_employee 2 s' = Some e' \<and> \<not> on_probation (hire_date e') (mk_date 1970 1 20) (probation_months_of e' s')"
proof -
  obtain r s' where d: "decide_probation demo_E demo_hr 2 (demo_decision OUT_CONFIRMED (mk_date 1970 1 20)) None (demo_review_db []) = Inr (r, s')"
    using demo_decides[OF demo_outcomes(2)] by blast
  have "add_months (mk_date 1969 9 15) 1 \<le> mk_date 1970 1 20" by code_simp
  from confirmation_ends_probation[OF d _ demo_review_fields(1,3) _ _ this] d show ?thesis
    by (auto simp: demo_decision_def)
qed

theorem review_signatures_witness:
  "\<exists>r s'. decide_probation demo_E demo_hr 2 (demo_decision OUT_CONFIRMED (mk_date 1970 1 20)) None (demo_review_db []) = Inr (r, s')
     \<and> signed_by_owner demo_hr (demo_review_db []) s' \<and> decided_by_hr demo_hr (demo_review_db []) s' \<and> reviews_ok s'"
proof -
  obtain r s' where d: "decide_probation demo_E demo_hr 2 (demo_decision OUT_CONFIRMED (mk_date 1970 1 20)) None (demo_review_db []) = Inr (r, s')"
    using demo_decides[OF demo_outcomes(2)] by blast
  have init: "run (review_step demo_E) review_others no_reviews (demo_review_db [])"
    by (rule run_init) (simp add: no_reviews_def demo_review_db_def)
  have step: "review_step demo_E demo_hr (demo_review_db []) s'"
    by (rule review_decided[OF _ d]) (simp add: decision_create_ok_def demo_decision_def)
  show ?thesis using d review_signatures[OF init step] by blast
qed

subsection \<open>What a decision leaves of the checklist\<close>

text \<open>
  Recording an outcome moves no step but the decision, the letter and the HRMS step of that review; a termination only
  the decision step. So a letter step ticked for an earlier outcome keeps its note, and an acknowledgement signed for an
  earlier letter still counts for the next one.
\<close>

theorem decision_steps_frame:
  assumes "decide_probation E c i p letter s = Inr (r, s')" "j \<noteq> i \<or> m \<notin> (if dc_outcome p = OUT_TERMINATED then {7} else {7, 13, 15})"
  shows "get_item j m s' = get_item j m s"
proof -
  obtain e effective d s2 b where e: "visible_employee c i s = Inr e"
      and d: "d = decision_of c e p effective (end_before_extension e (get_decision (emp_id e) s) p s) (now s)
        \<or> d = (decision_of c e p effective (end_before_extension e (get_decision (emp_id e) s) p s) (now s))
             \<lparr>pd_letter_sent_at := Some (now s)\<rparr> \<and> dc_outcome p \<noteq> OUT_TERMINATED"
      and s2: "checklist_items s2 = checklist_items s"
      and q: "quiet (mark_done_by_system (emp_id e) (decision_ticks d b) (now s) s2) s'"
    using decide_effect[OF assms(1)] unfolding Let_def by blast
  have "pd_outcome d = dc_outcome p" using d by (auto simp: decision_of_def)
  then have "fst ` set (decision_ticks d b) \<subseteq> (if dc_outcome p = OUT_TERMINATED then {7} else {7, 13, 15})"
    using decision_ticks_steps[of d b] decision_ticks_terminated[of d b] by (cases "dc_outcome p = OUT_TERMINATED") simp_all
  then have "get_item j m (mark_done_by_system (emp_id e) (decision_ticks d b) (now s) s2) = get_item j m s2"
    using assms(2) visible_employeeD[OF e] by (intro mark_done_other) auto
  then show ?thesis using quiet_probation(1)[OF q] s2 by (simp add: get_item_def)
qed

theorem stale_letter_note:
  assumes "decide_probation E c i p letter s = Inr (r, s')" "dc_outcome p = OUT_TERMINATED"
  shows "get_item i 13 s' = get_item i 13 s \<and> get_item i 15 s' = get_item i 15 s"
  using decision_steps_frame[OF assms(1)] assms(2) by simp

theorem acknowledgement_carries_over:
  assumes "decide_probation E c i p letter s = Inr (r, s')" "get_item i acknowledge_step s = Some k" "ci_status k = STEP_DONE"
    and "cu_id c' = i" "my_probation_of E c' s' = Some my"
  shows "\<not> my_needs_acknowledgement my"
proof -
  have "get_item i acknowledge_step s' = Some k"
    using decision_steps_frame[OF assms(1)] assms(2) by (simp add: acknowledge_step_def)
  moreover obtain e where "find_employee i s' = Some e" "emp_id e = i"
    using assms(4,5) row_get_SomeD[of emp_id i "employees s'"] by (auto simp: my_probation_of_def find_employee_def bind_eq_Some_conv)
  ultimately show ?thesis using assms(3-5)
    by (auto simp: my_probation_of_def bind_eq_Some_conv Let_def split: if_splits)
qed

subsection \<open>The roster\<close>

lemma set_map_filter: "set (List.map_filter f xs) = {y. \<exists>x \<in> set xs. f x = Some y}"
  by (induction xs) (auto simp: map_filter_simps split: option.splits)

lemma roster_entry_ofD: "roster_entry_of today s e = Some x \<Longrightarrow> ro_employee x = emp_id e
    \<and> ro_days_to_end x = ro_ends_on x - today \<and> (ro_on_probation x \<or> - recent_confirmation_days \<le> ro_days_to_end x)
    \<and> (ro_review_due x \<longrightarrow> ro_on_probation x \<and> ro_days_to_end x \<le> review_lead_days)"
  by (auto simp: roster_entry_of_def Let_def split: option.splits if_splits)

text \<open>
  The roster never lists the caller, shows people who are on probation or whose window ended at most 60
  days ago, those on probation first and within each part in the order of the day the window ends: the people confirmed
  longest ago come before the ones confirmed last.
\<close>

theorem roster_order:
  fixes s :: "'a probation_db_scheme" and E c
  defines "rs \<equiv> fst (probation_roster E c s)"
  shows "sorted_wrt (\<lambda>a b. (ro_on_probation b \<longrightarrow> ro_on_probation a)
      \<and> (ro_on_probation a = ro_on_probation b \<longrightarrow> ro_ends_on a \<le> ro_ends_on b)) rs
    \<and> list_all (\<lambda>x. ro_employee x \<noteq> cu_id c \<and> (ro_on_probation x \<or> org_today E s - 60 \<le> ro_ends_on x)) rs"
proof -
  let ?k = "\<lambda>x. (\<not> ro_on_probation x, ro_days_to_end x, ro_name x)"
  let ?es = "List.map_filter (roster_entry_of (org_today E s) s) (filter (\<lambda>e. emp_id e \<noteq> cu_id c) (all_in_scope E c s))"
  have rs: "rs = sort_key ?k ?es" by (simp add: rs_def probation_roster_def Let_def)
  have mem: "ro_employee x \<noteq> cu_id c \<and> ro_days_to_end x = ro_ends_on x - org_today E s
      \<and> (ro_on_probation x \<or> - 60 \<le> ro_days_to_end x)" if x: "x \<in> set rs" for x
  proof -
    obtain e where "roster_entry_of (org_today E s) s e = Some x" "emp_id e \<noteq> cu_id c"
      using x unfolding rs set_sort set_map_filter by auto
    then show ?thesis using roster_entry_ofD[of "org_today E s" s e x] by (auto simp: recent_confirmation_days_def)
  qed
  have "sorted (map ?k rs)" by (simp add: rs)
  then have "sorted_wrt (\<lambda>a b. ?k a \<le> ?k b) rs" by (simp add: sorted_map)
  then have "sorted_wrt (\<lambda>a b. (ro_on_probation b \<longrightarrow> ro_on_probation a)
      \<and> (ro_on_probation a = ro_on_probation b \<longrightarrow> ro_ends_on a \<le> ro_ends_on b)) rs"
  proof (rule sorted_wrt_mono_rel[rotated])
    fix a b assume "a \<in> set rs" "b \<in> set rs" "?k a \<le> ?k b"
    then show "(ro_on_probation b \<longrightarrow> ro_on_probation a) \<and> (ro_on_probation a = ro_on_probation b \<longrightarrow> ro_ends_on a \<le> ro_ends_on b)"
      using mem[of a] mem[of b] by (auto simp: less_eq_prod_def split: if_splits)
  qed
  moreover have "list_all (\<lambda>x. ro_employee x \<noteq> cu_id c \<and> (ro_on_probation x \<or> org_today E s - 60 \<le> ro_ends_on x)) rs"
    using mem by (fastforce simp: list_all_iff)
  ultimately show ?thesis by blast
qed

end
