(* ===== verification/RequestGuards.thy ===== *)
theory RequestGuards
  imports ProbationProps
begin

text \<open>
  What stands between a repeated request and the services: the fixed-window rate limiter
  (\<open>app/core/ratelimit.py\<close> and its use in \<open>app/core/deps.py\<close>) and the idempotency keys
  (\<open>app/services/idempotency.py\<close>, \<open>app/repositories/idempotency.py\<close>, \<open>app/models/idempotency_key.py\<close>).
\<close>

subsection \<open>The rate limiter\<close>

text \<open>Instants are ticks of the monotonic clock; a key that was never seen has the bucket \<open>(0, 0)\<close>.\<close>

record limiter =
  max_requests :: int
  window_ticks :: int
  buckets :: "string \<Rightarrow> (int \<times> int) option"

definition bucket_of :: "limiter \<Rightarrow> string \<Rightarrow> int \<times> int" where
  "bucket_of l key = (case buckets l key of None \<Rightarrow> (0, 0) | Some b \<Rightarrow> b)"

definition allow :: "int \<Rightarrow> string \<Rightarrow> limiter \<Rightarrow> bool \<times> limiter" where
  "allow t key l =
    (let (start, count) = bucket_of l key
     in if t - start \<ge> window_ticks l then (True, l\<lparr>buckets := (buckets l)(key \<mapsto> (t, 1))\<rparr>)
        else if count \<ge> max_requests l then (False, l\<lparr>buckets := (buckets l)(key \<mapsto> (start, count))\<rparr>)
        else (True, l\<lparr>buckets := (buckets l)(key \<mapsto> (start, count + 1))\<rparr>))"

definition new_limiter :: "int \<Rightarrow> int \<Rightarrow> limiter" where
  "new_limiter m w = \<lparr>max_requests = m, window_ticks = w, buckets = Map.empty\<rparr>"

text \<open>\<open>_make_user_rate_limit\<close>: the dependency in front of a route.\<close>

definition verify_rate_limit :: "string \<Rightarrow> int \<Rightarrow> current_user \<Rightarrow> limiter \<Rightarrow> current_user res \<times> limiter" where
  "verify_rate_limit prefix t c l =
    (let (ok, l') = allow t (prefix @ '':'' @ uuid_str (cu_id c)) l
     in (if ok then Inr c else Inl RateLimitError, l'))"

text \<open>A history of calls \<open>(instant, key)\<close>, and the instants at which one key was let through.\<close>

fun admitted :: "string \<Rightarrow> (int \<times> string) list \<Rightarrow> limiter \<Rightarrow> int list" where
  "admitted k [] l = []"
| "admitted k ((t, key) # calls) l =
     (let (ok, l') = allow t key l in (if ok \<and> key = k then [t] else []) @ admitted k calls l')"

definition admissions :: "int list \<Rightarrow> int \<Rightarrow> int \<Rightarrow> int" where
  "admissions ts a b = int (length (filter (\<lambda>t. a \<le> t \<and> t < b) ts))"

lemma admissions_Nil [simp]: "admissions [] a b = 0"
  by (simp add: admissions_def)

lemma admissions_snoc: "admissions (ts @ [t]) a b = admissions ts a b + (if a \<le> t \<and> t < b then 1 else 0)"
  by (simp add: admissions_def)

lemma admissions_nonneg: "0 \<le> admissions ts a b"
  by (simp add: admissions_def)

lemma admissions_mono: "a' \<le> a \<Longrightarrow> b \<le> b' \<Longrightarrow> admissions ts a b \<le> admissions ts a' b'"
  unfolding admissions_def by (induction ts) auto

lemma admissions_split: "a \<le> m \<Longrightarrow> m \<le> b \<Longrightarrow> admissions ts a b = admissions ts a m + admissions ts m b"
  unfolding admissions_def by (induction ts) auto

lemma admissions_past: "\<forall>t \<in> set ts. t < b \<Longrightarrow> b \<le> b' \<Longrightarrow> admissions ts a b' = admissions ts a b"
  unfolding admissions_def by (induction ts) auto

text \<open>
  The state of one key after the admissions \<open>ts\<close>: its window holds the count, the window before it
  stayed within the limit, and so does every stretch as long as a window, twice over.
\<close>

definition bucket_ok :: "int \<Rightarrow> int \<Rightarrow> int \<times> int \<Rightarrow> int list \<Rightarrow> bool" where
  "bucket_ok m w b ts \<longleftrightarrow> (\<forall>t \<in> set ts. t < fst b + w)
     \<and> admissions ts (fst b) (fst b + w) \<le> snd b \<and> snd b \<le> max 1 m
     \<and> admissions ts (fst b - w) (fst b) \<le> max 1 m \<and> (\<forall>a. admissions ts a (a + w) \<le> 2 * max 1 m)"

lemma bucket_ok_new_window:
  assumes "bucket_ok m w (start, n) ts" "t - start \<ge> w" "0 < w"
  shows "bucket_ok m w (t, 1) (ts @ [t])"
proof -
  note b = assms(1)[unfolded bucket_ok_def fst_conv snd_conv]
  have old: "admissions ts a b' = admissions ts a t" if "t \<le> b'" for a b'
    using b assms(2) that by (intro admissions_past) auto
  have "admissions ts (t - w) t \<le> admissions ts start (start + w)"
    using b assms(2) admissions_past[of ts "start + w" t "t - w"] admissions_mono[of start "t - w" "start + w" "start + w" ts] by simp
  then have recent: "admissions ts (t - w) t \<le> max 1 m" using b by linarith
  have "admissions (ts @ [t]) a (a + w) \<le> 2 * max 1 m" for a
    using b recent old[of "a + w" a] admissions_mono[of "t - w" a t t ts] by (auto simp: admissions_snoc)
  moreover have "admissions ts t (t + w) = 0" using old[of "t + w" t] assms(3) by (simp add: admissions_def)
  moreover have "\<forall>x \<in> set (ts @ [t]). x < t + w" using b assms(2,3) by auto
  ultimately show ?thesis using recent assms(3) by (simp add: bucket_ok_def admissions_snoc)
qed

lemma bucket_ok_same_window:
  assumes "bucket_ok m w (start, n) ts" "start \<le> t" "t - start < w" "n < m"
  shows "bucket_ok m w (start, n + 1) (ts @ [t])"
proof -
  note b = assms(1)[unfolded bucket_ok_def fst_conv snd_conv]
  have "admissions (ts @ [t]) a (a + w) \<le> 2 * max 1 m" for a
  proof (cases "a \<le> t \<and> t < a + w")
    case in_window: True
    show ?thesis
    proof (cases "start \<le> a")
      case True
      then have "admissions ts a (a + w) \<le> n"
        using b admissions_past[of ts "start + w" "a + w" a] admissions_mono[of start a "start + w" "start + w" ts] by simp
      then show ?thesis using in_window assms(4) by (simp add: admissions_snoc)
    next
      case False
      then have "admissions ts a (a + w) = admissions ts a start + admissions ts start (a + w)"
        using in_window assms(2) by (intro admissions_split) auto
      moreover have "admissions ts a start \<le> max 1 m"
        using b in_window assms(2) admissions_mono[of "start - w" a start start ts] by linarith
      moreover have "admissions ts start (a + w) \<le> n"
        using b False admissions_mono[of start start "a + w" "start + w" ts] by simp
      ultimately have "admissions ts a (a + w) + 1 \<le> 2 * max 1 m" using assms(4) by linarith
      then show ?thesis using in_window by (simp add: admissions_snoc)
    qed
  next
    case False
    then show ?thesis using b by (auto simp: admissions_snoc)
  qed
  moreover have "admissions (ts @ [t]) (start - w) start = admissions ts (start - w) start"
    using assms(2) by (simp add: admissions_snoc)
  ultimately show ?thesis using b assms(2-4) by (auto simp: bucket_ok_def admissions_snoc)
qed

text \<open>One call moves the bucket of its key only.\<close>

lemma allow_bucket:
  assumes "bucket_ok (max_requests l) (window_ticks l) (bucket_of l k) ts" "fst (bucket_of l k) \<le> t" "0 < window_ticks l"
    and "allow t key l = (ok, l')"
  shows "max_requests l' = max_requests l \<and> window_ticks l' = window_ticks l \<and> fst (bucket_of l' k) \<le> t
    \<and> bucket_ok (max_requests l) (window_ticks l) (bucket_of l' k) (ts @ (if ok \<and> key = k then [t] else []))"
proof (cases "key = k")
  case False
  then show ?thesis using assms by (auto simp: allow_def Let_def bucket_of_def split: prod.splits if_splits)
next
  case True
  obtain start n where sn: "bucket_of l k = (start, n)" by fastforce
  note new = bucket_ok_new_window[of "max_requests l" "window_ticks l" start n ts t]
    and same = bucket_ok_same_window[of "max_requests l" "window_ticks l" start n ts t]
  show ?thesis using assms sn True new same
    by (auto simp: allow_def Let_def bucket_of_def split: if_splits)
qed

lemma admitted_bucket:
  assumes "bucket_ok (max_requests l) (window_ticks l) (bucket_of l k) ts" "0 < window_ticks l"
    and "sorted (map fst calls)" "\<forall>c \<in> set calls. fst (bucket_of l k) \<le> fst c"
  shows "admissions (ts @ admitted k calls l) a (a + window_ticks l) \<le> 2 * max 1 (max_requests l)"
  using assms
proof (induction calls arbitrary: l ts)
  case Nil
  then show ?case by (simp add: bucket_ok_def)
next
  case (Cons c calls)
  obtain t key ok l' where c: "c = (t, key)" "allow t key l = (ok, l')" by (cases c) fastforce
  have a: "max_requests l' = max_requests l \<and> window_ticks l' = window_ticks l \<and> fst (bucket_of l' k) \<le> t
      \<and> bucket_ok (max_requests l) (window_ticks l) (bucket_of l' k) (ts @ (if ok \<and> key = k then [t] else []))"
    using Cons.prems(4) c(1) by (intro allow_bucket[OF Cons.prems(1) _ Cons.prems(2) c(2)]) simp
  have "\<forall>x \<in> set calls. fst (bucket_of l' k) \<le> fst x" using a Cons.prems(3) c(1) by fastforce
  then show ?case
    using Cons.IH[of l' "ts @ (if ok \<and> key = k then [t] else [])"] a Cons.prems(2,3) c by simp
qed

text \<open>C39 Whatever the calls and the keys of the other users: in no stretch of time as long as the window
  does the limiter let one key through more than twice its limit (a limit below one counts as one).
\<close>

theorem rate_limit_bound:
  assumes "0 < w" "sorted (map fst calls)" "\<forall>c \<in> set calls. 0 \<le> fst c"
  shows "admissions (admitted k calls (new_limiter m w)) a (a + w) \<le> 2 * max 1 m"
proof -
  have "bucket_ok (max_requests (new_limiter m w)) (window_ticks (new_limiter m w)) (bucket_of (new_limiter m w) k) []"
    by (simp add: bucket_ok_def new_limiter_def bucket_of_def)
  from admitted_bucket[OF this _ assms(2)] assms(1,3) show ?thesis by (simp add: new_limiter_def bucket_of_def)
qed

theorem rate_limit_bound_witness:
  "admissions (admitted ''a'' [(58, ''a''), (59, ''a''), (60, ''a''), (60, ''b''), (61, ''a''), (62, ''a'')] (new_limiter 2 60)) 58 (58 + 60) \<le> 2 * max 1 2
   \<and> admitted ''a'' [(58, ''a''), (59, ''a''), (60, ''a''), (60, ''b''), (61, ''a''), (62, ''a'')] (new_limiter 2 60) = [58, 59, 60, 61]"
proof -
  have "sorted (map fst [(58, ''a''), (59, ''a''), (60, ''a''), (60, ''b''), (61, ''a''), (62 :: int, ''a'')])" by simp
  from rate_limit_bound[OF _ this, of 60 "''a''" 2 58] show ?thesis
    by (simp add: allow_def new_limiter_def bucket_of_def)
qed

subsection \<open>Idempotency keys\<close>

datatype idempotency_status = IN_PROGRESS | COMPLETED

record idempotency_key =
  ik_id :: uuid
  ik_principal :: uuid
  ik_scope :: string
  ik_key :: string
  ik_request_hash :: string
  ik_status :: idempotency_status
  ik_response :: "string option"
  ik_response_status :: "int option"

record guard_db = time_db +
  idempotency_keys :: "idempotency_key list"

definition ik_index :: "idempotency_key \<Rightarrow> uuid \<times> string \<times> string" where
  "ik_index r = (ik_principal r, ik_scope r, ik_key r)"

text \<open>
  \<open>claim\<close>: the existing record, or a fresh one in progress. Requests with the same index are served one
  after the other, since the second waits on the unique index until the first has committed.
\<close>

definition claim_key :: "uuid \<times> string \<times> string \<Rightarrow> string \<Rightarrow> 'a guard_db_scheme \<Rightarrow> (idempotency_key \<times> bool) \<times> 'a guard_db_scheme" where
  "claim_key ix h s =
    (case row_get ik_index ix (idempotency_keys s) of
       Some r \<Rightarrow> ((r, False), s)
     | None \<Rightarrow>
        let r = \<lparr>ik_id = next_id s, ik_principal = fst ix, ik_scope = fst (snd ix), ik_key = snd (snd ix),
                 ik_request_hash = h, ik_status = IN_PROGRESS, ik_response = None, ik_response_status = None\<rparr>
        in ((r, True), s\<lparr>idempotency_keys := row_add r (idempotency_keys s), next_id := next_id s + 1\<rparr>))"

definition complete_key :: "idempotency_key \<Rightarrow> string \<Rightarrow> int \<Rightarrow> 'a guard_db_scheme \<Rightarrow> 'a guard_db_scheme" where
  "complete_key r data st s =
    s\<lparr>idempotency_keys := row_put ik_index (r\<lparr>ik_status := COMPLETED, ik_response := Some data, ik_response_status := Some st\<rparr>)
        (idempotency_keys s)\<rparr>"

text \<open>
  The answer: the result of the operation, or the stored data of an earlier run. \<open>encode\<close> stands
  for the JSON encoder of the web framework, and the body arrives as its canonical JSON text.
\<close>

datatype 'r answer = Fresh 'r | Replayed "string option"

type_synonym ('r, 'a) operation = "'a guard_db_scheme \<Rightarrow> ('r \<times> 'a guard_db_scheme) res"

definition run_once :: "env \<Rightarrow> ('r \<Rightarrow> string) \<Rightarrow> uuid \<Rightarrow> string \<Rightarrow> string option \<Rightarrow> string \<Rightarrow> ('r, 'a) operation \<Rightarrow> int
    \<Rightarrow> 'a guard_db_scheme \<Rightarrow> ('r answer \<times> 'a guard_db_scheme) res" where
  "run_once E encode i scope key body oper st s =
    (case key of
       None \<Rightarrow> ebind (oper s) (\<lambda>(r, s'). Inr (Fresh r, s'))
     | Some k \<Rightarrow>
        let h = sha256_hex E body; ((rec, is_new), s1) = claim_key (i, scope, k) h s
        in if \<not> is_new then
             (if ik_request_hash rec \<noteq> h then Inl (ValidationError ''Idempotency-Key was already used with a different request.'')
              else if ik_status rec \<noteq> COMPLETED
                then Inl (ConflictError ''A request with this Idempotency-Key is still being processed.'')
              else Inr (Replayed (ik_response rec), s1))
           else ebind (oper s1) (\<lambda>(r, s2). Inr (Fresh r, complete_key rec (encode r) st s2)))"

text \<open>The named hypothesis on the operations: they do not touch the records of the idempotency service.\<close>

definition leaves_keys :: "('r, 'a) operation \<Rightarrow> bool" where
  "leaves_keys oper \<longleftrightarrow> (\<forall>s r s'. oper s = Inr (r, s') \<longrightarrow> idempotency_keys s' = idempotency_keys s)"

definition completed_with :: "env \<Rightarrow> uuid \<times> string \<times> string \<Rightarrow> string \<Rightarrow> string \<Rightarrow> 'a guard_db_scheme \<Rightarrow> bool" where
  "completed_with E ix body data s \<longleftrightarrow> (\<exists>r. row_get ik_index ix (idempotency_keys s) = Some r
     \<and> ik_request_hash r = sha256_hex E body \<and> ik_status r = COMPLETED \<and> ik_response r = Some data)"

lemma row_get_last: "row_get key k rows = None \<Longrightarrow> key r = k \<Longrightarrow> row_get key k (rows @ [r]) = Some r"
  by (induction rows) (auto simp: row_get_def split: if_splits)

text \<open>A request that ran the operation leaves its record completed; so does any later request of whatever key.\<close>

lemma run_once_completes:
  assumes "run_once E encode i scope (Some k) body oper st s = Inr (Fresh r, s')" "leaves_keys oper"
  shows "row_get ik_index (i, scope, k) (idempotency_keys s) = None \<and> completed_with E (i, scope, k) body (encode r) s'"
proof -
  let ?ix = "(i, scope, k)"
  have none: "row_get ik_index ?ix (idempotency_keys s) = None"
    using assms(1) by (auto simp: run_once_def claim_key_def Let_def ebind_Inr_iff split: option.splits if_splits)
  define rec where "rec = \<lparr>ik_id = next_id s, ik_principal = i, ik_scope = scope, ik_key = k,
                 ik_request_hash = sha256_hex E body, ik_status = IN_PROGRESS, ik_response = None, ik_response_status = None\<rparr>"
  define s1 where "s1 = s\<lparr>idempotency_keys := row_add rec (idempotency_keys s), next_id := next_id s + 1\<rparr>"
  obtain s2 where s2: "oper s1 = Inr (r, s2)" "s' = complete_key rec (encode r) st s2"
    using assms(1) none by (auto simp: run_once_def claim_key_def Let_def ebind_Inr_iff rec_def s1_def)
  then have keys: "idempotency_keys s2 = idempotency_keys s @ [rec]"
    using assms(2) by (auto simp: leaves_keys_def s1_def row_add_def)
  have ix: "ik_index rec = ?ix" by (simp add: ik_index_def rec_def)
  have "row_get ik_index ?ix (idempotency_keys s2) = Some rec" unfolding keys by (rule row_get_last[OF none ix])
  then have "row_get ik_index ?ix (idempotency_keys s') = Some (rec\<lparr>ik_status := COMPLETED, ik_response := Some (encode r), ik_response_status := Some st\<rparr>)"
    using ix by (simp add: s2(2) complete_key_def row_get_put ik_index_def)
  then show ?thesis using none by (simp add: completed_with_def rec_def)
qed

lemma completed_stays:
  assumes "completed_with E ix body data s" "run_once E' encode i scope key body' oper st s = Inr (a, s')" "leaves_keys oper"
  shows "completed_with E ix body data s'"
proof (cases key)
  case None
  then have "idempotency_keys s' = idempotency_keys s"
    using assms(2,3) by (auto simp: run_once_def ebind_Inr_iff leaves_keys_def)
  then show ?thesis using assms(1) by (simp add: completed_with_def)
next
  case (Some k)
  show ?thesis
  proof (cases "row_get ik_index (i, scope, k) (idempotency_keys s)")
    case None
    then obtain rec s1 s2 r where s: "idempotency_keys s1 = row_add rec (idempotency_keys s)" "oper s1 = Inr (r, s2)"
        "s' = complete_key rec (encode r) st s2" "ik_index rec = (i, scope, k)"
      using assms(2) Some by (force simp: run_once_def claim_key_def Let_def ebind_Inr_iff ik_index_def)
    obtain x where x: "row_get ik_index ix (idempotency_keys s) = Some x" using assms(1) by (auto simp: completed_with_def)
    then have "ix \<noteq> (i, scope, k)" using None by auto
    moreover have "idempotency_keys s2 = row_add rec (idempotency_keys s)" using s(1,2) assms(3) by (auto simp: leaves_keys_def)
    ultimately have "row_get ik_index ix (idempotency_keys s') = row_get ik_index ix (idempotency_keys s)"
      using x s(4) by (simp add: s(3) complete_key_def row_get_put row_get_add ik_index_def)
    then show ?thesis using assms(1) by (simp add: completed_with_def)
  next
    case (Some r)
    then have "s' = s" using assms(2) \<open>key = Some k\<close>
      by (auto simp: run_once_def claim_key_def Let_def split: if_splits)
    then show ?thesis using assms(1) by simp
  qed
qed

text \<open>Any number of later requests under any keys, as the service answers them one after the other; one that fails is
  rolled back.\<close>

inductive served :: "('r \<Rightarrow> string) \<Rightarrow> 'a guard_db_scheme \<Rightarrow> 'a guard_db_scheme \<Rightarrow> bool" for encode where
  served_none: "served encode s s"
| served_ok: "served encode s s1 \<Longrightarrow> leaves_keys oper \<Longrightarrow> run_once E encode i scope key body oper st s1 = Inr (a, s') \<Longrightarrow> served encode s s'"

lemma completed_served: "served encode s s' \<Longrightarrow> completed_with E ix body data s \<Longrightarrow> completed_with E ix body data s'"
  by (induction rule: served.induct) (auto intro: completed_stays)

lemma replay_answer:
  "completed_with E (i, scope, k) body data s \<Longrightarrow> run_once E encode i scope (Some k) body' oper st s
    = (if sha256_hex E body' = sha256_hex E body then Inr (Replayed (Some data), s)
       else Inl (ValidationError ''Idempotency-Key was already used with a different request.''))"
  by (auto simp: completed_with_def run_once_def claim_key_def)

text \<open>C37 Once a request with a key has run its operation, no later request of that caller on that route with that key runs one:
  whatever was served in between, the same body gets the stored data and changes nothing, and another body is refused
  as invalid (422).
\<close>

theorem operation_runs_once:
  assumes "run_once E encode i scope (Some k) body oper st s = Inr (Fresh r, s1)" "leaves_keys oper" "served encode s1 s2"
  shows "run_once E encode' i scope (Some k) body' oper' st' s2
    = (if sha256_hex E body' = sha256_hex E body then Inr (Replayed (Some (encode r)), s2)
       else Inl (ValidationError ''Idempotency-Key was already used with a different request.''))"
  using replay_answer[OF completed_served[OF assms(3)]] run_once_completes[OF assms(1,2)] by blast

definition demo_guard_db :: guard_db where
  "demo_guard_db = time_db.extend (demo_time_db 0 []) \<lparr>idempotency_keys = []\<rparr>"

definition demo_oper :: "(nat, unit) operation" where
  "demo_oper s = Inr (next_id s, s\<lparr>next_id := next_id s + 1\<rparr>)"

theorem operation_runs_once_witness:
  "\<exists>s1. run_once demo_E nat_str 2 ''tasks.parse'' (Some ''k'') ''{}'' demo_oper 200 demo_guard_db = Inr (Fresh 101, s1)
     \<and> run_once demo_E nat_str 2 ''tasks.parse'' (Some ''k'') ''{}'' demo_oper 200 s1 = Inr (Replayed (Some (nat_str 101)), s1)"
proof -
  have f: "idempotency_keys demo_guard_db = []" "next_id demo_guard_db = 100"
    by (simp_all add: demo_guard_db_def time_db.defs demo_time_db_def)
  obtain s1 where s1: "run_once demo_E nat_str 2 ''tasks.parse'' (Some ''k'') ''{}'' demo_oper 200 demo_guard_db = Inr (Fresh 101, s1)"
    using f by (auto simp: run_once_def claim_key_def row_get_def demo_oper_def Let_def)
  have "leaves_keys demo_oper" by (simp add: leaves_keys_def demo_oper_def)
  from operation_runs_once[OF s1 this served_none, of nat_str "''{}''" demo_oper 200] s1 show ?thesis
    by (intro exI[of _ s1]) (simp only: simp_thms if_True)
qed

text \<open>C38 The errors of a keyed request, exactly: a key already used with another body is a validation error, a record still
  in progress a conflict, and every other error is the operation's own, raised on the first use of the key; then the
  transaction is rolled back, so the key is free again and the next request runs the operation.
\<close>

theorem keyed_request_errors:
  "(run_once E encode i scope (Some k) body oper st s = Inl e) =
    (case row_get ik_index (i, scope, k) (idempotency_keys s) of
       Some r \<Rightarrow> (ik_request_hash r \<noteq> sha256_hex E body
             \<and> e = ValidationError ''Idempotency-Key was already used with a different request.'')
         \<or> (ik_request_hash r = sha256_hex E body \<and> ik_status r = IN_PROGRESS
             \<and> e = ConflictError ''A request with this Idempotency-Key is still being processed.'')
     | None \<Rightarrow> oper (snd (claim_key (i, scope, k) (sha256_hex E body) s)) = Inl e)"
proof (cases "row_get ik_index (i, scope, k) (idempotency_keys s)")
  case None
  then show ?thesis by (auto simp: run_once_def claim_key_def Let_def ebind_Inl_iff split: prod.splits)
next
  case (Some r)
  then show ?thesis by (cases "ik_status r") (auto simp: run_once_def claim_key_def)
qed

end
