(* ===== verification/Tasks.thy ===== *)
theory Tasks
  imports RequestGuards
begin

text \<open>
  Tasks: \<open>app/models/task.py\<close>, \<open>app/repositories/task.py\<close>, \<open>app/repositories/task_comment.py\<close>,
  \<open>app/repositories/assignment_grant.py\<close>, \<open>app/schemas/task.py\<close> and \<open>app/services/task_service.py\<close>. The parsing
  of pasted text is left out. Deleting a row acts on the rows that refer to it as the foreign keys say.
\<close>

subsection \<open>Rows\<close>

datatype task_priority = PRIO_LOW | PRIO_MEDIUM | PRIO_HIGH

datatype task_status = TODO | DOING | BLOCKED | DONE

datatype task_cadence = ONE_TIME | DAILY | WEEKLY | MONTHLY

record attachment =
  at_name :: string
  at_url :: string

record task =
  tk_id :: uuid
  tk_title :: string
  tk_description :: "string option"
  tk_assignee :: uuid
  tk_assigned_by :: "uuid option"
  tk_project :: "string option"
  tk_project_id :: "uuid option"
  tk_priority :: task_priority
  tk_status :: task_status
  tk_cadence :: task_cadence
  tk_start :: "datetime option"
  tk_due :: "datetime option"
  tk_remarks :: "string option"
  tk_completed_at :: "datetime option"
  tk_expected_output :: "string option"
  tk_completion_pct :: int
  tk_review_notes :: "string option"
  tk_final_outcome :: "string option"
  tk_blocked_reason :: "string option"
  tk_attachments :: "attachment list"
  tk_escalated :: bool
  tk_level :: int
  tk_parent :: "uuid option"
  tk_depends_on :: "uuid option"
  tk_created_at :: datetime

record work_entity =
  we_id :: uuid
  we_name :: string
  we_active :: bool

record task_comment =
  tc_id :: uuid
  tc_task :: uuid
  tc_author :: "uuid option"
  tc_body :: string
  tc_key :: "string option"
  tc_created_at :: datetime

record task_db = core +
  tasks :: "task list"
  collaborators :: "(uuid \<times> uuid) list"
  grants :: "(uuid \<times> uuid) list"
  work_entities :: "work_entity list"
  task_comments :: "task_comment list"

subsection \<open>Repository\<close>

definition find_task :: "uuid \<Rightarrow> 'a task_db_scheme \<Rightarrow> task option" where
  "find_task i s = row_get tk_id i (tasks s)"

definition put_task :: "task \<Rightarrow> 'a task_db_scheme \<Rightarrow> 'a task_db_scheme" where
  "put_task t s = s\<lparr>tasks := row_put tk_id t (tasks s)\<rparr>"

definition is_collaborator :: "uuid \<Rightarrow> uuid \<Rightarrow> 'a task_db_scheme \<Rightarrow> bool" where
  "is_collaborator t e s \<longleftrightarrow> (t, e) \<in> set (collaborators s)"

definition add_collaborator_row :: "uuid \<Rightarrow> uuid \<Rightarrow> 'a task_db_scheme \<Rightarrow> 'a task_db_scheme" where
  "add_collaborator_row t e s = (if is_collaborator t e s then s else s\<lparr>collaborators := collaborators s @ [(t, e)]\<rparr>)"

definition remove_collaborator_row :: "uuid \<Rightarrow> uuid \<Rightarrow> 'a task_db_scheme \<Rightarrow> 'a task_db_scheme" where
  "remove_collaborator_row t e s = s\<lparr>collaborators := filter (\<lambda>x. x \<noteq> (t, e)) (collaborators s)\<rparr>"

text \<open>The collaborators of a task, by name.\<close>

definition collaborators_of :: "env \<Rightarrow> uuid \<Rightarrow> 'a task_db_scheme \<Rightarrow> employee list" where
  "collaborators_of E t s = by_name E (filter (\<lambda>e. is_collaborator t (emp_id e) s) (employees s))"

definition task_scope :: "current_user \<Rightarrow> task \<Rightarrow> 'a task_db_scheme \<Rightarrow> bool" where
  "task_scope c t s =
    (if cu_role c \<in> {ADMIN, HR} then True
     else let assigned_by_me = (tk_assigned_by t = Some (cu_id c)); i_collaborate = is_collaborator (tk_id t) (cu_id c) s
       in if cu_role c = SENIOR_MANAGER
          then (case find_employee (tk_assignee t) s of None \<Rightarrow> False | Some e \<Rightarrow> same_department (cu_id c) e s)
            \<or> assigned_by_me \<or> i_collaborate
          else if cu_role c = VIEWER then tk_assignee t = cu_id c \<or> assigned_by_me \<or> i_collaborate
          else tk_assignee t = cu_id c \<or> tk_assignee t \<in> set (reporting_tree_ids (cu_id c) s) \<or> assigned_by_me \<or> i_collaborate)"

definition get_task_in_scope :: "current_user \<Rightarrow> uuid \<Rightarrow> 'a task_db_scheme \<Rightarrow> task option" where
  "get_task_in_scope c i s = (case find_task i s of None \<Rightarrow> None | Some t \<Rightarrow> if task_scope c t s then Some t else None)"

text \<open>\<open>order_by(due_date.is_(None), due_date.asc(), created_at.desc())\<close>.\<close>

definition task_order :: "task \<Rightarrow> bool \<times> int \<times> int" where
  "task_order t = (tk_due t = None, (case tk_due t of None \<Rightarrow> 0 | Some d \<Rightarrow> d), - tk_created_at t)"

definition list_tasks :: "current_user \<Rightarrow> nat \<Rightarrow> nat \<Rightarrow> task_status option \<Rightarrow> task_cadence option \<Rightarrow> uuid option
    \<Rightarrow> 'a task_db_scheme \<Rightarrow> task list \<times> nat" where
  "list_tasks c offset limit st cad asg s =
    (let rows = filter (\<lambda>t. task_scope c t s \<and> (st = None \<or> st = Some (tk_status t))
           \<and> (cad = None \<or> cad = Some (tk_cadence t)) \<and> (asg = None \<or> asg = Some (tk_assignee t))) (tasks s)
     in (take limit (drop offset (sort_key task_order rows)), length rows))"

definition is_overdue :: "datetime \<Rightarrow> task \<Rightarrow> bool" where
  "is_overdue t k \<longleftrightarrow> (case tk_due k of None \<Rightarrow> False | Some d \<Rightarrow> d < t) \<and> tk_status k \<noteq> DONE"

definition due_or_zero :: "task \<Rightarrow> datetime" where
  "due_or_zero k = (case tk_due k of None \<Rightarrow> 0 | Some d \<Rightarrow> d)"

definition list_overdue :: "current_user \<Rightarrow> datetime \<Rightarrow> 'a task_db_scheme \<Rightarrow> task list" where
  "list_overdue c t s = sort_key due_or_zero (filter (\<lambda>k. is_overdue t k \<and> task_scope c k s) (tasks s))"

definition my_overdue_limit :: nat where
  "my_overdue_limit = 50"

definition my_overdue :: "current_user \<Rightarrow> datetime \<Rightarrow> 'a task_db_scheme \<Rightarrow> task list" where
  "my_overdue c t s = take my_overdue_limit (sort_key (\<lambda>k. (due_or_zero k, tk_id k))
     (filter (\<lambda>k. tk_assignee k = cu_id c \<and> is_overdue t k \<and> task_scope c k s) (tasks s)))"

definition overdue_for_escalation :: "datetime \<Rightarrow> int \<Rightarrow> nat \<Rightarrow> 'a task_db_scheme \<Rightarrow> task list" where
  "overdue_for_escalation cutoff below limit s =
    take limit (sort_key due_or_zero (filter (\<lambda>k. is_overdue cutoff k \<and> tk_level k < below) (tasks s)))"

definition open_collaborations :: "uuid \<Rightarrow> 'a task_db_scheme \<Rightarrow> nat" where
  "open_collaborations e s = length (filter (\<lambda>(t, x). x = e
     \<and> (case find_task t s of None \<Rightarrow> False | Some k \<Rightarrow> tk_status k \<noteq> DONE)) (collaborators s))"

definition count_done_total :: "current_user \<Rightarrow> 'a task_db_scheme \<Rightarrow> nat \<times> nat" where
  "count_done_total c s =
    (length (filter (\<lambda>k. task_scope c k s \<and> tk_status k = DONE) (tasks s)), length (filter (\<lambda>k. task_scope c k s) (tasks s)))"

text \<open>\<open>load_for_employees\<close> for one employee: open tasks and how many of them are late.\<close>

definition load_for :: "datetime \<Rightarrow> uuid \<Rightarrow> 'a task_db_scheme \<Rightarrow> nat \<times> nat" where
  "load_for t e s = (length (filter (\<lambda>k. tk_assignee k = e \<and> tk_status k \<noteq> DONE) (tasks s)),
     length (filter (\<lambda>k. tk_assignee k = e \<and> is_overdue t k) (tasks s)))"

record manpower_row =
  mp_project :: uuid
  mp_people :: nat
  mp_open :: nat
  mp_total :: nat

definition manpower_of :: "current_user \<Rightarrow> 'a task_db_scheme \<Rightarrow> uuid \<Rightarrow> manpower_row" where
  "manpower_of c s p = (let rows = filter (\<lambda>k. tk_project_id k = Some p \<and> task_scope c k s) (tasks s)
     in \<lparr>mp_project = p, mp_people = length (dedup_from [] (map tk_assignee rows)),
         mp_open = length (filter (\<lambda>k. tk_status k \<noteq> DONE) rows), mp_total = length rows\<rparr>)"

definition manpower_by_project :: "current_user \<Rightarrow> 'a task_db_scheme \<Rightarrow> manpower_row list" where
  "manpower_by_project c s = map (manpower_of c s)
     (dedup_from [] (List.map_filter tk_project_id (filter (\<lambda>k. task_scope c k s) (tasks s))))"

text \<open>The badge of the board: who an escalation actually brought onto the task.\<close>

definition escalated_to :: "task \<Rightarrow> 'a task_db_scheme \<Rightarrow> string option" where
  "escalated_to t s =
    (if \<not> tk_escalated t then None
     else let others = filter (\<lambda>e. is_collaborator (tk_id t) (emp_id e) s \<and> emp_id e \<noteq> tk_assignee t) (employees s)
       in if tk_level t \<ge> 3 \<and> list_ex (\<lambda>e. role e \<in> {ADMIN, IT_ADMIN}) others then Some ''admin''
          else if tk_level t \<ge> 2 \<and> others \<noteq> [] then Some ''manager'' else None)"

definition project_name :: "task \<Rightarrow> 'a task_db_scheme \<Rightarrow> string option" where
  "project_name t s = (case Option.bind (tk_project_id t) (\<lambda>p. row_get we_id p (work_entities s)) of
     Some w \<Rightarrow> Some (we_name w) | None \<Rightarrow> tk_project t)"

text \<open>\<open>ON DELETE\<close>: comments and memberships go, links from other tasks are cleared.\<close>

definition delete_task_row :: "uuid \<Rightarrow> 'a task_db_scheme \<Rightarrow> 'a task_db_scheme" where
  "delete_task_row i s = s\<lparr>
     tasks := map (\<lambda>k. k\<lparr>tk_parent := (if tk_parent k = Some i then None else tk_parent k),
                         tk_depends_on := (if tk_depends_on k = Some i then None else tk_depends_on k)\<rparr>) (row_del tk_id i (tasks s)),
     collaborators := filter (\<lambda>x. fst x \<noteq> i) (collaborators s),
     task_comments := filter (\<lambda>x. tc_task x \<noteq> i) (task_comments s)\<rparr>"

subsection \<open>Assignment, projects and parents\<close>

definition can_assign_to :: "current_user \<Rightarrow> uuid \<Rightarrow> 'a task_db_scheme \<Rightarrow> bool" where
  "can_assign_to c e s \<longleftrightarrow> e = cu_id c \<or> can_read c e s \<or> (cu_id c, e) \<in> set (grants s)"

definition leads :: "current_user \<Rightarrow> uuid \<Rightarrow> 'a core_scheme \<Rightarrow> bool" where
  "leads c e s \<longleftrightarrow> is_manager c \<or> (case find_employee e s of None \<Rightarrow> False | Some x \<Rightarrow> manager_id x = Some (cu_id c))"

definition validate_project :: "uuid option \<Rightarrow> 'a task_db_scheme \<Rightarrow> unit res" where
  "validate_project p s = (case p of
     None \<Rightarrow> Inr ()
   | Some i \<Rightarrow> (case row_get we_id i (work_entities s) of
        None \<Rightarrow> Inl (ValidationError ''Unknown or inactive project.'')
      | Some w \<Rightarrow> require (we_active w) (ValidationError ''Unknown or inactive project.'')))"

text \<open>The walk up the ancestry: whether it meets the task within the given number of rounds.\<close>

fun walk_up :: "nat \<Rightarrow> uuid option \<Rightarrow> task option \<Rightarrow> 'a task_db_scheme \<Rightarrow> bool" where
  "walk_up 0 i a s = False"
| "walk_up (Suc n) i None s = False"
| "walk_up (Suc n) i (Some a) s =
     (case tk_parent a of None \<Rightarrow> False | Some p \<Rightarrow> if Some p = i then True else walk_up n i (find_task p s) s)"

definition walk_rounds :: nat where
  "walk_rounds = 100"

definition validate_parent :: "current_user \<Rightarrow> uuid option \<Rightarrow> uuid option \<Rightarrow> 'a task_db_scheme \<Rightarrow> unit res" where
  "validate_parent c parent i s = (case parent of
     None \<Rightarrow> Inr ()
   | Some p \<Rightarrow>
       if Some p = i then Inl (ValidationError ''A task can't be its own parent.'')
       else (case get_task_in_scope c p s of
           None \<Rightarrow> Inl (ValidationError ''Parent task not found or not visible to you.'')
         | Some a \<Rightarrow> if walk_up walk_rounds i (Some a) s then Inl (ValidationError ''That link would create a circular task chain.'')
             else Inr ()))"

subsection \<open>Creating\<close>

record task_create =
  tn_title :: string
  tn_assignee :: uuid
  tn_description :: "string option"
  tn_project :: "string option"
  tn_project_id :: "uuid option"
  tn_priority :: task_priority
  tn_status :: task_status
  tn_cadence :: task_cadence
  tn_start :: "datetime option"
  tn_due :: "datetime option"
  tn_remarks :: "string option"
  tn_expected_output :: "string option"
  tn_attachments :: "attachment list"
  tn_parent :: "uuid option"
  tn_depends_on :: "uuid option"

text \<open>The validator \<open>_due_not_in_past\<close>, with its day of grace.\<close>

definition due_not_in_past :: "datetime \<Rightarrow> task_create \<Rightarrow> bool" where
  "due_not_in_past t p \<longleftrightarrow> (case tn_due p of None \<Rightarrow> True | Some d \<Rightarrow> \<not> utc_day d < utc_day t - 1)"

definition new_task :: "uuid \<Rightarrow> uuid \<Rightarrow> datetime \<Rightarrow> task_create \<Rightarrow> task" where
  "new_task i by t p = \<lparr>tk_id = i, tk_title = tn_title p, tk_description = tn_description p, tk_assignee = tn_assignee p,
     tk_assigned_by = Some by, tk_project = tn_project p, tk_project_id = tn_project_id p, tk_priority = tn_priority p,
     tk_status = tn_status p, tk_cadence = tn_cadence p, tk_start = tn_start p, tk_due = tn_due p, tk_remarks = tn_remarks p,
     tk_completed_at = None, tk_expected_output = tn_expected_output p, tk_completion_pct = 0, tk_review_notes = None,
     tk_final_outcome = None, tk_blocked_reason = None, tk_attachments = tn_attachments p, tk_escalated = False, tk_level = 0,
     tk_parent = tn_parent p, tk_depends_on = tn_depends_on p, tk_created_at = t\<rparr>"

definition create_task_row :: "uuid \<Rightarrow> task_create \<Rightarrow> 'a task_db_scheme \<Rightarrow> task \<times> 'a task_db_scheme" where
  "create_task_row by p s =
    (let t = new_task (next_id s) by (now s) p in (t, s\<lparr>tasks := row_add t (tasks s), next_id := next_id s + 1\<rparr>))"

fun create_task_rows :: "uuid \<Rightarrow> task_create list \<Rightarrow> 'a task_db_scheme \<Rightarrow> task list \<times> 'a task_db_scheme" where
  "create_task_rows by [] s = ([], s)"
| "create_task_rows by (p # ps) s =
     (let (t, s1) = create_task_row by p s; (ts, s2) = create_task_rows by ps s1 in (t # ts, s2))"

definition task_link :: "uuid \<Rightarrow> string" where
  "task_link i = ''/dashboard/goals/tasks?task='' @ uuid_str i"

definition task_notice :: "uuid \<Rightarrow> notification_kind \<Rightarrow> string \<Rightarrow> string option \<Rightarrow> notification_level \<Rightarrow> uuid \<Rightarrow> uuid option \<Rightarrow> notice" where
  "task_notice rcp k title body level i act = \<lparr>no_to = rcp, no_kind = k, no_title = title, no_body = body, no_level = level,
     no_link = Some (task_link i), no_entity_type = Some ''task'', no_entity_id = Some i, no_actor = act\<rparr>"

definition assigned_notice :: "current_user \<Rightarrow> task \<Rightarrow> notice" where
  "assigned_notice c t = task_notice (tk_assignee t) TASK_ASSIGNED (''New task assigned: '' @ tk_title t) None INFO (tk_id t) (Some (cu_id c))"

definition task_audit :: "env \<Rightarrow> current_user \<Rightarrow> string \<Rightarrow> string \<Rightarrow> 'a core_scheme \<Rightarrow> 'a core_scheme" where
  "task_audit E c act tgt s = audit_append E (uuid_str (cu_id c)) act (Some tgt) s"

definition minutes_us :: "int \<Rightarrow> int" where
  "minutes_us n = n * 60000000"

text \<open>\<open>notify\<close> returns the row unless it was dropped or its insert failed.\<close>

definition delivered :: "env \<Rightarrow> notice \<Rightarrow> 'a core_scheme \<Rightarrow> bool" where
  "delivered E m s \<longleftrightarrow> no_actor m \<noteq> Some (no_to m) \<and> insert_ok E (new_notification (next_id s) (now s) m)"

definition due_label :: "task \<Rightarrow> string" where
  "due_label t = (case tk_due t of None \<Rightarrow> '''' | Some d \<Rightarrow> fmt_d_b_Y (utc_day d))"

definition email_assignment :: "env \<Rightarrow> current_user \<Rightarrow> task \<Rightarrow> 'a core_scheme \<Rightarrow> 'a core_scheme" where
  "email_assignment E c t s = (case find_employee (tk_assignee t) s of
     None \<Rightarrow> s
   | Some e \<Rightarrow> snd (send_email E \<lparr>mail_to = work_email e, mail_template = ''task_assigned'',
       mail_fields = [full_name e, tk_title t, (case find_employee (cu_id c) s of Some a \<Rightarrow> full_name a | None \<Rightarrow> ''Your manager''),
         due_label t, task_link (tk_id t)]\<rparr> s))"

definition create_task :: "env \<Rightarrow> current_user \<Rightarrow> task_create \<Rightarrow> 'a task_db_scheme \<Rightarrow> (task \<times> 'a task_db_scheme) res" where
  "create_task E c p s =
    (if \<not> can_assign_to c (tn_assignee p) s then Inl AuthorizationError
     else ebind (validate_project (tn_project_id p) s) (\<lambda>_.
     ebind (validate_parent c (tn_parent p) None s) (\<lambda>_.
     let (t, s1) = create_task_row (cu_id c) p s;
         s2 = task_audit E c ''task.create'' (''task:'' @ uuid_str (tk_id t) @ '':assignee:'' @ uuid_str (tn_assignee p)) s1;
         s3 = notify E (assigned_notice c t) None s2
     in Inr (t, if delivered E (assigned_notice c t) s2
                  \<and> recent_count (tn_assignee p) TASK_ASSIGNED (minutes_us 15) s3 \<le> 1
                then email_assignment E c t s3 else s3))))"

definition bulk_allowed :: "current_user \<Rightarrow> 'a task_db_scheme \<Rightarrow> task_create \<Rightarrow> unit res" where
  "bulk_allowed c s p =
    (if \<not> can_assign_to c (tn_assignee p) s then Inl AuthorizationError else validate_project (tn_project_id p) s)"

fun first_error :: "('a \<Rightarrow> unit res) \<Rightarrow> 'a list \<Rightarrow> unit res" where
  "first_error f [] = Inr ()"
| "first_error f (x # xs) = ebind (f x) (\<lambda>_. first_error f xs)"

definition create_bulk :: "env \<Rightarrow> current_user \<Rightarrow> task_create list \<Rightarrow> 'a task_db_scheme \<Rightarrow> (task list \<times> 'a task_db_scheme) res" where
  "create_bulk E c ps s =
    ebind (first_error (bulk_allowed c s) ps) (\<lambda>_.
    let (ts, s1) = create_task_rows (cu_id c) ps s;
        s2 = task_audit E c ''task.create_bulk'' (''count:'' @ nat_str (length ts)) s1
    in Inr (ts, fold (\<lambda>t. notify E (assigned_notice c t) None) ts s2))"

subsection \<open>Updating\<close>

text \<open>Every field is optional; \<open>None\<close> is a field that was not sent. A column that may be null takes an inner option.\<close>

record task_update =
  tu_title :: "string option"
  tu_assignee :: "uuid option"
  tu_description :: "string option option"
  tu_project :: "string option option"
  tu_project_id :: "uuid option option"
  tu_priority :: "task_priority option"
  tu_status :: "task_status option"
  tu_cadence :: "task_cadence option"
  tu_start :: "datetime option option"
  tu_due :: "datetime option option"
  tu_remarks :: "string option option"
  tu_expected_output :: "string option option"
  tu_completion_pct :: "int option"
  tu_review_notes :: "string option option"
  tu_final_outcome :: "string option option"
  tu_blocked_reason :: "string option option"
  tu_attachments :: "attachment list option"
  tu_parent :: "uuid option option"

definition no_update :: task_update where
  "no_update = \<lparr>tu_title = None, tu_assignee = None, tu_description = None, tu_project = None, tu_project_id = None,
     tu_priority = None, tu_status = None, tu_cadence = None, tu_start = None, tu_due = None, tu_remarks = None,
     tu_expected_output = None, tu_completion_pct = None, tu_review_notes = None, tu_final_outcome = None,
     tu_blocked_reason = None, tu_attachments = None, tu_parent = None\<rparr>"

text \<open>\<open>set(fields).issubset(_ASSIGNEE_EDITABLE)\<close>: only status, remarks, progress, blocker, attachments and parent were sent.\<close>

definition only_progress :: "task_update \<Rightarrow> bool" where
  "only_progress p \<longleftrightarrow> tu_title p = None \<and> tu_assignee p = None \<and> tu_description p = None \<and> tu_project p = None
     \<and> tu_project_id p = None \<and> tu_priority p = None \<and> tu_cadence p = None \<and> tu_start p = None \<and> tu_due p = None
     \<and> tu_expected_output p = None \<and> tu_review_notes p = None \<and> tu_final_outcome p = None"

definition or_keep :: "'b option \<Rightarrow> 'b \<Rightarrow> 'b" where
  "or_keep new old = (case new of None \<Rightarrow> old | Some x \<Rightarrow> x)"

definition moved_later :: "datetime option \<Rightarrow> datetime option \<Rightarrow> bool" where
  "moved_later current proposed = (case proposed of None \<Rightarrow> False | Some p \<Rightarrow> (case current of None \<Rightarrow> True | Some c \<Rightarrow> p > c))"

definition apply_update :: "datetime \<Rightarrow> task_update \<Rightarrow> task \<Rightarrow> task" where
  "apply_update t p k =
    (let reset = (case tu_due p of None \<Rightarrow> False | Some d \<Rightarrow> moved_later (tk_due k) d)
     in k\<lparr>tk_title := or_keep (tu_title p) (tk_title k), tk_assignee := or_keep (tu_assignee p) (tk_assignee k),
          tk_description := or_keep (tu_description p) (tk_description k), tk_project := or_keep (tu_project p) (tk_project k),
          tk_project_id := or_keep (tu_project_id p) (tk_project_id k), tk_priority := or_keep (tu_priority p) (tk_priority k),
          tk_status := or_keep (tu_status p) (tk_status k), tk_cadence := or_keep (tu_cadence p) (tk_cadence k),
          tk_start := or_keep (tu_start p) (tk_start k), tk_due := or_keep (tu_due p) (tk_due k),
          tk_remarks := or_keep (tu_remarks p) (tk_remarks k),
          tk_completed_at := (case tu_status p of None \<Rightarrow> tk_completed_at k | Some st \<Rightarrow> if st = DONE then Some t else None),
          tk_expected_output := or_keep (tu_expected_output p) (tk_expected_output k),
          tk_completion_pct := or_keep (tu_completion_pct p) (tk_completion_pct k),
          tk_review_notes := or_keep (tu_review_notes p) (tk_review_notes k),
          tk_final_outcome := or_keep (tu_final_outcome p) (tk_final_outcome k),
          tk_blocked_reason := or_keep (tu_blocked_reason p) (tk_blocked_reason k),
          tk_attachments := or_keep (tu_attachments p) (tk_attachments k),
          tk_escalated := (if reset then False else tk_escalated k), tk_level := (if reset then 0 else tk_level k),
          tk_parent := or_keep (tu_parent p) (tk_parent k)\<rparr>)"

definition may_edit :: "current_user \<Rightarrow> task \<Rightarrow> task_update \<Rightarrow> 'a task_db_scheme \<Rightarrow> unit res" where
  "may_edit c k p s =
    (if \<not> leads c (tk_assignee k) s
     then require ((tk_assignee k = cu_id c \<or> is_collaborator (tk_id k) (cu_id c) s) \<and> only_progress p) AuthorizationError
     else if (case tu_assignee p of None \<Rightarrow> False | Some a \<Rightarrow> \<not> can_assign_to c a s) then Inl AuthorizationError
     else (case tu_project_id p of None \<Rightarrow> Inr () | Some x \<Rightarrow> validate_project x s))"

definition blocked_reason_given :: "task_update \<Rightarrow> task \<Rightarrow> bool" where
  "blocked_reason_given p k \<longleftrightarrow> py_strip (or_empty (or_keep (tu_blocked_reason p) (tk_blocked_reason k))) \<noteq> ''''"

definition update_task :: "env \<Rightarrow> current_user \<Rightarrow> uuid \<Rightarrow> task_update \<Rightarrow> 'a task_db_scheme \<Rightarrow> (task \<times> 'a task_db_scheme) res" where
  "update_task E c i p s =
    ebind (require_some (get_task_in_scope c i s) NotFoundError) (\<lambda>k.
    ebind (may_edit c k p s) (\<lambda>_.
    ebind (case tu_parent p of None \<Rightarrow> Inr () | Some x \<Rightarrow> validate_parent c x (Some i) s) (\<lambda>_.
    if or_keep (tu_status p) (tk_status k) = BLOCKED \<and> \<not> blocked_reason_given p k
    then Inl (ValidationError ''A blocked task needs a reason.'')
    else let k' = apply_update (now s) p k
         in Inr (k', task_audit E c ''task.update'' (''task:'' @ uuid_str (tk_id k)) (put_task k' s)))))"

subsection \<open>Escalating, thanking, deleting\<close>

definition email_escalation :: "env \<Rightarrow> current_user \<Rightarrow> task \<Rightarrow> 'a core_scheme \<Rightarrow> 'a core_scheme" where
  "email_escalation E c t s = (case find_employee (tk_assignee t) s of
     None \<Rightarrow> s
   | Some e \<Rightarrow> if work_email e = '''' then s
     else let cc = (case Option.bind (manager_id e) (\<lambda>m. find_employee m s) of
                  None \<Rightarrow> []
                | Some m \<Rightarrow> if is_active m \<and> work_email m \<noteq> '''' \<and> emp_id m \<noteq> cu_id c then [work_email m] else [])
          in if emp_id e = cu_id c \<and> cc = [] then s
             else snd (send_email E \<lparr>mail_to = work_email e, mail_template = ''task_escalated'',
               mail_fields = [full_name e, tk_title t, (case find_employee (cu_id c) s of Some a \<Rightarrow> full_name a | None \<Rightarrow> ''A manager''),
                 due_label t, or_empty (tk_blocked_reason t), task_link (tk_id t)] @ cc\<rparr> s))"

definition escalate_task :: "env \<Rightarrow> current_user \<Rightarrow> uuid \<Rightarrow> 'a task_db_scheme \<Rightarrow> (task \<times> 'a task_db_scheme) res" where
  "escalate_task E c i s =
    ebind (require_some (get_task_in_scope c i s) NotFoundError) (\<lambda>k.
    if \<not> leads c (tk_assignee k) s then Inl AuthorizationError
    else let k' = k\<lparr>tk_escalated := True\<rparr>;
             s1 = notify E (task_notice (tk_assignee k) ESCALATION (''Task escalated: '' @ tk_title k) None WARNING (tk_id k)
                    (Some (cu_id c))) None (put_task k' s);
             s2 = email_escalation E c k' s1
         in Inr (k', task_audit E c ''task.escalate'' (''task:'' @ uuid_str (tk_id k)) s2))"

definition left_quote :: string where
  "left_quote = [CHR 0xE2, CHR 0x80, CHR 0x9C]"

definition right_quote :: string where
  "right_quote = [CHR 0xE2, CHR 0x80, CHR 0x9D]"

definition appreciate_task :: "env \<Rightarrow> current_user \<Rightarrow> uuid \<Rightarrow> string option \<Rightarrow> 'a task_db_scheme \<Rightarrow> (task \<times> 'a task_db_scheme) res" where
  "appreciate_task E c i words s =
    ebind (require_some (get_task_in_scope c i s) NotFoundError) (\<lambda>k.
    if \<not> (leads c (tk_assignee k) s \<or> tk_assigned_by k = Some (cu_id c)) then Inl AuthorizationError
    else if tk_status k \<noteq> DONE then Inl (ValidationError ''Only a completed task can be appreciated.'')
    else let clean = py_strip (or_empty words);
             who = (case find_employee (cu_id c) s of Some a \<Rightarrow> full_name a | None \<Rightarrow> ''Your manager'');
             s1 = notify E (task_notice (tk_assignee k) APPRECIATION
                    (who @ '' appreciated your work on '' @ left_quote @ tk_title k @ right_quote)
                    (if clean = '''' then None else Some clean) INFO (tk_id k) (Some (cu_id c))) None s
         in Inr (k, task_audit E c ''task.appreciate'' (''task:'' @ uuid_str (tk_id k)) s1))"

definition delete_task :: "env \<Rightarrow> current_user \<Rightarrow> uuid \<Rightarrow> 'a task_db_scheme \<Rightarrow> 'a task_db_scheme res" where
  "delete_task E c i s =
    ebind (require_some (find_task i s) NotFoundError) (\<lambda>k.
    if \<not> is_admin c \<and> tk_assigned_by k \<noteq> Some (cu_id c) then Inl AuthorizationError
    else Inr (task_audit E c ''task.delete'' (''task:'' @ uuid_str i) (delete_task_row i s)))"

subsection \<open>Collaborators and the discussion\<close>

definition task_for_collaborators :: "current_user \<Rightarrow> uuid \<Rightarrow> 'a task_db_scheme \<Rightarrow> task res" where
  "task_for_collaborators c i s =
    ebind (require_some (get_task_in_scope c i s) NotFoundError) (\<lambda>k.
    ebind (require (leads c (tk_assignee k) s \<or> tk_assigned_by k = Some (cu_id c) \<or> tk_assignee k = cu_id c) AuthorizationError)
      (\<lambda>_. Inr k))"

definition add_collaborator :: "env \<Rightarrow> current_user \<Rightarrow> uuid \<Rightarrow> uuid \<Rightarrow> 'a task_db_scheme \<Rightarrow> (task \<times> 'a task_db_scheme) res" where
  "add_collaborator E c i e s =
    ebind (task_for_collaborators c i s) (\<lambda>k.
    if \<not> can_read c e s then Inl AuthorizationError
    else let s1 = task_audit E c ''task.collaborator.add'' (''task:'' @ uuid_str i @ '':employee:'' @ uuid_str e)
                    (add_collaborator_row i e s)
         in Inr (k, notify E (task_notice e TASK_ASSIGNED (''Added as a collaborator: '' @ tk_title k) None INFO (tk_id k)
                (Some (cu_id c))) None s1))"

definition remove_collaborator :: "env \<Rightarrow> current_user \<Rightarrow> uuid \<Rightarrow> uuid \<Rightarrow> 'a task_db_scheme \<Rightarrow> (task \<times> 'a task_db_scheme) res" where
  "remove_collaborator E c i e s =
    ebind (task_for_collaborators c i s) (\<lambda>k.
    let s1 = task_audit E c ''task.collaborator.remove'' (''task:'' @ uuid_str i @ '':employee:'' @ uuid_str e)
               (remove_collaborator_row i e s)
    in Inr (k, notify E (task_notice e TASK_ASSIGNED (''Removed from a task: '' @ tk_title k) None INFO (tk_id k)
           (Some (cu_id c))) None s1))"

definition list_task_comments :: "current_user \<Rightarrow> uuid \<Rightarrow> 'a task_db_scheme \<Rightarrow> task_comment list res" where
  "list_task_comments c i s =
    ebind (require_some (get_task_in_scope c i s) NotFoundError) (\<lambda>_.
    Inr (sort_key tc_created_at (filter (\<lambda>x. tc_task x = i) (task_comments s))))"

definition comment_by_key :: "uuid \<Rightarrow> string \<Rightarrow> 'a task_db_scheme \<Rightarrow> task_comment option" where
  "comment_by_key a k s = List.find (\<lambda>x. tc_author x = Some a \<and> tc_key x = Some k) (task_comments s)"

text \<open>The newest of the matching comments since \<open>since\<close>.\<close>

definition recent_duplicate :: "uuid \<Rightarrow> uuid \<Rightarrow> string \<Rightarrow> datetime \<Rightarrow> 'a task_db_scheme \<Rightarrow> task_comment option" where
  "recent_duplicate i a body since s = List.find (\<lambda>x. True) (sort_key (\<lambda>x. - tc_created_at x)
     (filter (\<lambda>x. tc_task x = i \<and> tc_author x = Some a \<and> tc_body x = body \<and> tc_created_at x \<ge> since) (task_comments s)))"

text \<open>Characters of a text in UTF-8: a byte that continues a character belongs to the one before it.\<close>

definition continues :: "char \<Rightarrow> bool" where
  "continues c \<longleftrightarrow> (let n = (of_char c :: nat) in 128 \<le> n \<and> n < 192)"

function utf8_chars :: "string \<Rightarrow> string list" where
  "utf8_chars [] = []"
| "utf8_chars (c # cs) = (c # takeWhile continues cs) # utf8_chars (dropWhile continues cs)"
  by pat_completeness auto
termination
  by (relation "measure length") (simp_all add: le_imp_less_Suc length_dropWhile_le)

definition py_len :: "string \<Rightarrow> nat" where
  "py_len x = length (utf8_chars x)"

definition py_take :: "nat \<Rightarrow> string \<Rightarrow> string" where
  "py_take n x = concat (take n (utf8_chars x))"

definition ellipsis :: string where
  "ellipsis = [CHR 0xE2, CHR 0x80, CHR 0xA6]"

definition comment_preview :: "string \<Rightarrow> string" where
  "comment_preview body = (if py_len body \<le> 140 then body else py_take 139 body @ ellipsis)"

text \<open>
  The recipients are a Python set, whose order is not specified; the model takes assignee, collaborators and
  assigner in turn, each once and never the author.
\<close>

definition comment_recipients :: "env \<Rightarrow> task \<Rightarrow> uuid \<Rightarrow> 'a task_db_scheme \<Rightarrow> uuid list" where
  "comment_recipients E k author s = dedup_from [author] (tk_assignee k # map emp_id (collaborators_of E (tk_id k) s)
     @ (case tk_assigned_by k of None \<Rightarrow> [] | Some a \<Rightarrow> [a]))"

definition notify_comment :: "env \<Rightarrow> task \<Rightarrow> task_comment \<Rightarrow> uuid \<Rightarrow> 'a task_db_scheme \<Rightarrow> 'a task_db_scheme" where
  "notify_comment E k x author s = fold (\<lambda>r. notify E (task_notice r TASK_COMMENT (''New message on: '' @ tk_title k)
     (Some (comment_preview (tc_body x))) INFO (tk_id k) (Some author)) None) (comment_recipients E k author s) s"

definition comment_window :: int where
  "comment_window = 30000000"

definition add_task_comment :: "env \<Rightarrow> current_user \<Rightarrow> uuid \<Rightarrow> string \<Rightarrow> string option \<Rightarrow> 'a task_db_scheme
    \<Rightarrow> (task_comment \<times> 'a task_db_scheme) res" where
  "add_task_comment E c i body key s =
    ebind (require_some (get_task_in_scope c i s) NotFoundError) (\<lambda>k.
    let author = cu_id c;
        prior = (case key of Some x \<Rightarrow> comment_by_key author x s
                 | None \<Rightarrow> recent_duplicate i author body (now s - comment_window) s)
    in case prior of
         Some x \<Rightarrow> Inr (x, s)
       | None \<Rightarrow>
          let x = \<lparr>tc_id = next_id s, tc_task = i, tc_author = Some author, tc_body = body, tc_key = key, tc_created_at = now s\<rparr>;
              s1 = s\<lparr>task_comments := row_add x (task_comments s), next_id := next_id s + 1\<rparr>;
              s2 = task_audit E c ''task.comment'' (''task:'' @ uuid_str i) s1
          in Inr (x, notify_comment E k x author s2))"

end
