(* ===== verification/TaskEscalation.thy ===== *)
theory TaskEscalation
  imports Tasks
begin

text \<open>
  The sweep over overdue tasks: \<open>app/services/task_escalation_service.py\<close>. Nobody is logged in; the sweep pulls the
  reporting manager and then an admin onto a task that stays late, and tells the people concerned.
\<close>

definition tier_assignee :: int where
  "tier_assignee = 1"

definition tier_manager :: int where
  "tier_manager = 2"

definition tier_admin :: int where
  "tier_admin = 3"

record escalation_config =
  warn_after_days :: int
  manager_after_days :: int
  admin_after_days :: int
  batch_limit :: nat
  popups_per_person :: int

definition default_escalation :: escalation_config where
  "default_escalation = \<lparr>warn_after_days = 1, manager_after_days = 3, admin_after_days = 6, batch_limit = 200, popups_per_person = 3\<rparr>"

subsection \<open>Texts\<close>

definition notification_title_max :: nat where
  "notification_title_max = 160"

definition py_rstrip :: "string \<Rightarrow> string" where
  "py_rstrip x = rev (dropWhile is_space (rev x))"

definition notification_title :: "string \<Rightarrow> string \<Rightarrow> string" where
  "notification_title prefix title =
    (let room = notification_title_max - py_len prefix
     in prefix @ (if py_len title \<le> room then title else py_rstrip (py_take (room - 1) title) @ ellipsis))"

definition overdue_days :: "task \<Rightarrow> datetime \<Rightarrow> int" where
  "overdue_days k t = (case tk_due k of None \<Rightarrow> 0 | Some d \<Rightarrow> max 0 ((t - d) div day_us))"

definition summary_title :: "nat \<Rightarrow> nat \<Rightarrow> string" where
  "summary_title own escalated =
    (let n = own + escalated; noun = (if n = 1 then ''task'' else ''tasks'')
     in if own > 0 \<and> escalated > 0 then nat_str n @ '' more overdue '' @ noun @ '' need your attention''
        else if escalated > 0 then nat_str n @ '' more overdue '' @ noun @ '' escalated to you''
        else nat_str n @ '' more of your '' @ noun @ '' '' @ (if n = 1 then ''is'' else ''are'') @ '' overdue'')"

subsection \<open>The tallies of one sweep\<close>

record ledger =
  lg_cap :: nat
  lg_sent :: "uuid \<Rightarrow> nat"
  lg_own :: "uuid \<Rightarrow> nat"
  lg_escalated :: "uuid \<Rightarrow> nat"
  lg_people :: "uuid list"

definition new_ledger :: "int \<Rightarrow> ledger" where
  "new_ledger cap = \<lparr>lg_cap = nat (max 1 cap), lg_sent = (\<lambda>i. 0), lg_own = (\<lambda>i. 0), lg_escalated = (\<lambda>i. 0), lg_people = []\<rparr>"

definition claim_popup :: "uuid \<Rightarrow> bool \<Rightarrow> ledger \<Rightarrow> bool \<times> ledger" where
  "claim_popup i escalated l =
    (if lg_sent l i < lg_cap l then (True, l\<lparr>lg_sent := (lg_sent l)(i := lg_sent l i + 1)\<rparr>)
     else (False, if escalated then l\<lparr>lg_escalated := (lg_escalated l)(i := lg_escalated l i + 1), lg_people := insort_insert i (lg_people l)\<rparr>
                  else l\<lparr>lg_own := (lg_own l)(i := lg_own l i + 1), lg_people := insort_insert i (lg_people l)\<rparr>))"

definition overflow :: "ledger \<Rightarrow> (uuid \<times> nat \<times> nat) list" where
  "overflow l = map (\<lambda>i. (i, lg_own l i, lg_escalated l i)) (lg_people l)"

record admin_pool =
  ap_admins :: "employee list"
  ap_load :: "uuid \<Rightarrow> nat"

definition pick_admin :: "uuid set \<Rightarrow> admin_pool \<Rightarrow> employee option \<times> admin_pool" where
  "pick_admin exclude a =
    (case sort_key (\<lambda>e. (ap_load a (emp_id e), full_name e, emp_id e)) (filter (\<lambda>e. emp_id e \<notin> exclude) (ap_admins a)) of
       [] \<Rightarrow> (None, a)
     | e # _ \<Rightarrow> (Some e, a\<lparr>ap_load := (ap_load a)(emp_id e := ap_load a (emp_id e) + 1)\<rparr>))"

record tally =
  ta_warned :: nat
  ta_managers :: nat
  ta_admins :: nat

record sweep =
  sw_now :: datetime
  sw_pool :: admin_pool
  sw_ledger :: ledger
  sw_tally :: tally

subsection \<open>What is due\<close>

definition tiers :: "escalation_config \<Rightarrow> (int \<times> int) list" where
  "tiers cfg = [(tier_admin, admin_after_days cfg), (tier_manager, manager_after_days cfg), (tier_assignee, warn_after_days cfg)]"

text \<open>\<open>setdefault\<close> under the id of the task: the first, highest tier wins.\<close>

fun keep_first :: "uuid list \<Rightarrow> (task \<times> int) list \<Rightarrow> (task \<times> int) list" where
  "keep_first seen [] = []"
| "keep_first seen ((k, tier) # rest) =
     (if tk_id k \<in> set seen then keep_first seen rest else (k, tier) # keep_first (tk_id k # seen) rest)"

definition due_for_tier :: "escalation_config \<Rightarrow> datetime \<Rightarrow> 'a task_db_scheme \<Rightarrow> int \<times> int \<Rightarrow> (task \<times> int) list" where
  "due_for_tier cfg t s tier = map (\<lambda>k. (k, fst tier))
     (overdue_for_escalation (t - snd tier * day_us) (fst tier) (batch_limit cfg) s)"

definition due_targets :: "escalation_config \<Rightarrow> datetime \<Rightarrow> 'a task_db_scheme \<Rightarrow> (task \<times> int) list" where
  "due_targets cfg t s = sort_key (\<lambda>x. due_or_zero (fst x)) (keep_first [] (concat (map (due_for_tier cfg t s) (tiers cfg))))"

definition prepare_sweep :: "env \<Rightarrow> escalation_config \<Rightarrow> (task \<times> int) list \<Rightarrow> datetime \<Rightarrow> 'a task_db_scheme \<Rightarrow> sweep" where
  "prepare_sweep E cfg targets t s =
    (let admins = (if list_ex (\<lambda>x. snd x \<ge> tier_admin) targets
           then (let org = list_by_role E ADMIN s in if org = [] then list_admins E s else org) else []);
         pool = filter is_active admins
     in \<lparr>sw_now = t, sw_pool = \<lparr>ap_admins = pool, ap_load = (\<lambda>i. if i \<in> set (map emp_id pool) then open_collaborations i s else 0)\<rparr>,
         sw_ledger = new_ledger (popups_per_person cfg), sw_tally = \<lparr>ta_warned = 0, ta_managers = 0, ta_admins = 0\<rparr>\<rparr>)"

subsection \<open>One task\<close>

record escalation_notice =
  en_to :: uuid
  en_task :: task
  en_title :: string
  en_body :: string
  en_level :: notification_level
  en_popup :: bool
  en_quiet_kind :: notification_kind
  en_escalated :: bool

definition addable :: "task \<Rightarrow> employee option \<Rightarrow> employee option" where
  "addable k p = (case p of None \<Rightarrow> None | Some e \<Rightarrow> if \<not> is_active e \<or> emp_id e = tk_assignee k then None else Some e)"

definition manager_of_assignee :: "task \<Rightarrow> 'a core_scheme \<Rightarrow> employee option" where
  "manager_of_assignee k s = Option.bind (find_employee (tk_assignee k) s) (\<lambda>a. Option.bind (manager_id a) (\<lambda>m. find_employee m s))"

definition pull_manager :: "task \<Rightarrow> int \<Rightarrow> 'a task_db_scheme \<Rightarrow> employee option \<times> string list \<times> 'a task_db_scheme" where
  "pull_manager k tier s =
    (if tier \<ge> tier_manager \<and> tk_level k < tier_manager
     then (case addable k (manager_of_assignee k s) of
         Some m \<Rightarrow> (Some m, [''overdue_manager_added''], add_collaborator_row (tk_id k) (emp_id m) s)
       | None \<Rightarrow> (None, [''overdue_manager_unavailable''], s))
     else (None, [], s))"

definition pull_admin :: "task \<Rightarrow> int \<Rightarrow> employee option \<Rightarrow> admin_pool \<Rightarrow> 'a task_db_scheme
    \<Rightarrow> employee option \<times> string list \<times> admin_pool \<times> 'a task_db_scheme" where
  "pull_admin k tier m pool s =
    (if tier \<ge> tier_admin
     then let exclude = set (tk_assignee k # map emp_id (filter (\<lambda>e. is_collaborator (tk_id k) (emp_id e) s) (employees s))
                  @ (case m of None \<Rightarrow> [] | Some e \<Rightarrow> [emp_id e]));
              (a, pool') = pick_admin exclude pool
          in (case addable k a of
                Some e \<Rightarrow> (Some e, [''overdue_admin_added''], pool', add_collaborator_row (tk_id k) (emp_id e) s)
              | None \<Rightarrow> (None, [''overdue_admin_unavailable''], pool', s))
     else (None, [], pool, s))"

definition escalated_notice :: "task \<Rightarrow> datetime \<Rightarrow> 'a core_scheme \<Rightarrow> employee \<Rightarrow> int \<Rightarrow> bool \<Rightarrow> escalation_notice" where
  "escalated_notice k t s e tier popup =
    (let who = (case find_employee (tk_assignee k) s of Some a \<Rightarrow> full_name a | None \<Rightarrow> ''someone on your team'')
     in \<lparr>en_to = emp_id e, en_task = k, en_title = notification_title ''Escalated to you: '' (tk_title k),
         en_body = who @ CHR 39 # ''s task is '' @ int_str (overdue_days k t)
           @ '' days overdue. You have been added as a collaborator.'',
         en_level = (if tier = tier_admin then CRITICAL else WARNING), en_popup = popup, en_quiet_kind = TASK_ASSIGNED,
         en_escalated = True\<rparr>)"

definition assignee_notice :: "task \<Rightarrow> datetime \<Rightarrow> bool \<Rightarrow> escalation_notice" where
  "assignee_notice k t popup =
    (let days = overdue_days k t
     in \<lparr>en_to = tk_assignee k, en_task = k, en_title = notification_title ''Overdue: '' (tk_title k),
         en_body = int_str days @ '' day'' @ (if days \<noteq> 1 then ''s'' else '''') @ '' past due. Update it or flag a blocker.'',
         en_level = WARNING, en_popup = popup, en_quiet_kind = SYSTEM, en_escalated = False\<rparr>)"

definition deliver :: "env \<Rightarrow> escalation_notice \<Rightarrow> ledger \<times> 'a core_scheme \<Rightarrow> ledger \<times> 'a core_scheme" where
  "deliver E m ls =
    (let send = (\<lambda>kind s. notify E (task_notice (en_to m) kind (en_title m) (Some (en_body m)) (en_level m) (tk_id (en_task m)) None) None s)
     in if en_popup m
        then (case claim_popup (en_to m) (en_escalated m) (fst ls) of
            (True, l) \<Rightarrow> (l, send ESCALATION (snd ls))
          | (False, l) \<Rightarrow> (l, snd ls))
        else (fst ls, send (en_quiet_kind m) (snd ls)))"

definition mark_escalated :: "env \<Rightarrow> task \<Rightarrow> int \<Rightarrow> string list \<Rightarrow> bool \<Rightarrow> 'a task_db_scheme \<Rightarrow> 'a task_db_scheme" where
  "mark_escalated E k level actions pulled_in s =
    fold (\<lambda>a. audit_append E ''system'' (''task.'' @ a) (Some (''task:'' @ uuid_str (tk_id k) @ '':level='' @ int_str level))) actions
      (put_task (k\<lparr>tk_level := level, tk_escalated := (pulled_in \<or> tk_escalated k)\<rparr>) s)"

definition escalation_notices :: "task \<Rightarrow> datetime \<Rightarrow> 'a core_scheme \<Rightarrow> employee option \<Rightarrow> employee option \<Rightarrow> bool \<Rightarrow> escalation_notice list" where
  "escalation_notices k t s m a warn =
    (case m of None \<Rightarrow> [] | Some e \<Rightarrow> [escalated_notice k t s e tier_manager (a = None)])
    @ (case a of None \<Rightarrow> [] | Some e \<Rightarrow> [escalated_notice k t s e tier_admin True])
    @ (if warn then [assignee_notice k t (m = None \<and> a = None)] else [])"

definition escalate_one :: "env \<Rightarrow> task \<times> int \<Rightarrow> sweep \<times> 'a task_db_scheme \<Rightarrow> sweep \<times> 'a task_db_scheme" where
  "escalate_one E x ws =
    (let (k, tier) = x; (w, s) = ws;
         (m, acts1, s1) = pull_manager k tier s;
         (a, acts2, pool, s2) = pull_admin k tier m (sw_pool w) s1;
         warn = (tk_level k < tier_assignee);
         actions = acts1 @ acts2 @ (if warn then [''overdue_warned''] else []);
         notices = escalation_notices k (sw_now w) s2 m a warn;
         (l, s3) = fold (deliver E) notices (sw_ledger w, s2);
         ta = sw_tally w;
         ta' = \<lparr>ta_warned = ta_warned ta + (if warn then 1 else 0), ta_managers = ta_managers ta + (if m \<noteq> None then 1 else 0),
                ta_admins = ta_admins ta + (if a \<noteq> None then 1 else 0)\<rparr>
     in (\<lparr>sw_now = sw_now w, sw_pool = pool, sw_ledger = l, sw_tally = ta'\<rparr>,
         mark_escalated E k tier actions (m \<noteq> None \<or> a \<noteq> None) s3))"

subsection \<open>The sweep\<close>

definition board_link :: string where
  "board_link = ''/dashboard/goals/tasks''"

definition summary_notice :: "uuid \<times> nat \<times> nat \<Rightarrow> notice" where
  "summary_notice x = (case x of (i, own, escalated) \<Rightarrow>
     \<lparr>no_to = i, no_kind = ESCALATION, no_title = summary_title own escalated,
      no_body = Some ''Open your task board to work through them, oldest first.'', no_level = WARNING,
      no_link = Some board_link, no_entity_type = None, no_entity_id = None, no_actor = None\<rparr>)"

record escalation_outcome =
  eo_tally :: tally
  eo_summaries :: nat

definition run_escalation :: "env \<Rightarrow> escalation_config \<Rightarrow> datetime \<Rightarrow> 'a task_db_scheme \<Rightarrow> escalation_outcome \<times> 'a task_db_scheme" where
  "run_escalation E cfg t s =
    (let targets = due_targets cfg t s
     in if targets = [] then (\<lparr>eo_tally = \<lparr>ta_warned = 0, ta_managers = 0, ta_admins = 0\<rparr>, eo_summaries = 0\<rparr>, s)
        else let (w, s1) = fold (escalate_one E) targets (prepare_sweep E cfg targets t s, s);
                 more = overflow (sw_ledger w)
             in (\<lparr>eo_tally = sw_tally w, eo_summaries = length more\<rparr>, fold (\<lambda>x. notify E (summary_notice x) None) more s1))"

end
