(* ===== verification/TaskLaws.thy ===== *)
theory TaskLaws
  imports TaskEscalation
begin

text \<open>
  Tasks: who may change what, the shape of the parent links, the discussion under retries, and where the checks of the
  service stop short.
\<close>

lemma get_task_in_scopeD: "get_task_in_scope c i s = Some k \<Longrightarrow> find_task i s = Some k \<and> tk_id k = i \<and> k \<in> set (tasks s) \<and> task_scope c k s"
  using row_get_SomeD[of tk_id i "tasks s" k] by (auto simp: get_task_in_scope_def find_task_def split: option.splits if_splits)

lemma task_more:
  assumes "core.more (s' :: 'a task_db_scheme) = core.more s"
  shows "tasks s' = tasks s" "collaborators s' = collaborators s" "grants s' = grants s" "work_entities s' = work_entities s"
    "task_comments s' = task_comments s"
  using assms by (cases s; cases s'; simp)+

lemma quiet_tasks:
  assumes "quiet (s :: 'a task_db_scheme) s'"
  shows "tasks s' = tasks s" "collaborators s' = collaborators s" "grants s' = grants s" "work_entities s' = work_entities s"
    "task_comments s' = task_comments s" "employees s' = employees s" "now s' = now s"
  using task_more quiet_core[OF assms] by blast+

lemma quiet_task_audit [quiet_intros]: "quiet s t \<Longrightarrow> quiet s (task_audit E c a x t)"
  unfolding task_audit_def by (intro quiet_intros)

lemma quiet_task_mail [quiet_intros]:
  "quiet s t \<Longrightarrow> quiet s (email_assignment E c k t)" "quiet s t \<Longrightarrow> quiet s (email_escalation E c k t)"
  "quiet s t \<Longrightarrow> quiet s (notify_comment E k x a t)"
  by (auto simp: email_assignment_def email_escalation_def notify_comment_def Let_def intro!: quiet_intros split: option.split)

lemma put_task_simps [simp, store_simps]:
  "tasks (put_task k s) = row_put tk_id k (tasks s)" "collaborators (put_task k s) = collaborators s"
  "employees (put_task k s) = employees s" "inbox (put_task k s) = inbox s" "now (put_task k s) = now s"
  by (simp_all add: put_task_def)

lemma update_task_effect:
  assumes "update_task E c i p s = Inr (k', s')"
  shows "\<exists>k. get_task_in_scope c i s = Some k \<and> may_edit c k p s = Inr ()
    \<and> (case tu_parent p of None \<Rightarrow> Inr () | Some x \<Rightarrow> validate_parent c x (Some i) s) = Inr ()
    \<and> (or_keep (tu_status p) (tk_status k) = BLOCKED \<longrightarrow> blocked_reason_given p k)
    \<and> k' = apply_update (now s) p k \<and> quiet (put_task k' s) s'"
  using assms by (auto simp: update_task_def ebind_Inr_iff Let_def intro!: quiet_intros split: if_splits)

subsection \<open>Who may change what\<close>

definition same_plan :: "task \<Rightarrow> task \<Rightarrow> bool" where
  "same_plan k k' \<longleftrightarrow> tk_title k' = tk_title k \<and> tk_description k' = tk_description k \<and> tk_assignee k' = tk_assignee k
     \<and> tk_project k' = tk_project k \<and> tk_project_id k' = tk_project_id k \<and> tk_priority k' = tk_priority k
     \<and> tk_cadence k' = tk_cadence k \<and> tk_start k' = tk_start k \<and> tk_due k' = tk_due k
     \<and> tk_expected_output k' = tk_expected_output k \<and> tk_review_notes k' = tk_review_notes k
     \<and> tk_final_outcome k' = tk_final_outcome k \<and> tk_level k' = tk_level k \<and> tk_escalated k' = tk_escalated k"

text \<open>C30 An update that goes through was made by somebody who sees the task. Either the caller leads the assignee, and then a
  new assignee is one the caller may assign to; or the caller is the assignee or a collaborator, and then title,
  assignee, project, priority, dates, review and escalation are as before. No update ever touches the id, the assigner,
  the creation time or any other task.
\<close>

theorem task_edit_rights:
  assumes "update_task E c i p s = Inr (k', s')"
  shows "\<exists>k. find_task i s = Some k \<and> task_scope c k s \<and> tasks s' = row_put tk_id k' (tasks s)
    \<and> tk_id k' = i \<and> tk_assigned_by k' = tk_assigned_by k \<and> tk_created_at k' = tk_created_at k
    \<and> (if leads c (tk_assignee k) s then tk_assignee k' = tk_assignee k \<or> can_assign_to c (tk_assignee k') s
       else (tk_assignee k = cu_id c \<or> is_collaborator i (cu_id c) s) \<and> same_plan k k')"
proof -
  obtain k where k: "get_task_in_scope c i s = Some k" "may_edit c k p s = Inr ()" "k' = apply_update (now s) p k"
      and q: "quiet (put_task k' s) s'" using update_task_effect[OF assms] by blast
  note d = get_task_in_scopeD[OF k(1)]
  have fields: "tk_id k' = i \<and> tk_assigned_by k' = tk_assigned_by k \<and> tk_created_at k' = tk_created_at k"
    using d by (simp add: k(3) apply_update_def Let_def)
  have "tk_assignee k' = tk_assignee k \<or> can_assign_to c (tk_assignee k') s" if "leads c (tk_assignee k) s"
    using k(2) that by (auto simp: may_edit_def k(3) apply_update_def Let_def or_keep_def split: option.splits if_splits)
  moreover have "(tk_assignee k = cu_id c \<or> is_collaborator i (cu_id c) s) \<and> same_plan k k'" if "\<not> leads c (tk_assignee k) s"
    using k(2) that d by (auto simp: may_edit_def only_progress_def same_plan_def k(3) apply_update_def Let_def or_keep_def)
  ultimately show ?thesis using d fields quiet_tasks(1)[OF q] by auto
qed

subsection \<open>The parent links\<close>

definition parent_rel :: "task list \<Rightarrow> (uuid \<times> uuid) set" where
  "parent_rel ts = {(a, b). \<exists>k. row_get tk_id a ts = Some k \<and> tk_parent k = Some b}"

lemma walk_up_iff: "walk_up n (Some i) (find_task p s) s \<longleftrightarrow> (\<exists>k. 1 \<le> k \<and> k \<le> n \<and> (p, i) \<in> parent_rel (tasks s) ^^ k)"
proof (induction n arbitrary: p)
  case (Suc n)
  let ?R = "parent_rel (tasks s)"
  have split: "(\<exists>k. 1 \<le> k \<and> k \<le> Suc n \<and> (p, i) \<in> ?R ^^ k) \<longleftrightarrow> (\<exists>q. (p, q) \<in> ?R \<and> (q = i \<or> (\<exists>k. 1 \<le> k \<and> k \<le> n \<and> (q, i) \<in> ?R ^^ k)))"
  proof
    assume "\<exists>k. 1 \<le> k \<and> k \<le> Suc n \<and> (p, i) \<in> ?R ^^ k"
    then obtain k where k: "k \<le> n" "(p, i) \<in> ?R ^^ Suc k" by (metis One_nat_def Suc_le_D Suc_le_mono)
    then obtain q where q: "(p, q) \<in> ?R" "(q, i) \<in> ?R ^^ k" by (meson relpow_Suc_D2)
    then have "q = i \<or> (\<exists>k. 1 \<le> k \<and> k \<le> n \<and> (q, i) \<in> ?R ^^ k)" 
      using k(1) q(2) by (cases "k = 0") (auto intro!: exI[of _ k] simp del: relpow.simps(2) simp: Suc_le_eq)
    then show "\<exists>q. (p, q) \<in> ?R \<and> (q = i \<or> (\<exists>k. 1 \<le> k \<and> k \<le> n \<and> (q, i) \<in> ?R ^^ k))" using q(1) by blast
  next
    assume "\<exists>q. (p, q) \<in> ?R \<and> (q = i \<or> (\<exists>k. 1 \<le> k \<and> k \<le> n \<and> (q, i) \<in> ?R ^^ k))"
    then obtain q where q: "(p, q) \<in> ?R" "q = i \<or> (\<exists>k. 1 \<le> k \<and> k \<le> n \<and> (q, i) \<in> ?R ^^ k)" by blast
    from q(2) show "\<exists>k. 1 \<le> k \<and> k \<le> Suc n \<and> (p, i) \<in> ?R ^^ k"
    proof
      assume "q = i"
      then have "(p, i) \<in> ?R ^^ 1" using q(1) by simp
      then show ?thesis by (intro exI[of _ 1]) simp
    next
      assume "\<exists>k. 1 \<le> k \<and> k \<le> n \<and> (q, i) \<in> ?R ^^ k"
      then obtain k where "k \<le> n" "(q, i) \<in> ?R ^^ k" by blast
      then show ?thesis using relpow_Suc_I2[OF q(1)] by (intro exI[of _ "Suc k"]) simp
    qed
  qed
  show ?case
  proof (cases "find_task p s")
    case None
    then have "(p, q) \<notin> ?R" for q by (simp add: parent_rel_def find_task_def)
    then show ?thesis unfolding split None by simp
  next
    case (Some a)
    then have "(p, q) \<in> ?R \<longleftrightarrow> tk_parent a = Some q" for q by (auto simp: parent_rel_def find_task_def)
    then show ?thesis unfolding split Some using Suc.IH by (cases "tk_parent a") auto
  qed
qed simp

lemma row_get_put_other: "k \<noteq> key r \<Longrightarrow> row_get key k (row_put key r rows) = row_get key k rows"
  by (cases "row_get key k rows") (simp_all add: row_get_put row_get_put_none)

lemma parent_rel_put:
  assumes "row_get tk_id (tk_id k) ts = Some k0"
  shows "parent_rel (row_put tk_id k ts) \<subseteq> (case tk_parent k of None \<Rightarrow> {} | Some p \<Rightarrow> {(tk_id k, p)}) \<union> {(a, b). (a, b) \<in> parent_rel ts \<and> a \<noteq> tk_id k}"
proof
  fix x assume "x \<in> parent_rel (row_put tk_id k ts)"
  then obtain a b k1 where x: "x = (a, b)" "row_get tk_id a (row_put tk_id k ts) = Some k1" "tk_parent k1 = Some b"
    by (auto simp: parent_rel_def)
  show "x \<in> (case tk_parent k of None \<Rightarrow> {} | Some p \<Rightarrow> {(tk_id k, p)}) \<union> {(a, b). (a, b) \<in> parent_rel ts \<and> a \<noteq> tk_id k}"
  proof (cases "a = tk_id k")
    case True
    then have "k1 = k" using x(2) row_get_put[OF assms, of k] by simp
    then show ?thesis using x True by simp
  next
    case False
    then have "row_get tk_id a ts = Some k1" using x(2) row_get_put_other[of a tk_id k ts] False by simp
    then show ?thesis using x False by (auto simp: parent_rel_def)
  qed
qed

text \<open>No chain of parents is longer than the walk looks.\<close>

definition shallow :: "task list \<Rightarrow> bool" where
  "shallow ts \<longleftrightarrow> (\<forall>a b n. (a, b) \<in> parent_rel ts ^^ n \<longrightarrow> n \<le> walk_rounds)"

text \<open>C29 The parent links stay a forest: while no chain of parents is longer than the 100 links the walk follows, an
  accepted update never makes a task its own ancestor.
\<close>

theorem update_keeps_forest:
  assumes "update_task E c i p s = Inr (k', s')" "acyclic (parent_rel (tasks s))" "shallow (tasks s)"
  shows "acyclic (parent_rel (tasks s'))"
proof -
  let ?R = "parent_rel (tasks s)"
  obtain k where k: "get_task_in_scope c i s = Some k" "k' = apply_update (now s) p k"
      and v: "(case tu_parent p of None \<Rightarrow> Inr () | Some x \<Rightarrow> validate_parent c x (Some i) s) = Inr ()"
      and q: "quiet (put_task k' s) s'" using update_task_effect[OF assms(1)] by blast
  note d = get_task_in_scopeD[OF k(1)]
  have k': "tk_id k' = i" "tk_parent k' = or_keep (tu_parent p) (tk_parent k)"
    using d by (simp_all add: k(2) apply_update_def Let_def)
  have g: "row_get tk_id (tk_id k') (tasks s) = Some k" using d k'(1) by (simp add: find_task_def)
  have sub: "parent_rel (tasks s') \<subseteq> (case tk_parent k' of None \<Rightarrow> {} | Some x \<Rightarrow> {(i, x)}) \<union> ?R"
    using parent_rel_put[OF g] k'(1) quiet_tasks(1)[OF q] by (auto split: option.splits)
  show ?thesis
  proof (cases "tk_parent k'")
    case None
    then show ?thesis using sub acyclic_subset[OF assms(2)] by simp
  next
    case (Some x)
    have "(x, i) \<notin> ?R\<^sup>*"
    proof (cases "tu_parent p")
      case None
      then have "(i, x) \<in> ?R" using Some k'(2) d by (auto simp: or_keep_def parent_rel_def find_task_def)
      then show ?thesis using assms(2) by (auto simp: acyclic_def dest: rtrancl_into_trancl2)
    next
      case (Some y)
      then have "y = Some x" using \<open>tk_parent k' = Some x\<close> k'(2) by (simp add: or_keep_def)
      then have x: "x \<noteq> i" "\<not> walk_up walk_rounds (Some i) (find_task x s) s"
        using v Some get_task_in_scopeD by (fastforce simp: validate_parent_def split: if_splits option.splits)+
      show ?thesis
      proof
        assume "(x, i) \<in> ?R\<^sup>*"
        then obtain n where n: "(x, i) \<in> ?R ^^ n" by (meson rtrancl_imp_relpow)
        then have "1 \<le> n" "n \<le> walk_rounds" using x(1) assms(3) by (cases n; auto simp: shallow_def)+
        then show False using x(2) n walk_up_iff by blast
      qed
    qed
    then have "acyclic (insert (i, x) ?R)" using assms(2) by (simp add: acyclic_insert)
    then show ?thesis by (rule acyclic_subset) (use sub Some in auto)
  qed
qed

subsection \<open>Concrete tasks\<close>

definition demo_task :: "uuid \<Rightarrow> uuid option \<Rightarrow> task" where
  "demo_task i parent = \<lparr>tk_id = i, tk_title = ''Task'', tk_description = None, tk_assignee = 2, tk_assigned_by = Some 3,
     tk_project = None, tk_project_id = None, tk_priority = PRIO_MEDIUM, tk_status = TODO, tk_cadence = ONE_TIME,
     tk_start = None, tk_due = Some 0, tk_remarks = None, tk_completed_at = None, tk_expected_output = None,
     tk_completion_pct = 0, tk_review_notes = None, tk_final_outcome = None, tk_blocked_reason = None, tk_attachments = [],
     tk_escalated = False, tk_level = 0, tk_parent = parent, tk_depends_on = None, tk_created_at = 0\<rparr>"

definition demo_task_db :: "task list \<Rightarrow> task_db" where
  "demo_task_db ts = \<lparr>now = 0, next_id = 1000, employees = [demo_employee 5 ADMIN, (demo_employee 2 EXECUTIVE)\<lparr>manager_id := Some 3\<rparr>,
       demo_employee 3 MANAGER, demo_employee 4 MANAGER], audit_log = [], inbox = [], mail_log = [], tasks = ts,
     collaborators = [], grants = [], work_entities = [], task_comments = []\<rparr>"

abbreviation demo_admin :: current_user where
  "demo_admin \<equiv> \<lparr>cu_id = 5, cu_role = ADMIN, cu_manager = None, cu_payroll_manager = False\<rparr>"

lemma demo_task_simps [simp]:
  "tk_id (demo_task i parent) = i" "tk_parent (demo_task i parent) = parent" "tk_assignee (demo_task i parent) = 2"
  "tk_status (demo_task i parent) = TODO" "tasks (demo_task_db ts) = ts" "now (demo_task_db ts) = 0"
  "tk_due (demo_task i parent) = Some 0" "tk_level (demo_task i parent) = 0"
  "find_employee 2 (demo_task_db ts) = Some ((demo_employee 2 EXECUTIVE)\<lparr>manager_id := Some 3\<rparr>)"
  "find_employee 3 (demo_task_db ts) = Some (demo_employee 3 MANAGER)"
  by (simp_all add: demo_task_def demo_task_db_def find_employee_def row_get_def demo_employee_def)

lemma admin_sees [simp]: "get_task_in_scope demo_admin i s = find_task i s"
  by (simp add: get_task_in_scope_def task_scope_def split: option.split)

definition link_to :: "uuid \<Rightarrow> task_update" where
  "link_to p = no_update\<lparr>tu_parent := Some (Some p)\<rparr>"

lemma link_fields [simp]:
  "tu_parent (link_to p) = Some (Some p)" "tu_status (link_to p) = None" "tu_assignee (link_to p) = None"
  "tu_project_id (link_to p) = None"
  by (simp_all add: link_to_def no_update_def)

lemma link_succeeds:
  assumes "find_task i s = Some k" "tk_status k \<noteq> BLOCKED" "p \<noteq> i" "find_task p s = Some a" "\<not> walk_up walk_rounds (Some i) (Some a) s"
  shows "\<exists>k' s'. update_task E demo_admin i (link_to p) s = Inr (k', s') \<and> tk_id k' = tk_id k \<and> tk_parent k' = Some p
    \<and> tasks s' = row_put tk_id k' (tasks s)"
proof -
  have "may_edit demo_admin k (link_to p) s = Inr ()" by (simp add: may_edit_def leads_def is_manager_def)
  moreover have "validate_parent demo_admin (Some p) (Some i) s = Inr ()" using assms(3-5) by (simp add: validate_parent_def)
  ultimately have "update_task E demo_admin i (link_to p) s = Inr (apply_update (now s) (link_to p) k,
      task_audit E demo_admin ''task.update'' (''task:'' @ uuid_str (tk_id k)) (put_task (apply_update (now s) (link_to p) k) s))"
    using assms(1,2) by (simp add: update_task_def or_keep_def Let_def)
  moreover have "quiet (put_task (apply_update (now s) (link_to p) k) s)
      (task_audit E demo_admin ''task.update'' (''task:'' @ uuid_str (tk_id k)) (put_task (apply_update (now s) (link_to p) k) s))"
    by (intro quiet_intros)
  moreover have "tk_id (apply_update (now s) (link_to p) k) = tk_id k" "tk_parent (apply_update (now s) (link_to p) k) = Some p"
    by (simp_all add: apply_update_def Let_def or_keep_def)
  ultimately show ?thesis using quiet_tasks(1) put_task_simps(1) by metis
qed

lemma single_parent_rel: "parent_rel [demo_task 10 None, demo_task 11 None] = {}"
  by (auto simp: parent_rel_def row_get_def split: if_splits)

theorem update_keeps_forest_witness:
  "\<exists>k' s'. update_task demo_E demo_admin 10 (link_to 11) (demo_task_db [demo_task 10 None, demo_task 11 None]) = Inr (k', s')
     \<and> tk_parent k' = Some 11 \<and> acyclic (parent_rel (tasks s'))"
proof -
  let ?s = "demo_task_db [demo_task 10 None, demo_task 11 None]"
  have f: "find_task 10 ?s = Some (demo_task 10 None)" "find_task 11 ?s = Some (demo_task 11 None)"
    by (simp_all add: find_task_def row_get_def)
  have "\<not> walk_up walk_rounds (Some 10) (Some (demo_task 11 None)) ?s" by (simp add: walk_rounds_def numeral_eq_Suc)
  then obtain k' s' where u: "update_task demo_E demo_admin 10 (link_to 11) ?s = Inr (k', s')" "tk_parent k' = Some 11"
    using link_succeeds[OF f(1) _ _ f(2)] by force
  have "shallow (tasks ?s)" unfolding shallow_def demo_task_simps single_parent_rel
  proof (intro allI impI)
    fix a b :: uuid and n assume "(a, b) \<in> {} ^^ n"
    then show "n \<le> walk_rounds" by (cases n) simp_all
  qed
  moreover have "acyclic (parent_rel (tasks ?s))" by (simp add: single_parent_rel acyclic_def)
  ultimately show ?thesis using u update_keeps_forest[OF u(1)] by blast
qed

text \<open>
  Without the bound the walk can miss a cycle: in a chain of 102 tasks the last one can be put under the
  first, since the walk gives up after 100 links.
\<close>

definition long_chain :: "task list" where
  "long_chain = map (\<lambda>i. demo_task i (if i < 101 then Some (Suc i) else None)) [0..<102]"

lemma row_get_map_id: "row_get tk_id i (map (\<lambda>j. demo_task j (f j)) ns) = (if i \<in> set ns then Some (demo_task i (f i)) else None)"
  by (induction ns) (auto simp: row_get_def)

lemma long_chain_get: "row_get tk_id i long_chain = (if i < 102 then Some (demo_task i (if i < 101 then Some (Suc i) else None)) else None)"
  unfolding long_chain_def row_get_map_id by simp

lemma long_chain_walk: "i + n \<le> 100 \<Longrightarrow> \<not> walk_up n (Some 101) (find_task i (demo_task_db long_chain)) (demo_task_db long_chain)"
proof (induction n arbitrary: i)
  case (Suc n)
  then have "find_task i (demo_task_db long_chain) = Some (demo_task i (Some (Suc i)))" by (simp add: find_task_def long_chain_get)
  then show ?case using Suc.IH[of "Suc i"] Suc.prems by simp
qed simp

lemma long_chain_path: "i \<le> 101 \<Longrightarrow> (0, i) \<in> (parent_rel long_chain)\<^sup>*"
proof (induction i)
  case (Suc i)
  then have "(i, Suc i) \<in> parent_rel long_chain" by (simp add: parent_rel_def long_chain_get)
  then show ?case using Suc by (auto intro: rtrancl_into_rtrancl)
qed simp

theorem deep_cycle_accepted:
  "\<exists>k' s'. update_task demo_E demo_admin 101 (link_to 0) (demo_task_db long_chain) = Inr (k', s') \<and> \<not> acyclic (parent_rel (tasks s'))"
proof -
  let ?s = "demo_task_db long_chain"
  have f: "find_task 101 ?s = Some (demo_task 101 None)" "find_task 0 ?s = Some (demo_task 0 (Some 1))"
    by (simp_all add: find_task_def long_chain_get)
  have "\<not> walk_up walk_rounds (Some 101) (Some (demo_task 0 (Some 1))) ?s"
    using long_chain_walk[of 0 100] f(2) by (simp add: walk_rounds_def)
  then obtain k' s' where u: "update_task demo_E demo_admin 101 (link_to 0) ?s = Inr (k', s')" "tk_id k' = 101"
      "tk_parent k' = Some 0" "tasks s' = row_put tk_id k' long_chain"
    using link_succeeds[OF f(1) _ _ f(2)] by fastforce
  have get: "row_get tk_id i (tasks s') = (if i = 101 then Some k' else row_get tk_id i long_chain)" for i
    using u(2,4) row_get_put_other[of i tk_id k' long_chain] by (simp add: row_get_put long_chain_get)
  have step: "(a, b) \<in> parent_rel (tasks s')" if "(a, b) \<in> parent_rel long_chain" for a b
    using that by (auto simp: parent_rel_def get long_chain_get split: if_splits)
  have "(101, 0) \<in> parent_rel (tasks s')" using u(3) by (simp add: parent_rel_def get)
  moreover have "(0, 101) \<in> (parent_rel (tasks s'))\<^sup>*"
    using long_chain_path[of 101] rtrancl_mono[of "parent_rel long_chain" "parent_rel (tasks s')"] step
    by (meson le_refl subrelI subsetD)
  ultimately have "(101, 101) \<in> (parent_rel (tasks s'))\<^sup>+" by (rule rtrancl_into_trancl2)
  then show ?thesis using u(1) by (auto simp: acyclic_def)
qed

subsection \<open>The discussion under retries\<close>

lemma add_task_comment_comments:
  assumes "add_task_comment E c i body key s = Inr (x, s1)"
  shows "(case key of Some k \<Rightarrow> comment_by_key (cu_id c) k s | None \<Rightarrow> recent_duplicate i (cu_id c) body (now s - comment_window) s) = Some x
        \<and> task_comments s1 = task_comments s
      \<or> (case key of Some k \<Rightarrow> comment_by_key (cu_id c) k s | None \<Rightarrow> recent_duplicate i (cu_id c) body (now s - comment_window) s) = None
        \<and> tc_task x = i \<and> tc_author x = Some (cu_id c) \<and> tc_body x = body \<and> tc_key x = key \<and> tc_created_at x = now s
        \<and> task_comments s1 = task_comments s @ [x]"
proof -
  let ?prior = "case key of Some k \<Rightarrow> comment_by_key (cu_id c) k s | None \<Rightarrow> recent_duplicate i (cu_id c) body (now s - comment_window) s"
  obtain k where k: "get_task_in_scope c i s = Some k" using assms by (auto simp: add_task_comment_def ebind_Inr_iff)
  show ?thesis
  proof (cases ?prior)
    case (Some y)
    then show ?thesis using assms k by (simp add: add_task_comment_def Let_def)
  next
    case None
    define z where "z = \<lparr>tc_id = next_id s, tc_task = i, tc_author = Some (cu_id c), tc_body = body, tc_key = key, tc_created_at = now s\<rparr>"
    have x: "x = z" and s1: "s1 = notify_comment E k z (cu_id c)
        (task_audit E c ''task.comment'' (''task:'' @ uuid_str i) (s\<lparr>task_comments := row_add z (task_comments s), next_id := next_id s + 1\<rparr>))"
      using assms k None by (auto simp: add_task_comment_def Let_def z_def)
    have "quiet (s\<lparr>task_comments := row_add z (task_comments s), next_id := next_id s + 1\<rparr>) s1" unfolding s1 by (intro quiet_intros)
    then have "task_comments s1 = task_comments s @ [z]" using quiet_tasks(5) by (fastforce simp: row_add_def)
    then show ?thesis using None x by (simp add: z_def)
  qed
qed

lemma add_task_comment_rest: "add_task_comment E c i body key s = Inr (x, s1) \<Longrightarrow> tasks s1 = tasks s \<and> now s1 = now s"
proof -
  assume a: "add_task_comment E c i body key s = Inr (x, s1)"
  have "\<exists>s0. tasks s0 = tasks s \<and> now s0 = now s \<and> quiet s0 s1"
  proof (cases "s1 = s")
    case False
    then obtain k z where "s1 = notify_comment E k z (cu_id c) (task_audit E c ''task.comment'' (''task:'' @ uuid_str i)
        (s\<lparr>task_comments := row_add z (task_comments s), next_id := next_id s + 1\<rparr>))"
      using a by (auto simp: add_task_comment_def Let_def ebind_Inr_iff split: option.splits)
    then have "quiet (s\<lparr>task_comments := row_add z (task_comments s), next_id := next_id s + 1\<rparr>) s1" by (simp add: quiet_intros)
    then show ?thesis by (intro exI[of _ "s\<lparr>task_comments := row_add z (task_comments s), next_id := next_id s + 1\<rparr>"]) simp
  qed (auto intro: quiet_refl)
  then show ?thesis using quiet_tasks(1,7) by metis
qed

lemma first_of: "List.find (\<lambda>x. True) xs = Some y \<longleftrightarrow> (\<exists>ys. xs = y # ys)"
  by (cases xs) auto

lemma first_of_none: "List.find (\<lambda>x. True) xs = None \<longleftrightarrow> xs = []"
  by (cases xs) auto

lemma recent_duplicate_kept:
  assumes "recent_duplicate i a body since s = Some x" "task_comments t = task_comments s" "since \<le> since'" "since' \<le> tc_created_at x"
  shows "recent_duplicate i a body since' t = Some x"
proof -
  let ?P = "\<lambda>u x. tc_task x = i \<and> tc_author x = Some a \<and> tc_body x = body \<and> tc_created_at x \<ge> u"
  obtain ys where "sort_key (\<lambda>x. - tc_created_at x) (filter (?P since) (task_comments s)) = x # ys"
    using assms(1) by (auto simp: recent_duplicate_def first_of)
  then have "filter (\<lambda>x. tc_created_at x \<ge> since') (sort_key (\<lambda>x. - tc_created_at x) (filter (?P since) (task_comments s)))
      = x # filter (\<lambda>x. tc_created_at x \<ge> since') ys" using assms(4) by simp
  moreover have "filter (\<lambda>x. tc_created_at x \<ge> since') (filter (?P since) (task_comments s)) = filter (?P since') (task_comments s)"
    unfolding filter_filter using assms(3) by (intro filter_cong refl) auto
  ultimately show ?thesis using assms(2) by (simp add: recent_duplicate_def first_of filter_sort)
qed

lemma recent_duplicate_new:
  assumes "recent_duplicate i a body since s = None" "task_comments t = task_comments s @ [x]" "since \<le> since'"
    and "tc_task x = i" "tc_author x = Some a" "tc_body x = body" "since' \<le> tc_created_at x"
  shows "recent_duplicate i a body since' t = Some x"
proof -
  let ?P = "\<lambda>u x. tc_task x = i \<and> tc_author x = Some a \<and> tc_body x = body \<and> tc_created_at x \<ge> u"
  have "sort_key (\<lambda>x. - tc_created_at x) (filter (?P since) (task_comments s)) = []"
    using assms(1) by (simp add: recent_duplicate_def first_of_none)
  from arg_cong[OF this, of length] have "filter (?P since) (task_comments s) = []" by simp
  then have "filter (?P since') (task_comments s) = []" using assms(3) by (auto simp: filter_empty_conv)
  then have "filter (?P since') (task_comments t) = [x]" using assms(2,4-7) by simp
  then show ?thesis by (simp add: recent_duplicate_def)
qed

text \<open>A message sent again is not posted again: after a post, the same request with the same idempotency key, or without
  one within 30 seconds, gets the same comment back and changes nothing, as long as the caller still sees the task.
\<close>

theorem comment_posted_once:
  assumes "add_task_comment E c i body key s = Inr (x, s1)" "task_comments t = task_comments s1" "get_task_in_scope c i t = Some k"
    and "key = None \<Longrightarrow> now s \<le> now t \<and> now t - comment_window \<le> tc_created_at x"
  shows "add_task_comment E c i body key t = Inr (x, t)"
proof -
  have "(case key of Some k \<Rightarrow> comment_by_key (cu_id c) k t | None \<Rightarrow> recent_duplicate i (cu_id c) body (now t - comment_window) t) = Some x"
  proof (cases key)
    case None
    note w = assms(4)[OF None]
    from add_task_comment_comments[OF assms(1)] None
    consider (old) "recent_duplicate i (cu_id c) body (now s - comment_window) s = Some x" "task_comments s1 = task_comments s"
      | (new) "recent_duplicate i (cu_id c) body (now s - comment_window) s = None" "task_comments s1 = task_comments s @ [x]"
          "tc_task x = i" "tc_author x = Some (cu_id c)" "tc_body x = body" by auto
    then show ?thesis
    proof cases
      case old
      then show ?thesis using recent_duplicate_kept[OF old(1), of t "now t - comment_window"] assms(2) w None by simp
    next
      case new
      then show ?thesis using recent_duplicate_new[OF new(1), of t x "now t - comment_window"] assms(2) w None by simp
    qed
  next
    case (Some y)
    have "List.find P (xs @ [z]) = (case List.find P xs of None \<Rightarrow> if P z then Some z else None | Some r \<Rightarrow> Some r)"
      for P and xs :: "task_comment list" and z by (induction xs) simp_all
    then show ?thesis using add_task_comment_comments[OF assms(1)] Some assms(2) by (auto simp: comment_by_key_def)
  qed
  then show ?thesis using assms(3) by (simp add: add_task_comment_def Let_def)
qed

theorem comment_posted_once_witness:
  "\<exists>x s1. add_task_comment demo_E demo_admin 10 ''Hi'' None (demo_task_db [demo_task 10 None]) = Inr (x, s1)
     \<and> add_task_comment demo_E demo_admin 10 ''Hi'' None s1 = Inr (x, s1)"
proof -
  let ?s = "demo_task_db [demo_task 10 None]"
  have f: "get_task_in_scope demo_admin 10 ?s = Some (demo_task 10 None)" by (simp add: find_task_def row_get_def)
  have c: "task_comments ?s = []" by (simp add: demo_task_db_def)
  have none: "recent_duplicate 10 5 ''Hi'' (- comment_window) ?s = None" by (simp add: recent_duplicate_def c)
  obtain x s1 where a: "add_task_comment demo_E demo_admin 10 ''Hi'' None ?s = Inr (x, s1)"
    using f none by (simp add: add_task_comment_def Let_def)
  have n: "tasks s1 = tasks ?s \<and> now s1 = now ?s" using add_task_comment_rest[OF a] .
  have "tc_created_at x = now ?s" using add_task_comment_comments[OF a] c by (auto simp: recent_duplicate_def)
  moreover have "get_task_in_scope demo_admin 10 s1 = Some (demo_task 10 None)" using f n by (simp add: find_task_def)
  ultimately have "add_task_comment demo_E demo_admin 10 ''Hi'' None s1 = Inr (x, s1)"
    using n by (intro comment_posted_once[OF a refl]) (simp_all add: comment_window_def)
  then show ?thesis using a by blast
qed

theorem task_edit_rights_witness:
  "\<exists>k' s'. update_task demo_E demo_admin 10 (link_to 11) (demo_task_db [demo_task 10 None, demo_task 11 None]) = Inr (k', s')
     \<and> tasks s' = [k', demo_task 11 None] \<and> tk_assigned_by k' = Some 3"
proof -
  let ?s = "demo_task_db [demo_task 10 None, demo_task 11 None]"
  have f: "find_task 10 ?s = Some (demo_task 10 None)" "find_task 11 ?s = Some (demo_task 11 None)"
    by (simp_all add: find_task_def row_get_def)
  have "\<not> walk_up walk_rounds (Some 10) (Some (demo_task 11 None)) ?s" by (simp add: walk_rounds_def numeral_eq_Suc)
  then obtain k' s' where u: "update_task demo_E demo_admin 10 (link_to 11) ?s = Inr (k', s')"
    using link_succeeds[OF f(1) _ _ f(2)] by force
  from task_edit_rights[OF u] f(1) have "tasks s' = row_put tk_id k' (tasks ?s)" "tk_id k' = 10" "tk_assigned_by k' = Some 3"
    by (simp_all add: demo_task_def)
  then show ?thesis using u by (simp add: row_put_def)
qed

subsection \<open>Where the checks stop short\<close>

definition demo_new :: "uuid \<Rightarrow> uuid option \<Rightarrow> task_status \<Rightarrow> task_create" where
  "demo_new e parent st = \<lparr>tn_title = ''Task'', tn_assignee = e, tn_description = None, tn_project = None, tn_project_id = None,
     tn_priority = PRIO_MEDIUM, tn_status = st, tn_cadence = ONE_TIME, tn_start = None, tn_due = None, tn_remarks = None,
     tn_expected_output = None, tn_attachments = [], tn_parent = parent, tn_depends_on = None\<rparr>"

abbreviation demo_viewer :: current_user where
  "demo_viewer \<equiv> \<lparr>cu_id = 4, cu_role = VIEWER, cu_manager = None, cu_payroll_manager = False\<rparr>"

lemma bulk_single:
  assumes "first_error (bulk_allowed c s) [p] = Inr ()"
  shows "\<exists>t s'. create_bulk E c [p] s = Inr ([t], s') \<and> tk_parent t = tn_parent p"
  using assms unfolding create_bulk_def
  by (cases "create_task_row (cu_id c) p s") (auto simp: Let_def create_task_row_def new_task_def)

text \<open>The bulk route takes a parent link that the single route refuses, because the caller does not see that task.\<close>

theorem bulk_skips_parent_check:
  "create_task demo_E demo_viewer (demo_new 4 (Some 10) TODO) (demo_task_db [demo_task 10 None])
     = Inl (ValidationError ''Parent task not found or not visible to you.'')
   \<and> (\<exists>t s'. create_bulk demo_E demo_viewer [demo_new 4 (Some 10) TODO] (demo_task_db [demo_task 10 None]) = Inr ([t], s')
        \<and> tk_parent t = Some 10)"
proof -
  let ?s = "demo_task_db [demo_task 10 None]"
  have "get_task_in_scope demo_viewer 10 ?s = None"
    by (simp add: get_task_in_scope_def find_task_def row_get_def task_scope_def demo_task_def demo_task_db_def is_collaborator_def)
  then have single: "create_task demo_E demo_viewer (demo_new 4 (Some 10) TODO) ?s
      = Inl (ValidationError ''Parent task not found or not visible to you.'')"
    by (simp add: create_task_def can_assign_to_def validate_project_def validate_parent_def demo_new_def)
  have ok: "first_error (bulk_allowed demo_viewer ?s) [demo_new 4 (Some 10) TODO] = Inr ()"
    by (simp add: bulk_allowed_def can_assign_to_def validate_project_def demo_new_def)
  have p: "tn_parent (demo_new 4 (Some 10) TODO) = Some 10" by (simp only: demo_new_def task_create.simps)
  note bulk_single[OF ok, of demo_E, unfolded p]
  with single show ?thesis ..
qed

text \<open>A task may be created blocked, without a reason; then no update passes that does not bring one.\<close>

theorem created_blocked_without_reason:
  assumes "create_task E c p s = Inr (t, s1)" "tn_status p = BLOCKED"
    and "find_task (tk_id t) s2 = Some t" "tu_status u = None" "tu_blocked_reason u = None"
  shows "tk_status t = BLOCKED \<and> tk_blocked_reason t = None \<and> (\<exists>e. update_task E c' (tk_id t) u s2 = Inl e)"
proof -
  have t: "tk_status t = BLOCKED" "tk_blocked_reason t = None"
    using assms(1,2) by (auto simp: create_task_def create_task_row_def new_task_def Let_def ebind_Inr_iff split: if_splits)
  have "update_task E c' (tk_id t) u s2 \<noteq> Inr (k, s3)" for k s3
  proof
    assume "update_task E c' (tk_id t) u s2 = Inr (k, s3)"
    then obtain x where x: "get_task_in_scope c' (tk_id t) s2 = Some x"
        "or_keep (tu_status u) (tk_status x) = BLOCKED \<longrightarrow> blocked_reason_given u x"
      using update_task_effect[of E c' "tk_id t" u s2 k s3] by blast
    have "x = t" using get_task_in_scopeD[OF x(1), THEN conjunct1] unfolding assms(3) by simp
    then have "blocked_reason_given u t" using x(2) t assms(4) by (simp add: or_keep_def)
    then show False using t assms(5) by (simp add: blocked_reason_given_def or_keep_def or_empty_def py_strip_def strip_with_def)
  qed
  then show ?thesis using t by (cases "update_task E c' (tk_id t) u s2") auto
qed

text \<open>A collaborator whose role is manager may retitle the task of somebody they do not manage.\<close>

definition retitle :: "string \<Rightarrow> task_update" where
  "retitle x = no_update\<lparr>tu_title := Some x\<rparr>"

abbreviation demo_outsider :: current_user where
  "demo_outsider \<equiv> \<lparr>cu_id = 4, cu_role = MANAGER, cu_manager = None, cu_payroll_manager = False\<rparr>"

theorem manager_collaborator_edits:
  "\<exists>k' s'. update_task demo_E demo_outsider 10 (retitle ''Mine'') ((demo_task_db [demo_task 10 None])\<lparr>collaborators := [(10, 4)]\<rparr>) = Inr (k', s')
     \<and> tk_title k' = ''Mine'' \<and> tk_assignee k' = 2"
proof -
  let ?s = "(demo_task_db [demo_task 10 None])\<lparr>collaborators := [(10, 4)]\<rparr>"
  have "get_task_in_scope demo_outsider 10 ?s = Some (demo_task 10 None)"
    by (simp add: get_task_in_scope_def find_task_def row_get_def task_scope_def is_collaborator_def Let_def)
  then show ?thesis
    by (simp add: update_task_def may_edit_def leads_def is_manager_def retitle_def no_update_def or_keep_def apply_update_def Let_def)
qed

end
