(* ===== verification/EscalationLaws.thy ===== *)
theory EscalationLaws
  imports TaskLaws
begin

text \<open>
  The sweep over overdue tasks: what it does to the task table, that running it again finds nothing, and how
  many pop-ups one person can get.
\<close>

subsection \<open>The task table after a sweep\<close>

lemma notify_tasks [simp]:
  "tasks (notify E m d s) = tasks s" "collaborators (notify E m d s) = collaborators s"
  using quiet_tasks(1,2)[OF quiet_notify] by blast+

lemma audit_tasks [simp]: "tasks (audit_append E a b t s) = tasks s" "inbox (audit_append E a b t s) = inbox s"
  using quiet_tasks(1)[OF quiet_audit] by (blast, simp add: audit_append_def Let_def)

lemma add_row_simps [simp]:
  "tasks (add_collaborator_row i e s) = tasks s" "inbox (add_collaborator_row i e s) = inbox s"
  "employees (add_collaborator_row i e s) = employees s"
  by (simp_all add: add_collaborator_row_def)

lemma pull_simps:
  "pull_manager k tier s = (m, acts, s1) \<Longrightarrow> tasks s1 = tasks s \<and> inbox s1 = inbox s \<and> employees s1 = employees s"
  "pull_admin k tier m0 pool s = (a, acts', pool', s2) \<Longrightarrow> tasks s2 = tasks s \<and> inbox s2 = inbox s \<and> employees s2 = employees s"
  by (auto simp: pull_manager_def pull_admin_def Let_def split: if_splits option.splits prod.splits)

lemma deliver_tasks [simp]: "tasks (snd (deliver E m ls)) = tasks (snd ls)"
  by (auto simp: deliver_def Let_def split: prod.split bool.split)

lemma fold_deliver_tasks: "tasks (snd (fold (deliver E) ms ls)) = tasks (snd ls)"
  by (induction ms arbitrary: ls) simp_all

lemma fold_audit [simp]:
  "tasks (fold (\<lambda>a. audit_append E b (f a) (g a)) xs s) = tasks s" "inbox (fold (\<lambda>a. audit_append E b (f a) (g a)) xs s) = inbox s"
  by (induction xs arbitrary: s) simp_all

definition raised :: "task \<Rightarrow> int \<Rightarrow> task \<Rightarrow> bool" where
  "raised k tier x \<longleftrightarrow> tk_id x = tk_id k \<and> tk_level x = tier \<and> tk_due x = tk_due k \<and> tk_status x = tk_status k"

lemma escalate_one_tasks:
  "\<exists>x. raised k tier x \<and> tasks (snd (escalate_one E (k, tier) ws)) = row_put tk_id x (tasks (snd ws))"
proof -
  obtain w s where ws: "ws = (w, s)" by (cases ws)
  obtain m acts1 s1 where 1: "pull_manager k tier s = (m, acts1, s1)" by (cases "pull_manager k tier s") auto
  obtain a acts2 pool s2 where 2: "pull_admin k tier m (sw_pool w) s1 = (a, acts2, pool, s2)"
    by (cases "pull_admin k tier m (sw_pool w) s1") auto
  let ?ms = "escalation_notices k (sw_now w) s2 m a (tk_level k < tier_assignee)"
  obtain l s3 where 3: "fold (deliver E) ?ms (sw_ledger w, s2) = (l, s3)" by (cases "fold (deliver E) ?ms (sw_ledger w, s2)") auto
  have "tasks s3 = tasks s" using pull_simps(1)[OF 1] pull_simps(2)[OF 2] fold_deliver_tasks[of E ?ms "(sw_ledger w, s2)"] 3 by simp
  then show ?thesis using 1 2 3
    by (intro exI[of _ "k\<lparr>tk_level := tier, tk_escalated := ((m \<noteq> None \<or> a \<noteq> None) \<or> tk_escalated k)\<rparr>"])
      (simp add: escalate_one_def ws Let_def mark_escalated_def raised_def)
qed

definition swept :: "task list \<Rightarrow> (task \<times> int) list \<Rightarrow> task \<Rightarrow> bool" where
  "swept ts targets x \<longleftrightarrow> (x \<in> set ts \<and> tk_id x \<notin> tk_id ` fst ` set targets) \<or> (\<exists>(k, tier) \<in> set targets. raised k tier x)"

lemma fold_escalate_swept:
  assumes "\<forall>x \<in> set (tasks (snd ws)). swept ts before x" "set before \<union> set targets = set todo"
  shows "\<forall>x \<in> set (tasks (snd (fold (escalate_one E) targets ws))). swept ts todo x"
  using assms
proof (induction targets arbitrary: before ws)
  case Nil
  then show ?case by (simp add: swept_def)
next
  case (Cons p targets)
  obtain k tier where p: "p = (k, tier)" by (cases p)
  obtain y where y: "raised k tier y" "tasks (snd (escalate_one E p ws)) = row_put tk_id y (tasks (snd ws))"
    using escalate_one_tasks[of k tier E ws] p by blast
  have "swept ts (p # before) x" if "x \<in> set (tasks (snd (escalate_one E p ws)))" for x
  proof (cases "x = y")
    case True
    then show ?thesis using y(1) p by (auto simp: swept_def)
  next
    case False
    then have "x \<in> set (tasks (snd ws))" "tk_id x \<noteq> tk_id y" using that rows.put_content_cases[of x tk_id y] y(2) by auto
    then show ?thesis using Cons.prems(1) y(1) p by (auto simp: swept_def raised_def)
  qed
  moreover have "set (p # before) \<union> set targets = set todo" using Cons.prems(2) by auto
  ultimately show ?case using Cons.IH[of "escalate_one E p ws" "p # before"] by simp
qed

lemma fold_notify_tasks: "tasks (fold (\<lambda>x. notify E (f x) d) xs s) = tasks s"
  by (induction xs arbitrary: s) simp_all

lemma run_escalation_swept: "\<forall>x \<in> set (tasks (snd (run_escalation E cfg t s))). swept (tasks s) (due_targets cfg t s) x"
proof (cases "due_targets cfg t s = []")
  case True
  then show ?thesis by (simp add: run_escalation_def swept_def)
next
  case False
  let ?T = "due_targets cfg t s"
  have "\<forall>x \<in> set (tasks (snd (fold (escalate_one E) ?T (prepare_sweep E cfg ?T t s, s)))). swept (tasks s) ?T x"
    by (rule fold_escalate_swept[where before="[]"]) (simp_all add: swept_def)
  then show ?thesis using False
    by (auto simp: run_escalation_def Let_def fold_notify_tasks split: prod.splits)
qed

subsection \<open>Running it again\<close>

lemma keep_first_sub: "set (keep_first seen xs) \<subseteq> set xs"
  by (induction seen xs rule: keep_first.induct) auto

lemma keep_first_ids: "tk_id ` fst ` set (keep_first seen xs) = tk_id ` fst ` set xs - set seen"
  by (induction seen xs rule: keep_first.induct) (auto simp: image_iff)

lemma keep_first_highest:
  "sorted_wrt (\<lambda>a b. snd a \<ge> snd b) xs \<Longrightarrow> (k, tier) \<in> set (keep_first seen xs) \<Longrightarrow> (x, u) \<in> set xs \<Longrightarrow> tk_id x = tk_id k \<Longrightarrow> u \<le> tier"
proof (induction seen xs rule: keep_first.induct)
  case (2 seen y v rest)
  show ?case
  proof (cases "tk_id y \<in> set seen")
    case True
    moreover have "tk_id k \<notin> set seen" using 2(4) keep_first_ids[of seen "(y, v) # rest"] by (force simp: image_iff)
    ultimately show ?thesis using 2 by auto
  next
    case False
    show ?thesis
    proof (cases "(k, tier) = (y, v)")
      case True
      then show ?thesis using 2(3,5) by auto
    next
      case other: False
      then have k: "(k, tier) \<in> set (keep_first (tk_id y # seen) rest)" using 2(4) False by auto
      then have "tk_id k \<noteq> tk_id y" using keep_first_ids[of "tk_id y # seen" rest] by (force simp: image_iff)
      then show ?thesis using 2(2)[OF False _ k] 2(3,5,6) by auto
    qed
  qed
qed simp

definition due_now :: "escalation_config \<Rightarrow> datetime \<Rightarrow> int \<times> int \<Rightarrow> task \<Rightarrow> bool" where
  "due_now cfg t tier k \<longleftrightarrow> is_overdue (t - snd tier * day_us) k \<and> tk_level k < fst tier"

text \<open>The backlog of every tier fits into one batch.\<close>

definition fits_batch :: "escalation_config \<Rightarrow> datetime \<Rightarrow> 'a task_db_scheme \<Rightarrow> bool" where
  "fits_batch cfg t s \<longleftrightarrow> (\<forall>tier \<in> set (tiers cfg). length (filter (due_now cfg t tier) (tasks s)) \<le> batch_limit cfg)"

lemma due_for_tier_alt: "due_for_tier cfg t s tier = map (\<lambda>k. (k, fst tier))
    (take (batch_limit cfg) (sort_key due_or_zero (filter (due_now cfg t tier) (tasks s))))"
  unfolding due_for_tier_def overdue_for_escalation_def due_now_def ..

lemma due_for_tier_set:
  "set (due_for_tier cfg t s tier) \<subseteq> {(k, fst tier) | k. k \<in> set (tasks s) \<and> due_now cfg t tier k}"
  by (auto simp: due_for_tier_alt dest!: in_set_takeD)

lemma due_for_tier_all:
  "fits_batch cfg t s \<Longrightarrow> tier \<in> set (tiers cfg) \<Longrightarrow> set (due_for_tier cfg t s tier) = {(k, fst tier) | k. k \<in> set (tasks s) \<and> due_now cfg t tier k}"
  by (auto simp: due_for_tier_alt fits_batch_def)

lemma due_pairs_sorted: "sorted_wrt (\<lambda>a b. snd a \<ge> snd b) (concat (map (due_for_tier cfg t s) (tiers cfg)))"
proof -
  have c: "snd p = fst tier" if "p \<in> set (due_for_tier cfg t s tier)" for p tier
    using that due_for_tier_set[of cfg t s tier] by auto
  have "sorted_wrt (\<lambda>a b. snd a \<ge> snd b) (due_for_tier cfg t s tier)" for tier
    by (simp add: due_for_tier_def sorted_wrt_map)
  then show ?thesis
    using c by (simp add: tiers_def sorted_wrt_append) (fastforce simp: tier_admin_def tier_manager_def tier_assignee_def)
qed

lemma due_targets_set: "set (due_targets cfg t s) = set (keep_first [] (concat (map (due_for_tier cfg t s) (tiers cfg))))"
  by (simp add: due_targets_def)

lemma due_targets_due:
  assumes "(k, v) \<in> set (due_targets cfg t s)"
  shows "k \<in> set (tasks s) \<and> tk_level k < v \<and> (\<exists>n. (v, n) \<in> set (tiers cfg) \<and> due_now cfg t (v, n) k)"
proof -
  have "(k, v) \<in> set (concat (map (due_for_tier cfg t s) (tiers cfg)))"
    using assms keep_first_sub by (force simp: due_targets_set)
  then obtain tier where "tier \<in> set (tiers cfg)" "(k, v) \<in> set (due_for_tier cfg t s tier)" by auto
  then have "k \<in> set (tasks s)" "fst tier = v" "due_now cfg t tier k" and m: "tier \<in> set (tiers cfg)"
    using due_for_tier_set[of cfg t s tier] by auto
  moreover from this have "(v, snd tier) = tier" by auto
  ultimately show ?thesis by (auto simp: due_now_def intro!: exI[of _ "snd tier"])
qed

text \<open>C31 Every tier fires once. A sweep leaves each task alone or raises its level, keeping its due date and status; and when
  the backlog of every tier fits into one batch, a second sweep at the same instant finds no task, tells nobody and changes
  nothing.
\<close>

theorem sweep_idempotent:
  assumes "fits_batch cfg t s"
  shows "(\<forall>x \<in> set (tasks (snd (run_escalation E cfg t s))). x \<in> set (tasks s)
        \<or> (\<exists>k \<in> set (tasks s). raised k (tk_level x) x \<and> tk_level k < tk_level x))
    \<and> run_escalation E cfg t (snd (run_escalation E cfg t s))
      = (\<lparr>eo_tally = \<lparr>ta_warned = 0, ta_managers = 0, ta_admins = 0\<rparr>, eo_summaries = 0\<rparr>, snd (run_escalation E cfg t s))"
proof -
  let ?T = "due_targets cfg t s" and ?s = "snd (run_escalation E cfg t s)"
  have none: "\<not> due_now cfg t tier x" if tier: "tier \<in> set (tiers cfg)" and x: "x \<in> set (tasks ?s)" for tier x
  proof
    assume due: "due_now cfg t tier x"
    have "swept (tasks s) ?T x" using run_escalation_swept x by blast
    then consider (same) "x \<in> set (tasks s)" "tk_id x \<notin> tk_id ` fst ` set ?T"
      | (up) k v where "(k, v) \<in> set ?T" "raised k v x" by (auto simp: swept_def)
    then show False
    proof cases
      case same
      then have "(x, fst tier) \<in> set (due_for_tier cfg t s tier)" using due due_for_tier_all[OF assms tier] by auto
      then have "(x, fst tier) \<in> set (concat (map (due_for_tier cfg t s) (tiers cfg)))" using tier by auto
      from imageI[OF imageI[OF this, of fst], of tk_id]
      have "tk_id x \<in> tk_id ` fst ` set (concat (map (due_for_tier cfg t s) (tiers cfg)))" by simp
      then show False using same(2) keep_first_ids[of "[]"] by (simp add: due_targets_set)
    next
      case up
      note k = due_targets_due[OF up(1)]
      have "v < fst tier" "due_now cfg t tier k" using due up(2) k by (auto simp: due_now_def raised_def is_overdue_def)
      then have "(k, fst tier) \<in> set (concat (map (due_for_tier cfg t s) (tiers cfg)))"
        using due_for_tier_all[OF assms tier] tier k by auto
      then show False using keep_first_highest[OF due_pairs_sorted, of k v "[]" cfg t s k "fst tier"] up(1) \<open>v < fst tier\<close>
        by (simp add: due_targets_set)
    qed
  qed
  have "due_for_tier cfg t ?s tier = []" if "tier \<in> set (tiers cfg)" for tier
    using due_for_tier_set[of cfg t ?s tier] none[OF that] by (auto simp: due_for_tier_alt)
  then have empty: "concat (map (due_for_tier cfg t ?s) (tiers cfg)) = []" by simp
  have "due_targets cfg t ?s = []" unfolding due_targets_def empty by simp
  then have again: "run_escalation E cfg t ?s = (\<lparr>eo_tally = \<lparr>ta_warned = 0, ta_managers = 0, ta_admins = 0\<rparr>, eo_summaries = 0\<rparr>, ?s)"
    by (simp add: run_escalation_def)
  have "x \<in> set (tasks s) \<or> (\<exists>k \<in> set (tasks s). raised k (tk_level x) x \<and> tk_level k < tk_level x)" if x: "x \<in> set (tasks ?s)" for x
  proof (cases "x \<in> set (tasks s)")
    case False
    have "swept (tasks s) ?T x" using run_escalation_swept x by blast
    then obtain k v where "(k, v) \<in> set ?T" "raised k v x" using False by (auto simp: swept_def)
    then show ?thesis using due_targets_due[of k v cfg t s] by (auto simp: raised_def)
  qed simp
  then show ?thesis using again by blast
qed

text \<open>A task three days late, of somebody with a manager.\<close>

lemma demo_sweep_fits: "fits_batch default_escalation t (demo_task_db [k])"
  by (simp add: fits_batch_def tiers_def default_escalation_def)

theorem sweep_idempotent_witness:
  "\<exists>s'. s' = snd (run_escalation demo_E default_escalation (4 * day_us) (demo_task_db [demo_task 10 None]))
     \<and> run_escalation demo_E default_escalation (4 * day_us) s'
       = (\<lparr>eo_tally = \<lparr>ta_warned = 0, ta_managers = 0, ta_admins = 0\<rparr>, eo_summaries = 0\<rparr>, s')"
  using sweep_idempotent[OF demo_sweep_fits] by blast

subsection \<open>Pop-ups\<close>

definition popups :: "uuid \<Rightarrow> 'a core_scheme \<Rightarrow> nat" where
  "popups i s = length (filter (\<lambda>n. recipient_id n = i \<and> ntf_kind n = ESCALATION) (inbox s))"

lemma popups_notify: "popups i (notify E m d s) \<le> popups i s + (if no_to m = i \<and> no_kind m = ESCALATION then 1 else 0)"
  by (auto simp: popups_def notify_def new_notification_def Let_def)

text \<open>What one person was sent stays within what the ledger counted, and that within the cap.\<close>

definition within_cap :: "nat \<Rightarrow> nat \<Rightarrow> uuid \<Rightarrow> ledger \<times> 'a core_scheme \<Rightarrow> bool" where
  "within_cap cap base i ls \<longleftrightarrow> popups i (snd ls) \<le> base + lg_sent (fst ls) i \<and> lg_sent (fst ls) i \<le> cap
     \<and> lg_cap (fst ls) = cap \<and> distinct (lg_people (fst ls)) \<and> sorted (lg_people (fst ls))"

lemma within_cap_notify:
  "within_cap cap base i (l, s) \<Longrightarrow> no_kind m \<noteq> ESCALATION \<Longrightarrow> within_cap cap base i (l, notify E m d s)"
  using popups_notify[of i E m d s] by (auto simp: within_cap_def)

lemma within_cap_popup:
  assumes "within_cap cap base i (l, s)" "claim_popup (no_to m) b l = (True, l')"
  shows "within_cap cap base i (l', notify E m d s)"
proof -
  have l': "l' = l\<lparr>lg_sent := (lg_sent l)(no_to m := lg_sent l (no_to m) + 1)\<rparr>" "lg_sent l (no_to m) < lg_cap l"
    using assms(2) by (auto simp: claim_popup_def split: if_splits)
  show ?thesis using assms(1) l' popups_notify[of i E m d s] by (auto simp: within_cap_def split: if_splits)
qed

lemma within_cap_overflow:
  "within_cap cap base i (l, s) \<Longrightarrow> claim_popup j b l = (False, l') \<Longrightarrow> within_cap cap base i (l', s)"
  by (auto simp: within_cap_def claim_popup_def distinct_insort sorted_insort set_insort_key insort_insert_key_def split: if_splits)

lemma within_cap_deliver:
  assumes "within_cap cap base i ls" "en_quiet_kind m \<noteq> ESCALATION"
  shows "within_cap cap base i (deliver E m ls)"
proof -
  obtain l s where ls: "ls = (l, s)" by (cases ls)
  obtain b l' where c: "claim_popup (en_to m) (en_escalated m) l = (b, l')" by (cases "claim_popup (en_to m) (en_escalated m) l")
  show ?thesis
  proof (cases "en_popup m")
    case True
    show ?thesis
    proof (cases b)
      case True
      then have "claim_popup (no_to (task_notice (en_to m) ESCALATION (en_title m) (Some (en_body m)) (en_level m) (tk_id (en_task m)) None)) (en_escalated m) l = (True, l')"
        using c by (simp add: task_notice_def)
      from within_cap_popup[OF assms(1)[unfolded ls] this] show ?thesis using c True \<open>en_popup m\<close> by (simp add: deliver_def ls)
    next
      case False
      then show ?thesis using within_cap_overflow[OF assms(1)[unfolded ls], of "en_to m" "en_escalated m" l'] c \<open>en_popup m\<close>
        by (simp add: deliver_def ls)
    qed
  next
    case False
    then show ?thesis using assms by (auto simp: deliver_def ls task_notice_def intro!: within_cap_notify)
  qed
qed

lemma within_cap_fold_deliver:
  "within_cap cap base i ls \<Longrightarrow> \<forall>m \<in> set ms. en_quiet_kind m \<noteq> ESCALATION \<Longrightarrow> within_cap cap base i (fold (deliver E) ms ls)"
  by (induction ms arbitrary: ls) (simp_all add: within_cap_deliver)

lemma escalation_notices_quiet: "m \<in> set (escalation_notices k t s mg a w) \<Longrightarrow> en_quiet_kind m \<noteq> ESCALATION"
  by (auto simp: escalation_notices_def escalated_notice_def assignee_notice_def Let_def split: option.splits if_splits)

lemma one_popup_per_task: "length (filter en_popup (escalation_notices k t s mg a w)) \<le> 1"
  by (auto simp: escalation_notices_def escalated_notice_def assignee_notice_def Let_def split: option.split)

lemma within_cap_cong: "within_cap cap base i (l, s) \<Longrightarrow> inbox s' = inbox s \<Longrightarrow> within_cap cap base i (l, s')"
  by (simp add: within_cap_def popups_def)

lemma within_cap_escalate:
  assumes "within_cap cap base i (sw_ledger (fst ws), snd ws)"
  shows "within_cap cap base i (sw_ledger (fst (escalate_one E p ws)), snd (escalate_one E p ws))"
proof -
  obtain w s k tier where ws: "ws = (w, s)" "p = (k, tier)" by (cases ws; cases p)
  obtain m acts1 s1 where 1: "pull_manager k tier s = (m, acts1, s1)" by (cases "pull_manager k tier s") auto
  obtain a acts2 pool s2 where 2: "pull_admin k tier m (sw_pool w) s1 = (a, acts2, pool, s2)"
    by (cases "pull_admin k tier m (sw_pool w) s1") auto
  let ?ms = "escalation_notices k (sw_now w) s2 m a (tk_level k < tier_assignee)"
  obtain l s3 where 3: "fold (deliver E) ?ms (sw_ledger w, s2) = (l, s3)" by (cases "fold (deliver E) ?ms (sw_ledger w, s2)") auto
  have "within_cap cap base i (sw_ledger w, s2)"
    using assms within_cap_cong[of cap base i "sw_ledger w" s s2] pull_simps(1)[OF 1] pull_simps(2)[OF 2] by (simp add: ws)
  then have "within_cap cap base i (fold (deliver E) ?ms (sw_ledger w, s2))"
    by (rule within_cap_fold_deliver) (blast dest: escalation_notices_quiet)
  then have "within_cap cap base i (l, s3)" unfolding 3 .
  then show ?thesis using 1 2 3 by (auto simp: escalate_one_def ws Let_def mark_escalated_def intro: within_cap_cong)
qed

lemma within_cap_sweep:
  "within_cap cap base i (sw_ledger (fst ws), snd ws) \<Longrightarrow>
   within_cap cap base i (sw_ledger (fst (fold (escalate_one E) ps ws)), snd (fold (escalate_one E) ps ws))"
  by (induction ps arbitrary: ws) (simp_all add: within_cap_escalate)

lemma popups_summaries: "popups i (fold (\<lambda>x. notify E (summary_notice x) None) xs s) \<le> popups i s + length (filter (\<lambda>x. fst x = i) xs)"
proof (induction xs arbitrary: s)
  case (Cons x xs)
  have "popups i (notify E (summary_notice x) None s) \<le> popups i s + (if fst x = i then 1 else 0)"
    using popups_notify[of i E "summary_notice x" None s] by (cases x) (simp add: summary_notice_def)
  then show ?case using Cons[of "notify E (summary_notice x) None s"] by auto
qed simp

text \<open>A backlog floods nobody: one sweep gives each person at most the configured number of pop-ups (at least one) and
  one summary that stands for the rest, however many tasks are late.
\<close>

theorem sweep_popup_cap:
  "popups i (snd (run_escalation E cfg t s)) \<le> popups i s + nat (max 1 (popups_per_person cfg)) + 1"
proof (cases "due_targets cfg t s = []")
  case True
  then show ?thesis by (simp add: run_escalation_def)
next
  case False
  let ?T = "due_targets cfg t s" and ?cap = "nat (max 1 (popups_per_person cfg))"
  obtain w s1 where w: "fold (escalate_one E) ?T (prepare_sweep E cfg ?T t s, s) = (w, s1)"
    by (cases "fold (escalate_one E) ?T (prepare_sweep E cfg ?T t s, s)")
  have "within_cap ?cap (popups i s) i (sw_ledger (prepare_sweep E cfg ?T t s), s)"
    by (simp add: within_cap_def prepare_sweep_def new_ledger_def Let_def)
  then have "within_cap ?cap (popups i s) i (sw_ledger w, s1)"
    using within_cap_sweep[of ?cap "popups i s" i "(prepare_sweep E cfg ?T t s, s)" E ?T] w by simp
  then have b: "popups i s1 \<le> popups i s + ?cap" and d: "distinct (lg_people (sw_ledger w))" by (auto simp: within_cap_def)
  have "filter (\<lambda>x. fst x = i) (overflow (sw_ledger w)) = map (\<lambda>j. (j, lg_own (sw_ledger w) j, lg_escalated (sw_ledger w) j)) (filter (\<lambda>j. j = i) (lg_people (sw_ledger w)))"
    by (simp add: overflow_def filter_map o_def)
  moreover have "length (filter (\<lambda>j. j = i) xs) \<le> 1" if "distinct xs" for xs :: "uuid list"
    using that by (induction xs) (auto simp: filter_empty_conv)
  ultimately have "length (filter (\<lambda>x. fst x = i) (overflow (sw_ledger w))) \<le> 1" using d by simp
  then show ?thesis using popups_summaries[of i E "overflow (sw_ledger w)" s1] b False w
    by (simp add: run_escalation_def Let_def)
qed

end
