(* ===== verification/PayrollMonth.thy ===== *)
theory PayrollMonth
  imports EscalationLaws Reimbursement
begin

text \<open>
  A payroll month from the records: the settings row, the org-wide estimate, a person's own slip, the release of a
  month, the digest, the scheduler's tick and the register exports of \<open>app/services/payroll_service.py\<close>, with the
  validation of the settings in \<open>app/schemas/payroll.py\<close> and the tick of \<open>worker/payroll_scheduler.py\<close>. The
  rendering of workbooks and the provider that delivers mail are parameters.
\<close>

subsection \<open>Settings\<close>

text \<open>A full match of \<open>[^@\s]+@[^@\s]+\.[^@\s]+\<close>: one at sign, something before it, no white space, and after it
  a full stop that is neither first nor last.\<close>

definition email_pattern :: "string \<Rightarrow> bool" where
  "email_pattern v = (case split_on (CHR ''@'') v of
     [name, domain] \<Rightarrow> name \<noteq> [] \<and> \<not> list_ex is_space v \<and> CHR ''.'' \<in> set (butlast (tl domain))
   | _ \<Rightarrow> False)"

fun clean_from :: "string list \<Rightarrow> string list \<Rightarrow> string list option" where
  "clean_from out [] = Some out"
| "clean_from out (v # vs) =
    (let email = map to_lower (py_strip v)
     in if email = '''' then clean_from out vs
        else if \<not> email_pattern email then None
        else clean_from (if email \<in> set out then out else out @ [email]) vs)"

definition clean_recipients :: "string list \<Rightarrow> string list option" where
  "clean_recipients = clean_from []"

fun comma_join :: "string list \<Rightarrow> string" where
  "comma_join [] = ''''"
| "comma_join [v] = v"
| "comma_join (v # vs) = v @ CHR '','' # comma_join vs"

definition parse_recipients :: "string \<Rightarrow> string list" where
  "parse_recipients raw = filter (\<lambda>p. p \<noteq> '''') (map py_strip (split_on (CHR '','') raw))"

datatype pay_cycle = PAY_MONTHLY | PAY_BIWEEKLY | PAY_WEEKLY

record payroll_settings =
  pay_day_of_month :: int
  pst_currency :: string
  pst_cycle :: pay_cycle
  auto_send_enabled :: bool
  auto_release_enabled :: bool
  auto_release_day :: int
  pst_recipients :: string
  pst_calc :: calc_config
  pst_updated_by :: "uuid option"

definition default_settings :: payroll_settings where
  "default_settings = \<lparr>pay_day_of_month = 1, pst_currency = ''INR'', pst_cycle = PAY_MONTHLY, auto_send_enabled = False,
     auto_release_enabled = False, auto_release_day = 8, pst_recipients = '''', pst_calc = default_config,
     pst_updated_by = None\<rparr>"

text \<open>The database of payroll: the records of time, pay, the settings row and the expense claims.\<close>

record pay_db = time_db +
  compensations :: "compensation list"
  payroll_config :: "payroll_settings option"
  expense_claims :: "claim list"

definition settings_model :: "'a pay_db_scheme \<Rightarrow> payroll_settings" where
  "settings_model s = (case payroll_config s of Some r \<Rightarrow> r | None \<Rightarrow> default_settings)"

text \<open>\<open>_calc_config\<close>: provident fund is deducted unless a person's record says otherwise.\<close>

definition calc_config_of :: "payroll_settings \<Rightarrow> calc_config" where
  "calc_config_of r = (pst_calc r)\<lparr>deduct_pf := True\<rparr>"

record settings_update =
  su_pay_day :: int
  su_currency :: string
  su_cycle :: pay_cycle
  su_auto_send :: bool
  su_auto_release :: bool
  su_release_day :: int
  su_recipients :: "string list"
  su_calc :: calc_config

definition minor_max :: int where
  "minor_max = 10 ^ 15"

text \<open>What the schema lets through, and the recipients it passes on.\<close>

definition validate_settings :: "settings_update \<Rightarrow> settings_update option" where
  "validate_settings p =
    (let k = su_calc p; bounded = (\<lambda>x. 0 \<le> x \<and> x \<le> minor_max)
     in if 1 \<le> su_pay_day p \<and> su_pay_day p \<le> 28 \<and> py_len (su_currency p) = 3
          \<and> 1 \<le> su_release_day p \<and> su_release_day p \<le> 28 \<and> length (su_recipients p) \<le> 50
          \<and> 0 \<le> basic_pct k \<and> basic_pct k \<le> 100 \<and> 0 \<le> hra_pct k \<and> hra_pct k \<le> 200
          \<and> 0 \<le> pf_pct k \<and> pf_pct k \<le> 100 \<and> bounded (pf_cap_minor k)
          \<and> bounded (professional_tax_minor k) \<and> bounded (professional_tax_feb_minor k)
        then map_option (\<lambda>rs. p\<lparr>su_recipients := rs\<rparr>) (clean_recipients (su_recipients p))
        else None)"

definition settings_of_update :: "settings_update \<Rightarrow> uuid \<Rightarrow> payroll_settings" where
  "settings_of_update p by = \<lparr>pay_day_of_month = su_pay_day p, pst_currency = map to_upper (su_currency p),
     pst_cycle = su_cycle p, auto_send_enabled = su_auto_send p, auto_release_enabled = su_auto_release p,
     auto_release_day = su_release_day p, pst_recipients = comma_join (su_recipients p), pst_calc = su_calc p,
     pst_updated_by = Some by\<rparr>"

definition get_settings :: "current_user \<Rightarrow> 'a pay_db_scheme \<Rightarrow> (payroll_settings \<times> string list) res" where
  "get_settings c s = (if \<not> can_manage_payroll c then Inl AuthorizationError
     else Inr (settings_model s, parse_recipients (pst_recipients (settings_model s))))"

definition update_settings ::
  "env \<Rightarrow> current_user \<Rightarrow> settings_update \<Rightarrow> 'a pay_db_scheme \<Rightarrow> (payroll_settings \<times> 'a pay_db_scheme) res" where
  "update_settings E c p s =
    (if \<not> can_manage_payroll c then Inl AuthorizationError
     else let r = settings_of_update p (cu_id c)
       in Inr (r, audit_append E (uuid_str (cu_id c)) ''payroll.settings.update'' (Some ''payroll'')
                (s\<lparr>payroll_config := Some r\<rparr>)))"

subsection \<open>One month's calendar and leave\<close>

definition period_or_current :: "env \<Rightarrow> string option \<Rightarrow> 'a core_scheme \<Rightarrow> string" where
  "period_or_current E month s = (case month of
     Some m \<Rightarrow> if m = '''' then current_month E (now s) else m | None \<Rightarrow> current_month E (now s))"

definition month_calendar_at :: "env \<Rightarrow> string \<Rightarrow> 'a time_db_scheme \<Rightarrow> month_calendar res" where
  "month_calendar_at E month s = ebind (parse_month month) (\<lambda>(year, m).
     Inr (month_calendar_of year m (holidays_in (mk_date year m 1) (mk_date year m (days_in_month year m)) s)
            (local_day E (now s)) (work_week s)))"

text \<open>\<open>_leave_days_by_employee\<close> for one person: the approved paid leaves that touch the month, by local day.\<close>

definition next_month :: "int \<Rightarrow> int \<Rightarrow> date" where
  "next_month year m = (if m = 12 then mk_date (year + 1) 1 1 else mk_date year (m + 1) 1)"

definition paid_leave_days :: "env \<Rightarrow> uuid \<Rightarrow> month_calendar \<Rightarrow> 'a time_db_scheme \<Rightarrow> pyfloat" where
  "paid_leave_days E i cal s =
    (let start = local_midnight E (mk_date (cal_year cal) (cal_month cal) 1);
         stop = local_midnight E (next_month (cal_year cal) (cal_month cal))
     in leave_days (map (\<lambda>l. (local_day E (leave_start l), local_day E (leave_end l), leave_kind l = leave_type.HALF_DAY))
          (approved_paid_in_range i start stop s)) cal)"

definition claims_view :: "'a pay_db_scheme \<Rightarrow> claims_db" where
  "claims_view s = payroll_db.extend (payroll_db.truncate s) \<lparr>claims = expense_claims s\<rparr>"

definition compensation_of :: "uuid \<Rightarrow> 'a pay_db_scheme \<Rightarrow> compensation option" where
  "compensation_of i s = row_get comp_employee i (compensations s)"

definition summary_of :: "uuid \<Rightarrow> (employee \<times> att_summary) list \<Rightarrow> month_summary option" where
  "summary_of i reports = map_option (\<lambda>x. month_summary.truncate (snd x)) (List.find (\<lambda>x. emp_id (fst x) = i) reports)"

text \<open>The call of \<open>_line_for\<close> that \<open>estimate\<close> and \<open>my_slip\<close> both make.\<close>

definition month_line ::
  "env \<Rightarrow> string \<Rightarrow> month_calendar \<Rightarrow> (employee \<times> att_summary) list \<Rightarrow> 'a pay_db_scheme \<Rightarrow> employee \<Rightarrow> payroll_line" where
  "month_line E period cal reports s e = line_for e (compensation_of (emp_id e) s) (calc_config_of (settings_model s))
     (pst_currency (settings_model s)) cal (present_days (summary_of (emp_id e) reports)) (paid_leave_days E (emp_id e) cal s)
     (adjustments_for (emp_id e) period s) (approved_for_month (emp_id e) period (claims_view s))"

subsection \<open>The estimate\<close>

record estimate_read = payroll_estimate +
  er_total_days :: int
  er_working_days :: nat
  er_employee_count :: nat
  er_total_ctc :: int
  er_total_net :: int

definition estimate :: "env \<Rightarrow> current_user \<Rightarrow> string option \<Rightarrow> 'a pay_db_scheme \<Rightarrow> estimate_read res" where
  "estimate E c month s =
    (if \<not> can_manage_payroll c then Inl AuthorizationError
     else let period = period_or_current E month s
       in ebind (month_calendar_at E period s) (\<lambda>cal. ebind (monthly_report E c period True s) (\<lambda>reports.
         let lns = map (month_line E period cal reports s) (list_all_active E s)
         in Inr \<lparr>est_month = period, est_currency = pst_currency (settings_model s), est_lines = lns,
              er_total_days = cal_total_days cal, er_working_days = length (working_dates cal),
              er_employee_count = length lns, er_total_ctc = sum_list (map ln_monthly_ctc lns),
              er_total_net = sum_list (map ln_net lns)\<rparr>)))"

abbreviation for_release :: "estimate_read \<Rightarrow> payroll_estimate" where
  "for_release est \<equiv> payroll_estimate.truncate est"

subsection \<open>A person's own slip\<close>

record payslip_read =
  pr_month :: string
  pr_currency :: string
  pr_monthly_ctc :: int
  pr_breakdown :: salary_breakdown
  pr_prorated :: salary_breakdown
  pr_total_days :: int
  pr_working_days :: int
  pr_elapsed_working_days :: int
  pr_present_days :: pyfloat
  pr_paid_leave_days :: pyfloat
  pr_lop_days :: pyfloat
  pr_payable_days :: pyfloat
  pr_base_days :: int
  pr_adj_earnings :: int
  pr_adj_deductions :: int
  pr_reimbursement :: int
  pr_net :: int
  pr_missing_compensation :: bool

definition slip_read_of :: "string \<Rightarrow> payroll_line \<Rightarrow> payslip_read" where
  "slip_read_of period l = \<lparr>pr_month = period, pr_currency = ln_currency l, pr_monthly_ctc = ln_monthly_ctc l,
     pr_breakdown = ln_breakdown l, pr_prorated = ln_prorated l, pr_total_days = ln_total_days l,
     pr_working_days = ln_working_days l, pr_elapsed_working_days = ln_elapsed_working_days l,
     pr_present_days = ln_present_days l, pr_paid_leave_days = ln_paid_leave_days l, pr_lop_days = ln_lop_days l,
     pr_payable_days = ln_payable_days l, pr_base_days = ln_base_days l, pr_adj_earnings = ln_adj_earnings l,
     pr_adj_deductions = ln_adj_deductions l, pr_reimbursement = ln_reimbursement l, pr_net = ln_net l,
     pr_missing_compensation = ln_missing_compensation l\<rparr>"

definition my_slip ::
  "env \<Rightarrow> current_user \<Rightarrow> uuid option \<Rightarrow> string option \<Rightarrow> 'a pay_db_scheme \<Rightarrow> (payslip_read \<times> 'a pay_db_scheme) res" where
  "my_slip E c who month s =
    ebind (authorize_self_or_manage c who) (\<lambda>i. case find_employee i s of
       None \<Rightarrow> Inl NotFoundError
     | Some e \<Rightarrow>
         if \<not> is_active e then Inl NotFoundError
         else let period = period_or_current E month s
           in if \<not> can_manage_payroll c \<and> get_payslip i period s = None then Inl NotFoundError
              else ebind (month_calendar_at E period s) (\<lambda>cal.
                ebind (monthly_report E c period (can_manage_payroll c) s) (\<lambda>reports.
                  Inr (slip_read_of period (month_line E period cal reports s e),
                       audit_append E (uuid_str (cu_id c)) ''payroll.slip.read''
                         (Some (''employee:'' @ uuid_str i @ '':'' @ period)) s))))"

text \<open>The PDF of the live slip: only its guards and its audit row, the document itself is rendered outside.\<close>

definition live_payslip_pdf ::
  "env \<Rightarrow> current_user \<Rightarrow> uuid option \<Rightarrow> string option \<Rightarrow> 'a pay_db_scheme \<Rightarrow> (string \<times> 'a pay_db_scheme) res" where
  "live_payslip_pdf E c who month s = ebind (my_slip E c who month s) (\<lambda>(slip, s1).
     if pr_missing_compensation slip then Inl (ValidationError ''No compensation on record for this employee.'')
     else let i = (case who of Some x \<Rightarrow> x | None \<Rightarrow> cu_id c)
       in if find_employee i s1 = None then Inl NotFoundError
          else ebind (ytd_totals i (pr_month slip) (Some (pr_prorated slip)) s1) (\<lambda>ytd.
            Inr (''payslip-'' @ pr_month slip @ ''.pdf'',
                 audit_append E (uuid_str (cu_id c)) ''payroll.payslip.generate''
                   (Some (''employee:'' @ uuid_str i @ '':'' @ pr_month slip)) s1)))"

definition payslip_pdf ::
  "env \<Rightarrow> current_user \<Rightarrow> uuid option \<Rightarrow> string option \<Rightarrow> 'a pay_db_scheme \<Rightarrow> (string \<times> 'a pay_db_scheme) res" where
  "payslip_pdf E c who month s = ebind (authorize_self_or_manage c who) (\<lambda>i.
     let period = period_or_current E month s
     in case get_payslip i period s of
          None \<Rightarrow> Inl NotFoundError
        | Some r \<Rightarrow> ebind (ytd_totals i (ps_period r) None s) (\<lambda>ytd.
            Inr (''payslip-'' @ period @ ''.pdf'',
                 audit_append E (uuid_str (cu_id c)) ''payroll.payslip.download''
                   (Some (''employee:'' @ uuid_str i @ '':'' @ period)) s)))"

subsection \<open>Releasing, the digest and the scheduler\<close>

definition finalize :: "env \<Rightarrow> current_user \<Rightarrow> string option \<Rightarrow> 'a pay_db_scheme \<Rightarrow> ((release_counts \<times> int) \<times> 'a pay_db_scheme) res" where
  "finalize E c month s = (if \<not> can_manage_payroll c then Inl AuthorizationError
     else ebind (estimate E c month s) (\<lambda>est. finalize_estimate E c (for_release est) s))"

definition system_caller :: current_user where
  "system_caller = \<lparr>cu_id = 0, cu_role = ADMIN, cu_manager = None, cu_payroll_manager = False\<rparr>"

definition digest_mail :: "estimate_read \<Rightarrow> string \<Rightarrow> string \<Rightarrow> email" where
  "digest_mail est label r = \<lparr>mail_to = r, mail_template = ''payroll_digest'',
     mail_fields = label # est_currency est # int_str (er_total_net est)
       # concat (map (\<lambda>l. [ln_name l, int_str (ln_net l), int_str (ln_total_days l)]) (est_lines est))\<rparr>"

text \<open>The digest goes to one recipient after the other; the first refusal of the provider ends it.\<close>

fun mail_all :: "env \<Rightarrow> email list \<Rightarrow> 'a core_scheme \<Rightarrow> 'a core_scheme res" where
  "mail_all E [] s = Inr s"
| "mail_all E (m # ms) s = (case send_email E m s of (ok, s1) \<Rightarrow> if ok then mail_all E ms s1 else Inl UnhandledError)"

definition send_month ::
  "env \<Rightarrow> current_user \<Rightarrow> string option \<Rightarrow> run_source \<Rightarrow> uuid option \<Rightarrow> 'a pay_db_scheme
   \<Rightarrow> (payroll_run option \<times> 'a pay_db_scheme) res" where
  "send_month E c month src by s = ebind (estimate E c month s) (\<lambda>est.
     let recipients = parse_recipients (pst_recipients (settings_model s))
     in if recipients = [] then Inr (None, s)
        else ebind (parse_month (est_month est)) (\<lambda>(year, m).
          ebind (mail_all E (map (digest_mail est (month_label year m)) recipients) s) (\<lambda>s1.
            let r = \<lparr>run_period = est_month est, run_currency = est_currency est, run_total_net = er_total_net est,
                  run_employee_count = er_employee_count est, run_recipients = comma_join recipients,
                  run_source = src, run_triggered_by = by\<rparr>
            in Inr (Some r, audit_append E (case by of Some i \<Rightarrow> uuid_str i | None \<Rightarrow> ''system:payroll-scheduler'')
                 ''payroll.send'' (Some (''month:'' @ est_month est)) (upsert_run r s1)))))"

definition send_digest :: "env \<Rightarrow> current_user \<Rightarrow> string option \<Rightarrow> 'a pay_db_scheme \<Rightarrow> (payroll_run \<times> 'a pay_db_scheme) res" where
  "send_digest E c month s = (if \<not> can_manage_payroll c then Inl AuthorizationError
     else ebind (send_month E c month MANUAL (Some (cu_id c)) s) (\<lambda>(r, s1). case r of
       None \<Rightarrow> Inl (ValidationError ''Add at least one payroll recipient in settings first.'')
     | Some r \<Rightarrow> Inr (r, s1)))"

definition run_of_month :: "string \<Rightarrow> 'a payroll_db_scheme \<Rightarrow> payroll_run option" where
  "run_of_month period s = row_get run_period period (payroll_runs s)"

definition list_runs :: "current_user \<Rightarrow> 'a payroll_db_scheme \<Rightarrow> payroll_run list res" where
  "list_runs c s = (if \<not> can_manage_payroll c then Inl AuthorizationError
     else Inr (take 12 (rev (sort_key run_period (payroll_runs s)))))"

definition auto_send_due :: "env \<Rightarrow> 'a pay_db_scheme \<Rightarrow> bool" where
  "auto_send_due E s \<longleftrightarrow> auto_send_enabled (settings_model s)
     \<and> day_of (local_day E (now s)) = pay_day_of_month (settings_model s)"

definition auto_release_due :: "env \<Rightarrow> 'a pay_db_scheme \<Rightarrow> bool" where
  "auto_release_due E s \<longleftrightarrow> auto_release_enabled (settings_model s)
     \<and> day_of (local_day E (now s)) = auto_release_day (settings_model s)"

definition run_for_system :: "env \<Rightarrow> string option \<Rightarrow> 'a pay_db_scheme \<Rightarrow> (payroll_run option \<times> 'a pay_db_scheme) res" where
  "run_for_system E month s =
    (let period = period_or_current E month s
     in if run_of_month period s \<noteq> None then Inr (None, s)
        else ebind (estimate E system_caller (Some period) s) (\<lambda>est.
          ebind (release_from_estimate E (for_release est) None s) (\<lambda>(n, s1).
            send_month E system_caller (Some period) AUTO None s1)))"

definition auto_release :: "env \<Rightarrow> 'a pay_db_scheme \<Rightarrow> (bool \<times> 'a pay_db_scheme) res" where
  "auto_release E s =
    (let period = previous_month E (now s)
     in if run_of_month period s \<noteq> None then Inr (False, s)
        else ebind (estimate E system_caller (Some period) s) (\<lambda>est. release_for_system E (for_release est) s))"

text \<open>One tick of the worker; an error rolls the tick back.\<close>

definition payroll_tick :: "env \<Rightarrow> 'a pay_db_scheme \<Rightarrow> 'a pay_db_scheme res" where
  "payroll_tick E s =
    ebind (if auto_send_due E s then map_sum id snd (run_for_system E None s) else Inr s) (\<lambda>s1.
      if auto_release_due E s1 then map_sum id snd (auto_release E s1) else Inr s1)"

subsection \<open>Register exports\<close>

definition active_row :: "env \<Rightarrow> uuid \<Rightarrow> 'a core_scheme \<Rightarrow> employee option" where
  "active_row E i s = List.find (\<lambda>e. emp_id e = i) (list_all_active E s)"

definition salary_row :: "env \<Rightarrow> (string \<Rightarrow> string) \<Rightarrow> bool \<Rightarrow> string \<Rightarrow> string \<Rightarrow> 'a pay_db_scheme \<Rightarrow> payroll_line \<Rightarrow> export_row" where
  "salary_row E decrypt with_claims period label s l = export_row_of decrypt l (active_row E (ln_employee l) s)
     (compensation_of (ln_employee l) s) label
     (if with_claims then approved_for_month (ln_employee l) period (claims_view s) else 0)"

text \<open>\<open>render\<close> is \<open>build_payroll_xlsx\<close> with the label and the currency.\<close>

definition export_xlsx ::
  "env \<Rightarrow> (string \<Rightarrow> string) \<Rightarrow> (export_row list \<Rightarrow> string \<Rightarrow> string \<Rightarrow> 'x) \<Rightarrow> current_user \<Rightarrow> string option \<Rightarrow> uuid list option \<Rightarrow> bool
   \<Rightarrow> 'a pay_db_scheme \<Rightarrow> (('x \<times> string) \<times> 'a pay_db_scheme) res" where
  "export_xlsx E decrypt render c month chosen with_claims s = ebind (estimate E c month s) (\<lambda>est.
     let lns = (case chosen of None \<Rightarrow> est_lines est | Some ids \<Rightarrow> filter (\<lambda>l. ln_employee l \<in> set ids) (est_lines est))
     in if chosen \<noteq> None \<and> lns = [] then Inl NotFoundError
        else ebind (parse_month (est_month est)) (\<lambda>(year, m).
          let label = month_label year m;
              rows = map (salary_row E decrypt with_claims (est_month est) label s) lns
          in Inr ((render rows label (est_currency est), export_filename (est_month est) lns (chosen \<noteq> None)),
               audit_append E (uuid_str (cu_id c)) ''payroll.export''
                 (Some (''month:'' @ est_month est @ '':'' @ export_audit_scope E chosen (map ln_employee lns))) s)))"

definition claims_row :: "env \<Rightarrow> (string \<Rightarrow> string) \<Rightarrow> string \<Rightarrow> string \<Rightarrow> 'a pay_db_scheme \<Rightarrow> payroll_line \<Rightarrow> export_row" where
  "claims_row E decrypt period label s l = reimbursement_row_of decrypt l (active_row E (ln_employee l) s)
     (compensation_of (ln_employee l) s) label (approved_for_month (ln_employee l) period (claims_view s))"

definition export_reimbursements_xlsx ::
  "env \<Rightarrow> (string \<Rightarrow> string) \<Rightarrow> (export_row list \<Rightarrow> string \<Rightarrow> string \<Rightarrow> 'x) \<Rightarrow> current_user \<Rightarrow> string option
   \<Rightarrow> 'a pay_db_scheme \<Rightarrow> (('x \<times> string) \<times> 'a pay_db_scheme) res" where
  "export_reimbursements_xlsx E decrypt render c month s = ebind (estimate E c month s) (\<lambda>est.
     let payable = filter (\<lambda>l. approved_for_month (ln_employee l) (est_month est) (claims_view s) > 0) (est_lines est)
     in if payable = [] then Inl NotFoundError
        else ebind (parse_month (est_month est)) (\<lambda>(year, m).
          let label = month_label year m; rows = map (claims_row E decrypt (est_month est) label s) payable
          in Inr ((render rows label (est_currency est), ''reimbursements-'' @ est_month est @ ''.xlsx''),
               audit_append E (uuid_str (cu_id c)) ''payroll.export_reimbursements''
                 (Some (''month:'' @ est_month est @ '':'' @ nat_str (length rows))) s)))"

end
