(* ===== verification/PayrollMonthLaws.thy ===== *)
theory PayrollMonthLaws
  imports PayrollMonth
begin

text \<open>
  Laws of a payroll month: recipients survive their storage, a person's own slip is the line of the estimate, the two
  registers add up to the combined one, and the scheduler settles a month once.
\<close>

subsection \<open>Recipients\<close>

lemma split_commas: "vs \<noteq> [] \<Longrightarrow> \<forall>v \<in> set vs. CHR '','' \<notin> set v \<Longrightarrow> split_on (CHR '','') (comma_join vs) = vs"
  by (induction vs rule: comma_join.induct) (simp_all add: split_on_none split_on_join)

definition clean_email :: "string \<Rightarrow> bool" where
  "clean_email v \<longleftrightarrow> v \<noteq> [] \<and> \<not> list_ex is_space v"

lemma email_pattern_clean: "email_pattern v \<Longrightarrow> v \<noteq> [] \<Longrightarrow> clean_email v"
  by (simp add: email_pattern_def clean_email_def split: list.splits)

lemma clean_from_clean:
  "clean_from out vs = Some rs \<Longrightarrow> list_all clean_email out \<Longrightarrow> list_all clean_email rs"
proof (induction vs arbitrary: out)
  case (Cons v vs)
  obtain e where e: "e = map to_lower (py_strip v)" by simp
  show ?case
  proof (cases "e = ''''")
    case True
    then show ?thesis using Cons e by simp
  next
    case False
    with Cons.prems(1) have p: "email_pattern e"
      and r: "clean_from (if e \<in> set out then out else out @ [e]) vs = Some rs"
      unfolding clean_from.simps Let_def e[symmetric] by (simp_all split: if_splits)
    have "list_all clean_email (if e \<in> set out then out else out @ [e])"
      using email_pattern_clean[OF p False] Cons.prems(2) by simp
    then show ?thesis by (rule Cons.IH[OF r])
  qed
qed simp

lemma strip_clean: "clean_email v \<Longrightarrow> py_strip v = v"
  unfolding py_strip_def clean_email_def list_ex_iff by (intro strip_with_id) auto

lemma parse_join:
  assumes "\<forall>v \<in> set rs. clean_email v \<and> CHR '','' \<notin> set v"
  shows "parse_recipients (comma_join rs) = rs"
proof (cases "rs = []")
  case True
  then show ?thesis by (simp add: parse_recipients_def py_strip_def strip_with_def)
next
  case False
  have "map py_strip rs = rs" using assms by (intro map_idI) (simp add: strip_clean)
  moreover have "filter (\<lambda>p. p \<noteq> '''') rs = rs" using assms by (simp add: filter_id_conv clean_email_def)
  ultimately show ?thesis using False assms by (simp add: parse_recipients_def split_commas)
qed

text \<open>C13 The digest's recipients survive their storage as one text: settings that pass the validation and are stored are
  read back with the very list of recipients that was validated, provided none of the addresses contains a comma.\<close>

theorem recipients_roundtrip:
  assumes "validate_settings p = Some q" "update_settings E c q s = Inr (r, s1)" "\<forall>v \<in> set (su_recipients q). CHR '','' \<notin> set v"
  shows "get_settings c s1 = Inr (r, su_recipients q)"
proof -
  have "clean_recipients (su_recipients p) = Some (su_recipients q)"
    using assms(1) by (auto simp: validate_settings_def Let_def split: if_splits)
  then have "\<forall>v \<in> set (su_recipients q). clean_email v"
    using clean_from_clean[of "[]" "su_recipients p"] by (simp add: clean_recipients_def list_all_iff)
  then have "parse_recipients (comma_join (su_recipients q)) = su_recipients q"
    using assms(3) by (intro parse_join) blast
  moreover have "can_manage_payroll c" "r = settings_of_update q (cu_id c)" "settings_model s1 = r"
    using assms(2) by (auto simp: update_settings_def Let_def settings_model_def audit_append_def split: if_splits)
  ultimately show ?thesis by (simp add: get_settings_def settings_of_update_def)
qed

definition demo_pay_db :: pay_db where
  "demo_pay_db = time_db.extend (demo_time_db 0 [])
     \<lparr>compensations = [], payroll_config = None, expense_claims = []\<rparr>"

definition demo_settings :: "string list \<Rightarrow> settings_update" where
  "demo_settings rs = \<lparr>su_pay_day = 1, su_currency = ''inr'', su_cycle = PAY_MONTHLY, su_auto_send = True, su_auto_release = True,
     su_release_day = 8, su_recipients = rs, su_calc = default_config\<rparr>"

theorem recipients_roundtrip_witness:
  "\<exists>s1. update_settings demo_E demo_admin (demo_settings [''hr@a.in'', ''cfo@a.in'']) demo_pay_db
      = Inr (settings_of_update (demo_settings [''hr@a.in'', ''cfo@a.in'']) 5, s1)
    \<and> get_settings demo_admin s1 = Inr (settings_of_update (demo_settings [''hr@a.in'', ''cfo@a.in'']) 5, [''hr@a.in'', ''cfo@a.in''])"
proof -
  let ?p = "demo_settings ['' HR@a.in'', ''cfo@a.in'', ''hr@A.in'']" and ?q = "demo_settings [''hr@a.in'', ''cfo@a.in'']"
  have v: "validate_settings ?p = Some ?q" by code_simp
  obtain s1 where u: "update_settings demo_E demo_admin ?q demo_pay_db = Inr (settings_of_update ?q 5, s1)"
    by (simp add: update_settings_def can_manage_payroll_def is_admin_def Let_def)
  have "\<forall>x \<in> set (su_recipients ?q). CHR '','' \<notin> set x" by (simp add: demo_settings_def)
  from recipients_roundtrip[OF v u this] u show ?thesis by (intro exI[of _ s1]) (simp add: demo_settings_def)
qed

text \<open>An address with a comma passes the validation and comes back as two.\<close>

theorem comma_address_split:
  "clean_recipients [''a,b@c.de''] = Some [''a,b@c.de''] \<and> parse_recipients (comma_join [''a,b@c.de'']) = [''a'', ''b@c.de'']"
  by code_simp

subsection \<open>A person's month\<close>

lemma month_bounds_real:
  assumes "report_month_bounds month = Some (a, b)"
  shows "real_range a b \<and> a \<le> b"
proof -
  obtain yn mn :: nat where n: "1 \<le> mn" "mn \<le> 12" "2000 \<le> yn" "yn \<le> 2100" "a = mk_date (int yn) (int mn) 1"
      "b = mk_date (int yn) (int mn) (month_len (int yn) (int mn))"
    using assms by (auto simp: report_month_bounds_def Let_def split: list.splits option.splits if_splits)
  define y m where "y = int yn" "m = int mn"
  have ym: "1 \<le> m" "m \<le> 12" "2000 \<le> y" "y \<le> 2100" "a = mk_date y m 1" "b = mk_date y m (month_len y m)"
    using n by (simp_all add: y_m_def)
  have "mk_date 1 1 1 < a" unfolding ym(5) using ym by (intro mk_date_less_year) simp_all
  moreover have "b < mk_date 9999 12 31" unfolding ym(6) using ym
    by (intro mk_date_less_year) (simp_all add: valid_ymd_def month_len_def)
  moreover have "mk_date 1 1 1 = 1" "mk_date 9999 12 31 = max_date" by code_simp+
  moreover have "a \<le> b" using month_len_bounds[of y m] by (simp add: ym mk_date_def)
  ultimately show ?thesis by (simp add: real_range_def)
qed

text \<open>The rows of one person depend on that person's records only, whoever else is asked for.\<close>

lemma rows_of_person:
  assumes "fixed_zone E" "real_range a b" "a \<le> b" "distinct ids" "override_days_real s" "i \<in> set ids"
  shows "set (filter (\<lambda>r. ar_employee r = i) (day_rows E ids w a b s))
      = (\<Union>d \<in> {a..b}. set_option (day_row_spec E w (month_start a) i d s))"
    and "distinct (filter (\<lambda>r. ar_employee r = i) (day_rows E ids w a b s))"
proof -
  have at: "r \<in> set (day_rows E ids w a b s) \<and> row_key r = (i, isoformat d) \<longleftrightarrow> day_row_spec E w (month_start a) i d s = Some r"
    if "d \<in> {a..b}" for r d
    using that by (intro day_rows_at[OF assms(1,2,6)]) simp_all
  show "set (filter (\<lambda>r. ar_employee r = i) (day_rows E ids w a b s))
      = (\<Union>d \<in> {a..b}. set_option (day_row_spec E w (month_start a) i d s))"
  proof (intro equalityI subsetI)
    fix r assume "r \<in> set (filter (\<lambda>r. ar_employee r = i) (day_rows E ids w a b s))"
    then have r: "r \<in> set (day_rows E ids w a b s)" "ar_employee r = i" by auto
    obtain d where d: "d \<in> {a..b}" "ar_day r = isoformat d"
      using row_days[OF assms(1,2,4,5) r(1) assms(3)] by auto
    then have "day_row_spec E w (month_start a) i d s = Some r" using at[OF d(1), of r] r by (simp add: row_key_def)
    then show "r \<in> (\<Union>d \<in> {a..b}. set_option (day_row_spec E w (month_start a) i d s))" using d(1) by auto
  next
    fix r assume "r \<in> (\<Union>d \<in> {a..b}. set_option (day_row_spec E w (month_start a) i d s))"
    then obtain d where "d \<in> {a..b}" "day_row_spec E w (month_start a) i d s = Some r" by auto
    then show "r \<in> set (filter (\<lambda>r. ar_employee r = i) (day_rows E ids w a b s))" using at[of d r] by (auto simp: row_key_def)
  qed
  show "distinct (filter (\<lambda>r. ar_employee r = i) (day_rows E ids w a b s))"
    using day_rows_distinct[OF assms(1,2,4)] by (intro distinct_filter) (auto simp: distinct_map)
qed

lemma presence_of_person:
  assumes "fixed_zone E" "real_range a b" "a \<le> b" "override_days_real s"
    and "distinct ids" "i \<in> set ids" "distinct ids'" "i \<in> set ids'"
  shows "present_days (Some (month_summary.truncate (summarize E (day_rows E ids w a b s) i)))
    = present_days (Some (month_summary.truncate (summarize E (day_rows E ids' w a b s) i)))"
proof -
  let ?m = "\<lambda>ids. filter (\<lambda>r. ar_employee r = i) (day_rows E ids w a b s)"
  have "(\<Sum>r\<leftarrow>?m ids. row_credit r) = (\<Sum>r \<in> set (?m ids). row_credit r)"
    by (rule sum_list_distinct_conv_sum_set[OF rows_of_person(2)[OF assms(1-3,5,4,6)]])
  also have "\<dots> = (\<Sum>r \<in> set (?m ids'). row_credit r)"
    unfolding rows_of_person(1)[OF assms(1-3,5,4,6)] rows_of_person(1)[OF assms(1-3,7,4,8)] ..
  also have "\<dots> = (\<Sum>r\<leftarrow>?m ids'. row_credit r)"
    by (rule sum_list_distinct_conv_sum_set[OF rows_of_person(2)[OF assms(1-3,7,4,8)], symmetric])
  finally show ?thesis
    using month_presence_exact[OF assms(1,2,5,4,3), of w i] month_presence_exact[OF assms(1,2,7,4,3), of w i] by simp
qed

lemma find_map_key: "List.find (\<lambda>x. f (fst x) = i) (map (\<lambda>e. (e, g (f e))) es)
    = (if i \<in> f ` set es then map_option (\<lambda>e. (e, g i)) (List.find (\<lambda>e. f e = i) es) else None)"
  by (induction es) auto

lemma find_in_image: "i \<in> f ` set es \<Longrightarrow> \<exists>e. List.find (\<lambda>e. f e = i) es = Some e"
  by (induction es) auto

lemma summary_of_report:
  "summary_of i (map (\<lambda>e. (e, summarize E rows (emp_id e))) es)
    = (if i \<in> emp_id ` set es then Some (month_summary.truncate (summarize E rows i)) else None)"
  using find_in_image[of i emp_id es] by (auto simp: summary_of_def find_map_key[where g = "summarize E rows"])

lemma roster_ids_distinct:
  assumes "keys_unique emp_id (employees s)"
  shows "distinct (map emp_id (all_in_scope_for_period E c a b wide s))"
  using assms by (simp add: all_in_scope_for_period_def by_name_def keys_unique_def distinct_map inj_on_def)

lemma the_employee:
  assumes "keys_unique emp_id (employees s)" "find_employee i s = Some e"
  shows "x \<in> set (employees s) \<and> emp_id x = i \<longleftrightarrow> x = e"
proof -
  have e: "e \<in> set (employees s)" "emp_id e = i" using find_employee_id[OF assms(2)] by simp_all
  have "inj_on emp_id (set (employees s))" using assms(1) by (simp add: keys_unique_def distinct_map)
  then have "x = e" if "x \<in> set (employees s)" "emp_id x = i" using e that by (auto dest: inj_onD)
  then show ?thesis using e by (intro iffI conjI) auto
qed

lemma on_roster:
  assumes "keys_unique emp_id (employees s)" "find_employee i s = Some e"
  shows "i \<in> emp_id ` set (all_in_scope_for_period E c a b wide s) \<longleftrightarrow> (wide \<or> scope_clause c e s) \<and> on_the_books E a b s e"
proof -
  have "i \<in> emp_id ` set (all_in_scope_for_period E c a b wide s)
      \<longleftrightarrow> (\<exists>x. (x \<in> set (employees s) \<and> emp_id x = i) \<and> (wide \<or> scope_clause c x s) \<and> on_the_books E a b s x)"
    unfolding all_in_scope_for_period_def by_name_def set_sort set_filter by blast
  then show ?thesis unfolding the_employee[OF assms] by simp
qed

text \<open>What payroll reads of the register for one person does not depend on who reads it.\<close>

lemma presence_any_reader:
  assumes "fixed_zone E" "keys_unique emp_id (employees s)" "override_days_real s" "find_employee i s = Some e"
    and "wide \<or> scope_clause c e s" "wide' \<or> scope_clause c' e s"
  shows "map_sum id (\<lambda>reports. present_days (summary_of i reports)) (monthly_report E c month wide s)
    = map_sum id (\<lambda>reports. present_days (summary_of i reports)) (monthly_report E c' month wide' s)"
proof (cases "report_month_bounds month")
  case None
  then show ?thesis by (simp add: monthly_report_def month_register_def month_bounds_def require_some_def ebind_def)
next
  case (Some ab)
  then obtain a b where ab: "report_month_bounds month = Some (a, b)" by (cases ab) simp
  note r = month_bounds_real[OF ab]
  let ?es = "\<lambda>c w. all_in_scope_for_period E c a b w s"
  let ?w = "\<lambda>i. case find_employee i s of None \<Rightarrow> always_employed | Some e \<Rightarrow> employment_of E s e"
  have m: "map_sum id (\<lambda>reports. present_days (summary_of i reports)) (monthly_report E c month wide s)
      = Inr (present_days (if i \<in> emp_id ` set (?es c wide)
          then Some (month_summary.truncate (summarize E (day_rows E (map emp_id (?es c wide)) ?w a b s) i)) else None))" for c wide
    by (simp add: monthly_report_def month_register_def month_bounds_def ab require_some_def ebind_def summary_of_report Let_def)
  show ?thesis
  proof (cases "on_the_books E a b s e")
    case True
    then have i: "i \<in> emp_id ` set (?es c wide)" "i \<in> emp_id ` set (?es c' wide')"
      using on_roster[OF assms(2,4)] assms(5,6) by simp_all
    show ?thesis unfolding m if_P[OF i(1)] if_P[OF i(2)] Inr_Inl_False sum.inject
      by (rule presence_of_person[OF assms(1) conjunct1[OF r] conjunct2[OF r] assms(3) roster_ids_distinct[OF assms(2)] _
            roster_ids_distinct[OF assms(2)]]) (use i in \<open>simp_all only: set_map\<close>)
  next
    case False
    then show ?thesis unfolding m using on_roster[OF assms(2,4)] by simp
  qed
qed

lemma own_scope:
  assumes "find_employee (cu_id c) s = Some e" "\<not> (cu_role c = SENIOR_MANAGER \<and> department e = None)"
  shows "scope_clause c e s"
  using own_record_visible[OF assms(1)] assms by (simp add: can_read_def)

lemma ln_month_line: "ln_employee (month_line E period cal reports s x) = emp_id x"
  by (simp only: month_line_def line_for_unfold)

lemma estimate_line_of:
  assumes "keys_unique emp_id (employees s)" "find_employee i s = Some e" "is_active e" "\<not> is_guest e"
  shows "filter (\<lambda>l. ln_employee l = i) (map (month_line E period cal reports s) (list_all_active E s))
    = [month_line E period cal reports s e]"
proof -
  have e: "e \<in> set (employees s)" "emp_id e = i" using find_employee_id[OF assms(2)] by simp_all
  have "filter (\<lambda>x. emp_id x = i) (list_all_active E s) = [e]"
  proof (rule filter_one[where o' = "Some e", simplified option.case])
    show "distinct (map emp_id (list_all_active E s))"
      using assms(1) by (simp add: list_all_active_def by_name_def keys_unique_def distinct_map inj_on_def)
    have "x \<in> set (list_all_active E s) \<and> emp_id x = i
        \<longleftrightarrow> (x \<in> set (employees s) \<and> emp_id x = i) \<and> is_active x \<and> \<not> is_guest x" for x
      unfolding list_all_active_def by_name_def set_sort set_filter by blast
    then show "x \<in> set (list_all_active E s) \<and> emp_id x = i \<longleftrightarrow> Some e = Some x" for x
      unfolding the_employee[OF assms(1,2)] using assms(3,4) by auto
  qed
  then show ?thesis by (simp add: filter_map o_def ln_month_line)
qed

text \<open>C5 One calculation: the slip a person is shown is the line payroll computed for them. Whoever may read a slip (HR or
  the payroll grant, or the person, once the month is released) gets exactly the one line that the organisation's
  estimate of that month holds for the person, whatever part of the register the reader's own scope covers, and the
  same error where there is no such month. (A senior manager without a department is the exception.)\<close>

theorem slip_is_payroll_line:
  assumes "fixed_zone E" "keys_unique emp_id (employees s)" "override_days_real s"
    and "find_employee i s = Some e" "is_active e" "\<not> is_guest e" "can_manage_payroll hr"
    and "can_manage_payroll c \<or> i = cu_id c \<and> get_payslip i (period_or_current E month s) s \<noteq> None
      \<and> \<not> (cu_role c = SENIOR_MANAGER \<and> department e = None)"
  shows "map_sum id (\<lambda>r. [fst r]) (my_slip E c (Some i) month s)
    = map_sum id (\<lambda>est. map (slip_read_of (est_month est)) (filter (\<lambda>l. ln_employee l = i) (est_lines est))) (estimate E hr month s)"
proof -
  let ?p = "period_or_current E month s"
  have scope: "can_manage_payroll c \<or> scope_clause c e s" using assms(4,8) own_scope[of c s e] by blast
  let ?M = "monthly_report E c ?p (can_manage_payroll c) s" and ?N = "monthly_report E hr ?p True s"
  have "authorize_self_or_manage c (Some i) = Inr i" "\<not> (\<not> can_manage_payroll c \<and> get_payslip i ?p s = None)"
    using assms(8) by (auto simp: authorize_self_or_manage_def)
  then have slip: "my_slip E c (Some i) month s = ebind (month_calendar_at E ?p s) (\<lambda>cal. ebind ?M (\<lambda>reports.
        Inr (slip_read_of ?p (month_line E ?p cal reports s e),
             audit_append E (uuid_str (cu_id c)) ''payroll.slip.read'' (Some (''employee:'' @ uuid_str i @ '':'' @ ?p)) s)))"
    using assms(4,5) by (cases "can_manage_payroll c") (auto simp: my_slip_def ebind_def[of "Inr i"] Let_def)
  note est = estimate_def[of E hr month s, unfolded Let_def]
  have same: "month_line E ?p cal r s e = month_line E ?p cal r' s e"
    if "present_days (summary_of i r) = present_days (summary_of i r')" for cal r r'
    using find_employee_id[OF assms(4)] that by (simp add: month_line_def)
  note pres = presence_any_reader[OF assms(1-4) scope, of True hr ?p, simplified]
  show ?thesis
  proof (cases "month_calendar_at E ?p s")
    case (Inl x)
    then show ?thesis unfolding slip est using assms(7) by (simp add: ebind_def)
  next
    case cal: (Inr cal)
    show ?thesis
    proof (cases ?M)
      case (Inl x)
      then have "?N = Inl x" using pres by (cases ?N) auto
      then show ?thesis unfolding slip est cal Inl using assms(7) by (simp add: ebind_def)
    next
      case (Inr r)
      then obtain r' where r': "?N = Inr r'" "present_days (summary_of i r) = present_days (summary_of i r')"
        using pres by (cases ?N) auto
      note only = estimate_line_of[OF assms(2,4-6), of E ?p cal r'] same[OF r'(2), of cal]
      show ?thesis unfolding slip est cal Inr r'(1) using assms(7) only by (simp add: ebind_def)
    qed
  qed
qed

text \<open>Where the exception bites: a senior manager without a department is priced as absent, whatever they worked.\<close>

theorem departmentless_manager_unpaid:
  assumes "keys_unique emp_id (employees s)" "find_employee (cu_id c) s = Some e" "cu_role c = SENIOR_MANAGER" "department e = None"
    and "monthly_report E c month False s = Inr reports"
  shows "present_days (summary_of (cu_id c) reports) = 0"
proof -
  have "\<not> scope_clause c e s" using own_record_visible[OF assms(2)] assms(2-4) by (simp add: can_read_def)
  then have "cu_id c \<notin> emp_id ` set (all_in_scope_for_period E c a b False s)" for a b
    using on_roster[OF assms(1,2)] by simp
  then have "summary_of (cu_id c) reports = None"
    using assms(5) by (auto simp: monthly_report_def month_register_def ebind_Inr_iff Let_def summary_of_report)
  then show ?thesis by (simp add: present_days_def)
qed

subsection \<open>The scheduler\<close>

text \<open>A step that keeps the settings and the clock, and no month that was run is forgotten.\<close>

definition settles :: "'a pay_db_scheme \<Rightarrow> 'a pay_db_scheme \<Rightarrow> bool" where
  "settles s s' \<longleftrightarrow> payroll_config s' = payroll_config s \<and> now s' = now s
     \<and> (\<forall>p. run_of_month p s \<noteq> None \<longrightarrow> run_of_month p s' \<noteq> None)"

named_theorems settle_intros

lemma settles_refl [simp, settle_intros]: "settles s s"
  by (simp add: settles_def)

lemma settles_trans: "settles s t \<Longrightarrow> settles t u \<Longrightarrow> settles s u"
  by (simp add: settles_def)

lemma settles_same:
  "payroll_config s' = payroll_config s \<Longrightarrow> now s' = now s \<Longrightarrow> payroll_runs s' = payroll_runs s \<Longrightarrow> settles s s'"
  by (simp add: settles_def run_of_month_def)

lemma settles_audit [settle_intros]: "settles s t \<Longrightarrow> settles s (audit_append E a b x t)"
  by (simp add: settles_def run_of_month_def audit_append_def Let_def)

lemma settles_mail: "settles s (snd (send_email E m s))"
  by (rule settles_same) (simp_all add: send_email_def)

lemma run_recorded: "run_of_month p s \<noteq> None \<longleftrightarrow> p \<in> run_period ` set (payroll_runs s)"
  by (auto simp: run_of_month_def row_get_def find_None_iff)

lemma runs_upsert: "run_period ` set (payroll_runs (upsert_run r s)) = insert (run_period r) (run_period ` set (payroll_runs s))"
proof (cases "row_get run_period (run_period r) (payroll_runs s)")
  case None
  then show ?thesis by (simp add: upsert_run_def row_add_def)
next
  case (Some x)
  then have "run_period r \<in> run_period ` set (payroll_runs s)" using row_get_SomeD[OF Some] by (metis imageI)
  moreover have "run_period ` set (row_put run_period r (payroll_runs s)) = run_period ` set (payroll_runs s)"
    by (simp only: set_map[symmetric] row_put_keys)
  ultimately show ?thesis using Some by (auto simp: upsert_run_def)
qed

lemma settles_upsert [settle_intros]: "settles s t \<Longrightarrow> settles s (upsert_run r t)"
  unfolding settles_def run_recorded runs_upsert by (simp add: upsert_run_def)

lemma upsert_run_recorded: "run_of_month (run_period r) (upsert_run r s) \<noteq> None"
  by (simp only: run_recorded runs_upsert) simp

lemma release_line_frame:
  fixes s :: "'a pay_db_scheme"
  shows "payroll_config (snd (release_line E m lab b l (n, s))) = payroll_config s"
    "now (snd (release_line E m lab b l (n, s))) = now s" "payroll_runs (snd (release_line E m lab b l (n, s))) = payroll_runs s"
  by (simp_all add: release_line_def upsert_payslip_def mark_emailed_def send_email_def Let_def split: option.split prod.split)

lemma release_frame:
  assumes "release_from_estimate E est b s = Inr (n, s')"
  shows "payroll_config s' = payroll_config s" "now s' = now s" "payroll_runs s' = payroll_runs (s :: 'a pay_db_scheme)"
proof -
  obtain lab where f: "fold (release_line E (est_month est) lab (map_option cu_id b)) (est_lines est)
      (\<lparr>rc_released = 0, rc_emailed = 0, rc_skipped = 0\<rparr>, s) = (n, s')"
    using release_from_estimate_fold[OF assms] .
  let ?same = "\<lambda>t s. payroll_config t = payroll_config s \<and> now t = now s \<and> payroll_runs t = payroll_runs s"
  have "?same (snd (fold (release_line E m lab b) ls (n, s))) s" for m lab b ls n and s :: "'a pay_db_scheme"
  proof (induction ls arbitrary: n s)
    case (Cons l ls)
    obtain n1 s1 where r: "release_line E m lab b l (n, s) = (n1, s1)" by fastforce
    then have "?same s1 s" using release_line_frame[of E m lab b l n s] by simp
    then show ?case using Cons.IH[of n1 s1] r by simp
  qed simp
  from this[of "est_month est" lab "map_option cu_id b" "est_lines est" "\<lparr>rc_released = 0, rc_emailed = 0, rc_skipped = 0\<rparr>" s]
  show "payroll_config s' = payroll_config s" "now s' = now s" "payroll_runs s' = payroll_runs s" unfolding f by simp_all
qed

lemma release_settles: "release_from_estimate E est b s = Inr (n, s') \<Longrightarrow> settles s s'"
  by (intro settles_same release_frame)

lemma mail_all_settles: "mail_all E ms s = Inr s' \<Longrightarrow> settles s s'"
proof (induction E ms s rule: mail_all.induct)
  case (2 E m ms s)
  obtain ok s1 where m: "send_email E m s = (ok, s1)" by fastforce
  then have "settles s s1" using settles_mail[of s E m] by simp
  moreover have "settles s1 s'" using 2 m by (auto split: if_splits)
  ultimately show ?case by (rule settles_trans)
qed simp

lemma mail_all_payslips: "mail_all E ms s = Inr s' \<Longrightarrow> payslips s' = payslips (s :: 'a payroll_db_scheme)"
proof (induction E ms s rule: mail_all.induct)
  case (2 E m ms s)
  then show ?case by (auto simp: send_email_def split: if_splits)
qed simp

lemma upsert_run_payslips [simp]: "payslips (upsert_run r s) = payslips s"
  by (simp add: upsert_run_def)

lemma send_month_payslips:
  assumes "send_month E c month src by' s = Inr (r, s')"
  shows "payslips s' = payslips s"
  using assms by (auto simp: send_month_def ebind_Inr_iff Let_def audit_append_def dest: mail_all_payslips split: if_splits)

lemma estimate_month: "estimate E c month s = Inr est \<Longrightarrow> est_month est = period_or_current E month s"
  by (auto simp: estimate_def ebind_Inr_iff Let_def split: if_splits)

lemma send_month_settles:
  assumes "send_month E c month src by' s = Inr (r, s')"
  shows "settles s s'"
    and "parse_recipients (pst_recipients (settings_model s)) \<noteq> [] \<Longrightarrow> run_of_month (period_or_current E month s) s' \<noteq> None"
proof -
  obtain est where est: "estimate E c month s = Inr est" using assms by (auto simp: send_month_def ebind_Inr_iff)
  show "settles s s'" using assms est
    by (auto simp: send_month_def ebind_Inr_iff Let_def intro!: settle_intros dest: mail_all_settles split: if_splits)
  show "run_of_month (period_or_current E month s) s' \<noteq> None" if some: "parse_recipients (pst_recipients (settings_model s)) \<noteq> []"
  proof -
    obtain x s1 a b t where "s' = audit_append E a b t (upsert_run x s1)" "run_period x = est_month est"
      using assms est some by (auto simp: send_month_def ebind_Inr_iff Let_def split: if_splits)
    then show ?thesis using upsert_run_recorded[of x s1] estimate_month[OF est]
      by (simp add: run_of_month_def audit_append_def Let_def)
  qed
qed

lemma settled_settings: "settles s s' \<Longrightarrow> settings_model s' = settings_model s"
  by (simp add: settles_def settings_model_def)

lemma settled_period: "settles s s' \<Longrightarrow> period_or_current E month s' = period_or_current E month s"
  unfolding settles_def period_or_current_def by (cases month) auto

lemma run_for_system_settles:
  assumes "run_for_system E month s = Inr (r, s')"
  shows "settles s s'"
    and "parse_recipients (pst_recipients (settings_model s)) \<noteq> [] \<Longrightarrow> run_of_month (period_or_current E month s) s' \<noteq> None"
proof -
  let ?p = "period_or_current E month s"
  have "settles s s' \<and> (parse_recipients (pst_recipients (settings_model s)) \<noteq> [] \<longrightarrow> run_of_month ?p s' \<noteq> None)"
  proof (cases "run_of_month ?p s = None")
    case False
    then show ?thesis using assms by (simp add: run_for_system_def Let_def)
  next
    case True
    then obtain est n s1 where e: "release_from_estimate E (for_release est) None s = Inr (n, s1)"
        "send_month E system_caller (Some ?p) AUTO None s1 = Inr (r, s')"
      using assms by (auto simp: run_for_system_def Let_def ebind_Inr_iff)
    note r = release_settles[OF e(1)] and m = send_month_settles[OF e(2)]
    have "period_or_current E (Some ?p) s1 = ?p" using r by (simp add: period_or_current_def settles_def split: option.splits)
    then show ?thesis using m settles_trans[OF r m(1)] settled_settings[OF r] by simp
  qed
  then show "settles s s'"
    and "parse_recipients (pst_recipients (settings_model s)) \<noteq> [] \<Longrightarrow> run_of_month ?p s' \<noteq> None" by simp_all
qed

lemma auto_release_settles:
  assumes "auto_release E s = Inr (b, s')"
  shows "settles s s' \<and> run_of_month (previous_month E (now s)) s' \<noteq> None"
proof (cases "run_of_month (previous_month E (now s)) s = None")
  case False
  then show ?thesis using assms by (auto simp: auto_release_def Let_def)
next
  case True
  then obtain est where est: "estimate E system_caller (Some (previous_month E (now s))) s = Inr est"
      "release_for_system E (for_release est) s = Inr (b, s')"
    using assms by (auto simp: auto_release_def Let_def ebind_Inr_iff)
  have "previous_month E (now s) \<noteq> ''''"
    by (simp add: previous_month_def Let_def period_str_def)
  then have m: "est_month (for_release est) = previous_month E (now s)"
    using estimate_month[OF est(1)] by (simp add: period_or_current_def payroll_estimate.truncate_def)
  then obtain n s1 x where "release_from_estimate E (for_release est) None s = Inr (n, s1)" "s' = upsert_run x s1"
      "run_period x = previous_month E (now s)"
    using est(2) True by (auto simp: release_for_system_def run_of_month_def ebind_Inr_iff)
  then show ?thesis using release_settles settles_upsert upsert_run_recorded by metis
qed

lemma tick_half:
  assumes "(if due then map_sum id snd x else Inr s) = Inr t"
  shows "due \<Longrightarrow> \<exists>r. x = Inr (r, t)" "\<not> due \<Longrightarrow> t = s"
  using assms by (cases x; auto)+

text \<open>A later state of the same day: settings as they were, months that were recorded still recorded.\<close>

definition later_that_day :: "env \<Rightarrow> 'a pay_db_scheme \<Rightarrow> 'a pay_db_scheme \<Rightarrow> bool" where
  "later_that_day E s u \<longleftrightarrow> local_day E (now u) = local_day E (now s) \<and> payroll_config u = payroll_config s
     \<and> run_period ` set (payroll_runs s) \<subseteq> run_period ` set (payroll_runs u)"

text \<open>C9 The worker settles a month once: after a tick that went through, every later tick of the same local day - whatever else
  happened in between, as long as the payroll settings stayed and no recorded month was removed - finds nothing to do and changes
  nothing, so nobody is mailed or released to twice. This needs a recipient for the digest: without one a month is never recorded.\<close>

theorem tick_once:
  assumes "payroll_tick E s = Inr s1" "parse_recipients (pst_recipients (settings_model s)) \<noteq> []" "later_that_day E s1 u"
  shows "payroll_tick E u = Inr u"
proof -
  obtain t where t: "(if auto_send_due E s then map_sum id snd (run_for_system E None s) else Inr s) = Inr t"
      "(if auto_release_due E t then map_sum id snd (auto_release E t) else Inr t) = Inr s1"
    using assms(1) by (auto simp: payroll_tick_def ebind_Inr_iff)
  have 1: "settles s t" "auto_send_due E s \<Longrightarrow> run_of_month (current_month E (now s)) t \<noteq> None"
  proof -
    note r = tick_half[OF t(1)]
    show "settles s t"
    proof (cases "auto_send_due E s")
      case True
      then show ?thesis using r(1) run_for_system_settles(1) by blast
    qed (simp add: r(2))
    show "run_of_month (current_month E (now s)) t \<noteq> None" if due: "auto_send_due E s"
    proof -
      obtain x where "run_for_system E None s = Inr (x, t)" using r(1)[OF due] by blast
      from run_for_system_settles(2)[OF this assms(2)] show ?thesis unfolding period_or_current_def option.case .
    qed
  qed
  have 2: "settles t s1" "auto_release_due E t \<Longrightarrow> run_of_month (previous_month E (now t)) s1 \<noteq> None"
  proof -
    note r = tick_half[OF t(2)]
    show "settles t s1"
    proof (cases "auto_release_due E t")
      case True
      then show ?thesis using r(1) auto_release_settles by blast
    qed (simp add: r(2))
    show "run_of_month (previous_month E (now t)) s1 \<noteq> None" if due: "auto_release_due E t"
      using r(1)[OF due] auto_release_settles by blast
  qed
  have n: "now t = now s" "local_day E (now u) = local_day E (now s)" "settings_model t = settings_model s" "settings_model u = settings_model s"
    using 1 2 assms(3) by (simp_all add: settles_def settings_model_def later_that_day_def)
  then have months: "current_month E (now u) = current_month E (now s)" "previous_month E (now u) = previous_month E (now s)"
    by (simp_all add: current_month_def previous_month_def)
  have kept: "run_of_month p s1 \<noteq> None \<Longrightarrow> run_of_month p u \<noteq> None" for p
    using assms(3) unfolding run_recorded later_that_day_def by blast
  have "run_for_system E None u = Inr (None, u)" if "auto_send_due E s"
  proof -
    have "run_of_month (current_month E (now s)) s1 \<noteq> None" using 1(2)[OF that] 2(1) by (simp add: settles_def)
    then show ?thesis using kept months by (simp add: run_for_system_def period_or_current_def)
  qed
  moreover have "auto_release E u = Inr (False, u)" if "auto_release_due E t"
    using kept[OF 2(2)[OF that]] n months by (simp add: auto_release_def)
  ultimately show ?thesis using n by (simp add: payroll_tick_def auto_send_due_def auto_release_due_def ebind_def)
qed

text \<open>The first of March 2026, the pay day, in an organisation without staff.\<close>

definition demo_payday :: pay_db where
  "demo_payday = demo_pay_db\<lparr>now := utc_midnight 739676, employees := [],
     payroll_config := Some (settings_of_update (demo_settings [''hr@a.in'']) 5\<lparr>auto_release_enabled := False\<rparr>)\<rparr>"

lemma demo_payday_dates:
  "current_month demo_E (utc_midnight 739676) = ''2026-03''" "day_of (local_day demo_E (utc_midnight 739676)) = 1"
  "parse_month ''2026-03'' = Inr (2026, 3)" "report_month_bounds ''2026-03'' = Some (739676, 739706)"
  "parse_recipients ''hr@a.in'' = [''hr@a.in'']"
  by code_simp+

theorem tick_once_witness:
  "\<exists>s1. payroll_tick demo_E demo_payday = Inr s1 \<and> payroll_runs s1 \<noteq> []
     \<and> payroll_tick demo_E (s1\<lparr>now := utc_midnight 739676 + 900 * 1000000\<rparr>) = Inr (s1\<lparr>now := utc_midnight 739676 + 900 * 1000000\<rparr>)"
proof -
  note f = demo_payday_def demo_pay_db_def demo_time_db_def demo_settings_def settings_of_update_def time_db.extend_def
    settings_model_def pay_db.defs
  have s: "settings_model demo_payday = (settings_of_update (demo_settings [''hr@a.in'']) 5)\<lparr>auto_release_enabled := False\<rparr>"
    "now demo_payday = utc_midnight 739676" "employees demo_payday = []" "payroll_runs demo_payday = []"
    by (simp_all add: f)
  have r: "pst_recipients (settings_model demo_payday) = ''hr@a.in''" "auto_send_enabled (settings_model demo_payday)"
    "pay_day_of_month (settings_model demo_payday) = 1" "\<not> auto_release_enabled (settings_model demo_payday)"
    by (simp_all add: s settings_of_update_def demo_settings_def)
  have rep: "monthly_report demo_E c ''2026-03'' True demo_payday = Inr []" for c
    by (simp add: monthly_report_def month_register_def month_bounds_def demo_payday_dates require_some_def ebind_def
        all_in_scope_for_period_def by_name_def s Let_def)
  have cal: "\<exists>cal. month_calendar_at demo_E ''2026-03'' demo_payday = Inr cal"
    by (simp add: month_calendar_at_def demo_payday_dates ebind_def)
  then obtain est where est: "estimate demo_E system_caller (Some ''2026-03'') demo_payday = Inr est" "est_lines est = []"
      "est_month est = ''2026-03''"
    by (auto simp: estimate_def ebind_def period_or_current_def rep list_all_active_def by_name_def s Let_def
        system_caller_def can_manage_payroll_def is_admin_def)
  have "release_from_estimate demo_E (for_release est) None demo_payday
      = Inr (\<lparr>rc_released = 0, rc_emailed = 0, rc_skipped = 0\<rparr>, demo_payday)"
    by (simp add: release_from_estimate_def payroll_estimate.truncate_def est demo_payday_dates ebind_def)
  moreover have mail: "send_email demo_E m (t :: pay_db) = (True, t\<lparr>mail_log := mail_log t @ [m]\<rparr>)" for m t
    by (simp add: send_email_def demo_env_def)
  ultimately obtain x s1 where run: "run_for_system demo_E None demo_payday = Inr (x, s1)"
    by (simp add: run_for_system_def period_or_current_def s(2-4) demo_payday_dates run_of_month_def row_get_def ebind_def est
        send_month_def r mail Let_def)
  have due: "auto_send_due demo_E demo_payday" by (simp add: auto_send_due_def r s(2) demo_payday_dates)
  note keep = run_for_system_settles[OF run]
  have "\<not> auto_release_due demo_E s1" using settled_settings[OF keep(1)] r by (simp add: auto_release_due_def)
  then have t: "payroll_tick demo_E demo_payday = Inr s1" using due run by (simp add: payroll_tick_def ebind_def)
  moreover have "payroll_runs s1 \<noteq> []"
    using keep(2) r(1) demo_payday_dates(5) by (auto simp: run_of_month_def row_get_def)
  moreover have "parse_recipients (pst_recipients (settings_model demo_payday)) \<noteq> []" by (simp add: r demo_payday_dates)
  moreover have "now s1 = utc_midnight 739676" using keep(1) s(2) by (simp add: settles_def)
  then have "later_that_day demo_E s1 (s1\<lparr>now := utc_midnight 739676 + 900 * 1000000\<rparr>)"
    by (simp add: later_that_day_def local_day_def demo_env_def utc_day_def utc_midnight_def epoch_def day_us_def)
  ultimately show ?thesis using tick_once[OF t] by blast
qed

text \<open>Without a recipient the month is never recorded, so every tick of the pay day computes and releases it again.\<close>

theorem no_recipients_no_run:
  assumes "run_for_system E month s = Inr (r, s')" "parse_recipients (pst_recipients (settings_model s)) = []"
    and "run_of_month (period_or_current E month s) s = None"
  shows "r = None \<and> payroll_runs s' = payroll_runs s"
proof -
  obtain est n s1 where e: "release_from_estimate E (for_release est) None s = Inr (n, s1)"
      "send_month E system_caller (Some (period_or_current E month s)) AUTO None s1 = Inr (r, s')"
    using assms(1,3) by (auto simp: run_for_system_def Let_def ebind_Inr_iff)
  note r = release_settles[OF e(1)]
  have "settings_model s1 = settings_model s" by (rule settled_settings[OF r])
  then have "r = None \<and> s' = s1" using e(2) assms(2) by (auto simp: send_month_def ebind_Inr_iff Let_def)
  moreover have "payroll_runs s1 = payroll_runs s" using release_frame(3)[OF e(1)] .
  ultimately show ?thesis by simp
qed

text \<open>The digest records the month as run without releasing a slip; the automatic release then passes the month over.\<close>

theorem digest_blocks_release:
  assumes "send_digest E c (Some (previous_month E (now s))) s = Inr (r, s1)"
  shows "payslips s1 = payslips s \<and> auto_release E s1 = Inr (False, s1)"
proof -
  let ?p = "previous_month E (now s)"
  have m: "send_month E c (Some ?p) MANUAL (Some (cu_id c)) s = Inr (Some r, s1)"
    using assms by (auto simp: send_digest_def ebind_Inr_iff split: if_splits option.splits)
  then have rec: "parse_recipients (pst_recipients (settings_model s)) \<noteq> []"
    by (auto simp: send_month_def ebind_Inr_iff Let_def split: if_splits)
  have "?p \<noteq> ''''" by (simp add: previous_month_def Let_def period_str_def)
  then have "run_of_month ?p s1 \<noteq> None" using send_month_settles(2)[OF m rec] by (simp add: period_or_current_def)
  moreover have "now s1 = now s" using send_month_settles(1)[OF m] by (simp add: settles_def)
  moreover have "payslips s1 = payslips s" using m send_month_payslips by blast
  ultimately show ?thesis by (simp add: auto_release_def)
qed

subsection \<open>A slip at a reader's desk\<close>

definition demo_paid_db :: pay_db where
  "demo_paid_db = demo_pay_db\<lparr>now := utc_midnight 739676, payslips := [snapshot_of (demo_line 5) ''2026-02'' None 0]\<rparr>"

theorem slip_is_payroll_line_witness:
  "map_sum id (\<lambda>r. [fst r]) (my_slip demo_E demo_staff (Some 2) (Some ''2026-02'') demo_paid_db)
    = map_sum id (\<lambda>est. map (slip_read_of (est_month est)) (filter (\<lambda>l. ln_employee l = 2) (est_lines est)))
        (estimate demo_E demo_admin (Some ''2026-02'') demo_paid_db)"
proof -
  note f = demo_paid_db_def demo_pay_db_def demo_time_db_def time_db.extend_def demo_employee_def
  have "keys_unique emp_id (employees demo_paid_db)" "override_days_real demo_paid_db"
    by (simp_all add: f keys_unique_def override_days_real_def)
  moreover obtain e where "find_employee 2 demo_paid_db = Some e" "is_active e" "\<not> is_guest e"
    by (simp add: f find_employee_def row_get_def)
  moreover have "get_payslip 2 ''2026-02'' demo_paid_db \<noteq> None"
    by (simp add: f get_payslip_def row_get_def ps_key_def snapshot_of_def demo_line_def)
  moreover have "period_or_current demo_E (Some ''2026-02'') demo_paid_db = ''2026-02''" by (simp add: period_or_current_def)
  moreover have "can_manage_payroll demo_admin" by (simp add: can_manage_payroll_def is_admin_def)
  ultimately show ?thesis by (intro slip_is_payroll_line[OF demo_fixed_zone]) auto
qed

subsection \<open>The registers\<close>

lemma rupees_0 [simp]: "rupees 0 = 0"
  by (simp add: rupees_def int_div_def py_round_def)

lemma claims_nonneg:
  assumes "\<forall>r \<in> set (expense_claims s). 0 \<le> claim_amount r"
  shows "0 \<le> approved_for_month i p (claims_view s)"
proof -
  have "claims (claims_view s) = expense_claims s" by (simp add: claims_view_def payroll_db.extend_def)
  then show ?thesis using assms by (auto simp: approved_for_month_def intro!: sum_list_nonneg)
qed

lemma export_rows:
  assumes "export_xlsx E decrypt (\<lambda>rows _ _. rows) c month None with_claims s = Inr ((rows, name), s1)"
    and "estimate E c month s = Inr est"
  obtains label where "rows = map (salary_row E decrypt with_claims (est_month est) label s) (est_lines est)"
  using assms by (auto simp: export_xlsx_def ebind_Inr_iff Let_def)

lemma salary_row_pay: "x_total_pay (salary_row E decrypt w p label s l) = rupees (ln_net l - ln_reimbursement l)
    + rupees (if w then approved_for_month (ln_employee l) p (claims_view s) else 0)"
  by (simp add: salary_row_def export_row_of_def Let_def)

lemma claims_row_pay: "x_total_pay (claims_row E decrypt p label s l) = rupees (approved_for_month (ln_employee l) p (claims_view s))"
  by (simp add: claims_row_def reimbursement_row_of_def Let_def)

lemma sum_list_filter_nonzero: "\<forall>x \<in> set xs. \<not> P x \<longrightarrow> f x = 0 \<Longrightarrow> (\<Sum>x\<leftarrow>filter P xs. f x) = (\<Sum>x\<leftarrow>xs. f x :: int)"
  by (induction xs) auto

text \<open>The money of a month leaves in one file or in two, never in more: the salary register without expenses and the
  register of expenses together pay exactly what the combined register pays, although the second one lists only the
  people with an approved claim.\<close>

theorem registers_add_up:
  assumes "export_xlsx E decrypt (\<lambda>rows _ _. rows) c month None True s = Inr ((both, n1), s1)"
    and "export_xlsx E decrypt (\<lambda>rows _ _. rows) c month None False s = Inr ((salary, n2), s2)"
    and "export_reimbursements_xlsx E decrypt (\<lambda>rows _ _. rows) c month s = Inr ((expenses, n3), s3)"
    and "\<forall>r \<in> set (expense_claims s). 0 \<le> claim_amount r"
  shows "(\<Sum>r\<leftarrow>both. x_total_pay r) = (\<Sum>r\<leftarrow>salary. x_total_pay r) + (\<Sum>r\<leftarrow>expenses. x_total_pay r)"
proof -
  obtain est where est: "estimate E c month s = Inr est" using assms(1) by (auto simp: export_xlsx_def ebind_Inr_iff)
  let ?owed = "\<lambda>l. approved_for_month (ln_employee l) (est_month est) (claims_view s)"
  obtain label where both: "both = map (salary_row E decrypt True (est_month est) label s) (est_lines est)"
    using export_rows[OF assms(1) est] .
  obtain label' where salary: "salary = map (salary_row E decrypt False (est_month est) label' s) (est_lines est)"
    using export_rows[OF assms(2) est] .
  obtain label'' where expenses: "expenses = map (claims_row E decrypt (est_month est) label'' s) (filter (\<lambda>l. ?owed l > 0) (est_lines est))"
    using assms(3) est by (auto simp: export_reimbursements_xlsx_def ebind_Inr_iff Let_def split: if_splits)
  have "\<forall>l \<in> set (est_lines est). \<not> ?owed l > 0 \<longrightarrow> rupees (?owed l) = 0"
  proof (intro ballI impI)
    fix l assume "\<not> ?owed l > 0"
    then have "?owed l = 0" using claims_nonneg[OF assms(4), of "ln_employee l" "est_month est"] by simp
    then show "rupees (?owed l) = 0" by simp
  qed
  then have "(\<Sum>r\<leftarrow>expenses. x_total_pay r) = (\<Sum>l\<leftarrow>est_lines est. rupees (?owed l))"
    unfolding expenses map_map o_def claims_row_pay by (rule sum_list_filter_nonzero)
  then show ?thesis unfolding both salary map_map o_def salary_row_pay by (simp add: sum_list_addf)
qed

definition demo_claims_db :: pay_db where
  "demo_claims_db = demo_pay_db\<lparr>now := utc_midnight 739676, expense_claims := [\<lparr>claim_id = 9, claimant = 2, claim_amount = 50000,
     category = TRAVEL, description = '''', expense_date = 739650, period_month = ''2026-03'', claim_receipts = [],
     claim_status = claim_status.APPROVED, manager_reviewer_id = None, manager_decided_at = None, manager_note = None,
     hr_reviewer_id = None, hr_decided_at = None, hr_note = None, claim_created_at = 0\<rparr>]\<rparr>"

theorem registers_add_up_witness:
  "\<exists>both salary expenses n1 n2 n3 s1 s2 s3.
     export_xlsx demo_E id (\<lambda>rows _ _. rows) demo_admin (Some ''2026-03'') None True demo_claims_db = Inr ((both, n1), s1)
   \<and> export_xlsx demo_E id (\<lambda>rows _ _. rows) demo_admin (Some ''2026-03'') None False demo_claims_db = Inr ((salary, n2), s2)
   \<and> export_reimbursements_xlsx demo_E id (\<lambda>rows _ _. rows) demo_admin (Some ''2026-03'') demo_claims_db = Inr ((expenses, n3), s3)
   \<and> (\<Sum>r\<leftarrow>both. x_total_pay r) = (\<Sum>r\<leftarrow>salary. x_total_pay r) + (\<Sum>r\<leftarrow>expenses. x_total_pay r)"
proof -
  let ?s = demo_claims_db
  note f = demo_claims_db_def demo_pay_db_def demo_time_db_def time_db.extend_def
  have "\<exists>x \<in> set (list_all_active demo_E ?s). emp_id x = 2"
    by (simp add: f list_all_active_def by_name_def demo_employee_def)
  then obtain x where x: "x \<in> set (list_all_active demo_E ?s)" "emp_id x = 2" by blast
  have owed: "approved_for_month 2 ''2026-03'' (claims_view ?s) = 50000"
    by (simp add: approved_for_month_def claims_view_def payroll_db.extend_def f)
  obtain cal reports where m: "month_calendar_at demo_E ''2026-03'' ?s = Inr cal" "monthly_report demo_E demo_admin ''2026-03'' True ?s = Inr reports"
    by (simp add: month_calendar_at_def monthly_report_def month_register_def month_bounds_def demo_payday_dates require_some_def
        ebind_def Let_def)
  obtain est where est: "estimate demo_E demo_admin (Some ''2026-03'') ?s = Inr est" "est_month est = ''2026-03''"
      "est_lines est = map (month_line demo_E ''2026-03'' cal reports ?s) (list_all_active demo_E ?s)"
    by (simp add: estimate_def period_or_current_def m ebind_def Let_def can_manage_payroll_def is_admin_def)
  obtain both n1 s1 where 1: "export_xlsx demo_E id (\<lambda>rows _ _. rows) demo_admin (Some ''2026-03'') None True ?s = Inr ((both, n1), s1)"
    by (simp add: export_xlsx_def est(1,2) demo_payday_dates ebind_def Let_def)
  obtain salary n2 s2 where 2: "export_xlsx demo_E id (\<lambda>rows _ _. rows) demo_admin (Some ''2026-03'') None False ?s = Inr ((salary, n2), s2)"
    by (simp add: export_xlsx_def est(1,2) demo_payday_dates ebind_def Let_def)
  have "filter (\<lambda>l. approved_for_month (ln_employee l) ''2026-03'' (claims_view ?s) > 0) (est_lines est) \<noteq> []"
    using x owed by (auto simp: est(3) filter_empty_conv ln_month_line intro!: bexI[of _ x])
  then obtain expenses n3 s3 where 3: "export_reimbursements_xlsx demo_E id (\<lambda>rows _ _. rows) demo_admin (Some ''2026-03'') ?s
      = Inr ((expenses, n3), s3)"
    by (simp add: export_reimbursements_xlsx_def est(1,2) demo_payday_dates ebind_def Let_def)
  have "\<forall>r \<in> set (expense_claims ?s). 0 \<le> claim_amount r" by (simp add: f)
  from registers_add_up[OF 1 2 3 this] 1 2 3 show ?thesis by blast
qed

end
