(* ===== verification/PayoutFile.thy ===== *)
theory PayoutFile
  imports PayrollMonthLaws
begin

text \<open>
  The reader of the accounts team's payout file, \<open>app/core/payout_file.py\<close>: normalisers, amounts, the header row, the
  payment rows and the caps on them. What turns the uploaded bytes into sheets of cells (\<open>openpyxl\<close>, the \<open>csv\<close>
  sniffer, the text decoder) is a parameter.
\<close>

subsection \<open>Cells\<close>

text \<open>A cell as the readers give it; a date or any other object counts as its text.\<close>

datatype cell = C_none | C_bool bool | C_int int | C_float pyfloat | C_nonfinite string | C_text string

text \<open>\<open>repr\<close> of a float: the shortest decimal that rounds to it, among those of its length the nearest. \<open>dec_exp\<close> is
  the exponent of its first digit; a double has one between -324 and 308.\<close>

fun dec_exp :: "nat \<Rightarrow> rat \<Rightarrow> int" where
  "dec_exp 0 x = 0"
| "dec_exp (Suc n) x = (if 10 \<le> x then 1 + dec_exp n (x / 10) else if x < 1 then dec_exp n (x * 10) - 1 else 0)"

definition ten_pow :: "int \<Rightarrow> rat" where
  "ten_pow k = (if 0 \<le> k then 10 ^ nat k else 1 / 10 ^ nat (- k))"

definition digits_of :: "rat \<Rightarrow> int \<Rightarrow> nat \<Rightarrow> int option" where
  "digits_of x e n =
    (let scale = ten_pow (int n - 1 - e); lo = \<lfloor>x * scale\<rfloor>; hi = \<lceil>x * scale\<rceil>;
         ok = (\<lambda>c. fl (of_int c / scale) = x)
     in if ok lo \<and> ok hi then Some (if x * scale - of_int lo \<le> of_int hi - x * scale then lo else hi)
        else if ok lo then Some lo else if ok hi then Some hi else None)"

fun shortest_from :: "rat \<Rightarrow> int \<Rightarrow> nat \<Rightarrow> nat \<Rightarrow> int \<times> nat" where
  "shortest_from x e 0 n = (\<lfloor>x * ten_pow (int n - 1 - e)\<rfloor>, n)"
| "shortest_from x e (Suc fuel) n = (case digits_of x e n of Some c \<Rightarrow> (c, n) | None \<Rightarrow> shortest_from x e fuel (n + 1))"

definition decimal_of :: "pyfloat \<Rightarrow> rat" where
  "decimal_of x = (if x = 0 then 0 else
     (let a = \<bar>x\<bar>; e = dec_exp 400 a; (c, n) = shortest_from a e 17 1
      in (if x < 0 then - 1 else 1) * of_int c * ten_pow (e - int n + 1)))"

text \<open>The text of a float that is not whole: positional between \<open>1e-4\<close> and \<open>1e16\<close>, else with an exponent.\<close>

definition float_text :: "pyfloat \<Rightarrow> string" where
  "float_text x =
    (let a = \<bar>x\<bar>; e = dec_exp 400 a; (c, n) = shortest_from a e 17 1; ds = nat_str (nat c);
         sign = (if x < 0 then ''-'' else '''')
     in sign @
        (if - 4 \<le> e \<and> e < 0 then ''0.'' @ replicate (nat (- e - 1)) (CHR ''0'') @ ds
         else if 0 \<le> e \<and> e < 16 then take (nat (e + 1)) ds @ ''.'' @ drop (nat (e + 1)) ds
         else take 1 ds @ (if length ds = 1 then '''' else ''.'' @ drop 1 ds) @ ''e'' @ (if e < 0 then ''-'' else ''+'')
           @ pad2 \<bar>e\<bar>))"

definition is_whole :: "rat \<Rightarrow> bool" where
  "is_whole x \<longleftrightarrow> of_int \<lfloor>x\<rfloor> = x"

definition cell_text :: "cell \<Rightarrow> string" where
  "cell_text v = (case v of
     C_none \<Rightarrow> ''''
   | C_bool b \<Rightarrow> if b then ''True'' else ''False''
   | C_int n \<Rightarrow> int_str n
   | C_float x \<Rightarrow> if is_whole x then int_str \<lfloor>x\<rfloor> else float_text x
   | C_nonfinite t \<Rightarrow> t
   | C_text t \<Rightarrow> py_strip t)"

subsection \<open>Normalisers\<close>

definition is_ascii_alnum :: "char \<Rightarrow> bool" where
  "is_ascii_alnum c \<longleftrightarrow> is_digit c \<or> is_alpha c"

definition alnum_upper :: "string \<Rightarrow> string" where
  "alnum_upper v = map to_upper (filter is_ascii_alnum v)"

definition drop_zeros :: "string \<Rightarrow> string" where
  "drop_zeros = dropWhile (\<lambda>c. c = CHR ''0'')"

definition nonempty :: "string \<Rightarrow> string option" where
  "nonempty v = (if v = '''' then None else Some v)"

definition normalize_employee_number :: "string option \<Rightarrow> string option" where
  "normalize_employee_number v = (case v of None \<Rightarrow> None | Some t \<Rightarrow>
     (let c = alnum_upper t
      in nonempty (if c \<noteq> '''' \<and> list_all is_digit c then (if drop_zeros c = '''' then ''0'' else drop_zeros c) else c)))"

definition normalize_account_number :: "string option \<Rightarrow> string option" where
  "normalize_account_number v = (case v of None \<Rightarrow> None | Some t \<Rightarrow> nonempty (drop_zeros (alnum_upper t)))"

definition normalize_email :: "string option \<Rightarrow> string option" where
  "normalize_email v = (case v of None \<Rightarrow> None | Some t \<Rightarrow>
     if CHR ''@'' \<notin> set t then None else Some (map to_lower (py_strip t)))"

text \<open>A header cell: lower case, letters and digits only.\<close>

definition normalize_header :: "cell \<Rightarrow> string" where
  "normalize_header v = (case v of C_none \<Rightarrow> '''' | C_text t \<Rightarrow> filter slug_char (map to_lower t)
     | _ \<Rightarrow> filter slug_char (map to_lower (cell_text v)))"

subsection \<open>Amounts\<close>

definition max_amount_minor :: int where
  "max_amount_minor = 10 ^ 12"

text \<open>\<open>_CURRENCY_NOISE\<close>: currency words, the rupee sign, commas and white space are dropped wherever they stand.\<close>

fun drop_noise :: "string \<Rightarrow> string" where
  "drop_noise [] = []"
| "drop_noise (c # cs) =
    (let low = map to_lower (c # cs)
     in if take 3 low = ''inr'' then drop_noise (drop 2 cs)
        else if take 3 low = ''rs.'' then drop_noise (drop 2 cs)
        else if take 2 low = ''rs'' then drop_noise (drop 1 cs)
        else if take 3 (c # cs) = rupee_sign then drop_noise (drop 2 cs)
        else if c = CHR '','' \<or> is_space c then drop_noise cs
        else c # drop_noise cs)"

definition drop_trailing_dash :: "string \<Rightarrow> string" where
  "drop_trailing_dash t = (if 2 \<le> length t \<and> drop (length t - 2) t = ''/-'' then take (length t - 2) t else t)"

text \<open>\<open>-?\d+(\.\d{1,2})?\<close> and the value of such a text, in hundredths.\<close>

definition decimal_cents :: "string \<Rightarrow> int option" where
  "decimal_cents t =
    (let neg = (t \<noteq> [] \<and> hd t = CHR ''-''); body = (if neg then tl t else t);
         sgn = (\<lambda>n. if neg then - int n else int n)
     in case split_on (CHR ''.'') body of
          [w] \<Rightarrow> map_option (\<lambda>n. sgn (100 * n)) (read_nat w)
        | [w, f] \<Rightarrow> if 1 \<le> length f \<and> length f \<le> 2 then
             (case (read_nat w, read_nat f) of
                (Some n, Some k) \<Rightarrow> Some (sgn (100 * n + (if length f = 1 then 10 * k else k))) | _ \<Rightarrow> None)
           else None
        | _ \<Rightarrow> None)"

definition half_up :: "rat \<Rightarrow> int" where
  "half_up x = (if 0 \<le> x then \<lfloor>x + 1 / 2\<rfloor> else - \<lfloor>- x + 1 / 2\<rfloor>)"

definition capped :: "rat \<Rightarrow> string + int option" where
  "capped amount = (if of_int max_amount_minor < \<bar>amount\<bar> * 100 then Inl ''too large'' else Inr (Some (half_up (amount * 100))))"

definition parse_amount_minor :: "cell \<Rightarrow> string + int option" where
  "parse_amount_minor v = (case v of
     C_none \<Rightarrow> Inr None
   | C_bool b \<Rightarrow> Inl ''not a number''
   | C_int n \<Rightarrow> capped (of_int n)
   | C_float x \<Rightarrow> capped (decimal_of x)
   | C_nonfinite t \<Rightarrow> Inl ''not a number''
   | C_text t \<Rightarrow> if py_strip t = '''' then Inr None
       else (case decimal_cents (drop_noise (drop_trailing_dash (py_strip t))) of
           None \<Rightarrow> Inl ''not a number''
         | Some m \<Rightarrow> capped (of_int m / 100)))"

subsection \<open>Header row\<close>

datatype payout_field = F_EMPLOYEE_NUMBER | F_ACCOUNT_NUMBER | F_EMAIL | F_NAME | F_AMOUNT | F_REFERENCE | F_STATUS

definition payout_fields :: "payout_field list" where
  "payout_fields = [F_EMPLOYEE_NUMBER, F_ACCOUNT_NUMBER, F_EMAIL, F_NAME, F_AMOUNT, F_REFERENCE, F_STATUS]"

fun field_value :: "payout_field \<Rightarrow> string" where
  "field_value F_EMPLOYEE_NUMBER = ''employee_number''"
| "field_value F_ACCOUNT_NUMBER = ''account_number''"
| "field_value F_EMAIL = ''email''"
| "field_value F_NAME = ''name''"
| "field_value F_AMOUNT = ''amount''"
| "field_value F_REFERENCE = ''reference''"
| "field_value F_STATUS = ''status''"

fun aliases :: "payout_field \<Rightarrow> string list" where
  "aliases F_EMPLOYEE_NUMBER = [''employeeno'', ''employeenumber'', ''empno'', ''employeeid'', ''empid'', ''employeecode'',
     ''empcode'', ''staffid'', ''staffno'']"
| "aliases F_ACCOUNT_NUMBER = [''accountnumber'', ''accountno'', ''bankaccountnumber'', ''bankaccountno'',
     ''beneficiaryaccountnumber'', ''beneficiaryaccountno'', ''creditaccountnumber'', ''acno'', ''acctno'', ''account'']"
| "aliases F_EMAIL = [''workemail'', ''email'', ''emailid'', ''emailaddress'', ''officialemail'', ''beneficiaryemail'']"
| "aliases F_NAME = [''employeename'', ''name'', ''payeename'', ''beneficiaryname'', ''accountholdername'']"
| "aliases F_AMOUNT = [''totalpay'', ''netmonthlytotalpay'', ''netpay'', ''amountpaid'', ''paidamount'', ''payoutamount'',
     ''transactionamount'', ''txnamount'', ''creditamount'', ''netamount'', ''netsalary'', ''netpayable'', ''amountinr'', ''amount'']"
| "aliases F_REFERENCE = [''utr'', ''utrno'', ''utrnumber'', ''bankreference'', ''referenceno'', ''referencenumber'',
     ''reference'', ''transactionid'', ''transactionreference'', ''paymentreference'', ''txnref'']"
| "aliases F_STATUS = [''paymentstatus'', ''transactionstatus'', ''txnstatus'', ''status'']"

definition max_columns :: nat where
  "max_columns = 200"

text \<open>The first column with a header text counts; within a field the first alias present does.\<close>

fun column_of :: "string \<Rightarrow> nat \<Rightarrow> cell list \<Rightarrow> nat option" where
  "column_of h k [] = None"
| "column_of h k (c # cs) = (if normalize_header c = h then Some k else column_of h (k + 1) cs)"

fun first_column :: "string list \<Rightarrow> cell list \<Rightarrow> nat option" where
  "first_column [] cs = None"
| "first_column (a # as) cs = (case column_of a 0 cs of Some k \<Rightarrow> Some k | None \<Rightarrow> first_column as cs)"

type_synonym header = "payout_field \<Rightarrow> nat option"

definition header_map :: "cell list \<Rightarrow> header option" where
  "header_map cs =
    (let m = (\<lambda>f. first_column (aliases f) (take max_columns cs))
     in if m F_AMOUNT \<noteq> None \<and> (m F_EMPLOYEE_NUMBER \<noteq> None \<or> m F_ACCOUNT_NUMBER \<noteq> None \<or> m F_EMAIL \<noteq> None) then Some m else None)"

subsection \<open>Payment rows\<close>

record payout_line =
  pl_row_number :: nat
  pl_employee_number :: "string option"
  pl_account :: "string option"
  pl_email :: "string option"
  pl_payee :: "string option"
  pl_amount :: int
  pl_reference :: "string option"
  pl_bank_status :: "string option"
  pl_failed :: bool

definition cell_at :: "cell list \<Rightarrow> header \<Rightarrow> payout_field \<Rightarrow> cell option" where
  "cell_at cs m f = (case m f of None \<Rightarrow> None | Some k \<Rightarrow> if k < length cs then Some (cs ! k) else None)"

definition text_at :: "cell list \<Rightarrow> header \<Rightarrow> payout_field \<Rightarrow> string" where
  "text_at cs m f = (case cell_at cs m f of None \<Rightarrow> '''' | Some v \<Rightarrow> py_take 256 (cell_text v))"

fun contains :: "string \<Rightarrow> string \<Rightarrow> bool" where
  "contains p [] = (p = [])"
| "contains p (c # cs) = (take (length p) (c # cs) = p \<or> contains p cs)"

definition is_total_label :: "string \<Rightarrow> bool" where
  "is_total_label t = contains ''total'' (map to_lower t)"

definition is_skippable :: "string option \<Rightarrow> string \<Rightarrow> bool" where
  "is_skippable number name = (case number of Some n \<Rightarrow> is_total_label n | None \<Rightarrow> name = '''' \<or> is_total_label name)"

definition lost_digits :: "cell list \<Rightarrow> header \<Rightarrow> bool" where
  "lost_digits cs m = (case cell_at cs m F_ACCOUNT_NUMBER of
     Some (C_float x) \<Rightarrow> is_whole x \<and> 15 < length (int_str \<lfloor>\<bar>x\<bar>\<rfloor>) | _ \<Rightarrow> False)"

definition failed_statuses :: "string list" where
  "failed_statuses = [''failed'', ''failure'', ''rejected'', ''returned'', ''reversed'', ''cancelled'', ''canceled'', ''bounced'']"

definition row_error :: "nat \<Rightarrow> string \<Rightarrow> string" where
  "row_error n t = ''Row '' @ nat_str n @ '': '' @ t"

definition parse_row :: "cell list \<Rightarrow> header \<Rightarrow> nat \<Rightarrow> string + payout_line option" where
  "parse_row cs m n =
    (let number = nonempty (text_at cs m F_EMPLOYEE_NUMBER);
         account = (if lost_digits cs m then None else normalize_account_number (Some (text_at cs m F_ACCOUNT_NUMBER)));
         email = normalize_email (Some (text_at cs m F_EMAIL));
         name = text_at cs m F_NAME
     in if account = None \<and> email = None \<and> is_skippable number name then Inr None
        else let status = nonempty (text_at cs m F_STATUS);
                 failed = (case status of None \<Rightarrow> False | Some t \<Rightarrow> map to_lower t \<in> set failed_statuses)
          in case parse_amount_minor (case cell_at cs m F_AMOUNT of Some v \<Rightarrow> v | None \<Rightarrow> C_none) of
               Inl why \<Rightarrow> Inl (row_error n (''the amount is '' @ why @ ''.''))
             | Inr amount \<Rightarrow>
                 if amount = None \<and> \<not> failed then Inl (row_error n ''the amount is missing.'')
                 else Inr (Some \<lparr>pl_row_number = n, pl_employee_number = number, pl_account = account, pl_email = email,
                   pl_payee = nonempty name, pl_amount = (case amount of Some a \<Rightarrow> a | None \<Rightarrow> 0),
                   pl_reference = nonempty (py_take 64 (text_at cs m F_REFERENCE)),
                   pl_bank_status = map_option (py_take 32) status, pl_failed = failed\<rparr>))"

subsection \<open>Tables and files\<close>

text \<open>A row of a sheet, or a reader failure at that row.\<close>

datatype sheet_row = Cells "cell list" | Unreadable

definition max_payout_rows :: nat where
  "max_payout_rows = 5000"

definition max_scanned_rows :: nat where
  "max_scanned_rows = 2 * max_payout_rows"

definition header_scan_rows :: nat where
  "header_scan_rows = 15"

definition unreadable_row :: "nat \<Rightarrow> string" where
  "unreadable_row n = row_error n ''this row could not be read. Check its cells and retry.''"

record parsed_table =
  pt_header :: header
  pt_rows :: "payout_line list"
  pt_lost :: "nat list"

definition take_row :: "parsed_table \<Rightarrow> cell list \<Rightarrow> nat \<Rightarrow> string + parsed_table" where
  "take_row t cs n = (case parse_row cs (pt_header t) n of
     Inl e \<Rightarrow> Inl e
   | Inr None \<Rightarrow> Inr t
   | Inr (Some l) \<Rightarrow>
       if max_payout_rows \<le> length (pt_rows t) then Inl (''The file has more than '' @ nat_str max_payout_rows @ '' payment rows.'')
       else Inr (t\<lparr>pt_rows := pt_rows t @ [l], pt_lost := (if lost_digits cs (pt_header t) then pt_lost t @ [n] else pt_lost t)\<rparr>))"

text \<open>The rows under the header at row \<open>h\<close>; \<open>n\<close> is the number of the first of them.\<close>

fun parse_rows :: "parsed_table \<Rightarrow> nat \<Rightarrow> nat \<Rightarrow> sheet_row list \<Rightarrow> string + parsed_table" where
  "parse_rows t h n [] = Inr t"
| "parse_rows t h n (Unreadable # rs) = Inl (unreadable_row n)"
| "parse_rows t h n (Cells cs # rs) =
    (if max_scanned_rows < n - h then Inl (''The file has more than '' @ nat_str max_scanned_rows @ '' rows under its header. ''
        @ ''Remove empty or unrelated rows and retry.'')
     else case take_row t cs n of Inl e \<Rightarrow> Inl e | Inr t' \<Rightarrow> parse_rows t' h (n + 1) rs)"

fun parse_table :: "nat \<Rightarrow> sheet_row list \<Rightarrow> string + parsed_table option" where
  "parse_table n [] = Inr None"
| "parse_table n (Unreadable # rs) = Inl (unreadable_row n)"
| "parse_table n (Cells cs # rs) =
    (if header_scan_rows < n then Inr None
     else case header_map cs of
        None \<Rightarrow> parse_table (n + 1) rs
      | Some m \<Rightarrow> map_sum id Some (parse_rows \<lparr>pt_header = m, pt_rows = [], pt_lost = []\<rparr> n (n + 1) rs))"

definition lost_digits_warning :: "nat list \<Rightarrow> string" where
  "lost_digits_warning ns =
    (let shown = take 5 ns; extra = length ns - 5
     in (if length ns = 1 then ''Row '' else ''Rows '')
        @ (case shown of [] \<Rightarrow> '''' | n # ms \<Rightarrow> nat_str n @ concat (map (\<lambda>k. '', '' @ nat_str k) ms))
        @ (if 5 < length ns then '' and '' @ nat_str extra @ '' more'' else '''')
        @ '': the account number has more than 15 digits and Excel stored it as a number, which drops digits, so it was not used for ''
        @ ''matching or the account check. Format the account column as text in Excel.'')"

datatype payout_file_type = XLSX | CSV

fun file_type_value :: "payout_file_type \<Rightarrow> string" where
  "file_type_value XLSX = ''xlsx''"
| "file_type_value CSV = ''csv''"

record parsed_file =
  pf_type :: payout_file_type
  pf_fields :: "payout_field list"
  pf_rows :: "payout_line list"
  pf_warnings :: "string list"

text \<open>The reading libraries: whether bytes decode as text, the sheets of a workbook (a refusal carries its message)
  and the rows of a CSV text.\<close>

record sheet_reader =
  decodes :: "string \<Rightarrow> bool"
  xlsx_sheets :: "string \<Rightarrow> string + sheet_row list list"
  csv_rows :: "string \<Rightarrow> sheet_row list"

definition max_payout_file_bytes :: nat where
  "max_payout_file_bytes = 5 * 1024 * 1024"

definition detect_file_type :: "sheet_reader \<Rightarrow> string \<Rightarrow> payout_file_type option" where
  "detect_file_type R data =
    (if take 4 data = [CHR ''P'', CHR ''K'', CHR 0x03, CHR 0x04] then Some XLSX
     else if data = '''' \<or> CHR 0x00 \<in> set (take 4096 data) \<or> take 4 data = [CHR 0xD0, CHR 0xCF, CHR 0x11, CHR 0xE0] then None
     else if decodes R data then Some CSV else None)"

fun first_table :: "sheet_row list list \<Rightarrow> string + parsed_table" where
  "first_table [] = Inl (''No payout header found. The file needs an amount column (e.g. Total Pay) and ''
     @ ''Employee No, Account Number or Email.'')"
| "first_table (sh # shs) = (case parse_table 1 sh of
     Inl e \<Rightarrow> Inl e
   | Inr None \<Rightarrow> first_table shs
   | Inr (Some t) \<Rightarrow> if pt_rows t = [] then Inl ''The file has a header row but no payments.'' else Inr t)"

definition parse_payout_file :: "sheet_reader \<Rightarrow> string \<Rightarrow> string + parsed_file" where
  "parse_payout_file R data =
    (if max_payout_file_bytes < length data then Inl ''The file is larger than 5 MB.''
     else case detect_file_type R data of
        None \<Rightarrow> Inl ''Upload the payout file as .xlsx or .csv.''
      | Some ty \<Rightarrow>
          (case (case ty of XLSX \<Rightarrow> xlsx_sheets R data | CSV \<Rightarrow> Inr [csv_rows R data]) of
             Inl e \<Rightarrow> Inl e
           | Inr sheets \<Rightarrow> map_sum id (\<lambda>t. \<lparr>pf_type = ty, pf_fields = filter (\<lambda>f. pt_header t f \<noteq> None) payout_fields,
               pf_rows = pt_rows t, pf_warnings = (if pt_lost t = [] then [] else [lost_digits_warning (pt_lost t)])\<rparr>)
               (first_table sheets)))"

end
