(* ===== verification/PayoutCheck.thy ===== *)
theory PayoutCheck
  imports PayoutFile
begin

text \<open>
  Checking a payout: matching and reconciling the lines (\<open>app/services/payout_reconcile.py\<close>), and uploading, reading
  and resolving (\<open>app/services/payout_verification_service.py\<close>, \<open>app/repositories/payout_verification.py\<close>).
\<close>

subsection \<open>Matching\<close>

definition register_minor :: "int \<Rightarrow> int" where
  "register_minor minor = py_round (int_div minor 100) * 100"

record identity =
  id_employee :: uuid
  id_number :: "string option"
  id_email :: "string option"
  id_account :: "string option"

text \<open>The index is kept as the list of its normalised people: a lookup is the set of ids that carry the key.\<close>

definition carriers :: "(identity \<Rightarrow> string option) \<Rightarrow> string \<Rightarrow> identity list \<Rightarrow> uuid list" where
  "carriers f key people = remdups (map id_employee (filter (\<lambda>p. f p = Some key) people))"

definition number_of :: "identity \<Rightarrow> string option" where
  "number_of p = normalize_employee_number (id_number p)"

definition account_key_of :: "identity \<Rightarrow> string option" where
  "account_key_of p = normalize_account_number (id_account p)"

definition email_of :: "identity \<Rightarrow> string option" where
  "email_of p = normalize_email (id_email p)"

definition unique_carrier :: "(identity \<Rightarrow> string option) \<Rightarrow> string option \<Rightarrow> identity list \<Rightarrow> uuid option" where
  "unique_carrier f key people = (case key of None \<Rightarrow> None
     | Some k \<Rightarrow> if k = '''' then None else (case carriers f k people of [i] \<Rightarrow> Some i | _ \<Rightarrow> None))"

definition match_line :: "identity list \<Rightarrow> payout_line \<Rightarrow> (uuid \<times> string) option" where
  "match_line people l =
    (case unique_carrier number_of (normalize_employee_number (pl_employee_number l)) people of
       Some i \<Rightarrow> Some (i, ''employee_number'')
     | None \<Rightarrow> (case unique_carrier account_key_of (pl_account l) people of
         Some i \<Rightarrow> Some (i, ''account_number'')
       | None \<Rightarrow> (case unique_carrier email_of (pl_email l) people of
           Some i \<Rightarrow> Some (i, ''email'')
         | None \<Rightarrow> None)))"

text \<open>The account on file of a person; a later row of the same person replaces an earlier one.\<close>

definition account_on_file :: "identity list \<Rightarrow> uuid \<Rightarrow> string option" where
  "account_on_file people i = foldl (\<lambda>a p. if id_employee p = i \<and> account_key_of p \<noteq> None then account_key_of p else a) None people"

definition account_differs :: "identity list \<Rightarrow> payout_line \<Rightarrow> uuid option \<Rightarrow> bool" where
  "account_differs people l who = (case who of None \<Rightarrow> False
     | Some i \<Rightarrow> pl_account l \<noteq> None \<and> pl_account l \<noteq> Some '''' \<and> account_on_file people i \<noteq> None
         \<and> account_on_file people i \<noteq> pl_account l)"

subsection \<open>Reconciling\<close>

record paid_line =
  pd_index :: nat
  pd_who :: "uuid option"
  pd_amount :: int
  pd_failed :: bool
  pd_account_differs :: bool

definition pays :: "paid_line \<Rightarrow> bool" where
  "pays l \<longleftrightarrow> \<not> pd_failed l \<and> pd_amount l > 0"

datatype mismatch_kind = PAID_NOT_EXPECTED | EXPECTED_NOT_PAID | AMOUNT_MISMATCH | DUPLICATE_PAYMENT | UNMATCHED_ROW
  | ACCOUNT_MISMATCH

record mismatch_draft =
  md_kind :: mismatch_kind
  md_who :: "uuid option"
  md_row :: "nat option"
  md_expected :: "int option"
  md_paid :: "int option"

definition draft :: "mismatch_kind \<Rightarrow> uuid option \<Rightarrow> nat option \<Rightarrow> int option \<Rightarrow> int option \<Rightarrow> mismatch_draft" where
  "draft k who row e p = \<lparr>md_kind = k, md_who = who, md_row = row, md_expected = e, md_paid = p\<rparr>"

definition unmatched_rows :: "paid_line list \<Rightarrow> mismatch_draft list" where
  "unmatched_rows ls = map (\<lambda>l. draft UNMATCHED_ROW None (Some (pd_index l)) None (Some (pd_amount l)))
     (filter (\<lambda>l. pd_who l = None \<and> pays l) ls)"

text \<open>The expected amounts are a dictionary: an association list with distinct keys.\<close>

definition account_mismatches :: "(uuid \<times> int) list \<Rightarrow> paid_line list \<Rightarrow> mismatch_draft list" where
  "account_mismatches expected ls =
     map (\<lambda>l. draft ACCOUNT_MISMATCH (pd_who l) (Some (pd_index l)) (Option.bind (pd_who l) (map_of expected)) (Some (pd_amount l)))
     (filter (\<lambda>l. pd_who l \<noteq> None \<and> pays l \<and> pd_account_differs l) ls)"

text \<open>The people paid, in the order of their first payment, and the payments of one.\<close>

definition payments_of :: "uuid \<Rightarrow> paid_line list \<Rightarrow> paid_line list" where
  "payments_of i ls = filter (\<lambda>l. pd_who l = Some i \<and> pays l) ls"

fun first_seen :: "uuid list \<Rightarrow> uuid list \<Rightarrow> uuid list" where
  "first_seen seen [] = []"
| "first_seen seen (i # is) = (if i \<in> set seen then first_seen seen is else i # first_seen (i # seen) is)"

definition people_paid :: "paid_line list \<Rightarrow> uuid list" where
  "people_paid ls = first_seen [] (List.map_filter (\<lambda>l. if pays l then pd_who l else None) ls)"

definition employee_mismatch :: "uuid \<Rightarrow> paid_line list \<Rightarrow> int option \<Rightarrow> mismatch_draft option" where
  "employee_mismatch i paid expected =
    (let t = sum_list (map pd_amount paid); first = pd_index (hd paid)
     in case expected of
          None \<Rightarrow> Some (draft PAID_NOT_EXPECTED (Some i) (Some first) None (Some t))
        | Some e \<Rightarrow>
            if length paid > 1 then Some (draft DUPLICATE_PAYMENT (Some i) (Some first) (Some e) (Some t))
            else if t \<noteq> e then Some (draft AMOUNT_MISMATCH (Some i) (Some first) (Some e) (Some t))
            else None)"

definition reconcile :: "(uuid \<times> int) list \<Rightarrow> paid_line list \<Rightarrow> mismatch_draft list" where
  "reconcile expected ls = unmatched_rows ls @ account_mismatches expected ls
     @ List.map_filter (\<lambda>i. employee_mismatch i (payments_of i ls) (map_of expected i)) (people_paid ls)
     @ map (\<lambda>(i, e). draft EXPECTED_NOT_PAID (Some i) None (Some e) None)
         (filter (\<lambda>(i, e). i \<notin> set (people_paid ls)) expected)"

subsection \<open>Stored checks\<close>

datatype run_kind = RUN_SALARY | RUN_SALARY_ONLY | RUN_REIMBURSEMENTS

record payout_upload =
  up_id :: uuid
  up_month :: string
  up_kind :: run_kind
  up_filename :: string
  up_file_type :: string
  up_sha :: string
  up_columns :: string
  up_currency :: string
  up_by :: "uuid option"
  up_created_at :: datetime
  up_row_count :: nat
  up_matched :: nat
  up_failed :: nat
  up_expected_count :: nat
  up_expected_total :: int
  up_paid_total :: int
  up_mismatches :: nat
  up_notified_at :: "datetime option"

datatype row_status = ROW_MATCHED | ROW_UNMATCHED | ROW_FAILED

record payout_row =
  rw_id :: uuid
  rw_upload :: uuid
  rw_number :: nat
  rw_who :: "uuid option"
  rw_matched_by :: "string option"
  rw_employee_number :: "string option"
  rw_last4 :: "string option"
  rw_email :: "string option"
  rw_payee :: "string option"
  rw_amount :: int
  rw_reference :: "string option"
  rw_bank_status :: "string option"
  rw_status :: row_status

record payout_mismatch =
  pm_id :: uuid
  pm_upload :: uuid
  pm_kind :: mismatch_kind
  pm_who :: "uuid option"
  pm_row :: "uuid option"
  pm_expected :: "int option"
  pm_paid :: "int option"
  pm_resolved_at :: "datetime option"
  pm_resolved_by :: "uuid option"
  pm_note :: "string option"

record payout_db = pay_db +
  payout_uploads :: "payout_upload list"
  payout_rows :: "payout_row list"
  payout_mismatches :: "payout_mismatch list"

definition last4 :: "string option \<Rightarrow> string option" where
  "last4 account = (case account of None \<Rightarrow> None | Some a \<Rightarrow> if a = '''' then None else Some (drop (length a - 4) a))"

definition row_status_of :: "payout_line \<Rightarrow> uuid option \<Rightarrow> row_status" where
  "row_status_of l who = (if pl_failed l then ROW_FAILED else if who \<noteq> None then ROW_MATCHED else ROW_UNMATCHED)"

definition payout_month_label :: "string \<Rightarrow> string" where
  "payout_month_label month = (case split_on (CHR ''-'') month of
     [y, m] \<Rightarrow> (case py_int m of Some k \<Rightarrow> month_name k @ '' '' @ y | None \<Rightarrow> '''') | _ \<Rightarrow> '''')"

text \<open>What the run should pay: the approved claims of active staff, or the released slips with or without claims.\<close>

definition expected_claims :: "env \<Rightarrow> string \<Rightarrow> 'a pay_db_scheme \<Rightarrow> (uuid \<times> int) list" where
  "expected_claims E month s = filter (\<lambda>(i, v). v > 0) (map (\<lambda>e. (emp_id e, register_minor (approved_for_month (emp_id e) month (claims_view s))))
     (list_all_active E s))"

definition slip_due :: "run_kind \<Rightarrow> payslip \<Rightarrow> int" where
  "slip_due k p = register_minor (ps_net p - (if k = RUN_SALARY_ONLY then ps_reimbursement p else 0))"

definition expected_slips :: "run_kind \<Rightarrow> string \<Rightarrow> 'a payroll_db_scheme \<Rightarrow> (uuid \<times> int) list" where
  "expected_slips k month s = filter (\<lambda>(i, v). v > 0) (map (\<lambda>p. (ps_employee p, slip_due k p)) (payslips_for_month month s))"

definition expected_amounts :: "env \<Rightarrow> string \<Rightarrow> run_kind \<Rightarrow> 'a pay_db_scheme \<Rightarrow> ((uuid \<times> int) list \<times> string) res" where
  "expected_amounts E month k s =
    (let currency = (case payroll_config s of Some r \<Rightarrow> pst_currency r | None \<Rightarrow> ''INR'')
     in if k = RUN_REIMBURSEMENTS then Inr (expected_claims E month s, currency)
        else case payslips_for_month month s of
          [] \<Rightarrow> Inl (ValidationError (payout_month_label month @ '' payroll has not been released yet. ''
                 @ ''Finalize the month before checking its payout.''))
        | p # _ \<Rightarrow> Inr (expected_slips k month s, if ps_currency p = '''' then currency else ps_currency p))"

text \<open>\<open>decrypt\<close> is \<open>decrypt_pii\<close> with the deployment's key; \<open>None\<close> is its failure, which is only logged.\<close>

definition account_text :: "(string \<Rightarrow> string option) \<Rightarrow> compensation option \<Rightarrow> string option" where
  "account_text decrypt cmpn = (case Option.bind cmpn account_number_encrypted of
     None \<Rightarrow> None | Some t \<Rightarrow> if t = '''' then None else decrypt t)"

definition identities :: "(string \<Rightarrow> string option) \<Rightarrow> 'a pay_db_scheme \<Rightarrow> identity list" where
  "identities decrypt s = map (\<lambda>e. \<lparr>id_employee = emp_id e, id_number = employee_number e, id_email = Some (work_email e),
     id_account = account_text decrypt (compensation_of (emp_id e) s)\<rparr>) (employees s)"

definition same_file :: "string \<Rightarrow> run_kind \<Rightarrow> string \<Rightarrow> 'a payout_db_scheme \<Rightarrow> payout_upload option" where
  "same_file month k sha s = List.find (\<lambda>u. up_month u = month \<and> up_kind u = k \<and> up_sha u = sha)
     (rev (sort_key up_created_at (payout_uploads s)))"

definition refuse_repeat :: "string \<Rightarrow> run_kind \<Rightarrow> string \<Rightarrow> 'a payout_db_scheme \<Rightarrow> unit res" where
  "refuse_repeat month k sha s = (case same_file month k sha s of
     None \<Rightarrow> Inr ()
   | Some u \<Rightarrow> Inl (ConflictError (''This exact file was already checked for '' @ payout_month_label month @ '' on ''
       @ fmt_d_b_Y (utc_day (up_created_at u)) @ ''. Open that check instead of uploading it again.'')))"

subsection \<open>Uploading\<close>

definition new_upload :: "env \<Rightarrow> current_user \<Rightarrow> string \<Rightarrow> run_kind \<Rightarrow> parsed_file \<Rightarrow> string \<Rightarrow> string option \<Rightarrow> string
    \<Rightarrow> 'a payout_db_scheme \<Rightarrow> payout_upload" where
  "new_upload E c month k pf sha filename currency s = \<lparr>up_id = next_id s, up_month = month, up_kind = k,
     up_filename = py_take 255 (case filename of None \<Rightarrow> ''payout'' | Some f \<Rightarrow> if f = '''' then ''payout'' else f),
     up_file_type = file_type_value (pf_type pf), up_sha = sha, up_columns = comma_join (map field_value (pf_fields pf)),
     up_currency = currency, up_by = Some (cu_id c), up_created_at = now s, up_row_count = length (pf_rows pf), up_matched = 0,
     up_failed = 0, up_expected_count = 0, up_expected_total = 0, up_paid_total = 0, up_mismatches = 0, up_notified_at = None\<rparr>"

definition stored_row :: "identity list \<Rightarrow> uuid \<Rightarrow> uuid \<Rightarrow> payout_line \<Rightarrow> payout_row" where
  "stored_row people upload i l =
    (let m = match_line people l
     in \<lparr>rw_id = i, rw_upload = upload, rw_number = pl_row_number l, rw_who = map_option fst m, rw_matched_by = map_option snd m,
         rw_employee_number = pl_employee_number l, rw_last4 = last4 (pl_account l), rw_email = pl_email l, rw_payee = pl_payee l,
         rw_amount = pl_amount l, rw_reference = pl_reference l, rw_bank_status = pl_bank_status l,
         rw_status = row_status_of l (map_option fst m)\<rparr>)"

definition paid_line_of :: "identity list \<Rightarrow> nat \<Rightarrow> payout_line \<Rightarrow> paid_line" where
  "paid_line_of people n l =
    (let who = map_option fst (match_line people l)
     in \<lparr>pd_index = n, pd_who = who, pd_amount = pl_amount l, pd_failed = pl_failed l,
         pd_account_differs = account_differs people l who\<rparr>)"

definition paid_lines :: "identity list \<Rightarrow> payout_line list \<Rightarrow> paid_line list" where
  "paid_lines people ls = map (\<lambda>(n, l). paid_line_of people n l) (List.enumerate 0 ls)"

definition stored_mismatch :: "uuid \<Rightarrow> payout_row list \<Rightarrow> uuid \<Rightarrow> mismatch_draft \<Rightarrow> payout_mismatch" where
  "stored_mismatch upload rows i d = \<lparr>pm_id = i, pm_upload = upload, pm_kind = md_kind d, pm_who = md_who d,
     pm_row = map_option (\<lambda>n. rw_id (rows ! n)) (md_row d), pm_expected = md_expected d, pm_paid = md_paid d,
     pm_resolved_at = None, pm_resolved_by = None, pm_note = None\<rparr>"

definition fill_totals :: "payout_row list \<Rightarrow> (uuid \<times> int) list \<Rightarrow> nat \<Rightarrow> payout_upload \<Rightarrow> payout_upload" where
  "fill_totals rows expected n u =
    (let succeeded = filter (\<lambda>r. rw_status r \<noteq> ROW_FAILED) rows
     in u\<lparr>up_matched := length (filter (\<lambda>r. rw_status r = ROW_MATCHED) rows), up_failed := length rows - length succeeded,
          up_paid_total := sum_list (map rw_amount (filter (\<lambda>r. rw_amount r > 0) succeeded)),
          up_expected_count := length expected, up_expected_total := sum_list (map snd expected), up_mismatches := n\<rparr>)"

text \<open>By kind, in the order of the stored enumeration; rows of one upload are written at one time.\<close>

fun kind_rank :: "mismatch_kind \<Rightarrow> nat" where
  "kind_rank PAID_NOT_EXPECTED = 0"
| "kind_rank EXPECTED_NOT_PAID = 1"
| "kind_rank AMOUNT_MISMATCH = 2"
| "kind_rank DUPLICATE_PAYMENT = 3"
| "kind_rank UNMATCHED_ROW = 4"
| "kind_rank ACCOUNT_MISMATCH = 5"

definition mismatches_for :: "uuid \<Rightarrow> 'a payout_db_scheme \<Rightarrow> payout_mismatch list" where
  "mismatches_for u s = sort_key (\<lambda>m. kind_rank (pm_kind m)) (filter (\<lambda>m. pm_upload m = u) (payout_mismatches s))"

fun kind_value :: "mismatch_kind \<Rightarrow> string" where
  "kind_value PAID_NOT_EXPECTED = ''paid_not_expected''"
| "kind_value EXPECTED_NOT_PAID = ''expected_not_paid''"
| "kind_value AMOUNT_MISMATCH = ''amount_mismatch''"
| "kind_value DUPLICATE_PAYMENT = ''duplicate_payment''"
| "kind_value UNMATCHED_ROW = ''unmatched_row''"
| "kind_value ACCOUNT_MISMATCH = ''account_mismatch''"

definition mismatch_kinds :: "mismatch_kind list" where
  "mismatch_kinds = [PAID_NOT_EXPECTED, EXPECTED_NOT_PAID, AMOUNT_MISMATCH, DUPLICATE_PAYMENT, UNMATCHED_ROW, ACCOUNT_MISMATCH]"

text \<open>HR, admins and payroll managers, each once and never the uploader.\<close>

fun once_each :: "uuid list \<Rightarrow> employee list \<Rightarrow> (uuid \<times> string) list" where
  "once_each seen [] = []"
| "once_each seen (e # es) = (if emp_id e \<in> set seen then once_each seen es
     else (emp_id e, work_email e) # once_each (emp_id e # seen) es)"

definition payout_recipients :: "env \<Rightarrow> uuid option \<Rightarrow> 'a core_scheme \<Rightarrow> (uuid \<times> string) list" where
  "payout_recipients E exclude s = once_each (case exclude of None \<Rightarrow> [] | Some i \<Rightarrow> [i])
     (list_by_role E HR s @ list_admins E s @ list_payroll_managers E s)"

definition review_path :: string where
  "review_path = ''/dashboard/admin/settings?tab=payroll&view=payout''"

definition payout_notice :: "payout_upload \<Rightarrow> uuid option \<Rightarrow> uuid \<Rightarrow> notice" where
  "payout_notice u act i = \<lparr>no_to = i, no_kind = SYSTEM,
     no_title = ''Payout check: '' @ nat_str (up_mismatches u) @ (if up_mismatches u = 1 then '' mismatch'' else '' mismatches'')
       @ '' in '' @ payout_month_label (up_month u),
     no_body = Some ''The bank payout file does not match released payroll.'', no_level = WARNING, no_link = Some review_path,
     no_entity_type = Some ''payout_upload'', no_entity_id = Some (up_id u), no_actor = act\<rparr>"

definition mismatch_mail :: "payout_upload \<Rightarrow> payout_mismatch list \<Rightarrow> string \<Rightarrow> email" where
  "mismatch_mail u ms address = \<lparr>mail_to = address, mail_template = ''payout_mismatch'',
     mail_fields = payout_month_label (up_month u)
       # map (\<lambda>k. kind_value k @ ''='' @ nat_str (length (filter (\<lambda>m. pm_kind m = k) ms))) mismatch_kinds\<rparr>"

definition put_upload :: "payout_upload \<Rightarrow> 'a payout_db_scheme \<Rightarrow> 'a payout_db_scheme" where
  "put_upload u s = s\<lparr>payout_uploads := row_put up_id u (payout_uploads s)\<rparr>"

definition mail_quietly :: "env \<Rightarrow> email \<Rightarrow> 'a core_scheme \<Rightarrow> 'a core_scheme" where
  "mail_quietly E m s = (if mail_to m = '''' then s else snd (send_email E m s))"

definition flag_to_hr :: "env \<Rightarrow> uuid option \<Rightarrow> payout_upload \<Rightarrow> 'a payout_db_scheme \<Rightarrow> bool \<times> payout_upload \<times> 'a payout_db_scheme" where
  "flag_to_hr E act u s =
    (if up_mismatches u = 0 \<or> up_notified_at u \<noteq> None then (False, u, s)
     else let u' = u\<lparr>up_notified_at := Some (now s)\<rparr>; s1 = put_upload u' s; to = payout_recipients E act s1;
              s2 = fold (\<lambda>r. notify E (payout_notice u' act (fst r)) None) to s1;
              s3 = fold (\<lambda>r. mail_quietly E (mismatch_mail u' (mismatches_for (up_id u) s) (snd r))) to s2
          in (True, u', s3))"

text \<open>The records of a check in one transaction; ids are drawn in the order of the flushes.\<close>

definition store_check :: "env \<Rightarrow> current_user \<Rightarrow> identity list \<Rightarrow> payout_upload \<Rightarrow> parsed_file \<Rightarrow> (uuid \<times> int) list
    \<Rightarrow> 'a payout_db_scheme \<Rightarrow> payout_upload \<times> 'a payout_db_scheme" where
  "store_check E c people u0 pf expected s =
    (let rows = map (\<lambda>(n, l). stored_row people (up_id u0) (next_id s + 1 + n) l) (List.enumerate 0 (pf_rows pf));
         drafts = reconcile expected (paid_lines people (pf_rows pf));
         ms = map (\<lambda>(n, d). stored_mismatch (up_id u0) rows (next_id s + 1 + length rows + n) d) (List.enumerate 0 drafts);
         u = fill_totals rows expected (length drafts) u0
     in (u, audit_append E (uuid_str (cu_id c)) ''payroll.payout.upload''
          (Some (''payout_upload:'' @ uuid_str (up_id u) @ '':month:'' @ up_month u @ '':rows:'' @ nat_str (length rows)))
          (s\<lparr>payout_uploads := row_add u (payout_uploads s), payout_rows := payout_rows s @ rows,
             payout_mismatches := payout_mismatches s @ ms, next_id := next_id s + 1 + length rows + length ms\<rparr>)))"

definition upload_payout ::
  "env \<Rightarrow> sheet_reader \<Rightarrow> (string \<Rightarrow> string option) \<Rightarrow> current_user \<Rightarrow> string \<Rightarrow> run_kind \<Rightarrow> string \<Rightarrow> string option
   \<Rightarrow> 'a payout_db_scheme \<Rightarrow> ((payout_upload \<times> payout_mismatch list \<times> string list) \<times> 'a payout_db_scheme) res" where
  "upload_payout E R decrypt c month k data filename s =
    (if \<not> can_manage_payroll c then Inl AuthorizationError
     else ebind (refuse_repeat month k (sha256_hex E data) s) (\<lambda>_.
       case parse_payout_file R data of
         Inl why \<Rightarrow> Inl (ValidationError why)
       | Inr pf \<Rightarrow> ebind (expected_amounts E month k s) (\<lambda>(expected, currency).
           let u0 = new_upload E c month k pf (sha256_hex E data) filename currency s;
               (u, s1) = store_check E c (identities decrypt s) u0 pf expected s;
               (told, u', s2) = flag_to_hr E (Some (cu_id c)) u s1
           in Inr ((u', mismatches_for (up_id u) s2, pf_warnings pf), s2))))"

subsection \<open>Reading and resolving\<close>

definition viewed :: "env \<Rightarrow> current_user \<Rightarrow> payout_upload \<Rightarrow> 'a payout_db_scheme
    \<Rightarrow> (payout_upload \<times> (mismatch_kind \<times> nat \<times> nat) list \<times> payout_mismatch list) \<times> 'a payout_db_scheme" where
  "viewed E c u s =
    (let ms = mismatches_for (up_id u) s;
         count = (\<lambda>k. (k, length (filter (\<lambda>m. pm_kind m = k) ms), length (filter (\<lambda>m. pm_kind m = k \<and> pm_resolved_at m = None) ms)))
     in ((u, map count mismatch_kinds, ms), audit_append E (uuid_str (cu_id c)) ''payroll.payout.view''
          (Some (''payout_upload:'' @ uuid_str (up_id u))) s))"

definition get_payout :: "env \<Rightarrow> current_user \<Rightarrow> uuid \<Rightarrow> 'a payout_db_scheme
    \<Rightarrow> ((payout_upload \<times> (mismatch_kind \<times> nat \<times> nat) list \<times> payout_mismatch list) \<times> 'a payout_db_scheme) res" where
  "get_payout E c i s = (if \<not> can_manage_payroll c then Inl AuthorizationError
     else case row_get up_id i (payout_uploads s) of None \<Rightarrow> Inl NotFoundError | Some u \<Rightarrow> Inr (viewed E c u s))"

definition uploads_newest_first :: "string option \<Rightarrow> 'a payout_db_scheme \<Rightarrow> payout_upload list" where
  "uploads_newest_first month s = rev (sort_key up_created_at
     (filter (\<lambda>u. case month of None \<Rightarrow> True | Some m \<Rightarrow> up_month u = m) (payout_uploads s)))"

definition latest_payout :: "env \<Rightarrow> current_user \<Rightarrow> string option \<Rightarrow> 'a payout_db_scheme
    \<Rightarrow> ((payout_upload \<times> (mismatch_kind \<times> nat \<times> nat) list \<times> payout_mismatch list) \<times> 'a payout_db_scheme) res" where
  "latest_payout E c month s = (if \<not> can_manage_payroll c then Inl AuthorizationError
     else case uploads_newest_first month s of [] \<Rightarrow> Inl NotFoundError | u # _ \<Rightarrow> Inr (viewed E c u s))"

definition list_payouts :: "current_user \<Rightarrow> string option \<Rightarrow> nat \<Rightarrow> nat \<Rightarrow> 'a payout_db_scheme \<Rightarrow> (payout_upload list \<times> nat) res" where
  "list_payouts c month limit offset s = (if \<not> can_manage_payroll c then Inl AuthorizationError
     else let us = uploads_newest_first month s in Inr (take limit (drop offset us), length us))"

definition resolve_mismatch ::
  "env \<Rightarrow> current_user \<Rightarrow> uuid \<Rightarrow> uuid \<Rightarrow> string \<Rightarrow> 'a payout_db_scheme \<Rightarrow> (payout_mismatch \<times> 'a payout_db_scheme) res" where
  "resolve_mismatch E c upload i note' s =
    (if \<not> can_manage_payroll c then Inl AuthorizationError
     else case List.find (\<lambda>m. pm_id m = i \<and> pm_upload m = upload) (payout_mismatches s) of
        None \<Rightarrow> Inl NotFoundError
      | Some m \<Rightarrow>
          if pm_resolved_at m \<noteq> None then Inl (ConflictError ''This mismatch is already resolved.'')
          else let m' = m\<lparr>pm_resolved_at := Some (now s), pm_resolved_by := Some (cu_id c), pm_note := Some note'\<rparr>
            in Inr (m', audit_append E (uuid_str (cu_id c)) ''payroll.payout.resolve''
                 (Some (''payout_mismatch:'' @ uuid_str i @ '':upload:'' @ uuid_str upload))
                 (s\<lparr>payout_mismatches := row_put pm_id m' (payout_mismatches s)\<rparr>)))"

text \<open>What a reader is shown of a mismatch besides its stored columns.\<close>

definition difference_minor :: "payout_mismatch \<Rightarrow> int" where
  "difference_minor m = (case pm_paid m of Some p \<Rightarrow> p | None \<Rightarrow> 0) - (case pm_expected m of Some e \<Rightarrow> e | None \<Rightarrow> 0)"

definition on_file_last4 :: "(string \<Rightarrow> string option) \<Rightarrow> payout_mismatch \<Rightarrow> 'a pay_db_scheme \<Rightarrow> string option" where
  "on_file_last4 decrypt m s = (if pm_kind m \<noteq> ACCOUNT_MISMATCH then None
     else Option.bind (pm_who m) (\<lambda>i. last4 (normalize_account_number (account_text decrypt (compensation_of i s)))))"

end
