(* ===== verification/PayoutLaws.thy ===== *)
theory PayoutLaws
  imports PayoutCheck
begin

text \<open>
  Laws of the payout check: a clean report says exactly that everybody due was paid once and in full and nobody else
  was; a finding once stored stays and is resolved once.
\<close>

subsection \<open>What a clean report means\<close>

lemma set_first_seen: "set (first_seen seen is) = set is - set seen"
  by (induction seen "is" rule: first_seen.induct) auto

lemma people_paid_iff: "i \<in> set (people_paid ls) \<longleftrightarrow> payments_of i ls \<noteq> []"
  by (auto simp: people_paid_def set_first_seen map_filter_def payments_of_def filter_empty_conv image_iff split: if_splits)

lemma map_filter_empty: "List.map_filter f xs = [] \<longleftrightarrow> (\<forall>x \<in> set xs. f x = None)"
  by (induction xs) (auto simp: map_filter_simps split: option.splits)

lemma employee_mismatch_none:
  assumes "paid \<noteq> []"
  shows "employee_mismatch i paid expected = None \<longleftrightarrow> (\<exists>e. expected = Some e \<and> map pd_amount paid = [e])"
proof -
  obtain l ls where p: "paid = l # ls" using assms by (cases paid) auto
  show ?thesis by (cases ls) (auto simp: p employee_mismatch_def Let_def split: option.splits)
qed

definition paid_as_expected :: "(uuid \<times> int) list \<Rightarrow> paid_line list \<Rightarrow> bool" where
  "paid_as_expected expected ls \<longleftrightarrow>
     (\<forall>l \<in> set ls. pays l \<longrightarrow> (\<exists>i e. pd_who l = Some i \<and> (i, e) \<in> set expected) \<and> \<not> pd_account_differs l)
     \<and> (\<forall>(i, e) \<in> set expected. map pd_amount (payments_of i ls) = [e])"

text \<open>C10 The report is clean exactly when the file pays what was due: every payment in it goes to somebody who is due
  money, into the account on file, and each person due is paid by exactly one line with exactly the amount.\<close>

theorem clean_report_exact:
  assumes "distinct (map fst expected)"
  shows "reconcile expected ls = [] \<longleftrightarrow> paid_as_expected expected ls"
proof -
  have get: "map_of expected i = Some e \<longleftrightarrow> (i, e) \<in> set expected" for i e
    using assms map_of_eq_Some_iff by fastforce
  have persons: "(\<forall>i \<in> set (people_paid ls). employee_mismatch i (payments_of i ls) (map_of expected i) = None)
      \<longleftrightarrow> (\<forall>i. payments_of i ls \<noteq> [] \<longrightarrow> (\<exists>e. (i, e) \<in> set expected \<and> map pd_amount (payments_of i ls) = [e]))"
    using employee_mismatch_none by (auto simp: people_paid_iff get)
  have unmatched: "(unmatched_rows ls = [] \<and> account_mismatches expected ls = [])
      \<longleftrightarrow> (\<forall>l \<in> set ls. pays l \<longrightarrow> pd_who l \<noteq> None \<and> \<not> pd_account_differs l)"
    unfolding unmatched_rows_def account_mismatches_def map_is_Nil_conv filter_empty_conv ball_conj_distrib[symmetric]
    by (intro ball_cong refl) auto
  have unpaid: "filter (\<lambda>(i, e). i \<notin> set (people_paid ls)) expected = [] \<longleftrightarrow> (\<forall>(i, e) \<in> set expected. payments_of i ls \<noteq> [])"
    by (auto simp: filter_empty_conv people_paid_iff)
  have paid: "payments_of i ls \<noteq> []" if "l \<in> set ls" "pays l" "pd_who l = Some i" for l i
    using that by (auto simp: payments_of_def filter_empty_conv)
  have who: "\<exists>l \<in> set ls. pays l \<and> pd_who l = Some i" if "payments_of i ls \<noteq> []" for i
    using that by (auto simp: payments_of_def filter_empty_conv)
  have "reconcile expected ls = [] \<longleftrightarrow> (\<forall>l \<in> set ls. pays l \<longrightarrow> pd_who l \<noteq> None \<and> \<not> pd_account_differs l)
      \<and> (\<forall>i. payments_of i ls \<noteq> [] \<longrightarrow> (\<exists>e. (i, e) \<in> set expected \<and> map pd_amount (payments_of i ls) = [e]))
      \<and> (\<forall>(i, e) \<in> set expected. payments_of i ls \<noteq> [])"
    unfolding reconcile_def append_is_Nil_conv map_is_Nil_conv map_filter_empty persons unpaid unmatched[symmetric] by blast
  also have "\<dots> \<longleftrightarrow> paid_as_expected expected ls"
  proof
    assume c: "(\<forall>l \<in> set ls. pays l \<longrightarrow> pd_who l \<noteq> None \<and> \<not> pd_account_differs l)
      \<and> (\<forall>i. payments_of i ls \<noteq> [] \<longrightarrow> (\<exists>e. (i, e) \<in> set expected \<and> map pd_amount (payments_of i ls) = [e]))
      \<and> (\<forall>(i, e) \<in> set expected. payments_of i ls \<noteq> [])"
    have "e' = e" if "(i, e) \<in> set expected" "(i, e') \<in> set expected" for i e e'
      using that get by (metis option.inject)
    then show "paid_as_expected expected ls" using c paid unfolding paid_as_expected_def by (fastforce split: prod.splits)
  next
    assume p: "paid_as_expected expected ls"
    then have "\<exists>e. (i, e) \<in> set expected \<and> map pd_amount (payments_of i ls) = [e]" if "payments_of i ls \<noteq> []" for i
      using who[OF that] by (fastforce simp: paid_as_expected_def)
    then show "(\<forall>l \<in> set ls. pays l \<longrightarrow> pd_who l \<noteq> None \<and> \<not> pd_account_differs l)
      \<and> (\<forall>i. payments_of i ls \<noteq> [] \<longrightarrow> (\<exists>e. (i, e) \<in> set expected \<and> map pd_amount (payments_of i ls) = [e]))
      \<and> (\<forall>(i, e) \<in> set expected. payments_of i ls \<noteq> [])"
      using p by (fastforce simp: paid_as_expected_def)
  qed
  finally show ?thesis .
qed

theorem clean_report_exact_witness:
  "reconcile [(2, 5000), (3, 700)] [\<lparr>pd_index = 0, pd_who = Some 2, pd_amount = 5000, pd_failed = False, pd_account_differs = False\<rparr>,
      \<lparr>pd_index = 1, pd_who = Some 3, pd_amount = 700, pd_failed = True, pd_account_differs = False\<rparr>,
      \<lparr>pd_index = 2, pd_who = Some 3, pd_amount = 700, pd_failed = False, pd_account_differs = False\<rparr>,
      \<lparr>pd_index = 3, pd_who = None, pd_amount = - 10, pd_failed = False, pd_account_differs = False\<rparr>] = []"
proof -
  have "distinct (map fst [(2 :: uuid, 5000 :: int), (3, 700)])" by simp
  from clean_report_exact[OF this] show ?thesis by (simp add: paid_as_expected_def pays_def payments_of_def)
qed

text \<open>Then the money of the file is the money that was due.\<close>

lemma clean_report_total:
  assumes "distinct (map fst expected)" "reconcile expected ls = []"
  shows "(\<Sum>l\<leftarrow>filter pays ls. pd_amount l) = sum_list (map snd expected)"
proof -
  have p: "paid_as_expected expected ls" using clean_report_exact[OF assms(1)] assms(2) by blast
  have "(\<Sum>l\<leftarrow>filter pays ls. pd_amount l) = (\<Sum>i\<leftarrow>map fst expected. \<Sum>l\<leftarrow>payments_of i ls. pd_amount l)"
    using p assms(1)
  proof -
    have "(\<Sum>l\<leftarrow>filter pays xs. pd_amount l) = (\<Sum>i\<leftarrow>map fst expected. \<Sum>l\<leftarrow>payments_of i xs. pd_amount l)"
      if "\<forall>l \<in> set xs. pays l \<longrightarrow> (\<exists>i e. pd_who l = Some i \<and> (i, e) \<in> set expected)" for xs
      using that
    proof (induction xs)
      case Nil
      then show ?case by (simp add: payments_of_def o_def)
    next
      case (Cons l xs)
      have split: "(\<Sum>x\<leftarrow>payments_of i (l # xs). pd_amount x)
          = (if pays l \<and> pd_who l = Some i then pd_amount l else 0) + (\<Sum>x\<leftarrow>payments_of i xs. pd_amount x)" for i
        by (simp add: payments_of_def)
      show ?case
      proof (cases "pays l")
        case True
        then obtain i where i: "pd_who l = Some i" "i \<in> set (map fst expected)" using Cons.prems by force
        have "(\<Sum>j\<leftarrow>map fst expected. if pays l \<and> pd_who l = Some j then pd_amount l else 0) = pd_amount l"
          unfolding sum_list_distinct_conv_sum_set[OF assms(1)] using i True by (simp add: sum.delta)
        then show ?thesis using Cons True by (simp only: split sum_list_addf) simp
      next
        case False
        then show ?thesis using Cons by (simp only: split sum_list_addf) (simp add: o_def)
      qed
    qed
    then show ?thesis using p by (fastforce simp: paid_as_expected_def)
  qed
  also have "\<dots> = sum_list (map snd expected)"
  proof -
    have "(\<Sum>l\<leftarrow>payments_of (fst x) ls. pd_amount l) = snd x" if "x \<in> set expected" for x
      using p that by (cases x) (auto simp: paid_as_expected_def)
    then show ?thesis by (simp add: o_def cong: map_cong)
  qed
  finally show ?thesis .
qed

subsection \<open>Stored findings\<close>

text \<open>The operations on payout checks, labelled by the caller.\<close>

inductive payout_step :: "env \<Rightarrow> sheet_reader \<Rightarrow> (string \<Rightarrow> string option) \<Rightarrow> current_user \<Rightarrow> 'a payout_db_scheme \<Rightarrow> 'a payout_db_scheme \<Rightarrow> bool"
  for E R decrypt where
  step_upload: "upload_payout E R decrypt c month k data filename s = Inr (r, s') \<Longrightarrow> payout_step E R decrypt c s s'"
| step_get: "get_payout E c i s = Inr (r, s') \<Longrightarrow> payout_step E R decrypt c s s'"
| step_latest: "latest_payout E c month s = Inr (r, s') \<Longrightarrow> payout_step E R decrypt c s s'"
| step_resolve: "resolve_mismatch E c u i t s = Inr (r, s') \<Longrightarrow> payout_step E R decrypt c s s'"

definition payout_steps :: "env \<Rightarrow> sheet_reader \<Rightarrow> (string \<Rightarrow> string option) \<Rightarrow> 'a payout_db_scheme \<Rightarrow> 'a payout_db_scheme \<Rightarrow> bool" where
  "payout_steps E R decrypt = (\<lambda>s s'. \<exists>c. payout_step E R decrypt c s s')\<^sup>*\<^sup>*"

text \<open>What a quiet effect keeps of the payout tables.\<close>

lemma quiet_payout:
  fixes s t :: "'a payout_db_scheme"
  assumes "quiet s t"
  shows "payout_uploads t = payout_uploads s" "payout_rows t = payout_rows s" "payout_mismatches t = payout_mismatches s"
    "next_id s \<le> next_id t"
proof -
  have "core.more t = core.more s" "next_id s \<le> next_id t" using quiet_core[OF assms] by simp_all
  then show "payout_uploads t = payout_uploads s" "payout_rows t = payout_rows s" "payout_mismatches t = payout_mismatches s"
    "next_id s \<le> next_id t" by (cases s; cases t; simp)+
qed

lemma quiet_mail_quietly [quiet_intros]: "quiet s t \<Longrightarrow> quiet s (mail_quietly E m t)"
  by (simp add: mail_quietly_def quiet_intros)

text \<open>An uploaded check keeps its month, run and file.\<close>

definition upload_key :: "payout_upload \<Rightarrow> string \<times> run_kind \<times> string" where
  "upload_key u = (up_month u, up_kind u, up_sha u)"

lemma flag_to_hr_effect:
  assumes "flag_to_hr E a u s = (told, u', s')"
  shows "payout_mismatches s' = payout_mismatches s" "payout_rows s' = payout_rows s" "next_id s \<le> next_id s'"
    "payout_uploads s' = payout_uploads s \<or> payout_uploads s' = row_put up_id u' (payout_uploads s)"
    "upload_key u' = upload_key u" "up_id u' = up_id u"
proof -
  have "payout_mismatches s' = payout_mismatches s \<and> payout_rows s' = payout_rows s \<and> next_id s \<le> next_id s'
      \<and> (payout_uploads s' = payout_uploads s \<or> payout_uploads s' = row_put up_id u' (payout_uploads s))
      \<and> upload_key u' = upload_key u \<and> up_id u' = up_id u"
  proof (cases "up_mismatches u = 0 \<or> up_notified_at u \<noteq> None")
    case True
    then show ?thesis using assms by (auto simp: flag_to_hr_def)
  next
    case False
    then have u': "u' = u\<lparr>up_notified_at := Some (now s)\<rparr>" and q: "quiet (put_upload u' s) s'"
      using assms by (auto simp: flag_to_hr_def Let_def intro!: quiet_intros)
    then show ?thesis using quiet_payout[OF q] by (simp add: put_upload_def upload_key_def)
  qed
  then show "payout_mismatches s' = payout_mismatches s" "payout_rows s' = payout_rows s" "next_id s \<le> next_id s'"
    "payout_uploads s' = payout_uploads s \<or> payout_uploads s' = row_put up_id u' (payout_uploads s)"
    "upload_key u' = upload_key u" "up_id u' = up_id u" by simp_all
qed

lemma enumerated_ids: "map (\<lambda>x. base + fst x) (List.enumerate 0 xs) = [base..<base + length xs]"
proof (induction xs rule: rev_induct)
  case (snoc x xs)
  then show ?case by (simp add: enumerate_append_eq)
qed simp

lemma upload_payout_effect:
  assumes "upload_payout E R decrypt c month k data filename s = Inr (r, s')"
  obtains pf :: parsed_file and u u' :: payout_upload and rows ms where "up_id u = next_id s" "upload_key u = (month, k, sha256_hex E data)" "upload_key u' = upload_key u"
    "payout_mismatches s' = payout_mismatches s @ ms" "payout_rows s' = payout_rows s @ rows"
    "map pm_id ms = [next_id s + 1 + length rows..<next_id s + 1 + length rows + length ms]"
    "next_id s + 1 + length rows + length ms \<le> next_id s'"
    "payout_uploads s' = payout_uploads s @ [u] \<or> payout_uploads s' = row_put up_id u' (payout_uploads s @ [u])" "up_id u' = up_id u"
    "rows = map (\<lambda>(n, l). stored_row (identities decrypt s) (next_id s) (next_id s + 1 + n) l) (List.enumerate 0 (pf_rows pf))"
proof -
  obtain pf expected currency where p: "parse_payout_file R data = Inr pf" "expected_amounts E month k s = Inr (expected, currency)"
    using assms by (auto simp: upload_payout_def ebind_Inr_iff split: if_splits sum.splits)
  let ?u0 = "new_upload E c month k pf (sha256_hex E data) filename currency s"
  obtain u s1 where st: "store_check E c (identities decrypt s) ?u0 pf expected s = (u, s1)" by fastforce
  obtain told u' s2 where fl: "flag_to_hr E (Some (cu_id c)) u s1 = (told, u', s2)" by (cases "flag_to_hr E (Some (cu_id c)) u s1")
  have s2: "s' = s2" using assms p st fl by (auto simp: upload_payout_def ebind_Inr_iff Let_def split: if_splits)
  let ?rows = "map (\<lambda>(n, l). stored_row (identities decrypt s) (up_id ?u0) (next_id s + 1 + n) l) (List.enumerate 0 (pf_rows pf))"
  let ?ms = "map (\<lambda>(n, d). stored_mismatch (up_id ?u0) ?rows (next_id s + 1 + length ?rows + n) d)
    (List.enumerate 0 (reconcile expected (paid_lines (identities decrypt s) (pf_rows pf))))"
  have u0: "up_id ?u0 = next_id s" "upload_key ?u0 = (month, k, sha256_hex E data)" by (simp_all add: new_upload_def upload_key_def)
  have u: "up_id u = next_id s" "upload_key u = (month, k, sha256_hex E data)" "payout_uploads s1 = payout_uploads s @ [u]"
      "payout_rows s1 = payout_rows s @ ?rows" "payout_mismatches s1 = payout_mismatches s @ ?ms"
      "next_id s1 = next_id s + 1 + length ?rows + length ?ms"
    using st u0 by (auto simp: store_check_def Let_def fill_totals_def upload_key_def row_add_def audit_append_def)
  note f = flag_to_hr_effect[OF fl]
  have ids: "map pm_id ?ms = [next_id s + 1 + length ?rows..<next_id s + 1 + length ?rows + length ?ms]"
    by (simp only: map_map o_def stored_mismatch_def case_prod_unfold payout_mismatch.simps length_map length_enumerate enumerated_ids)
  show thesis
    by (rule that[OF u(1) u(2) f(5)[unfolded u(2)[symmetric]] _ _ ids _ _ f(6), of pf])
      (use f u u0 s2 in \<open>auto simp: enumerate_eq_zip\<close>)
qed

definition payout_ids_ok :: "'a payout_db_scheme \<Rightarrow> bool" where
  "payout_ids_ok s \<longleftrightarrow> rows_ok pm_id (\<lambda>_. True) (next_id s) (payout_mismatches s)
     \<and> rows_ok up_id (\<lambda>_. True) (next_id s) (payout_uploads s)"

text \<open>A finding is as it was, or it has been resolved, by somebody and with a note, and is otherwise as it was.\<close>

definition finding_kept :: "payout_mismatch \<Rightarrow> payout_mismatch \<Rightarrow> bool" where
  "finding_kept m m' \<longleftrightarrow> m' = m \<or> pm_resolved_at m = None
     \<and> (\<exists>t i x. m' = m\<lparr>pm_resolved_at := Some t, pm_resolved_by := Some i, pm_note := Some x\<rparr>)"

lemma finding_kept_trans: "finding_kept a b \<Longrightarrow> finding_kept b c \<Longrightarrow> finding_kept a c"
  by (auto simp: finding_kept_def)

lemma rows_ok_append:
  assumes "rows_ok key (\<lambda>_. True) n xs" "map key ys = [a..<a + length ys]" "n \<le> a" "a + length ys \<le> n'"
  shows "rows_ok key (\<lambda>_. True) n' (xs @ ys)"
proof -
  have ys: "key ` set ys = {a..<a + length ys}" using arg_cong[OF assms(2), of set] by simp
  have d: "distinct (map key ys)" by (simp only: assms(2) distinct_upt)
  have lt: "key x < n" if "x \<in> set xs" for x using assms(1) that by (simp add: rows_ok_def)
  have new: "a \<le> key y \<and> key y < a + length ys" if "y \<in> set ys" for y using ys that by (metis atLeastLessThan_iff imageI)
  have "key ` set xs \<inter> key ` set ys = {}" using lt new assms(3) by (fastforce dest: leD)
  moreover have "key x < n'" if "x \<in> set (xs @ ys)" for x using lt[of x] new[of x] assms(3,4) that by auto
  ultimately show ?thesis using assms(1) d by (simp add: rows_ok_def keys_unique_def)
qed

definition keeps_checks :: "'a payout_db_scheme \<Rightarrow> 'a payout_db_scheme \<Rightarrow> bool" where
  "keeps_checks s s' \<longleftrightarrow> payout_ids_ok s' \<and> upload_key ` set (payout_uploads s) \<subseteq> upload_key ` set (payout_uploads s')
     \<and> (\<forall>m \<in> set (payout_mismatches s). \<exists>m' \<in> set (payout_mismatches s'). finding_kept m m')"

lemma keeps_same:
  "payout_ids_ok s \<Longrightarrow> payout_uploads s' = payout_uploads s \<Longrightarrow> payout_mismatches s' = payout_mismatches s
    \<Longrightarrow> next_id s \<le> next_id s' \<Longrightarrow> keeps_checks s s'"
  unfolding keeps_checks_def payout_ids_ok_def by (auto intro: rows_ok_grow simp: finding_kept_def)

lemma keeps_trans: "keeps_checks s t \<Longrightarrow> keeps_checks t u \<Longrightarrow> keeps_checks s u"
  unfolding keeps_checks_def by (meson finding_kept_trans subset_trans)

lemma upload_keeps:
  assumes "upload_payout E R decrypt c month k data filename s = Inr (r, s')" "payout_ids_ok s"
  shows "keeps_checks s s' \<and> (month, k, sha256_hex E data) \<in> upload_key ` set (payout_uploads s')"
  using assms(1)
proof (cases rule: upload_payout_effect)
  case (1 pf u u' rows ms)
  have ups: "rows_ok up_id (\<lambda>_. True) (next_id s') (payout_uploads s @ [u])"
    by (rule rows_ok_append[of _ "next_id s" _ _ "next_id s"]) (use assms(2) 1 in \<open>simp_all add: payout_ids_ok_def\<close>)
  have keys: "upload_key ` set (payout_uploads s') = insert (upload_key u) (upload_key ` set (payout_uploads s))"
    "rows_ok up_id (\<lambda>_. True) (next_id s') (payout_uploads s')"
  proof -
    have "x = u" if "x \<in> set (payout_uploads s @ [u])" "up_id x = up_id u" for x
      using rows_ok_inj[OF ups that(1), of u] that(2) by simp
    then have "upload_key ` set (row_put up_id u' (payout_uploads s @ [u])) = upload_key ` set (payout_uploads s @ [u])"
      unfolding row_put_set using 1(3,9) by (auto simp: image_iff split: if_splits)
    then show "upload_key ` set (payout_uploads s') = insert (upload_key u) (upload_key ` set (payout_uploads s))"
      using 1(8) by auto
    have "row_get up_id (up_id u') (payout_uploads s @ [u]) = Some u"
      using rows_ok_get[OF ups, of u] 1(9) by simp
    then show "rows_ok up_id (\<lambda>_. True) (next_id s') (payout_uploads s')"
      using 1(8) ups rows_ok_put[OF ups, of u'] by auto
  qed
  moreover have "rows_ok pm_id (\<lambda>_. True) (next_id s') (payout_mismatches s')"
    unfolding 1(4) by (rule rows_ok_append[OF _ 1(6), of "next_id s"]) (use assms(2) 1(7) in \<open>simp_all add: payout_ids_ok_def\<close>)
  ultimately show ?thesis using 1(2,4) by (auto simp: keeps_checks_def payout_ids_ok_def finding_kept_def)
qed

lemma resolve_keeps:
  assumes "resolve_mismatch E c u i t s = Inr (r, s')" "payout_ids_ok s"
  shows "keeps_checks s s'"
proof -
  obtain m where m: "List.find (\<lambda>m. pm_id m = i \<and> pm_upload m = u) (payout_mismatches s) = Some m" "pm_resolved_at m = None"
      and s': "payout_mismatches s' = row_put pm_id (m\<lparr>pm_resolved_at := Some (now s), pm_resolved_by := Some (cu_id c), pm_note := Some t\<rparr>)
        (payout_mismatches s)" "payout_uploads s' = payout_uploads s" "next_id s' = next_id s"
    using assms(1) by (auto simp: resolve_mismatch_def Let_def audit_append_def split: if_splits option.splits)
  let ?m = "m\<lparr>pm_resolved_at := Some (now s), pm_resolved_by := Some (cu_id c), pm_note := Some t\<rparr>"
  have ok: "rows_ok pm_id (\<lambda>_. True) (next_id s) (payout_mismatches s)" using assms(2) by (simp add: payout_ids_ok_def)
  have mem: "m \<in> set (payout_mismatches s)" using find_Some_set[OF m(1)] by simp
  have get: "row_get pm_id (pm_id ?m) (payout_mismatches s) = Some m" using rows_ok_get[OF ok mem] by simp
  have "\<exists>x' \<in> set (payout_mismatches s'). finding_kept x x'" if x: "x \<in> set (payout_mismatches s)" for x
  proof (cases "pm_id x = pm_id m")
    case True
    then have "x = m" using rows_ok_inj[OF ok x mem] by simp
    have "?m \<in> set (payout_mismatches s')" unfolding s' row_put_set using mem by (intro image_eqI[of _ _ m]) simp_all
    moreover have "finding_kept x ?m" using \<open>x = m\<close> m(2) by (auto simp: finding_kept_def)
    ultimately show ?thesis by blast
  next
    case False
    then have "x \<in> set (payout_mismatches s')" using x by (auto simp: s' row_put_set image_iff)
    then show ?thesis by (auto simp: finding_kept_def)
  qed
  moreover have "rows_ok pm_id (\<lambda>_. True) (next_id s') (payout_mismatches s')"
    unfolding s' by (rule rows_ok_put[OF ok get]) simp
  ultimately show ?thesis using assms(2) by (simp add: keeps_checks_def payout_ids_ok_def s')
qed

lemma step_keeps:
  assumes "payout_step E R decrypt c s s'" "payout_ids_ok s"
  shows "keeps_checks s s'"
  using assms(1)
proof cases
  case step_upload
  then show ?thesis using upload_keeps assms(2) by blast
next
  case step_get
  then show ?thesis using assms(2)
    by (intro keeps_same) (auto simp: get_payout_def viewed_def audit_append_def Let_def split: if_splits option.splits)
next
  case step_latest
  then show ?thesis using assms(2)
    by (intro keeps_same) (auto simp: latest_payout_def viewed_def audit_append_def Let_def split: if_splits list.splits)
next
  case step_resolve
  then show ?thesis using resolve_keeps assms(2) by blast
qed

text \<open>C11 What a check found stays found: whatever uploads, readings and resolutions follow, in any order and by anyone, every
  stored finding is still there with what it said, and the only thing that ever happens to it is that it is resolved,
  once, with a person, a time and a note.\<close>

theorem findings_kept:
  assumes "payout_steps E R decrypt s s'" "payout_ids_ok s" "m \<in> set (payout_mismatches s)"
  shows "\<exists>m' \<in> set (payout_mismatches s'). finding_kept m m'"
proof -
  have "keeps_checks s s'" using assms(1) unfolding payout_steps_def
  proof (induction rule: rtranclp_induct)
    case base
    show ?case by (rule keeps_same[OF assms(2)]) simp_all
  next
    case (step t u)
    have "payout_ids_ok t" using step.IH by (simp add: keeps_checks_def)
    then have "keeps_checks t u" using step.hyps(2) step_keeps by blast
    then show ?case by (rule keeps_trans[OF step.IH])
  qed
  then show ?thesis using assms(3) by (auto simp: keeps_checks_def)
qed

text \<open>C12 The same file is checked once: after an upload, and whatever happened since, the same bytes for the same month and
  run are refused as a conflict (409) by whoever sends them again.\<close>

theorem same_file_once:
  assumes "upload_payout E R decrypt c month k data filename s = Inr (r, s1)" "payout_ids_ok s"
    and "payout_steps E R decrypt s1 t" "can_manage_payroll c'" "sha256_hex E data' = sha256_hex E data"
  shows "\<exists>why. upload_payout E R decrypt c' month k data' filename' t = Inl (ConflictError why)"
proof -
  note up = upload_keeps[OF assms(1,2)]
  have "keeps_checks s1 t" using assms(3) unfolding payout_steps_def
  proof (induction rule: rtranclp_induct)
    case base
    show ?case by (rule keeps_same) (use up in \<open>simp_all add: keeps_checks_def\<close>)
  next
    case (step t u)
    have "payout_ids_ok t" using step.IH by (simp add: keeps_checks_def)
    then have "keeps_checks t u" using step.hyps(2) step_keeps by blast
    then show ?case by (rule keeps_trans[OF step.IH])
  qed
  then obtain u where u: "u \<in> set (payout_uploads t)" "upload_key u = (month, k, sha256_hex E data)"
    using up by (auto simp: keeps_checks_def)
  then have "same_file month k (sha256_hex E data') t \<noteq> None"
    using assms(5) by (auto simp: same_file_def find_None_iff upload_key_def)
  then show ?thesis using assms(4) by (auto simp: upload_payout_def refuse_repeat_def ebind_def)
qed

subsection \<open>Witnesses\<close>

definition demo_finding :: payout_mismatch where
  "demo_finding = \<lparr>pm_id = 1, pm_upload = 0, pm_kind = AMOUNT_MISMATCH, pm_who = Some 2, pm_row = None, pm_expected = Some 500,
     pm_paid = Some 400, pm_resolved_at = None, pm_resolved_by = None, pm_note = None\<rparr>"

definition demo_payout_db :: payout_db where
  "demo_payout_db = pay_db.extend demo_pay_db (payout_db.fields [] [] [demo_finding])"

lemma demo_payout_tables [simp]: "payout_mismatches demo_payout_db = [demo_finding]" "payout_uploads demo_payout_db = []"
  "next_id demo_payout_db = next_id demo_pay_db"
  by (simp_all add: demo_payout_db_def payout_db.defs pay_db.defs)

lemma demo_payout_ids: "payout_ids_ok demo_payout_db"
  by (simp add: payout_ids_ok_def rows_ok_def keys_unique_def demo_finding_def demo_pay_db_def demo_time_db_def
      time_db.extend_def pay_db.defs)

definition demo_head :: "cell list" where
  "demo_head = [C_text ''Work Email'', C_text ''Account Number'', C_text ''Total Pay'']"

definition demo_header :: header where
  "demo_header = (\<lambda>f. first_column (aliases f) (take max_columns demo_head))"

lemma demo_headers: "normalize_header (C_text ''Work Email'') = ''workemail''"
  "normalize_header (C_text ''Account Number'') = ''accountnumber''" "normalize_header (C_text ''Total Pay'') = ''totalpay''"
  by code_simp+

lemma demo_header: "demo_header F_EMPLOYEE_NUMBER = None" "demo_header F_ACCOUNT_NUMBER = Some 1" "demo_header F_EMAIL = Some 0"
  "demo_header F_NAME = None" "demo_header F_AMOUNT = Some 2" "demo_header F_REFERENCE = None" "demo_header F_STATUS = None"
  by (simp_all add: demo_header_def demo_head_def max_columns_def demo_headers)

lemma demo_header_map: "header_map demo_head = Some demo_header"
  using demo_header by (simp add: header_map_def demo_header_def Let_def)

definition demo_payment :: "cell list" where
  "demo_payment = [C_text ''asha@a.in'', C_none, C_int 1200]"

lemma demo_texts: "text_at demo_payment demo_header F_EMAIL = ''asha@a.in''" "text_at demo_payment demo_header F_NAME = ''''"
  "text_at demo_payment demo_header F_EMPLOYEE_NUMBER = ''''" "text_at demo_payment demo_header F_ACCOUNT_NUMBER = ''''"
  "text_at demo_payment demo_header F_REFERENCE = ''''" "text_at demo_payment demo_header F_STATUS = ''''"
  by code_simp+

lemma half: "\<lfloor>240001 / 2 :: rat\<rfloor> = 120000"
  by (simp add: floor_eq_iff)

lemma demo_payment: "map_sum id (map_option pl_amount) (parse_row demo_payment demo_header 2) = Inr (Some 120000)"
proof -
  have "normalize_email (Some ''asha@a.in'') = Some ''asha@a.in''" by code_simp
  moreover have "parse_amount_minor (C_int 1200) = Inr (Some 120000)"
    by (simp add: parse_amount_minor_def capped_def max_amount_minor_def half_up_def half)
  moreover have "cell_at demo_payment demo_header F_AMOUNT = Some (C_int 1200)" by (simp add: cell_at_def demo_header demo_payment_def)
  ultimately show ?thesis by (simp add: parse_row_def demo_texts nonempty_def Let_def)
qed

definition demo_reader :: sheet_reader where
  "demo_reader = \<lparr>decodes = (\<lambda>_. True), xlsx_sheets = (\<lambda>_. Inl ''''), csv_rows = (\<lambda>_. [Cells demo_head, Cells demo_payment])\<rparr>"

lemma demo_line_read: "\<exists>l. parse_row demo_payment demo_header 2 = Inr (Some l) \<and> pl_amount l = 120000"
  using demo_payment by (cases "parse_row demo_payment demo_header 2") auto

theorem findings_kept_witness:
  "\<exists>r s'. resolve_mismatch demo_E demo_admin 0 1 ''recovered'' demo_payout_db = Inr (r, s')
     \<and> (\<exists>m' \<in> set (payout_mismatches s'). finding_kept (hd (payout_mismatches demo_payout_db)) m')"
proof -
  obtain r s' where s': "resolve_mismatch demo_E demo_admin 0 1 ''recovered'' demo_payout_db = Inr (r, s')"
    by (simp add: resolve_mismatch_def can_manage_payroll_def is_admin_def demo_finding_def Let_def)
  have "payout_step demo_E demo_reader Some demo_admin demo_payout_db s'" by (rule step_resolve[OF s'])
  then have "payout_steps demo_E demo_reader Some demo_payout_db s'" unfolding payout_steps_def by blast
  moreover have "hd (payout_mismatches demo_payout_db) \<in> set (payout_mismatches demo_payout_db)"
    by simp
  ultimately show ?thesis using findings_kept[OF _ demo_payout_ids] s' by blast
qed

lemma demo_file: "\<exists>pf. parse_payout_file demo_reader ''data'' = Inr pf"
proof -
  obtain l where "parse_row demo_payment demo_header 2 = Inr (Some l)" using demo_line_read by blast
  moreover have "detect_file_type demo_reader ''data'' = Some CSV" by (simp add: detect_file_type_def demo_reader_def)
  ultimately show ?thesis
    by (simp add: parse_payout_file_def demo_reader_def max_payout_file_bytes_def header_scan_rows_def demo_header_map
        max_scanned_rows_def max_payout_rows_def take_row_def Let_def numeral_2_eq_2)
qed

theorem same_file_once_witness:
  "\<exists>x s1 why. upload_payout demo_E demo_reader Some demo_admin ''2026-02'' RUN_REIMBURSEMENTS ''data'' None demo_payout_db = Inr (x, s1)
     \<and> upload_payout demo_E demo_reader Some demo_admin ''2026-02'' RUN_REIMBURSEMENTS ''data'' (Some ''again.csv'') s1 = Inl (ConflictError why)"
proof -
  have "same_file ''2026-02'' k sha demo_payout_db = None" for k sha
    by (simp add: same_file_def)
  then have "refuse_repeat ''2026-02'' RUN_REIMBURSEMENTS (sha256_hex demo_E ''data'') demo_payout_db = Inr ()"
    by (simp add: refuse_repeat_def)
  moreover obtain pf where "parse_payout_file demo_reader ''data'' = Inr pf" using demo_file by blast
  moreover obtain expected currency where ex: "expected_amounts demo_E ''2026-02'' RUN_REIMBURSEMENTS demo_payout_db = Inr (expected, currency)"
    by (simp add: expected_amounts_def Let_def)
  moreover have adm: "can_manage_payroll demo_admin" by (simp add: can_manage_payroll_def is_admin_def)
  moreover obtain u t where "store_check demo_E demo_admin (identities Some demo_payout_db) (new_upload demo_E demo_admin ''2026-02''
      RUN_REIMBURSEMENTS pf (sha256_hex demo_E ''data'') None currency demo_payout_db) pf expected demo_payout_db = (u, t)" by fastforce
  moreover obtain told u' s1 where "flag_to_hr demo_E (Some (cu_id demo_admin)) u t = (told, u', s1)"
    by (cases "flag_to_hr demo_E (Some (cu_id demo_admin)) u t")
  ultimately have up: "upload_payout demo_E demo_reader Some demo_admin ''2026-02'' RUN_REIMBURSEMENTS ''data'' None demo_payout_db
      = Inr ((u', mismatches_for (up_id u) s1, pf_warnings pf), s1)"
    unfolding upload_payout_def by (simp only: ebind_def sum.case Let_def prod.case if_False not_True_eq_False)
  have "payout_steps demo_E demo_reader Some s1 s1" by (simp add: payout_steps_def)
  from same_file_once[OF up demo_payout_ids this adm refl] up show ?thesis by blast
qed

subsection \<open>Rows the reader loses\<close>

text \<open>A payment whose only identifier is an account number of more than 15 digits stored as a number is passed over
  before the warning is recorded: it is neither checked nor reported.\<close>

theorem lost_digits_row_vanishes:
  assumes "lost_digits cs (pt_header t)" "text_at cs (pt_header t) F_EMPLOYEE_NUMBER = ''''"
    "text_at cs (pt_header t) F_NAME = ''''" "CHR ''@'' \<notin> set (text_at cs (pt_header t) F_EMAIL)"
  shows "take_row t cs n = Inr t"
  using assms by (simp add: take_row_def parse_row_def normalize_email_def is_skippable_def nonempty_def Let_def)

theorem lost_digits_row_vanishes_witness:
  "\<exists>l. parse_table 1 [Cells demo_head, Cells demo_payment, Cells [C_none, C_float 50100011112222336, C_int 700]]
     = Inr (Some \<lparr>pt_header = demo_header, pt_rows = [l], pt_lost = []\<rparr>)"
proof -
  let ?cs = "[C_none, C_float 50100011112222336, C_int 700]"
  have "lost_digits ?cs demo_header"
    unfolding lost_digits_def cell_at_def demo_header by (simp add: is_whole_def int_str_def nat_str.simps)
  moreover have "text_at ?cs demo_header F_EMPLOYEE_NUMBER = ''''" "text_at ?cs demo_header F_NAME = ''''"
    "text_at ?cs demo_header F_EMAIL = ''''"
    by (simp_all add: text_at_def cell_at_def demo_header cell_text_def py_take_def)
  ultimately have "take_row t ?cs 3 = Inr t" if "pt_header t = demo_header" for t
    using that by (intro lost_digits_row_vanishes) simp_all
  moreover obtain l where "parse_row demo_payment demo_header 2 = Inr (Some l)" using demo_line_read by blast
  moreover have "\<not> lost_digits demo_payment demo_header" by (simp add: lost_digits_def cell_at_def demo_header demo_payment_def)
  ultimately show ?thesis
    by (simp add: header_scan_rows_def demo_header_map max_scanned_rows_def max_payout_rows_def take_row_def
        numeral_2_eq_2 numeral_3_eq_3)
qed

subsection \<open>Two roundings\<close>

text \<open>The register pays the rounded salary and the rounded claims, the check expects the rounded sum: a file that follows
  the register to the rupee is reported as an amount mismatch.\<close>

theorem register_is_a_mismatch:
  "\<exists>l. x_total_pay (export_row_of decrypt l None None label (ln_reimbursement l)) = 1
     \<and> slip_due RUN_SALARY (snapshot_of l ''2026-02'' None 0) = 200
     \<and> reconcile [(2, 200)] [\<lparr>pd_index = 0, pd_who = Some 2, pd_amount = 100, pd_failed = False, pd_account_differs = False\<rparr>] \<noteq> []"
proof (intro exI conjI)
  let ?l = "(demo_line 5)\<lparr>ln_net := 180, ln_reimbursement := 40\<rparr>"
  have "\<lfloor>7 / 5 :: rat\<rfloor> = 1" "\<lfloor>2 / 5 :: rat\<rfloor> = 0" "\<lfloor>9 / 5 :: rat\<rfloor> = 1" by (simp_all add: floor_eq_iff)
  then have r: "rupees 140 = 1" "rupees 40 = 0" "rupees 180 = 2"
    by (simp_all add: rupees_def py_round_int_div rhe_def Let_def)
  show "x_total_pay (export_row_of decrypt ?l None None label (ln_reimbursement ?l)) = 1"
    by (simp add: export_row_of_def Let_def r demo_line_def)
  show "slip_due RUN_SALARY (snapshot_of ?l ''2026-02'' None 0) = 200"
    using r(3) by (simp add: slip_due_def snapshot_of_def register_minor_def rupees_def)
  show "reconcile [(2, 200)] [\<lparr>pd_index = 0, pd_who = Some 2, pd_amount = 100, pd_failed = False, pd_account_differs = False\<rparr>] \<noteq> []"
    by (simp add: reconcile_def people_paid_def payments_of_def pays_def employee_mismatch_def draft_def map_filter_simps)
qed

end
