(* ===== verification/Eod.thy ===== *)
theory Eod
  imports AttendanceProps TaskLaws
begin

text \<open>
  End-of-day reports: the schedule (\<open>app/services/eod_settings_service.py\<close>), the stored reports
  (\<open>app/repositories/eod_report.py\<close>), drafting, approving, mailing and the rollups (\<open>app/services/eod_service.py\<close>), and
  the worker's tick (\<open>worker/eod_scheduler.py\<close>). The language model, the object store and the deployment's settings are
  parameters.
\<close>

subsection \<open>Rows\<close>

datatype eod_status = EOD_DRAFT | EOD_APPROVED | EOD_SENT | EOD_SKIPPED | EOD_FAILED

text \<open>\<open>EodDraftContent\<close>; the empty JSON object of a row without highlights validates to the empty content.\<close>

record draft_content =
  dc_summary :: string
  dc_worked_on :: "string list"
  dc_completed :: "string list"
  dc_blockers :: "string list"
  dc_confidence :: int

record day_metrics =
  dm_worked :: int
  dm_active :: int
  dm_done :: int

record eod_report =
  eo_id :: uuid
  eo_employee :: uuid
  eo_date :: string
  eo_state :: eod_status
  eo_summary :: string
  eo_edited :: "string option"
  eo_highlights :: draft_content
  eo_metrics :: "day_metrics option"
  eo_model :: "string option"
  eo_error :: "string option"
  eo_approved_at :: "datetime option"
  eo_approved_by :: "uuid option"
  eo_sent_at :: "datetime option"
  eo_created_at :: datetime

definition no_content :: draft_content where
  "no_content = \<lparr>dc_summary = '''', dc_worked_on = [], dc_completed = [], dc_blockers = [], dc_confidence = 0\<rparr>"

record screen_context =
  vi_apps :: "string list"
  vi_projects :: "string list"
  vi_working :: string
  vi_detail :: string

record screenshot =
  sh_id :: uuid
  sh_employee :: uuid
  sh_received_at :: datetime
  sh_content_type :: string
  sh_object_key :: "string option"
  sh_image :: "string option"
  sh_ocr_done :: bool
  sh_ocr_text :: "string option"
  sh_context :: "screen_context option"

record eod_settings =
  es_enabled :: bool
  es_draft_hour :: int
  es_draft_minute :: int
  es_send_hour :: int
  es_send_minute :: int
  es_sent_on :: "string option"
  es_updated_by :: "uuid option"

record eod_db = time_db +
  board :: "task list"
  board_collaborators :: "(uuid \<times> uuid) list"
  eod_reports :: "eod_report list"
  screenshots :: "screenshot list"
  eod_settings_row :: "eod_settings option"

definition task_view :: "'a eod_db_scheme \<Rightarrow> task_db" where
  "task_view s = core.extend (core.truncate s) \<lparr>tasks = board s, collaborators = board_collaborators s, grants = [],
     work_entities = [], task_comments = []\<rparr>"

text \<open>The deployment: seeds of the schedule, models, retention; and the services it calls. A vision failure and an empty
  answer count alike.\<close>

record eod_config =
  cf_seed :: eod_settings
  cf_model :: string
  cf_vision :: bool
  cf_frames :: nat
  cf_ocr_budget :: nat
  cf_activity_days :: int
  cf_screenshot_days :: int
  cf_purge_hour :: int
  cf_s3 :: bool
  cf_zone_name :: string

record eod_services =
  summarise :: "string \<Rightarrow> draft_content option"
  describe_screen :: "string \<Rightarrow> string \<Rightarrow> screen_context option"
  fetch_object :: "string \<Rightarrow> string option"
  delete_objects_ok :: "string list \<Rightarrow> bool"

subsection \<open>The schedule\<close>

text \<open>The row made on the first read: the deployment's seed, or the column defaults when that leaves no review window.\<close>

definition draft_minutes :: "eod_settings \<Rightarrow> int" where
  "draft_minutes r = es_draft_hour r * 60 + es_draft_minute r"

definition send_minutes :: "eod_settings \<Rightarrow> int" where
  "send_minutes r = es_send_hour r * 60 + es_send_minute r"

definition default_schedule :: "eod_config \<Rightarrow> eod_settings" where
  "default_schedule cfg = (let seed = (cf_seed cfg)\<lparr>es_sent_on := None, es_updated_by := None\<rparr>
     in if send_minutes seed \<le> draft_minutes seed
        then seed\<lparr>es_draft_hour := 16, es_draft_minute := 30, es_send_hour := 18, es_send_minute := 0\<rparr> else seed)"

definition schedule_of :: "eod_config \<Rightarrow> 'a eod_db_scheme \<Rightarrow> eod_settings" where
  "schedule_of cfg s = (case eod_settings_row s of Some r \<Rightarrow> r | None \<Rightarrow> default_schedule cfg)"

definition mark_digest_sent :: "eod_config \<Rightarrow> string \<Rightarrow> 'a eod_db_scheme \<Rightarrow> 'a eod_db_scheme" where
  "mark_digest_sent cfg day s = s\<lparr>eod_settings_row := Some ((schedule_of cfg s)\<lparr>es_sent_on := Some day\<rparr>)\<rparr>"

record eod_settings_update =
  qs_enabled :: "bool option"
  qs_draft :: "(int \<times> int) option"
  qs_send :: "(int \<times> int) option"

text \<open>\<open>HH:MM\<close> as the request's pattern admits it.\<close>

definition split_hhmm :: "string \<Rightarrow> (int \<times> int) option" where
  "split_hhmm t = (case split_on (CHR '':'') t of
     [h, m] \<Rightarrow> (case (read_nat h, read_nat m) of
        (Some x, Some y) \<Rightarrow> if length h = 2 \<and> length m = 2 \<and> x < 24 \<and> y < 60 then Some (int x, int y) else None | _ \<Rightarrow> None)
     | _ \<Rightarrow> None)"

definition update_eod_settings ::
  "env \<Rightarrow> eod_config \<Rightarrow> current_user \<Rightarrow> eod_settings_update \<Rightarrow> 'a eod_db_scheme \<Rightarrow> (eod_settings \<times> 'a eod_db_scheme) res" where
  "update_eod_settings E cfg c q s =
    (if cu_role c \<notin> {ADMIN, HR} then Inl AuthorizationError
     else let r0 = schedule_of cfg s;
              r1 = (case qs_draft q of None \<Rightarrow> r0 | Some (h, m) \<Rightarrow> r0\<lparr>es_draft_hour := h, es_draft_minute := m\<rparr>);
              r2 = (case qs_send q of None \<Rightarrow> r1 | Some (h, m) \<Rightarrow> r1\<lparr>es_send_hour := h, es_send_minute := m\<rparr>);
              r3 = (case qs_enabled q of None \<Rightarrow> r2 | Some b \<Rightarrow> r2\<lparr>es_enabled := b\<rparr>);
              r = r3\<lparr>es_updated_by := Some (cu_id c)\<rparr>
          in if send_minutes r3 \<le> draft_minutes r3 then Inl (ConflictError ''Send time must be later than the draft time.'')
             else Inr (r, audit_append E (uuid_str (cu_id c)) ''eod_settings.update'' (Some ''eod_settings'')
                    (s\<lparr>eod_settings_row := Some r\<rparr>)))"

subsection \<open>Repositories\<close>

definition report_key :: "eod_report \<Rightarrow> uuid \<times> string" where
  "report_key r = (eo_employee r, eo_date r)"

definition find_report :: "uuid \<Rightarrow> 'a eod_db_scheme \<Rightarrow> eod_report option" where
  "find_report i s = row_get eo_id i (eod_reports s)"

definition put_report :: "eod_report \<Rightarrow> 'a eod_db_scheme \<Rightarrow> 'a eod_db_scheme" where
  "put_report r s = s\<lparr>eod_reports := row_put eo_id r (eod_reports s)\<rparr>"

definition report_for_day :: "uuid \<Rightarrow> string \<Rightarrow> 'a eod_db_scheme \<Rightarrow> eod_report option" where
  "report_for_day i day s = row_get report_key (i, day) (eod_reports s)"

definition blank_report :: "uuid \<Rightarrow> uuid \<Rightarrow> string \<Rightarrow> eod_status \<Rightarrow> datetime \<Rightarrow> eod_report" where
  "blank_report n i day st t = \<lparr>eo_id = n, eo_employee = i, eo_date = day, eo_state = st, eo_summary = '''', eo_edited = None,
     eo_highlights = no_content, eo_metrics = None, eo_model = None, eo_error = None, eo_approved_at = None,
     eo_approved_by = None, eo_sent_at = None, eo_created_at = t\<rparr>"

definition insert_report :: "eod_report \<Rightarrow> 'a eod_db_scheme \<Rightarrow> 'a eod_db_scheme" where
  "insert_report r s = s\<lparr>eod_reports := row_add r (eod_reports s), next_id := next_id s + 1\<rparr>"

definition reports_on :: "uuid list \<Rightarrow> string \<Rightarrow> 'a eod_db_scheme \<Rightarrow> eod_report list" where
  "reports_on ids day s = filter (\<lambda>r. eo_employee r \<in> set ids \<and> eo_date r = day) (eod_reports s)"

text \<open>Newest first; \<open>sort_key\<close> on the text of the day, which is ISO.\<close>

definition reports_between :: "uuid list \<Rightarrow> string \<Rightarrow> string \<Rightarrow> 'a eod_db_scheme \<Rightarrow> eod_report list" where
  "reports_between ids a b s = rev (sort_key eo_date
     (rev (filter (\<lambda>r. eo_employee r \<in> set ids \<and> a \<le> eo_date r \<and> eo_date r \<le> b) (eod_reports s))))"

definition drafts_on :: "string \<Rightarrow> 'a eod_db_scheme \<Rightarrow> eod_report list" where
  "drafts_on day s = sort_key eo_employee (filter (\<lambda>r. eo_state r = EOD_DRAFT \<and> eo_date r = day) (eod_reports s))"

definition drafts_through :: "string \<Rightarrow> 'a eod_db_scheme \<Rightarrow> eod_report list" where
  "drafts_through day s = sort_key eo_date (filter (\<lambda>r. eo_state r = EOD_DRAFT \<and> eo_date r \<le> day) (eod_reports s))"

text \<open>Up to \<open>limit\<close> screenshots of a day, evenly spaced.\<close>

definition sample_for_day :: "uuid \<Rightarrow> datetime \<times> datetime \<Rightarrow> nat \<Rightarrow> 'a eod_db_scheme \<Rightarrow> screenshot list" where
  "sample_for_day i b limit s =
    (let shots = sort_key sh_received_at (filter (\<lambda>x. sh_employee x = i \<and> fst b \<le> sh_received_at x \<and> sh_received_at x < snd b) (screenshots s));
         n = length shots; step = int_div (int n) (int limit)
     in if limit = 0 then [] else if n \<le> limit then shots
        else map (\<lambda>k. shots ! min (n - 1) (nat \<lfloor>fmul (of_nat k) step\<rfloor>)) [0..<limit])"

definition ocr_text_for_day :: "uuid \<Rightarrow> datetime \<times> datetime \<Rightarrow> 'a eod_db_scheme \<Rightarrow> string list" where
  "ocr_text_for_day i b s = filter (\<lambda>t. t \<noteq> '''') (List.map_filter sh_ocr_text (sort_key sh_received_at
     (filter (\<lambda>x. sh_employee x = i \<and> fst b \<le> sh_received_at x \<and> sh_received_at x < snd b \<and> sh_ocr_done x) (screenshots s))))"

subsection \<open>Context of a day\<close>

definition report_day :: "env \<Rightarrow> 'a core_scheme \<Rightarrow> string" where
  "report_day E s = isoformat (local_day E (now s))"

definition eod_bounds :: "env \<Rightarrow> 'a core_scheme \<Rightarrow> datetime \<times> datetime" where
  "eod_bounds E s = (let a = local_midnight E (local_day E (now s)) in (a, a + day_us))"

definition in_range :: "datetime option \<Rightarrow> datetime \<times> datetime \<Rightarrow> bool" where
  "in_range t b \<longleftrightarrow> (case t of None \<Rightarrow> False | Some x \<Rightarrow> fst b \<le> x \<and> x < snd b)"

definition is_today_task :: "task \<Rightarrow> datetime \<times> datetime \<Rightarrow> bool" where
  "is_today_task t b \<longleftrightarrow> tk_status t = DOING \<or> in_range (tk_due t) b \<or> in_range (tk_start t) b"

definition pronoun_for :: "gender option \<Rightarrow> string" where
  "pronoun_for g = (case g of Some MALE \<Rightarrow> ''he/him'' | Some FEMALE \<Rightarrow> ''she/her'' | _ \<Rightarrow> ''they/them'')"

fun join_with :: "string \<Rightarrow> string list \<Rightarrow> string" where
  "join_with sep [] = ''''"
| "join_with sep [x] = x"
| "join_with sep (x # xs) = x @ sep @ join_with sep xs"

definition join_items :: "string list \<Rightarrow> string" where
  "join_items xs = (if xs = [] then ''none'' else join_with ''; '' xs)"

definition worked_metrics :: "daily_agg option \<Rightarrow> int \<times> int" where
  "worked_metrics agg = (case agg of None \<Rightarrow> (0, 0)
     | Some g \<Rightarrow> let w = max 0 ((ag_logout g - ag_login g) div minute_us) in (w, max 0 (w - idle_minutes g w)))"

definition worked_summary :: "daily_agg option \<Rightarrow> string" where
  "worked_summary agg = (case agg of None \<Rightarrow> ''no activity captured''
     | Some g \<Rightarrow> let m = worked_metrics agg in int_str (fst m) @ '' min on machine, ~'' @ int_str (snd m) @ '' min active'')"

text \<open>The em dash, in UTF-8.\<close>

definition em_dash :: string where
  "em_dash = [CHR 0xE2, CHR 0x80, CHR 0x94]"

definition stripped :: "string list \<Rightarrow> string list" where
  "stripped xs = filter (\<lambda>t. t \<noteq> '''') (map py_strip xs)"

definition format_vision :: "screen_context option list \<Rightarrow> string" where
  "format_vision results =
    (let seen = List.map_filter id results;
         apps = dedup_from [] (concat (map (\<lambda>v. stripped (vi_apps v)) seen));
         projects = dedup_from [] (concat (map (\<lambda>v. stripped (vi_projects v)) seen));
         obs = List.map_filter (\<lambda>v. let w = py_strip (vi_working v); d = py_strip (vi_detail v)
                 in if w = '''' then None else Some (if d = '''' then w else w @ '' '' @ em_dash @ '' '' @ d)) seen
     in join_with [CHR 0x0A]
          ((if apps = [] then [] else [''Apps in use: '' @ join_with '', '' apps])
           @ (if projects = [] then [] else [''Projects/areas on screen: '' @ join_with '', '' projects])
           @ (if obs = [] then [] else ''Observed across the day:'' # map (\<lambda>t. ''- '' @ t) (take 12 obs))))"

definition screenshot_bytes :: "eod_config \<Rightarrow> eod_services \<Rightarrow> screenshot \<Rightarrow> string option" where
  "screenshot_bytes cfg L x = (case sh_image x of Some b \<Rightarrow> Some b
     | None \<Rightarrow> (case sh_object_key x of None \<Rightarrow> None | Some k \<Rightarrow> if k \<noteq> '''' \<and> cf_s3 cfg then fetch_object L k else None))"

text \<open>A frame's cached context, or the model's reading of its bytes.\<close>

definition analyse :: "eod_config \<Rightarrow> eod_services \<Rightarrow> screenshot \<Rightarrow> screen_context option" where
  "analyse cfg L x = (case sh_context x of Some v \<Rightarrow> Some v
     | None \<Rightarrow> Option.bind (screenshot_bytes cfg L x) (describe_screen L (sh_content_type x)))"

definition vision_blocks ::
  "eod_config \<Rightarrow> eod_services \<Rightarrow> employee list \<Rightarrow> datetime \<times> datetime \<Rightarrow> 'a eod_db_scheme \<Rightarrow> (uuid \<Rightarrow> string) \<times> 'a eod_db_scheme" where
  "vision_blocks cfg L es b s =
    (if \<not> cf_vision cfg then (\<lambda>i. '''', s)
     else let shots = (\<lambda>i. sample_for_day i b (cf_frames cfg) s); frames = concat (map (\<lambda>e. shots (emp_id e)) es)
          in (\<lambda>i. if i \<in> emp_id ` set es then format_vision (map (analyse cfg L) (shots i)) else '''',
              s\<lparr>screenshots := map (\<lambda>x. if sh_id x \<in> sh_id ` set frames then x\<lparr>sh_context := analyse cfg L x\<rparr> else x) (screenshots s)\<rparr>))"

record day_context =
  ctx_text :: string
  ctx_metrics :: day_metrics
  ctx_signal :: bool

definition or_na :: "string option \<Rightarrow> string" where
  "or_na t = (case t of None \<Rightarrow> ''n/a'' | Some x \<Rightarrow> if x = '''' then ''n/a'' else x)"

definition build_context ::
  "env \<Rightarrow> eod_config \<Rightarrow> current_user \<Rightarrow> employee \<Rightarrow> datetime \<times> datetime \<Rightarrow> string \<Rightarrow> 'a eod_db_scheme \<Rightarrow> day_context" where
  "build_context E cfg c e b block s =
    (let i = emp_id e; ts = fst (list_tasks c 0 200 None None (Some i) (task_view s));
         completed = map tk_title (filter (\<lambda>t. tk_status t = DONE \<and> in_range (tk_completed_at t) b) ts);
         active = map tk_title (filter (\<lambda>t. tk_status t \<in> {TODO, DOING, BLOCKED} \<and> is_today_task t b) ts);
         agg = daily_aggregate i b s;
         ocr = py_take (cf_ocr_budget cfg) (join_with [CHR 0x0A] (ocr_text_for_day i b s));
         job = (case job_title e of None \<Rightarrow> '''' | Some j \<Rightarrow> if j = '''' then '''' else '' ('' @ j @ '')'');
         rows = [''Employee: '' @ full_name e @ job,
                  ''Refer to them with '' @ pronoun_for (gender e) @ '' pronouns (use these exactly; do not infer gender from the name).'',
                  ''Department: '' @ or_na (department e), ''Time worked today: '' @ worked_summary agg,
                  ''Tasks completed today: '' @ join_items completed, ''Tasks in progress / due today: '' @ join_items active]
           @ (if block = '''' then [] else ['''', ''Screen context (from visual analysis of representative screenshots):'', block])
           @ ['''', ''Screen activity (OCR text from screenshots, may be noisy):'', if ocr = '''' then ''(none captured)'' else ocr];
         m = worked_metrics agg
     in \<lparr>ctx_text = join_with [CHR 0x0A] rows,
         ctx_metrics = \<lparr>dm_worked = fst m, dm_active = snd m, dm_done = int (length completed)\<rparr>,
         ctx_signal = (completed \<noteq> [] \<or> active \<noteq> [] \<or> agg \<noteq> None \<or> ocr \<noteq> '''' \<or> block \<noteq> '''')\<rparr>)"

definition empty_draft :: "string \<Rightarrow> draft_content" where
  "empty_draft name = no_content\<lparr>dc_summary := ''No tracked activity was captured for '' @ name @ '' today '' @ em_dash @ '' the Avora agent ''
     @ ''may not have been running, or the day was spent off the tracked device. ''
     @ ''No tasks were completed and no screen activity was recorded.''\<rparr>"

subsection \<open>Drafting\<close>

text \<open>\<open>6:00 PM IST\<close>: the review deadline.\<close>

definition send_time_label :: "eod_config \<Rightarrow> 'a eod_db_scheme \<Rightarrow> string" where
  "send_time_label cfg s =
    (let r = schedule_of cfg s; h = es_send_hour r mod 12
     in int_str (if h = 0 then 12 else h) @ '':'' @ pad2 (es_send_minute r) @ (if es_send_hour r < 12 then '' AM '' else '' PM '')
        @ cf_zone_name cfg)"

definition drafted_notice :: "uuid \<Rightarrow> string \<Rightarrow> uuid \<Rightarrow> notice" where
  "drafted_notice i label n = \<lparr>no_to = i, no_kind = SYSTEM, no_title = ''Your End-of-Day report is drafted'',
     no_body = Some (''Review and edit it if you want '' @ em_dash @ '' it'' @ [CHR 0x27] @ ''ll be sent to your manager automatically at ''
       @ label @ ''.''), no_level = INFO, no_link = Some ''/dashboard/me/eod'', no_entity_type = Some ''eod_report'',
     no_entity_id = Some n, no_actor = None\<rparr>"

definition persist_draft ::
  "env \<Rightarrow> eod_config \<Rightarrow> string \<Rightarrow> string \<Rightarrow> uuid \<times> draft_content option \<times> day_metrics \<Rightarrow> nat \<times> 'a eod_db_scheme \<Rightarrow> nat \<times> 'a eod_db_scheme" where
  "persist_draft E cfg day label = (\<lambda>(i, d, m) (n, s).
    (let r0 = (blank_report (next_id s) i day EOD_FAILED (now s))\<lparr>eo_metrics := Some m, eo_model := Some (cf_model cfg)\<rparr>
     in case d of
       None \<Rightarrow> (n, insert_report (r0\<lparr>eo_error := Some ''llm generation failed''\<rparr>) s)
     | Some x \<Rightarrow> (n + 1, notify E (drafted_notice i label (next_id s)) None
         (insert_report (r0\<lparr>eo_state := EOD_DRAFT, eo_summary := dc_summary x, eo_highlights := x\<rparr>) s))))"

definition attended :: "(uuid \<Rightarrow> att_status option) \<Rightarrow> employee \<Rightarrow> bool" where
  "attended att e \<longleftrightarrow> att (emp_id e) \<noteq> None \<and> att (emp_id e) \<noteq> Some ABSENT"

definition skip_absent :: "string \<Rightarrow> employee \<Rightarrow> 'a eod_db_scheme \<Rightarrow> 'a eod_db_scheme" where
  "skip_absent day e s = insert_report (blank_report (next_id s) (emp_id e) day EOD_SKIPPED (now s)) s"

definition draft_for :: "eod_services \<Rightarrow> employee \<Rightarrow> day_context \<Rightarrow> draft_content option" where
  "draft_for L e x = (if ctx_signal x then summarise L (ctx_text x) else Some (empty_draft (full_name e)))"

definition generate_for_day ::
  "env \<Rightarrow> eod_config \<Rightarrow> eod_services \<Rightarrow> current_user \<Rightarrow> 'a eod_db_scheme \<Rightarrow> (nat \<times> 'a eod_db_scheme) res" where
  "generate_for_day E cfg L c s =
    (if cu_role c \<noteq> ADMIN then Inl AuthorizationError
     else let day = report_day E s; b = eod_bounds E s; es = all_in_scope E c s; ids = map emp_id es;
              already = map eo_employee (reports_on ids day s);
              att = map_of (map (\<lambda>a. (rd_employee a, rd_status a)) (daily_attendance E c (now s) ''biometric'' s));
              fresh = filter (\<lambda>e. emp_id e \<notin> set already) es; present = filter (attended att) fresh;
              s1 = fold (skip_absent day) (filter (\<lambda>e. \<not> attended att e) fresh) s
          in if present = [] then Inr (0, s1)
             else let (blocks, s2) = vision_blocks cfg L present b s1;
                      built = map (\<lambda>e. (e, build_context E cfg c e b (blocks (emp_id e)) s2)) present;
                      drafts = map (\<lambda>(e, x). (emp_id e, draft_for L e x, ctx_metrics x)) built
                  in Inr (fold (persist_draft E cfg day (send_time_label cfg s2)) drafts (0, s2)))"

subsection \<open>Reviewing and mailing a report\<close>

definition own_draft :: "current_user \<Rightarrow> uuid \<Rightarrow> 'a eod_db_scheme \<Rightarrow> eod_report res" where
  "own_draft c i s = (case find_report i s of None \<Rightarrow> Inl NotFoundError
     | Some r \<Rightarrow> if eo_employee r \<noteq> cu_id c then Inl NotFoundError
         else if eo_state r \<noteq> EOD_DRAFT then Inl (ConflictError ''This report has already been sent.'') else Inr r)"

definition effective_summary :: "eod_report \<Rightarrow> string" where
  "effective_summary r = (case eo_edited r of None \<Rightarrow> eo_summary r | Some t \<Rightarrow> if t = '''' then eo_summary r else t)"

definition done_count :: "eod_report \<Rightarrow> int" where
  "done_count r = (case eo_metrics r of None \<Rightarrow> int (length (dc_completed (eo_highlights r))) | Some m \<Rightarrow> dm_done m)"

definition worked_of :: "eod_report \<Rightarrow> int" where
  "worked_of r = (case eo_metrics r of None \<Rightarrow> 0 | Some m \<Rightarrow> dm_worked m)"

definition active_of :: "eod_report \<Rightarrow> int" where
  "active_of r = (case eo_metrics r of None \<Rightarrow> 0 | Some m \<Rightarrow> dm_active m)"

definition report_mail :: "eod_report \<Rightarrow> employee \<Rightarrow> email" where
  "report_mail r e = \<lparr>mail_to = work_email e, mail_template = ''eod_report'',
     mail_fields = [full_name e, eo_date r, effective_summary r, int_str (worked_of r), int_str (active_of r), int_str (done_count r)]
       @ dc_worked_on (eo_highlights r) @ dc_completed (eo_highlights r) @ dc_blockers (eo_highlights r)\<rparr>"

definition mailable :: "employee option \<Rightarrow> employee option" where
  "mailable e = (case e of None \<Rightarrow> None | Some x \<Rightarrow> if is_active x \<and> work_email x \<noteq> '''' then Some x else None)"

text \<open>Mails the report to its author and closes it; \<open>False\<close> when the provider's refusal escapes.\<close>

definition send_report :: "env \<Rightarrow> eod_report \<Rightarrow> employee option \<Rightarrow> 'a eod_db_scheme \<Rightarrow> bool \<times> 'a eod_db_scheme" where
  "send_report E r e s =
    (let (ok, s1) = (case mailable e of None \<Rightarrow> (True, s) | Some x \<Rightarrow> send_email E (report_mail r x) s)
     in if \<not> ok then (False, s1)
        else (True, audit_append E ''system:eod'' ''eod.send'' (Some (''eod:'' @ uuid_str (eo_id r)))
               (put_report (r\<lparr>eo_state := EOD_SENT, eo_sent_at := Some (now s)\<rparr>) s1)))"

definition update_draft :: "current_user \<Rightarrow> uuid \<Rightarrow> string \<Rightarrow> 'a eod_db_scheme \<Rightarrow> (eod_report \<times> 'a eod_db_scheme) res" where
  "update_draft c i t s = ebind (own_draft c i s) (\<lambda>r. let r' = r\<lparr>eo_edited := Some t\<rparr> in Inr (r', put_report r' s))"

definition approve_report :: "env \<Rightarrow> current_user \<Rightarrow> uuid \<Rightarrow> 'a eod_db_scheme \<Rightarrow> (eod_report \<times> 'a eod_db_scheme) res" where
  "approve_report E c i s = ebind (own_draft c i s) (\<lambda>r.
    let r1 = r\<lparr>eo_state := EOD_APPROVED, eo_approved_at := Some (now s), eo_approved_by := Some (cu_id c)\<rparr>;
        (ok, s1) = send_report E r1 (find_employee (eo_employee r) s) s
    in if \<not> ok then Inl UnhandledError
       else Inr (r1\<lparr>eo_state := EOD_SENT, eo_sent_at := Some (now s)\<rparr>,
              audit_append E (uuid_str (cu_id c)) ''eod.approve'' (Some (''eod:'' @ uuid_str i)) s1))"

text \<open>The drafts one after the other; \<open>None\<close> when a refused mail ends the run, with the state it had reached.\<close>

fun send_drafts :: "env \<Rightarrow> eod_report list \<Rightarrow> nat \<Rightarrow> 'a eod_db_scheme \<Rightarrow> nat option \<times> 'a eod_db_scheme" where
  "send_drafts E [] n s = (Some n, s)"
| "send_drafts E (r # rs) n s =
    (case send_report E (r\<lparr>eo_state := EOD_APPROVED, eo_approved_at := Some (now s)\<rparr>) (find_employee (eo_employee r) s) s of
       (ok, s1) \<Rightarrow> if ok then send_drafts E rs (n + 1) s1 else (None, s1))"

definition auto_send_drafts :: "env \<Rightarrow> eod_config \<Rightarrow> 'a eod_db_scheme \<Rightarrow> nat option \<times> 'a eod_db_scheme" where
  "auto_send_drafts E cfg s = (if local_minute E (now s) < send_minutes (schedule_of cfg s) then (Some 0, s)
     else send_drafts E (drafts_through (report_day E s) s) 0 s)"

definition send_drafts_for_date :: "env \<Rightarrow> string \<Rightarrow> 'a eod_db_scheme \<Rightarrow> nat option \<times> 'a eod_db_scheme" where
  "send_drafts_for_date E day s = send_drafts E (drafts_on day s) 0 s"

end
