(* ===== verification/EodRollups.thy ===== *)
theory EodRollups
  imports Eod
begin

text \<open>
  Rollups of end-of-day reports: coverage and effort of a group over a window, the scoped reads, the mails by role, the
  retention runs and the worker's tick (\<open>app/services/eod_service.py\<close>, \<open>worker/eod_scheduler.py\<close>).
\<close>

subsection \<open>Coverage and effort\<close>

datatype coverage = SUBMITTED_BAND | PENDING_BAND | ABSENT_BAND | FAILED_BAND | MISSING_BAND

fun coverage_rank :: "eod_status \<Rightarrow> nat" where
  "coverage_rank EOD_SENT = 4"
| "coverage_rank EOD_APPROVED = 4"
| "coverage_rank EOD_DRAFT = 3"
| "coverage_rank EOD_FAILED = 2"
| "coverage_rank EOD_SKIPPED = 1"

definition outranks :: "eod_report \<Rightarrow> eod_report \<Rightarrow> bool" where
  "outranks a b \<longleftrightarrow> (if coverage_rank (eo_state a) \<noteq> coverage_rank (eo_state b)
     then coverage_rank (eo_state a) > coverage_rank (eo_state b) else eo_date a > eo_date b)"

definition keep_best :: "eod_report \<Rightarrow> eod_report option \<Rightarrow> eod_report option" where
  "keep_best r b = (case b of None \<Rightarrow> Some r | Some c \<Rightarrow> if outranks r c then Some r else b)"

definition best_row :: "eod_report list \<Rightarrow> eod_report option" where
  "best_row rows = fold keep_best rows None"

fun coverage_of :: "eod_status option \<Rightarrow> coverage" where
  "coverage_of (Some EOD_SENT) = SUBMITTED_BAND"
| "coverage_of (Some EOD_APPROVED) = SUBMITTED_BAND"
| "coverage_of (Some EOD_DRAFT) = PENDING_BAND"
| "coverage_of (Some EOD_FAILED) = FAILED_BAND"
| "coverage_of (Some EOD_SKIPPED) = ABSENT_BAND"
| "coverage_of None = MISSING_BAND"

definition has_content :: "eod_report \<Rightarrow> bool" where
  "has_content r \<longleftrightarrow> eo_state r \<in> {EOD_DRAFT, EOD_APPROVED, EOD_SENT}"

definition is_submitted :: "eod_report \<Rightarrow> bool" where
  "is_submitted r \<longleftrightarrow> eo_state r \<in> {EOD_SENT, EOD_APPROVED}"

record effort =
  ef_worked :: int
  ef_active :: int
  ef_done :: int
  ef_blockers :: int

definition effort_sum :: "effort list \<Rightarrow> effort" where
  "effort_sum es = \<lparr>ef_worked = sum_list (map ef_worked es), ef_active = sum_list (map ef_active es),
     ef_done = sum_list (map ef_done es), ef_blockers = sum_list (map ef_blockers es)\<rparr>"

definition row_effort :: "eod_report \<Rightarrow> effort" where
  "row_effort r = \<lparr>ef_worked = worked_of r, ef_active = active_of r, ef_done = done_count r,
     ef_blockers = int (length (dc_blockers (eo_highlights r)))\<rparr>"

definition own_rows :: "uuid \<Rightarrow> eod_report list \<Rightarrow> eod_report list" where
  "own_rows i reports = filter (\<lambda>r. eo_employee r = i) reports"

definition own_effort :: "uuid \<Rightarrow> eod_report list \<Rightarrow> effort" where
  "own_effort i reports = effort_sum (map row_effort (filter has_content (own_rows i reports)))"

definition own_titles :: "uuid \<Rightarrow> eod_report list \<Rightarrow> string list" where
  "own_titles i reports = dedup_from [] (concat (map (\<lambda>r. stripped (dc_completed (eo_highlights r))) (filter has_content (own_rows i reports))))"

definition own_coverage :: "uuid \<Rightarrow> eod_report list \<Rightarrow> coverage" where
  "own_coverage i reports = coverage_of (map_option eo_state (best_row (own_rows i reports)))"

definition own_days :: "string list \<Rightarrow> uuid \<Rightarrow> eod_report list \<Rightarrow> nat" where
  "own_days expected i reports =
     length (dedup_from [] (map eo_date (filter (\<lambda>r. is_submitted r \<and> eo_date r \<in> set expected) (own_rows i reports))))"

definition active_pct :: "effort \<Rightarrow> int" where
  "active_pct e = (if ef_worked e \<le> 0 then 0 else py_round (fmul (int_div (ef_active e) (ef_worked e)) 100))"

text \<open>\<open>round(x, 4)\<close>.\<close>

definition round4 :: "pyfloat \<Rightarrow> pyfloat" where
  "round4 x = fl (of_int (rhe (x * 10000)) / 10000)"

definition submission_rate :: "nat \<Rightarrow> nat \<Rightarrow> nat \<Rightarrow> pyfloat" where
  "submission_rate members expected submitted =
    (if members * expected = 0 then 0 else round4 (int_div (int submitted) (int (members * expected))))"

record eod_rollup =
  rf_from :: string
  rf_to :: string
  rf_members :: nat
  rf_submitted :: nat
  rf_pending :: nat
  rf_absent :: nat
  rf_failed :: nat
  rf_missing :: nat
  rf_rate :: pyfloat
  rf_working :: nat
  rf_days :: nat
  rf_totals :: effort

definition band_count :: "coverage \<Rightarrow> employee list \<Rightarrow> eod_report list \<Rightarrow> nat" where
  "band_count b es reports = length (filter (\<lambda>e. own_coverage (emp_id e) reports = b) es)"

definition rollup_of :: "string \<Rightarrow> string \<Rightarrow> string list \<Rightarrow> employee list \<Rightarrow> eod_report list \<Rightarrow> eod_rollup" where
  "rollup_of a b expected es reports =
    (let days = sum_list (map (\<lambda>e. own_days expected (emp_id e) reports) es)
     in \<lparr>rf_from = a, rf_to = b, rf_members = length es, rf_submitted = band_count SUBMITTED_BAND es reports,
         rf_pending = band_count PENDING_BAND es reports, rf_absent = band_count ABSENT_BAND es reports,
         rf_failed = band_count FAILED_BAND es reports, rf_missing = band_count MISSING_BAND es reports,
         rf_rate = submission_rate (length es) (length expected) days, rf_working = length expected, rf_days = days,
         rf_totals = effort_sum (map (\<lambda>e. own_effort (emp_id e) reports) es)\<rparr>)"

subsection \<open>Windows\<close>

definition max_digest_days :: int where
  "max_digest_days = 92"

definition parse_iso_day :: "string \<Rightarrow> date option" where
  "parse_iso_day t = (case split_on (CHR ''-'') t of
     [y, m, d] \<Rightarrow> if length y = 4 \<and> length m = 2 \<and> length d = 2 then
        (case (read_nat y, read_nat m, read_nat d) of
           (Some yy, Some mm, Some dd) \<Rightarrow> if 1 \<le> yy \<and> valid_ymd (int yy) (int mm) (int dd) then Some (mk_date (int yy) (int mm) (int dd)) else None
         | _ \<Rightarrow> None) else None
     | _ \<Rightarrow> None)"

text \<open>A window is a pair of days; the service keeps the ISO texts of the two.\<close>

definition days_before :: "date \<Rightarrow> int \<Rightarrow> date" where
  "days_before d n = (if d - 1 < max 0 n then 1 else d - max 0 n)"

definition valid_date :: "string option \<Rightarrow> date option" where
  "valid_date t = (case t of None \<Rightarrow> None | Some x \<Rightarrow> parse_iso_day x)"

definition bounded_window :: "date \<Rightarrow> date \<Rightarrow> date \<Rightarrow> int \<Rightarrow> (date \<times> date) res" where
  "bounded_window a b today limit =
    (if a > b then Inl (ValidationError (CHR 0x27 # ''from'' @ [CHR 0x27] @ '' must be on or before '' @ [CHR 0x27] @ ''to'' @ [CHR 0x27] @ ''.''))
     else let e = min b today
          in if a > e then Inl (ValidationError ''The window cannot start after today.'')
             else if e - a + 1 > limit then Inl (ValidationError (''The window can be at most '' @ int_str limit @ '' days.''))
             else Inr (a, e))"

definition resolve_window :: "env \<Rightarrow> string option \<Rightarrow> string option \<Rightarrow> int \<Rightarrow> int option \<Rightarrow> 'a core_scheme \<Rightarrow> (date \<times> date) res" where
  "resolve_window E from_date to_date back limit s =
    (let today = local_day E (now s); b = (case valid_date to_date of Some d \<Rightarrow> d | None \<Rightarrow> today);
         a = (if from_date = None \<or> from_date = Some '''' then days_before b back
              else case valid_date from_date of Some d \<Rightarrow> d | None \<Rightarrow> b)
     in case limit of None \<Rightarrow> Inr (if a > b then (b, a) else (a, b)) | Some n \<Rightarrow> bounded_window a b today n)"

definition expected_dates :: "date \<Rightarrow> date \<Rightarrow> 'a time_db_scheme \<Rightarrow> string list" where
  "expected_dates a b s = map isoformat (case working_dates_in a b s of [] \<Rightarrow> [a..b] | w # ws \<Rightarrow> w # ws)"

subsection \<open>Scoped reads\<close>

record report_read =
  rr_id :: uuid
  rr_employee :: uuid
  rr_date :: string
  rr_state :: eod_status
  rr_summary :: string
  rr_highlights :: draft_content
  rr_created_at :: datetime
  rr_sent_at :: "datetime option"

definition read_of_report :: "eod_report \<Rightarrow> report_read" where
  "read_of_report r = \<lparr>rr_id = eo_id r, rr_employee = eo_employee r, rr_date = eo_date r, rr_state = eo_state r,
     rr_summary = effective_summary r, rr_highlights = eo_highlights r, rr_created_at = eo_created_at r, rr_sent_at = eo_sent_at r\<rparr>"

definition my_report_today :: "env \<Rightarrow> current_user \<Rightarrow> 'a eod_db_scheme \<Rightarrow> report_read option" where
  "my_report_today E c s = map_option read_of_report (report_for_day (cu_id c) (report_day E s) s)"

definition get_report :: "current_user \<Rightarrow> uuid \<Rightarrow> 'a eod_db_scheme \<Rightarrow> report_read res" where
  "get_report c i s = (case find_report i s of None \<Rightarrow> Inl NotFoundError
     | Some r \<Rightarrow> if can_read_personal c (eo_employee r) s then Inr (read_of_report r) else Inl NotFoundError)"

definition list_reports :: "env \<Rightarrow> current_user \<Rightarrow> string option \<Rightarrow> 'a eod_db_scheme \<Rightarrow> report_read list" where
  "list_reports E c day s = map read_of_report (reports_on (map emp_id (all_in_personal_scope E c s))
     (case day of None \<Rightarrow> report_day E s | Some d \<Rightarrow> if d = '''' then report_day E s else d) s)"

definition report_history ::
  "env \<Rightarrow> current_user \<Rightarrow> uuid option \<Rightarrow> string option \<Rightarrow> string option \<Rightarrow> 'a eod_db_scheme \<Rightarrow> report_read list res" where
  "report_history E c who from_date to_date s =
    (let i = (case who of None \<Rightarrow> cu_id c | Some i \<Rightarrow> i)
     in if \<not> can_read_personal c i s then Inl NotFoundError
        else ebind (resolve_window E from_date to_date 30 None s) (\<lambda>(a, b).
          Inr (map read_of_report (reports_between [i] (isoformat a) (isoformat b) s))))"

definition lower_name :: "employee \<Rightarrow> string" where
  "lower_name e = map to_lower (full_name e)"

record cumulative_member =
  cm_who :: uuid
  cm_name :: string
  cm_department :: "string option"
  cm_job :: "string option"
  cm_coverage :: coverage
  cm_days :: nat
  cm_latest :: "(uuid \<times> string) option"

record eod_cumulative = eod_rollup +
  cu_reports :: "report_read list"
  cu_members :: "cumulative_member list"

definition cumulative_for_scope ::
  "env \<Rightarrow> current_user \<Rightarrow> string option \<Rightarrow> string option \<Rightarrow> int option \<Rightarrow> 'a eod_db_scheme \<Rightarrow> eod_cumulative res" where
  "cumulative_for_scope E c from_date to_date days s =
    ebind (resolve_window E from_date to_date ((case days of Some n \<Rightarrow> n | None \<Rightarrow> 1) - 1) (Some max_digest_days) s) (\<lambda>(a, b).
      let es = all_in_personal_scope E c s; rows = reports_between (map emp_id es) (isoformat a) (isoformat b) s;
          expected = expected_dates a b s;
          member = (\<lambda>e. \<lparr>cm_who = emp_id e, cm_name = full_name e, cm_department = department e, cm_job = job_title e, cm_coverage = own_coverage (emp_id e) rows,
             cm_days = own_days expected (emp_id e) rows,
             cm_latest = map_option (\<lambda>r. (eo_id r, eo_date r)) (best_row (own_rows (emp_id e) rows))\<rparr>);
          name_of = (\<lambda>r. case List.find (\<lambda>e. emp_id e = eo_employee r) es of Some e \<Rightarrow> full_name e | None \<Rightarrow> '''');
          content = concat (map (\<lambda>e. filter has_content (own_rows (emp_id e) rows)) es)
      in Inr (eod_rollup.extend (rollup_of (isoformat a) (isoformat b) expected es rows)
           \<lparr>cu_reports = map read_of_report (rev (sort_key (\<lambda>r. (eo_date r, name_of r)) (rev content))),
            cu_members = map member (sort_key lower_name es)\<rparr>))"

subsection \<open>Department rollups\<close>

record member_line =
  ml_who :: uuid
  ml_name :: string
  ml_job :: "string option"
  ml_coverage :: coverage
  ml_days :: nat
  ml_effort :: effort
  ml_pct :: int
  ml_titles :: "string list"
  ml_open :: nat
  ml_overdue :: nat

record eod_digest = eod_rollup +
  dg_label :: string
  dg_lines :: "member_line list"
  dg_blockers :: "string list"
  dg_open :: nat
  dg_overdue :: nat

type_synonym loads = "uuid \<Rightarrow> nat \<times> nat"

definition line_of_member :: "string list \<Rightarrow> eod_report list \<Rightarrow> loads \<Rightarrow> employee \<Rightarrow> member_line" where
  "line_of_member expected rows load e =
    (let i = emp_id e in \<lparr>ml_who = i, ml_name = full_name e, ml_job = job_title e, ml_coverage = own_coverage i rows,
       ml_days = own_days expected i rows, ml_effort = own_effort i rows, ml_pct = active_pct (own_effort i rows),
       ml_titles = own_titles i rows, ml_open = fst (load i), ml_overdue = snd (load i)\<rparr>)"

definition group_blockers :: "employee list \<Rightarrow> eod_report list \<Rightarrow> string list" where
  "group_blockers es rows = dedup_from [] (concat (map (\<lambda>e. concat (map (\<lambda>r. stripped (dc_blockers (eo_highlights r)))
     (filter has_content (own_rows (emp_id e) rows)))) es))"

definition digest_for :: "date \<times> date \<Rightarrow> string list \<Rightarrow> eod_report list \<Rightarrow> loads \<Rightarrow> string \<Rightarrow> employee list \<Rightarrow> eod_digest" where
  "digest_for w expected rows load label es =
     eod_rollup.extend (rollup_of (isoformat (fst w)) (isoformat (snd w)) expected es rows)
       \<lparr>dg_label = label, dg_lines = map (line_of_member expected rows load) es, dg_blockers = group_blockers es rows,
        dg_open = sum_list (map (\<lambda>e. fst (load (emp_id e))) es), dg_overdue = sum_list (map (\<lambda>e. snd (load (emp_id e))) es)\<rparr>"

definition own_department :: "employee \<Rightarrow> string" where
  "own_department e = py_strip (case department e of None \<Rightarrow> '''' | Some d \<Rightarrow> d)"

definition unassigned :: string where
  "unassigned = ''No department''"

definition bucket :: "employee \<Rightarrow> string" where
  "bucket e = (if own_department e = '''' then unassigned else own_department e)"

definition build_digests :: "date \<times> date \<Rightarrow> string list \<Rightarrow> eod_report list \<Rightarrow> loads \<Rightarrow> employee list \<Rightarrow> eod_digest list" where
  "build_digests w expected rows load es =
     map (\<lambda>d. digest_for w expected rows load d (sort_key lower_name (filter (\<lambda>e. bucket e = d) es)))
       (sort_key (\<lambda>d. (d = unassigned, map to_lower d)) (dedup_from [] (map bucket es)))"

definition digest_roster :: "env \<Rightarrow> current_user \<Rightarrow> 'a core_scheme \<Rightarrow> employee list res" where
  "digest_roster E c s = (if cu_role c \<in> {ADMIN, HR} then Inr (list_all_active E s)
     else if cu_role c = SENIOR_MANAGER then Inr (all_in_scope E c s) else Inl AuthorizationError)"

definition department_digests ::
  "env \<Rightarrow> current_user \<Rightarrow> string option \<Rightarrow> string option \<Rightarrow> int option \<Rightarrow> 'a eod_db_scheme \<Rightarrow> eod_digest list res" where
  "department_digests E c from_date to_date days s =
    ebind (digest_roster E c s) (\<lambda>es.
    ebind (resolve_window E from_date to_date ((case days of Some n \<Rightarrow> n | None \<Rightarrow> 1) - 1) (Some max_digest_days) s) (\<lambda>(a, b).
      Inr (build_digests (a, b) (expected_dates a b s) (reports_between (map emp_id es) (isoformat a) (isoformat b) s)
        (\<lambda>i. load_for (now s) i (task_view s)) es)))"

subsection \<open>Mails by role\<close>

record narrative =
  na_summary :: string
  na_highlights :: draft_content

definition narrative_of :: "eod_report list \<Rightarrow> uuid \<Rightarrow> narrative option" where
  "narrative_of rows i = map_option (\<lambda>r. \<lparr>na_summary = effective_summary r, na_highlights = eo_highlights r\<rparr>)
     (best_row (filter has_content (own_rows i rows)))"

datatype rollup_kind = COMPANY_ROLLUP | DEPARTMENT_ROLLUP | TEAM_ROLLUP

record rollup_mail =
  ru_kind :: rollup_kind
  ru_to :: "employee list"
  ru_label :: string
  ru_digests :: "eod_digest list"
  ru_narratives :: "(uuid \<times> narrative) list"
  ru_target :: string

fun rollup_name :: "rollup_kind \<Rightarrow> string" where
  "rollup_name COMPANY_ROLLUP = ''admin_digest''"
| "rollup_name DEPARTMENT_ROLLUP = ''department_digest''"
| "rollup_name TEAM_ROLLUP = ''team_digest''"

text \<open>The accounts of the day, by author; a group mail is handed all of them.\<close>

definition narratives_by_author :: "eod_report list \<Rightarrow> (uuid \<times> narrative) list" where
  "narratives_by_author rows =
     List.map_filter (\<lambda>i. map_option (Pair i) (narrative_of rows i)) (dedup_from [] (map eo_employee rows))"

text \<open>The template shows those of the people it has a row for.\<close>

definition shown_narratives :: "rollup_mail \<Rightarrow> (uuid \<times> narrative) list" where
  "shown_narratives m = List.map_filter (\<lambda>l. map_option (Pair (ml_who l)) (map_of (ru_narratives m) (ml_who l)))
     (concat (map dg_lines (ru_digests m)))"

definition is_head :: "employee \<Rightarrow> bool" where
  "is_head e \<longleftrightarrow> role e = SENIOR_MANAGER \<and> own_department e \<noteq> '''' \<and> work_email e \<noteq> ''''"

definition team_of :: "uuid \<Rightarrow> employee list \<Rightarrow> employee list" where
  "team_of m es = filter (\<lambda>e. manager_id e = Some m \<and> m \<noteq> emp_id e) es"

definition team_left :: "employee \<Rightarrow> employee list \<Rightarrow> employee list" where
  "team_left m team = (if role m = SENIOR_MANAGER \<and> own_department m \<noteq> ''''
     then filter (\<lambda>e. own_department e \<noteq> own_department m) team else team)"

definition rollups_of :: "env \<Rightarrow> 'a eod_db_scheme \<Rightarrow> rollup_mail list" where
  "rollups_of E s =
    (let es = list_all_active E s; d = local_day E (now s); today = isoformat d; expected = expected_dates d d s;
         rows = reports_between (map emp_id es) today today s; load = (\<lambda>i. load_for (now s) i (task_view s));
         admins = filter (\<lambda>e. work_email e \<noteq> '''') (list_admins E s);
         company = (if admins = [] then [] else [\<lparr>ru_kind = COMPANY_ROLLUP, ru_to = admins, ru_label = '''',
            ru_digests = build_digests (d, d) expected rows load es, ru_narratives = [], ru_target = today\<rparr>]);
         departments = map (\<lambda>dep. let members = sort_key lower_name (filter (\<lambda>e. own_department e = dep) es) in
             \<lparr>ru_kind = DEPARTMENT_ROLLUP, ru_to = filter (\<lambda>e. is_head e \<and> own_department e = dep) es, ru_label = dep,
              ru_digests = [digest_for (d, d) expected rows load dep members],
              ru_narratives = narratives_by_author rows, ru_target = today @ '':'' @ dep\<rparr>)
           (sort_key (map to_lower) (dedup_from [] (map own_department (filter is_head es))));
         managers = List.map_filter (\<lambda>m. List.find (\<lambda>e. emp_id e = m) es)
           (dedup_from [] (List.map_filter (\<lambda>e. if manager_id e = Some (emp_id e) then None else manager_id e) es));
         teams = List.map_filter (\<lambda>m. let team = sort_key lower_name (team_left m (team_of (emp_id m) es)) in
             if work_email m = '''' \<or> team = [] then None
             else Some \<lparr>ru_kind = TEAM_ROLLUP, ru_to = [m], ru_label = full_name m,
               ru_digests = [digest_for (d, d) expected rows load ''Your team'' team],
               ru_narratives = narratives_by_author rows, ru_target = today @ '':'' @ uuid_str (emp_id m)\<rparr>) managers
     in company @ departments @ teams)"

text \<open>What a mail says, without its layout: the figures of each group and its people with the titles they closed; the blockers
  of a department unattributed in the company mail, those of each person under their row, after the summary, in the others.\<close>

definition digest_texts :: "eod_digest \<Rightarrow> string list" where
  "digest_texts g = [dg_label g, nat_str (rf_members g), nat_str (rf_submitted g), nat_str (rf_pending g), nat_str (rf_absent g),
     nat_str (rf_failed g), nat_str (rf_missing g), int_str (ef_done (rf_totals g)), nat_str (length (dg_blockers g)), nat_str (dg_open g),
     nat_str (dg_overdue g)] @ concat (map (\<lambda>l. ml_name l # ml_titles l) (dg_lines g))"

definition narrative_texts :: "narrative \<Rightarrow> string list" where
  "narrative_texts n = na_summary n # filter (\<lambda>b. py_strip b \<noteq> '''') (dc_blockers (na_highlights n))"

definition rollup_email :: "rollup_mail \<Rightarrow> email" where
  "rollup_email m = \<lparr>mail_to = (case ru_to m of [] \<Rightarrow> '''' | e # es \<Rightarrow> work_email e), mail_template = ''eod_'' @ rollup_name (ru_kind m),
     mail_fields = map work_email (tl (ru_to m)) @ ru_label m # concat (map digest_texts (ru_digests m))
       @ (if ru_kind m = COMPANY_ROLLUP then concat (map dg_blockers (ru_digests m))
          else concat (map (\<lambda>(i, n). narrative_texts n) (shown_narratives m)))\<rparr>"

text \<open>One message per rollup; a refused one is passed over.\<close>

definition deliver_rollup :: "env \<Rightarrow> rollup_mail \<Rightarrow> nat \<times> 'a eod_db_scheme \<Rightarrow> nat \<times> 'a eod_db_scheme" where
  "deliver_rollup E m = (\<lambda>(n, s). case send_email E (rollup_email m) s of
     (ok, s1) \<Rightarrow> if \<not> ok then (n, s1)
       else (n + 1, audit_append E ''system:eod'' (''eod.'' @ rollup_name (ru_kind m)) (Some (''eod_digest:'' @ ru_target m)) s1))"

definition send_digests :: "env \<Rightarrow> eod_config \<Rightarrow> 'a eod_db_scheme \<Rightarrow> nat \<times> 'a eod_db_scheme" where
  "send_digests E cfg s =
    (let r = schedule_of cfg s; today = report_day E s
     in if local_minute E (now s) < send_minutes r \<or> es_sent_on r = Some today then (0, s)
        else if list_all_active E s = [] then (0, mark_digest_sent cfg today s)
        else fold (deliver_rollup E) (rollups_of E s) (0, mark_digest_sent cfg today s))"

subsection \<open>The tick\<close>

definition purge_activity :: "eod_config \<Rightarrow> 'a time_db_scheme \<Rightarrow> nat \<times> 'a time_db_scheme" where
  "purge_activity cfg s = (let cutoff = now s - cf_activity_days cfg * day_us
     in (length (filter (\<lambda>m. sm_received_at m < cutoff) (samples s)), s\<lparr>samples := filter (\<lambda>m. \<not> sm_received_at m < cutoff) (samples s)\<rparr>))"

definition purge_screenshots :: "eod_config \<Rightarrow> eod_services \<Rightarrow> 'a eod_db_scheme \<Rightarrow> nat \<times> 'a eod_db_scheme" where
  "purge_screenshots cfg L s =
    (let cutoff = now s - cf_screenshot_days cfg * day_us; old = filter (\<lambda>x. sh_received_at x < cutoff) (screenshots s);
         keys = filter (\<lambda>k. k \<noteq> '''') (List.map_filter sh_object_key old)
     in if cf_s3 cfg \<and> \<not> delete_objects_ok L keys then (0, s)
        else (length old, s\<lparr>screenshots := filter (\<lambda>x. \<not> sh_received_at x < cutoff) (screenshots s)\<rparr>))"

record tick_counts =
  tc_drafted :: nat
  tc_mailed :: nat
  tc_rollups :: nat
  tc_samples :: nat
  tc_shots :: nat

definition retention :: "env \<Rightarrow> eod_config \<Rightarrow> eod_services \<Rightarrow> 'a eod_db_scheme \<Rightarrow> nat \<times> nat \<times> 'a eod_db_scheme" where
  "retention E cfg L s = (if local_minute E (now s) div 60 \<noteq> cf_purge_hour cfg then (0, 0, s)
     else let (n, s1) = purge_activity cfg s; (m, s2) = purge_screenshots cfg L s1 in (n, m, s2))"

definition eod_caller :: current_user where
  "eod_caller = \<lparr>cu_id = 0, cu_role = ADMIN, cu_manager = None, cu_payroll_manager = False\<rparr>"

text \<open>What a tick does before it is committed: the counts, or \<open>None\<close> when an error escapes, and the state reached.\<close>

definition eod_run_due :: "env \<Rightarrow> eod_config \<Rightarrow> eod_services \<Rightarrow> 'a eod_db_scheme \<Rightarrow> tick_counts option \<times> 'a eod_db_scheme" where
  "eod_run_due E cfg L s =
    (let r = schedule_of cfg s; done = (\<lambda>g n k t. case retention E cfg L t of
           (x, y, u) \<Rightarrow> (Some \<lparr>tc_drafted = g, tc_mailed = n, tc_rollups = k, tc_samples = x, tc_shots = y\<rparr>, u))
     in if \<not> es_enabled r then done 0 0 0 s
        else (let (g, s1) = (if draft_minutes r \<le> local_minute E (now s)
                  then (case generate_for_day E cfg L eod_caller s of Inr x \<Rightarrow> x | Inl e \<Rightarrow> (0, s)) else (0, s))
              in case auto_send_drafts E cfg s1 of
                   (None, t) \<Rightarrow> (None, t)
                 | (Some n, s2) \<Rightarrow> (case send_digests E cfg s2 of (k, s3) \<Rightarrow> done g n k s3)))"

text \<open>The worker commits a tick that ends well and rolls an unsuccessful one back; mail that has left stays sent.\<close>

definition eod_tick :: "env \<Rightarrow> eod_config \<Rightarrow> eod_services \<Rightarrow> 'a eod_db_scheme \<Rightarrow> tick_counts option \<times> 'a eod_db_scheme" where
  "eod_tick E cfg L s = (case eod_run_due E cfg L s of
     (Some k, t) \<Rightarrow> (Some k, t) | (None, t) \<Rightarrow> (None, s\<lparr>mail_log := mail_log t\<rparr>))"

end
