(* ===== verification/EodLaws.thy ===== *)
theory EodLaws
  imports EodRollups
begin

text \<open>
  Laws of the end-of-day rollups: they count everybody once, they stay in their window, digests are made
  without anybody's account of the day, and the mails that do carry such accounts reach exactly the heads of the department and the manager.
\<close>

subsection \<open>Sorting\<close>


lemma filter_map_same: "(\<And>x. P (g x) = P x) \<Longrightarrow> filter P (map g xs) = map g (filter P xs)"
  by (induction xs) auto

subsection \<open>Everybody once\<close>

lemma bands_partition: "band_count SUBMITTED_BAND es rows + band_count PENDING_BAND es rows + band_count ABSENT_BAND es rows
    + band_count FAILED_BAND es rows + band_count MISSING_BAND es rows = length es"
proof (induction es)
  case (Cons e es)
  then show ?case by (cases "own_coverage (emp_id e) rows") (simp_all add: band_count_def)
qed (simp add: band_count_def)

lemma rollup_counts_everybody:
  "let r = rollup_of a b expected es rows
   in rf_submitted r + rf_pending r + rf_absent r + rf_failed r + rf_missing r = rf_members r"
  using bands_partition[of es rows] by (simp add: rollup_of_def Let_def)

lemma own_days_le: "own_days expected i rows \<le> length (dedup_from [] expected)"
proof -
  have d: "length (dedup_from [] xs) = card (set xs)" for xs :: "string list"
    using distinct_card[OF distinct_dedup_from, of "[]" xs] by (simp add: set_dedup_from)
  show ?thesis unfolding own_days_def d by (rule card_mono) auto
qed

subsection \<open>Windows\<close>

theorem digest_window_bounded:
  assumes "resolve_window E from_date to_date back (Some n) s = Inr (a, b)"
  shows "a \<le> b \<and> b \<le> local_day E (now s) \<and> b - a < n"
  using assms by (auto simp: resolve_window_def bounded_window_def Let_def split: if_splits option.splits)

subsection \<open>What people wrote\<close>

text \<open>A report without its author's words: what was written, and what the model wrote about the day.\<close>

definition without_words :: "eod_report \<Rightarrow> eod_report" where
  "without_words r = r\<lparr>eo_summary := '''', eo_edited := None,
     eo_highlights := (eo_highlights r)\<lparr>dc_summary := '''', dc_worked_on := [], dc_confidence := 0\<rparr>\<rparr>"

definition erase_words :: "'a eod_db_scheme \<Rightarrow> 'a eod_db_scheme" where
  "erase_words s = s\<lparr>eod_reports := map without_words (eod_reports s)\<rparr>"

lemma without_words_simps [simp]: "eo_state (without_words r) = eo_state r" "eo_date (without_words r) = eo_date r"
  "eo_employee (without_words r) = eo_employee r" "row_effort (without_words r) = row_effort r"
  "has_content (without_words r) = has_content r" "is_submitted (without_words r) = is_submitted r"
  "dc_completed (eo_highlights (without_words r)) = dc_completed (eo_highlights r)"
  "dc_blockers (eo_highlights (without_words r)) = dc_blockers (eo_highlights r)"
  by (simp_all add: without_words_def row_effort_def worked_of_def active_of_def done_count_def has_content_def is_submitted_def
      split: option.split)

lemma own_rows_words [simp]: "own_rows i (map without_words rows) = map without_words (own_rows i rows)"
  by (simp add: own_rows_def filter_map_same)

lemma best_row_words: "best_row (map without_words rows) = map_option without_words (best_row rows)"
proof -
  have "fold keep_best (map without_words rows) (map_option without_words b) = map_option without_words (fold keep_best rows b)" for b
  proof (induction rows arbitrary: b)
    case (Cons r rows)
    have "keep_best (without_words r) (map_option without_words b) = map_option without_words (keep_best r b)"
      by (simp add: keep_best_def outranks_def split: option.splits)
    then show ?case using Cons by simp
  qed simp
  from this[of None] show ?thesis by (simp add: best_row_def)
qed

lemma member_words [simp]:
  "own_effort i (map without_words rows) = own_effort i rows"
  "own_titles i (map without_words rows) = own_titles i rows"
  "own_coverage i (map without_words rows) = own_coverage i rows"
  "own_days expected i (map without_words rows) = own_days expected i rows"
  "band_count b es (map without_words rows) = band_count b es rows"
  by (simp_all add: own_effort_def own_titles_def own_coverage_def own_days_def band_count_def filter_map_same o_def
      best_row_words option.map_comp)

lemma digest_words [simp]:
  "digest_for w expected (map without_words rows) load label es = digest_for w expected rows load label es"
  "build_digests w expected (map without_words rows) load es = build_digests w expected rows load es"
  by (simp_all add: digest_for_def build_digests_def rollup_of_def line_of_member_def group_blockers_def filter_map_same o_def
      eod_rollup.extend_def)

lemma erase_words_simps [simp]: "employees (erase_words s) = employees s" "now (erase_words s) = now s"
  "task_view (erase_words s) = task_view s" "eod_reports (erase_words s) = map without_words (eod_reports s)"
  "working_dates_in a b (erase_words s) = working_dates_in a b s"
  by (simp_all add: erase_words_def task_view_def core.defs working_dates_in_def holidays_in_def)


lemma scope_words [simp]: "list_all_active E (erase_words s) = list_all_active E s" "list_admins E (erase_words s) = list_admins E s"
  "all_in_scope E c (erase_words s) = all_in_scope E c s" "expected_dates a b (erase_words s) = expected_dates a b s"
  "resolve_window E x y n l (erase_words s) = resolve_window E x y n l s"
  by (simp_all add: list_all_active_def list_admins_def all_in_scope_def scope_clause_def same_department_def find_employee_def
      reporting_tree_ids_def expected_dates_def resolve_window_def cong: option.case_cong)



subsection \<open>Who is told what people wrote\<close>

lemma active_employees: "set (list_all_active E s) = {e \<in> set (employees s). is_active e \<and> \<not> is_guest e}"
  by (auto simp: list_all_active_def by_name_def)

lemma map_filter_elems: "set (List.map_filter f xs) = {y. \<exists>x \<in> set xs. f x = Some y}"
  by (induction xs) (auto simp: map_filter_simps split: option.splits)

lemma narrative_author: "narrative_of rows i = Some n \<Longrightarrow> i \<in> eo_employee ` set rows"
proof (rule ccontr)
  assume "narrative_of rows i = Some n" "i \<notin> eo_employee ` set rows"
  then have "own_rows i rows = []" by (auto simp: own_rows_def filter_empty_conv)
  then show False using \<open>narrative_of rows i = Some n\<close> by (simp add: narrative_of_def best_row_def)
qed

lemma narratives_lookup: "map_of (narratives_by_author rows) i = narrative_of rows i"
proof -
  have "map_of (List.map_filter (\<lambda>i. map_option (Pair i) (f i)) xs) i = (if i \<in> set xs then f i else None)" for f :: "uuid \<Rightarrow> narrative option" and xs
    by (induction xs) (auto simp: map_filter_simps split: option.split)
  then show ?thesis using narrative_author[of rows i]
    by (cases "narrative_of rows i") (auto simp: narratives_by_author_def set_dedup_from)
qed

text \<open>The reports of the day that a run looks at.\<close>

definition rows_of_day :: "env \<Rightarrow> 'a eod_db_scheme \<Rightarrow> eod_report list" where
  "rows_of_day E s = reports_between (map emp_id (list_all_active E s)) (isoformat (local_day E (now s))) (isoformat (local_day E (now s))) s"

lemma shown_in_group:
  assumes "ru_digests m = [digest_for w expected rows load label es]" "ru_narratives m = narratives_by_author rows"
  shows "(i, n) \<in> set (shown_narratives m) \<longleftrightarrow> i \<in> emp_id ` set es \<and> narrative_of rows i = Some n"
  by (auto simp: shown_narratives_def assms narratives_lookup map_filter_elems digest_for_def eod_rollup.defs line_of_member_def Let_def)

text \<open>Whose account a person is mailed: that of the people of the department they head, and of their direct reports.\<close>

definition told_of :: "employee \<Rightarrow> employee \<Rightarrow> bool" where
  "told_of e x \<longleftrightarrow> work_email e \<noteq> '''' \<and>
     (role e = SENIOR_MANAGER \<and> own_department e \<noteq> '''' \<and> own_department x = own_department e
      \<or> manager_id x = Some (emp_id e) \<and> emp_id x \<noteq> emp_id e)"

definition on_roster :: "env \<Rightarrow> 'a core_scheme \<Rightarrow> employee \<Rightarrow> bool" where
  "on_roster E s e \<longleftrightarrow> e \<in> set (list_all_active E s)"

lemma roster_find:
  assumes "keys_unique emp_id (employees s)"
  shows "List.find (\<lambda>a. emp_id a = k) (list_all_active E s) = Some e \<longleftrightarrow> on_roster E s e \<and> emp_id e = k"
proof -
  let ?es = "list_all_active E s"
  have inj: "a = b" if "a \<in> set ?es" "b \<in> set ?es" "emp_id a = emp_id b" for a b
  proof -
    have "row_get emp_id (emp_id a) (employees s) = Some a" "row_get emp_id (emp_id b) (employees s) = Some b"
      using that(1,2) rows.content_get[OF assms(1)] by (simp_all add: active_employees)
    from this(1)[unfolded that(3)] this(2) show ?thesis by (rule option.inject[THEN iffD1, OF trans[OF sym]])
  qed
  show ?thesis
  proof (cases "List.find (\<lambda>a. emp_id a = k) ?es")
    case None
    then have "\<forall>x \<in> set ?es. emp_id x \<noteq> k" by (simp add: find_None_iff)
    then show ?thesis unfolding None on_roster_def by blast
  next
    case (Some a)
    then have a: "a \<in> set ?es" "emp_id a = k" using find_Some_set[OF Some] by simp_all
    have "a = e \<longleftrightarrow> e \<in> set ?es \<and> emp_id e = k"
    proof
      assume "e \<in> set ?es \<and> emp_id e = k"
      then have "e \<in> set ?es" "emp_id a = emp_id e" using a(2) by simp_all
      with a(1) show "a = e" by (rule inj)
    qed (use a in blast)
    then show ?thesis unfolding Some option.inject on_roster_def .
  qed
qed

text \<open>The mail about a department, and the mail to a manager.\<close>

definition department_mail :: "env \<Rightarrow> 'a eod_db_scheme \<Rightarrow> string \<Rightarrow> rollup_mail" where
  "department_mail E s dep = (let d = local_day E (now s); es = list_all_active E s in
     \<lparr>ru_kind = DEPARTMENT_ROLLUP, ru_to = filter (\<lambda>e. is_head e \<and> own_department e = dep) es, ru_label = dep,
      ru_digests = [digest_for (d, d) (expected_dates d d s) (rows_of_day E s) (\<lambda>i. load_for (now s) i (task_view s)) dep
        (sort_key lower_name (filter (\<lambda>e. own_department e = dep) es))],
      ru_narratives = narratives_by_author (rows_of_day E s), ru_target = isoformat d @ '':'' @ dep\<rparr>)"

definition team_mail :: "env \<Rightarrow> 'a eod_db_scheme \<Rightarrow> employee \<Rightarrow> rollup_mail" where
  "team_mail E s a = (let d = local_day E (now s) in
     \<lparr>ru_kind = TEAM_ROLLUP, ru_to = [a], ru_label = full_name a,
      ru_digests = [digest_for (d, d) (expected_dates d d s) (rows_of_day E s) (\<lambda>i. load_for (now s) i (task_view s)) ''Your team''
        (sort_key lower_name (team_left a (team_of (emp_id a) (list_all_active E s))))],
      ru_narratives = narratives_by_author (rows_of_day E s), ru_target = isoformat d @ '':'' @ uuid_str (emp_id a)\<rparr>)"

lemma department_mail_shows:
  "e \<in> set (ru_to (department_mail E s dep)) \<and> (i, n) \<in> set (shown_narratives (department_mail E s dep)) \<longleftrightarrow>
    on_roster E s e \<and> is_head e \<and> own_department e = dep \<and> narrative_of (rows_of_day E s) i = Some n
    \<and> (\<exists>x. on_roster E s x \<and> emp_id x = i \<and> own_department x = dep)"
proof -
  have "(i, n) \<in> set (shown_narratives (department_mail E s dep)) \<longleftrightarrow>
      i \<in> emp_id ` set (sort_key lower_name (filter (\<lambda>e. own_department e = dep) (list_all_active E s))) \<and> narrative_of (rows_of_day E s) i = Some n"
    by (rule shown_in_group) (simp_all add: department_mail_def Let_def)
  then show ?thesis by (auto simp: department_mail_def Let_def on_roster_def)
qed

lemma team_mail_shows:
  "e \<in> set (ru_to (team_mail E s a)) \<and> (i, n) \<in> set (shown_narratives (team_mail E s a)) \<longleftrightarrow>
    e = a \<and> narrative_of (rows_of_day E s) i = Some n \<and> (\<exists>x \<in> set (team_left a (team_of (emp_id a) (list_all_active E s))). emp_id x = i)"
proof -
  have "(i, n) \<in> set (shown_narratives (team_mail E s a)) \<longleftrightarrow>
      i \<in> emp_id ` set (sort_key lower_name (team_left a (team_of (emp_id a) (list_all_active E s)))) \<and> narrative_of (rows_of_day E s) i = Some n"
    by (rule shown_in_group) (simp_all add: team_mail_def Let_def)
  then show ?thesis by (auto simp: team_mail_def Let_def)
qed

lemma map_filter_none [simp]: "List.map_filter (\<lambda>x. None) xs = []"
  by (induction xs) (simp_all add: map_filter_simps)

lemma rollups_split:
  assumes "keys_unique emp_id (employees s)" "m \<in> set (rollups_of E s)"
  shows "shown_narratives m = [] \<or> (\<exists>dep. m = department_mail E s dep)
    \<or> (\<exists>a. on_roster E s a \<and> work_email a \<noteq> '''' \<and> m = team_mail E s a)"
  using assms(2) unfolding rollups_of_def Let_def set_append set_map Un_iff map_filter_elems
  by (auto simp: roster_find[OF assms(1)] shown_narratives_def map_filter_simps department_mail_def team_mail_def rows_of_day_def Let_def
      split: if_splits)

lemma department_mail_sent:
  assumes "on_roster E s e" "is_head e"
  shows "department_mail E s (own_department e) \<in> set (rollups_of E s)"
proof -
  have "own_department e \<in> set (sort_key (map to_lower) (dedup_from [] (map own_department (filter is_head (list_all_active E s)))))"
    using assms by (auto simp: set_dedup_from on_roster_def)
  then show ?thesis unfolding rollups_of_def Let_def set_append set_map
    by (intro UnI2 UnI1 image_eqI) (simp_all add: department_mail_def rows_of_day_def Let_def)
qed

lemma team_mail_sent:
  assumes "keys_unique emp_id (employees s)" "on_roster E s a" "work_email a \<noteq> ''''"
    and x: "x \<in> set (team_left a (team_of (emp_id a) (list_all_active E s)))"
  shows "team_mail E s a \<in> set (rollups_of E s)"
proof -
  let ?es = "list_all_active E s"
  let ?boss = "\<lambda>e. if manager_id e = Some (emp_id e) then None else manager_id e"
  have "x \<in> set ?es" "?boss x = Some (emp_id a)" using x by (auto simp: team_left_def team_of_def split: if_splits)
  then have "emp_id a \<in> set (List.map_filter ?boss ?es)" unfolding map_filter_elems by blast
  then have "emp_id a \<in> set (dedup_from [] (List.map_filter ?boss ?es))" by (simp add: set_dedup_from)
  then have mem: "a \<in> set (List.map_filter (\<lambda>k. List.find (\<lambda>e. emp_id e = k) ?es) (dedup_from [] (List.map_filter ?boss ?es)))"
    unfolding map_filter_elems using roster_find[OF assms(1), of "emp_id a" E a] assms(2) by blast
  have ne: "sort_key lower_name (team_left a (team_of (emp_id a) ?es)) \<noteq> []"
    using length_pos_if_in_set[OF x] by (metis length_greater_0_conv length_sort)
  show ?thesis unfolding rollups_of_def Let_def set_append
    by (intro UnI2, rule ssubst[OF map_filter_elems], intro CollectI bexI[OF _ mem])
      (simp add: ne assms(3) team_mail_def rows_of_day_def Let_def)
qed

lemma rollups_reach:
  assumes "keys_unique emp_id (employees s)"
  shows "(\<exists>m \<in> set (rollups_of E s). e \<in> set (ru_to m) \<and> (i, n) \<in> set (shown_narratives m)) \<longleftrightarrow>
    on_roster E s e \<and> narrative_of (rows_of_day E s) i = Some n \<and> (\<exists>x. on_roster E s x \<and> emp_id x = i \<and> told_of e x)"
    (is "?sent \<longleftrightarrow> ?due")
proof
  assume ?sent
  then obtain m where m: "m \<in> set (rollups_of E s)" "e \<in> set (ru_to m)" "(i, n) \<in> set (shown_narratives m)" by blast
  then consider (dep) dep where "m = department_mail E s dep"
    | (team) a where "on_roster E s a" "work_email a \<noteq> ''''" "m = team_mail E s a"
    using rollups_split[OF assms m(1)] by auto
  then show ?due
  proof cases
    case dep
    then show ?thesis using m(2,3) department_mail_shows[of e E s dep i n] by (auto simp: told_of_def is_head_def)
  next
    case team
    then obtain x where "e = a" "narrative_of (rows_of_day E s) i = Some n" "x \<in> set (team_left a (team_of (emp_id a) (list_all_active E s)))" "emp_id x = i"
      using m(2,3) team_mail_shows[of e E s a i n] by blast
    then show ?thesis using team by (auto simp: told_of_def team_left_def team_of_def on_roster_def split: if_splits)
  qed
next
  assume ?due
  then obtain x where x: "on_roster E s x" "emp_id x = i" "told_of e x" and e: "on_roster E s e" "narrative_of (rows_of_day E s) i = Some n" by blast
  show ?sent
  proof (cases "is_head e \<and> own_department x = own_department e")
    case True
    then show ?thesis using department_mail_sent[of E s e] department_mail_shows[of e E s "own_department e" i n] e x by blast
  next
    case False
    then have "x \<in> set (team_left e (team_of (emp_id e) (list_all_active E s)))" "work_email e \<noteq> ''''"
      using x by (auto simp: told_of_def is_head_def team_left_def team_of_def on_roster_def)
    then show ?thesis using team_mail_sent[OF assms e(1)] team_mail_shows[of e E s e i n] e(2) x(2) by blast
  qed
qed

text \<open>C33 Exactly who is mailed whose account of the day: a run makes a mail that goes to \<open>e\<close> and shows the account \<open>n\<close> of the
  person \<open>i\<close> if and only if both are on the active roster, \<open>n\<close> is that of the person's representative report of the day, \<open>e\<close> has
  a work email, and \<open>e\<close> either is a senior manager of that person's department or is that person's manager. Being an
  administrator gives nobody an account, and no account that is due is left out. Departments are compared without outer
  white space.\<close>

theorem accounts_reach_exactly:
  assumes "keys_unique emp_id (employees s)"
  shows "(\<exists>m \<in> set (rollups_of E s). e \<in> set (ru_to m) \<and> (i, n) \<in> set (shown_narratives m)) \<longleftrightarrow>
    on_roster E s e \<and> narrative_of (rows_of_day E s) i = Some n \<and> (\<exists>x. on_roster E s x \<and> emp_id x = i \<and> told_of e x)"
  by (rule rollups_reach[OF assms])

text \<open>A senior manager is mailed the words of a direct report in another department although the API hides them from that caller.\<close>

theorem outside_report_mailed:
  assumes "keys_unique emp_id (employees s)" "on_roster E s e" "on_roster E s x"
    and "work_email e \<noteq> ''''" "manager_id x = Some (emp_id e)" "emp_id x \<noteq> emp_id e"
    and "role e = SENIOR_MANAGER" "own_department e \<noteq> own_department x"
    and "narrative_of (rows_of_day E s) (emp_id x) = Some n"
  shows "(\<exists>m \<in> set (rollups_of E s). e \<in> set (ru_to m) \<and> (emp_id x, n) \<in> set (shown_narratives m))
     \<and> \<not> can_read_personal (caller_of e) (emp_id x) s"
proof
  have "told_of e x" using assms(4-6) by (simp add: told_of_def)
  then show "\<exists>m \<in> set (rollups_of E s). e \<in> set (ru_to m) \<and> (emp_id x, n) \<in> set (shown_narratives m)"
    using rollups_reach[OF assms(1)] assms(2,3,9) by blast
  have "find_employee (emp_id x) s = Some x" "find_employee (emp_id e) s = Some e"
    using assms(2,3) rows.content_get[OF assms(1)] by (simp_all add: find_employee_def active_employees on_roster_def)
  then show "\<not> can_read_personal (caller_of e) (emp_id x) s" using assms(7,8)
    by (auto simp: can_read_personal_def personal_scope_clause_def caller_of_def normalize_role_def same_department_def own_department_def)
qed

text \<open>The mail compares departments without outer white space, the API as they are stored: a head is mailed the words of somebody whose
  department was stored with a blank, and may not read them.\<close>

theorem spaced_department_mailed:
  assumes "keys_unique emp_id (employees s)" "on_roster E s e" "on_roster E s x" "is_head e"
    and "own_department x = own_department e" "department x \<noteq> department e"
    and "narrative_of (rows_of_day E s) (emp_id x) = Some n"
  shows "(\<exists>m \<in> set (rollups_of E s). e \<in> set (ru_to m) \<and> (emp_id x, n) \<in> set (shown_narratives m))
     \<and> \<not> can_read_personal (caller_of e) (emp_id x) s"
proof
  have "told_of e x" using assms(4,5) by (simp add: told_of_def is_head_def)
  then show "\<exists>m \<in> set (rollups_of E s). e \<in> set (ru_to m) \<and> (emp_id x, n) \<in> set (shown_narratives m)"
    using rollups_reach[OF assms(1)] assms(2,3,7) by blast
  have f: "find_employee (emp_id x) s = Some x" "find_employee (emp_id e) s = Some e"
    using assms(2,3) rows.content_get[OF assms(1)] by (simp_all add: find_employee_def active_employees on_roster_def)
  have "emp_id x \<noteq> emp_id e"
  proof
    assume "emp_id x = emp_id e"
    then have "find_employee (emp_id e) s = Some x" using f(1) by (simp only:)
    then have "x = e" using f(2) by (simp only: option.inject)
    then show False using assms(6) by simp
  qed
  then show "\<not> can_read_personal (caller_of e) (emp_id x) s" using f assms(4,6)
    by (auto simp: can_read_personal_def personal_scope_clause_def caller_of_def normalize_role_def same_department_def is_head_def)
qed

subsection \<open>A day in a small office\<close>

definition demo_eod_report :: "uuid \<Rightarrow> uuid \<Rightarrow> date \<Rightarrow> eod_status \<Rightarrow> eod_report" where
  "demo_eod_report n i d st = (blank_report n i (isoformat d) st 0)\<lparr>eo_summary := ''Shipped the parser.''\<rparr>"

definition demo_eod_db :: "datetime \<Rightarrow> eod_report list \<Rightarrow> eod_db" where
  "demo_eod_db t rs = time_db.extend (demo_time_db t []) \<lparr>board = [], board_collaborators = [], eod_reports = rs,
     screenshots = [], eod_settings_row = None\<rparr>"

lemma demo_eod_db_simps [simp]: "employees (demo_eod_db t rs) = [demo_employee 1 HR, (demo_employee 2 EXECUTIVE)\<lparr>manager_id := Some 3\<rparr>, demo_employee 3 MANAGER]"
  "now (demo_eod_db t rs) = t" "eod_reports (demo_eod_db t rs) = rs" "next_id (demo_eod_db t rs) = 100"
  "eod_settings_row (demo_eod_db t rs) = None" "screenshots (demo_eod_db t rs) = []" "samples (demo_eod_db t rs) = []"
  by (simp_all add: demo_eod_db_def demo_time_db_def time_db.extend_def)

theorem accounts_reach_exactly_witness:
  "\<exists>m \<in> set (rollups_of demo_E (demo_eod_db (utc_midnight 739676) [demo_eod_report 7 2 739676 EOD_SENT])).
     \<exists>n. (2, n) \<in> set (shown_narratives m) \<and> demo_employee 3 MANAGER \<in> set (ru_to m) \<and> na_summary n = ''Shipped the parser.''"
proof -
  let ?s = "demo_eod_db (utc_midnight 739676) [demo_eod_report 7 2 739676 EOD_SENT]"
  let ?x = "(demo_employee 2 EXECUTIVE)\<lparr>manager_id := Some 3\<rparr>" and ?e = "demo_employee 3 MANAGER"
  have day: "local_day demo_E (now ?s) = 739676" by (simp add: local_day_def demo_env_def)
  have u: "keys_unique emp_id (employees ?s)" by (simp add: keys_unique_def demo_employee_def)
  have a: "on_roster demo_E ?s ?e" "on_roster demo_E ?s ?x"
    by (simp_all add: on_roster_def active_employees demo_employee_def)
  have "2 \<in> set (map emp_id (list_all_active demo_E ?s))" using a(2) by (force simp: demo_employee_def on_roster_def)
  then have rows: "rows_of_day demo_E ?s = [demo_eod_report 7 2 739676 EOD_SENT]"
    unfolding rows_of_day_def day by (simp add: reports_between_def demo_eod_report_def blank_report_def)
  obtain n where n: "narrative_of (rows_of_day demo_E ?s) 2 = Some n" "na_summary n = ''Shipped the parser.''"
    unfolding rows by (simp add: narrative_of_def own_rows_def best_row_def keep_best_def has_content_def demo_eod_report_def
        blank_report_def effective_summary_def)
  have "emp_id ?x = 2" "told_of ?e ?x" by (simp_all add: told_of_def demo_employee_def)
  then show ?thesis using accounts_reach_exactly[OF u, where E = demo_E and e = ?e and i = 2 and n = n] a n by blast
qed

end
