(* ===== verification/EodLife.thy ===== *)
theory EodLife
  imports EodLaws
begin

text \<open>
  The life of a report and of a tick: one report per person and day, nothing touched once it is closed, and a tick that has
  been committed leaves nothing for the next one.
\<close>

subsection \<open>The life of a report\<close>

definition eod_edge :: "eod_report \<Rightarrow> eod_report \<Rightarrow> bool" where
  "eod_edge r r' \<longleftrightarrow> eo_state r = EOD_DRAFT \<and> eo_state r' \<in> {EOD_DRAFT, EOD_SENT} \<and> eo_id r' = eo_id r \<and> report_key r' = report_key r
     \<and> eo_summary r' = eo_summary r \<and> eo_highlights r' = eo_highlights r \<and> eo_metrics r' = eo_metrics r
     \<and> (eo_state r' = EOD_SENT \<longrightarrow> eo_sent_at r' \<noteq> None \<and> eo_approved_at r' \<noteq> None \<and> eo_edited r' = eo_edited r)"

definition eod_fresh :: "'a eod_db_scheme \<Rightarrow> eod_report \<Rightarrow> bool" where
  "eod_fresh s r \<longleftrightarrow> eo_id r = next_id s \<and> eo_state r \<in> {EOD_DRAFT, EOD_FAILED, EOD_SKIPPED} \<and> report_key r \<notin> report_key ` set (eod_reports s)"

definition eod_ok :: "eod_report \<Rightarrow> bool" where
  "eod_ok r \<longleftrightarrow> eo_state r \<noteq> EOD_APPROVED \<and> (eo_state r = EOD_SENT \<longrightarrow> eo_sent_at r \<noteq> None \<and> eo_approved_at r \<noteq> None)"

definition eod_apart :: "eod_report \<Rightarrow> eod_report \<Rightarrow> bool" where
  "eod_apart x y \<longleftrightarrow> report_key x \<noteq> report_key y"

text \<open>One write of the service.\<close>

inductive report_step :: "unit \<Rightarrow> 'a eod_db_scheme \<Rightarrow> 'a eod_db_scheme \<Rightarrow> bool" for l where
  report_quiet: "eod_reports s' = eod_reports s \<Longrightarrow> next_id s \<le> next_id s' \<Longrightarrow> report_step l s s'"
| report_move: "find_report (eo_id r) s = Some r \<Longrightarrow> eod_edge r r' \<Longrightarrow> eod_reports s' = row_put eo_id r' (eod_reports s)
    \<Longrightarrow> next_id s \<le> next_id s' \<Longrightarrow> report_step l s s'"
| report_new: "eod_fresh s r \<Longrightarrow> eod_reports s' = row_add r (eod_reports s) \<Longrightarrow> next_id s < next_id s' \<Longrightarrow> report_step l s s'"

interpretation eod_life: exclusive_rows eo_id eod_reports next_id report_step "\<lambda>l s. eod_edge" "\<lambda>l s. eod_fresh s" eod_ok eod_apart
proof
  fix s s' :: "'a eod_db_scheme" and l
  assume "report_step l s s'"
  then show "next_id s \<le> next_id s' \<and> (eod_reports s' = eod_reports s
        \<or> (\<exists>r r'. row_get eo_id (eo_id r) (eod_reports s) = Some r \<and> eod_edge r r' \<and> eod_reports s' = row_put eo_id r' (eod_reports s))
        \<or> (\<exists>r. eod_fresh s r \<and> eod_reports s' = row_add r (eod_reports s) \<and> next_id s < next_id s'))"
    by cases (auto simp: find_report_def)
next
  fix r r' x :: eod_report
  show "eod_edge r r' \<Longrightarrow> eod_ok r \<Longrightarrow> eod_ok r' \<and> eo_id r' = eo_id r" by (auto simp: eod_edge_def eod_ok_def)
  show "eod_edge r r' \<Longrightarrow> eod_apart x r \<Longrightarrow> eod_apart x r'" by (simp add: eod_edge_def eod_apart_def)
  show "eod_apart r r' \<Longrightarrow> eod_apart r' r" by (auto simp: eod_apart_def)
next
  fix r x :: eod_report and s :: "'a eod_db_scheme"
  show "eod_fresh s r \<Longrightarrow> eod_ok r \<and> eo_id r = next_id s" by (auto simp: eod_fresh_def eod_ok_def)
  show "eod_fresh s r \<Longrightarrow> x \<in> set (eod_reports s) \<Longrightarrow> eod_apart x r"
    unfolding eod_fresh_def eod_apart_def by (metis imageI)
qed

text \<open>Well-formed tables: unique ids below the counter, closed reports stamped, one report per person and day.\<close>

definition eod_rows_ok :: "'a eod_db_scheme \<Rightarrow> bool" where
  "eod_rows_ok s \<longleftrightarrow> rows_ok eo_id eod_ok (next_id s) (eod_reports s) \<and> eod_life.all_separate s"

definition report_path :: "'a eod_db_scheme \<Rightarrow> 'a eod_db_scheme \<Rightarrow> bool" where
  "report_path = (report_step ())\<^sup>*\<^sup>*"

lemma path_refl [simp]: "report_path s s"
  by (simp add: report_path_def)

lemma path_step: "report_step () s t \<Longrightarrow> report_path s t"
  by (simp add: report_path_def r_into_rtranclp)

lemma path_trans: "report_path s t \<Longrightarrow> report_path t u \<Longrightarrow> report_path s u"
  by (simp add: report_path_def)

lemma path_keeps:
  assumes "report_path s t" "eod_rows_ok s"
  shows "eod_rows_ok t"
  using assms unfolding report_path_def
proof (induction rule: rtranclp_induct)
  case (step t u)
  then show ?case using eod_life.rows_ok_step[of t "()" u] eod_life.all_separate_step[of t "()" u] by (auto simp: eod_rows_ok_def)
qed

text \<open>A report that is not a draft is not written again.\<close>

lemma closed_kept:
  assumes "report_path s t" "eod_rows_ok s" "find_report i s = Some r" "eo_state r \<noteq> EOD_DRAFT"
  shows "find_report i t = Some r"
  using assms(1) unfolding report_path_def
proof (induction rule: rtranclp_induct)
  case (step t u)
  have "report_path s t" using step.hyps(1) by (simp add: report_path_def)
  then have "rows_ok eo_id eod_ok (next_id t) (eod_reports t)" using path_keeps assms(2) by (auto simp: eod_rows_ok_def)
  from eod_life.row_moves[OF this step.hyps(2), of i r] obtain r' where
      "row_get eo_id i (eod_reports u) = Some r'" "r' = r \<or> eod_edge r r'"
    using step.IH by (auto simp: find_report_def)
  then show ?case using assms(4) by (auto simp: find_report_def eod_edge_def)
qed (use assms in simp)

lemma one_per_day_if: "eod_rows_ok s \<Longrightarrow> distinct (map report_key (eod_reports s))"
proof -
  assume ok: "eod_rows_ok s"
  then have d: "distinct (map eo_id (eod_reports s))" by (simp add: eod_rows_ok_def rows_ok_def keys_unique_def)
  have "x = y" if "x \<in> set (eod_reports s)" "y \<in> set (eod_reports s)" "report_key x = report_key y" for x y
    using ok that rows_ok_inj[of eo_id eod_ok "next_id s" "eod_reports s" x y]
    by (auto simp: eod_rows_ok_def eod_life.all_separate_def eod_apart_def)
  then have "inj_on report_key (set (eod_reports s))" by (simp add: inj_on_def)
  then show ?thesis using d by (simp add: distinct_map)
qed

subsection \<open>Drafting\<close>

text \<open>What the steps of a tick leave alone besides the reports.\<close>

definition eod_frame :: "'a eod_db_scheme \<Rightarrow> 'a eod_db_scheme \<Rightarrow> bool" where
  "eod_frame s t \<longleftrightarrow> now t = now s \<and> employees t = employees s \<and> eod_settings_row t = eod_settings_row s \<and> mail_log t = mail_log s"

lemma frame_refl [simp]: "eod_frame s s"
  by (simp add: eod_frame_def)

lemma frame_trans: "eod_frame s t \<Longrightarrow> eod_frame t u \<Longrightarrow> eod_frame s u"
  by (auto simp: eod_frame_def)

lemma adds_path:
  assumes "\<And>x t. x \<in> set xs \<Longrightarrow> \<exists>r. eod_reports (f x t) = row_add r (eod_reports t) \<and> eo_id r = next_id t \<and> report_key r = (k x, day)
      \<and> eo_state r \<in> {EOD_DRAFT, EOD_FAILED, EOD_SKIPPED} \<and> next_id t < next_id (f x t) \<and> eod_frame t (f x t)"
    and "distinct (map k xs)" "\<forall>x \<in> set xs. (k x, day) \<notin> report_key ` set (eod_reports s)"
  shows "report_path s (fold f xs s) \<and> eod_frame s (fold f xs s)
    \<and> report_key ` set (eod_reports (fold f xs s)) = report_key ` set (eod_reports s) \<union> (\<lambda>x. (k x, day)) ` set xs"
  using assms
proof (induction xs arbitrary: s)
  case (Cons x xs)
  obtain r where r: "eod_reports (f x s) = row_add r (eod_reports s)" "eo_id r = next_id s" "report_key r = (k x, day)"
      "eo_state r \<in> {EOD_DRAFT, EOD_FAILED, EOD_SKIPPED}" "next_id s < next_id (f x s)" "eod_frame s (f x s)"
    using Cons.prems(1)[of x s] by auto
  have "eod_fresh s r" using r Cons.prems(3) by (simp add: eod_fresh_def)
  then have 1: "report_path s (f x s)" using report_new[OF _ r(1,5)] path_step by blast
  have keys: "report_key ` set (eod_reports (f x s)) = insert (k x, day) (report_key ` set (eod_reports s))"
    using r(1,3) by (auto simp: row_add_def)
  have "\<forall>y \<in> set xs. (k y, day) \<notin> report_key ` set (eod_reports (f x s))"
  proof
    fix y assume y: "y \<in> set xs"
    then have "k y \<noteq> k x" using Cons.prems(2) by (metis distinct.simps(2) imageI list.simps(9) set_map)
    then show "(k y, day) \<notin> report_key ` set (eod_reports (f x s))" using keys Cons.prems(3) y by simp
  qed
  note ih = Cons.IH[OF Cons.prems(1) _ this]
  have d: "distinct (map k xs)" using Cons.prems(2) by simp
  have ih: "report_path (f x s) (fold f xs (f x s))" "eod_frame (f x s) (fold f xs (f x s))"
      "report_key ` set (eod_reports (fold f xs (f x s))) = report_key ` set (eod_reports (f x s)) \<union> (\<lambda>x. (k x, day)) ` set xs"
    using ih[OF _ d] by simp_all
  show ?case
  proof (intro conjI)
    show "report_path s (fold f (x # xs) s)" using path_trans[OF 1 ih(1)] by simp
    show "eod_frame s (fold f (x # xs) s)" using frame_trans[OF r(6) ih(2)] by simp
    show "report_key ` set (eod_reports (fold f (x # xs) s)) = report_key ` set (eod_reports s) \<union> (\<lambda>x. (k x, day)) ` set (x # xs)"
      unfolding fold_simps ih(3) keys by auto
  qed
qed simp

lemma persist_fold: "snd (fold (persist_draft E cfg day label) xs (n, s)) = fold (\<lambda>x t. snd (persist_draft E cfg day label x (0, t))) xs s"
proof (induction xs arbitrary: n s)
  case (Cons x xs)
  obtain i d m where x: "x = (i, d, m)" by (cases x)
  obtain n' s' where p: "persist_draft E cfg day label x (n, s) = (n', s')" by fastforce
  then have "snd (persist_draft E cfg day label x (0, s)) = s'" by (auto simp: persist_draft_def x Let_def split: option.splits)
  then show ?case using Cons p by simp
qed simp

lemma notify_frame: "eod_reports (notify E m d t) = eod_reports t" "eod_frame t (notify E m d t)" "next_id t \<le> next_id (notify E m d t)"
proof -
  have q: "quiet t (notify E m d t)" by (rule quiet_notify)
  have "core.more (notify E m d t) = core.more t" using quiet_core[OF q] by simp
  then have "eod_reports (notify E m d t) = eod_reports t" "eod_settings_row (notify E m d t) = eod_settings_row t"
    by (cases t; cases "notify E m d t"; simp)+
  moreover have "mail_log (notify E m d t) = mail_log t" by simp
  ultimately show "eod_reports (notify E m d t) = eod_reports t" "eod_frame t (notify E m d t)" "next_id t \<le> next_id (notify E m d t)"
    using quiet_core[OF q] by (simp_all add: eod_frame_def)
qed

lemma skip_adds: "\<exists>r. eod_reports (skip_absent day e t) = row_add r (eod_reports t) \<and> eo_id r = next_id t \<and> report_key r = (emp_id e, day)
    \<and> eo_state r \<in> {EOD_DRAFT, EOD_FAILED, EOD_SKIPPED} \<and> next_id t < next_id (skip_absent day e t) \<and> eod_frame t (skip_absent day e t)"
  by (rule exI[of _ "blank_report (next_id t) (emp_id e) day EOD_SKIPPED (now t)"])
    (simp add: skip_absent_def insert_report_def blank_report_def report_key_def eod_frame_def)

lemma persist_adds: "\<exists>r. eod_reports (snd (persist_draft E cfg day label x (0, t))) = row_add r (eod_reports t) \<and> eo_id r = next_id t
    \<and> report_key r = (fst x, day) \<and> eo_state r \<in> {EOD_DRAFT, EOD_FAILED, EOD_SKIPPED}
    \<and> next_id t < next_id (snd (persist_draft E cfg day label x (0, t))) \<and> eod_frame t (snd (persist_draft E cfg day label x (0, t)))"
proof -
  obtain i d m where x: "x = (i, d, m)" by (cases x)
  let ?r0 = "(blank_report (next_id t) i day EOD_FAILED (now t))\<lparr>eo_metrics := Some m, eo_model := Some (cf_model cfg)\<rparr>"
  show ?thesis
  proof (cases d)
    case None
    then show ?thesis
      by (intro exI[of _ "?r0\<lparr>eo_error := Some ''llm generation failed''\<rparr>"])
        (simp add: x persist_draft_def insert_report_def blank_report_def report_key_def eod_frame_def Let_def)
  next
    case (Some c)
    let ?r = "?r0\<lparr>eo_state := EOD_DRAFT, eo_summary := dc_summary c, eo_highlights := c\<rparr>"
    let ?t = "notify E (drafted_notice i label (next_id t)) None (insert_report ?r t)"
    have p: "snd (persist_draft E cfg day label x (0, t)) = ?t" by (simp add: x Some persist_draft_def Let_def)
    have "eod_frame t (insert_report ?r t)" by (simp add: eod_frame_def insert_report_def)
    then have "eod_frame t ?t" using notify_frame(2) frame_trans by blast
    moreover have "next_id (insert_report ?r t) = next_id t + 1" by (simp add: insert_report_def)
    then have "next_id t < next_id ?t" using notify_frame(3)[of "insert_report ?r t" E "drafted_notice i label (next_id t)" None] by simp
    moreover have "eod_reports ?t = row_add ?r (eod_reports t)" by (simp add: notify_frame(1) insert_report_def)
    ultimately show ?thesis unfolding p by (intro exI[of _ ?r]) (simp add: x blank_report_def report_key_def)
  qed
qed

lemma scope_ids_distinct:
  assumes "keys_unique emp_id (employees s)"
  shows "distinct (map emp_id (all_in_scope E c s))"
proof -
  have "distinct (employees s)" "inj_on emp_id (set (employees s))" using assms by (auto simp: keys_unique_def distinct_map)
  then show ?thesis by (auto simp: all_in_scope_def by_name_def distinct_map intro: inj_on_subset)
qed

lemma vision_frame:
  assumes "vision_blocks cfg L es b s = (blocks, t)"
  shows "eod_reports t = eod_reports s" "next_id t = next_id s" "eod_frame s t"
  using assms by (auto simp: vision_blocks_def Let_def eod_frame_def split: if_splits)

text \<open>A drafting run: afterwards everybody in its scope has a report of the day.\<close>

lemma generate_effect:
  assumes "generate_for_day E cfg L c s = Inr (n, t)" "keys_unique emp_id (employees s)"
  shows "report_path s t \<and> eod_frame s t
    \<and> (\<forall>e \<in> set (all_in_scope E c s). (emp_id e, report_day E s) \<in> report_key ` set (eod_reports t))
    \<and> report_key ` set (eod_reports s) \<subseteq> report_key ` set (eod_reports t)"
proof -
  let ?day = "report_day E s" and ?es = "all_in_scope E c s"
  let ?already = "map eo_employee (reports_on (map emp_id ?es) ?day s)"
  let ?att = "map_of (map (\<lambda>a. (rd_employee a, rd_status a)) (daily_attendance E c (now s) ''biometric'' s))"
  let ?fresh = "filter (\<lambda>e. emp_id e \<notin> set ?already) ?es"
  let ?present = "filter (attended ?att) ?fresh" and ?absent = "filter (\<lambda>e. \<not> attended ?att e) ?fresh"
  let ?s1 = "fold (skip_absent ?day) ?absent s"
  have d: "distinct (map emp_id ?es)" by (rule scope_ids_distinct[OF assms(2)])
  have old: "(emp_id e, ?day) \<in> report_key ` set (eod_reports s) \<longleftrightarrow> emp_id e \<in> set ?already" if "e \<in> set ?es" for e
  proof
    assume "(emp_id e, ?day) \<in> report_key ` set (eod_reports s)"
    then obtain r where "r \<in> set (eod_reports s)" "eo_employee r = emp_id e" "eo_date r = ?day" by (auto simp: report_key_def)
    then have "r \<in> set (reports_on (map emp_id ?es) ?day s)" using that by (simp add: reports_on_def)
    then show "emp_id e \<in> set ?already" using \<open>eo_employee r = emp_id e\<close> by force
  qed (auto simp: reports_on_def report_key_def image_iff)
  have "distinct (map emp_id ?absent)" using d by (simp add: distinct_map_filter)
  from adds_path[of ?absent "skip_absent ?day" emp_id ?day s, OF skip_adds this]
  have 1: "report_path s ?s1" "eod_frame s ?s1"
      "report_key ` set (eod_reports ?s1) = report_key ` set (eod_reports s) \<union> (\<lambda>e. (emp_id e, ?day)) ` set ?absent"
    using old by auto
  have es: "emp_id e \<in> set ?already \<or> e \<in> set ?absent \<or> e \<in> set ?present" if "e \<in> set ?es" for e using that by auto
  show ?thesis
  proof (cases "?present = []")
    case True
    then have t: "t = ?s1" using assms(1) by (auto simp: generate_for_day_def Let_def split: if_splits)
    have "(emp_id e, ?day) \<in> report_key ` set (eod_reports t)" if "e \<in> set ?es" for e
    proof -
      have "emp_id e \<in> set ?already \<or> e \<in> set ?absent" using es[OF that] unfolding True by simp
      then show ?thesis unfolding t 1(3) old[OF that, symmetric] by blast
    qed
    then show ?thesis using 1 t by auto
  next
    case False
    obtain blocks s2 where v: "vision_blocks cfg L ?present (eod_bounds E s) ?s1 = (blocks, s2)" by fastforce
    note vf = vision_frame[OF v]
    let ?drafts = "map (\<lambda>(e, x). (emp_id e, draft_for L e x, ctx_metrics x))
      (map (\<lambda>e. (e, build_context E cfg c e (eod_bounds E s) (blocks (emp_id e)) s2)) ?present)"
    let ?f = "\<lambda>x t. snd (persist_draft E cfg ?day (send_time_label cfg s2) x (0, t))"
    have t: "t = fold ?f ?drafts s2"
      using assms(1) False v persist_fold[of E cfg ?day "send_time_label cfg s2" ?drafts 0 s2]
      by (auto simp: generate_for_day_def Let_def split: if_splits)
    have fst: "map fst ?drafts = map emp_id ?present" by simp
    have "distinct (map fst ?drafts)" using d unfolding fst by (simp add: distinct_map_filter)
    moreover have "(fst x, ?day) \<notin> report_key ` set (eod_reports s2)" if x: "x \<in> set ?drafts" for x
    proof -
      obtain e where e: "fst x = emp_id e" "e \<in> set ?present" using x by auto
      then have "(emp_id e, ?day) \<notin> (\<lambda>e. (emp_id e, ?day)) ` set ?absent" using d by (auto simp: distinct_map inj_on_def)
      then show ?thesis using e old[of e] unfolding vf(1) 1(3) e(1) by auto
    qed
    ultimately have 2: "report_path s2 t" "eod_frame s2 t"
        "report_key ` set (eod_reports t) = report_key ` set (eod_reports s2) \<union> (\<lambda>x. (fst x, ?day)) ` set ?drafts"
      using adds_path[of ?drafts ?f fst ?day s2, OF persist_adds] unfolding t by blast+
    have "report_path ?s1 s2" using vf by (intro path_step report_quiet) simp_all
    from path_trans[OF path_trans[OF 1(1) this] 2(1)] frame_trans[OF frame_trans[OF 1(2) vf(3)] 2(2)]
    have "report_path s t" "eod_frame s t" .
    moreover have keys: "report_key ` set (eod_reports t) = report_key ` set (eod_reports s) \<union> (\<lambda>e. (emp_id e, ?day)) ` set ?absent
        \<union> (\<lambda>e. (emp_id e, ?day)) ` set ?present"
    proof -
      have "(\<lambda>x. (fst x, ?day)) ` set ?drafts = (\<lambda>i. (i, ?day)) ` set (map fst ?drafts)"
        by (simp only: set_map image_image)
      also have "\<dots> = (\<lambda>e. (emp_id e, ?day)) ` set ?present" unfolding fst by (simp only: set_map image_image)
      finally show ?thesis unfolding 2(3) vf(1) 1(3) by (simp only:)
    qed
    moreover have "(emp_id e, ?day) \<in> report_key ` set (eod_reports t)" if "e \<in> set ?es" for e
    proof -
      have "(emp_id e, ?day) \<in> report_key ` set (eod_reports s) \<or> e \<in> set ?absent \<or> e \<in> set ?present"
        using es[OF that] unfolding old[OF that] .
      then show ?thesis unfolding keys Un_iff
        by (elim disjE) (rule disjI1, rule disjI1, assumption, rule disjI1, rule disjI2, erule imageI, rule disjI2, erule imageI)
    qed
    moreover have "report_key ` set (eod_reports s) \<subseteq> report_key ` set (eod_reports t)" unfolding keys by (rule le_supI1, rule Un_upper1)
    ultimately show ?thesis by (intro conjI ballI)
  qed
qed

subsection \<open>Mailing\<close>

definition eod_still :: "'a eod_db_scheme \<Rightarrow> 'a eod_db_scheme \<Rightarrow> bool" where
  "eod_still s t \<longleftrightarrow> now t = now s \<and> employees t = employees s \<and> eod_settings_row t = eod_settings_row s \<and> next_id t = next_id s"

definition mails_of :: "'a eod_db_scheme \<Rightarrow> eod_report \<Rightarrow> email list" where
  "mails_of s r = (case mailable (find_employee (eo_employee r) s) of None \<Rightarrow> [] | Some x \<Rightarrow> [report_mail r x])"

definition accepted :: "env \<Rightarrow> 'a eod_db_scheme \<Rightarrow> eod_report \<Rightarrow> bool" where
  "accepted E s r \<longleftrightarrow> (\<forall>m \<in> set (mails_of s r). email_ok E m)"

definition closed_report :: "datetime \<Rightarrow> eod_report \<Rightarrow> eod_report" where
  "closed_report t r = r\<lparr>eo_approved_at := Some t, eo_state := EOD_SENT, eo_sent_at := Some t\<rparr>"

lemma send_one:
  "send_report E (r\<lparr>eo_state := EOD_APPROVED, eo_approved_at := Some (now s)\<rparr>) (find_employee (eo_employee r) s) s = (ok, t) \<Longrightarrow>
    ok = accepted E s r
    \<and> (ok \<longrightarrow> mail_log t = mail_log s @ mails_of s r \<and> eod_still s t
         \<and> eod_reports t = row_put eo_id (closed_report (now s) r) (eod_reports s))
    \<and> (\<not> ok \<longrightarrow> mail_log t = mail_log s)"
  by (auto simp: send_report_def accepted_def mails_of_def send_email_def put_report_def eod_still_def closed_report_def report_mail_def
      audit_append_def effective_summary_def worked_of_def active_of_def done_count_def Let_def split: option.splits if_splits)

lemma mails_still: "eod_still s t \<Longrightarrow> mails_of t r = mails_of s r" "eod_still s t \<Longrightarrow> accepted E t r = accepted E s r"
  by (simp_all add: eod_still_def mails_of_def accepted_def find_employee_def)

lemma send_drafts_mails:
  "fst (send_drafts E rs n s) = (if list_all (accepted E s) rs then Some (n + length rs) else None)
   \<and> mail_log (snd (send_drafts E rs n s)) = mail_log s @ concat (map (mails_of s) (takeWhile (accepted E s) rs))"
proof (induction rs arbitrary: n s)
  case (Cons r rs)
  obtain ok t where st: "send_report E (r\<lparr>eo_state := EOD_APPROVED, eo_approved_at := Some (now s)\<rparr>) (find_employee (eo_employee r) s) s = (ok, t)"
    by fastforce
  note one = send_one[OF st]
  show ?case
  proof (cases ok)
    case True
    then have eq: "mails_of t = mails_of s" "accepted E t = accepted E s" using one mails_still by blast+
    show ?thesis using True st one Cons.IH[of "n + 1" t] unfolding eq by (simp add: list_all_iff)
  next
    case False
    then show ?thesis using st one by simp
  qed
qed simp

lemma send_drafts_effect:
  assumes "send_drafts E rs n s = (Some m, t)" "distinct (map eo_id rs)" "\<forall>r \<in> set rs. eo_state r = EOD_DRAFT"
    and "keys_unique eo_id (eod_reports s)" "\<forall>r \<in> set rs. r \<in> set (eod_reports s)"
  shows "eod_still s t \<and> report_path s t
    \<and> eod_reports t = map (\<lambda>r. if eo_id r \<in> eo_id ` set rs then closed_report (now s) r else r) (eod_reports s)"
  using assms
proof (induction rs arbitrary: n s)
  case (Cons r rs)
  obtain ok u where st: "send_report E (r\<lparr>eo_state := EOD_APPROVED, eo_approved_at := Some (now s)\<rparr>) (find_employee (eo_employee r) s) s = (ok, u)"
    by fastforce
  then have ok: "ok" using Cons.prems(1) by (cases ok) simp_all
  have u: "eod_still s u" "eod_reports u = row_put eo_id (closed_report (now s) r) (eod_reports s)" using send_one[OF st] ok by simp_all
  have get: "row_get eo_id (eo_id r) (eod_reports s) = Some r" using rows.content_get[OF Cons.prems(4)] Cons.prems(5) by simp
  have put: "eod_reports u = map (\<lambda>x. if eo_id x = eo_id r then closed_report (now s) x else x) (eod_reports s)"
  proof -
    have "x = r" if "x \<in> set (eod_reports s)" "eo_id x = eo_id r" for x
      using rows.content_get[OF Cons.prems(4) that(1)] get unfolding that(2) by simp
    then show ?thesis unfolding u(2) row_put_def by (intro map_cong refl) (auto simp: closed_report_def)
  qed
  have move: "eod_edge r (closed_report (now s) r)"
    using Cons.prems(3) by (simp add: eod_edge_def closed_report_def report_key_def)
  have "next_id s \<le> next_id u" using u(1) by (simp add: eod_still_def)
  then have 1: "report_path s u" using report_move[OF _ move u(2)] get path_step by (auto simp: find_report_def)
  have "map eo_id (eod_reports u) = map eo_id (eod_reports s)" unfolding put by (simp add: closed_report_def)
  then have keys: "keys_unique eo_id (eod_reports u)" using Cons.prems(4) by (simp add: keys_unique_def)
  have still: "\<forall>x \<in> set rs. x \<in> set (eod_reports u)"
  proof
    fix x assume "x \<in> set rs"
    then have "x \<in> set (eod_reports s)" "eo_id x \<noteq> eo_id r" using Cons.prems(2,5) by (auto simp: image_iff)
    then show "x \<in> set (eod_reports u)" unfolding put by (auto simp: image_iff)
  qed
  have "send_drafts E rs (n + 1) u = (Some m, t)" using Cons.prems(1) st ok by simp
  from Cons.IH[OF this _ _ keys still] Cons.prems(2,3) have
      2: "eod_still u t" "report_path u t"
         "eod_reports t = map (\<lambda>r. if eo_id r \<in> eo_id ` set rs then closed_report (now u) r else r) (eod_reports u)" by simp_all
  have "eod_reports t = map (\<lambda>x. if eo_id x \<in> eo_id ` set (r # rs) then closed_report (now s) x else x) (eod_reports s)"
    using u(1) Cons.prems(2) unfolding 2(3) put map_map
    by (intro map_cong refl) (auto simp: closed_report_def eod_still_def image_iff)
  then show ?case using u(1) 2(1) path_trans[OF 1 2(2)] by (auto simp: eod_still_def)
qed (simp add: eod_still_def)

lemma drafts_through_facts:
  "set (drafts_through day s) = {r \<in> set (eod_reports s). eo_state r = EOD_DRAFT \<and> eo_date r \<le> day}"
  "keys_unique eo_id (eod_reports s) \<Longrightarrow> distinct (map eo_id (drafts_through day s))"
  by (auto simp: drafts_through_def keys_unique_def distinct_map intro: inj_on_subset)

lemma auto_send_effect:
  assumes "auto_send_drafts E cfg s = (Some m, t)" "keys_unique eo_id (eod_reports s)"
  shows "eod_still s t \<and> report_path s t \<and> report_key ` set (eod_reports t) = report_key ` set (eod_reports s)
    \<and> (send_minutes (schedule_of cfg s) \<le> local_minute E (now s) \<longrightarrow> drafts_through (report_day E s) t = [])"
proof (cases "local_minute E (now s) < send_minutes (schedule_of cfg s)")
  case True
  then show ?thesis using assms(1) by (auto simp: auto_send_drafts_def eod_still_def)
next
  case False
  let ?rs = "drafts_through (report_day E s) s"
  have "send_drafts E ?rs 0 s = (Some m, t)" using assms(1) False by (simp add: auto_send_drafts_def)
  moreover have "\<forall>r \<in> set ?rs. eo_state r = EOD_DRAFT" "\<forall>r \<in> set ?rs. r \<in> set (eod_reports s)"
    by (simp_all add: drafts_through_facts(1))
  ultimately have "eod_still s t \<and> report_path s t
      \<and> eod_reports t = map (\<lambda>r. if eo_id r \<in> eo_id ` set ?rs then closed_report (now s) r else r) (eod_reports s)"
    using send_drafts_effect[OF _ drafts_through_facts(2)[OF assms(2)] _ assms(2)] by blast
  then have e: "eod_still s t" "report_path s t"
    "eod_reports t = map (\<lambda>r. if eo_id r \<in> eo_id ` set ?rs then closed_report (now s) r else r) (eod_reports s)" by blast+
  have "map report_key (eod_reports t) = map report_key (eod_reports s)"
    unfolding e(3) by (simp add: closed_report_def report_key_def)
  from arg_cong[OF this, of set] have "report_key ` set (eod_reports t) = report_key ` set (eod_reports s)" by simp
  moreover have "r \<notin> set (drafts_through (report_day E s) t)" for r
  proof
    assume "r \<in> set (drafts_through (report_day E s) t)"
    then have r: "r \<in> set (eod_reports t)" "eo_state r = EOD_DRAFT" "eo_date r \<le> report_day E s" by (simp_all add: drafts_through_facts(1))
    then obtain x where x: "x \<in> set (eod_reports s)" "r = (if eo_id x \<in> eo_id ` set ?rs then closed_report (now s) x else x)"
      unfolding e(3) by auto
    then have "r = x" "eo_id x \<notin> eo_id ` set ?rs" using r(2) by (auto simp: closed_report_def split: if_splits)
    then show False using x(1) r(2,3) by (auto simp: drafts_through_facts(1))
  qed
  then have "drafts_through (report_day E s) t = []" using hd_in_set by blast
  ultimately show ?thesis using e by simp
qed

subsection \<open>A tick\<close>

lemma deliver_quiet: "quiet s (snd (deliver_rollup E m (n, s)))"
  by (auto simp: deliver_rollup_def send_email_def quiet_def Let_def)

lemma deliver_all_quiet: "quiet s (snd (fold (deliver_rollup E) ms (n, s)))"
proof (induction ms arbitrary: n s)
  case (Cons m ms)
  obtain k t where k: "deliver_rollup E m (n, s) = (k, t)" by fastforce
  then have "quiet s t" using deliver_quiet[of s E m n] by simp
  then show ?case using k Cons.IH[of t k] quiet_trans by (simp, blast)
qed simp

lemma quiet_eod:
  fixes s t :: "'a eod_db_scheme"
  assumes "quiet s t"
  shows "eod_reports t = eod_reports s" "eod_settings_row t = eod_settings_row s" "screenshots t = screenshots s" "samples t = samples s"
proof -
  have "core.more t = core.more s" using quiet_core[OF assms] by simp
  then show "eod_reports t = eod_reports s" "eod_settings_row t = eod_settings_row s" "screenshots t = screenshots s" "samples t = samples s"
    by (cases s; cases t; simp)+
qed

lemma send_digests_effect:
  assumes "send_digests E cfg s = (k, t)"
  shows "eod_reports t = eod_reports s" "now t = now s" "employees t = employees s" "next_id s \<le> next_id t"
    "schedule_of cfg t = (schedule_of cfg s)\<lparr>es_sent_on := es_sent_on (schedule_of cfg t)\<rparr>"
    "send_minutes (schedule_of cfg s) \<le> local_minute E (now s) \<Longrightarrow> es_sent_on (schedule_of cfg t) = Some (report_day E s)"
proof -
  let ?day = "report_day E s"
  let ?m = "mark_digest_sent cfg ?day s"
  consider (no) "t = s" "local_minute E (now s) < send_minutes (schedule_of cfg s) \<or> es_sent_on (schedule_of cfg s) = Some ?day"
    | (sent) "quiet ?m t" "send_minutes (schedule_of cfg s) \<le> local_minute E (now s)"
    using assms deliver_all_quiet[of ?m E "rollups_of E s" 0] by (auto simp: send_digests_def Let_def split: if_splits)
  then have "eod_reports t = eod_reports s \<and> now t = now s \<and> employees t = employees s \<and> next_id s \<le> next_id t
    \<and> schedule_of cfg t = (schedule_of cfg s)\<lparr>es_sent_on := es_sent_on (schedule_of cfg t)\<rparr>
    \<and> (send_minutes (schedule_of cfg s) \<le> local_minute E (now s) \<longrightarrow> es_sent_on (schedule_of cfg t) = Some ?day)"
  proof cases
    case sent
    have "eod_settings_row t = Some ((schedule_of cfg s)\<lparr>es_sent_on := Some ?day\<rparr>)" "eod_reports t = eod_reports s"
      using quiet_eod[OF sent(1)] by (simp_all add: mark_digest_sent_def)
    then show ?thesis using quiet_core[OF sent(1)] by (simp add: schedule_of_def mark_digest_sent_def)
  qed auto
  then show "eod_reports t = eod_reports s" "now t = now s" "employees t = employees s" "next_id s \<le> next_id t"
    "schedule_of cfg t = (schedule_of cfg s)\<lparr>es_sent_on := es_sent_on (schedule_of cfg t)\<rparr>"
    "send_minutes (schedule_of cfg s) \<le> local_minute E (now s) \<Longrightarrow> es_sent_on (schedule_of cfg t) = Some ?day"
    by blast+
qed

lemma purge_activity_idle:
  "\<forall>m \<in> set (samples s). \<not> sm_received_at m < now s - cf_activity_days cfg * day_us \<Longrightarrow> purge_activity cfg s = (0, s)"
  by (simp add: purge_activity_def Let_def filter_empty_conv)

lemma purge_activity_keeps:
  "purge_activity cfg s = (x, t) \<Longrightarrow> core.truncate t = core.truncate s \<and> eod_reports t = eod_reports s
     \<and> eod_settings_row t = eod_settings_row s \<and> (\<forall>m \<in> set (samples t). \<not> sm_received_at m < now s - cf_activity_days cfg * day_us)"
  by (auto simp: purge_activity_def core.defs Let_def)

lemma purge_screenshots_twice:
  "purge_screenshots cfg L s = (y, t) \<Longrightarrow> core.truncate t = core.truncate s \<and> purge_screenshots cfg L t = (0, t)
     \<and> eod_reports t = eod_reports s \<and> eod_settings_row t = eod_settings_row s \<and> samples t = samples s"
  unfolding purge_screenshots_def Let_def
  by (cases "cf_s3 cfg \<and> \<not> delete_objects_ok L (filter (\<lambda>k. k \<noteq> '''') (List.map_filter sh_object_key
        (filter (\<lambda>x. sh_received_at x < now s - cf_screenshot_days cfg * day_us) (screenshots s))))")
    (fastforce simp: core.defs filter_empty_conv)+

lemma retention_effect:
  assumes "retention E cfg L s = (x, y, t)"
  shows "core.truncate t = core.truncate s \<and> eod_reports t = eod_reports s \<and> eod_settings_row t = eod_settings_row s
    \<and> retention E cfg L t = (0, 0, t)"
proof (cases "local_minute E (now s) div 60 = cf_purge_hour cfg")
  case True
  obtain n s1 where p: "purge_activity cfg s = (n, s1)" by fastforce
  then have q: "purge_screenshots cfg L s1 = (y, t)" using assms True
    by (cases "purge_screenshots cfg L s1") (simp add: retention_def)
  note 1 = purge_activity_keeps[OF p] and 2 = purge_screenshots_twice[OF q]
  have "now t = now s1" "now s1 = now s" using 1 2 by (simp_all add: core.defs)
  then have "purge_activity cfg t = (0, t)" using 1 2 by (intro purge_activity_idle) simp
  then show ?thesis using True 1 2 \<open>now t = now s1\<close> \<open>now s1 = now s\<close> by (simp add: retention_def)
next
  case False
  then show ?thesis using assms by (auto simp: retention_def)
qed

definition zero_counts :: tick_counts where
  "zero_counts = \<lparr>tc_drafted = 0, tc_mailed = 0, tc_rollups = 0, tc_samples = 0, tc_shots = 0\<rparr>"

text \<open>The steps of a tick that ended well.\<close>

definition drafting_step :: "env \<Rightarrow> eod_config \<Rightarrow> eod_services \<Rightarrow> 'a eod_db_scheme \<Rightarrow> nat \<times> 'a eod_db_scheme" where
  "drafting_step E cfg L s = (if draft_minutes (schedule_of cfg s) \<le> local_minute E (now s)
     then (case generate_for_day E cfg L eod_caller s of Inr x \<Rightarrow> x | Inl e \<Rightarrow> (0, s)) else (0, s))"

lemma run_due_unfold: "eod_run_due E cfg L s =
    (let done = (\<lambda>g n k t. case retention E cfg L t of
           (x, y, u) \<Rightarrow> (Some \<lparr>tc_drafted = g, tc_mailed = n, tc_rollups = k, tc_samples = x, tc_shots = y\<rparr>, u))
     in if \<not> es_enabled (schedule_of cfg s) then done 0 0 0 s
        else case drafting_step E cfg L s of (g, s1) \<Rightarrow> (case auto_send_drafts E cfg s1 of
                   (None, t) \<Rightarrow> (None, t)
                 | (Some n, s2) \<Rightarrow> (case send_digests E cfg s2 of (k, s3) \<Rightarrow> done g n k s3)))"
  by (simp add: eod_run_due_def drafting_step_def Let_def)

lemma tick_steps:
  assumes "eod_tick E cfg L s = (Some k, t)"
  obtains (off) x y where "\<not> es_enabled (schedule_of cfg s)" "retention E cfg L s = (x, y, t)"
  | (on) g s1 n s2 j s3 x y where "es_enabled (schedule_of cfg s)" "drafting_step E cfg L s = (g, s1)"
      "auto_send_drafts E cfg s1 = (Some n, s2)" "send_digests E cfg s2 = (j, s3)" "retention E cfg L s3 = (x, y, t)"
  using assms unfolding eod_tick_def run_due_unfold
  by (auto simp: Let_def split: prod.splits option.splits if_splits)

text \<open>Everybody a run would draft for has a report of the day.\<close>

definition all_drafted :: "env \<Rightarrow> 'a eod_db_scheme \<Rightarrow> bool" where
  "all_drafted E s \<longleftrightarrow> (\<forall>e \<in> set (all_in_scope E eod_caller s). (emp_id e, report_day E s) \<in> report_key ` set (eod_reports s))"

lemma drafting_idle:
  assumes "all_drafted E s"
  shows "generate_for_day E cfg L eod_caller s = Inr (0, s)"
proof -
  let ?es = "all_in_scope E eod_caller s"
  have "emp_id e \<in> set (map eo_employee (reports_on (map emp_id ?es) (report_day E s) s))" if e: "e \<in> set ?es" for e
  proof -
    obtain r where r: "r \<in> set (eod_reports s)" "eo_employee r = emp_id e" "eo_date r = report_day E s"
      using bspec[OF assms[unfolded all_drafted_def] e] by (auto simp: report_key_def)
    then have "r \<in> set (reports_on (map emp_id ?es) (report_day E s) s)" using e by (simp add: reports_on_def)
    then show ?thesis using r(2) by (metis imageI set_map)
  qed
  then have "filter (\<lambda>e. emp_id e \<notin> set (map eo_employee (reports_on (map emp_id ?es) (report_day E s) s))) ?es = []"
    by (simp only: filter_empty_conv not_not) blast
  moreover have "cu_role eod_caller = ADMIN" by (simp add: eod_caller_def)
  ultimately show ?thesis unfolding generate_for_day_def Let_def by (simp only: filter.simps fold_simps simp_thms if_True if_False)
qed

lemma drafting_effect:
  assumes "drafting_step E cfg L s = (g, t)" "keys_unique emp_id (employees s)"
  shows "report_path s t \<and> eod_frame s t
    \<and> (draft_minutes (schedule_of cfg s) \<le> local_minute E (now s) \<longrightarrow> all_drafted E t)"
proof (cases "draft_minutes (schedule_of cfg s) \<le> local_minute E (now s)")
  case True
  have "\<exists>n u. generate_for_day E cfg L eod_caller s = Inr (n, u)"
    by (auto simp: generate_for_day_def eod_caller_def Let_def split: prod.splits)
  then obtain n where g: "generate_for_day E cfg L eod_caller s = Inr (n, t)" using assms(1) True by (auto simp: drafting_step_def)
  have e: "report_path s t" "eod_frame s t"
      "\<forall>e \<in> set (all_in_scope E eod_caller s). (emp_id e, report_day E s) \<in> report_key ` set (eod_reports t)"
    using generate_effect[OF g assms(2)] by blast+
  have "all_in_scope E eod_caller t = all_in_scope E eod_caller s" "report_day E t = report_day E s"
    using e(2) by (simp_all add: eod_frame_def all_in_scope_def scope_clause_def eod_caller_def report_day_def)
  then show ?thesis using e by (simp add: all_drafted_def)
next
  case False
  then show ?thesis using assms(1) by (simp add: drafting_step_def)
qed

text \<open>Retention deletes samples and screenshots and nothing else.\<close>

lemma retention_only:
  assumes "retention E cfg L s = (x, y, t)"
  shows "t = s\<lparr>samples := samples t, screenshots := screenshots t\<rparr> \<and> set (samples t) \<subseteq> set (samples s)
    \<and> set (screenshots t) \<subseteq> set (screenshots s)"
  using assms by (auto simp: retention_def purge_activity_def purge_screenshots_def Let_def split: if_splits)

text \<open>A tick for which everything is done: everybody has a report of the day, no draft is due, the digests are out - or it is too early.\<close>

lemma idle_tick:
  assumes "draft_minutes (schedule_of cfg s) \<le> local_minute E (now s) \<Longrightarrow> all_drafted E s"
    and "send_minutes (schedule_of cfg s) \<le> local_minute E (now s) \<Longrightarrow>
      drafts_through (report_day E s) s = [] \<and> es_sent_on (schedule_of cfg s) = Some (report_day E s)"
  shows "\<exists>x y t. retention E cfg L s = (x, y, t) \<and> eod_tick E cfg L s = (Some (zero_counts\<lparr>tc_samples := x, tc_shots := y\<rparr>), t)"
proof -
  obtain x y t where r: "retention E cfg L s = (x, y, t)" by (cases "retention E cfg L s")
  have "drafting_step E cfg L s = (0, s)" using drafting_idle[of E s cfg L] assms(1) by (simp add: drafting_step_def)
  moreover have "auto_send_drafts E cfg s = (Some 0, s)" using assms(2) by (auto simp: auto_send_drafts_def not_less)
  moreover have "send_digests E cfg s = (0, s)" using assms(2) by (auto simp: send_digests_def Let_def not_less)
  ultimately show ?thesis using r by (simp add: eod_tick_def run_due_unfold zero_counts_def)
qed

text \<open>C34 The end-of-day run happens once a day: after a tick that was committed, a later tick of the same local day - the next one
  of the worker, or the cron endpoint called again - at which no further time of the schedule has come drafts nothing, mails
  nobody and sends no rollup, and leaves every report, mail and setting as the first tick left them; only retention may go on
  deleting samples and screenshots as they age. Nothing else is taken to have happened between the two.\<close>

theorem eod_tick_once:
  assumes "eod_tick E cfg L s = (Some k, t)" "eod_rows_ok s" "keys_unique emp_id (employees s)"
    and "local_day E u = local_day E (now s)"
    and "draft_minutes (schedule_of cfg s) \<le> local_minute E u \<longrightarrow> draft_minutes (schedule_of cfg s) \<le> local_minute E (now s)"
    and "send_minutes (schedule_of cfg s) \<le> local_minute E u \<longrightarrow> send_minutes (schedule_of cfg s) \<le> local_minute E (now s)"
  shows "\<exists>k' t'. eod_tick E cfg L (t\<lparr>now := u\<rparr>) = (Some k', t')
    \<and> tc_drafted k' = 0 \<and> tc_mailed k' = 0 \<and> tc_rollups k' = 0
    \<and> t' = t\<lparr>now := u, samples := samples t', screenshots := screenshots t'\<rparr>
    \<and> set (samples t') \<subseteq> set (samples t) \<and> set (screenshots t') \<subseteq> set (screenshots t)"
  using assms(1)
proof (cases rule: tick_steps)
  case (off x y)
  note r = retention_effect[OF off(2)]
  obtain x' y' t' where q: "retention E cfg L (t\<lparr>now := u\<rparr>) = (x', y', t')" by (cases "retention E cfg L (t\<lparr>now := u\<rparr>)")
  have "schedule_of cfg (t\<lparr>now := u\<rparr>) = schedule_of cfg s" using r by (simp add: schedule_of_def)
  then have "eod_tick E cfg L (t\<lparr>now := u\<rparr>) = (Some (zero_counts\<lparr>tc_samples := x', tc_shots := y'\<rparr>), t')"
    using off(1) q by (simp add: eod_tick_def run_due_unfold zero_counts_def)
  then show ?thesis using retention_only[OF q] by (simp add: zero_counts_def)
next
  case (on g s1 n s2 j s3 x y)
  let ?v = "t\<lparr>now := u\<rparr>"
  note 1 = drafting_effect[OF on(2) assms(3)]
  have u: "keys_unique eo_id (eod_reports s1)" using path_keeps[of s s1] 1 assms(2) by (simp add: eod_rows_ok_def rows_ok_def)
  note 2 = auto_send_effect[OF on(3) u] and 3 = send_digests_effect[OF on(4)] and 4 = retention_effect[OF on(5)]
  have base: "now t = now s" "employees t = employees s" using 1 2 3 4 by (simp_all add: eod_frame_def eod_still_def core.defs)
  have now: "now s1 = now s" "now s2 = now s" using 1 2 by (simp_all add: eod_frame_def eod_still_def)
  have day: "report_day E ?v = report_day E s" "report_day E s1 = report_day E s" "report_day E s2 = report_day E s"
    using base now assms(4) by (simp_all add: report_day_def)
  have sched: "schedule_of cfg s1 = schedule_of cfg s" "schedule_of cfg s2 = schedule_of cfg s" "schedule_of cfg ?v = schedule_of cfg s3"
    using 1 2 4 by (simp_all add: schedule_of_def eod_frame_def eod_still_def)
  obtain w where w: "schedule_of cfg ?v = (schedule_of cfg s)\<lparr>es_sent_on := w\<rparr>" using 3(5) unfolding sched by blast
  have same: "draft_minutes (schedule_of cfg ?v) = draft_minutes (schedule_of cfg s)"
    "send_minutes (schedule_of cfg ?v) = send_minutes (schedule_of cfg s)"
    by (simp_all add: w draft_minutes_def send_minutes_def)
  have reports: "eod_reports ?v = eod_reports s2" using 3 4 by simp
  have "all_drafted E ?v" if "draft_minutes (schedule_of cfg ?v) \<le> local_minute E (now ?v)"
  proof -
    have d: "draft_minutes (schedule_of cfg s) \<le> local_minute E (now s)" using that assms(5) unfolding same by simp
    have "all_in_scope E eod_caller ?v = all_in_scope E eod_caller s1"
      using base 1 by (simp add: all_in_scope_def scope_clause_def eod_caller_def eod_frame_def)
    moreover have "all_drafted E s1" using 1 d by blast
    moreover have "report_key ` set (eod_reports ?v) = report_key ` set (eod_reports s1)" using 2 reports by simp
    ultimately show ?thesis by (simp add: all_drafted_def day)
  qed
  moreover have "drafts_through (report_day E ?v) ?v = [] \<and> es_sent_on (schedule_of cfg ?v) = Some (report_day E ?v)"
    if "send_minutes (schedule_of cfg ?v) \<le> local_minute E (now ?v)"
  proof
    have d: "send_minutes (schedule_of cfg s) \<le> local_minute E (now s)" using that assms(6) unfolding same by simp
    then have "drafts_through (report_day E s) s2 = []" using 2 now day sched by simp
    then show "drafts_through (report_day E ?v) ?v = []" using reports by (simp add: drafts_through_def day)
    have "es_sent_on (schedule_of cfg s3) = Some (report_day E s2)" using 3(6) d by (simp only: now sched)
    then show "es_sent_on (schedule_of cfg ?v) = Some (report_day E ?v)" by (simp only: day sched)
  qed
  ultimately obtain x' y' t' where q: "retention E cfg L ?v = (x', y', t')"
      "eod_tick E cfg L ?v = (Some (zero_counts\<lparr>tc_samples := x', tc_shots := y'\<rparr>), t')"
    using idle_tick[of cfg ?v E L] by blast
  then show ?thesis using retention_only[OF q(1)] by (simp add: zero_counts_def)
qed

text \<open>One refused address undoes the run of everybody before it: their mails have left, their reports are drafts again, and the
  next tick mails them again.\<close>

theorem refused_mail_repeats:
  assumes "es_enabled (schedule_of cfg s)" "send_minutes (schedule_of cfg s) \<le> local_minute E (now s)"
    and "drafting_step E cfg L s = (g, s1)" "drafts_through (report_day E s) s1 = before @ r # after"
    and "\<forall>x \<in> set before. accepted E s1 x" "\<not> accepted E s1 r"
    and "eod_rows_ok s" "keys_unique emp_id (employees s)"
  shows "eod_tick E cfg L s = (None, s\<lparr>mail_log := mail_log s @ concat (map (mails_of s1) before)\<rparr>)"
proof -
  have f: "eod_frame s s1" using drafting_effect[OF assms(3,8)] by blast
  then have same: "report_day E s1 = report_day E s" "schedule_of cfg s1 = schedule_of cfg s" "now s1 = now s" "mail_log s1 = mail_log s"
    by (simp_all add: eod_frame_def report_day_def schedule_of_def)
  have auto: "auto_send_drafts E cfg s1 = send_drafts E (before @ r # after) 0 s1"
    using assms(2,4) same by (simp add: auto_send_drafts_def)
  have "takeWhile (accepted E s1) (before @ r # after) = before" using assms(5,6) by (simp add: takeWhile_append2)
  moreover have "\<not> list_all (accepted E s1) (before @ r # after)" using assms(6) by simp
  ultimately have "fst (auto_send_drafts E cfg s1) = None"
      "mail_log (snd (auto_send_drafts E cfg s1)) = mail_log s @ concat (map (mails_of s1) before)"
    using send_drafts_mails[of E "before @ r # after" 0 s1] unfolding auto by (simp_all only: same if_False)
  then obtain t where "auto_send_drafts E cfg s1 = (None, t)" "mail_log t = mail_log s @ concat (map (mails_of s1) before)"
    by (cases "auto_send_drafts E cfg s1") simp
  then show ?thesis using assms(1,3) by (simp add: eod_tick_def run_due_unfold)
qed

subsection \<open>Every operation\<close>

text \<open>The operations on reports, by whoever calls them; employees have unique ids.\<close>

inductive eod_op :: "env \<Rightarrow> eod_config \<Rightarrow> eod_services \<Rightarrow> 'a eod_db_scheme \<Rightarrow> 'a eod_db_scheme \<Rightarrow> bool" for E cfg L where
  op_update: "update_draft c i x s = Inr (r, t) \<Longrightarrow> eod_op E cfg L s t"
| op_approve: "approve_report E c i s = Inr (r, t) \<Longrightarrow> eod_op E cfg L s t"
| op_generate: "generate_for_day E cfg L c s = Inr (n, t) \<Longrightarrow> keys_unique emp_id (employees s) \<Longrightarrow> eod_op E cfg L s t"
| op_send: "send_drafts_for_date E day s = (Some n, t) \<Longrightarrow> eod_op E cfg L s t"
| op_settings: "update_eod_settings E cfg c q s = Inr (r, t) \<Longrightarrow> eod_op E cfg L s t"
| op_tick: "eod_tick E cfg L s = (o', t) \<Longrightarrow> keys_unique emp_id (employees s) \<Longrightarrow> eod_op E cfg L s t"

lemma own_draft_Inr: "own_draft c i s = Inr r \<longleftrightarrow> find_report i s = Some r \<and> eo_employee r = cu_id c \<and> eo_state r = EOD_DRAFT"
  by (auto simp: own_draft_def split: option.splits if_splits)

lemma send_report_sent: "send_report E r e s = (True, t) \<Longrightarrow>
    eod_reports t = row_put eo_id (r\<lparr>eo_state := EOD_SENT, eo_sent_at := Some (now s)\<rparr>) (eod_reports s) \<and> next_id t = next_id s"
  by (auto simp: send_report_def send_email_def put_report_def audit_append_def Let_def split: option.splits if_splits)

lemma op_path:
  assumes "eod_op E cfg L s t" "eod_rows_ok s"
  shows "report_path s t"
  using assms(1)
proof cases
  case (op_update c i x r)
  then obtain r0 where r0: "find_report i s = Some r0" "eo_state r0 = EOD_DRAFT" "t = put_report (r0\<lparr>eo_edited := Some x\<rparr>) s"
    by (auto simp: update_draft_def ebind_Inr_iff own_draft_Inr Let_def)
  have "eo_id r0 = i" using r0(1) row_get_SomeD[of eo_id] by (auto simp: find_report_def)
  moreover have "eod_edge r0 (r0\<lparr>eo_edited := Some x\<rparr>)" using r0(2) by (simp add: eod_edge_def report_key_def)
  ultimately show ?thesis using r0 by (intro path_step report_move[of r0]) (simp_all add: put_report_def)
next
  case (op_approve c i r)
  then obtain r0 where r0: "find_report i s = Some r0" "eo_state r0 = EOD_DRAFT" by (auto simp: approve_report_def ebind_Inr_iff own_draft_Inr)
  let ?r1 = "r0\<lparr>eo_state := EOD_APPROVED, eo_approved_at := Some (now s), eo_approved_by := Some (cu_id c)\<rparr>"
  obtain ok u where sr: "send_report E ?r1 (find_employee (eo_employee r0) s) s = (ok, u)" by fastforce
  have t: "ok" "t = audit_append E (uuid_str (cu_id c)) ''eod.approve'' (Some (''eod:'' @ uuid_str i)) u"
    using op_approve r0 sr by (auto simp: approve_report_def ebind_Inr_iff own_draft_Inr Let_def split: if_splits)
  have "eod_reports t = row_put eo_id (?r1\<lparr>eo_state := EOD_SENT, eo_sent_at := Some (now s)\<rparr>) (eod_reports s)" "next_id t = next_id s"
    using send_report_sent[of E ?r1 _ s u] sr t by (simp_all add: audit_append_def Let_def)
  moreover have "eo_id r0 = i" using r0(1) row_get_SomeD[of eo_id] by (auto simp: find_report_def)
  moreover have "eod_edge r0 (?r1\<lparr>eo_state := EOD_SENT, eo_sent_at := Some (now s)\<rparr>)"
    using r0(2) by (simp add: eod_edge_def report_key_def)
  ultimately show ?thesis using r0 by (intro path_step report_move[of r0]) simp_all
next
  case (op_generate c n)
  then show ?thesis using generate_effect by blast
next
  case (op_send day n)
  have "distinct (map eo_id (drafts_on day s))" "keys_unique eo_id (eod_reports s)"
    using assms(2) by (auto simp: drafts_on_def eod_rows_ok_def rows_ok_def keys_unique_def distinct_map intro: inj_on_subset)
  moreover have "\<forall>r \<in> set (drafts_on day s). eo_state r = EOD_DRAFT" "\<forall>r \<in> set (drafts_on day s). r \<in> set (eod_reports s)"
    by (simp_all add: drafts_on_def)
  ultimately show ?thesis using op_send send_drafts_effect unfolding send_drafts_for_date_def by blast
next
  case (op_settings c q r)
  then show ?thesis by (intro path_step report_quiet) (auto simp: update_eod_settings_def audit_append_def Let_def split: if_splits)
next
  case (op_tick k)
  show ?thesis
  proof (cases k)
    case None
    then have "eod_reports t = eod_reports s" "next_id t = next_id s"
      using op_tick(1) by (auto simp: eod_tick_def split: prod.splits option.splits)
    then show ?thesis by (intro path_step report_quiet) simp_all
  next
    case (Some x)
    from op_tick(1)[unfolded Some] show ?thesis
    proof (cases rule: tick_steps)
      case (off x y)
      then show ?thesis using retention_effect[OF off(2)] by (intro path_step report_quiet) (simp_all add: core.defs)
    next
      case (on g s1 n s2 j s3 x y)
      note 1 = drafting_effect[OF on(2) op_tick(2)]
      have u: "keys_unique eo_id (eod_reports s1)" using path_keeps[of s s1] 1 assms(2) by (simp add: eod_rows_ok_def rows_ok_def)
      note 2 = auto_send_effect[OF on(3) u] and 3 = send_digests_effect[OF on(4)] and 4 = retention_effect[OF on(5)]
      have "report_path s2 t" using 3 4 by (intro path_step report_quiet) (simp_all add: core.defs)
      then show ?thesis using path_trans[OF path_trans, of s s1 s2 t] 1 2 by blast
    qed
  qed
qed

definition eod_reachable :: "env \<Rightarrow> eod_config \<Rightarrow> eod_services \<Rightarrow> 'a eod_db_scheme \<Rightarrow> 'a eod_db_scheme \<Rightarrow> bool" where
  "eod_reachable E cfg L = (\<lambda>s t. eod_op E cfg L s t \<or> others_keep eod_reports next_id s t)\<^sup>*\<^sup>*"

lemma reachable_path:
  assumes "eod_reachable E cfg L s t" "eod_rows_ok s"
  shows "report_path s t \<and> eod_rows_ok t"
  using assms(1) unfolding eod_reachable_def
proof (induction rule: rtranclp_induct)
  case base
  then show ?case using assms(2) by simp
next
  case (step t u)
  have "report_path t u"
  proof (cases "eod_op E cfg L t u")
    case True
    then show ?thesis using op_path step.IH by blast
  next
    case False
    then show ?thesis using step.hyps(2) by (intro path_step report_quiet) (simp_all add: others_keep_def)
  qed
  then show ?case using path_trans path_keeps step.IH by blast
qed

text \<open>C35 The end-of-day reports keep their type: whatever edits, approvals, drafting runs, mailings and ticks happen, in any order
  and interleaved with the rest of the program, ids stay unique, nobody ever has two reports of one day, no report is
  left half approved, and one that says it was sent carries the times of its approval and of its mail.\<close>

theorem eod_rows_stay_ok:
  assumes "eod_reachable E cfg L s t" "eod_rows_ok s"
  shows "distinct (map report_key (eod_reports t)) \<and> distinct (map eo_id (eod_reports t)) \<and> list_all eod_ok (eod_reports t)"
proof -
  have ok: "eod_rows_ok t" using reachable_path[OF assms] by blast
  then show ?thesis using one_per_day_if[OF ok] by (auto simp: eod_rows_ok_def rows_ok_def keys_unique_def list_all_iff)
qed

text \<open>C36 What was sent stays as it was sent: a report that is no longer a draft - mailed, skipped for absence or failed - is never
  written again by any edit, approval, drafting run or tick that follows.\<close>

theorem sent_report_final:
  assumes "eod_reachable E cfg L s t" "eod_rows_ok s" "find_report i s = Some r" "eo_state r \<noteq> EOD_DRAFT"
  shows "find_report i t = Some r"
  using closed_kept[OF _ assms(2-4)] reachable_path[OF assms(1,2)] by blast

subsection \<open>A committed tick, and a report sent\<close>

definition demo_eod_config :: eod_config where
  "demo_eod_config = \<lparr>cf_seed = \<lparr>es_enabled = False, es_draft_hour = 16, es_draft_minute = 30, es_send_hour = 18, es_send_minute = 0,
     es_sent_on = None, es_updated_by = None\<rparr>, cf_model = ''m'', cf_vision = False, cf_frames = 8, cf_ocr_budget = 12000,
     cf_activity_days = 30, cf_screenshot_days = 30, cf_purge_hour = 0, cf_s3 = False, cf_zone_name = ''UTC''\<rparr>"

definition demo_eod_services :: eod_services where
  "demo_eod_services = \<lparr>summarise = (\<lambda>t. None), describe_screen = (\<lambda>k b. None), fetch_object = (\<lambda>k. None), delete_objects_ok = (\<lambda>ks. True)\<rparr>"

lemma demo_eod_ok: "eod_rows_ok (demo_eod_db t [demo_eod_report 7 2 d EOD_DRAFT])" "keys_unique emp_id (employees (demo_eod_db t rs))"
  by (simp_all add: eod_rows_ok_def rows_ok_def keys_unique_def eod_life.all_separate_def eod_ok_def demo_eod_report_def blank_report_def
      demo_employee_def)

text \<open>At six in the evening the day's draft is mailed; a quarter of an hour later there is nothing left to do.\<close>

definition demo_eod_on :: eod_config where
  "demo_eod_on = demo_eod_config\<lparr>cf_seed := (cf_seed demo_eod_config)\<lparr>es_enabled := True\<rparr>\<rparr>"

lemma accepting_tick:
  assumes "\<And>m. email_ok E m"
  shows "\<exists>k t. eod_tick E cfg L s = (Some k, t)"
proof -
  obtain g s1 where 1: "drafting_step E cfg L s = (g, s1)" by fastforce
  have "\<exists>n. fst (auto_send_drafts E cfg s1) = Some n"
    by (auto simp: auto_send_drafts_def send_drafts_mails accepted_def assms list_all_iff split: option.split)
  then obtain n s2 where "auto_send_drafts E cfg s1 = (Some n, s2)" by (cases "auto_send_drafts E cfg s1") auto
  then show ?thesis using 1 by (auto simp: eod_tick_def run_due_unfold Let_def split: prod.split)
qed

theorem eod_tick_once_witness:
  "\<exists>k t k' t'. eod_tick demo_E demo_eod_on demo_eod_services
        (demo_eod_db (utc_midnight 739676 + 1080 * minute_us) [demo_eod_report 7 2 739676 EOD_DRAFT]) = (Some k, t)
     \<and> eod_tick demo_E demo_eod_on demo_eod_services (t\<lparr>now := utc_midnight 739676 + 1080 * minute_us + 15 * minute_us\<rparr>) = (Some k', t')
     \<and> tc_drafted k' = 0 \<and> tc_mailed k' = 0 \<and> tc_rollups k' = 0 \<and> mail_log t' = mail_log t \<and> eod_reports t' = eod_reports t"
proof -
  let ?s = "demo_eod_db (utc_midnight 739676 + 1080 * minute_us) [demo_eod_report 7 2 739676 EOD_DRAFT]"
  let ?u = "utc_midnight 739676 + 1080 * minute_us + 15 * minute_us"
  have "\<And>m. email_ok demo_E m" by (simp add: demo_env_def)
  then obtain k t where t: "eod_tick demo_E demo_eod_on demo_eod_services ?s = (Some k, t)" using accepting_tick by blast
  have m: "local_minute demo_E (now ?s) = 18 * 60" "local_day demo_E ?u = local_day demo_E (now ?s)"
    by (simp_all add: local_minute_def local_day_def demo_env_def utc_midnight_def epoch_def day_us_def minute_us_def utc_day_def)
  have "draft_minutes (schedule_of demo_eod_on ?s) \<le> local_minute demo_E (now ?s)" "send_minutes (schedule_of demo_eod_on ?s) \<le> local_minute demo_E (now ?s)"
    unfolding m by (simp_all add: draft_minutes_def send_minutes_def schedule_of_def default_schedule_def demo_eod_on_def demo_eod_config_def)
  then obtain k' t' where "eod_tick demo_E demo_eod_on demo_eod_services (t\<lparr>now := ?u\<rparr>) = (Some k', t')"
      "tc_drafted k' = 0" "tc_mailed k' = 0" "tc_rollups k' = 0"
      and t': "t' = t\<lparr>now := ?u, samples := samples t', screenshots := screenshots t'\<rparr>"
    using eod_tick_once[OF t demo_eod_ok m(2)] by blast
  moreover have "mail_log t' = mail_log t" "eod_reports t' = eod_reports t" by (subst t', simp)+
  ultimately show ?thesis using t by blast
qed

definition demo_mailed_db :: eod_db where
  "demo_mailed_db = snd (send_drafts_for_date demo_E (isoformat 739676) (demo_eod_db (utc_midnight 739676) [demo_eod_report 7 2 739676 EOD_DRAFT]))"

lemma demo_mailed: "send_drafts_for_date demo_E (isoformat 739676) (demo_eod_db (utc_midnight 739676) [demo_eod_report 7 2 739676 EOD_DRAFT])
    = (Some 1, demo_mailed_db)"
  "eod_reports demo_mailed_db = [closed_report (utc_midnight 739676) (demo_eod_report 7 2 739676 EOD_DRAFT)]"
proof -
  let ?s = "demo_eod_db (utc_midnight 739676) [demo_eod_report 7 2 739676 EOD_DRAFT]" and ?r = "demo_eod_report 7 2 739676 EOD_DRAFT"
  have d: "drafts_on (isoformat 739676) ?s = [?r]" by (simp add: drafts_on_def demo_eod_report_def blank_report_def)
  have "accepted demo_E ?s ?r" by (simp add: accepted_def demo_env_def)
  then have "fst (send_drafts demo_E [?r] 0 ?s) = Some 1" using send_drafts_mails[of demo_E "[?r]" 0 ?s] by simp
  then show 1: "send_drafts_for_date demo_E (isoformat 739676) ?s = (Some 1, demo_mailed_db)"
    unfolding demo_mailed_db_def send_drafts_for_date_def d by (cases "send_drafts demo_E [?r] 0 ?s") simp
  have "keys_unique eo_id (eod_reports ?s)" "eo_state ?r = EOD_DRAFT" by (simp_all add: keys_unique_def demo_eod_report_def blank_report_def)
  then show "eod_reports demo_mailed_db = [closed_report (utc_midnight 739676) ?r]"
    using send_drafts_effect[OF 1[unfolded send_drafts_for_date_def d]] by simp
qed

lemma demo_mailed_reachable:
  "eod_reachable demo_E demo_eod_config demo_eod_services (demo_eod_db (utc_midnight 739676) [demo_eod_report 7 2 739676 EOD_DRAFT]) demo_mailed_db"
  unfolding eod_reachable_def using op_send[OF demo_mailed(1)] by (intro r_into_rtranclp) blast

theorem eod_rows_stay_ok_witness:
  "distinct (map report_key (eod_reports demo_mailed_db)) \<and> distinct (map eo_id (eod_reports demo_mailed_db)) \<and> list_all eod_ok (eod_reports demo_mailed_db)"
  by (rule eod_rows_stay_ok[OF demo_mailed_reachable demo_eod_ok(1)])

theorem sent_report_final_witness:
  "\<exists>r. find_report 7 (snd (eod_tick demo_E demo_eod_config demo_eod_services demo_mailed_db)) = Some r \<and> eo_state r = EOD_SENT"
proof -
  let ?r = "closed_report (utc_midnight 739676) (demo_eod_report 7 2 739676 EOD_DRAFT)"
  obtain k t where t: "eod_tick demo_E demo_eod_config demo_eod_services demo_mailed_db = (k, t)" by fastforce
  have ok: "eod_rows_ok demo_mailed_db" using reachable_path[OF demo_mailed_reachable demo_eod_ok(1)] by blast
  have "eod_still (demo_eod_db (utc_midnight 739676) [demo_eod_report 7 2 739676 EOD_DRAFT]) demo_mailed_db"
  proof -
    have "keys_unique eo_id (eod_reports (demo_eod_db (utc_midnight 739676) [demo_eod_report 7 2 739676 EOD_DRAFT]))" by (simp add: keys_unique_def)
    moreover have "drafts_on (isoformat 739676) (demo_eod_db (utc_midnight 739676) [demo_eod_report 7 2 739676 EOD_DRAFT]) = [demo_eod_report 7 2 739676 EOD_DRAFT]"
      by (simp add: drafts_on_def demo_eod_report_def blank_report_def)
    ultimately show ?thesis using send_drafts_effect[OF demo_mailed(1)[unfolded send_drafts_for_date_def]]
      by (simp add: demo_eod_report_def blank_report_def)
  qed
  then have "keys_unique emp_id (employees demo_mailed_db)" using demo_eod_ok(2) by (simp add: eod_still_def)
  from op_tick[OF t this] have "eod_reachable demo_E demo_eod_config demo_eod_services demo_mailed_db t"
    unfolding eod_reachable_def by (intro r_into_rtranclp) blast
  moreover have "find_report 7 demo_mailed_db = Some ?r"
    by (simp add: find_report_def row_get_def demo_mailed(2) closed_report_def demo_eod_report_def blank_report_def)
  moreover have "eo_state ?r = EOD_SENT" by (simp add: closed_report_def)
  ultimately show ?thesis using sent_report_final[OF _ ok, of demo_E demo_eod_config demo_eod_services t 7 ?r] t by simp
qed

end
