(* ===== verification/Spec2Isabelle.thy ===== *)
theory Spec2Isabelle
  imports PayrollProps ReimbursementLaws ReportingQuery DayOverrideProps PayoutLaws EodLife
begin

text \<open>
  A verification development for the backend of Avora, a system for the people of a company: who works when, who is on leave, what
  everybody is paid, what they work on and what is reported about it. The program is a FastAPI application over PostgreSQL
  (\<open>src/app\<close>) with workers that run its services on a clock (\<open>src/worker\<close>).

  \<^bold>\<open>The parts and how they meet.\<close> A request names its caller; a service (\<open>app/services\<close>) checks what the caller may do, reads and
  writes rows through repositories (\<open>app/repositories\<close>) and commits, leaving audit entries, notifications and mail. Payroll reads
  what the others keep: attendance (punches, sessions, fixes, days out of the office, HR's overrides) gives the days somebody was
  present, leave the paid days off, expense claims the reimbursements; payroll prices the month, releases payslips, mails the
  registers, and afterwards checks the payment file of the accounts team. A released month is closed to leave and claims.
  Probation uses the tenure bands of leave. Tasks feed the escalation sweep and, with screenshots and sessions, the end-of-day
  reports and their rollups.

  \<^bold>\<open>How the code is rendered.\<close> A table is the list of its rows (\<open>Tables\<close>); the tables common to all are the record \<open>core\<close> of
  \<open>Org\<close>, which each component extends: \<open>payroll_db\<close>, then \<open>claims_db\<close> and \<open>leave_db\<close>, then \<open>time_db\<close>, then \<open>pay_db\<close>,
  \<open>payout_db\<close>, \<open>probation_db\<close>, \<open>guard_db\<close> and \<open>eod_db\<close>; tasks are \<open>task_db\<close>. A service method is a function from the
  caller, its arguments and the state to an error (\<open>app_error\<close>, the domain errors of \<open>app/core/exceptions.py\<close>) or its answer
  with the new state; on an error the session rolls back, so there is no new state. What the code gets from outside is the record
  \<open>env\<close>: the digest function of the audit chain, whether a mail or a notification row is accepted, the collation
  of names, the offset of the time zone; further readers and models are arguments where they are used. Python integers are
  \<open>int\<close>; floats are rationals rounded to 53 bits after every operation (\<open>PyFloat\<close>); dates are day numbers of the
  proleptic calendar (\<open>Calendar\<close>), instants microseconds.

  \<^bold>\<open>The theories.\<close>

  Shared: \<open>Prelude\<close> (errors, collections of facts, lists, texts), \<open>PyFloat\<close> and \<open>PyText\<close> (Python arithmetic, rounding, splitting, number
  texts), \<open>Calendar\<close> (dates, months), \<open>Tables\<close> (rows, with the contract \<open>keyed_table\<close> interpreted on the list operations), \<open>Org\<close> and
  \<open>OrgLaws\<close> (employees, visibility, the audit chain, notifications), \<open>Effects\<close> (a state that follows \<open>quiet\<close>ly: only log, inbox, mail and id
  counter moved), \<open>Lifecycle\<close> and \<open>ExclusiveRows\<close> (the contracts \<open>row_life\<close> of a table whose rows move along edges and \<open>exclusive_rows\<close>
  of live rows that exclude each other, interpreted for leave, fixes, days out, resignations and reports), \<open>ReportingQuery\<close>
  (the recursive query behind the reporting tree, as its rounds).

  Pay: \<open>PayrollCalc\<close>, \<open>PayrollLaws\<close>, \<open>PayrollProps\<close> (\<open>app/core/payroll.py\<close>: tax, slip, proration); \<open>PayrollLine\<close>, \<open>PayrollLineLaws\<close> (one
  person's line and register row); \<open>PayrollOps\<close>, \<open>PayrollOpsLaws\<close> (adjustments, payslips, the release loop); \<open>PayrollMonth\<close>,
  \<open>PayrollMonthLaws\<close> (a month from the records, the settings, the worker's tick); \<open>PayoutFile\<close>, \<open>PayoutCheck\<close>, \<open>PayoutLaws\<close> (reading and
  reconciling a payment file); \<open>Reimbursement\<close>, \<open>ReimbursementLaws\<close> (expense claims).

  Time: \<open>Tenure\<close>, \<open>TenureLaws\<close> (\<open>app/core/tenure.py\<close>, \<open>leave_year.py\<close>); \<open>Leave\<close>, \<open>LeaveOps\<close>, \<open>LeaveLaws\<close>, \<open>LeaveProps\<close>, \<open>LeaveQuota\<close> (leave
  requests); \<open>DayRules\<close>, \<open>WorkSessions\<close>, \<open>WorkSessionLaws\<close>, \<open>Attendance\<close>, \<open>AttendanceReport\<close>, \<open>IsoDays\<close>, \<open>AttendanceLaws\<close>, \<open>AttendanceProps\<close>
  (rules of a day, sessions and punches, the register and the month's report); \<open>DayRequests\<close>, \<open>DayRequestLaws\<close>, \<open>DayRequestProps\<close>,
  \<open>DayOverrides\<close>, \<open>DayOverrideProps\<close> (fixes, days out of the office, HR's corrections).

  People and work: \<open>Resignations\<close>, \<open>RequestAccess\<close> (who sees and moves requests); \<open>Probation\<close>, \<open>ProbationLaws\<close>, \<open>ProbationProps\<close> (reviews and their
  outcomes); \<open>RequestGuards\<close> (rate limit, idempotency keys); \<open>Tasks\<close>, \<open>TaskEscalation\<close>, \<open>TaskLaws\<close>, \<open>EscalationLaws\<close>; \<open>Eod\<close>,
  \<open>EodRollups\<close>, \<open>EodLaws\<close>, \<open>EodLife\<close> (end-of-day reports, rollups, the worker's tick).

  \<^bold>\<open>What the lemmas show.\<close> The theories whose names end in Laws hold how each operation changes the tables and the invariants; those
  ending in Props and Life the statements for a reader, each with an instance. The properties are of five kinds. Money: tax has no
  cliff, withholding adds up, the slip shown is the line paid, a release leaves the line's figures in the payslips and
  a repeated one nothing new, a clean payout report means that everybody due was paid once and right. Workflows: claims and leave move
  only along their edges and by those entitled, closed months stay closed, quotas and credits are not
  overspent, no day is claimed twice, every signature on a probation review is its owner's. Attendance: the register implements an
  independent description day by day, an override decides its day, sweeps and repeated punches settle. Privacy: who may
  change what of a task, that company digests do without anybody's account of the day and exactly whom the group mails tell.
  Reliability: a keyed request runs once, the limiter's bound, ticks that leave nothing for the next one, a
  recursive query that ends. Theorems outside these show where the code departs from its own comments; the manifest lists them.

  \<^bold>\<open>Bounds and fuel.\<close> Recursion is structural or has a proved measure. Fuel stands for loops the code bounds itself: the walk up the
  parents of a task stops after its 100 links (\<open>walk_rounds\<close>; beyond them a cycle is accepted, which is a theorem). The
  shortest decimal of a float tries up to 17 digits, enough for every double, and finds its exponent within 400 steps, since a double's lies
  between -324 and 308. The query of the reporting tree is a while loop without fuel, proved to return. An escalation sweep reads at most
  its 200 rows, digest windows have at most 92 days, as the code has it; idempotence of the sweep is claimed
  when the batch fits.

  \<^bold>\<open>What is not modelled, and what is taken for granted.\<close>
  One operation runs at a time: row locks, unique violations of two writers at once and retries appear as the order
  in which requests are served. Mail that has left stays in the log even if the database rolls back where the code sends first.
  The time zone has one offset per instant; statements that need it say \<open>fixed_zone\<close>, which holds for the office's zone, and editing the zone
  is outside. A JSON null sent for an optional field counts as the field left out. Lower case and stripping act on ASCII. A mail is its template with
  the texts put into it, without layout. PDF and spreadsheet rendering, the readers of uploaded spreadsheets, object storage, the
  distance on the sphere, decryption and the language and vision models are parameters. The sheets' texts and the answers of models are
  arbitrary. Not modelled at all: the routers and the wiring of services, sign-in and tokens, the
  writers of employee profiles, of pay records and of the organisation's settings (the models read those rows), forms, activity ingestion and its
  attribution, workspaces, rooms, meetings, events, the social feed, targets, secrets, the import from the external HR service,
  dashboards, the parser of pasted task lists, and scripts; the manifest gives the reason for each.
\<close>

end
